(* ===== verification/Prelude.thy ===== *)
theory Prelude
  imports Main "HOL-Library.List_Lexorder" "HOL-Library.Char_ord"
begin

text \<open>
  Shared vocabulary of the development: identifiers and instants, the errors a
  request can end with, rows kept in tables, and the database session every
  service function receives (\<^verbatim>\<open>AsyncSession\<close>, \<^verbatim>\<open>src/app/db/session.py\<close>).

  A service function is a function from a session to an outcome and a session.
  A session holds the committed database and the working copy the request reads
  and writes. \<open>commit\<close> publishes the working copy, \<open>rollback\<close> drops it, and the end
  of the request (\<^verbatim>\<open>async with AsyncSessionLocal()\<close>) drops whatever was not committed.
\<close>

named_theorems svc_simps "unfolding rules of the session operations"
named_theorems table_simps "rules for reading and writing rows of a table"

section \<open>Scalars and errors\<close>

text \<open>
  A \<open>uuid\<close> is an opaque identifier. A \<open>datetime\<close> is an aware instant in
  microseconds, the resolution of both Python and PostgreSQL; a \<open>timedelta\<close> is a
  difference of two. \<^verbatim>\<open>timedelta.days\<close> rounds towards minus infinity, as \<open>div\<close> does.
\<close>

type_synonym uuid = nat
type_synonym datetime = int
type_synonym timedelta = int

definition timedelta_minutes :: "int \<Rightarrow> timedelta" where
  "timedelta_minutes n = n * 60000000"

definition timedelta_days :: "int \<Rightarrow> timedelta" where
  "timedelta_days n = n * 86400000000"

definition days_of :: "timedelta \<Rightarrow> int" where
  "days_of t = t div 86400000000"

text \<open>
  What a request can end with instead of a value: the \<^verbatim>\<open>HTTPException\<close>s the services
  raise, and the errors SQLAlchemy raises when a flush breaks a constraint a model
  class declares (a unique column, a \<^verbatim>\<open>String(n)\<close> width, an \<^verbatim>\<open>Enum\<close> member) or when
  \<^verbatim>\<open>scalar_one_or_none\<close> meets several rows. An \<open>AttributeError\<close> is Python's, for an attribute
  of \<^verbatim>\<open>None\<close>; a \<open>DatabaseError\<close> carries an exception raised by a trigger.
\<close>

datatype error =
    HTTPException nat string
  | IntegrityError string
  | DataError string
  | LookupError string
  | MultipleResultsFound
  | AttributeError string
  | DatabaseError string

section \<open>Sessions\<close>

record 'd session =
  committed :: 'd
  working :: 'd

type_synonym ('d, 'a) svc = "'d session \<Rightarrow> (error + 'a) \<times> 'd session"

definition return_svc :: "'a \<Rightarrow> ('d, 'a) svc" where
  "return_svc x s = (Inr x, s)"

definition raise_svc :: "error \<Rightarrow> ('d, 'a) svc" where
  "raise_svc e s = (Inl e, s)"

definition bind_svc :: "('d, 'a) svc \<Rightarrow> ('a \<Rightarrow> ('d, 'b) svc) \<Rightarrow> ('d, 'b) svc" where
  "bind_svc m f s = (case m s of (Inl e, s') \<Rightarrow> (Inl e, s') | (Inr x, s') \<Rightarrow> f x s')"

text \<open>A query reads the working copy; \<open>query_e\<close> is one that can raise.\<close>

definition query :: "('d \<Rightarrow> 'a) \<Rightarrow> ('d, 'a) svc" where
  "query q s = (Inr (q (working s)), s)"

definition query_e :: "('d \<Rightarrow> error + 'a) \<Rightarrow> ('d, 'a) svc" where
  "query_e q s = (q (working s), s)"

text \<open>\<open>modify_db\<close> updates loaded rows; \<open>flush\<close> sends rows to the database, which may refuse them.\<close>

definition modify_db :: "('d \<Rightarrow> 'd) \<Rightarrow> ('d, unit) svc" where
  "modify_db f s = (Inr (), s\<lparr>working := f (working s)\<rparr>)"

definition flush :: "('d \<Rightarrow> error + 'd) \<Rightarrow> ('d, unit) svc" where
  "flush f s =
     (case f (working s) of
        Inl e \<Rightarrow> (Inl e, s)
      | Inr d \<Rightarrow> (Inr (), s\<lparr>working := d\<rparr>))"

definition commit :: "('d, unit) svc" where
  "commit s = (Inr (), s\<lparr>committed := working s\<rparr>)"

definition rollback :: "('d, unit) svc" where
  "rollback s = (Inr (), s\<lparr>working := committed s\<rparr>)"

text \<open>\<open>except_rollback m\<close>: \<^verbatim>\<open>try: m / except Exception: await db.rollback(); raise\<close>.\<close>

definition except_rollback :: "('d, 'a) svc \<Rightarrow> ('d, 'a) svc" where
  "except_rollback m s =
     (case m s of
        (Inl e, s') \<Rightarrow> (Inl e, s'\<lparr>working := committed s'\<rparr>)
      | (Inr x, s') \<Rightarrow> (Inr x, s'))"

text \<open>A loop over a list whose body may raise: the first error ends the loop.\<close>

fun for_each :: "('a \<Rightarrow> ('d, unit) svc) \<Rightarrow> 'a list \<Rightarrow> ('d, unit) svc" where
  "for_each f [] = return_svc ()"
| "for_each f (x # xs) = bind_svc (f x) (\<lambda>_. for_each f xs)"

text \<open>A comprehension whose element expression may raise.\<close>

fun map_e :: "('a \<Rightarrow> error + 'b) \<Rightarrow> 'a list \<Rightarrow> error + 'b list" where
  "map_e f [] = Inr []"
| "map_e f (x # xs) =
     (case f x of
        Inl e \<Rightarrow> Inl e
      | Inr y \<Rightarrow> (case map_e f xs of Inl e \<Rightarrow> Inl e | Inr ys \<Rightarrow> Inr (y # ys)))"

text \<open>One request: a fresh session on the database, closed at the end.\<close>

definition run_request :: "('d, 'a) svc \<Rightarrow> 'd \<Rightarrow> (error + 'a) \<times> 'd" where
  "run_request m d = (case m \<lparr>committed = d, working = d\<rparr> of (r, s) \<Rightarrow> (r, committed s))"

declare return_svc_def [svc_simps] raise_svc_def [svc_simps] bind_svc_def [svc_simps]
  query_def [svc_simps] query_e_def [svc_simps] modify_db_def [svc_simps] flush_def [svc_simps]
  commit_def [svc_simps] rollback_def [svc_simps] except_rollback_def [svc_simps]
  run_request_def [svc_simps]

lemma bind_svc_return [simp]: "bind_svc (return_svc x) f = f x"
  by (rule ext) (simp add: svc_simps)

lemma bind_svc_raise [simp]: "bind_svc (raise_svc e) f = raise_svc e"
  by (rule ext) (simp add: svc_simps)

lemma bind_svc_assoc: "bind_svc (bind_svc m f) g = bind_svc m (\<lambda>x. bind_svc (f x) g)"
  by (rule ext) (simp add: svc_simps split: prod.splits sum.splits)

lemma map_e_Inr: "(\<And>x. x \<in> set xs \<Longrightarrow> f x = Inr (g x)) \<Longrightarrow> map_e f xs = Inr (map g xs)"
  by (induction xs) simp_all

lemma for_each_append:
  "for_each f (xs @ ys) = bind_svc (for_each f xs) (\<lambda>_. for_each f ys)"
  by (induction xs) (simp_all add: bind_svc_assoc)

lemma bind_svc_Inr:
  "bind_svc m f s = (Inr y, s2) \<longleftrightarrow> (\<exists>x s1. m s = (Inr x, s1) \<and> f x s1 = (Inr y, s2))"
  by (auto simp: bind_svc_def split: prod.splits sum.splits)

subsection \<open>Actions that never publish\<close>

text \<open>
  \<open>uncommitting m\<close>: \<open>m\<close> never changes the committed database, whatever its outcome.
  Such actions compose, so a service whose only commit is its last step is atomic:
  a request that raises before it leaves the database as it was.
\<close>

definition uncommitting :: "('d, 'a) svc \<Rightarrow> bool" where
  "uncommitting m \<longleftrightarrow> (\<forall>s. committed (snd (m s)) = committed s)"

lemma uncommitting_basic [intro, simp]:
  "uncommitting (return_svc x)" "uncommitting (raise_svc e)" "uncommitting (query q)"
  "uncommitting (query_e r)" "uncommitting (modify_db f)" "uncommitting (flush g)"
  "uncommitting rollback"
  by (auto simp: uncommitting_def svc_simps split: sum.splits)

lemma uncommitting_bind [intro]:
  "uncommitting m \<Longrightarrow> (\<And>x. uncommitting (f x)) \<Longrightarrow> uncommitting (bind_svc m f)"
  unfolding uncommitting_def bind_svc_def by (auto split: prod.splits sum.splits) (metis snd_conv)+

lemma uncommitting_for_each [intro]:
  "(\<And>x. uncommitting (f x)) \<Longrightarrow> uncommitting (for_each f xs)"
  by (induction xs) auto

lemma uncommitting_if [intro]:
  "(b \<Longrightarrow> uncommitting m) \<Longrightarrow> (\<not> b \<Longrightarrow> uncommitting n) \<Longrightarrow> uncommitting (if b then m else n)"
  by simp

lemma uncommitting_option [intro]:
  "uncommitting m \<Longrightarrow> (\<And>x. uncommitting (f x)) \<Longrightarrow> uncommitting (case z of None \<Rightarrow> m | Some x \<Rightarrow> f x)"
  by (cases z) auto

lemma uncommittingD: "uncommitting m \<Longrightarrow> m s = (r, s') \<Longrightarrow> committed s' = committed s"
  unfolding uncommitting_def by (metis snd_conv)

lemma run_uncommitting: "uncommitting m \<Longrightarrow> snd (run_request m d) = d"
  by (auto simp: uncommitting_def run_request_def split: prod.splits)
     (metis session.select_convs(1) snd_conv)

lemma atomic_request:
  assumes "uncommitting m" and "fst (run_request (bind_svc m (\<lambda>x. bind_svc commit (\<lambda>_. return_svc (g x)))) d) = Inl e"
  shows "snd (run_request (bind_svc m (\<lambda>x. bind_svc commit (\<lambda>_. return_svc (g x)))) d) = d"
  using assms
  by (auto simp: uncommitting_def svc_simps split: prod.splits sum.splits)
     (metis session.select_convs(1) snd_conv)

subsection \<open>Actions that keep an invariant\<close>

text \<open>A session whose both copies are well-formed stays so: the invariant of an action.\<close>

definition keeps :: "('d \<Rightarrow> bool) \<Rightarrow> ('d, 'a) svc \<Rightarrow> bool" where
  "keeps I m \<longleftrightarrow> (\<forall>s. I (committed s) \<and> I (working s) \<longrightarrow>
     I (committed (snd (m s))) \<and> I (working (snd (m s))))"

lemma keeps_basic [intro, simp]:
  "keeps I (return_svc x)" "keeps I (raise_svc e)" "keeps I (query q)" "keeps I (query_e r)"
  "keeps I commit" "keeps I rollback"
  by (simp_all add: keeps_def svc_simps)

lemma keeps_modify [intro]: "(\<And>d. I d \<Longrightarrow> I (f d)) \<Longrightarrow> keeps I (modify_db f)"
  by (simp add: keeps_def svc_simps)

lemma keeps_flush [intro]: "(\<And>d d'. I d \<Longrightarrow> f d = Inr d' \<Longrightarrow> I d') \<Longrightarrow> keeps I (flush f)"
  by (auto simp: keeps_def svc_simps split: sum.splits)

lemma keeps_bind [intro]: "keeps I m \<Longrightarrow> (\<And>x. keeps I (f x)) \<Longrightarrow> keeps I (bind_svc m f)"
  unfolding keeps_def bind_svc_def by (auto split: prod.splits sum.splits)

lemma keeps_for_each [intro]: "(\<And>x. keeps I (f x)) \<Longrightarrow> keeps I (for_each f xs)"
  by (induction xs) auto

lemma keeps_except [intro]: "keeps I m \<Longrightarrow> keeps I (except_rollback m)"
  unfolding keeps_def except_rollback_def by (auto split: prod.splits sum.splits)

lemma keeps_run:
  assumes "keeps I m" and "I d"
  shows "I (snd (run_request m d))"
proof -
  have "I (committed (snd (m \<lparr>committed = d, working = d\<rparr>)))"
    using assms by (simp add: keeps_def)
  then show ?thesis by (simp add: run_request_def split_beta)
qed

section \<open>Tables\<close>

text \<open>
  A table is the list of its rows in insertion order. A query is a \<open>filter\<close> with the
  WHERE clause, sorted by the ORDER BY clause; \<open>db.get\<close> looks a primary key up.
\<close>

definition get_row :: "('r \<Rightarrow> uuid) \<Rightarrow> uuid \<Rightarrow> 'r list \<Rightarrow> 'r option" where
  "get_row pk i rs = find (\<lambda>r. pk r = i) rs"

definition scalar_one_or_none :: "'r list \<Rightarrow> error + 'r option" where
  "scalar_one_or_none rs =
     (case rs of [] \<Rightarrow> Inr None | [r] \<Rightarrow> Inr (Some r) | _ \<Rightarrow> Inl MultipleResultsFound)"

definition first_row :: "'r list \<Rightarrow> 'r option" where
  "first_row rs = (case rs of [] \<Rightarrow> None | r # _ \<Rightarrow> Some r)"

text \<open>INSERT: a primary key that is taken breaks the table's integrity.\<close>

definition insert_row :: "('r \<Rightarrow> uuid) \<Rightarrow> 'r \<Rightarrow> 'r list \<Rightarrow> error + 'r list" where
  "insert_row pk r rs =
     (if pk r \<in> set (map pk rs) then Inl (IntegrityError ''primary key'') else Inr (rs @ [r]))"

definition update_where :: "('r \<Rightarrow> bool) \<Rightarrow> ('r \<Rightarrow> 'r) \<Rightarrow> 'r list \<Rightarrow> 'r list" where
  "update_where P f rs = map (\<lambda>r. if P r then f r else r) rs"

definition delete_where :: "('r \<Rightarrow> bool) \<Rightarrow> 'r list \<Rightarrow> 'r list" where
  "delete_where P rs = filter (\<lambda>r. \<not> P r) rs"

definition order_by_desc :: "('r \<Rightarrow> int) \<Rightarrow> 'r list \<Rightarrow> 'r list" where
  "order_by_desc k rs = sort_key (\<lambda>r. - k r) rs"

text \<open>\<^verbatim>\<open>.offset((page - 1) * page_size).limit(page_size)\<close>, pages counted from 1.\<close>

definition page_of :: "nat \<Rightarrow> nat \<Rightarrow> 'r list \<Rightarrow> 'r list" where
  "page_of page page_size rs = take page_size (drop ((page - 1) * page_size) rs)"

lemma get_row_Some:
  "get_row pk i rs = Some r \<Longrightarrow> r \<in> set rs \<and> pk r = i"
  by (auto simp: get_row_def find_Some_iff)

lemma get_row_None [table_simps]: "get_row pk i rs = None \<longleftrightarrow> i \<notin> pk ` set rs"
  by (auto simp: get_row_def find_None_iff)

lemma get_row_unique:
  "distinct (map pk rs) \<Longrightarrow> r \<in> set rs \<Longrightarrow> get_row pk (pk r) rs = Some r"
  unfolding get_row_def by (induction rs) auto

lemma get_row_append [table_simps]:
  "get_row pk i (rs @ ss) = (case get_row pk i rs of None \<Rightarrow> get_row pk i ss | Some r \<Rightarrow> Some r)"
  unfolding get_row_def by (induction rs) auto

lemma get_row_update_where [table_simps]:
  assumes "\<And>r. pk (f r) = pk r"
  shows "get_row pk i (update_where P f rs)
    = map_option (\<lambda>r. if P r then f r else r) (get_row pk i rs)"
  unfolding get_row_def update_where_def using assms by (induction rs) auto

lemma map_update_where [table_simps]:
  "(\<And>r. k (f r) = k r) \<Longrightarrow> map k (update_where P f rs) = map k rs"
  by (simp add: update_where_def)

lemma length_update_where [simp]: "length (update_where P f rs) = length rs"
  by (simp add: update_where_def)

lemma update_where_Nil [simp]: "update_where P f [] = []"
  by (simp add: update_where_def)

lemma update_where_Cons [simp]:
  "update_where P f (r # rs) = (if P r then f r else r) # update_where P f rs"
  by (simp add: update_where_def)

lemma set_update_where:
  "set (update_where P f rs) = {r \<in> set rs. \<not> P r} \<union> f ` {r \<in> set rs. P r}"
  by (auto simp: update_where_def)

lemma update_where_none: "(\<And>r. r \<in> set rs \<Longrightarrow> \<not> P r) \<Longrightarrow> update_where P f rs = rs"
  unfolding update_where_def by (induction rs) auto

lemma image_update_where_mono:
  assumes "\<And>r. k (f r) = k r" and "\<And>r. Q r \<Longrightarrow> Q (f r)"
  shows "k ` {r \<in> set rs. Q r} \<subseteq> k ` {r \<in> set (update_where P f rs). Q r}"
proof
  fix y assume "y \<in> k ` {r \<in> set rs. Q r}"
  then obtain r where r: "r \<in> set rs" "Q r" "y = k r" by auto
  define r' where "r' = (if P r then f r else r)"
  have "r' \<in> set (update_where P f rs)" "Q r'" "k r' = y"
    using r assms by (auto simp: r'_def update_where_def)
  then show "y \<in> k ` {r \<in> set (update_where P f rs). Q r}" by auto
qed

lemma insert_row_Inr:
  "insert_row pk r rs = Inr ss \<longleftrightarrow> ss = rs @ [r] \<and> pk r \<notin> pk ` set rs"
  by (auto simp: insert_row_def)

lemma scalar_one_or_none_Inr:
  "scalar_one_or_none rs = Inr (Some r) \<longleftrightarrow> rs = [r]"
  "scalar_one_or_none rs = Inr None \<longleftrightarrow> rs = []"
  by (auto simp: scalar_one_or_none_def split: list.splits)

lemma filter_eq_singleton:
  "distinct (map k rs) \<Longrightarrow> r \<in> set rs \<Longrightarrow> filter (\<lambda>x. k x = k r) rs = [r]"
proof (induction rs)
  case (Cons a rs)
  show ?case
  proof (cases "r = a")
    case True
    with Cons.prems have "filter (\<lambda>x. k x = k r) rs = []"
      by (metis (mono_tags, lifting) distinct.simps(2) filter_False image_eqI list.simps(9) set_map)
    with True show ?thesis by simp
  next
    case False
    with Cons.prems have "r \<in> set rs" and "k a \<noteq> k r" by (auto simp: image_iff)
    with Cons show ?thesis by simp
  qed
qed simp

lemma filter_key_cases:
  assumes "distinct (map k rs)"
  shows "filter (\<lambda>x. k x = v) rs = [] \<or> (\<exists>r \<in> set rs. filter (\<lambda>x. k x = v) rs = [r] \<and> k r = v)"
proof (cases "\<exists>r \<in> set rs. k r = v")
  case True
  then obtain r where r: "r \<in> set rs" "k r = v" by blast
  with filter_eq_singleton [OF assms r(1)] show ?thesis by auto
next
  case False
  then show ?thesis by (simp add: filter_empty_conv)
qed

lemma scalar_by_unique_key:
  assumes "distinct (map k rs)"
  shows "scalar_one_or_none (filter (\<lambda>x. k x = v) rs) = Inr (find (\<lambda>x. k x = v) rs)"
proof (cases "find (\<lambda>x. k x = v) rs")
  case None
  then have "filter (\<lambda>x. k x = v) rs = []" by (auto simp: find_None_iff filter_empty_conv)
  with None show ?thesis by (simp add: scalar_one_or_none_def)
next
  case (Some r)
  then have "r \<in> set rs" "k r = v" by (auto simp: find_Some_iff)
  with filter_eq_singleton [OF assms, of r] Some show ?thesis by (simp add: scalar_one_or_none_def)
qed

lemma find_unique_key:
  "distinct (map k rs) \<Longrightarrow> r \<in> set rs \<Longrightarrow> find (\<lambda>x. k x = k r) rs = Some r"
  by (induction rs) auto

lemma find_key_Some:
  assumes "distinct (map k rs)"
  shows "find (\<lambda>x. k x = v) rs = Some r \<longleftrightarrow> r \<in> set rs \<and> k r = v"
proof
  assume "find (\<lambda>x. k x = v) rs = Some r"
  then show "r \<in> set rs \<and> k r = v" by (auto simp: find_Some_iff)
next
  assume "r \<in> set rs \<and> k r = v"
  with find_unique_key [OF assms, of r] show "find (\<lambda>x. k x = v) rs = Some r" by auto
qed

subsection \<open>The interface of a table\<close>

text \<open>
  What a component relies on when it stores rows in one field of the database: reading
  after writing gives the written rows. Every table of the model interprets it.
\<close>

locale table =
  fixes pk :: "'r \<Rightarrow> uuid"
    and rows :: "'d \<Rightarrow> 'r list"
    and rows_update :: "('r list \<Rightarrow> 'r list) \<Rightarrow> 'd \<Rightarrow> 'd"
  assumes rows_of_update: "rows (rows_update f d) = f (rows d)"
begin

lemma keyed_insert:
  assumes "distinct (map pk (rows d))" and "insert_row pk r (rows d) = Inr rs"
  shows "distinct (map pk (rows (rows_update (\<lambda>_. rs) d)))"
    and "get_row pk (pk r) (rows (rows_update (\<lambda>_. rs) d)) = Some r"
proof -
  from assms(2) have rs: "rs = rows d @ [r]" and new: "pk r \<notin> pk ` set (rows d)"
    by (simp_all add: insert_row_Inr)
  from rs new assms(1) show "distinct (map pk (rows (rows_update (\<lambda>_. rs) d)))"
    by (simp add: rows_of_update)
  from new have "get_row pk (pk r) (rows d) = None"
    by (simp add: get_row_None)
  with rs show "get_row pk (pk r) (rows (rows_update (\<lambda>_. rs) d)) = Some r"
    by (simp add: rows_of_update get_row_append) (simp add: get_row_def)
qed

lemma keyed_update:
  assumes "distinct (map pk (rows d))" and "\<And>r. pk (f r) = pk r"
  shows "distinct (map pk (rows (rows_update (update_where P f) d)))"
  using assms by (simp add: rows_of_update map_update_where)

lemma get_after_update:
  assumes "\<And>r. pk (f r) = pk r"
  shows "get_row pk i (rows (rows_update (update_where P f) d))
    = map_option (\<lambda>r. if P r then f r else r) (get_row pk i (rows d))"
  by (simp add: rows_of_update get_row_update_where [of pk f, OF assms])

end

section \<open>Checks on texts\<close>

text \<open>
  What the database takes: a \<^verbatim>\<open>String(n)\<close> column at most \<open>n\<close> characters, and no text a NUL
  character (PostgreSQL). An optional column may be null.
\<close>

definition fits :: "nat \<Rightarrow> string \<Rightarrow> bool" where
  "fits n s \<longleftrightarrow> length s \<le> n"

definition fits_opt :: "nat \<Rightarrow> string option \<Rightarrow> bool" where
  "fits_opt n s = (case s of None \<Rightarrow> True | Some x \<Rightarrow> fits n x)"

definition text_ok :: "string \<Rightarrow> bool" where
  "text_ok s \<longleftrightarrow> CHR 0x00 \<notin> set s"

definition text_ok_opt :: "string option \<Rightarrow> bool" where
  "text_ok_opt s = (case s of None \<Rightarrow> True | Some x \<Rightarrow> text_ok x)"

definition text_fits_opt :: "nat \<Rightarrow> string option \<Rightarrow> bool" where
  "text_fits_opt n s \<longleftrightarrow> fits_opt n s \<and> (case s of None \<Rightarrow> True | Some x \<Rightarrow> text_ok x)"

text \<open>
  What Pydantic takes, \<^verbatim>\<open>Field(min_length=a, max_length=b)\<close>, where an optional field may be
  absent. A body it refuses ends the request with 422 before the handler runs.
\<close>

definition len_in :: "nat \<Rightarrow> nat \<Rightarrow> string \<Rightarrow> bool" where
  "len_in a b s \<longleftrightarrow> a \<le> length s \<and> length s \<le> b"

definition len_in_opt :: "nat \<Rightarrow> nat \<Rightarrow> string option \<Rightarrow> bool" where
  "len_in_opt a b s = (case s of None \<Rightarrow> True | Some x \<Rightarrow> len_in a b x)"

definition validated :: "bool \<Rightarrow> ('d, 'a) svc \<Rightarrow> ('d, 'a) svc" where
  "validated ok m = (if ok then m else raise_svc (HTTPException 422 ''Unprocessable Entity''))"

lemma keeps_validated [intro]: "(ok \<Longrightarrow> keeps I m) \<Longrightarrow> keeps I (validated ok m)"
  by (simp add: validated_def)

section \<open>Pages\<close>

text \<open>The pages of a list, read in order, are the list.\<close>

lemma concat_pages:
  assumes "0 < n"
  shows "concat (map (\<lambda>p. page_of p n xs) [1..<Suc k]) = take (k * n) xs"
proof (induction k)
  case 0
  then show ?case by simp
next
  case (Suc k)
  have "concat (map (\<lambda>p. page_of p n xs) [1..<Suc (Suc k)])
      = take (k * n) xs @ page_of (Suc k) n xs"
    using Suc.IH by simp
  also have "\<dots> = take (k * n) xs @ take n (drop (k * n) xs)"
    by (simp add: page_of_def)
  also have "\<dots> = take (k * n + n) xs"
    by (simp add: take_add)
  finally show ?case by (simp add: add.commute)
qed

end
