(* ===== verification/PyTime.thy ===== *)
theory PyTime
  imports PyStr
begin

text \<open>
  \<^verbatim>\<open>datetime.isoformat\<close> for an aware UTC instant, as CPython computes it: the proleptic
  Gregorian date of a day number (\<^verbatim>\<open>_ord2ymd\<close>), the time of day, microseconds only when there
  are some, and the offset. The conversion is one to one on the instants Python can
  represent, which the hash of an audit entry relies on.
\<close>

section \<open>Calendar\<close>

text \<open>Days of the year before each month, and the length of a month.\<close>

definition days_before_month :: "bool \<Rightarrow> int \<Rightarrow> int" where
  "days_before_month leap m =
     (if m \<le> 1 then 0 else if m = 2 then 31 else if m = 3 then 59 else if m = 4 then 90
      else if m = 5 then 120 else if m = 6 then 151 else if m = 7 then 181 else if m = 8 then 212
      else if m = 9 then 243 else if m = 10 then 273 else if m = 11 then 304 else 334)
     + (if leap \<and> 2 < m then 1 else 0)"

text \<open>\<^verbatim>\<open>_ord2ymd\<close> on the zero-based day number \<open>n\<close> (day 0 is 1 January of year 1).\<close>

definition month_day :: "bool \<Rightarrow> int \<Rightarrow> int \<times> int" where
  "month_day leap r =
     (let m = (r + 50) div 32;
          m' = (if r < days_before_month leap m then m - 1 else m)
      in (m', r - days_before_month leap m' + 1))"

definition ord2ymd :: "int \<Rightarrow> int \<times> int \<times> int" where
  "ord2ymd n =
     (let n400 = n div 146097; r = n mod 146097;
          n100 = r div 36524; r = r mod 36524;
          n4 = r div 1461; r = r mod 1461;
          n1 = r div 365; r = r mod 365;
          year = n400 * 400 + n100 * 100 + n4 * 4 + n1 + 1
      in if n1 = 4 \<or> n100 = 4 then (year - 1, 12, 31)
         else (year, month_day (n1 = 3 \<and> (n4 \<noteq> 24 \<or> n100 = 3)) r))"

text \<open>The inverse: \<^verbatim>\<open>_days_before_year\<close> and \<^verbatim>\<open>_ymd2ord\<close>, zero-based as well.\<close>

definition is_leap :: "int \<Rightarrow> bool" where
  "is_leap y \<longleftrightarrow> y mod 4 = 0 \<and> (y mod 100 \<noteq> 0 \<or> y mod 400 = 0)"

definition days_before_year :: "int \<Rightarrow> int" where
  "days_before_year y = (y - 1) * 365 + (y - 1) div 4 - (y - 1) div 100 + (y - 1) div 400"

definition ymd2ord :: "int \<times> int \<times> int \<Rightarrow> int" where
  "ymd2ord d = (case d of (y, m, dd) \<Rightarrow> days_before_year y + days_before_month (is_leap y) m + dd - 1)"

lemma month_day_inverse: "days_before_month leap (fst (month_day leap r)) + snd (month_day leap r) - 1 = r"
  by (simp add: month_day_def Let_def)

lemma days_before_year_parts:
  assumes "0 \<le> b" "b \<le> 3" "0 \<le> c" "c \<le> 24" "0 \<le> e" "e \<le> 3"
  shows "days_before_year (a * 400 + b * 100 + c * 4 + e + 1) = a * 146097 + b * 36524 + c * 1461 + e * 365"
proof -
  have "(a * 400 + b * 100 + c * 4 + e) div 4 = a * 100 + b * 25 + c"
    by (rule int_div_pos_eq [where r = e]) (use assms in auto)
  moreover have "(a * 400 + b * 100 + c * 4 + e) div 100 = a * 4 + b"
    by (rule int_div_pos_eq [where r = "c * 4 + e"]) (use assms in auto)
  moreover have "(a * 400 + b * 100 + c * 4 + e) div 400 = a"
    by (rule int_div_pos_eq [where r = "b * 100 + c * 4 + e"]) (use assms in auto)
  ultimately show ?thesis by (simp add: days_before_year_def)
qed

lemma is_leap_parts:
  assumes "0 \<le> b" "b \<le> 3" "0 \<le> c" "c \<le> 24" "0 \<le> e" "e \<le> (3::int)"
  shows "is_leap (a * 400 + b * 100 + c * 4 + e + 1) \<longleftrightarrow> e = 3 \<and> (c \<noteq> 24 \<or> b = 3)"
proof -
  have "(a * 400 + b * 100 + c * 4 + e + 1) mod 4 = (e + 1) mod 4"
    using mod_mult_self1 [of "e + 1" "a * 100 + b * 25 + c" 4] by (simp add: algebra_simps)
  moreover have "(a * 400 + b * 100 + c * 4 + e + 1) mod 100 = (c * 4 + e + 1) mod 100"
    using mod_mult_self1 [of "c * 4 + e + 1" "a * 4 + b" 100] by (simp add: algebra_simps)
  moreover have "(a * 400 + b * 100 + c * 4 + e + 1) mod 400 = (b * 100 + c * 4 + e + 1) mod 400"
    using mod_mult_self1 [of "b * 100 + c * 4 + e + 1" a 400] by (simp add: algebra_simps)
  moreover have "(e + 1) mod 4 = 0 \<longleftrightarrow> e = 3"
    using assms(5,6) mod_pos_pos_trivial [of "e + 1" 4] by (cases "e = 3") auto
  moreover have "(c * 4 + e + 1) mod 100 = 0 \<longleftrightarrow> c = 24" if "e = 3"
    using assms(3,4) that mod_pos_pos_trivial [of "c * 4 + e + 1" 100] by (cases "c = 24") auto
  moreover have "(b * 100 + c * 4 + e + 1) mod 400 = 0 \<longleftrightarrow> b = 3" if "e = 3" "c = 24"
    using assms(1,2) that mod_pos_pos_trivial [of "b * 100 + c * 4 + e + 1" 400] by (cases "b = 3") auto
  ultimately show ?thesis unfolding is_leap_def by auto
qed

text \<open>The mixed-radix digits of a day number: 400-, 100-, 4- and 1-year cycles and the day of the year.\<close>

lemma ord_parts:
  fixes n :: int
  obtains a b c e r where "n = a * 146097 + b * 36524 + c * 1461 + e * 365 + r" and "a = n div 146097"
    and "0 \<le> b" "b \<le> 4" "0 \<le> c" "c \<le> 24" "0 \<le> e" "e \<le> 4" "0 \<le> r" "r < 365"
    and "b = 4 \<Longrightarrow> c = 0 \<and> e = 0 \<and> r = 0" and "e = 4 \<Longrightarrow> r = 0 \<and> c \<noteq> 24"
    and "ord2ymd n = (let year = a * 400 + b * 100 + c * 4 + e + 1
      in if e = 4 \<or> b = 4 then (year - 1, 12, 31) else (year, month_day (e = 3 \<and> (c \<noteq> 24 \<or> b = 3)) r))"
proof -
  define a where "a = n div 146097"
  define r1 where "r1 = n mod 146097"
  define b where "b = r1 div 36524"
  define r2 where "r2 = r1 mod 36524"
  define c where "c = r2 div 1461"
  define r3 where "r3 = r2 mod 1461"
  define e where "e = r3 div 365"
  define r4 where "r4 = r3 mod 365"
  have n1: "n = a * 146097 + r1" unfolding a_def r1_def by (rule div_mult_mod_eq [symmetric])
  have n2: "r1 = b * 36524 + r2" unfolding b_def r2_def by (rule div_mult_mod_eq [symmetric])
  have n3: "r2 = c * 1461 + r3" unfolding c_def r3_def by (rule div_mult_mod_eq [symmetric])
  have n4: "r3 = e * 365 + r4" unfolding e_def r4_def by (rule div_mult_mod_eq [symmetric])
  have r1: "0 \<le> r1" "r1 < 146097" by (simp_all add: r1_def)
  have r2: "0 \<le> r2" "r2 < 36524" by (simp_all add: r2_def)
  have r3: "0 \<le> r3" "r3 < 1461" by (simp_all add: r3_def)
  have r4: "0 \<le> r4" "r4 < 365" by (simp_all add: r4_def)
  have b: "0 \<le> b" "b \<le> 4" using n2 r1 r2 by linarith+
  have c: "0 \<le> c" "c \<le> 24" using n3 r2 r3 by linarith+
  have e: "0 \<le> e" "e \<le> 4" using n4 r3 r4 by linarith+
  have b4: "c = 0 \<and> e = 0 \<and> r4 = 0" if "b = 4"
  proof -
    have "r2 = 0" using that n2 r1 r2 by linarith
    then show ?thesis by (simp add: c_def r3_def e_def r4_def)
  qed
  have e4: "r4 = 0 \<and> c \<noteq> 24" if "e = 4"
    using that n3 n4 r2 r3 r4 by auto
  have "ord2ymd n = (let year = a * 400 + b * 100 + c * 4 + e + 1
      in if e = 4 \<or> b = 4 then (year - 1, 12, 31) else (year, month_day (e = 3 \<and> (c \<noteq> 24 \<or> b = 3)) r4))"
    by (simp add: ord2ymd_def Let_def a_def r1_def b_def r2_def c_def r3_def e_def r4_def)
  moreover have "n = a * 146097 + b * 36524 + c * 1461 + e * 365 + r4" using n1 n2 n3 n4 by linarith
  ultimately show thesis using that [of a b c e r4] a_def b c e r4 b4 e4 by blast
qed

lemma ymd2ord_last_day:
  assumes "0 \<le> b" "b \<le> 3" "0 \<le> c" "c \<le> 24" "c \<noteq> 24 \<or> b = 3"
  shows "ymd2ord (a * 400 + b * 100 + c * 4 + 3 + 1, 12, 31) = a * 146097 + b * 36524 + c * 1461 + 3 * 365 + 365"
proof -
  have "days_before_year (a * 400 + b * 100 + c * 4 + 3 + 1) = a * 146097 + b * 36524 + c * 1461 + 3 * 365"
    using days_before_year_parts [of b c 3 a] assms by simp
  moreover have "is_leap (a * 400 + b * 100 + c * 4 + 3 + 1)"
    using is_leap_parts [of b c 3 a] assms by simp
  ultimately show ?thesis by (simp only: ymd2ord_def prod.case) (simp add: days_before_month_def)
qed

lemma ymd2ord_ord2ymd: "ymd2ord (ord2ymd n) = n"
proof (rule ord_parts [of n])
  fix a b c e r :: int
  assume n: "n = a * 146097 + b * 36524 + c * 1461 + e * 365 + r"
    and bd: "0 \<le> b" "b \<le> 4" "0 \<le> c" "c \<le> 24" "0 \<le> e" "e \<le> 4" "0 \<le> r" "r < 365"
    and b4: "b = 4 \<Longrightarrow> c = 0 \<and> e = 0 \<and> r = 0" and e4: "e = 4 \<Longrightarrow> r = 0 \<and> c \<noteq> 24"
    and ymd: "ord2ymd n = (let year = a * 400 + b * 100 + c * 4 + e + 1
      in if e = 4 \<or> b = 4 then (year - 1, 12, 31) else (year, month_day (e = 3 \<and> (c \<noteq> 24 \<or> b = 3)) r))"
  consider "b = 4" | "b \<le> 3" "e = 4" | "b \<le> 3" "e \<le> 3" using bd by linarith
  then show ?thesis
  proof cases
    case 1
    with b4 ymd have "ord2ymd n = (a * 400 + 3 * 100 + 24 * 4 + 3 + 1, 12, 31)" by (simp add: Let_def)
    with ymd2ord_last_day [of 3 24 a] n b4 1 show ?thesis by simp
  next
    case 2
    with ymd have "ord2ymd n = (a * 400 + b * 100 + c * 4 + 3 + 1, 12, 31)" by (simp add: Let_def)
    with ymd2ord_last_day [of b c a] n bd e4 2 show ?thesis by simp
  next
    case 3
    obtain m dd where md: "month_day (e = 3 \<and> (c \<noteq> 24 \<or> b = 3)) r = (m, dd)" by force
    have "days_before_month (e = 3 \<and> (c \<noteq> 24 \<or> b = 3)) m + dd - 1 = r"
      using month_day_inverse [of "e = 3 \<and> (c \<noteq> 24 \<or> b = 3)" r] md by simp
    with 3 md n ymd days_before_year_parts [of b c e a] is_leap_parts [of b c e a] bd
    show ?thesis by (simp add: ymd2ord_def Let_def)
  qed
qed

text \<open>On the days of the years 1 to 9999 the fields have their printed widths.\<close>

lemma month_day_bounds:
  assumes "0 \<le> r" "r < 365"
  shows "0 \<le> fst (month_day leap r)" "fst (month_day leap r) < 100"
    "0 \<le> snd (month_day leap r)" "snd (month_day leap r) < 100"
proof -
  define m where "m = (r + 50) div 32"
  have m: "32 * m \<le> r + 50" "r + 50 < 32 * m + 32" unfolding m_def by presburger+
  have m1: "1 \<le> m" "m \<le> 12" using m assms by linarith+
  then have "m = 1 \<or> m = 2 \<or> m = 3 \<or> m = 4 \<or> m = 5 \<or> m = 6 \<or> m = 7 \<or> m = 8 \<or> m = 9
    \<or> m = 10 \<or> m = 11 \<or> m = 12" by presburger
  then show "0 \<le> fst (month_day leap r)" "fst (month_day leap r) < 100"
    "0 \<le> snd (month_day leap r)" "snd (month_day leap r) < 100"
    using m assms unfolding month_day_def m_def [symmetric] Let_def
    by (elim disjE; auto simp: days_before_month_def)+
qed

lemma ord2ymd_bounds:
  assumes "0 \<le> n" "n < 3652059" and "ord2ymd n = (y, m, d)"
  shows "0 \<le> y \<and> y < 10000 \<and> 0 \<le> m \<and> m < 100 \<and> 0 \<le> d \<and> d < 100"
proof (rule ord_parts [of n])
  fix a b c e r :: int
  assume n: "n = a * 146097 + b * 36524 + c * 1461 + e * 365 + r" and a: "a = n div 146097"
    and bd: "0 \<le> b" "b \<le> 4" "0 \<le> c" "c \<le> 24" "0 \<le> e" "e \<le> 4" "0 \<le> r" "r < 365"
    and ymd: "ord2ymd n = (let year = a * 400 + b * 100 + c * 4 + e + 1
      in if e = 4 \<or> b = 4 then (year - 1, 12, 31) else (year, month_day (e = 3 \<and> (c \<noteq> 24 \<or> b = 3)) r))"
  have a0: "0 \<le> a" using assms(1) by (simp add: a)
  have year: "a * 400 + b * 100 + c * 4 + e + 1 \<le> 9999"
  proof -
    have a24: "a \<le> 24" using n bd assms(2) by linarith
    consider "a \<le> 23" | "a = 24" "b \<le> 2" | "a = 24" "3 \<le> b" using a24 by linarith
    then show ?thesis
    proof cases
      case 3
      then have b3: "b = 3" using n bd assms(2) by linarith
      show ?thesis
      proof (cases "c = 24")
        case True
        with 3 b3 n bd assms(2) have "e \<le> 2" by linarith
        with 3 b3 True show ?thesis by simp
      next
        case False
        with 3 b3 bd show ?thesis by simp
      qed
    qed (use bd in linarith)+
  qed
  with a0 ymd assms(3) bd month_day_bounds [of r "e = 3 \<and> (c \<noteq> 24 \<or> b = 3)"]
  show "0 \<le> y \<and> y < 10000 \<and> 0 \<le> m \<and> m < 100 \<and> 0 \<le> d \<and> d < 100"
    by (auto simp: Let_def prod_eq_iff split: if_splits)
qed

lemma ord2ymd_inj: "ord2ymd n = ord2ymd m \<Longrightarrow> n = m"
  by (metis ymd2ord_ord2ymd)

section \<open>Text\<close>

text \<open>A number below \<open>10 ^ w\<close> in exactly \<open>w\<close> digits: the format \<^verbatim>\<open>%0wd\<close>.\<close>

fun pad :: "nat \<Rightarrow> nat \<Rightarrow> string" where
  "pad 0 n = []"
| "pad (Suc w) n = pad w (n div 10) @ [digit_char (n mod 10)]"

lemma length_pad [simp]: "length (pad w n) = w"
  by (induction w arbitrary: n) simp_all

lemma pad_append: "pad w n @ xs = pad w m @ ys \<longleftrightarrow> pad w n = pad w m \<and> xs = ys"
  by simp

lemma digit_char_eq: "i < 10 \<Longrightarrow> j < 10 \<Longrightarrow> digit_char i = digit_char j \<Longrightarrow> i = j"
  by (metis add_left_cancel code_digit_char)

lemma pad_inj: "n < 10 ^ w \<Longrightarrow> m < 10 ^ w \<Longrightarrow> pad w n = pad w m \<Longrightarrow> n = m"
proof (induction w arbitrary: n m)
  case (Suc w)
  then have "n div 10 < 10 ^ w" "m div 10 < 10 ^ w" by auto
  with Suc have "n div 10 = m div 10" "n mod 10 = m mod 10"
    by (auto dest: digit_char_eq [rotated 2])
  then show ?case by (metis div_mult_mod_eq)
qed simp

text \<open>
  Instants are microseconds since 1970-01-01; \<^verbatim>\<open>datetime\<close> covers the years 1 to 9999.
\<close>

definition valid_datetime :: "datetime \<Rightarrow> bool" where
  "valid_datetime t \<longleftrightarrow> - 62135596800000000 \<le> t \<and> t < 253402300800000000"

definition isoformat :: "datetime \<Rightarrow> string" where
  "isoformat t =
     (let (y, m, d) = ord2ymd (t div 86400000000 + 719162);
          us = t mod 86400000000
      in pad 4 (nat y) @ ''-'' @ pad 2 (nat m) @ ''-'' @ pad 2 (nat d) @ ''T''
         @ pad 2 (nat (us div 3600000000)) @ '':'' @ pad 2 (nat (us div 60000000 mod 60)) @ '':''
         @ pad 2 (nat (us div 1000000 mod 60))
         @ (if us mod 1000000 = 0 then [] else ''.'' @ pad 6 (nat (us mod 1000000)))
         @ ''+00:00'')"

lemma valid_day: "valid_datetime t \<Longrightarrow> 0 \<le> t div 86400000000 + 719162 \<and> t div 86400000000 + 719162 < 3652059"
  using div_mult_mod_eq [of t 86400000000] pos_mod_sign [of 86400000000 t] pos_mod_bound [of 86400000000 t]
  unfolding valid_datetime_def by linarith

text \<open>The time of day is determined by its printed fields.\<close>

lemma time_of_day:
  fixes u :: int
  shows "u = 3600000000 * (u div 3600000000) + 60000000 * (u div 60000000 mod 60)
    + 1000000 * (u div 1000000 mod 60) + u mod 1000000"
proof -
  define q where "q = u div 1000000"
  define k where "k = q div 60"
  define h where "h = k div 60"
  have m: "u div 60000000 = k" using zdiv_zmult2_eq [of 60 u 1000000] by (simp add: k_def q_def)
  have "u div 3600000000 = u div 60000000 div 60" using zdiv_zmult2_eq [of 60 u 60000000] by simp
  with m have hh: "u div 3600000000 = h" by (simp only: h_def)
  define f g s where "f = u mod 1000000" and "g = q mod 60" and "s = k mod 60"
  have "u = q * 1000000 + f" "q = k * 60 + g" "k = h * 60 + s"
    unfolding q_def f_def k_def g_def h_def s_def by (rule div_mult_mod_eq [symmetric])+
  then have "u = 3600000000 * h + 60000000 * s + 1000000 * g + f" by linarith
  then show ?thesis unfolding m hh q_def [symmetric] f_def g_def s_def by (simp only:)
qed

lemma isoformat_inj:
  assumes "valid_datetime s" "valid_datetime t" "isoformat s = isoformat t"
  shows "s = t"
proof -
  obtain y m d where s: "ord2ymd (s div 86400000000 + 719162) = (y, m, d)" by (metis prod_cases3)
  obtain y' m' d' where t: "ord2ymd (t div 86400000000 + 719162) = (y', m', d')" by (metis prod_cases3)
  define u where "u = s mod 86400000000"
  define v where "v = t mod 86400000000"
  have uv: "0 \<le> u" "u < 86400000000" "0 \<le> v" "v < 86400000000" by (simp_all add: u_def v_def)
  note bs = ord2ymd_bounds [OF _ _ s] ord2ymd_bounds [OF _ _ t]
  note days = valid_day [OF assms(1)] valid_day [OF assms(2)]
  have eq: "pad 4 (nat y) @ ''-'' @ pad 2 (nat m) @ ''-'' @ pad 2 (nat d) @ ''T''
         @ pad 2 (nat (u div 3600000000)) @ '':'' @ pad 2 (nat (u div 60000000 mod 60)) @ '':''
         @ pad 2 (nat (u div 1000000 mod 60))
         @ (if u mod 1000000 = 0 then [] else ''.'' @ pad 6 (nat (u mod 1000000))) @ ''+00:00''
     = pad 4 (nat y') @ ''-'' @ pad 2 (nat m') @ ''-'' @ pad 2 (nat d') @ ''T''
         @ pad 2 (nat (v div 3600000000)) @ '':'' @ pad 2 (nat (v div 60000000 mod 60)) @ '':''
         @ pad 2 (nat (v div 1000000 mod 60))
         @ (if v mod 1000000 = 0 then [] else ''.'' @ pad 6 (nat (v mod 1000000))) @ ''+00:00''"
    using assms(3) by (simp only: isoformat_def s t prod.case Let_def u_def v_def)
  have y: "pad 4 (nat y) = pad 4 (nat y')" and m: "pad 2 (nat m) = pad 2 (nat m')"
    and d: "pad 2 (nat d) = pad 2 (nat d')"
    and h: "pad 2 (nat (u div 3600000000)) = pad 2 (nat (v div 3600000000))"
    and mi: "pad 2 (nat (u div 60000000 mod 60)) = pad 2 (nat (v div 60000000 mod 60))"
    and se: "pad 2 (nat (u div 1000000 mod 60)) = pad 2 (nat (v div 1000000 mod 60))"
    and f: "(if u mod 1000000 = 0 then [] else ''.'' @ pad 6 (nat (u mod 1000000))) @ ''+00:00''
      = (if v mod 1000000 = 0 then [] else ''.'' @ pad 6 (nat (v mod 1000000))) @ ''+00:00''"
    using eq by (simp_all only: pad_append append.simps list.inject simp_thms)
  have "y = y'" "m = m'" "d = d'"
    using pad_inj [OF _ _ y] pad_inj [OF _ _ m] pad_inj [OF _ _ d] bs days by (simp_all add: nat_less_iff eq_nat_nat_iff)
  then have "s div 86400000000 = t div 86400000000"
    using ord2ymd_inj [of "s div 86400000000 + 719162" "t div 86400000000 + 719162"] s t by simp
  moreover have "u = v"
  proof -
    have lt: "u div 3600000000 < 100" "v div 3600000000 < 100"
      using zdiv_mono1 [of u 86399999999 3600000000] zdiv_mono1 [of v 86399999999 3600000000] uv by simp_all
    have ge: "0 \<le> u div 3600000000" "0 \<le> v div 3600000000" using uv by (simp_all add: pos_imp_zdiv_nonneg_iff)
    have "u div 3600000000 = v div 3600000000"
      using pad_inj [OF _ _ h] lt ge by (simp add: nat_less_iff eq_nat_nat_iff)
    moreover have "u div 60000000 mod 60 = v div 60000000 mod 60"
      using pad_inj [OF _ _ mi] by (simp add: nat_less_iff eq_nat_nat_iff order.strict_trans [OF pos_mod_bound])
    moreover have "u div 1000000 mod 60 = v div 1000000 mod 60"
      using pad_inj [OF _ _ se] by (simp add: nat_less_iff eq_nat_nat_iff order.strict_trans [OF pos_mod_bound])
    moreover have "u mod 1000000 = v mod 1000000"
    proof (cases "u mod 1000000 = 0 \<or> v mod 1000000 = 0")
      case True
      then show ?thesis using f by (auto split: if_splits)
    next
      case False
      with f have "pad 6 (nat (u mod 1000000)) = pad 6 (nat (v mod 1000000))" by simp
      from pad_inj [OF _ _ this] show ?thesis by (simp add: nat_less_iff eq_nat_nat_iff)
    qed
    ultimately show ?thesis using time_of_day [of u] time_of_day [of v] by linarith
  qed
  ultimately show ?thesis
    using div_mult_mod_eq [of s 86400000000] div_mult_mod_eq [of t 86400000000] unfolding u_def v_def by linarith
qed

end
