(* ===== verification/Encoding.thy ===== *)
theory Encoding
  imports PyTime
begin

text \<open>
  The byte encodings \<^verbatim>\<open>app/core/crypto.py\<close> puts around digests and signatures:
  hexadecimal (\<^verbatim>\<open>hexdigest\<close>, \<^verbatim>\<open>bytes.fromhex\<close>) and Base64 (\<^verbatim>\<open>base64.b64encode\<close>,
  \<^verbatim>\<open>base64.b64decode\<close>), each with its round trip. A byte is a \<open>char\<close>.
\<close>

type_synonym bytes = string

section \<open>Hexadecimal\<close>

definition hexlify :: "bytes \<Rightarrow> string" where
  "hexlify bs = concat (map (\<lambda>b. hex2 (code b)) bs)"

definition hex_val :: "char \<Rightarrow> nat option" where
  "hex_val c =
     (if 48 \<le> code c \<and> code c \<le> 57 then Some (code c - 48)
      else if 97 \<le> code c \<and> code c \<le> 102 then Some (code c - 87)
      else if 65 \<le> code c \<and> code c \<le> 70 then Some (code c - 55)
      else None)"

text \<open>\<^verbatim>\<open>bytes.fromhex\<close>: blanks may separate the bytes; anything else raises (\<open>None\<close>).\<close>

fun fromhex :: "string \<Rightarrow> bytes option" where
  "fromhex [] = Some []"
| "fromhex (c # cs) =
     (if (9 \<le> code c \<and> code c \<le> 13) \<or> code c = 32 then fromhex cs
      else (case cs of
              [] \<Rightarrow> None
            | d # ds \<Rightarrow>
                (case (hex_val c, hex_val d) of
                   (Some h, Some l) \<Rightarrow> map_option ((#) (char_of (16 * h + l))) (fromhex ds)
                 | _ \<Rightarrow> None)))"

lemma code_less [simp]: "code c < 256"
  by (simp add: code_def)

lemma char_of_code [simp]: "char_of (code c) = c"
  by (simp add: code_def)

lemma code_inj: "code c = code d \<longleftrightarrow> c = d"
  by (metis char_of_code)

lemma code_hex_digit: "d < 16 \<Longrightarrow> code (hex_digit d) = (if d < 10 then 48 + d else 87 + d)"
  by (simp add: hex_digit_def)

lemma hex_val_hex_digit [simp]: "d < 16 \<Longrightarrow> hex_val (hex_digit d) = Some d"
  by (simp add: hex_val_def code_hex_digit)

lemma fromhex_byte: "fromhex (hex2 (code b) @ s) = map_option ((#) b) (fromhex s)"
proof -
  have b: "code b div 16 < 16" using code_less [of b] by linarith
  then have "13 < code (hex_digit (code b div 16))" and "code (hex_digit (code b div 16)) \<noteq> 32"
    by (simp_all add: code_hex_digit)
  with b show ?thesis
    by (simp add: hex2_def)
qed

lemma fromhex_hexlify: "fromhex (hexlify bs) = Some bs"
  by (induction bs) (simp_all add: hexlify_def fromhex_byte)

section \<open>Base64\<close>

definition b64_char :: "nat \<Rightarrow> char" where
  "b64_char n =
     (if n < 26 then char_of (65 + n) else if n < 52 then char_of (71 + n)
      else if n < 62 then char_of (n - 4) else if n = 62 then CHR ''+'' else CHR ''/'')"

definition b64_val :: "char \<Rightarrow> nat option" where
  "b64_val c =
     (if 65 \<le> code c \<and> code c \<le> 90 then Some (code c - 65)
      else if 97 \<le> code c \<and> code c \<le> 122 then Some (code c - 71)
      else if 48 \<le> code c \<and> code c \<le> 57 then Some (code c + 4)
      else if code c = 43 then Some 62 else if code c = 47 then Some 63 else None)"

fun b64encode :: "bytes \<Rightarrow> string" where
  "b64encode [] = []"
| "b64encode [a] = [b64_char (code a div 4), b64_char (code a mod 4 * 16), CHR ''='', CHR ''='']"
| "b64encode [a, b] =
     [b64_char (code a div 4), b64_char (code a mod 4 * 16 + code b div 16),
      b64_char (code b mod 16 * 4), CHR ''='']"
| "b64encode (a # b # c # r) =
     [b64_char (code a div 4), b64_char (code a mod 4 * 16 + code b div 16),
      b64_char (code b mod 16 * 4 + code c div 64), b64_char (code c mod 64)] @ b64encode r"

text \<open>
  \<^verbatim>\<open>base64.b64decode\<close> in its default mode: \<open>q\<close> is the position in the current group of
  four, \<open>pads\<close> the padding seen since the last digit, \<open>left\<close> the bits not yet emitted.
  Characters outside the alphabet are skipped, enough padding ends the input, and an
  incomplete group raises (\<open>None\<close>).
\<close>

fun a2b_base64 :: "nat \<Rightarrow> nat \<Rightarrow> nat \<Rightarrow> string \<Rightarrow> bytes option" where
  "a2b_base64 q pads left [] = (if q = 0 then Some [] else None)"
| "a2b_base64 q pads left (c # cs) =
     (if code c = 61 then
        (if 2 \<le> q \<and> 4 \<le> q + pads + 1 then Some []
         else a2b_base64 q (if 2 \<le> q then pads + 1 else pads) left cs)
      else (case b64_val c of
              None \<Rightarrow> a2b_base64 q pads left cs
            | Some v \<Rightarrow>
                if q = 0 then a2b_base64 1 0 v cs
                else if q = 1 then
                  map_option ((#) (char_of (left * 4 + v div 16))) (a2b_base64 2 0 (v mod 16) cs)
                else if q = 2 then
                  map_option ((#) (char_of (left * 16 + v div 4))) (a2b_base64 3 0 (v mod 4) cs)
                else
                  map_option ((#) (char_of (left * 64 + v))) (a2b_base64 0 0 0 cs)))"

definition is_ascii :: "char \<Rightarrow> bool" where
  "is_ascii c \<longleftrightarrow> code c < 128"

definition b64decode :: "string \<Rightarrow> bytes option" where
  "b64decode s = (if list_all is_ascii s then a2b_base64 0 0 0 s else None)"

lemma code_b64_char:
  "n < 64 \<Longrightarrow> code (b64_char n) =
     (if n < 26 then 65 + n else if n < 52 then 71 + n else if n < 62 then n - 4
      else if n = 62 then 43 else 47)"
  by (auto simp: b64_char_def code_def)

lemma b64_val_b64_char [simp]: "n < 64 \<Longrightarrow> b64_val (b64_char n) = Some n"
  by (auto simp: b64_val_def code_b64_char)

lemma b64_char_not_pad [simp]: "n < 64 \<Longrightarrow> code (b64_char n) \<noteq> 61"
  by (auto simp: code_b64_char)

lemma b64_char_ascii: "n < 64 \<Longrightarrow> is_ascii (b64_char n)"
  by (auto simp: is_ascii_def code_b64_char)

lemma code_pad [simp]: "code CHR ''='' = 61"
  by (simp add: code_def)

text \<open>The six-bit digits of one, two and three bytes.\<close>

lemma sextet_bounds [simp]:
  "code a div 4 < 64" "code a mod 4 * 16 < 64" "code a mod 4 * 16 + code b div 16 < 64"
  "code b mod 16 * 4 < 64" "code b mod 16 * 4 + code c div 64 < 64"
  using code_less [of a] code_less [of b] code_less [of c] by linarith+

lemma sextet_parts [simp]:
  "code b div 16 div 16 = 0" "code b div 16 mod 16 = code b div 16"
  "code c div 64 div 4 = 0" "code c div 64 mod 4 = code c div 64"
proof -
  have "code b div 16 < 16" and "code c div 64 < 4"
    using code_less [of b] code_less [of c] by linarith+
  then show "code b div 16 div 16 = 0" "code b div 16 mod 16 = code b div 16"
    "code c div 64 div 4 = 0" "code c div 64 mod 4 = code c div 64"
    by simp_all
qed

lemma a2b_b64encode: "a2b_base64 0 0 0 (b64encode bs) = Some bs"
  by (induction bs rule: b64encode.induct) simp_all

lemma b64encode_ascii: "list_all is_ascii (b64encode bs)"
  by (induction bs rule: b64encode.induct) (simp_all add: b64_char_ascii, simp_all add: is_ascii_def)

lemma b64decode_b64encode: "b64decode (b64encode bs) = Some bs"
  by (simp add: b64decode_def b64encode_ascii a2b_b64encode)

section \<open>UTF-8\<close>

text \<open>\<^verbatim>\<open>str.encode("utf-8")\<close>: one byte for ASCII, two for the rest of Latin-1.\<close>

definition utf8_char :: "char \<Rightarrow> bytes" where
  "utf8_char c =
     (if code c < 128 then [c] else [char_of (192 + code c div 64), char_of (128 + code c mod 64)])"

definition utf8_encode :: "string \<Rightarrow> bytes" where
  "utf8_encode s = concat (map utf8_char s)"

lemma utf8_encode_ascii: "list_all is_ascii s \<Longrightarrow> utf8_encode s = s"
  by (induction s) (auto simp: utf8_encode_def utf8_char_def is_ascii_def)

end
