(* ===== verification/Json.thy ===== *)
theory Json
  imports Encoding
begin

text \<open>
  JSON values as the services hold them, \<^verbatim>\<open>json.dumps(v, sort_keys=True,
  separators=(",", ":"))\<close>, and the recursive redaction that the audit service
  (\<^verbatim>\<open>sanitize_metadata\<close>) and the anomaly responses (\<^verbatim>\<open>redact_sensitive_metadata\<close>) apply.
  The main result is that the printed text determines the value up to the order of
  dictionary keys, which is what makes a hash of the text a commitment to the value.
\<close>

section \<open>Values\<close>

text \<open>
  A dictionary is the list of its items in insertion order. A float is carried by its
  \<^verbatim>\<open>repr\<close>, which CPython guarantees to identify it and which \<^verbatim>\<open>json.dumps\<close> prints.
\<close>

datatype json =
    JNull
  | JBool bool
  | JInt int
  | JFloat string
  | JStr string
  | JList "json list"
  | JDict "(string \<times> json) list"

definition num_char :: "char \<Rightarrow> bool" where
  "num_char c \<longleftrightarrow> is_ascii_digit c \<or> c = CHR ''-'' \<or> c = CHR ''+'' \<or> c = CHR ''.'' \<or> c = CHR ''e''"

text \<open>The shape of a finite float's \<^verbatim>\<open>repr\<close>: it has a point or an exponent, so it is never an integer's.\<close>

definition float_text :: "string \<Rightarrow> bool" where
  "float_text r \<longleftrightarrow>
     r \<noteq> [] \<and> list_all num_char r \<and> (is_ascii_digit (hd r) \<or> hd r = CHR ''-'')
     \<and> (CHR ''.'' \<in> set r \<or> CHR ''e'' \<in> set r)"

fun wf_json :: "json \<Rightarrow> bool" where
  "wf_json (JFloat r) = float_text r"
| "wf_json (JList xs) = list_all wf_json xs"
| "wf_json (JDict kvs) = (distinct (map fst kvs) \<and> list_all (\<lambda>kv. wf_json (snd kv)) kvs)"
| "wf_json _ = True"

lemma size_item: "kv \<in> set kvs \<Longrightarrow> size (snd kv) < Suc (size_list (size_prod (\<lambda>_. 0) size) kvs)"
  by (induction kvs) (auto simp: less_Suc_eq_le)

section \<open>json.dumps\<close>

definition esc_char :: "char \<Rightarrow> string" where
  "esc_char c =
     (if code c = 34 then [CHR 0x5C, CHR 0x22]
      else if code c = 92 then [CHR 0x5C, CHR 0x5C]
      else if code c = 10 then [CHR 0x5C, CHR ''n'']
      else if code c = 13 then [CHR 0x5C, CHR ''r'']
      else if code c = 9 then [CHR 0x5C, CHR ''t'']
      else if code c = 12 then [CHR 0x5C, CHR ''f'']
      else if code c = 8 then [CHR 0x5C, CHR ''b'']
      else if 32 \<le> code c \<and> code c \<le> 126 then [c]
      else [CHR 0x5C, CHR ''u'', CHR ''0'', CHR ''0''] @ hex2 (code c))"

definition quote :: "string \<Rightarrow> string" where
  "quote s = [CHR 0x22] @ concat (map esc_char s) @ [CHR 0x22]"

fun print_json :: "json \<Rightarrow> string" where
  "print_json JNull = ''null''"
| "print_json (JBool b) = (if b then ''true'' else ''false'')"
| "print_json (JInt i) = show_int i"
| "print_json (JFloat r) = r"
| "print_json (JStr s) = quote s"
| "print_json (JList xs) = ''['' @ join '','' (map print_json xs) @ '']''"
| "print_json (JDict kvs) =
     ''{'' @ join '','' (map (\<lambda>kv. quote (fst kv) @ '':'' @ print_json (snd kv)) kvs) @ ''}''"

text \<open>\<^verbatim>\<open>sort_keys\<close>: at every level the items in the order of their keys.\<close>

fun canon :: "json \<Rightarrow> json" where
  "canon (JList xs) = JList (map canon xs)"
| "canon (JDict kvs) = JDict (sort_key fst (map (\<lambda>kv. (fst kv, canon (snd kv))) kvs))"
| "canon v = v"

definition dumps :: "json \<Rightarrow> string" where
  "dumps v = print_json (canon v)"

section \<open>The text determines the value\<close>

subsection \<open>Strings\<close>

lemma hex_digit_inj: "d < 16 \<Longrightarrow> e < 16 \<Longrightarrow> hex_digit d = hex_digit e \<longleftrightarrow> d = e"
  by (metis hex_val_hex_digit option.inject)

lemma hex2_inj: "hex2 (code c) = hex2 (code d) \<longleftrightarrow> c = d"
proof
  assume h: "hex2 (code c) = hex2 (code d)"
  have "code c div 16 < 16" "code d div 16 < 16"
    using code_less [of c] code_less [of d] by linarith+
  with h have "code c div 16 = code d div 16" "code c mod 16 = code d mod 16"
    by (simp_all add: hex2_def hex_digit_inj)
  then show "c = d" by (metis code_inj div_mult_mod_eq)
qed simp

lemma length_hex2 [simp]: "length (hex2 n) = 2"
  by (simp add: hex2_def)

lemma code_lits [simp]:
  "code (CHR 0x22) = 34" "code (CHR 0x5C) = 92"
  by (simp_all add: code_def)

lemma esc_char_plain:
  "32 \<le> code c \<Longrightarrow> code c \<le> 126 \<Longrightarrow> code c \<noteq> 34 \<Longrightarrow> code c \<noteq> 92 \<Longrightarrow> esc_char c = [c]"
  by (simp add: esc_char_def)

text \<open>The first character tells a plain character from an escape, the second which escape.\<close>

lemma esc_char_cases:
  obtains (plain) "esc_char c = [c]" "code c \<noteq> 34" "code c \<noteq> 92"
    | (short) e where "esc_char c = [CHR 0x5C, e]" "e \<noteq> CHR ''u''"
        "(e, code c) \<in> {(CHR 0x22, 34), (CHR 0x5C, 92), (CHR ''n'', 10), (CHR ''r'', 13),
           (CHR ''t'', 9), (CHR ''f'', 12), (CHR ''b'', 8)}"
    | (long) "esc_char c = [CHR 0x5C, CHR ''u'', CHR ''0'', CHR ''0''] @ hex2 (code c)"
proof -
  consider "code c \<in> {34, 92, 10, 13, 9, 12, 8}" | "code c \<notin> {34, 92, 10, 13, 9, 12, 8}" by blast
  then show ?thesis
  proof cases
    case 1
    then show ?thesis by (auto simp: esc_char_def intro: short)
  next
    case 2
    then show ?thesis
      by (cases "32 \<le> code c \<and> code c \<le> 126") (auto simp: esc_char_def intro: plain long)
  qed
qed

lemma esc_char_inj:
  assumes "esc_char c @ u = esc_char d @ v"
  shows "c = d \<and> u = v"
proof (cases c rule: esc_char_cases)
  case plain
  with assms show ?thesis by (cases d rule: esc_char_cases) auto
next
  case c: (short e)
  then show ?thesis
  proof (cases d rule: esc_char_cases)
    case (short e')
    with assms c have "code c = code d" and "u = v" by auto
    then show ?thesis by (simp add: code_inj)
  qed (use assms c in auto)
next
  case long
  with assms show ?thesis
    by (cases d rule: esc_char_cases) (auto simp: hex2_inj)
qed

lemma esc_char_hd: "esc_char c \<noteq> [] \<and> hd (esc_char c) \<noteq> CHR 0x22"
  by (cases c rule: esc_char_cases) auto

lemma esc_inj:
  "concat (map esc_char xs) @ CHR 0x22 # s = concat (map esc_char ys) @ CHR 0x22 # t
   \<Longrightarrow> xs = ys \<and> s = t"
proof (induction xs arbitrary: ys)
  case Nil
  then show ?case by (cases ys) (auto, metis esc_char_hd hd_append2 list.sel(1))
next
  case (Cons x xs)
  show ?case
  proof (cases ys)
    case Nil
    with Cons.prems show ?thesis by (auto, metis esc_char_hd hd_append2 list.sel(1))
  next
    case (Cons y ys')
    with Cons.prems have "esc_char x @ (concat (map esc_char xs) @ CHR 0x22 # s)
        = esc_char y @ (concat (map esc_char ys') @ CHR 0x22 # t)" by simp
    then have "x = y" and "concat (map esc_char xs) @ CHR 0x22 # s = concat (map esc_char ys') @ CHR 0x22 # t"
      by (blast dest: esc_char_inj)+
    with Cons.IH Cons show ?thesis by blast
  qed
qed

lemma quote_inj: "quote a @ s = quote b @ t \<Longrightarrow> a = b \<and> s = t"
  by (rule esc_inj) (simp add: quote_def)

subsection \<open>Numbers\<close>

definition delim :: "string \<Rightarrow> bool" where
  "delim s \<longleftrightarrow> s = [] \<or> hd s \<in> {CHR '','', CHR '']'', CHR ''}''}"

lemma delim_Cons [simp]: "delim (c # s) \<longleftrightarrow> c \<in> {CHR '','', CHR '']'', CHR ''}''}"
  by (simp add: delim_def)

lemma delim_not_num: "delim s \<Longrightarrow> s = [] \<or> \<not> num_char (hd s)"
  by (auto simp: delim_def num_char_def is_ascii_digit_def code_def)

lemma number_prefix:
  assumes "list_all num_char r" "list_all num_char r'" "r @ s = r' @ t" "delim s" "delim t"
  shows "r = r' \<and> s = t"
proof -
  have "takeWhile num_char (r @ s) = r"
    using assms(1) delim_not_num [OF assms(4)]
    by (cases s) (auto simp: list_all_iff takeWhile_append2)
  moreover have "takeWhile num_char (r' @ t) = r'"
    using assms(2) delim_not_num [OF assms(5)]
    by (cases t) (auto simp: list_all_iff takeWhile_append2)
  ultimately show ?thesis using assms(3) by auto
qed

lemma digit_num_char: "is_ascii_digit c \<Longrightarrow> num_char c"
  by (simp add: num_char_def)

lemma show_int_num: "list_all num_char (show_int i)"
  using show_nat_digits by (auto simp: show_int_def list_all_iff digit_num_char num_char_def)

lemma show_int_no_point: "CHR ''.'' \<notin> set (show_int i) \<and> CHR ''e'' \<notin> set (show_int i)"
proof -
  have "\<not> is_ascii_digit CHR ''.''" "\<not> is_ascii_digit CHR ''e''"
    by (simp_all add: is_ascii_digit_def code_def)
  then have "CHR ''.'' \<notin> set (show_nat n) \<and> CHR ''e'' \<notin> set (show_nat n)" for n
    using show_nat_digits [of n] by (auto simp: list_all_iff)
  then show ?thesis by (simp add: show_int_def)
qed

lemma hd_show_nat: "is_ascii_digit (hd (show_nat n))"
  using show_nat_digits [of n] by (cases "show_nat n") auto

lemma show_int_inj: "show_int i = show_int j \<Longrightarrow> i = j"
proof -
  assume h: "show_int i = show_int j"
  have m: "hd (show_nat n) \<noteq> CHR ''-''" for n
    using hd_show_nat [of n] by (auto simp: is_ascii_digit_def code_def)
  have "(i < 0) = (j < 0)"
    using h m by (metis list.sel(1) show_int_def)
  with h show ?thesis by (auto simp: show_int_def dest!: show_nat_inj split: if_splits)
qed

lemma float_not_int: "float_text r \<Longrightarrow> r \<noteq> show_int i"
  using show_int_no_point [of i] by (auto simp: float_text_def)

subsection \<open>Sequences\<close>

text \<open>
  A printer whose outputs can be told apart up to a delimiter can be told apart when its
  outputs are joined by commas and closed by a bracket.
\<close>

lemma joined_inj:
  assumes "\<And>x y u v. x \<in> set xs \<Longrightarrow> y \<in> set ys \<Longrightarrow> p x @ u = p y @ v \<Longrightarrow> delim u \<Longrightarrow> delim v \<Longrightarrow> x = y \<and> u = v"
    and "\<And>z. z \<in> set xs \<union> set ys \<Longrightarrow> p z \<noteq> [] \<and> \<not> delim (p z)"
    and "c \<in> {CHR '']'', CHR ''}''}"
    and "join '','' (map p xs) @ c # s = join '','' (map p ys) @ c # t"
  shows "xs = ys \<and> s = t"
  using assms
proof (induction xs arbitrary: ys)
  case Nil
  show ?case
  proof (cases ys)
    case (Cons y zs)
    then obtain w where w: "join '','' (map p ys) = p y @ w" by (cases zs) auto
    with Nil Cons have "hd (p y) = c" by (metis append_Nil append_is_Nil_conv hd_append2 list.sel(1)
        list.set_intros(1) Un_iff map_is_Nil_conv join.simps(1) list.simps(8))
    with Nil Cons show ?thesis by (auto simp: delim_def)
  qed (use Nil in auto)
next
  case (Cons x xs)
  have px: "p x \<noteq> []" "\<not> delim (p x)" using Cons.prems(2) [of x] by auto
  obtain w where w: "join '','' (map p (x # xs)) @ c # s = p x @ w"
    "w = (if xs = [] then c # s else '','' @ join '','' (map p xs) @ c # s)"
    by (cases xs) auto
  show ?case
  proof (cases ys)
    case Nil
    with Cons.prems(4) w px have "hd (p x) = c" by (metis append_Nil hd_append2 list.sel(1) join.simps(1) list.simps(8))
    with Cons.prems(3) px show ?thesis by (auto simp: delim_def)
  next
    case (Cons y zs)
    obtain w' where w': "join '','' (map p (y # zs)) @ c # t = p y @ w'"
      "w' = (if zs = [] then c # t else '','' @ join '','' (map p zs) @ c # t)"
      by (cases zs) auto
    have "delim w" "delim w'" using w(2) w'(2) Cons.prems(3) by auto
    then have xy: "x = y" "w = w'"
      using Cons.prems(1) [of x y w w'] Cons.prems(4) w(1) w'(1) Cons by auto
    have cc: "c \<noteq> CHR '',''" using Cons.prems(3) by auto
    show ?thesis
    proof (cases "xs = []")
      case True
      with xy(2) w(2) w'(2) cc have "zs = [] \<and> s = t" by (auto split: if_splits)
      with True xy(1) Cons show ?thesis by simp
    next
      case False
      with xy(2) w(2) w'(2) cc have "join '','' (map p xs) @ c # s = join '','' (map p zs) @ c # t"
        by (auto split: if_splits)
      then have "xs = zs \<and> s = t"
        using Cons.IH [of zs] Cons.prems Cons by (metis Un_iff list.set_intros(2))
      with xy(1) Cons show ?thesis by simp
    qed
  qed
qed

subsection \<open>Values\<close>

definition item :: "string \<times> json \<Rightarrow> string" where
  "item kv = quote (fst kv) @ '':'' @ print_json (snd kv)"

lemma print_JDict: "print_json (JDict kvs) = ''{'' @ join '','' (map item kvs) @ ''}''"
  by (simp add: item_def [abs_def])

lemma quote_hd: "quote s = CHR 0x22 # tl (quote s)"
  by (simp add: quote_def)

lemma num_start_cases:
  assumes "is_ascii_digit c \<or> c = CHR ''-''"
  shows "c \<notin> {CHR '','', CHR '']'', CHR ''}'', CHR ''n'', CHR ''t'', CHR ''f'', CHR 0x22, CHR ''['', CHR ''{''}"
  using assms by (auto simp: is_ascii_digit_def code_def)

lemma show_int_hd: "show_int i \<noteq> [] \<and> (is_ascii_digit (hd (show_int i)) \<or> hd (show_int i) = CHR ''-'')"
  using hd_show_nat by (simp add: show_int_def)

text \<open>The first character of the text gives the kind of value.\<close>

definition char_kind :: "char \<Rightarrow> nat" where
  "char_kind c =
     (if c = CHR ''n'' then 0 else if c = CHR ''t'' \<or> c = CHR ''f'' then 1
      else if c = CHR 0x22 then 3 else if c = CHR ''['' then 4 else if c = CHR ''{'' then 5
      else if c \<in> {CHR '','', CHR '']'', CHR ''}''} then 6 else 2)"

fun json_kind :: "json \<Rightarrow> nat" where
  "json_kind JNull = 0"
| "json_kind (JBool _) = 1"
| "json_kind (JInt _) = 2"
| "json_kind (JFloat _) = 2"
| "json_kind (JStr _) = 3"
| "json_kind (JList _) = 4"
| "json_kind (JDict _) = 5"

lemma char_kind_number: "is_ascii_digit c \<or> c = CHR ''-'' \<Longrightarrow> char_kind c = 2"
  by (drule num_start_cases) (simp add: char_kind_def)

lemma print_kind: "wf_json v \<Longrightarrow> print_json v \<noteq> [] \<and> char_kind (hd (print_json v)) = json_kind v"
  using show_int_hd
  by (cases v) (auto simp: quote_def char_kind_number float_text_def, auto simp: char_kind_def)

lemma print_hd: "wf_json v \<Longrightarrow> print_json v \<noteq> [] \<and> \<not> delim (print_json v)"
  using print_kind [of v] by (cases v) (auto simp: delim_def char_kind_def)

lemma item_hd: "item kv \<noteq> [] \<and> \<not> delim (item kv)"
  by (simp add: item_def quote_def)

lemma same_kind:
  assumes "wf_json a" "wf_json b" "print_json a @ s = print_json b @ t"
  shows "json_kind a = json_kind b"
  using print_kind [OF assms(1)] print_kind [OF assms(2)] assms(3) by (metis hd_append2)

text \<open>Two values whose texts agree up to a delimiter are equal.\<close>

lemma print_json_inj_delim:
  assumes "wf_json a" "wf_json b" "print_json a @ s = print_json b @ t" "delim s" "delim t"
  shows "a = b \<and> s = t"
  using assms
proof (induction a arbitrary: b s t)
  case JNull
  from same_kind [OF JNull.prems(1-3)] JNull.prems show ?case by (cases b) auto
next
  case (JBool x)
  from same_kind [OF JBool.prems(1-3)] JBool.prems show ?case
    by (cases b) (auto split: if_splits)
next
  case (JInt i)
  from same_kind [OF JInt.prems(1-3)] show ?case
  proof (cases b)
    case (JInt j)
    with JInt.prems have "show_int i = show_int j \<and> s = t"
      using number_prefix [of "show_int i" "show_int j" s t] by (simp add: show_int_num)
    with JInt show ?thesis by (auto dest: show_int_inj)
  next
    case (JFloat r)
    with JInt.prems have "show_int i = r"
      using number_prefix [of "show_int i" r s t] by (simp add: float_text_def show_int_num)
    with JInt.prems(2) JFloat show ?thesis by (metis float_not_int wf_json.simps(1))
  qed auto
next
  case (JFloat r)
  from same_kind [OF JFloat.prems(1-3)] show ?case
  proof (cases b)
    case (JInt i)
    with JFloat.prems have "r = show_int i"
      using number_prefix [of r "show_int i" s t] by (simp add: float_text_def show_int_num)
    with JFloat.prems(1) show ?thesis using float_not_int by auto
  next
    case (JFloat r')
    with JFloat.prems show ?thesis using number_prefix [of r r' s t] by (simp add: float_text_def)
  qed auto
next
  case (JStr x)
  from same_kind [OF JStr.prems(1-3)] JStr.prems show ?case
    by (cases b) (auto dest: quote_inj)
next
  case (JList xs)
  from same_kind [OF JList.prems(1-3)] obtain ys where b: "b = JList ys" by (cases b) auto
  have "xs = ys \<and> s = t"
  proof (rule joined_inj [of xs ys print_json "CHR '']''"])
    show "x = y \<and> u = v" if "x \<in> set xs" "y \<in> set ys" "print_json x @ u = print_json y @ v"
      "delim u" "delim v" for x y u v
      using JList.IH [OF that(1)] JList.prems that b by (auto simp: list_all_iff)
  qed (use JList.prems b print_hd in \<open>auto simp: list_all_iff\<close>)
  with b show ?case by simp
next
  case (JDict kvs)
  from same_kind [OF JDict.prems(1-3)] obtain ys where b: "b = JDict ys" by (cases b) auto
  have "kvs = ys \<and> s = t"
  proof (rule joined_inj [of kvs ys item "CHR ''}''"])
    show "x = y \<and> u = v" if x: "x \<in> set kvs" and y: "y \<in> set ys" and eq: "item x @ u = item y @ v"
      and d: "delim u" "delim v" for x y u v
    proof -
      from eq have "quote (fst x) @ ('':'' @ print_json (snd x) @ u)
          = quote (fst y) @ ('':'' @ print_json (snd y) @ v)" by (simp add: item_def)
      then have "fst x = fst y" and "print_json (snd x) @ u = print_json (snd y) @ v"
        by (auto dest: quote_inj)
      moreover have "wf_json (snd x)" "wf_json (snd y)"
        using JDict.prems x y b by (auto simp: list_all_iff)
      ultimately show ?thesis
        using JDict.IH [of x "snd x"] x d by (metis prod.collapse prod_set_simps(2) singletonI snds.intros)
    qed
  qed (use JDict.prems b item_hd print_JDict in \<open>auto\<close>)
  with b show ?case by simp
qed

lemma print_json_inj: "wf_json a \<Longrightarrow> wf_json b \<Longrightarrow> print_json a = print_json b \<Longrightarrow> a = b"
  using print_json_inj_delim [of a b "[]" "[]"] by (simp add: delim_def)

lemma distinct_map_sort_key: "distinct (map f (sort_key k xs)) = distinct (map f xs)"
  by (simp add: distinct_map)

lemma wf_canon: "wf_json v \<Longrightarrow> wf_json (canon v)"
proof (induction v)
  case (JDict kvs)
  have "wf_json (canon (snd kv))" if "kv \<in> set kvs" for kv
    using JDict that by (cases kv) (fastforce simp: list_all_iff)
  moreover have "map fst (map (\<lambda>kv. (fst kv, canon (snd kv))) kvs) = map fst kvs" by simp
  ultimately show ?case
    using JDict.prems by (simp add: list_all_iff distinct_map_sort_key comp_def)
qed (auto simp: list_all_iff)

text \<open>Equal texts come from values that differ at most in the order of their keys.\<close>

lemma dumps_inj: "wf_json a \<Longrightarrow> wf_json b \<Longrightarrow> dumps a = dumps b \<Longrightarrow> canon a = canon b"
  unfolding dumps_def by (rule print_json_inj) (simp_all add: wf_canon)

section \<open>Redaction of sensitive keys\<close>

definition REDACTED_METADATA_VALUE :: string where
  "REDACTED_METADATA_VALUE = ''[REDACTED]''"

definition SENSITIVE_METADATA_KEYS :: "string list" where
  "SENSITIVE_METADATA_KEYS =
     [''access_token'', ''api_key'', ''apikey'', ''authorization'', ''credential'', ''credentials'',
      ''password'', ''private_key'', ''refresh_token'', ''secret'', ''secret_key'', ''token'']"

definition sensitive_key :: "string \<Rightarrow> bool" where
  "sensitive_key k \<longleftrightarrow> lower k \<in> set SENSITIVE_METADATA_KEYS"

text \<open>\<^verbatim>\<open>audit_service.sanitize_metadata\<close>.\<close>

fun sanitize_metadata :: "json \<Rightarrow> json" where
  "sanitize_metadata (JDict kvs) =
     JDict (map (\<lambda>kv. (fst kv,
        if sensitive_key (fst kv) then JStr REDACTED_METADATA_VALUE
        else sanitize_metadata (snd kv))) kvs)"
| "sanitize_metadata (JList xs) = JList (map sanitize_metadata xs)"
| "sanitize_metadata v = v"

text \<open>\<^verbatim>\<open>schemas/anomaly.redact_sensitive_metadata\<close>, the copy the response schema applies.\<close>

fun redact_sensitive_metadata :: "json \<Rightarrow> json" where
  "redact_sensitive_metadata (JDict kvs) =
     JDict (map (\<lambda>kv. (fst kv,
        if sensitive_key (fst kv) then JStr REDACTED_METADATA_VALUE
        else redact_sensitive_metadata (snd kv))) kvs)"
| "redact_sensitive_metadata (JList xs) = JList (map redact_sensitive_metadata xs)"
| "redact_sensitive_metadata v = v"

text \<open>
  What redaction promises, stated on paths: a path is the dictionary keys and list
  positions from the root to a nested value.
\<close>

datatype step = Key string | Idx nat

fun at_path :: "step list \<Rightarrow> json \<Rightarrow> json option" where
  "at_path [] v = Some v"
| "at_path (Key k # p) (JDict kvs) = (case map_of kvs k of None \<Rightarrow> None | Some v \<Rightarrow> at_path p v)"
| "at_path (Idx i # p) (JList xs) = (if i < length xs then at_path p (xs ! i) else None)"
| "at_path _ _ = None"

fun sensitive_step :: "step \<Rightarrow> bool" where
  "sensitive_step (Key k) = sensitive_key k"
| "sensitive_step (Idx i) = False"

lemma map_of_map_item:
  "map_of (map (\<lambda>kv. (fst kv, f (fst kv) (snd kv))) kvs) k = map_option (f k) (map_of kvs k)"
  by (induction kvs) auto

text \<open>Off the sensitive keys nothing moves and nothing is lost.\<close>

lemma at_path_sanitize:
  "list_all (\<lambda>s. \<not> sensitive_step s) p \<Longrightarrow>
   at_path p (sanitize_metadata v) = map_option sanitize_metadata (at_path p v)"
proof (induction p v rule: at_path.induct)
  case (2 k p kvs)
  then show ?case
    using map_of_map_item [of "\<lambda>k v. if sensitive_key k then JStr REDACTED_METADATA_VALUE
      else sanitize_metadata v" kvs k]
    by (auto split: option.splits)
qed auto

lemma sanitize_fixes_leaves:
  "(\<And>kvs. v \<noteq> JDict kvs) \<Longrightarrow> (\<And>xs. v \<noteq> JList xs) \<Longrightarrow> sanitize_metadata v = v"
  by (cases v) auto

text \<open>Below a sensitive key there is only the placeholder.\<close>

lemma at_path_sanitize_sensitive:
  "at_path (p @ [Key k]) (sanitize_metadata v) = Some w \<Longrightarrow> sensitive_key k \<Longrightarrow>
   w = JStr REDACTED_METADATA_VALUE"
proof (induction p arbitrary: v)
  case Nil
  then show ?case
    using map_of_map_item [of "\<lambda>k v. if sensitive_key k then JStr REDACTED_METADATA_VALUE
      else sanitize_metadata v" _ k]
    by (cases v) (auto split: option.splits)
next
  case (Cons s p)
  show ?case
  proof (cases s)
    case (Key l)
    with Cons.prems obtain kvs where v: "v = JDict kvs" by (cases v) auto
    with Cons Key show ?thesis
      using map_of_map_item [of "\<lambda>k v. if sensitive_key k then JStr REDACTED_METADATA_VALUE
        else sanitize_metadata v" kvs l]
      by (cases p) (auto split: option.splits if_splits)
  next
    case (Idx i)
    with Cons.prems obtain xs where v: "v = JList xs" by (cases v) auto
    with Cons Idx show ?thesis by (auto split: if_splits)
  qed
qed

lemma sanitize_idem: "sanitize_metadata (sanitize_metadata v) = sanitize_metadata v"
  by (induction v rule: sanitize_metadata.induct) auto

lemma redact_eq_sanitize: "redact_sensitive_metadata v = sanitize_metadata v"
  by (induction v rule: sanitize_metadata.induct) auto

lemma wf_sanitize: "wf_json v \<Longrightarrow> wf_json (sanitize_metadata v)"
proof (induction v rule: sanitize_metadata.induct)
  case (1 kvs)
  then show ?case by (auto simp: list_all_iff comp_def)
qed (auto simp: list_all_iff)

end
