(* ===== verification/Settings.thy ===== *)
theory Settings
  imports Json
begin

text \<open>
  \<^verbatim>\<open>src/app/core/config.py\<close>: the application settings and the validators that refuse an
  unsafe production configuration. Pydantic's coercion of the DEBUG field to a boolean
  is a parameter (\<open>coerce_bool\<close>); the validators of the source are definitions.
\<close>

section \<open>The settings\<close>

record Settings =
  PROJECT_NAME :: string
  API_V1_PREFIX :: string
  ENVIRONMENT :: string
  DEBUG :: bool
  POSTGRES_HOST :: string
  POSTGRES_PORT :: int
  POSTGRES_USER :: string
  POSTGRES_PASSWORD :: string
  POSTGRES_DB :: string
  DATABASE_URL :: string
  DB_ECHO :: bool
  DB_POOL_SIZE :: int
  DB_MAX_OVERFLOW :: int
  SECRET_KEY :: string
  JWT_ALGORITHM :: string
  ACCESS_TOKEN_EXPIRE_MINUTES :: int
  REFRESH_TOKEN_EXPIRE_DAYS :: int
  CORS_ORIGINS :: "string list"
  AUDIT_SIGNING_KEY_PATH :: string
  DEFAULT_PAGE_SIZE :: nat
  MAX_PAGE_SIZE :: nat

text \<open>The values read from the environment, before validation.\<close>

record raw_settings =
  raw_PROJECT_NAME :: string
  raw_API_V1_PREFIX :: string
  raw_ENVIRONMENT :: string
  raw_DEBUG :: json
  raw_POSTGRES_HOST :: string
  raw_POSTGRES_PORT :: int
  raw_POSTGRES_USER :: string
  raw_POSTGRES_PASSWORD :: string
  raw_POSTGRES_DB :: string
  raw_DATABASE_URL :: "string option"
  raw_DB_ECHO :: bool
  raw_DB_POOL_SIZE :: int
  raw_DB_MAX_OVERFLOW :: int
  raw_SECRET_KEY :: string
  raw_JWT_ALGORITHM :: string
  raw_ACCESS_TOKEN_EXPIRE_MINUTES :: int
  raw_REFRESH_TOKEN_EXPIRE_DAYS :: int
  raw_CORS_ORIGINS :: "string list"
  raw_AUDIT_SIGNING_KEY_PATH :: string
  raw_DEFAULT_PAGE_SIZE :: nat
  raw_MAX_PAGE_SIZE :: nat

definition DEFAULT_SECRET_KEY :: string where
  "DEFAULT_SECRET_KEY = ''change-me-in-production-this-is-a-dev-only-secret''"

definition INSECURE_SECRET_KEYS :: "string list" where
  "INSECURE_SECRET_KEYS =
     [DEFAULT_SECRET_KEY, ''change-me'', ''change-me-in-production'', ''changeme'', ''secret'']"

definition ALLOWED_JWT_ALGORITHMS :: "string list" where
  "ALLOWED_JWT_ALGORITHMS = [''HS256'', ''HS384'', ''HS512'']"

section \<open>Validators\<close>

text \<open>
  \<^verbatim>\<open>str.upper\<close>. The sharp s becomes two letters; the micro sign and the y with diaeresis
  have capitals above code point 255 and are left alone here.
\<close>

definition upper_char :: "char \<Rightarrow> string" where
  "upper_char c =
     (if code c = 223 then ''SS''
      else if (97 \<le> code c \<and> code c \<le> 122) \<or> (224 \<le> code c \<and> code c \<le> 254 \<and> code c \<noteq> 247)
      then [char_of (code c - 32)] else [c])"

definition upper :: "string \<Rightarrow> string" where
  "upper s = concat (map upper_char s)"

definition assemble_db_url :: "string option \<Rightarrow> raw_settings \<Rightarrow> string" where
  "assemble_db_url value data =
     (if value \<noteq> None \<and> value \<noteq> Some [] then the value
      else ''postgresql+asyncpg://'' @ raw_POSTGRES_USER data @ '':'' @ raw_POSTGRES_PASSWORD data
        @ ''@'' @ raw_POSTGRES_HOST data @ '':'' @ show_int (raw_POSTGRES_PORT data) @ ''/''
        @ raw_POSTGRES_DB data)"

definition parse_debug :: "json \<Rightarrow> json" where
  "parse_debug value =
     (case value of
        JStr v \<Rightarrow>
          (let normalized = lower (strip v) in
           if normalized \<in> {''release'', ''production'', ''prod''} then JBool False
           else if normalized \<in> {''development'', ''dev''} then JBool True
           else value)
      | _ \<Rightarrow> value)"

definition validate_jwt_algorithm :: "string \<Rightarrow> string + string" where
  "validate_jwt_algorithm value =
     (let algorithm = upper (strip value) in
      if algorithm \<notin> set ALLOWED_JWT_ALGORITHMS
      then Inl ''JWT_ALGORITHM must be one of HS256, HS384, or HS512''
      else Inr algorithm)"

definition validate_production_security :: "Settings \<Rightarrow> string + Settings" where
  "validate_production_security st =
     (let environment = lower (strip (ENVIRONMENT st)) in
      if environment \<in> {''production'', ''prod'', ''release''} then
        (if DEBUG st then Inl ''DEBUG must be disabled in production''
         else if strip (SECRET_KEY st) \<in> set INSECURE_SECRET_KEYS
         then Inl ''SECRET_KEY must be set to a secure value in production''
         else Inr st)
      else Inr st)"

text \<open>
  \<^verbatim>\<open>Settings()\<close>: the field validators in the order of the fields, then the model
  validator. \<open>coerce_bool\<close> is Pydantic's conversion of the DEBUG value, \<open>valid_dsn\<close> its check
  of the PostgreSQL address; the other fields come converted to their types.
\<close>

definition load_settings ::
  "(json \<Rightarrow> bool option) \<Rightarrow> (string \<Rightarrow> bool) \<Rightarrow> raw_settings \<Rightarrow> string + Settings" where
  "load_settings coerce_bool valid_dsn raw =
     (case coerce_bool (parse_debug (raw_DEBUG raw)) of
        None \<Rightarrow> Inl ''DEBUG''
      | Some debug \<Rightarrow>
          if \<not> valid_dsn (assemble_db_url (raw_DATABASE_URL raw) raw) then Inl ''DATABASE_URL''
          else
          (case validate_jwt_algorithm (raw_JWT_ALGORITHM raw) of
             Inl e \<Rightarrow> Inl e
           | Inr algorithm \<Rightarrow>
               validate_production_security
                 \<lparr>PROJECT_NAME = raw_PROJECT_NAME raw, API_V1_PREFIX = raw_API_V1_PREFIX raw,
                  ENVIRONMENT = raw_ENVIRONMENT raw, DEBUG = debug,
                  POSTGRES_HOST = raw_POSTGRES_HOST raw, POSTGRES_PORT = raw_POSTGRES_PORT raw,
                  POSTGRES_USER = raw_POSTGRES_USER raw,
                  POSTGRES_PASSWORD = raw_POSTGRES_PASSWORD raw,
                  POSTGRES_DB = raw_POSTGRES_DB raw,
                  DATABASE_URL = assemble_db_url (raw_DATABASE_URL raw) raw,
                  DB_ECHO = raw_DB_ECHO raw, DB_POOL_SIZE = raw_DB_POOL_SIZE raw, DB_MAX_OVERFLOW = raw_DB_MAX_OVERFLOW raw,
                  SECRET_KEY = raw_SECRET_KEY raw, JWT_ALGORITHM = algorithm,
                  ACCESS_TOKEN_EXPIRE_MINUTES = raw_ACCESS_TOKEN_EXPIRE_MINUTES raw,
                  REFRESH_TOKEN_EXPIRE_DAYS = raw_REFRESH_TOKEN_EXPIRE_DAYS raw,
                  CORS_ORIGINS = raw_CORS_ORIGINS raw, AUDIT_SIGNING_KEY_PATH = raw_AUDIT_SIGNING_KEY_PATH raw,
                  DEFAULT_PAGE_SIZE = raw_DEFAULT_PAGE_SIZE raw,
                  MAX_PAGE_SIZE = raw_MAX_PAGE_SIZE raw\<rparr>))"

section \<open>Properties\<close>

text \<open>
  C31. Settings that load are safe: the signing algorithm is one of the three allowed ones, and
  a production environment, however it is spelled or padded, has DEBUG off and a secret key
  that is none of the published defaults, even padded with blanks. The algorithm is the given
  one, stripped and in upper case, the database address is the given one or, where none is
  given, the one assembled from the credentials, DEBUG is what the given value converts to,
  and every other setting is the given value.
\<close>

theorem loaded_settings_are_safe:
  assumes "load_settings coerce_bool valid_dsn raw = Inr st"
  shows "JWT_ALGORITHM st \<in> {''HS256'', ''HS384'', ''HS512''}
    \<and> JWT_ALGORITHM st = upper (strip (raw_JWT_ALGORITHM raw))
    \<and> valid_dsn (DATABASE_URL st)
    \<and> (lower (strip (raw_ENVIRONMENT raw)) \<in> {''production'', ''prod'', ''release''} \<longrightarrow>
         \<not> DEBUG st \<and> strip (SECRET_KEY st) \<notin> {''change-me-in-production-this-is-a-dev-only-secret'',
              ''change-me'', ''change-me-in-production'', ''changeme'', ''secret''})
    \<and> coerce_bool (parse_debug (raw_DEBUG raw)) = Some (DEBUG st)
    \<and> DATABASE_URL st = (if raw_DATABASE_URL raw \<noteq> None \<and> raw_DATABASE_URL raw \<noteq> Some []
         then the (raw_DATABASE_URL raw)
         else ''postgresql+asyncpg://'' @ raw_POSTGRES_USER raw @ '':'' @ raw_POSTGRES_PASSWORD raw @ ''@''
           @ raw_POSTGRES_HOST raw @ '':'' @ show_int (raw_POSTGRES_PORT raw) @ ''/'' @ raw_POSTGRES_DB raw)
    \<and> st = \<lparr>PROJECT_NAME = raw_PROJECT_NAME raw, API_V1_PREFIX = raw_API_V1_PREFIX raw,
        ENVIRONMENT = raw_ENVIRONMENT raw, DEBUG = DEBUG st, POSTGRES_HOST = raw_POSTGRES_HOST raw,
        POSTGRES_PORT = raw_POSTGRES_PORT raw, POSTGRES_USER = raw_POSTGRES_USER raw,
        POSTGRES_PASSWORD = raw_POSTGRES_PASSWORD raw, POSTGRES_DB = raw_POSTGRES_DB raw,
        DATABASE_URL = DATABASE_URL st, DB_ECHO = raw_DB_ECHO raw, DB_POOL_SIZE = raw_DB_POOL_SIZE raw,
        DB_MAX_OVERFLOW = raw_DB_MAX_OVERFLOW raw, SECRET_KEY = raw_SECRET_KEY raw,
        JWT_ALGORITHM = JWT_ALGORITHM st, ACCESS_TOKEN_EXPIRE_MINUTES = raw_ACCESS_TOKEN_EXPIRE_MINUTES raw,
        REFRESH_TOKEN_EXPIRE_DAYS = raw_REFRESH_TOKEN_EXPIRE_DAYS raw, CORS_ORIGINS = raw_CORS_ORIGINS raw,
        AUDIT_SIGNING_KEY_PATH = raw_AUDIT_SIGNING_KEY_PATH raw, DEFAULT_PAGE_SIZE = raw_DEFAULT_PAGE_SIZE raw,
        MAX_PAGE_SIZE = raw_MAX_PAGE_SIZE raw\<rparr>"
proof -
  have sets: "{''HS256'', ''HS384'', ''HS512''} = set ALLOWED_JWT_ALGORITHMS"
    "{''change-me-in-production-this-is-a-dev-only-secret'', ''change-me'', ''change-me-in-production'',
      ''changeme'', ''secret''} = set INSECURE_SECRET_KEYS"
    unfolding ALLOWED_JWT_ALGORITHMS_def INSECURE_SECRET_KEYS_def DEFAULT_SECRET_KEY_def
    by (simp_all only: list.set)
  show ?thesis
    using assms unfolding sets load_settings_def validate_jwt_algorithm_def validate_production_security_def
      assemble_db_url_def Let_def
    by (auto split: option.splits sum.splits if_splits)
qed

definition demo_raw :: raw_settings where
  "demo_raw = \<lparr>raw_PROJECT_NAME = ''Nexus Engine API'', raw_API_V1_PREFIX = ''/api/v1'',
     raw_ENVIRONMENT = '' Production'', raw_DEBUG = JStr ''release'', raw_POSTGRES_HOST = ''db'',
     raw_POSTGRES_PORT = 5, raw_POSTGRES_USER = ''u'', raw_POSTGRES_PASSWORD = ''p'', raw_POSTGRES_DB = ''d'',
     raw_DATABASE_URL = None, raw_DB_ECHO = False, raw_DB_POOL_SIZE = 10, raw_DB_MAX_OVERFLOW = 5,
     raw_SECRET_KEY = ''k'', raw_JWT_ALGORITHM = '' hs256'',
     raw_ACCESS_TOKEN_EXPIRE_MINUTES = 480, raw_REFRESH_TOKEN_EXPIRE_DAYS = 30,
     raw_CORS_ORIGINS = [''http://localhost:5173''], raw_AUDIT_SIGNING_KEY_PATH = ''./var/audit_signing_key.pem'',
     raw_DEFAULT_PAGE_SIZE = 50, raw_MAX_PAGE_SIZE = 200\<rparr>"

definition demo_coerce_bool :: "json \<Rightarrow> bool option" where
  "demo_coerce_bool v = (case v of JBool b \<Rightarrow> Some b | _ \<Rightarrow> None)"

theorem loaded_settings_are_safe_witness:
  "\<exists>st. load_settings demo_coerce_bool (\<lambda>_. True) demo_raw = Inr st \<and> \<not> DEBUG st
     \<and> JWT_ALGORITHM st \<in> {''HS256'', ''HS384'', ''HS512''}"
proof -
  have "\<not> isl (load_settings demo_coerce_bool (\<lambda>_. True) demo_raw)" by code_simp
  then obtain st where st: "load_settings demo_coerce_bool (\<lambda>_. True) demo_raw = Inr st"
    by (metis isl_def sum.exhaust)
  have "lower (strip (raw_ENVIRONMENT demo_raw)) = ''production''" by code_simp
  then have prod: "lower (strip (raw_ENVIRONMENT demo_raw)) \<in> {''production'', ''prod'', ''release''}"
    by (simp only: insertI1)
  note safe = loaded_settings_are_safe [OF st]
  from safe prod have "\<not> DEBUG st" by blast
  moreover from safe have "JWT_ALGORITHM st \<in> {''HS256'', ''HS384'', ''HS512''}" by (rule conjunct1)
  ultimately show ?thesis using st by blast
qed

end
