(* ===== verification/Auth.thy ===== *)
theory Auth
  imports Settings
begin

text \<open>
  Accounts, rotating refresh tokens and password resets: \<^verbatim>\<open>src/app/models/user.py\<close>,
  \<^verbatim>\<open>src/app/core/security.py\<close>, \<^verbatim>\<open>src/app/services/auth_service.py\<close>,
  \<^verbatim>\<open>src/app/api/deps.py\<close> and \<^verbatim>\<open>src/app/api/v1/endpoints/auth.py\<close>.
\<close>

section \<open>The platform the services call\<close>

text \<open>
  Third-party and operating-system functions are fields of a record every definition
  that uses them receives: bcrypt hashing with its salt (\<^verbatim>\<open>passlib\<close>), SHA-256, JWT
  coding (\<^verbatim>\<open>jose\<close>, with the secret, the algorithm and the clock) and the text form of a
  UUID. Clock readings and random values are arguments of the operation.
\<close>

datatype claim = CStr string | CTime datetime

type_synonym claims = "(string \<times> claim) list"

record platform =
  bcrypt_hash :: "nat \<Rightarrow> string \<Rightarrow> string"
  bcrypt_verify :: "string \<Rightarrow> string \<Rightarrow> bool"
  sha256 :: "bytes \<Rightarrow> bytes"
  jwt_encode :: "claims \<Rightarrow> string \<Rightarrow> string \<Rightarrow> string"
  jwt_decode :: "datetime \<Rightarrow> string \<Rightarrow> string \<Rightarrow> string \<Rightarrow> claims option"
  uuid_text :: "uuid \<Rightarrow> string"
  uuid_parse :: "string \<Rightarrow> uuid option"

section \<open>Models\<close>

record User =
  u_id :: uuid
  u_email :: string
  u_display_name :: string
  u_hashed_password :: string
  u_is_active :: bool
  u_is_admin :: bool
  u_created_at :: datetime

record RefreshToken =
  rt_id :: uuid
  rt_user_id :: uuid
  rt_token_hash :: string
  rt_expires_at :: datetime
  rt_revoked_at :: "datetime option"
  rt_created_at :: datetime

record PasswordResetToken =
  prt_id :: uuid
  prt_user_id :: uuid
  prt_token_hash :: string
  prt_expires_at :: datetime
  prt_used_at :: "datetime option"

record auth_db =
  users :: "User list"
  refresh_tokens :: "RefreshToken list"
  password_reset_tokens :: "PasswordResetToken list"

interpretation users_table: table u_id users users_update
  by unfold_locales simp

interpretation refresh_tokens_table: table rt_id refresh_tokens refresh_tokens_update
  by unfold_locales simp

interpretation reset_tokens_table: table prt_id password_reset_tokens password_reset_tokens_update
  by unfold_locales simp

section \<open>core/security.py\<close>

definition hash_password :: "'p platform_scheme \<Rightarrow> nat \<Rightarrow> string \<Rightarrow> string" where
  "hash_password pf salt plain_password = bcrypt_hash pf salt plain_password"

definition verify_password :: "'p platform_scheme \<Rightarrow> string \<Rightarrow> string \<Rightarrow> bool" where
  "verify_password pf plain_password hashed_password = bcrypt_verify pf plain_password hashed_password"

text \<open>\<^verbatim>\<open>dict.update\<close>: a key that is present keeps its place and takes the new value.\<close>

fun dict_set :: "'k \<Rightarrow> 'v \<Rightarrow> ('k \<times> 'v) list \<Rightarrow> ('k \<times> 'v) list" where
  "dict_set k v [] = [(k, v)]"
| "dict_set k v ((k', v') # kvs) = (if k' = k then (k, v) # kvs else (k', v') # dict_set k v kvs)"

definition dict_update :: "('k \<times> 'v) list \<Rightarrow> ('k \<times> 'v) list \<Rightarrow> ('k \<times> 'v) list" where
  "dict_update kvs extra = foldl (\<lambda>acc kv. dict_set (fst kv) (snd kv) acc) kvs extra"

text \<open>\<open>now\<close> and \<open>now'\<close> are the two clock readings: the expiry is taken from the first.\<close>

definition create_access_token ::
  "'p platform_scheme \<Rightarrow> Settings \<Rightarrow> datetime \<Rightarrow> datetime \<Rightarrow> string \<Rightarrow> claims \<Rightarrow> string" where
  "create_access_token pf st now now' subject extra_claims =
     (let expire = now + timedelta_minutes (ACCESS_TOKEN_EXPIRE_MINUTES st);
          payload = [(''sub'', CStr subject), (''exp'', CTime expire), (''iat'', CTime now')]
      in jwt_encode pf (dict_update payload extra_claims) (SECRET_KEY st) (JWT_ALGORITHM st))"

definition decode_access_token ::
  "'p platform_scheme \<Rightarrow> Settings \<Rightarrow> datetime \<Rightarrow> string \<Rightarrow> claims option" where
  "decode_access_token pf st now token = jwt_decode pf now (SECRET_KEY st) (JWT_ALGORITHM st) token"

definition hash_refresh_token :: "'p platform_scheme \<Rightarrow> string \<Rightarrow> string" where
  "hash_refresh_token pf raw_token = hexlify (sha256 pf (utf8_encode raw_token))"

section \<open>services/auth\_service.py\<close>

definition PASSWORD_RESET_EXPIRE_MINUTES :: int where
  "PASSWORD_RESET_EXPIRE_MINUTES = 60"

text \<open>
  \<^verbatim>\<open>_as_aware_utc\<close>: the model's instants are aware, so the conversion keeps the instant;
  a naive value (\<open>None\<close> as its offset) is read as UTC. \<open>offset\<close> is in microseconds.
\<close>

definition as_aware_utc :: "datetime \<Rightarrow> timedelta option \<Rightarrow> datetime" where
  "as_aware_utc wall offset = (case offset of None \<Rightarrow> wall | Some off \<Rightarrow> wall - off)"

definition authenticate_user ::
  "'p platform_scheme \<Rightarrow> string \<Rightarrow> string \<Rightarrow> ('z auth_db_scheme, User option) svc" where
  "authenticate_user pf email password =
     bind_svc (query_e (\<lambda>d. scalar_one_or_none (filter (\<lambda>u. u_email u = lower email) (users d))))
     (\<lambda>user. case user of
        None \<Rightarrow> return_svc None
      | Some user \<Rightarrow>
          if \<not> u_is_active user then return_svc None
          else if \<not> verify_password pf password (u_hashed_password user) then return_svc None
          else return_svc (Some user))"

text \<open>The flush of a refresh token: the primary key and the token hash are unique.\<close>

definition insert_refresh_token :: "RefreshToken \<Rightarrow> 'z auth_db_scheme \<Rightarrow> error + 'z auth_db_scheme" where
  "insert_refresh_token t d =
     (if rt_token_hash t \<in> rt_token_hash ` set (refresh_tokens d)
      then Inl (IntegrityError ''refresh_tokens.token_hash'')
      else (case insert_row rt_id t (refresh_tokens d) of
              Inl e \<Rightarrow> Inl e
            | Inr ts \<Rightarrow> Inr (d\<lparr>refresh_tokens := ts\<rparr>)))"

definition issue_refresh_token ::
  "'p platform_scheme \<Rightarrow> Settings \<Rightarrow> uuid \<Rightarrow> string \<Rightarrow> datetime \<Rightarrow> User \<Rightarrow> ('z auth_db_scheme, string) svc" where
  "issue_refresh_token pf st new_id raw_token now user =
     bind_svc (flush (insert_refresh_token
        \<lparr>rt_id = new_id, rt_user_id = u_id user, rt_token_hash = hash_refresh_token pf raw_token,
         rt_expires_at = now + timedelta_days (REFRESH_TOKEN_EXPIRE_DAYS st),
         rt_revoked_at = None, rt_created_at = now\<rparr>))
     (\<lambda>_. bind_svc commit (\<lambda>_. return_svc raw_token))"

definition token_by_hash :: "'p platform_scheme \<Rightarrow> string \<Rightarrow> 'z auth_db_scheme \<Rightarrow> error + RefreshToken option" where
  "token_by_hash pf raw_token d =
     scalar_one_or_none (filter (\<lambda>t. rt_token_hash t = hash_refresh_token pf raw_token) (refresh_tokens d))"

text \<open>
  \<^verbatim>\<open>redeem_refresh_token\<close>: \<open>now\<close> is read for the expiry check, \<open>now'\<close> for the revocation.
  The revocation is committed before the user is checked.
\<close>

definition redeem_refresh_token ::
  "'p platform_scheme \<Rightarrow> datetime \<Rightarrow> datetime \<Rightarrow> string \<Rightarrow> ('z auth_db_scheme, User option) svc" where
  "redeem_refresh_token pf now now' raw_token =
     bind_svc (query_e (token_by_hash pf raw_token))
     (\<lambda>token. case token of
        None \<Rightarrow> return_svc None
      | Some token \<Rightarrow>
          if rt_revoked_at token \<noteq> None then return_svc None
          else if as_aware_utc (rt_expires_at token) (Some 0) < now then return_svc None
          else
            bind_svc (modify_db (refresh_tokens_update
              (update_where (\<lambda>t. rt_id t = rt_id token) (\<lambda>t. t\<lparr>rt_revoked_at := Some now'\<rparr>))))
            (\<lambda>_. bind_svc (query (\<lambda>d. get_row u_id (rt_user_id token) (users d)))
            (\<lambda>user. bind_svc commit
            (\<lambda>_. case user of
               None \<Rightarrow> return_svc None
             | Some user \<Rightarrow> if \<not> u_is_active user then return_svc None else return_svc (Some user)))))"

definition revoke_refresh_token ::
  "'p platform_scheme \<Rightarrow> datetime \<Rightarrow> string \<Rightarrow> ('z auth_db_scheme, unit) svc" where
  "revoke_refresh_token pf now raw_token =
     bind_svc (query_e (token_by_hash pf raw_token))
     (\<lambda>token. case token of
        None \<Rightarrow> return_svc ()
      | Some token \<Rightarrow>
          if rt_revoked_at token = None then
            bind_svc (modify_db (refresh_tokens_update
              (update_where (\<lambda>t. rt_id t = rt_id token) (\<lambda>t. t\<lparr>rt_revoked_at := Some now\<rparr>))))
            (\<lambda>_. commit)
          else return_svc ())"

definition revoke_all_user_refresh_tokens ::
  "datetime \<Rightarrow> uuid \<Rightarrow> ('z auth_db_scheme, unit) svc" where
  "revoke_all_user_refresh_tokens now user_id =
     modify_db (refresh_tokens_update
       (update_where (\<lambda>t. rt_user_id t = user_id \<and> rt_revoked_at t = None)
                     (\<lambda>t. t\<lparr>rt_revoked_at := Some now\<rparr>)))"

definition set_hashed_password :: "uuid \<Rightarrow> string \<Rightarrow> ('z auth_db_scheme, unit) svc" where
  "set_hashed_password uid h =
     modify_db (users_update (update_where (\<lambda>u. u_id u = uid) (\<lambda>u. u\<lparr>u_hashed_password := h\<rparr>)))"

definition change_password ::
  "'p platform_scheme \<Rightarrow> nat \<Rightarrow> datetime \<Rightarrow> User \<Rightarrow> string \<Rightarrow> string \<Rightarrow> ('z auth_db_scheme, unit) svc" where
  "change_password pf salt now user current_password new_password =
     (if \<not> verify_password pf current_password (u_hashed_password user)
      then raise_svc (HTTPException 400 ''Current password is incorrect'')
      else
        bind_svc (set_hashed_password (u_id user) (hash_password pf salt new_password))
        (\<lambda>_. bind_svc (revoke_all_user_refresh_tokens now (u_id user)) (\<lambda>_. commit)))"

definition insert_reset_token :: "PasswordResetToken \<Rightarrow> 'z auth_db_scheme \<Rightarrow> error + 'z auth_db_scheme" where
  "insert_reset_token t d =
     (if prt_token_hash t \<in> prt_token_hash ` set (password_reset_tokens d)
      then Inl (IntegrityError ''password_reset_tokens.token_hash'')
      else (case insert_row prt_id t (password_reset_tokens d) of
              Inl e \<Rightarrow> Inl e
            | Inr ts \<Rightarrow> Inr (d\<lparr>password_reset_tokens := ts\<rparr>)))"

definition create_password_reset_token ::
  "'p platform_scheme \<Rightarrow> uuid \<Rightarrow> string \<Rightarrow> datetime \<Rightarrow> string \<Rightarrow> ('z auth_db_scheme, string option) svc" where
  "create_password_reset_token pf new_id raw_token now email =
     bind_svc (query_e (\<lambda>d. scalar_one_or_none (filter (\<lambda>u. u_email u = lower email) (users d))))
     (\<lambda>user. case user of
        None \<Rightarrow> return_svc None
      | Some user \<Rightarrow>
          if \<not> u_is_active user then return_svc None
          else
            bind_svc (flush (insert_reset_token
              \<lparr>prt_id = new_id, prt_user_id = u_id user, prt_token_hash = hash_refresh_token pf raw_token,
               prt_expires_at = now + timedelta_minutes PASSWORD_RESET_EXPIRE_MINUTES, prt_used_at = None\<rparr>))
            (\<lambda>_. bind_svc commit (\<lambda>_. return_svc (Some raw_token))))"

text \<open>\<open>now\<close> is the clock of \<^verbatim>\<open>reset_password\<close>, \<open>now'\<close> the one of the revocation it calls.\<close>

definition reset_password ::
  "'p platform_scheme \<Rightarrow> nat \<Rightarrow> datetime \<Rightarrow> datetime \<Rightarrow> string \<Rightarrow> string \<Rightarrow> ('z auth_db_scheme, bool) svc" where
  "reset_password pf salt now now' raw_token new_password =
     bind_svc (query_e (\<lambda>d. scalar_one_or_none
        (filter (\<lambda>t. prt_token_hash t = hash_refresh_token pf raw_token) (password_reset_tokens d))))
     (\<lambda>token. case token of
        None \<Rightarrow> return_svc False
      | Some token \<Rightarrow>
          if prt_used_at token \<noteq> None \<or> prt_expires_at token < now then return_svc False
          else
            bind_svc (query (\<lambda>d. get_row u_id (prt_user_id token) (users d)))
            (\<lambda>user. case user of
               None \<Rightarrow> return_svc False
             | Some user \<Rightarrow>
                 if \<not> u_is_active user then return_svc False
                 else
                   bind_svc (set_hashed_password (u_id user) (hash_password pf salt new_password))
                   (\<lambda>_. bind_svc (modify_db (password_reset_tokens_update
                     (update_where (\<lambda>t. prt_id t = prt_id token) (\<lambda>t. t\<lparr>prt_used_at := Some now\<rparr>))))
                   (\<lambda>_. bind_svc (revoke_all_user_refresh_tokens now' (u_id user))
                   (\<lambda>_. bind_svc commit (\<lambda>_. return_svc True))))))"

definition list_active_sessions ::
  "datetime \<Rightarrow> User \<Rightarrow> ('z auth_db_scheme, RefreshToken list) svc" where
  "list_active_sessions now user =
     query (\<lambda>d. order_by_desc rt_created_at
       (filter (\<lambda>t. rt_user_id t = u_id user \<and> rt_revoked_at t = None \<and> now < rt_expires_at t)
          (refresh_tokens d)))"

section \<open>api/deps.py\<close>

definition credentials_error :: error where
  "credentials_error = HTTPException 401 ''Could not validate credentials''"

text \<open>\<open>credentials\<close> is the bearer token of the request, \<open>None\<close> without one.\<close>

definition get_current_user ::
  "'p platform_scheme \<Rightarrow> Settings \<Rightarrow> datetime \<Rightarrow> string option \<Rightarrow> ('z auth_db_scheme, User) svc" where
  "get_current_user pf st now credentials =
     (case credentials of
        None \<Rightarrow> raise_svc credentials_error
      | Some token \<Rightarrow>
          (case decode_access_token pf st now token of
             None \<Rightarrow> raise_svc credentials_error
           | Some payload \<Rightarrow>
               (case map_of payload ''sub'' of
                  Some (CStr sub) \<Rightarrow>
                    (case uuid_parse pf sub of
                       None \<Rightarrow> raise_svc credentials_error
                     | Some user_id \<Rightarrow>
                         bind_svc (query (\<lambda>d. get_row u_id user_id (users d)))
                         (\<lambda>user. case user of
                            None \<Rightarrow> raise_svc credentials_error
                          | Some user \<Rightarrow>
                              if \<not> u_is_active user then raise_svc credentials_error
                              else return_svc user))
                | _ \<Rightarrow> raise_svc credentials_error)))"

definition require_admin ::
  "'p platform_scheme \<Rightarrow> Settings \<Rightarrow> datetime \<Rightarrow> string option \<Rightarrow> ('z auth_db_scheme, User) svc" where
  "require_admin pf st now credentials =
     bind_svc (get_current_user pf st now credentials)
     (\<lambda>user. if \<not> u_is_admin user
        then raise_svc (HTTPException 403 ''This action requires administrator privileges'')
        else return_svc user)"

section \<open>api/v1/endpoints/auth.py\<close>

record TokenResponse =
  access_token :: string
  refresh_token :: string
  token_type :: string
  expires_in :: int

record ForgotPasswordResponse =
  fpr_detail :: string
  fpr_reset_token :: "string option"

record SessionRead =
  sr_id :: uuid
  sr_created_at :: datetime
  sr_expires_at :: datetime

text \<open>The random values and clock readings of one token pair.\<close>

record mint =
  mint_id :: uuid
  mint_raw_token :: string
  mint_now :: datetime

definition token_response ::
  "'p platform_scheme \<Rightarrow> Settings \<Rightarrow> mint \<Rightarrow> User \<Rightarrow> ('z auth_db_scheme, TokenResponse) svc" where
  "token_response pf st m user =
     bind_svc (issue_refresh_token pf st (mint_id m) (mint_raw_token m) (mint_now m) user)
     (\<lambda>refresh. return_svc
        \<lparr>access_token = create_access_token pf st (mint_now m) (mint_now m) (uuid_text pf (u_id user))
                          [(''email'', CStr (u_email user))],
         refresh_token = refresh, token_type = ''bearer'',
         expires_in = ACCESS_TOKEN_EXPIRE_MINUTES st * 60\<rparr>)"

definition login ::
  "'p platform_scheme \<Rightarrow> Settings \<Rightarrow> mint \<Rightarrow> string \<Rightarrow> string \<Rightarrow> ('z auth_db_scheme, TokenResponse) svc" where
  "login pf st m email password =
     bind_svc (authenticate_user pf email password)
     (\<lambda>user. case user of
        None \<Rightarrow> raise_svc (HTTPException 401 ''Incorrect email or password'')
      | Some user \<Rightarrow> token_response pf st m user)"

definition refresh ::
  "'p platform_scheme \<Rightarrow> Settings \<Rightarrow> datetime \<Rightarrow> datetime \<Rightarrow> mint \<Rightarrow> string \<Rightarrow>
   ('z auth_db_scheme, TokenResponse) svc" where
  "refresh pf st now now' m raw =
     bind_svc (redeem_refresh_token pf now now' raw)
     (\<lambda>user. case user of
        None \<Rightarrow> raise_svc (HTTPException 401 ''Refresh token is invalid, expired, or already used'')
      | Some user \<Rightarrow> token_response pf st m user)"

definition logout :: "'p platform_scheme \<Rightarrow> datetime \<Rightarrow> string \<Rightarrow> ('z auth_db_scheme, string) svc" where
  "logout pf now raw =
     bind_svc (revoke_refresh_token pf now raw) (\<lambda>_. return_svc ''Logged out'')"

record ChangePasswordRequest =
  cpr_current_password :: string
  cpr_new_password :: string

definition valid_ChangePasswordRequest :: "ChangePasswordRequest \<Rightarrow> bool" where
  "valid_ChangePasswordRequest p \<longleftrightarrow>
     1 \<le> length (cpr_current_password p) \<and> len_in 8 128 (cpr_new_password p)"

definition valid_ForgotPasswordRequest :: "string \<Rightarrow> bool" where
  "valid_ForgotPasswordRequest email \<longleftrightarrow> 3 \<le> length email"

record ResetPasswordRequest =
  rpr_token :: string
  rpr_new_password :: string

definition valid_ResetPasswordRequest :: "ResetPasswordRequest \<Rightarrow> bool" where
  "valid_ResetPasswordRequest p \<longleftrightarrow> 1 \<le> length (rpr_token p) \<and> len_in 8 128 (rpr_new_password p)"

text \<open>
  FastAPI solves the dependencies (the caller), then checks the body, then runs the handler.
  The bodies are given by their fields.
\<close>

definition change_own_password ::
  "'p platform_scheme \<Rightarrow> Settings \<Rightarrow> datetime \<Rightarrow> string option \<Rightarrow> nat \<Rightarrow> datetime \<Rightarrow> string \<Rightarrow> string \<Rightarrow>
   ('z auth_db_scheme, string) svc" where
  "change_own_password pf st now credentials salt now' current_password new_password =
     bind_svc (get_current_user pf st now credentials)
     (\<lambda>current_user. validated (valid_ChangePasswordRequest
          \<lparr>cpr_current_password = current_password, cpr_new_password = new_password\<rparr>)
        (bind_svc (change_password pf salt now' current_user current_password new_password)
        (\<lambda>_. return_svc ''Password changed successfully'')))"

definition forgot_password ::
  "'p platform_scheme \<Rightarrow> Settings \<Rightarrow> uuid \<Rightarrow> string \<Rightarrow> datetime \<Rightarrow> string \<Rightarrow>
   ('z auth_db_scheme, ForgotPasswordResponse) svc" where
  "forgot_password pf st new_id raw now email =
     validated (valid_ForgotPasswordRequest email)
       (bind_svc (create_password_reset_token pf new_id raw now email)
       (\<lambda>raw_token. return_svc
          \<lparr>fpr_detail = ''If an account exists for that email, a password reset token has been issued.'',
           fpr_reset_token =
             (if raw_token \<noteq> None \<and> lower (ENVIRONMENT st) \<in> {''development'', ''local'', ''test''}
              then raw_token else None)\<rparr>))"

definition reset_own_password ::
  "'p platform_scheme \<Rightarrow> nat \<Rightarrow> datetime \<Rightarrow> datetime \<Rightarrow> string \<Rightarrow> string \<Rightarrow> ('z auth_db_scheme, string) svc" where
  "reset_own_password pf salt now now' token new_password =
     validated (valid_ResetPasswordRequest \<lparr>rpr_token = token, rpr_new_password = new_password\<rparr>)
       (bind_svc (reset_password pf salt now now' token new_password)
       (\<lambda>ok. if \<not> ok
          then raise_svc (HTTPException 400 ''Reset token is invalid, expired, or already used'')
          else return_svc ''Password reset successfully''))"

definition list_sessions ::
  "'p platform_scheme \<Rightarrow> Settings \<Rightarrow> datetime \<Rightarrow> string option \<Rightarrow> datetime \<Rightarrow>
   ('z auth_db_scheme, SessionRead list) svc" where
  "list_sessions pf st now credentials now' =
     bind_svc (get_current_user pf st now credentials)
     (\<lambda>current_user. bind_svc (list_active_sessions now' current_user)
     (\<lambda>sessions. return_svc (map (\<lambda>t. \<lparr>sr_id = rt_id t, sr_created_at = rt_created_at t,
                                         sr_expires_at = rt_expires_at t\<rparr>) sessions)))"

section \<open>Well-formed account tables\<close>

text \<open>
  The unique columns of the three tables. Every operation above keeps them.
\<close>

definition auth_inv :: "'z auth_db_scheme \<Rightarrow> bool" where
  "auth_inv d \<longleftrightarrow>
     distinct (map u_id (users d)) \<and> distinct (map u_email (users d))
     \<and> distinct (map rt_id (refresh_tokens d)) \<and> distinct (map rt_token_hash (refresh_tokens d))
     \<and> distinct (map prt_id (password_reset_tokens d))
     \<and> distinct (map prt_token_hash (password_reset_tokens d))"

lemma auth_invD:
  assumes "auth_inv d"
  shows "distinct (map u_id (users d))" "distinct (map u_email (users d))"
    "distinct (map rt_id (refresh_tokens d))" "distinct (map rt_token_hash (refresh_tokens d))"
    "distinct (map prt_id (password_reset_tokens d))" "distinct (map prt_token_hash (password_reset_tokens d))"
  using assms by (simp_all add: auth_inv_def)

section \<open>Requests on the account tables\<close>

text \<open>
  One step per endpoint that writes: the committed database before and after the request,
  whatever its outcome, for arbitrary random values and clock readings.
\<close>

inductive auth_step ::
  "'p platform_scheme \<Rightarrow> Settings \<Rightarrow> 'z auth_db_scheme \<Rightarrow> 'z auth_db_scheme \<Rightarrow> bool"
  for pf :: "'p platform_scheme" and st :: Settings where
  step_login: "auth_step pf st d (snd (run_request (login pf st m email password) d))"
| step_refresh: "auth_step pf st d (snd (run_request (refresh pf st now now' m raw) d))"
| step_logout: "auth_step pf st d (snd (run_request (logout pf now raw) d))"
| step_change: "auth_step pf st d
    (snd (run_request (change_own_password pf st now cred salt now' cur new) d))"
| step_forgot: "auth_step pf st d (snd (run_request (forgot_password pf st new_id raw now email) d))"
| step_reset: "auth_step pf st d (snd (run_request (reset_own_password pf salt now now' raw new) d))"

inductive auth_steps ::
  "'p platform_scheme \<Rightarrow> Settings \<Rightarrow> 'z auth_db_scheme \<Rightarrow> 'z auth_db_scheme \<Rightarrow> bool"
  for pf :: "'p platform_scheme" and st :: Settings where
  steps_refl: "auth_steps pf st d d"
| steps_step: "auth_steps pf st d d' \<Longrightarrow> auth_step pf st d' d'' \<Longrightarrow> auth_steps pf st d d''"

text \<open>The hashes of revoked refresh tokens and of used reset tokens.\<close>

definition dead_hashes :: "'z auth_db_scheme \<Rightarrow> string set" where
  "dead_hashes d = rt_token_hash ` {t \<in> set (refresh_tokens d). rt_revoked_at t \<noteq> None}"

definition used_hashes :: "'z auth_db_scheme \<Rightarrow> string set" where
  "used_hashes d = prt_token_hash ` {t \<in> set (password_reset_tokens d). prt_used_at t \<noteq> None}"

text \<open>
  The invariant of the step relation, relative to hashes \<open>hs\<close> that are already revoked and
  hashes \<open>rs\<close> that are already used: unique columns stay unique and nothing comes back to life.
\<close>

definition spent :: "string set \<Rightarrow> string set \<Rightarrow> 'z auth_db_scheme \<Rightarrow> bool" where
  "spent hs rs d \<longleftrightarrow> auth_inv d \<and> hs \<subseteq> dead_hashes d \<and> rs \<subseteq> used_hashes d"

lemma spent_revoke:
  "spent hs rs d \<Longrightarrow> spent hs rs (refresh_tokens_update
     (update_where P (\<lambda>t. t\<lparr>rt_revoked_at := Some now\<rparr>)) d)"
  using image_update_where_mono [of rt_token_hash "\<lambda>t. t\<lparr>rt_revoked_at := Some now\<rparr>"
    "\<lambda>t. rt_revoked_at t \<noteq> None" "refresh_tokens d" P]
  by (auto simp: spent_def auth_inv_def dead_hashes_def used_hashes_def map_update_where)

lemma spent_use:
  "spent hs rs d \<Longrightarrow> spent hs rs (password_reset_tokens_update
     (update_where P (\<lambda>t. t\<lparr>prt_used_at := Some now\<rparr>)) d)"
  using image_update_where_mono [of prt_token_hash "\<lambda>t. t\<lparr>prt_used_at := Some now\<rparr>"
    "\<lambda>t. prt_used_at t \<noteq> None" "password_reset_tokens d" P]
  by (auto simp: spent_def auth_inv_def dead_hashes_def used_hashes_def map_update_where)

lemma spent_password:
  "spent hs rs d \<Longrightarrow> spent hs rs (users_update
     (update_where P (\<lambda>u. u\<lparr>u_hashed_password := h\<rparr>)) d)"
  unfolding spent_def auth_inv_def dead_hashes_def used_hashes_def by (simp add: table_simps)

lemma spent_insert:
  "spent hs rs d \<Longrightarrow> insert_refresh_token t d = Inr d' \<Longrightarrow> spent hs rs d'"
  "spent hs rs d \<Longrightarrow> insert_reset_token r d = Inr d' \<Longrightarrow> spent hs rs d'"
  unfolding spent_def auth_inv_def dead_hashes_def used_hashes_def insert_refresh_token_def
    insert_reset_token_def insert_row_def
  by (auto split: if_splits)

lemma keeps_spent_primitives [intro]:
  "keeps (spent hs rs) (modify_db (refresh_tokens_update
     (update_where P (\<lambda>t. t\<lparr>rt_revoked_at := Some now\<rparr>))))"
  "keeps (spent hs rs) (modify_db (password_reset_tokens_update
     (update_where Q (\<lambda>t. t\<lparr>prt_used_at := Some now\<rparr>))))"
  "keeps (spent hs rs) (set_hashed_password uid h)"
  "keeps (spent hs rs) (flush (insert_refresh_token t))"
  "keeps (spent hs rs) (flush (insert_reset_token r))"
  unfolding set_hashed_password_def
  by (blast intro: spent_revoke spent_use spent_password spent_insert)+

lemma keeps_option [intro]:
  "keeps I m \<Longrightarrow> (\<And>x. keeps I (f x)) \<Longrightarrow> keeps I (case z of None \<Rightarrow> m | Some x \<Rightarrow> f x)"
  by (cases z) auto

lemma keeps_if [intro]:
  "(b \<Longrightarrow> keeps I m) \<Longrightarrow> (\<not> b \<Longrightarrow> keeps I n) \<Longrightarrow> keeps I (if b then m else n)"
  by simp

lemma keeps_get_current_user [intro]: "keeps I (get_current_user pf st now cred)"
  unfolding get_current_user_def
  by (intro keeps_option keeps_basic) (auto split: option.splits claim.splits)

lemma keeps_spent_services [intro]:
  "keeps (spent hs rs) (authenticate_user pf email password)"
  "keeps (spent hs rs) (issue_refresh_token pf st i raw now user)"
  "keeps (spent hs rs) (redeem_refresh_token pf now now' raw)"
  "keeps (spent hs rs) (revoke_refresh_token pf now raw)"
  "keeps (spent hs rs) (revoke_all_user_refresh_tokens now uid)"
  "keeps (spent hs rs) (create_password_reset_token pf i raw now email)"
  unfolding authenticate_user_def issue_refresh_token_def redeem_refresh_token_def
    revoke_refresh_token_def revoke_all_user_refresh_tokens_def create_password_reset_token_def
  by (intro keeps_bind keeps_option keeps_if keeps_basic keeps_spent_primitives)+

lemma keeps_spent_passwords [intro]:
  "keeps (spent hs rs) (change_password pf salt now user cur new)"
  "keeps (spent hs rs) (reset_password pf salt now now' raw new)"
  unfolding change_password_def reset_password_def
  by (intro keeps_bind keeps_option keeps_if keeps_basic keeps_spent_primitives keeps_spent_services)+

lemma auth_step_spent: "auth_step pf st d d' \<Longrightarrow> spent hs rs d \<Longrightarrow> spent hs rs d'"
proof (induction rule: auth_step.induct)
  case step_login
  then show ?case unfolding login_def token_response_def by (blast intro: keeps_run)
next
  case step_refresh
  then show ?case unfolding refresh_def token_response_def by (blast intro: keeps_run)
next
  case step_logout
  then show ?case unfolding logout_def by (blast intro: keeps_run)
next
  case step_change
  then show ?case unfolding change_own_password_def by (blast intro: keeps_run)
next
  case step_forgot
  then show ?case unfolding forgot_password_def by (blast intro: keeps_run)
next
  case step_reset
  then show ?case unfolding reset_own_password_def by (blast intro: keeps_run)
qed

lemma auth_steps_spent: "auth_steps pf st d d' \<Longrightarrow> spent hs rs d \<Longrightarrow> spent hs rs d'"
  by (induction rule: auth_steps.induct) (auto intro: auth_step_spent)

section \<open>Lookups by unique columns\<close>

lemma token_by_hash_find:
  "auth_inv d \<Longrightarrow> token_by_hash pf raw d
     = Inr (find (\<lambda>t. rt_token_hash t = hash_refresh_token pf raw) (refresh_tokens d))"
  unfolding token_by_hash_def by (rule scalar_by_unique_key) (simp add: auth_inv_def)

lemma reset_by_hash_find:
  "auth_inv d \<Longrightarrow> scalar_one_or_none
     (filter (\<lambda>t. prt_token_hash t = hash_refresh_token pf raw) (password_reset_tokens d))
     = Inr (find (\<lambda>t. prt_token_hash t = hash_refresh_token pf raw) (password_reset_tokens d))"
  by (rule scalar_by_unique_key) (simp add: auth_inv_def)

lemma user_by_email_find:
  "auth_inv d \<Longrightarrow> scalar_one_or_none (filter (\<lambda>u. u_email u = e) (users d))
     = Inr (find (\<lambda>u. u_email u = e) (users d))"
  by (rule scalar_by_unique_key) (simp add: auth_inv_def)

lemmas find_rows = token_by_hash_find reset_by_hash_find user_by_email_find

lemma dead_lookup:
  assumes "auth_inv d" and "h \<in> dead_hashes d"
  obtains t where "find (\<lambda>t. rt_token_hash t = h) (refresh_tokens d) = Some t"
    and "rt_revoked_at t \<noteq> None"
  using assms unfolding dead_hashes_def by (auto dest!: auth_invD(4) dest: find_unique_key)

lemma used_lookup:
  assumes "auth_inv d" and "h \<in> used_hashes d"
  obtains t where "find (\<lambda>t. prt_token_hash t = h) (password_reset_tokens d) = Some t"
    and "prt_used_at t \<noteq> None"
  using assms unfolding used_hashes_def by (auto dest!: auth_invD(6) dest: find_unique_key)

text \<open>A revoked refresh token and a used reset token are refused and change nothing.\<close>

lemma refresh_dead:
  assumes "auth_inv d" and "hash_refresh_token pf raw \<in> dead_hashes d"
  shows "run_request (refresh pf st now now' m raw) d
    = (Inl (HTTPException 401 ''Refresh token is invalid, expired, or already used''), d)"
  by (rule dead_lookup [OF assms])
     (use assms in \<open>auto simp: refresh_def redeem_refresh_token_def svc_simps token_by_hash_find\<close>)

lemma reset_used:
  assumes "auth_inv d" and "hash_refresh_token pf raw \<in> used_hashes d"
  shows "run_request (reset_own_password pf salt now now' raw new) d
    = (Inl (if valid_ResetPasswordRequest \<lparr>rpr_token = raw, rpr_new_password = new\<rparr>
            then HTTPException 400 ''Reset token is invalid, expired, or already used''
            else HTTPException 422 ''Unprocessable Entity''), d)"
  by (rule used_lookup [OF assms])
     (use assms in \<open>auto simp: reset_own_password_def reset_password_def validated_def svc_simps reset_by_hash_find\<close>)

text \<open>The database after a successful redemption, and what the redemption requires.\<close>

definition redeemed :: "RefreshToken \<Rightarrow> datetime \<Rightarrow> 'z auth_db_scheme \<Rightarrow> 'z auth_db_scheme" where
  "redeemed t now d = refresh_tokens_update
     (update_where (\<lambda>x. rt_id x = rt_id t) (\<lambda>x. x\<lparr>rt_revoked_at := Some now\<rparr>)) d"

lemma redeem_run:
  assumes "auth_inv d"
  shows "redeem_refresh_token pf now now' raw \<lparr>committed = d, working = d\<rparr> =
    (case find (\<lambda>t. rt_token_hash t = hash_refresh_token pf raw) (refresh_tokens d) of
       None \<Rightarrow> (Inr None, \<lparr>committed = d, working = d\<rparr>)
     | Some t \<Rightarrow>
         if rt_revoked_at t \<noteq> None \<or> rt_expires_at t < now then (Inr None, \<lparr>committed = d, working = d\<rparr>)
         else (Inr (case get_row u_id (rt_user_id t) (users d) of
                      None \<Rightarrow> None
                    | Some u \<Rightarrow> if u_is_active u then Some u else None),
               \<lparr>committed = redeemed t now' d, working = redeemed t now' d\<rparr>))"
  using assms
  by (auto simp: redeem_refresh_token_def svc_simps token_by_hash_find as_aware_utc_def redeemed_def
      split: option.splits)

lemma redeemed_dead:
  assumes "auth_inv d" and "find (\<lambda>t. rt_token_hash t = h) (refresh_tokens d) = Some t"
  shows "spent {h} {} (redeemed t now d)"
proof -
  have t: "t \<in> set (refresh_tokens d)" "rt_token_hash t = h"
    using assms by (auto simp: find_key_Some auth_invD)
  have "spent {} {} (redeemed t now d)"
    unfolding redeemed_def by (rule spent_revoke) (simp add: spent_def assms)
  moreover have "h \<in> dead_hashes (redeemed t now d)"
    unfolding dead_hashes_def redeemed_def
    by (rule image_eqI [of _ _ "t\<lparr>rt_revoked_at := Some now\<rparr>"])
       (use t in \<open>auto simp: update_where_def\<close>)
  ultimately show ?thesis by (simp add: spent_def)
qed

section \<open>Laws of the platform\<close>

text \<open>
  The laws of the third-party functions the properties below rely on; an instance that
  satisfies them follows, on which the witnesses run. bcrypt verifies the password it hashed. A JWT
  signed with an allowed algorithm decodes, up to a second before its expiry, to claims that
  hold the same strings (\<^verbatim>\<open>jose\<close> keeps whole seconds). A UUID is read back from its text.
\<close>

definition bcrypt_law :: "'p platform_scheme \<Rightarrow> bool" where
  "bcrypt_law pf \<longleftrightarrow> (\<forall>salt p. bcrypt_verify pf p (bcrypt_hash pf salt p))"

definition jwt_law :: "'p platform_scheme \<Rightarrow> bool" where
  "jwt_law pf \<longleftrightarrow> (\<forall>claims key alg t now.
     set (map fst claims) \<subseteq> {''sub'', ''exp'', ''iat'', ''email''} \<and> alg \<in> set ALLOWED_JWT_ALGORITHMS
     \<and> map_of claims ''exp'' = Some (CTime t) \<and> now + 1000000 \<le> t \<longrightarrow>
     (\<exists>out. jwt_decode pf now key alg (jwt_encode pf claims key alg) = Some out
        \<and> (\<forall>k s. map_of claims k = Some (CStr s) \<longrightarrow> map_of out k = Some (CStr s))))"

definition uuid_law :: "'p platform_scheme \<Rightarrow> bool" where
  "uuid_law pf \<longleftrightarrow> (\<forall>i. uuid_parse pf (uuid_text pf i) = Some i)"

section \<open>Password changes\<close>

text \<open>The database after a password change of user \<open>uid\<close>: the new hash, every session revoked.\<close>

definition password_changed :: "uuid \<Rightarrow> string \<Rightarrow> datetime \<Rightarrow> 'z auth_db_scheme \<Rightarrow> 'z auth_db_scheme" where
  "password_changed uid h now d =
     refresh_tokens_update (update_where (\<lambda>t. rt_user_id t = uid \<and> rt_revoked_at t = None)
         (\<lambda>t. t\<lparr>rt_revoked_at := Some now\<rparr>))
       (users_update (update_where (\<lambda>u. u_id u = uid) (\<lambda>u. u\<lparr>u_hashed_password := h\<rparr>)) d)"

lemma password_changed_dead:
  assumes "t \<in> set (refresh_tokens d)" and "rt_user_id t = uid"
  shows "rt_token_hash t \<in> dead_hashes (password_changed uid h now d)"
proof (cases "rt_revoked_at t = None")
  case True
  with assms show ?thesis unfolding dead_hashes_def password_changed_def
    by (intro image_eqI [of _ _ "t\<lparr>rt_revoked_at := Some now\<rparr>"])
       (auto simp: update_where_def image_iff intro!: bexI [of _ t])
next
  case False
  with assms show ?thesis unfolding dead_hashes_def password_changed_def
    by (intro image_eqI [of _ _ t]) (auto simp: update_where_def image_iff intro!: bexI [of _ t])
qed

lemma ids_update_where: "(\<And>r. k (f r) = k r) \<Longrightarrow> k ` set (update_where P f rs) = k ` set rs"
  by (metis map_update_where set_map)

lemma password_changed_inv: "spent hs rs d \<Longrightarrow> spent hs rs (password_changed uid h now d)"
  unfolding password_changed_def by (intro spent_revoke spent_password)

lemma password_changed_others:
  "v \<in> set (users d) \<Longrightarrow> u_id v \<noteq> uid \<Longrightarrow> v \<in> set (users (password_changed uid h now d))"
  by (auto simp: password_changed_def update_where_def)

lemma authenticate_run:
  "auth_inv d \<Longrightarrow> run_request (authenticate_user pf email password) d =
     (Inr (case find (\<lambda>u. u_email u = lower email) (users d) of
             None \<Rightarrow> None
           | Some u \<Rightarrow> if u_is_active u \<and> verify_password pf password (u_hashed_password u) then Some u else None),
      d)"
  by (auto simp: authenticate_user_def svc_simps user_by_email_find split: option.splits)

lemma authenticate_changed:
  assumes inv: "auth_inv d" and law: "bcrypt_law pf" and u: "u \<in> set (users d)" "u_is_active u"
    and email: "lower email = u_email u"
  shows "fst (run_request (authenticate_user pf email new)
      (password_changed (u_id u) (hash_password pf salt new) now d))
    = Inr (Some (u\<lparr>u_hashed_password := hash_password pf salt new\<rparr>))"
proof -
  let ?d = "password_changed (u_id u) (hash_password pf salt new) now d"
  let ?u = "u\<lparr>u_hashed_password := hash_password pf salt new\<rparr>"
  have d: "auth_inv ?d" using password_changed_inv [of "{}" "{}" d] inv by (simp add: spent_def)
  have "?u \<in> set (users ?d)"
    using u by (auto simp: password_changed_def update_where_def image_iff intro!: bexI [of _ u])
  with d email have "find (\<lambda>v. u_email v = lower email) (users ?d) = Some ?u"
    by (simp add: find_key_Some auth_invD)
  with d law u show ?thesis
    by (simp add: authenticate_run verify_password_def hash_password_def bcrypt_law_def)
qed

text \<open>Identifying the caller reads the database and leaves the session alone.\<close>

lemma get_current_user_pure: "snd (get_current_user pf st now cred s) = s"
  by (auto simp: get_current_user_def svc_simps split: option.splits claim.splits)

lemma get_current_user_in:
  "fst (get_current_user pf st now cred s) = Inr u \<Longrightarrow> u \<in> set (users (working s)) \<and> u_is_active u"
  by (auto simp: get_current_user_def svc_simps split: option.splits claim.splits if_splits dest: get_row_Some)

lemma current_user_run:
  "fst (run_request (get_current_user pf st now cred) d) = Inr u \<longleftrightarrow>
   get_current_user pf st now cred \<lparr>committed = d, working = d\<rparr>
     = (Inr u, \<lparr>committed = d, working = d\<rparr>)"
  using get_current_user_pure [of pf st now cred "\<lparr>committed = d, working = d\<rparr>"]
  by (auto simp: run_request_def split_beta prod_eq_iff)

lemma change_own_password_run:
  assumes "fst (run_request (get_current_user pf st now cred) d) = Inr u"
  shows "run_request (change_own_password pf st now cred salt now' cur new) d =
    (if \<not> valid_ChangePasswordRequest \<lparr>cpr_current_password = cur, cpr_new_password = new\<rparr>
     then (Inl (HTTPException 422 ''Unprocessable Entity''), d)
     else if verify_password pf cur (u_hashed_password u)
     then (Inr ''Password changed successfully'', password_changed (u_id u) (hash_password pf salt new) now' d)
     else (Inl (HTTPException 400 ''Current password is incorrect''), d))"
proof -
  have "get_current_user pf st now cred \<lparr>committed = d, working = d\<rparr>
      = (Inr u, \<lparr>committed = d, working = d\<rparr>)"
    using assms by (simp only: current_user_run)
  then show ?thesis
    by (simp add: change_own_password_def change_password_def validated_def revoke_all_user_refresh_tokens_def
        set_hashed_password_def password_changed_def svc_simps)
qed

lemma reset_own_password_run:
  fixes d :: "'z auth_db_scheme"
  assumes "auth_inv d" and "run_request (reset_own_password pf salt now now' raw new) d = (Inr msg, d1)"
  obtains t u where "valid_ResetPasswordRequest \<lparr>rpr_token = raw, rpr_new_password = new\<rparr>"
    and "find (\<lambda>t. prt_token_hash t = hash_refresh_token pf raw) (password_reset_tokens d) = Some t"
    and "prt_used_at t = None" and "now \<le> prt_expires_at t"
    and "u \<in> set (users d)" and "u_id u = prt_user_id t" and "u_is_active u"
    and "d1 = password_reset_tokens_update (update_where (\<lambda>x. prt_id x = prt_id t)
           (\<lambda>x. x\<lparr>prt_used_at := Some now\<rparr>)) (password_changed (u_id u) (hash_password pf salt new) now' d)"
proof -
  let ?f = "find (\<lambda>t. prt_token_hash t = hash_refresh_token pf raw) (password_reset_tokens d)"
  note defs = reset_own_password_def reset_password_def svc_simps reset_by_hash_find [OF assms(1)]
    revoke_all_user_refresh_tokens_def set_hashed_password_def password_changed_def
  have valid: "valid_ResetPasswordRequest \<lparr>rpr_token = raw, rpr_new_password = new\<rparr>"
    using assms(2) by (simp add: reset_own_password_def validated_def svc_simps split: if_splits)
  note defs = defs validated_def valid
  obtain t where t: "?f = Some t" using assms(2) by (cases ?f) (simp_all add: defs)
  have live: "prt_used_at t = None" "now \<le> prt_expires_at t"
    using assms(2) t by (simp_all add: defs split: if_splits)
  obtain u where u: "get_row u_id (prt_user_id t) (users d) = Some u"
    using assms(2) t live by (cases "get_row u_id (prt_user_id t) (users d)") (simp_all add: defs)
  have act: "u_is_active u" using assms(2) t live u by (simp add: defs split: if_splits)
  have comm: "refresh_tokens_update g (password_reset_tokens_update f x)
      = password_reset_tokens_update f (refresh_tokens_update g x)" for f g and x :: "'z auth_db_scheme"
    by (cases x) simp
  from assms(2) t live u act that [OF valid t live _ _ act] get_row_Some [OF u] show thesis
    by (simp add: defs comm)
qed

section \<open>Issued tokens\<close>

lemma token_response_run:
  assumes "token_response pf st m u \<lparr>committed = d, working = d\<rparr> = (Inr resp, s)"
  shows "refresh_token resp = mint_raw_token m"
    and "access_token resp = create_access_token pf st (mint_now m) (mint_now m) (uuid_text pf (u_id u))
           [(''email'', CStr (u_email u))]"
    and "committed s = d\<lparr>refresh_tokens := refresh_tokens d @
           [\<lparr>rt_id = mint_id m, rt_user_id = u_id u, rt_token_hash = hash_refresh_token pf (mint_raw_token m),
             rt_expires_at = mint_now m + timedelta_days (REFRESH_TOKEN_EXPIRE_DAYS st),
             rt_revoked_at = None, rt_created_at = mint_now m\<rparr>]\<rparr>"
  using assms
  by (auto simp: token_response_def issue_refresh_token_def insert_refresh_token_def insert_row_def svc_simps
      split: if_splits)

lemma access_token_identifies:
  assumes "jwt_law pf" "uuid_law pf" "JWT_ALGORITHM st \<in> set ALLOWED_JWT_ALGORITHMS"
    and "now + 1000000 \<le> t0 + timedelta_minutes (ACCESS_TOKEN_EXPIRE_MINUTES st)"
    and "auth_inv d" "u \<in> set (users d)" "u_is_active u"
  shows "fst (run_request (get_current_user pf st now (Some
      (create_access_token pf st t0 t1 (uuid_text pf (u_id u)) [(''email'', CStr (u_email u))]))) d) = Inr u"
proof -
  let ?cs = "[(''sub'', CStr (uuid_text pf (u_id u))),
    (''exp'', CTime (t0 + timedelta_minutes (ACCESS_TOKEN_EXPIRE_MINUTES st))), (''iat'', CTime t1),
    (''email'', CStr (u_email u))]"
  have cs: "dict_update [(''sub'', CStr (uuid_text pf (u_id u))),
      (''exp'', CTime (t0 + timedelta_minutes (ACCESS_TOKEN_EXPIRE_MINUTES st))), (''iat'', CTime t1)]
      [(''email'', CStr (u_email u))] = ?cs"
    by (simp add: dict_update_def)
  have "set (map fst ?cs) \<subseteq> {''sub'', ''exp'', ''iat'', ''email''}" by simp
  moreover have "map_of ?cs ''exp'' = Some (CTime (t0 + timedelta_minutes (ACCESS_TOKEN_EXPIRE_MINUTES st)))"
    by simp
  ultimately obtain out where out:
      "jwt_decode pf now (SECRET_KEY st) (JWT_ALGORITHM st)
         (jwt_encode pf ?cs (SECRET_KEY st) (JWT_ALGORITHM st)) = Some out"
    and keep: "\<forall>k s. map_of ?cs k = Some (CStr s) \<longrightarrow> map_of out k = Some (CStr s)"
    using assms(1,3,4) unfolding jwt_law_def by meson
  have sub: "map_of out ''sub'' = Some (CStr (uuid_text pf (u_id u)))"
    using keep by (metis map_of_Cons_code(2))
  have "get_row u_id (u_id u) (users d) = Some u"
    using assms(5,6) by (simp add: get_row_unique auth_invD)
  with out sub assms(2,7) show ?thesis
    by (simp add: get_current_user_def decode_access_token_def create_access_token_def Let_def cs uuid_law_def
        svc_simps)
qed

text \<open>A login whose password is accepted succeeds when its token values are new.\<close>

lemma login_accepts:
  assumes "auth_inv d" and "fst (run_request (authenticate_user pf email password) d) = Inr (Some v)"
    and "mint_id m \<notin> rt_id ` set (refresh_tokens d)"
    and "hash_refresh_token pf (mint_raw_token m) \<notin> rt_token_hash ` set (refresh_tokens d)"
    and "u_id v = u_id u" and "u_email v = u_email u"
  shows "\<exists>resp. fst (run_request (login pf st m email password) d) = Inr resp
    \<and> refresh_token resp = mint_raw_token m
    \<and> access_token resp = create_access_token pf st (mint_now m) (mint_now m) (uuid_text pf (u_id u))
        [(''email'', CStr (u_email u))]"
  using assms authenticate_run [OF assms(1), of pf email password] user_by_email_find [OF assms(1)]
  by (auto simp: login_def authenticate_user_def token_response_def issue_refresh_token_def
      insert_refresh_token_def insert_row_def svc_simps split: option.splits if_splits)

section \<open>The administrator guard\<close>

lemma admin_guard_run:
  "run_request (bind_svc (require_admin pf st now cred) f) d =
     (case fst (run_request (get_current_user pf st now cred) d) of
        Inl _ \<Rightarrow> (Inl (HTTPException 401 ''Could not validate credentials''), d)
      | Inr u \<Rightarrow>
          if u_is_admin u then run_request (f u) d
          else (Inl (HTTPException 403 ''This action requires administrator privileges''), d))"
proof -
  have err: "fst (get_current_user pf st now cred s) = Inl e \<Longrightarrow> e = credentials_error" for s e
    by (auto simp: get_current_user_def svc_simps split: option.splits claim.splits if_splits)
  obtain r where "get_current_user pf st now cred \<lparr>committed = d, working = d\<rparr>
      = (r, \<lparr>committed = d, working = d\<rparr>)"
    by (metis get_current_user_pure prod.collapse)
  with err [of "\<lparr>committed = d, working = d\<rparr>"] show ?thesis
    by (cases r) (simp_all add: require_admin_def svc_simps credentials_error_def)
qed

section \<open>A concrete platform\<close>

text \<open>A string with its length in front, in unary, and a list of string claims.\<close>

definition demo_put :: "string \<Rightarrow> string" where
  "demo_put s = replicate (length s) (CHR ''1'') @ CHR ''0'' # s"

definition demo_get :: "string \<Rightarrow> string \<times> string" where
  "demo_get xs = (let n = length (takeWhile (\<lambda>c. c = CHR ''1'') xs)
                  in (take n (drop (n + 1) xs), drop n (drop (n + 1) xs)))"

fun demo_encode :: "claims \<Rightarrow> string" where
  "demo_encode [] = []"
| "demo_encode ((k, CStr s) # cs) = demo_put k @ demo_put s @ demo_encode cs"
| "demo_encode ((k, CTime t) # cs) = demo_encode cs"

fun demo_decode :: "nat \<Rightarrow> string \<Rightarrow> claims" where
  "demo_decode 0 xs = []"
| "demo_decode (Suc n) xs =
     (if xs = [] then []
      else (let (k, r) = demo_get xs; (v, r') = demo_get r in (k, CStr v) # demo_decode n r'))"

text \<open>A one-byte digest stands for SHA-256.\<close>

definition demo_digest :: "bytes \<Rightarrow> bytes" where
  "demo_digest b = [char_of (foldl (\<lambda>a c. (a * 31 + of_char c) mod 251) (7::int) b)]"

definition demo_platform :: platform where
  "demo_platform =
     \<lparr>bcrypt_hash = (\<lambda>salt p. show_nat salt @ CHR ''$'' # p),
      bcrypt_verify = (\<lambda>p h. tl (dropWhile (\<lambda>c. c \<noteq> CHR ''$'') h) = p),
      sha256 = demo_digest,
      jwt_encode = (\<lambda>claims key alg. demo_encode claims),
      jwt_decode = (\<lambda>now key alg tok. Some (demo_decode (length tok) tok)),
      uuid_text = show_nat,
      uuid_parse = (\<lambda>s. Some (read_nat 0 s))\<rparr>"

lemma demo_get_put [simp]: "demo_get (demo_put s @ r) = (s, r)"
proof -
  have "takeWhile (\<lambda>c. c = CHR ''1'') (replicate n (CHR ''1'') @ CHR ''0'' # xs)
      = replicate n (CHR ''1'')" for n xs
    by (induction n) simp_all
  then show ?thesis by (simp add: demo_get_def demo_put_def Let_def)
qed

lemma demo_put_nonempty [simp]: "demo_put s \<noteq> []" "0 < length (demo_put s)"
  by (simp_all add: demo_put_def)

lemma demo_decode_encode:
  "length (demo_encode cs) \<le> n \<Longrightarrow> demo_decode n (demo_encode cs) = filter (\<lambda>c. \<exists>s. snd c = CStr s) cs"
proof (induction cs arbitrary: n rule: demo_encode.induct)
  case 1
  then show ?case by (cases n) simp_all
next
  case (2 k s cs)
  have n: "length (demo_put k) = Suc (2 * length k)" by (simp add: demo_put_def)
  with 2(2) obtain m where m: "n = Suc m" by (cases n) auto
  with 2(2) n have "length (demo_encode cs) \<le> m" by simp
  with 2(1) m show ?case by simp
next
  case (3 k t cs)
  then show ?case by simp
qed

lemma map_of_filter_strings:
  "map_of cs k = Some (CStr s) \<Longrightarrow> map_of (filter (\<lambda>c. \<exists>s. snd c = CStr s) cs) k = Some (CStr s)"
  by (induction cs) (auto split: if_splits)

lemma demo_bcrypt_law: "bcrypt_law demo_platform"
proof -
  have "\<not> is_ascii_digit (CHR ''$'')" by code_simp
  then have "\<not> (CHR ''$'' \<in> set (show_nat n))" for n
    using show_nat_digits [of n] by (auto simp: list_all_iff)
  then have "dropWhile (\<lambda>c. c \<noteq> CHR ''$'') (show_nat n @ CHR ''$'' # p) = CHR ''$'' # p" for n p
    by (subst dropWhile_append2) auto
  then show ?thesis by (simp add: bcrypt_law_def demo_platform_def)
qed

lemma demo_jwt_law: "jwt_law demo_platform"
  by (auto simp: jwt_law_def demo_platform_def demo_decode_encode map_of_filter_strings)

lemma demo_uuid_law: "uuid_law demo_platform"
  by (simp add: uuid_law_def demo_platform_def read_show_nat)

lemmas demo_laws = demo_bcrypt_law demo_jwt_law demo_uuid_law

definition demo_settings :: Settings where
  "demo_settings = \<lparr>PROJECT_NAME = ''Nexus Engine API'', API_V1_PREFIX = ''/api/v1'', ENVIRONMENT = ''production'', DEBUG = False, POSTGRES_HOST = ''db'',
     POSTGRES_PORT = 5432, POSTGRES_USER = ''u'', POSTGRES_PASSWORD = ''p'', POSTGRES_DB = ''d'',
     DATABASE_URL = ''postgresql+asyncpg://u:p@db:5432/d'', DB_ECHO = False, DB_POOL_SIZE = 10, DB_MAX_OVERFLOW = 5,
     SECRET_KEY = ''k'', JWT_ALGORITHM = ''HS256'',
     ACCESS_TOKEN_EXPIRE_MINUTES = 480, REFRESH_TOKEN_EXPIRE_DAYS = 30, CORS_ORIGINS = [],
     AUDIT_SIGNING_KEY_PATH = ''./var/audit_signing_key.pem'', DEFAULT_PAGE_SIZE = 50, MAX_PAGE_SIZE = 200\<rparr>"

text \<open>Two accounts, the first an administrator with one live session and one reset token.\<close>

definition demo_user :: User where
  "demo_user = \<lparr>u_id = 1, u_email = ''admin@nexus'', u_display_name = ''Admin'',
     u_hashed_password = ''7$pw'', u_is_active = True, u_is_admin = True, u_created_at = 0\<rparr>"

definition demo_auth_db :: auth_db where
  "demo_auth_db = \<lparr>users = [demo_user, demo_user\<lparr>u_id := 2, u_email := ''op@nexus'', u_is_admin := False\<rparr>],
     refresh_tokens = [\<lparr>rt_id = 10, rt_user_id = 1, rt_token_hash = hash_refresh_token demo_platform ''r'',
       rt_expires_at = 1000, rt_revoked_at = None, rt_created_at = 0\<rparr>],
     password_reset_tokens = [\<lparr>prt_id = 20, prt_user_id = 1,
       prt_token_hash = hash_refresh_token demo_platform ''q'', prt_expires_at = 1000, prt_used_at = None\<rparr>]\<rparr>"

definition demo_mint :: mint where
  "demo_mint = \<lparr>mint_id = 11, mint_raw_token = ''s'', mint_now = 5\<rparr>"

lemma demo_auth_inv: "auth_inv demo_auth_db"
  by (simp add: auth_inv_def demo_auth_db_def demo_user_def)

section \<open>Properties\<close>

text \<open>
  C23. A refresh token is single use: once a refresh succeeded with it, no later
  sequence of requests makes it redeemable again. Presenting it again is answered with
  401 and changes nothing.
\<close>

theorem refresh_token_single_use:
  assumes "auth_inv d"
    and "run_request (refresh pf st now now' m raw) d = (Inr resp, d1)"
    and "auth_steps pf st d1 d2"
  shows "run_request (refresh pf st now2 now2' m2 raw) d2
    = (Inl (HTTPException 401 ''Refresh token is invalid, expired, or already used''), d2)"
proof -
  let ?h = "hash_refresh_token pf raw"
  obtain u s1 s2 where red: "redeem_refresh_token pf now now' raw \<lparr>committed = d, working = d\<rparr> = (Inr (Some u), s1)"
    and tok: "token_response pf st m u s1 = (Inr resp, s2)" and d1: "d1 = committed s2"
    using assms(2) by (auto simp: refresh_def run_request_def bind_svc_def raise_svc_def
        split: prod.splits sum.splits option.splits)
  have s1: "spent {?h} {} (committed s1)" "spent {?h} {} (working s1)"
    using red assms(1) by (auto simp: redeem_run redeemed_dead split: option.splits if_splits)
  have "keeps (spent {?h} {}) (token_response pf st m u)"
    unfolding token_response_def by blast
  with s1 tok d1 have "spent {?h} {} d1" unfolding keeps_def by (metis snd_conv)
  with assms(3) have "spent {?h} {} d2" by (blast intro: auth_steps_spent)
  then show ?thesis by (intro refresh_dead) (auto simp: spent_def)
qed

theorem refresh_token_single_use_witness:
  "fst (run_request (refresh demo_platform demo_settings 7 7 demo_mint ''r'')
     (snd (run_request (refresh demo_platform demo_settings 6 6 demo_mint ''r'') demo_auth_db)))
   = Inl (HTTPException 401 ''Refresh token is invalid, expired, or already used'')"
proof -
  have "\<not> isl (fst (run_request (refresh demo_platform demo_settings 6 6 demo_mint ''r'') demo_auth_db))"
    by code_simp
  then obtain resp where "run_request (refresh demo_platform demo_settings 6 6 demo_mint ''r'') demo_auth_db
      = (Inr resp, snd (run_request (refresh demo_platform demo_settings 6 6 demo_mint ''r'') demo_auth_db))"
    by (metis isl_def sum.exhaust prod.collapse)
  from refresh_token_single_use [OF demo_auth_inv this steps_refl, of 7 7 demo_mint]
  show ?thesis by simp
qed

text \<open>
  Redeeming a refresh token succeeds exactly when its hash is stored, it is neither revoked
  nor expired and its owner exists and is active. It then returns the owner and revokes
  exactly that row.
\<close>

theorem redeem_refresh_token_correct:
  assumes "auth_inv d"
  shows "run_request (redeem_refresh_token pf now now' raw) d = (Inr (Some u), d') \<longleftrightarrow>
    (\<exists>t \<in> set (refresh_tokens d). rt_token_hash t = hash_refresh_token pf raw
       \<and> rt_revoked_at t = None \<and> now \<le> rt_expires_at t
       \<and> u \<in> set (users d) \<and> u_id u = rt_user_id t \<and> u_is_active u
       \<and> d' = d\<lparr>refresh_tokens := map (\<lambda>x. if rt_token_hash x = hash_refresh_token pf raw
                   then x\<lparr>rt_revoked_at := Some now'\<rparr> else x) (refresh_tokens d)\<rparr>)"
proof -
  let ?h = "hash_refresh_token pf raw"
  have same: "redeemed t now' d = d\<lparr>refresh_tokens := map (\<lambda>x. if rt_token_hash x = ?h
      then x\<lparr>rt_revoked_at := Some now'\<rparr> else x) (refresh_tokens d)\<rparr>"
    if "t \<in> set (refresh_tokens d)" "rt_token_hash t = ?h" for t
  proof -
    have "x \<in> set (refresh_tokens d) \<Longrightarrow> rt_id x = rt_id t \<longleftrightarrow> rt_token_hash x = ?h" for x
      using that assms find_unique_key [of rt_id "refresh_tokens d"]
        find_unique_key [of rt_token_hash "refresh_tokens d"] by (metis auth_invD(3,4) option.inject)
    then show ?thesis by (simp add: redeemed_def update_where_def cong: map_cong)
  qed
  have user: "get_row u_id i (users d) = Some v \<longleftrightarrow> v \<in> set (users d) \<and> u_id v = i" for i v
    using assms by (simp add: get_row_def find_key_Some auth_invD)
  have tok: "find (\<lambda>t. rt_token_hash t = ?h) (refresh_tokens d) = Some t
      \<longleftrightarrow> t \<in> set (refresh_tokens d) \<and> rt_token_hash t = ?h" for t
    using assms by (simp add: find_key_Some auth_invD)
  have "run_request (redeem_refresh_token pf now now' raw) d = (Inr (Some u), d') \<longleftrightarrow>
    (\<exists>t. find (\<lambda>t. rt_token_hash t = ?h) (refresh_tokens d) = Some t \<and> rt_revoked_at t = None
       \<and> now \<le> rt_expires_at t \<and> get_row u_id (rt_user_id t) (users d) = Some u \<and> u_is_active u
       \<and> d' = redeemed t now' d)"
    using assms by (auto simp: run_request_def redeem_run split: option.splits if_splits)
  also have "\<dots> \<longleftrightarrow> (\<exists>t \<in> set (refresh_tokens d). rt_token_hash t = ?h
       \<and> rt_revoked_at t = None \<and> now \<le> rt_expires_at t
       \<and> u \<in> set (users d) \<and> u_id u = rt_user_id t \<and> u_is_active u
       \<and> d' = d\<lparr>refresh_tokens := map (\<lambda>x. if rt_token_hash x = ?h
                   then x\<lparr>rt_revoked_at := Some now'\<rparr> else x) (refresh_tokens d)\<rparr>)"
    unfolding user tok using same by auto
  finally show ?thesis .
qed

theorem redeem_refresh_token_correct_witness:
  "fst (run_request (redeem_refresh_token demo_platform 6 6 ''r'') demo_auth_db) = Inr (Some demo_user)"
proof -
  let ?d = "demo_auth_db\<lparr>refresh_tokens := map (\<lambda>x. if rt_token_hash x = hash_refresh_token demo_platform ''r''
                   then x\<lparr>rt_revoked_at := Some 6\<rparr> else x) (refresh_tokens demo_auth_db)\<rparr>"
  have "run_request (redeem_refresh_token demo_platform 6 6 ''r'') demo_auth_db = (Inr (Some demo_user), ?d)"
    by (subst redeem_refresh_token_correct [OF demo_auth_inv]) (simp add: demo_auth_db_def demo_user_def)
  then show ?thesis by simp
qed

text \<open>
  C27. Changing a password ends every session: a refresh token the user held before the change
  is refused with 401 in every later state. A login with the new password and an address that
  is, in lower case, the stored one then succeeds (fresh token values given), answers with an
  access token for the account and stores the account with the hash of the new password. An
  account stored with capitals in its address has no such address (C29).
\<close>

theorem change_password_ends_sessions:
  assumes "auth_inv d" and "bcrypt_law pf"
    and "fst (run_request (get_current_user pf st now cred) d) = Inr u"
    and "run_request (change_own_password pf st now cred salt now' cur new) d = (Inr msg, d1)"
  shows "(\<forall>t raw d2 now2 now2' m. t \<in> set (refresh_tokens d) \<and> rt_user_id t = u_id u
        \<and> rt_token_hash t = hash_refresh_token pf raw \<and> auth_steps pf st d1 d2 \<longrightarrow>
        run_request (refresh pf st now2 now2' m raw) d2
          = (Inl (HTTPException 401 ''Refresh token is invalid, expired, or already used''), d2))
    \<and> find (\<lambda>v. u_id v = u_id u) (users d1) = Some (u\<lparr>u_hashed_password := hash_password pf salt new\<rparr>)
    \<and> (\<forall>email m. lower email = u_email u \<and> mint_id m \<notin> rt_id ` set (refresh_tokens d)
          \<and> hash_refresh_token pf (mint_raw_token m) \<notin> rt_token_hash ` set (refresh_tokens d) \<longrightarrow>
        (\<exists>resp. fst (run_request (login pf st m email new) d1) = Inr resp
          \<and> refresh_token resp = mint_raw_token m
          \<and> access_token resp = create_access_token pf st (mint_now m) (mint_now m) (uuid_text pf (u_id u))
              [(''email'', CStr (u_email u))]))"
proof -
  have d1: "d1 = password_changed (u_id u) (hash_password pf salt new) now' d"
    using assms(3,4) by (simp add: change_own_password_run split: if_splits)
  have u: "u \<in> set (users d)" "u_is_active u"
    using assms(3) get_current_user_in [of pf st now cred "\<lparr>committed = d, working = d\<rparr>" u]
    by (simp_all only: current_user_run fst_conv session.select_convs)
  let ?u = "u\<lparr>u_hashed_password := hash_password pf salt new\<rparr>"
  have inv1: "auth_inv d1"
    unfolding d1 using password_changed_inv [of "{}" "{}" d] assms(1) by (simp add: spent_def)
  have stored: "?u \<in> set (users d1)"
    using u by (auto simp: d1 password_changed_def update_where_def image_iff intro!: bexI [of _ u])
  have "find (\<lambda>v. u_id v = u_id u) (users d1) = Some ?u"
    using stored by (simp add: find_key_Some auth_invD(1) [OF inv1])
  moreover have "\<exists>resp. fst (run_request (login pf st m email new) d1) = Inr resp
          \<and> refresh_token resp = mint_raw_token m
          \<and> access_token resp = create_access_token pf st (mint_now m) (mint_now m) (uuid_text pf (u_id u))
              [(''email'', CStr (u_email u))]"
    if "lower email = u_email u" "mint_id m \<notin> rt_id ` set (refresh_tokens d)"
      "hash_refresh_token pf (mint_raw_token m) \<notin> rt_token_hash ` set (refresh_tokens d)" for email m
  proof -
    have "fst (run_request (authenticate_user pf email new) d1) = Inr (Some ?u)"
      unfolding d1 by (rule authenticate_changed) (use assms u that in auto)
    with that show ?thesis
      by (intro login_accepts [OF inv1, where u = u and v = ?u]) (simp_all add: d1 password_changed_def ids_update_where)
  qed
  moreover have "run_request (refresh pf st now2 now2' m raw) d2
        = (Inl (HTTPException 401 ''Refresh token is invalid, expired, or already used''), d2)"
    if t: "t \<in> set (refresh_tokens d)" "rt_user_id t = u_id u" "rt_token_hash t = hash_refresh_token pf raw"
      and steps: "auth_steps pf st d1 d2" for t raw d2 now2 now2' m
  proof -
    have "spent {} {} d1" unfolding d1 by (rule password_changed_inv) (simp add: spent_def assms)
    with password_changed_dead [OF t(1,2)] t(3) have "spent {hash_refresh_token pf raw} {} d1"
      by (metis d1 empty_subsetI insert_subset spent_def)
    with steps have "spent {hash_refresh_token pf raw} {} d2" by (blast intro: auth_steps_spent)
    then show ?thesis by (intro refresh_dead) (auto simp: spent_def)
  qed
  ultimately show ?thesis by blast
qed

theorem change_password_ends_sessions_witness:
  "fst (run_request (refresh demo_platform demo_settings 7 7 demo_mint ''r'')
     (snd (run_request (change_own_password demo_platform demo_settings 0
        (Some (create_access_token demo_platform demo_settings 0 0 ''1'' [])) 4 6 ''pw'' ''new-secret'') demo_auth_db)))
   = Inl (HTTPException 401 ''Refresh token is invalid, expired, or already used'')"
proof -
  let ?cred = "Some (create_access_token demo_platform demo_settings 0 0 ''1'' [])"
  let ?m = "change_own_password demo_platform demo_settings 0 ?cred 4 6 ''pw'' ''new-secret''"
  have u: "fst (run_request (get_current_user demo_platform demo_settings 0 ?cred) demo_auth_db) = Inr demo_user"
    by code_simp
  have "fst (run_request ?m demo_auth_db) = Inr ''Password changed successfully''" by code_simp
  then have "run_request ?m demo_auth_db
      = (Inr ''Password changed successfully'', snd (run_request ?m demo_auth_db))"
    by (metis prod.collapse)
  from change_password_ends_sessions [OF demo_auth_inv demo_bcrypt_law u this]
  have "hd (refresh_tokens demo_auth_db) \<in> set (refresh_tokens demo_auth_db)
      \<and> rt_user_id (hd (refresh_tokens demo_auth_db)) = u_id demo_user
      \<and> rt_token_hash (hd (refresh_tokens demo_auth_db)) = hash_refresh_token demo_platform ''r''
      \<and> auth_steps demo_platform demo_settings (snd (run_request ?m demo_auth_db)) (snd (run_request ?m demo_auth_db))
      \<Longrightarrow> ?thesis"
    by (metis fst_conv)
  then show ?thesis
    by (simp add: demo_auth_db_def demo_user_def steps_refl)
qed

text \<open>
  C28. A password reset token is single use: once a reset succeeded with it, it is refused with
  400 in every later state (with 422 when the new password is itself refused).
\<close>

theorem reset_token_single_use:
  assumes "auth_inv d"
    and "run_request (reset_own_password pf salt now now' raw new) d = (Inr msg, d1)"
    and "auth_steps pf st d1 d2"
  shows "run_request (reset_own_password pf salt2 now2 now2' raw new2) d2
    = (Inl (if len_in 8 128 new2
            then HTTPException 400 ''Reset token is invalid, expired, or already used''
            else HTTPException 422 ''Unprocessable Entity''), d2)"
proof -
  let ?h = "hash_refresh_token pf raw"
  obtain t and u :: User where
    valid: "valid_ResetPasswordRequest \<lparr>rpr_token = raw, rpr_new_password = new\<rparr>"
    and f: "find (\<lambda>t. prt_token_hash t = ?h) (password_reset_tokens d) = Some t"
    and d1: "d1 = password_reset_tokens_update (update_where (\<lambda>x. prt_id x = prt_id t)
           (\<lambda>x. x\<lparr>prt_used_at := Some now\<rparr>)) (password_changed (u_id u) (hash_password pf salt new) now' d)"
    by (rule reset_own_password_run [OF assms(1,2)]) (rule that)
  have t: "t \<in> set (password_reset_tokens d)" "prt_token_hash t = ?h"
    using f assms(1) by (auto simp: find_key_Some auth_invD)
  have "spent {} {} d1" unfolding d1
    by (intro spent_use password_changed_inv) (simp add: spent_def assms)
  moreover have "?h \<in> used_hashes d1"
    unfolding used_hashes_def d1
    by (rule image_eqI [of _ _ "t\<lparr>prt_used_at := Some now\<rparr>"])
       (use t in \<open>auto simp: update_where_def password_changed_def\<close>)
  ultimately have "spent {} {?h} d1" by (simp add: spent_def)
  with assms(3) have "spent {} {?h} d2" by (blast intro: auth_steps_spent)
  with valid show ?thesis
    by (subst reset_used) (auto simp: spent_def valid_ResetPasswordRequest_def)
qed

theorem reset_token_single_use_witness:
  "fst (run_request (reset_own_password demo_platform 3 7 7 ''q'' ''other-secret'')
     (snd (run_request (reset_own_password demo_platform 2 6 6 ''q'' ''new-secret'') demo_auth_db)))
   = Inl (HTTPException 400 ''Reset token is invalid, expired, or already used'')"
proof -
  have "fst (run_request (reset_own_password demo_platform 2 6 6 ''q'' ''new-secret'') demo_auth_db)
      = Inr ''Password reset successfully''"
    by code_simp
  then have "run_request (reset_own_password demo_platform 2 6 6 ''q'' ''new-secret'') demo_auth_db
      = (Inr ''Password reset successfully'',
         snd (run_request (reset_own_password demo_platform 2 6 6 ''q'' ''new-secret'') demo_auth_db))"
    by (metis prod.collapse)
  from reset_token_single_use [OF demo_auth_inv this steps_refl, of 3 7 7 "''other-secret''"]
  show ?thesis by (simp add: len_in_def)
qed

text \<open>
  C30. A login answers with credentials that work: until it expires the access token identifies
  the account whose email (in lower case) and password were presented, and the refresh token
  redeems to the same account.
\<close>

theorem login_issues_working_credentials:
  assumes "jwt_law pf" and "uuid_law pf" and "JWT_ALGORITHM st \<in> set ALLOWED_JWT_ALGORITHMS"
    and "auth_inv d" and "run_request (login pf st m email password) d = (Inr resp, d1)"
    and "now + 1000000 \<le> mint_now m + timedelta_minutes (ACCESS_TOKEN_EXPIRE_MINUTES st)"
    and "now2 \<le> mint_now m + timedelta_days (REFRESH_TOKEN_EXPIRE_DAYS st)"
  shows "\<exists>u \<in> set (users d). u_email u = lower email \<and> u_is_active u
    \<and> verify_password pf password (u_hashed_password u)
    \<and> fst (run_request (get_current_user pf st now (Some (access_token resp))) d1) = Inr u
    \<and> fst (run_request (redeem_refresh_token pf now2 now3 (refresh_token resp)) d1) = Inr (Some u)"
proof -
  obtain u s where auth: "fst (run_request (authenticate_user pf email password) d) = Inr (Some u)"
    and tok: "token_response pf st m u \<lparr>committed = d, working = d\<rparr> = (Inr resp, s)"
    and d1: "d1 = committed s"
    using assms(5) authenticate_run [OF assms(4), of pf email password] user_by_email_find [OF assms(4)]
    by (auto simp: login_def svc_simps authenticate_user_def split: prod.splits sum.splits option.splits if_splits)
  have u: "u \<in> set (users d)" "u_email u = lower email" "u_is_active u"
      "verify_password pf password (u_hashed_password u)"
    using auth assms(4) by (auto simp: authenticate_run find_key_Some auth_invD split: option.splits if_splits)
  note r = token_response_run [OF tok]
  have users: "users d1 = users d" using r(3) d1 by simp
  have "keeps (spent {} {}) (login pf st m email password)"
    unfolding login_def token_response_def by blast
  from keeps_run [OF this, of d] have inv1: "auth_inv d1" using assms(4,5) by (simp add: spent_def)
  have "fst (run_request (get_current_user pf st now (Some (access_token resp))) d1) = Inr u"
    unfolding r(2) by (rule access_token_identifies) (use assms u users inv1 in auto)
  moreover have "fst (run_request (redeem_refresh_token pf now2 now3 (refresh_token resp)) d1) = Inr (Some u)"
  proof -
    let ?t = "\<lparr>rt_id = mint_id m, rt_user_id = u_id u, rt_token_hash = hash_refresh_token pf (mint_raw_token m),
             rt_expires_at = mint_now m + timedelta_days (REFRESH_TOKEN_EXPIRE_DAYS st),
             rt_revoked_at = None, rt_created_at = mint_now m\<rparr>"
    have "find (\<lambda>t. rt_token_hash t = hash_refresh_token pf (mint_raw_token m)) (refresh_tokens d1) = Some ?t"
      unfolding find_key_Some [OF auth_invD(4) [OF inv1]] by (simp add: d1 r(3))
    moreover have "get_row u_id (u_id u) (users d1) = Some u"
      using get_row_unique [OF auth_invD(1) [OF inv1]] u users by simp
    ultimately show ?thesis using u assms(7) inv1 by (simp add: run_request_def redeem_run r(1))
  qed
  ultimately show ?thesis using u by auto
qed

theorem login_issues_working_credentials_witness:
  "\<exists>resp d1. run_request (login demo_platform demo_settings demo_mint ''Admin@Nexus'' ''pw'') demo_auth_db
       = (Inr resp, d1)
     \<and> fst (run_request (get_current_user demo_platform demo_settings 100 (Some (access_token resp))) d1)
         = Inr demo_user"
proof -
  let ?r = "run_request (login demo_platform demo_settings demo_mint ''Admin@Nexus'' ''pw'') demo_auth_db"
  have "\<not> isl (fst ?r)" by code_simp
  then obtain resp d1 where r: "?r = (Inr resp, d1)" by (metis isl_def sum.exhaust prod.collapse)
  have "\<exists>u\<in>set (users demo_auth_db). u_email u = lower ''Admin@Nexus'' \<and> u_is_active u
    \<and> verify_password demo_platform ''pw'' (u_hashed_password u)
    \<and> fst (run_request (get_current_user demo_platform demo_settings 100 (Some (access_token resp))) d1) = Inr u
    \<and> fst (run_request (redeem_refresh_token demo_platform 100 100 (refresh_token resp)) d1) = Inr (Some u)"
    by (rule login_issues_working_credentials [OF demo_jwt_law demo_uuid_law _ demo_auth_inv r])
       (simp_all add: demo_settings_def demo_mint_def ALLOWED_JWT_ALGORITHMS_def timedelta_minutes_def timedelta_days_def)
  moreover have "lower ''Admin@Nexus'' = ''admin@nexus''" by code_simp
  ultimately show ?thesis using r by (auto simp: demo_auth_db_def demo_user_def)
qed

text \<open>
  Outside the recognised development environments a forgotten-password request answers the
  same to everybody: the answer never holds a reset token and does not tell whether the
  address belongs to an account.
\<close>

theorem forgot_password_reveals_nothing:
  assumes "lower (ENVIRONMENT st) \<notin> {''development'', ''local'', ''test''}"
    and "fst (run_request (forgot_password pf st i raw now email) d) = Inr answer"
    and "fst (run_request (forgot_password pf st i' raw' now' email') d') = Inr answer'"
  shows "answer = answer' \<and> fpr_reset_token answer = None"
  using assms by (auto simp: forgot_password_def validated_def svc_simps split: prod.splits sum.splits if_splits)

theorem forgot_password_reveals_nothing_witness:
  "fst (run_request (forgot_password demo_platform demo_settings 30 ''z'' 5 ''admin@nexus'') demo_auth_db)
   = fst (run_request (forgot_password demo_platform demo_settings 31 ''y'' 5 ''nobody'') demo_auth_db)"
proof -
  let ?a = "fst (run_request (forgot_password demo_platform demo_settings 30 ''z'' 5 ''admin@nexus'') demo_auth_db)"
  let ?b = "fst (run_request (forgot_password demo_platform demo_settings 31 ''y'' 5 ''nobody'') demo_auth_db)"
  have "\<not> isl ?a" "\<not> isl ?b" by code_simp+
  then obtain a b where ab: "?a = Inr a" "?b = Inr b" by (metis isl_def sum.exhaust)
  have "lower (ENVIRONMENT demo_settings) \<notin> {''development'', ''local'', ''test''}" by code_simp
  from forgot_password_reveals_nothing [OF this ab] ab show ?thesis by simp
qed

text \<open>
  The administrator guard in front of an endpoint: without valid credentials of an active
  account the request ends with 401, with those of an ordinary account with 403, in both cases
  with the database as it was; only an administrator's request runs the endpoint, and runs it
  on the untouched session.
\<close>

theorem require_admin_guards:
  "run_request (bind_svc (require_admin pf st now cred) f) d =
     (case fst (run_request (get_current_user pf st now cred) d) of
        Inl _ \<Rightarrow> (Inl (HTTPException 401 ''Could not validate credentials''), d)
      | Inr u \<Rightarrow>
          if u_is_admin u then run_request (f u) d
          else (Inl (HTTPException 403 ''This action requires administrator privileges''), d))"
  by (rule admin_guard_run)

section \<open>Guarded endpoints\<close>

text \<open>
  The contract of a route that depends on \<^verbatim>\<open>require_admin\<close>: the guard runs first and the body
  receives the administrator. Every guarded endpoint of the services interprets it.
\<close>

locale admin_endpoint =
  fixes pf :: "'p platform_scheme" and st :: Settings and now :: datetime
    and endpoint :: "string option \<Rightarrow> ('z auth_db_scheme, 'a) svc"
    and body :: "User \<Rightarrow> ('z auth_db_scheme, 'a) svc"
  assumes guarded: "endpoint cred = bind_svc (require_admin pf st now cred) body"
begin

lemma refused:
  assumes "\<forall>u. fst (run_request (get_current_user pf st now cred) d) = Inr u \<longrightarrow> \<not> u_is_admin u"
  shows "snd (run_request (endpoint cred) d) = d
    \<and> (\<exists>code detail. fst (run_request (endpoint cred) d) = Inl (HTTPException code detail) \<and> code \<in> {401, 403})"
  using assms unfolding guarded admin_guard_run by (auto split: sum.splits)

lemma admitted:
  assumes "fst (run_request (get_current_user pf st now cred) d) = Inr u" and "u_is_admin u"
  shows "run_request (endpoint cred) d = run_request (body u) d"
  using assms unfolding guarded admin_guard_run by simp

end

end
