(* ===== verification/Rbac.thy ===== *)
theory Rbac
  imports Auth "HOL-Library.Multiset"
begin

text \<open>
  Accounts, roles, permissions and their assignment: \<^verbatim>\<open>src/app/models/rbac.py\<close>,
  \<^verbatim>\<open>src/app/schemas/rbac.py\<close>, \<^verbatim>\<open>src/app/services/rbac_service.py\<close> and
  \<^verbatim>\<open>src/app/api/v1/endpoints/rbac.py\<close>.
\<close>

section \<open>Models\<close>

record Role =
  r_id :: uuid
  r_name :: string
  r_description :: "string option"
  r_is_active :: bool
  r_created_at :: datetime

record Permission =
  p_id :: uuid
  p_name :: string
  p_description :: "string option"
  p_resource :: string
  p_action :: string

record UserRole =
  ur_id :: uuid
  ur_user_id :: uuid
  ur_role_id :: uuid
  ur_assigned_by :: "string option"

record RolePermission =
  rp_id :: uuid
  rp_role_id :: uuid
  rp_permission_id :: uuid

record rbac_db = auth_db +
  roles :: "Role list"
  permissions :: "Permission list"
  user_roles :: "UserRole list"
  role_permissions :: "RolePermission list"

interpretation roles_table: table r_id roles roles_update
  by unfold_locales simp

interpretation permissions_table: table p_id permissions permissions_update
  by unfold_locales simp

interpretation user_roles_table: table ur_id user_roles user_roles_update
  by unfold_locales simp

interpretation role_permissions_table: table rp_id role_permissions role_permissions_update
  by unfold_locales simp

text \<open>
  The flush of one new row: column widths, unique columns and foreign keys as the model
  classes declare them, then the primary key.
\<close>

definition user_columns_ok :: "User \<Rightarrow> bool" where
  "user_columns_ok u \<longleftrightarrow> fits 255 (u_email u) \<and> fits 120 (u_display_name u) \<and> fits 255 (u_hashed_password u)
     \<and> text_ok (u_email u) \<and> text_ok (u_display_name u) \<and> text_ok (u_hashed_password u)"

definition role_columns_ok :: "Role \<Rightarrow> bool" where
  "role_columns_ok r \<longleftrightarrow> fits 80 (r_name r) \<and> text_ok (r_name r) \<and> text_ok_opt (r_description r)"

definition permission_columns_ok :: "Permission \<Rightarrow> bool" where
  "permission_columns_ok p \<longleftrightarrow> fits 120 (p_name p) \<and> fits 60 (p_resource p) \<and> fits 60 (p_action p)
     \<and> text_ok (p_name p) \<and> text_ok (p_resource p) \<and> text_ok (p_action p) \<and> text_ok_opt (p_description p)"

definition insert_user :: "User \<Rightarrow> 'z auth_db_scheme \<Rightarrow> error + 'z auth_db_scheme" where
  "insert_user u d =
     (if \<not> user_columns_ok u
      then Inl (DataError ''users'')
      else if u_email u \<in> u_email ` set (users d) then Inl (IntegrityError ''users.email'')
      else (case insert_row u_id u (users d) of
              Inl e \<Rightarrow> Inl e | Inr us \<Rightarrow> Inr (d\<lparr>users := us\<rparr>)))"

definition insert_role :: "Role \<Rightarrow> 'z rbac_db_scheme \<Rightarrow> error + 'z rbac_db_scheme" where
  "insert_role r d =
     (if \<not> role_columns_ok r then Inl (DataError ''roles'')
      else if r_name r \<in> r_name ` set (roles d) then Inl (IntegrityError ''roles.name'')
      else (case insert_row r_id r (roles d) of
              Inl e \<Rightarrow> Inl e | Inr rs \<Rightarrow> Inr (d\<lparr>roles := rs\<rparr>)))"

definition insert_permission :: "Permission \<Rightarrow> 'z rbac_db_scheme \<Rightarrow> error + 'z rbac_db_scheme" where
  "insert_permission p d =
     (if \<not> permission_columns_ok p
      then Inl (DataError ''permissions'')
      else if p_name p \<in> p_name ` set (permissions d) then Inl (IntegrityError ''permissions.name'')
      else (case insert_row p_id p (permissions d) of
              Inl e \<Rightarrow> Inl e | Inr ps \<Rightarrow> Inr (d\<lparr>permissions := ps\<rparr>)))"

definition insert_user_role :: "UserRole \<Rightarrow> 'z rbac_db_scheme \<Rightarrow> error + 'z rbac_db_scheme" where
  "insert_user_role l d =
     (if \<not> text_fits_opt 120 (ur_assigned_by l) then Inl (DataError ''user_roles'')
      else if ur_user_id l \<notin> u_id ` set (users d) \<or> ur_role_id l \<notin> r_id ` set (roles d)
      then Inl (IntegrityError ''user_roles foreign key'')
      else if (ur_user_id l, ur_role_id l) \<in> (\<lambda>x. (ur_user_id x, ur_role_id x)) ` set (user_roles d)
      then Inl (IntegrityError ''uq_user_roles_user_role'')
      else (case insert_row ur_id l (user_roles d) of
              Inl e \<Rightarrow> Inl e | Inr ls \<Rightarrow> Inr (d\<lparr>user_roles := ls\<rparr>)))"

definition insert_role_permission :: "RolePermission \<Rightarrow> 'z rbac_db_scheme \<Rightarrow> error + 'z rbac_db_scheme" where
  "insert_role_permission l d =
     (if rp_role_id l \<notin> r_id ` set (roles d) \<or> rp_permission_id l \<notin> p_id ` set (permissions d)
      then Inl (IntegrityError ''role_permissions foreign key'')
      else if (rp_role_id l, rp_permission_id l)
              \<in> (\<lambda>x. (rp_role_id x, rp_permission_id x)) ` set (role_permissions d)
      then Inl (IntegrityError ''uq_role_permissions_role_perm'')
      else (case insert_row rp_id l (role_permissions d) of
              Inl e \<Rightarrow> Inl e | Inr ls \<Rightarrow> Inr (d\<lparr>role_permissions := ls\<rparr>)))"

section \<open>Schemas\<close>

record PermissionRead =
  pr_id :: uuid
  pr_name :: string
  pr_description :: "string option"
  pr_resource :: string
  pr_action :: string

record PermissionCreate =
  pc_name :: string
  pc_resource :: string
  pc_action :: string
  pc_description :: "string option"

record RoleRead =
  rr_id :: uuid
  rr_name :: string
  rr_description :: "string option"
  rr_is_active :: bool
  rr_permission_count :: nat
  rr_user_count :: nat
  rr_permissions :: "PermissionRead list"
  rr_created_at :: datetime

record RoleCreate =
  rc_name :: string
  rc_description :: "string option"
  rc_permission_ids :: "uuid list"

record RoleUpdate =
  ru_name :: "string option"
  ru_description :: "string option"
  ru_is_active :: "bool option"
  ru_permission_ids :: "uuid list option"

record RoleSummary =
  rs_id :: uuid
  rs_name :: string

record RbacUserRead =
  rur_id :: uuid
  rur_email :: string
  rur_display_name :: string
  rur_is_active :: bool
  rur_is_admin :: bool
  rur_created_at :: datetime
  rur_roles :: "RoleSummary list"

record RbacUserCreate =
  ruc_email :: string
  ruc_display_name :: string
  ruc_password :: string
  ruc_is_admin :: bool
  ruc_role_ids :: "uuid list"

record RbacUserUpdate =
  ruu_display_name :: "string option"
  ruu_is_admin :: "bool option"

record RoleAssignmentResult =
  rar_detail :: string
  rar_user_id :: uuid
  rar_role_id :: uuid
  rar_roles :: "RoleSummary list"

definition valid_PermissionCreate :: "PermissionCreate \<Rightarrow> bool" where
  "valid_PermissionCreate p \<longleftrightarrow> len_in 2 120 (pc_name p) \<and> len_in 1 60 (pc_resource p)
     \<and> len_in 1 60 (pc_action p) \<and> len_in_opt 0 500 (pc_description p)"

definition valid_RoleCreate :: "RoleCreate \<Rightarrow> bool" where
  "valid_RoleCreate p \<longleftrightarrow> len_in 2 80 (rc_name p) \<and> len_in_opt 0 500 (rc_description p)"

definition valid_RoleUpdate :: "RoleUpdate \<Rightarrow> bool" where
  "valid_RoleUpdate p \<longleftrightarrow> len_in_opt 2 80 (ru_name p) \<and> len_in_opt 0 500 (ru_description p)"

definition valid_RbacUserCreate :: "RbacUserCreate \<Rightarrow> bool" where
  "valid_RbacUserCreate p \<longleftrightarrow> len_in 3 255 (ruc_email p) \<and> len_in 1 120 (ruc_display_name p)
     \<and> len_in 8 128 (ruc_password p)"

definition valid_RbacUserUpdate :: "RbacUserUpdate \<Rightarrow> bool" where
  "valid_RbacUserUpdate p \<longleftrightarrow> len_in_opt 1 120 (ruu_display_name p)"

section \<open>services/rbac\_service.py\<close>

subsection \<open>Internal loaders\<close>

text \<open>
  The rows of a join with a grouping key, and the group of one key: \<^verbatim>\<open>grouped.get(k, [])\<close>.
  Names are ordered by code point.
\<close>

definition group_of :: "('k \<times> 'v) list \<Rightarrow> 'k \<Rightarrow> 'v list" where
  "group_of rows k = map snd (filter (\<lambda>r. fst r = k) rows)"

definition roles_by_user :: "'z rbac_db_scheme \<Rightarrow> uuid list \<Rightarrow> (uuid \<times> Role) list" where
  "roles_by_user d user_ids =
     (if user_ids = [] then []
      else sort_key (\<lambda>r. r_name (snd r))
        (concat (map (\<lambda>l. map (\<lambda>r. (ur_user_id l, r)) (filter (\<lambda>r. r_id r = ur_role_id l) (roles d)))
           (filter (\<lambda>l. ur_user_id l \<in> set user_ids) (user_roles d)))))"

definition permissions_by_role :: "'z rbac_db_scheme \<Rightarrow> uuid list \<Rightarrow> (uuid \<times> Permission) list" where
  "permissions_by_role d role_ids =
     (if role_ids = [] then []
      else sort_key (\<lambda>r. p_name (snd r))
        (concat (map (\<lambda>l. map (\<lambda>p. (rp_role_id l, p)) (filter (\<lambda>p. p_id p = rp_permission_id l) (permissions d)))
           (filter (\<lambda>l. rp_role_id l \<in> set role_ids) (role_permissions d)))))"

definition user_counts_by_role :: "'z rbac_db_scheme \<Rightarrow> uuid \<Rightarrow> nat" where
  "user_counts_by_role d role_id = length (filter (\<lambda>l. ur_role_id l = role_id) (user_roles d))"

definition role_summary :: "Role \<Rightarrow> RoleSummary" where
  "role_summary r = \<lparr>rs_id = r_id r, rs_name = r_name r\<rparr>"

definition user_to_read :: "User \<Rightarrow> Role list \<Rightarrow> RbacUserRead" where
  "user_to_read user rs =
     \<lparr>rur_id = u_id user, rur_email = u_email user, rur_display_name = u_display_name user,
      rur_is_active = u_is_active user, rur_is_admin = u_is_admin user,
      rur_created_at = u_created_at user, rur_roles = map role_summary rs\<rparr>"

definition permission_read :: "Permission \<Rightarrow> PermissionRead" where
  "permission_read p = \<lparr>pr_id = p_id p, pr_name = p_name p, pr_description = p_description p,
     pr_resource = p_resource p, pr_action = p_action p\<rparr>"

definition role_to_read :: "Role \<Rightarrow> Permission list \<Rightarrow> nat \<Rightarrow> RoleRead" where
  "role_to_read role ps user_count =
     \<lparr>rr_id = r_id role, rr_name = r_name role, rr_description = r_description role,
      rr_is_active = r_is_active role, rr_permission_count = length ps, rr_user_count = user_count,
      rr_permissions = map permission_read ps, rr_created_at = r_created_at role\<rparr>"

subsection \<open>Users\<close>

text \<open>
  SQL's LIKE: a percent sign stands for any characters, an underscore for one, a backslash
  takes the next character literally. ILIKE compares in lower case.
\<close>

fun like_match :: "string \<Rightarrow> string \<Rightarrow> bool" where
  "like_match [] s \<longleftrightarrow> s = []"
| "like_match (p # ps) [] \<longleftrightarrow> p = CHR ''%'' \<and> like_match ps []"
| "like_match (p # ps) (c # s) \<longleftrightarrow>
     (if p = CHR ''%'' then like_match ps (c # s) \<or> like_match (p # ps) s
      else if p = CHR ''_'' then like_match ps s
      else if p = CHR 0x5C then (case ps of [] \<Rightarrow> False | q # qs \<Rightarrow> q = c \<and> like_match qs s)
      else p = c \<and> like_match ps s)"

definition ilike :: "string \<Rightarrow> string \<Rightarrow> bool" where
  "ilike pattern s = like_match (lower pattern) (lower s)"

definition list_users ::
  "bool option \<Rightarrow> string option \<Rightarrow> ('z rbac_db_scheme, RbacUserRead list) svc" where
  "list_users is_active search =
     query (\<lambda>d.
       let us = sort_key u_display_name (users d);
           us = (case is_active of None \<Rightarrow> us | Some b \<Rightarrow> filter (\<lambda>u. u_is_active u = b) us);
           us = (case search of
                   None \<Rightarrow> us
                 | Some s \<Rightarrow> if s = [] then us
                     else filter (\<lambda>u. ilike (''%'' @ s @ ''%'') (u_display_name u)
                                    \<or> ilike (''%'' @ s @ ''%'') (u_email u)) us);
           by_user = roles_by_user d (map u_id us)
       in map (\<lambda>u. user_to_read u (group_of by_user (u_id u))) us)"

definition get_user_orm :: "uuid \<Rightarrow> ('z auth_db_scheme, User) svc" where
  "get_user_orm user_id =
     bind_svc (query (\<lambda>d. get_row u_id user_id (users d)))
     (\<lambda>user. case user of
        None \<Rightarrow> raise_svc (HTTPException 404 ''User not found'')
      | Some user \<Rightarrow> return_svc user)"

definition get_user :: "uuid \<Rightarrow> ('z rbac_db_scheme, RbacUserRead) svc" where
  "get_user user_id =
     bind_svc (get_user_orm user_id)
     (\<lambda>user. query (\<lambda>d. user_to_read user (group_of (roles_by_user d [u_id user]) (u_id user))))"

text \<open>
  The random values of one call: the identifier of the new row and those of the link rows,
  numbered in the order they are added.
\<close>

record ids =
  new_id :: uuid
  link_id :: "nat \<Rightarrow> uuid"

fun add_user_roles :: "(nat \<Rightarrow> uuid) \<Rightarrow> nat \<Rightarrow> uuid \<Rightarrow> string option \<Rightarrow> Role list \<Rightarrow> ('z rbac_db_scheme, unit) svc" where
  "add_user_roles ids n user_id by [] = return_svc ()"
| "add_user_roles ids n user_id by (r # rs) =
     bind_svc (flush (insert_user_role
       \<lparr>ur_id = ids n, ur_user_id = user_id, ur_role_id = r_id r, ur_assigned_by = by\<rparr>))
     (\<lambda>_. add_user_roles ids (Suc n) user_id by rs)"

text \<open>
  The initial roles of a new account. The account row is already flushed, so an unknown role
  rolls the transaction back before it raises.
\<close>

definition grant_initial_roles ::
  "'p platform_scheme \<Rightarrow> ids \<Rightarrow> uuid list \<Rightarrow> ('z rbac_db_scheme, unit) svc" where
  "grant_initial_roles pf ids role_ids =
     (if role_ids = [] then return_svc ()
      else
        bind_svc (query (\<lambda>d. filter (\<lambda>r. r_id r \<in> set role_ids) (roles d)))
        (\<lambda>rs.
           let missing = map (uuid_text pf) (filter (\<lambda>i. i \<notin> r_id ` set rs) role_ids)
           in if missing \<noteq> []
              then bind_svc rollback (\<lambda>_. raise_svc (HTTPException 404
                     (''Unknown role id(s): '' @ join '', '' missing)))
              else add_user_roles (link_id ids) 0 (new_id ids) None rs))"

definition create_user ::
  "'p platform_scheme \<Rightarrow> nat \<Rightarrow> ids \<Rightarrow> datetime \<Rightarrow> RbacUserCreate \<Rightarrow> ('z rbac_db_scheme, RbacUserRead) svc" where
  "create_user pf salt ids now payload =
     bind_svc (query_e (\<lambda>d. scalar_one_or_none (filter (\<lambda>u. u_email u = ruc_email payload) (users d))))
     (\<lambda>existing.
        if existing \<noteq> None
        then raise_svc (HTTPException 409 ''A user with this email already exists'')
        else
          bind_svc (flush (insert_user
            \<lparr>u_id = new_id ids, u_email = ruc_email payload, u_display_name = ruc_display_name payload,
             u_hashed_password = hash_password pf salt (ruc_password payload), u_is_active = True,
             u_is_admin = ruc_is_admin payload, u_created_at = now\<rparr>))
          (\<lambda>_. bind_svc (grant_initial_roles pf ids (ruc_role_ids payload))
          (\<lambda>_. bind_svc commit (\<lambda>_. get_user (new_id ids)))))"

text \<open>The changed attributes reach the database with the commit, which checks the columns.\<close>

definition apply_user_update :: "RbacUserUpdate \<Rightarrow> User \<Rightarrow> User" where
  "apply_user_update payload u =
     u\<lparr>u_display_name := (case ruu_display_name payload of None \<Rightarrow> u_display_name u | Some x \<Rightarrow> x),
       u_is_admin := (case ruu_is_admin payload of None \<Rightarrow> u_is_admin u | Some b \<Rightarrow> b)\<rparr>"

definition update_user_row :: "uuid \<Rightarrow> RbacUserUpdate \<Rightarrow> 'z auth_db_scheme \<Rightarrow> error + 'z auth_db_scheme" where
  "update_user_row user_id payload d =
     (if \<not> text_fits_opt 120 (ruu_display_name payload) then Inl (DataError ''users'')
      else Inr (users_update (update_where (\<lambda>u. u_id u = user_id) (apply_user_update payload)) d))"

definition update_user :: "uuid \<Rightarrow> RbacUserUpdate \<Rightarrow> ('z rbac_db_scheme, RbacUserRead) svc" where
  "update_user user_id payload =
     bind_svc (get_user_orm user_id)
     (\<lambda>user. bind_svc (flush (update_user_row user_id payload))
     (\<lambda>_. bind_svc commit (\<lambda>_. get_user user_id)))"

definition set_user_active :: "uuid \<Rightarrow> bool \<Rightarrow> ('z rbac_db_scheme, RbacUserRead) svc" where
  "set_user_active user_id is_active =
     bind_svc (get_user_orm user_id)
     (\<lambda>user. bind_svc (modify_db (users_update (update_where (\<lambda>u. u_id u = user_id)
          (\<lambda>u. u\<lparr>u_is_active := is_active\<rparr>))))
     (\<lambda>_. bind_svc commit (\<lambda>_. get_user user_id)))"

subsection \<open>Roles\<close>

definition list_roles :: "('z rbac_db_scheme, RoleRead list) svc" where
  "list_roles =
     query (\<lambda>d.
       let rs = sort_key r_name (roles d);
           perms = permissions_by_role d (map r_id rs)
       in map (\<lambda>r. role_to_read r (group_of perms (r_id r)) (user_counts_by_role d (r_id r))) rs)"

definition get_role_orm :: "uuid \<Rightarrow> ('z rbac_db_scheme, Role) svc" where
  "get_role_orm role_id =
     bind_svc (query (\<lambda>d. get_row r_id role_id (roles d)))
     (\<lambda>role. case role of
        None \<Rightarrow> raise_svc (HTTPException 404 ''Role not found'')
      | Some role \<Rightarrow> return_svc role)"

definition role_read_for :: "Role \<Rightarrow> ('z rbac_db_scheme, RoleRead) svc" where
  "role_read_for role =
     query (\<lambda>d. role_to_read role (group_of (permissions_by_role d [r_id role]) (r_id role))
                  (user_counts_by_role d (r_id role)))"

definition validate_permission_ids ::
  "'p platform_scheme \<Rightarrow> uuid list \<Rightarrow> ('z rbac_db_scheme, Permission list) svc" where
  "validate_permission_ids pf permission_ids =
     (if permission_ids = [] then return_svc []
      else
        bind_svc (query (\<lambda>d. filter (\<lambda>p. p_id p \<in> set permission_ids) (permissions d)))
        (\<lambda>ps.
           let missing = map (uuid_text pf) (filter (\<lambda>i. i \<notin> p_id ` set ps) permission_ids)
           in if missing \<noteq> []
              then raise_svc (HTTPException 404 (''Unknown permission id(s): '' @ join '', '' missing))
              else return_svc ps))"

text \<open>\<^verbatim>\<open>dict.fromkeys\<close>: each key once, at its first place.\<close>

fun dict_fromkeys :: "'k list \<Rightarrow> 'k list" where
  "dict_fromkeys [] = []"
| "dict_fromkeys (k # ks) = k # filter (\<lambda>x. x \<noteq> k) (dict_fromkeys ks)"

fun add_role_permissions :: "(nat \<Rightarrow> uuid) \<Rightarrow> nat \<Rightarrow> uuid \<Rightarrow> uuid list \<Rightarrow> ('z rbac_db_scheme, unit) svc" where
  "add_role_permissions ids n role_id [] = return_svc ()"
| "add_role_permissions ids n role_id (p # ps) =
     bind_svc (flush (insert_role_permission
       \<lparr>rp_id = ids n, rp_role_id = role_id, rp_permission_id = p\<rparr>))
     (\<lambda>_. add_role_permissions ids (Suc n) role_id ps)"

definition create_role ::
  "'p platform_scheme \<Rightarrow> ids \<Rightarrow> datetime \<Rightarrow> RoleCreate \<Rightarrow> ('z rbac_db_scheme, RoleRead) svc" where
  "create_role pf ids now payload =
     bind_svc (query_e (\<lambda>d. scalar_one_or_none (filter (\<lambda>r. r_name r = rc_name payload) (roles d))))
     (\<lambda>existing.
        if existing \<noteq> None
        then raise_svc (HTTPException 409 ''A role with this name already exists'')
        else
          (let role = \<lparr>r_id = new_id ids, r_name = rc_name payload, r_description = rc_description payload,
                       r_is_active = True, r_created_at = now\<rparr> in
           bind_svc (validate_permission_ids pf (rc_permission_ids payload))
           (\<lambda>_. bind_svc (flush (insert_role role))
           (\<lambda>_. bind_svc (add_role_permissions (link_id ids) 0 (new_id ids) (dict_fromkeys (rc_permission_ids payload)))
           (\<lambda>_. bind_svc commit (\<lambda>_. role_read_for role))))))"

text \<open>
  The changed attributes of \<^verbatim>\<open>update_role\<close>. The session does not flush by itself, so the
  assignments reach the database with the first flush: the one that deletes the old links, or
  the commit. The database then checks the columns and the unique name.
\<close>

definition apply_role_update :: "RoleUpdate \<Rightarrow> Role \<Rightarrow> Role" where
  "apply_role_update payload r =
     r\<lparr>r_name := (case ru_name payload of None \<Rightarrow> r_name r | Some x \<Rightarrow> x),
       r_description := (case ru_description payload of None \<Rightarrow> r_description r | Some x \<Rightarrow> Some x),
       r_is_active := (case ru_is_active payload of None \<Rightarrow> r_is_active r | Some b \<Rightarrow> b)\<rparr>"

definition update_role_row :: "uuid \<Rightarrow> RoleUpdate \<Rightarrow> 'z rbac_db_scheme \<Rightarrow> error + 'z rbac_db_scheme" where
  "update_role_row role_id payload d =
     (if \<not> (text_fits_opt 80 (ru_name payload) \<and> text_ok_opt (ru_description payload))
      then Inl (DataError ''roles'')
      else if \<exists>r \<in> set (roles d). r_id r \<noteq> role_id \<and> Some (r_name r) = ru_name payload
      then Inl (IntegrityError ''roles.name'')
      else Inr (roles_update (update_where (\<lambda>r. r_id r = role_id) (apply_role_update payload)) d))"

text \<open>
  The new list of permissions is checked first; \<open>db.flush()\<close> writes the role and deletes
  the links, then the new links are added.
\<close>

definition flush_role_update ::
  "'p platform_scheme \<Rightarrow> ids \<Rightarrow> uuid \<Rightarrow> RoleUpdate \<Rightarrow> ('z rbac_db_scheme, unit) svc" where
  "flush_role_update pf ids role_id payload =
     (case ru_permission_ids payload of
        None \<Rightarrow> flush (update_role_row role_id payload)
      | Some pids \<Rightarrow>
          bind_svc (validate_permission_ids pf pids)
          (\<lambda>_. bind_svc (flush (update_role_row role_id payload))
          (\<lambda>_. bind_svc (modify_db (role_permissions_update (delete_where (\<lambda>l. rp_role_id l = role_id))))
          (\<lambda>_. add_role_permissions (link_id ids) 0 role_id (dict_fromkeys pids)))))"

definition update_role ::
  "'p platform_scheme \<Rightarrow> ids \<Rightarrow> uuid \<Rightarrow> RoleUpdate \<Rightarrow> ('z rbac_db_scheme, RoleRead) svc" where
  "update_role pf ids role_id payload =
     bind_svc (get_role_orm role_id)
     (\<lambda>role. bind_svc
        (case ru_name payload of
           None \<Rightarrow> return_svc ()
         | Some nm \<Rightarrow>
             if nm \<noteq> r_name role then
               bind_svc (query_e (\<lambda>d. scalar_one_or_none
                  (filter (\<lambda>r. r_name r = nm \<and> r_id r \<noteq> r_id role) (roles d))))
               (\<lambda>clash. if clash \<noteq> None
                  then raise_svc (HTTPException 409 ''A role with this name already exists'')
                  else return_svc ())
             else return_svc ())
     (\<lambda>_. bind_svc (flush_role_update pf ids role_id payload)
     (\<lambda>_. bind_svc commit (\<lambda>_. role_read_for (apply_role_update payload role)))))"

subsection \<open>Permissions\<close>

definition list_permissions :: "string option \<Rightarrow> ('z rbac_db_scheme, PermissionRead list) svc" where
  "list_permissions resource =
     query (\<lambda>d.
       let ps = sort_key p_resource (sort_key p_action (permissions d));
           ps = (case resource of None \<Rightarrow> ps
                 | Some r \<Rightarrow> if r = [] then ps else filter (\<lambda>p. p_resource p = r) ps)
       in map permission_read ps)"

definition create_permission ::
  "ids \<Rightarrow> PermissionCreate \<Rightarrow> ('z rbac_db_scheme, PermissionRead) svc" where
  "create_permission ids payload =
     bind_svc (query_e (\<lambda>d. scalar_one_or_none (filter (\<lambda>p. p_name p = pc_name payload) (permissions d))))
     (\<lambda>existing.
        if existing \<noteq> None
        then raise_svc (HTTPException 409 ''A permission with this name already exists'')
        else
          (let permission = \<lparr>p_id = new_id ids, p_name = pc_name payload, p_description = pc_description payload,
                             p_resource = pc_resource payload, p_action = pc_action payload\<rparr> in
           bind_svc (flush (insert_permission permission))
           (\<lambda>_. bind_svc commit (\<lambda>_. return_svc (permission_read permission)))))"

subsection \<open>Role assignment\<close>

definition role_summaries_for_user :: "uuid \<Rightarrow> ('z rbac_db_scheme, RoleSummary list) svc" where
  "role_summaries_for_user user_id =
     query (\<lambda>d. map role_summary (group_of (roles_by_user d [user_id]) user_id))"

definition assignment_of :: "uuid \<Rightarrow> uuid \<Rightarrow> 'z rbac_db_scheme \<Rightarrow> error + UserRole option" where
  "assignment_of user_id role_id d =
     scalar_one_or_none (filter (\<lambda>l. ur_user_id l = user_id \<and> ur_role_id l = role_id) (user_roles d))"

definition assign_role ::
  "ids \<Rightarrow> uuid \<Rightarrow> uuid \<Rightarrow> string \<Rightarrow> ('z rbac_db_scheme, RoleAssignmentResult) svc" where
  "assign_role ids user_id role_id assigned_by =
     bind_svc (get_user_orm user_id)
     (\<lambda>_. bind_svc (get_role_orm role_id)
     (\<lambda>_. bind_svc (query_e (assignment_of user_id role_id))
     (\<lambda>existing. bind_svc
        (if existing = None then
           bind_svc (flush (insert_user_role \<lparr>ur_id = new_id ids, ur_user_id = user_id, ur_role_id = role_id,
              ur_assigned_by = Some assigned_by\<rparr>))
           (\<lambda>_. bind_svc commit (\<lambda>_. return_svc ''Role assigned''))
         else return_svc ''Role already assigned'')
     (\<lambda>detail. bind_svc (role_summaries_for_user user_id)
     (\<lambda>rs. return_svc \<lparr>rar_detail = detail, rar_user_id = user_id, rar_role_id = role_id, rar_roles = rs\<rparr>)))))"

definition remove_role :: "uuid \<Rightarrow> uuid \<Rightarrow> ('z rbac_db_scheme, RoleAssignmentResult) svc" where
  "remove_role user_id role_id =
     bind_svc (get_user_orm user_id)
     (\<lambda>_. bind_svc (get_role_orm role_id)
     (\<lambda>_. bind_svc (query_e (assignment_of user_id role_id))
     (\<lambda>existing. case existing of
        None \<Rightarrow> raise_svc (HTTPException 404 ''This role is not assigned to the user'')
      | Some l \<Rightarrow>
          bind_svc (modify_db (user_roles_update (delete_where (\<lambda>x. ur_id x = ur_id l))))
          (\<lambda>_. bind_svc commit
          (\<lambda>_. bind_svc (role_summaries_for_user user_id)
          (\<lambda>rs. return_svc \<lparr>rar_detail = ''Role removed'', rar_user_id = user_id, rar_role_id = role_id,
                            rar_roles = rs\<rparr>))))))"

section \<open>api/v1/endpoints/rbac.py\<close>

text \<open>
  The whole router depends on \<^verbatim>\<open>require_admin\<close>. FastAPI solves the dependencies, then checks
  the body, then runs the handler.
\<close>

definition read_users :: "'p platform_scheme \<Rightarrow> Settings \<Rightarrow> datetime \<Rightarrow> bool option \<Rightarrow> string option \<Rightarrow>
   string option \<Rightarrow> ('z rbac_db_scheme, RbacUserRead list) svc" where
  "read_users pf st now is_active search cred =
     bind_svc (require_admin pf st now cred) (\<lambda>_. list_users is_active search)"

definition create_new_user :: "'p platform_scheme \<Rightarrow> Settings \<Rightarrow> datetime \<Rightarrow> nat \<Rightarrow> ids \<Rightarrow> datetime \<Rightarrow> RbacUserCreate \<Rightarrow>
   string option \<Rightarrow> ('z rbac_db_scheme, RbacUserRead) svc" where
  "create_new_user pf st now salt ids now' payload cred =
     bind_svc (require_admin pf st now cred)
     (\<lambda>_. validated (valid_RbacUserCreate payload) (create_user pf salt ids now' payload))"

definition read_user :: "'p platform_scheme \<Rightarrow> Settings \<Rightarrow> datetime \<Rightarrow> uuid \<Rightarrow>
   string option \<Rightarrow> ('z rbac_db_scheme, RbacUserRead) svc" where
  "read_user pf st now user_id cred = bind_svc (require_admin pf st now cred) (\<lambda>_. get_user user_id)"

definition patch_user :: "'p platform_scheme \<Rightarrow> Settings \<Rightarrow> datetime \<Rightarrow> uuid \<Rightarrow> RbacUserUpdate \<Rightarrow>
   string option \<Rightarrow> ('z rbac_db_scheme, RbacUserRead) svc" where
  "patch_user pf st now user_id payload cred =
     bind_svc (require_admin pf st now cred)
     (\<lambda>_. validated (valid_RbacUserUpdate payload) (update_user user_id payload))"

definition activate_user :: "'p platform_scheme \<Rightarrow> Settings \<Rightarrow> datetime \<Rightarrow> uuid \<Rightarrow>
   string option \<Rightarrow> ('z rbac_db_scheme, RbacUserRead) svc" where
  "activate_user pf st now user_id cred =
     bind_svc (require_admin pf st now cred) (\<lambda>_. set_user_active user_id True)"

definition deactivate_user :: "'p platform_scheme \<Rightarrow> Settings \<Rightarrow> datetime \<Rightarrow> uuid \<Rightarrow>
   string option \<Rightarrow> ('z rbac_db_scheme, RbacUserRead) svc" where
  "deactivate_user pf st now user_id cred =
     bind_svc (require_admin pf st now cred) (\<lambda>_. set_user_active user_id False)"

definition read_roles :: "'p platform_scheme \<Rightarrow> Settings \<Rightarrow> datetime \<Rightarrow>
   string option \<Rightarrow> ('z rbac_db_scheme, RoleRead list) svc" where
  "read_roles pf st now cred = bind_svc (require_admin pf st now cred) (\<lambda>_. list_roles)"

definition create_new_role :: "'p platform_scheme \<Rightarrow> Settings \<Rightarrow> datetime \<Rightarrow> ids \<Rightarrow> datetime \<Rightarrow> RoleCreate \<Rightarrow>
   string option \<Rightarrow> ('z rbac_db_scheme, RoleRead) svc" where
  "create_new_role pf st now ids now' payload cred =
     bind_svc (require_admin pf st now cred)
     (\<lambda>_. validated (valid_RoleCreate payload) (create_role pf ids now' payload))"

definition patch_role :: "'p platform_scheme \<Rightarrow> Settings \<Rightarrow> datetime \<Rightarrow> ids \<Rightarrow> uuid \<Rightarrow> RoleUpdate \<Rightarrow>
   string option \<Rightarrow> ('z rbac_db_scheme, RoleRead) svc" where
  "patch_role pf st now ids role_id payload cred =
     bind_svc (require_admin pf st now cred)
     (\<lambda>_. validated (valid_RoleUpdate payload) (update_role pf ids role_id payload))"

definition read_permissions :: "'p platform_scheme \<Rightarrow> Settings \<Rightarrow> datetime \<Rightarrow> string option \<Rightarrow>
   string option \<Rightarrow> ('z rbac_db_scheme, PermissionRead list) svc" where
  "read_permissions pf st now resource cred =
     bind_svc (require_admin pf st now cred) (\<lambda>_. list_permissions resource)"

definition assign_role_to_user :: "'p platform_scheme \<Rightarrow> Settings \<Rightarrow> datetime \<Rightarrow> ids \<Rightarrow> uuid \<Rightarrow> uuid \<Rightarrow>
   string option \<Rightarrow> ('z rbac_db_scheme, RoleAssignmentResult) svc" where
  "assign_role_to_user pf st now ids user_id role_id cred =
     bind_svc (require_admin pf st now cred)
     (\<lambda>current_user. assign_role ids user_id role_id (u_email current_user))"

definition remove_role_from_user :: "'p platform_scheme \<Rightarrow> Settings \<Rightarrow> datetime \<Rightarrow> uuid \<Rightarrow> uuid \<Rightarrow>
   string option \<Rightarrow> ('z rbac_db_scheme, RoleAssignmentResult) svc" where
  "remove_role_from_user pf st now user_id role_id cred =
     bind_svc (require_admin pf st now cred) (\<lambda>_. remove_role user_id role_id)"

interpretation create_new_user_ep: admin_endpoint pf st now "create_new_user pf st now salt ids now' payload"
    "\<lambda>_. validated (valid_RbacUserCreate payload) (create_user pf salt ids now' payload)"
  for pf :: "'p platform_scheme" and st now salt ids now' payload
  by unfold_locales (simp add: create_new_user_def)

interpretation patch_user_ep: admin_endpoint pf st now "patch_user pf st now user_id payload"
    "\<lambda>_. validated (valid_RbacUserUpdate payload) (update_user user_id payload)"
  for pf :: "'p platform_scheme" and st now user_id payload
  by unfold_locales (simp add: patch_user_def)

interpretation activate_user_ep: admin_endpoint pf st now "activate_user pf st now user_id"
    "\<lambda>_. set_user_active user_id True"
  for pf :: "'p platform_scheme" and st now user_id
  by unfold_locales (simp add: activate_user_def)

interpretation deactivate_user_ep: admin_endpoint pf st now "deactivate_user pf st now user_id"
    "\<lambda>_. set_user_active user_id False"
  for pf :: "'p platform_scheme" and st now user_id
  by unfold_locales (simp add: deactivate_user_def)

interpretation create_new_role_ep: admin_endpoint pf st now "create_new_role pf st now ids now' payload"
    "\<lambda>_. validated (valid_RoleCreate payload) (create_role pf ids now' payload)"
  for pf :: "'p platform_scheme" and st now ids now' payload
  by unfold_locales (simp add: create_new_role_def)

interpretation patch_role_ep: admin_endpoint pf st now "patch_role pf st now ids role_id payload"
    "\<lambda>_. validated (valid_RoleUpdate payload) (update_role pf ids role_id payload)"
  for pf :: "'p platform_scheme" and st now ids role_id payload
  by unfold_locales (simp add: patch_role_def)

interpretation assign_role_ep: admin_endpoint pf st now "assign_role_to_user pf st now ids user_id role_id"
    "\<lambda>current_user. assign_role ids user_id role_id (u_email current_user)"
  for pf :: "'p platform_scheme" and st now ids user_id role_id
  by unfold_locales (simp add: assign_role_to_user_def)

interpretation remove_role_ep: admin_endpoint pf st now "remove_role_from_user pf st now user_id role_id"
    "\<lambda>_. remove_role user_id role_id"
  for pf :: "'p platform_scheme" and st now user_id role_id
  by unfold_locales (simp add: remove_role_from_user_def)

section \<open>Integrity of the role tables\<close>

definition rbac_inv :: "'z rbac_db_scheme \<Rightarrow> bool" where
  "rbac_inv d \<longleftrightarrow> auth_inv d
     \<and> distinct (map r_id (roles d)) \<and> distinct (map r_name (roles d))
     \<and> distinct (map p_id (permissions d)) \<and> distinct (map p_name (permissions d))
     \<and> distinct (map ur_id (user_roles d)) \<and> distinct (map rp_id (role_permissions d))
     \<and> distinct (map (\<lambda>l. (ur_user_id l, ur_role_id l)) (user_roles d))
     \<and> distinct (map (\<lambda>l. (rp_role_id l, rp_permission_id l)) (role_permissions d))
     \<and> ur_user_id ` set (user_roles d) \<subseteq> u_id ` set (users d)
     \<and> ur_role_id ` set (user_roles d) \<subseteq> r_id ` set (roles d)
     \<and> rp_role_id ` set (role_permissions d) \<subseteq> r_id ` set (roles d)
     \<and> rp_permission_id ` set (role_permissions d) \<subseteq> p_id ` set (permissions d)"

lemma distinct_map_delete: "distinct (map k rs) \<Longrightarrow> distinct (map k (delete_where P rs))"
  unfolding delete_where_def by (rule distinct_map_filter)

lemma insert_Inr:
  "insert_user u d = Inr d' \<longleftrightarrow> user_columns_ok u
     \<and> u_email u \<notin> u_email ` set (users d) \<and> u_id u \<notin> u_id ` set (users d) \<and> d' = d\<lparr>users := users d @ [u]\<rparr>"
  "insert_role r d2 = Inr d2' \<longleftrightarrow> role_columns_ok r \<and> r_name r \<notin> r_name ` set (roles d2)
     \<and> r_id r \<notin> r_id ` set (roles d2) \<and> d2' = d2\<lparr>roles := roles d2 @ [r]\<rparr>"
  "insert_permission p d2 = Inr d2' \<longleftrightarrow> permission_columns_ok p
     \<and> p_name p \<notin> p_name ` set (permissions d2) \<and> p_id p \<notin> p_id ` set (permissions d2)
     \<and> d2' = d2\<lparr>permissions := permissions d2 @ [p]\<rparr>"
  unfolding insert_user_def insert_role_def insert_permission_def insert_row_def
  by (simp_all split: if_split) (blast+)?

lemma insert_link_Inr:
  "insert_user_role l d = Inr d' \<longleftrightarrow> text_fits_opt 120 (ur_assigned_by l)
     \<and> ur_user_id l \<in> u_id ` set (users d) \<and> ur_role_id l \<in> r_id ` set (roles d)
     \<and> (ur_user_id l, ur_role_id l) \<notin> (\<lambda>x. (ur_user_id x, ur_role_id x)) ` set (user_roles d)
     \<and> ur_id l \<notin> ur_id ` set (user_roles d) \<and> d' = d\<lparr>user_roles := user_roles d @ [l]\<rparr>"
  "insert_role_permission m d = Inr d' \<longleftrightarrow>
     rp_role_id m \<in> r_id ` set (roles d) \<and> rp_permission_id m \<in> p_id ` set (permissions d)
     \<and> (rp_role_id m, rp_permission_id m) \<notin> (\<lambda>x. (rp_role_id x, rp_permission_id x)) ` set (role_permissions d)
     \<and> rp_id m \<notin> rp_id ` set (role_permissions d) \<and> d' = d\<lparr>role_permissions := role_permissions d @ [m]\<rparr>"
  unfolding insert_user_role_def insert_role_permission_def insert_row_def
  by (simp_all split: if_split) (blast+)?

lemma rbac_inv_insert_user: "rbac_inv d \<Longrightarrow> insert_user u d = Inr d' \<Longrightarrow> rbac_inv d'"
  by (simp add: insert_Inr rbac_inv_def auth_inv_def) blast

lemma rbac_inv_insert_role: "rbac_inv d \<Longrightarrow> insert_role r d = Inr d' \<Longrightarrow> rbac_inv d'"
  by (simp add: insert_Inr rbac_inv_def auth_inv_def) blast

lemma rbac_inv_insert_permission: "rbac_inv d \<Longrightarrow> insert_permission p d = Inr d' \<Longrightarrow> rbac_inv d'"
  by (simp add: insert_Inr rbac_inv_def auth_inv_def) blast

lemma rbac_inv_insert_user_role: "rbac_inv d \<Longrightarrow> insert_user_role l d = Inr d' \<Longrightarrow> rbac_inv d'"
  by (simp add: insert_link_Inr rbac_inv_def auth_inv_def)

lemma rbac_inv_insert_role_permission: "rbac_inv d \<Longrightarrow> insert_role_permission l d = Inr d' \<Longrightarrow> rbac_inv d'"
  by (simp add: insert_link_Inr rbac_inv_def auth_inv_def)

lemmas rbac_inv_insert = rbac_inv_insert_user rbac_inv_insert_role rbac_inv_insert_permission
  rbac_inv_insert_user_role rbac_inv_insert_role_permission

lemma rbac_inv_users:
  assumes "rbac_inv d" and "\<And>u. u_id (f u) = u_id u" and "\<And>u. u_email (f u) = u_email u"
  shows "rbac_inv (users_update (update_where P f) d)"
  using assms by (simp add: rbac_inv_def auth_inv_def map_update_where ids_update_where)

lemma rbac_inv_unlink:
  "rbac_inv d \<Longrightarrow> rbac_inv (user_roles_update (delete_where P) d)"
  "rbac_inv d \<Longrightarrow> rbac_inv (role_permissions_update (delete_where Q) d)"
  by (auto simp: rbac_inv_def auth_inv_def distinct_map_delete)
     (auto simp: delete_where_def)

text \<open>Renaming a role to a name no other role has.\<close>

lemma rbac_inv_role_update:
  assumes inv: "rbac_inv d"
    and free: "\<And>r. r \<in> set (roles d) \<Longrightarrow> r_id r \<noteq> rid \<Longrightarrow> Some (r_name r) \<noteq> ru_name payload"
  shows "rbac_inv (roles_update (update_where (\<lambda>r. r_id r = rid) (apply_role_update payload)) d)"
proof -
  have ids: "r_id (apply_role_update payload r) = r_id r" for r by (simp add: apply_role_update_def)
  have dist: "distinct (map r_id (roles d))" "distinct (map r_name (roles d))"
    using inv by (simp_all add: rbac_inv_def)
  have "distinct (map r_name (update_where (\<lambda>r. r_id r = rid) (apply_role_update payload) rs))"
    if "distinct (map r_id rs)" "distinct (map r_name rs)"
      "\<forall>r\<in>set rs. r_id r \<noteq> rid \<longrightarrow> Some (r_name r) \<noteq> ru_name payload" for rs
    using that
  proof (induction rs)
    case (Cons a rs)
    show ?case
    proof (cases "r_id a = rid")
      case True
      then have "update_where (\<lambda>r. r_id r = rid) (apply_role_update payload) rs = rs"
        using Cons.prems(1) by (intro update_where_none) (auto simp: image_iff)
      moreover have "r_name (apply_role_update payload a) \<notin> r_name ` set rs"
        using True Cons.prems by (fastforce simp: apply_role_update_def image_iff split: option.splits)
      ultimately show ?thesis using True Cons.prems by simp
    next
      case False
      have "r_name a \<notin> r_name ` set (update_where (\<lambda>r. r_id r = rid) (apply_role_update payload) rs)"
        using False Cons.prems by (auto simp: update_where_def apply_role_update_def split: option.splits)
      with False Cons show ?thesis by simp
    qed
  qed simp
  with dist free have "distinct (map r_name (update_where (\<lambda>r. r_id r = rid) (apply_role_update payload) (roles d)))"
    by blast
  with inv ids show ?thesis
    by (simp add: rbac_inv_def auth_inv_def map_update_where ids_update_where)
qed

lemma rbac_inv_update_rows:
  "rbac_inv d \<Longrightarrow> update_user_row uid upd d = Inr d' \<Longrightarrow> rbac_inv d'"
  "rbac_inv d \<Longrightarrow> update_role_row rid rupd d = Inr d' \<Longrightarrow> rbac_inv d'"
  by (auto simp: update_user_row_def update_role_row_def apply_user_update_def split: if_splits
      intro!: rbac_inv_users rbac_inv_role_update)

lemma keeps_rbac_flush [intro]:
  "keeps rbac_inv (flush (insert_user u))" "keeps rbac_inv (flush (insert_role r))"
  "keeps rbac_inv (flush (insert_permission p))" "keeps rbac_inv (flush (insert_user_role l))"
  "keeps rbac_inv (flush (insert_role_permission m))"
  "keeps rbac_inv (flush (update_user_row uid upd))" "keeps rbac_inv (flush (update_role_row rid rupd))"
  by (blast intro: rbac_inv_insert rbac_inv_update_rows)+

lemma keeps_rbac_loops [intro]:
  "keeps rbac_inv (add_user_roles is n uid by rs)"
  "keeps rbac_inv (add_role_permissions is n rid ps)"
  by (induction rs arbitrary: n) (simp_all add: keeps_bind keeps_rbac_flush,
      induction ps arbitrary: n, simp_all add: keeps_bind keeps_rbac_flush)

lemma keeps_rbac_reads [intro]:
  "keeps I (get_user_orm uid)" "keeps I (get_user uid)" "keeps I (get_role_orm rid)"
  "keeps I (role_read_for role)" "keeps I (validate_permission_ids pf ps)"
  "keeps I (role_summaries_for_user uid)"
  unfolding get_user_orm_def get_user_def get_role_orm_def role_read_for_def validate_permission_ids_def
    role_summaries_for_user_def Let_def
  by (intro keeps_bind keeps_option keeps_if keeps_basic)+

text \<open>The services that write, each as one request on the committed database.\<close>

inductive rbac_step :: "'p platform_scheme \<Rightarrow> 'z rbac_db_scheme \<Rightarrow> 'z rbac_db_scheme \<Rightarrow> bool"
  for pf :: "'p platform_scheme" where
  step_create_user: "rbac_step pf d (snd (run_request (create_user pf salt is now payload) d))"
| step_update_user: "rbac_step pf d (snd (run_request (update_user uid upd) d))"
| step_set_active: "rbac_step pf d (snd (run_request (set_user_active uid b) d))"
| step_create_role: "rbac_step pf d (snd (run_request (create_role pf is now rpayload) d))"
| step_update_role: "rbac_step pf d (snd (run_request (update_role pf is rid rupd) d))"
| step_create_permission: "rbac_step pf d (snd (run_request (create_permission is ppayload) d))"
| step_assign: "rbac_step pf d (snd (run_request (assign_role is uid rid by) d))"
| step_remove: "rbac_step pf d (snd (run_request (remove_role uid rid) d))"

lemmas keeps_rules = keeps_bind keeps_option keeps_if keeps_basic

lemma keeps_rbac_users:
  "keeps rbac_inv (create_user pf salt is now payload)"
  "keeps rbac_inv (update_user uid upd)" "keeps rbac_inv (set_user_active uid b)"
  unfolding create_user_def grant_initial_roles_def update_user_def set_user_active_def Let_def
  by (intro keeps_rules keeps_rbac_flush keeps_rbac_loops keeps_rbac_reads keeps_modify rbac_inv_users; simp)+

lemma keeps_rbac_others:
  "keeps rbac_inv (create_role pf is now rpayload)"
  "keeps rbac_inv (create_permission is ppayload)"
  "keeps rbac_inv (assign_role is uid rid by)" "keeps rbac_inv (remove_role uid rid)"
  unfolding create_role_def create_permission_def assign_role_def remove_role_def Let_def
  by (intro keeps_rules keeps_rbac_flush keeps_rbac_loops keeps_rbac_reads keeps_modify rbac_inv_unlink; simp)+

text \<open>What \<^verbatim>\<open>update_role\<close> does once the clash check has passed.\<close>

definition write_role_update :: "'p platform_scheme \<Rightarrow> ids \<Rightarrow> uuid \<Rightarrow> RoleUpdate \<Rightarrow> Role \<Rightarrow> ('z rbac_db_scheme, RoleRead) svc" where
  "write_role_update pf ids role_id payload role =
     bind_svc (flush_role_update pf ids role_id payload)
     (\<lambda>_. bind_svc commit (\<lambda>_. role_read_for (apply_role_update payload role)))"

definition name_free :: "uuid \<Rightarrow> RoleUpdate \<Rightarrow> 'z rbac_db_scheme \<Rightarrow> bool" where
  "name_free rid payload d \<longleftrightarrow>
     (\<forall>r \<in> set (roles d). r_id r \<noteq> rid \<longrightarrow> Some (r_name r) \<noteq> ru_name payload)"

lemma update_role_run:
  assumes "rbac_inv d"
  shows "run_request (update_role pf is rid payload) d =
    (case get_row r_id rid (roles d) of
       None \<Rightarrow> (Inl (HTTPException 404 ''Role not found''), d)
     | Some role \<Rightarrow>
         if name_free rid payload d then run_request (write_role_update pf is rid payload role) d
         else (Inl (HTTPException 409 ''A role with this name already exists''), d))"
proof (cases "get_row r_id rid (roles d)")
  case None
  then show ?thesis by (simp add: update_role_def get_role_orm_def svc_simps)
next
  case (Some role)
  then have role: "role \<in> set (roles d)" "r_id role = rid" by (auto dest: get_row_Some)
  have dist: "distinct (map r_name (roles d))" "distinct (map r_id (roles d))"
    using assms by (simp_all add: rbac_inv_def)
  show ?thesis
  proof (cases "ru_name payload")
    case None
    with Some role show ?thesis
      by (simp add: update_role_def get_role_orm_def write_role_update_def name_free_def svc_simps)
  next
    case (Some nm)
    define clash where "clash = filter (\<lambda>r. r_name r = nm \<and> r_id r \<noteq> rid) (roles d)"
    have free: "name_free rid payload d \<longleftrightarrow> clash = []"
      using Some by (auto simp: name_free_def clash_def filter_empty_conv)
    have "clash = filter (\<lambda>r. r_id r \<noteq> rid) (filter (\<lambda>r. r_name r = nm) (roles d))"
      by (simp add: clash_def conj_commute)
    with filter_key_cases [OF dist(1), of nm] have short: "clash = [] \<or> (\<exists>c. clash = [c])"
      by (elim disjE bexE conjE; simp only: filter.simps split: if_split; simp)
    have only: "x \<in> set (roles d) \<Longrightarrow> r_name x = r_name role \<Longrightarrow> x = role" for x
      using find_unique_key [OF dist(1), of x] find_unique_key [OF dist(1) role(1)]
      by (metis option.inject)
    have same: "nm = r_name role \<Longrightarrow> clash = []"
      using only role(2) by (auto simp: clash_def filter_empty_conv)
    show ?thesis
      using \<open>get_row r_id rid (roles d) = Some role\<close> Some role short same
      by (auto simp: update_role_def get_role_orm_def write_role_update_def free svc_simps
          clash_def [symmetric] scalar_one_or_none_def)
  qed
qed

lemma keeps_role_update: "keeps rbac_inv (update_role pf is rid payload)"
  unfolding update_role_def flush_role_update_def
  by (intro keeps_rules keeps_rbac_flush keeps_rbac_loops keeps_rbac_reads keeps_modify rbac_inv_unlink; simp)

lemma update_role_keeps:
  "rbac_inv d \<Longrightarrow> rbac_inv (snd (run_request (update_role pf is rid payload) d))"
  by (rule keeps_run [OF keeps_role_update])

section \<open>What the links say\<close>

definition granted :: "'z rbac_db_scheme \<Rightarrow> uuid \<Rightarrow> uuid set" where
  "granted d rid = rp_permission_id ` {l \<in> set (role_permissions d). rp_role_id l = rid}"

definition assigned :: "'z rbac_db_scheme \<Rightarrow> uuid \<Rightarrow> uuid set" where
  "assigned d uid = ur_role_id ` {l \<in> set (user_roles d). ur_user_id l = uid}"

text \<open>Joining link rows with their targets yields each target once per link.\<close>

lemma join_targets:
  assumes "distinct (map pk ts)" and "\<And>l. l \<in> set ls \<Longrightarrow> tr l \<in> pk ` set ts"
  shows "map (\<lambda>r. pk (snd r)) (concat (map (\<lambda>l. map (\<lambda>t. (lk l, t)) (filter (\<lambda>t. pk t = tr l) ts)) ls)) = map tr ls"
  using assms(2)
proof (induction ls)
  case (Cons l ls)
  then obtain t where "t \<in> set ts" "pk t = tr l" by fastforce
  with filter_eq_singleton [OF assms(1), of t] have "filter (\<lambda>t. pk t = tr l) ts = [t]" by simp
  with Cons \<open>pk t = tr l\<close> show ?case by simp
qed simp

lemma join_group:
  assumes "distinct (map pk ts)" and "\<And>l. l \<in> set ls \<Longrightarrow> tr l \<in> pk ` set ts"
  shows "mset (map pk (group_of (sort_key g
      (concat (map (\<lambda>l. map (\<lambda>t. (lk l, t)) (filter (\<lambda>t. pk t = tr l) ts)) (filter (\<lambda>l. lk l \<in> set [k]) ls)))) k))
    = mset (map tr (filter (\<lambda>l. lk l = k) ls))"
proof -
  let ?ls = "filter (\<lambda>l. lk l = k) ls"
  let ?j = "concat (map (\<lambda>l. map (\<lambda>t. (lk l, t)) (filter (\<lambda>t. pk t = tr l) ts)) ?ls)"
  have "filter (\<lambda>r. fst r = k) ?j = ?j" by (rule filter_True) auto
  then have "mset (filter (\<lambda>r. fst r = k) (sort_key g ?j)) = mset ?j" by (simp add: mset_filter)
  then have "mset (map pk (group_of (sort_key g ?j) k)) = mset (map (\<lambda>r. pk (snd r)) ?j)"
    by (simp add: group_of_def image_mset.comp [symmetric] multiset.map_comp comp_def)
  also have "\<dots> = mset (map tr ?ls)"
    using join_targets [of pk ts ?ls tr lk] assms by simp
  finally show ?thesis by simp
qed

lemma role_permission_rows:
  assumes "rbac_inv d"
  shows "mset (map p_id (group_of (permissions_by_role d [rid]) rid))
    = mset (map rp_permission_id (filter (\<lambda>l. rp_role_id l = rid) (role_permissions d)))"
  unfolding permissions_by_role_def if_not_P [OF list.distinct(2)]
  by (rule join_group) (use assms in \<open>auto simp: rbac_inv_def\<close>)

lemma user_role_rows:
  assumes "rbac_inv d"
  shows "mset (map r_id (group_of (roles_by_user d [uid]) uid))
    = mset (map ur_role_id (filter (\<lambda>l. ur_user_id l = uid) (user_roles d)))"
  unfolding roles_by_user_def if_not_P [OF list.distinct(2)]
  by (rule join_group) (use assms in \<open>auto simp: rbac_inv_def\<close>)

lemma role_permission_set:
  assumes "rbac_inv d"
  shows "set (map p_id (group_of (permissions_by_role d [rid]) rid)) = granted d rid"
    and "length (group_of (permissions_by_role d [rid]) rid) = card (granted d rid)"
proof -
  let ?ls = "filter (\<lambda>l. rp_role_id l = rid) (role_permissions d)"
  note rows = role_permission_rows [OF assms, of rid]
  show set: "set (map p_id (group_of (permissions_by_role d [rid]) rid)) = granted d rid"
    using mset_eq_setD [OF rows] by (simp add: granted_def)
  have "distinct (map (\<lambda>l. (rp_role_id l, rp_permission_id l)) (role_permissions d))"
    using assms by (simp add: rbac_inv_def)
  then have "distinct (map (\<lambda>l. (rp_role_id l, rp_permission_id l)) ?ls)" by (rule distinct_map_filter)
  then have "distinct (map rp_permission_id ?ls)"
    by (auto simp: distinct_map inj_on_def)
  then have "card (granted d rid) = length (map rp_permission_id ?ls)"
    using distinct_card [of "map rp_permission_id ?ls"] by (simp add: granted_def)
  with mset_eq_length [OF rows] show "length (group_of (permissions_by_role d [rid]) rid) = card (granted d rid)"
    by simp
qed

lemma user_role_set:
  "rbac_inv d \<Longrightarrow> set (map r_id (group_of (roles_by_user d [uid]) uid)) = assigned d uid"
  using mset_eq_setD [OF user_role_rows, of d uid] by (simp add: assigned_def)

lemma set_dict_fromkeys [simp]: "set (dict_fromkeys ks) = set ks"
  by (induction ks) auto

lemma add_role_permissions_run:
  "add_role_permissions is n rid ps s = (Inr (), s') \<Longrightarrow>
   \<exists>ls. working s' = (working s)\<lparr>role_permissions := role_permissions (working s) @ ls\<rparr>
      \<and> committed s' = committed s \<and> map rp_permission_id ls = ps \<and> (\<forall>l \<in> set ls. rp_role_id l = rid)"
proof (induction ps arbitrary: n s)
  case Nil
  then show ?case by (auto simp: return_svc_def intro: exI [of _ "[]"])
next
  case (Cons p ps)
  let ?l = "\<lparr>rp_id = is n, rp_role_id = rid, rp_permission_id = p\<rparr>"
  from Cons.prems obtain d1 where d1: "insert_role_permission ?l (working s) = Inr d1"
    and rest: "add_role_permissions is (Suc n) rid ps (s\<lparr>working := d1\<rparr>) = (Inr (), s')"
    by (auto simp: svc_simps split: sum.splits)
  from Cons.IH [OF rest] obtain ls where ls:
    "working s' = d1\<lparr>role_permissions := role_permissions d1 @ ls\<rparr>" "committed s' = committed s"
    "map rp_permission_id ls = ps" "\<forall>l \<in> set ls. rp_role_id l = rid"
    by auto
  with d1 show ?case by (intro exI [of _ "?l # ls"]) (auto simp: insert_link_Inr)
qed

lemma add_user_roles_run:
  "add_user_roles is n uid by rs s = (Inr (), s') \<Longrightarrow>
   \<exists>ls. working s' = (working s)\<lparr>user_roles := user_roles (working s) @ ls\<rparr>
      \<and> committed s' = committed s \<and> map ur_role_id ls = map r_id rs \<and> (\<forall>l \<in> set ls. ur_user_id l = uid)"
proof (induction rs arbitrary: n s)
  case Nil
  then show ?case by (auto simp: return_svc_def intro: exI [of _ "[]"])
next
  case (Cons r rs)
  let ?l = "\<lparr>ur_id = is n, ur_user_id = uid, ur_role_id = r_id r, ur_assigned_by = by\<rparr>"
  from Cons.prems obtain d1 where d1: "insert_user_role ?l (working s) = Inr d1"
    and rest: "add_user_roles is (Suc n) uid by rs (s\<lparr>working := d1\<rparr>) = (Inr (), s')"
    by (auto simp: svc_simps split: sum.splits)
  from Cons.IH [OF rest] obtain ls where ls:
    "working s' = d1\<lparr>user_roles := user_roles d1 @ ls\<rparr>" "committed s' = committed s"
    "map ur_role_id ls = map r_id rs" "\<forall>l \<in> set ls. ur_user_id l = uid"
    by auto
  with d1 show ?case by (intro exI [of _ "?l # ls"]) (auto simp: insert_link_Inr)
qed

lemma validate_permission_ids_state: "snd (validate_permission_ids pf ps s) = s"
  by (simp add: validate_permission_ids_def svc_simps Let_def)

lemma write_role_update_run:
  assumes "ru_permission_ids payload = Some pids"
    and "run_request (write_role_update pf is rid payload role) d = (Inr out, d')"
  obtains ls where "role_permissions d' = delete_where (\<lambda>l. rp_role_id l = rid) (role_permissions d) @ ls"
    and "map rp_permission_id ls = dict_fromkeys pids" and "\<forall>l \<in> set ls. rp_role_id l = rid"
    and "out = role_to_read (apply_role_update payload role)
      (group_of (permissions_by_role d' [r_id role]) (r_id role)) (user_counts_by_role d' (r_id role))"
proof -
  obtain d1 s where d1: "update_role_row rid payload d = Inr d1"
    and add: "add_role_permissions (link_id is) 0 rid (dict_fromkeys pids)
        \<lparr>committed = d, working = role_permissions_update (delete_where (\<lambda>l. rp_role_id l = rid)) d1\<rparr> = (Inr (), s)"
    and d': "d' = working s"
    and out: "out = role_to_read (apply_role_update payload role)
      (group_of (permissions_by_role d' [r_id role]) (r_id role)) (user_counts_by_role d' (r_id role))"
  proof -
    let ?s = "\<lparr>committed = d, working = d\<rparr>"
    obtain s3 where w: "write_role_update pf is rid payload role ?s = (Inr out, s3)" and d3: "d' = committed s3"
      using assms(2) by (auto simp: run_request_def split: prod.splits)
    from w obtain s where f: "flush_role_update pf is rid payload ?s = (Inr (), s)"
      and r: "role_read_for (apply_role_update payload role) (s\<lparr>committed := working s\<rparr>) = (Inr out, s3)"
      by (auto simp: write_role_update_def bind_svc_Inr commit_def)
    from f obtain x s1 where v: "validate_permission_ids pf pids ?s = (Inr x, s1)"
      by (auto simp: flush_role_update_def assms(1) bind_svc_Inr)
    with validate_permission_ids_state [of pf pids ?s] have "s1 = ?s" by simp
    with f v obtain d1 where
      "update_role_row rid payload d = Inr d1"
      "add_role_permissions (link_id is) 0 rid (dict_fromkeys pids)
        \<lparr>committed = d, working = role_permissions_update (delete_where (\<lambda>l. rp_role_id l = rid)) d1\<rparr> = (Inr (), s)"
      by (cases "update_role_row rid payload d")
         (auto simp: flush_role_update_def assms(1) bind_svc_Inr flush_def modify_db_def)
    moreover have "d' = working s" and "out = role_to_read (apply_role_update payload role)
        (group_of (permissions_by_role d' [r_id role]) (r_id role)) (user_counts_by_role d' (r_id role))"
      using r d3 by (auto simp: role_read_for_def query_def apply_role_update_def)
    ultimately show thesis by (rule that)
  qed
  have "role_permissions d1 = role_permissions d"
    using d1 by (auto simp: update_role_row_def split: if_splits)
  with add_role_permissions_run [OF add] d' that out show thesis by force
qed

text \<open>The row a successful account creation inserts, and the whole effect of the call.\<close>

definition new_user :: "'p platform_scheme \<Rightarrow> nat \<Rightarrow> ids \<Rightarrow> datetime \<Rightarrow> RbacUserCreate \<Rightarrow> User" where
  "new_user pf salt ids now payload =
     \<lparr>u_id = new_id ids, u_email = ruc_email payload, u_display_name = ruc_display_name payload,
      u_hashed_password = hash_password pf salt (ruc_password payload), u_is_active = True,
      u_is_admin = ruc_is_admin payload, u_created_at = now\<rparr>"

lemma grant_initial_roles_run:
  assumes "grant_initial_roles pf is rids s = (Inr (), s')"
  obtains ls where "working s' = (working s)\<lparr>user_roles := user_roles (working s) @ ls\<rparr>"
    and "\<forall>l \<in> set ls. ur_user_id l = new_id is" and "ur_role_id ` set ls = set rids"
proof (cases "rids = []")
  case True
  with assms that [of "[]"] show thesis by (simp add: grant_initial_roles_def return_svc_def)
next
  case False
  let ?rs = "filter (\<lambda>r. r_id r \<in> set rids) (roles (working s))"
  have found: "r_id ` set ?rs = set rids"
    and add: "add_user_roles (link_id is) 0 (new_id is) None ?rs s = (Inr (), s')"
    using assms False
    by (auto simp: grant_initial_roles_def svc_simps Let_def filter_empty_conv split: if_splits)
  from add_user_roles_run [OF add] obtain ls where ls:
    "working s' = (working s)\<lparr>user_roles := user_roles (working s) @ ls\<rparr>"
    "map ur_role_id ls = map r_id ?rs" "\<forall>l \<in> set ls. ur_user_id l = new_id is" by auto
  from ls(2) found have "ur_role_id ` set ls = set rids" by (metis set_map)
  with ls that show thesis by blast
qed

lemma get_user_pure: "snd (get_user uid s) = s"
  by (auto simp: get_user_def get_user_orm_def svc_simps split: option.splits)

lemma create_user_success:
  assumes "run_request (create_user pf salt is now payload) d = (Inr out, d')"
  obtains ls where "d' = d\<lparr>users := users d @ [new_user pf salt is now payload], user_roles := user_roles d @ ls\<rparr>"
    and "\<forall>l \<in> set ls. ur_user_id l = new_id is" and "ur_role_id ` set ls = set (ruc_role_ids payload)"
    and "ruc_email payload \<notin> u_email ` set (users d)" and "new_id is \<notin> u_id ` set (users d)"
    and "fst (get_user (new_id is) \<lparr>committed = d', working = d'\<rparr>) = Inr out"
proof -
  let ?u = "new_user pf salt is now payload"
  let ?d1 = "d\<lparr>users := users d @ [?u]\<rparr>"
  obtain s2 where s2: "create_user pf salt is now payload \<lparr>committed = d, working = d\<rparr> = (Inr out, s2)"
    and d': "d' = committed s2"
    using assms by (auto simp: run_request_def split: prod.splits)
  from s2 obtain d1 s where ins: "insert_user ?u d = Inr d1"
    and grant: "grant_initial_roles pf is (ruc_role_ids payload) \<lparr>committed = d, working = d1\<rparr> = (Inr (), s)"
    and fin: "get_user (new_id is) (s\<lparr>committed := working s\<rparr>) = (Inr out, s2)"
    unfolding create_user_def new_user_def [symmetric]
    by (auto simp: bind_svc_Inr query_e_def flush_def commit_def raise_svc_def split: if_splits sum.splits)
  have d1: "d1 = ?d1" and fresh: "ruc_email payload \<notin> u_email ` set (users d)" "new_id is \<notin> u_id ` set (users d)"
    using ins by (auto simp: insert_Inr new_user_def)
  have s2': "s2 = s\<lparr>committed := working s\<rparr>"
    using get_user_pure [of "new_id is" "s\<lparr>committed := working s\<rparr>"] fin by simp
  then have w: "working s = d'" and s: "s\<lparr>committed := working s\<rparr> = \<lparr>committed = d', working = d'\<rparr>"
    using d' by simp_all
  from grant_initial_roles_run [OF grant] obtain ls where
    "working s = d1\<lparr>user_roles := user_roles d1 @ ls\<rparr>"
    "\<forall>l \<in> set ls. ur_user_id l = new_id is" "ur_role_id ` set ls = set (ruc_role_ids payload)"
    by auto
  moreover have "fst (get_user (new_id is) \<lparr>committed = d', working = d'\<rparr>) = Inr out"
    using fin unfolding s by simp
  ultimately show thesis using that [of ls] d1 fresh w by simp
qed

lemma create_user_keeps:
  "rbac_inv d \<Longrightarrow> run_request (create_user pf salt is now payload) d = (r, d') \<Longrightarrow> rbac_inv d'"
  by (metis keeps_run keeps_rbac_users(1) snd_conv)

lemma uncommitting_grant: "uncommitting (grant_initial_roles pf is rids)"
proof -
  have "uncommitting (add_user_roles f n uid b rs)" for f n uid b rs
    by (induction rs arbitrary: n) (simp_all add: uncommitting_bind)
  then show ?thesis unfolding grant_initial_roles_def Let_def
    by (intro uncommitting_if uncommitting_bind) simp_all
qed

text \<open>Everything before the commit publishes nothing, and after it the new account is found.\<close>

lemma create_user_error:
  fixes d :: "'z rbac_db_scheme"
  assumes "run_request (create_user pf salt is now payload) d = (Inl e, d')"
  shows "d' = d"
proof -
  let ?s = "\<lparr>committed = d, working = d\<rparr>"
  define m :: "('z rbac_db_scheme, unit) svc" where "m = bind_svc (query_e (\<lambda>d. scalar_one_or_none (filter (\<lambda>u. u_email u = ruc_email payload) (users d))))
     (\<lambda>existing. if existing \<noteq> None then raise_svc (HTTPException 409 ''A user with this email already exists'')
        else bind_svc (flush (insert_user (new_user pf salt is now payload)))
          (\<lambda>_. grant_initial_roles pf is (ruc_role_ids payload)))"
  have split: "create_user pf salt is now payload = bind_svc m (\<lambda>_. bind_svc commit (\<lambda>_. get_user (new_id is)))"
    unfolding m_def create_user_def new_user_def [symmetric] bind_svc_assoc
    by (intro arg_cong2 [where f = bind_svc] refl ext) (simp add: bind_svc_assoc)
  have unc: "uncommitting m" unfolding m_def by (intro uncommitting_bind uncommitting_if uncommitting_grant) simp_all
  obtain x s where m: "m ?s = (x, s)" by force
  have c: "committed s = d" using uncommittingD [OF unc m] by simp
  show ?thesis
  proof (cases x)
    case (Inl e')
    with m c assms split show ?thesis by (auto simp: run_request_def bind_svc_def)
  next
    case (Inr u)
    then obtain d1 where ins: "insert_user (new_user pf salt is now payload) d = Inr d1"
      and grant: "grant_initial_roles pf is (ruc_role_ids payload) \<lparr>committed = d, working = d1\<rparr> = (Inr (), s)"
      using m unfolding m_def
      by (auto simp: bind_svc_Inr query_e_def flush_def raise_svc_def split: if_splits sum.splits)
    obtain ls where "working s = d1\<lparr>user_roles := user_roles d1 @ ls\<rparr>"
      using grant_initial_roles_run [OF grant] by (metis session.select_convs(2))
    then have "users (working s) = users d1" by simp
    with ins have "get_row u_id (new_id is) (users (working s)) \<noteq> None"
      by (simp add: get_row_None insert_Inr new_user_def)
    with m Inr assms split show ?thesis
      by (auto simp: run_request_def bind_svc_def commit_def get_user_def get_user_orm_def query_def return_svc_def
          split: option.splits)
  qed
qed

lemma assignment_of_find:
  assumes "rbac_inv d"
  shows "assignment_of uid rid d = Inr (find (\<lambda>l. (ur_user_id l, ur_role_id l) = (uid, rid)) (user_roles d))"
  using scalar_by_unique_key [of "\<lambda>l. (ur_user_id l, ur_role_id l)" "user_roles d" "(uid, rid)"] assms
  by (simp add: assignment_of_def rbac_inv_def)

lemma assign_role_assigned:
  assumes "rbac_inv d" and "run_request (assign_role is uid rid by) d = (Inr out, d1)"
    and "rar_detail out = ''Role assigned''"
  shows "uid \<in> u_id ` set (users d)" and "rid \<in> r_id ` set (roles d)"
    and "d1 = d\<lparr>user_roles := user_roles d @
      [\<lparr>ur_id = new_id is, ur_user_id = uid, ur_role_id = rid, ur_assigned_by = Some by\<rparr>]\<rparr>"
    and "new_id is \<notin> ur_id ` set (user_roles d)"
  using assms get_row_None [of u_id uid "users d"] get_row_None [of r_id rid "roles d"]
  by (auto simp: assign_role_def get_user_orm_def get_role_orm_def svc_simps assignment_of_find
      insert_link_Inr role_summaries_for_user_def split: option.splits sum.splits if_splits)

section \<open>Properties\<close>

text \<open>
  Every role-administration request, whether it succeeds or fails, leaves the tables
  consistent: unique emails, role names and permission names, at most one link per user and
  role and per role and permission, and no link to a row that does not exist.
\<close>

theorem rbac_requests_keep_integrity:
  assumes "rbac_step pf d d'" and "rbac_inv d"
  shows "rbac_inv d'"
  using assms
  by (cases rule: rbac_step.cases)
     (auto intro: keeps_run keeps_rbac_users keeps_rbac_others update_role_keeps)

text \<open>
  Updating a role with a list of permissions replaces its permission set by exactly the
  listed ones, duplicates counted once; the other roles keep theirs, and the answer shows the
  new set with its size.
\<close>

theorem update_role_replaces_permissions:
  assumes "rbac_inv d" and "ru_permission_ids payload = Some pids"
    and "run_request (update_role pf is rid payload) d = (Inr out, d')"
  shows "granted d' rid = set pids \<and> (\<forall>r. r = rid \<or> granted d' r = granted d r)
    \<and> set (map pr_id (rr_permissions out)) = set pids \<and> rr_permission_count out = card (set pids)"
proof -
  have inv': "rbac_inv d'" using update_role_keeps [OF assms(1)] assms(3) by (metis snd_conv)
  obtain role where role: "get_row r_id rid (roles d) = Some role"
    and run: "run_request (write_role_update pf is rid payload role) d = (Inr out, d')"
    using assms(1,3) by (auto simp: update_role_run split: option.splits if_splits)
  from write_role_update_run [OF assms(2) run] obtain ls where
    rp: "role_permissions d' = delete_where (\<lambda>l. rp_role_id l = rid) (role_permissions d) @ ls"
    and pids: "map rp_permission_id ls = dict_fromkeys pids" and rid: "\<forall>l \<in> set ls. rp_role_id l = rid"
    and out: "out = role_to_read (apply_role_update payload role)
      (group_of (permissions_by_role d' [r_id role]) (r_id role)) (user_counts_by_role d' (r_id role))" .
  have "rp_permission_id ` set ls = set pids" using pids by (metis set_map set_dict_fromkeys)
  then have g: "granted d' rid = set pids" and o: "r \<noteq> rid \<Longrightarrow> granted d' r = granted d r" for r
    using rp rid by (auto simp: granted_def delete_where_def image_iff)
  have "r_id role = rid" using role by (auto dest: get_row_Some)
  with out role_permission_set [OF inv', of rid] g
  have "set (map pr_id (rr_permissions out)) = set pids \<and> rr_permission_count out = card (set pids)"
    by (simp add: role_to_read_def permission_read_def comp_def)
  with g o show ?thesis by blast
qed

text \<open>
  Creating an account is all or nothing. On success the tables gain exactly the new account,
  whose password is the one given, with exactly the requested roles, which the answer lists; on
  any error, an unknown role after the account was already flushed included, nothing is kept.
\<close>

theorem create_user_all_or_nothing:
  assumes "rbac_inv d" and "bcrypt_law pf"
  shows "case run_request (create_user pf salt is now payload) d of
      (Inl e, d') \<Rightarrow> d' = d
    | (Inr out, d') \<Rightarrow>
        (\<exists>u. users d' = users d @ [u] \<and> u_email u = ruc_email payload \<and> u_is_active u
           \<and> verify_password pf (ruc_password payload) (u_hashed_password u)
           \<and> assigned d' (u_id u) = set (ruc_role_ids payload))
        \<and> set (map rs_id (rur_roles out)) = set (ruc_role_ids payload) \<and> roles d' = roles d"
proof (cases "fst (run_request (create_user pf salt is now payload) d)")
  case (Inl e)
  with create_user_error [OF prod.collapse [symmetric, of "run_request (create_user pf salt is now payload) d",
      unfolded Inl]]
  show ?thesis by (auto split: prod.splits)
next
  case (Inr out)
  then obtain d' where run: "run_request (create_user pf salt is now payload) d = (Inr out, d')"
    by (metis prod.collapse)
  let ?u = "new_user pf salt is now payload"
  from create_user_success [OF run] obtain ls where
    d': "d' = d\<lparr>users := users d @ [?u], user_roles := user_roles d @ ls\<rparr>"
    and ls: "\<forall>l \<in> set ls. ur_user_id l = new_id is" "ur_role_id ` set ls = set (ruc_role_ids payload)"
    and fresh: "new_id is \<notin> u_id ` set (users d)"
    and out: "fst (get_user (new_id is) \<lparr>committed = d', working = d'\<rparr>) = Inr out" .
  have inv': "rbac_inv d'"
    by (rule create_user_keeps [OF assms(1) run])
  have none: "ur_user_id l \<noteq> new_id is" if "l \<in> set (user_roles d)" for l
    using that fresh assms(1) unfolding rbac_inv_def by (metis imageI subsetD)
  have asg: "assigned d' (new_id is) = set (ruc_role_ids payload)"
  proof -
    have "{l \<in> set (user_roles d @ ls). ur_user_id l = new_id is} = set ls" using none ls(1) by auto
    then show ?thesis using ls(2) by (simp add: assigned_def d')
  qed
  have "get_row u_id (new_id is) (users d') = Some ?u"
    using get_row_unique [of u_id "users d'" ?u] inv' by (simp add: rbac_inv_def auth_inv_def d' new_user_def)
  with out have "map rs_id (rur_roles out) = map r_id (group_of (roles_by_user d' [new_id is]) (new_id is))"
    by (auto simp: get_user_def get_user_orm_def svc_simps user_to_read_def role_summary_def comp_def new_user_def)
  with user_role_set [OF inv', of "new_id is"] asg
  have "set (map rs_id (rur_roles out)) = set (ruc_role_ids payload)" by simp
  moreover have "verify_password pf (ruc_password payload) (u_hashed_password ?u)"
    using assms(2) by (simp add: verify_password_def hash_password_def bcrypt_law_def new_user_def)
  ultimately show ?thesis using asg by (simp add: run d' new_user_def)
qed

text \<open>
  C29. The stored address keeps its capitals while a login looks up the address in lower case: an
  account created with a capital letter in its email cannot be logged into with any password,
  and no login, whatever address it presents, ever answers for that account.
\<close>

theorem create_user_with_capitals_cannot_log_in:
  assumes "rbac_inv d" and "run_request (create_user pf salt is now payload) d = (Inr out, d')"
    and "lower (ruc_email payload) \<noteq> ruc_email payload"
  shows "fst (run_request (authenticate_user pf2 email password) d') \<noteq> Inr (Some (new_user pf salt is now payload))
    \<and> (lower (ruc_email payload) \<notin> u_email ` set (users d) \<longrightarrow>
        fst (run_request (authenticate_user pf2 (ruc_email payload) password) d') = Inr None)"
proof -
  from create_user_success [OF assms(2)] obtain ls where
    d': "d' = d\<lparr>users := users d @ [new_user pf salt is now payload], user_roles := user_roles d @ ls\<rparr>" .
  have inv': "auth_inv d'"
    using create_user_keeps [OF assms(1,2)] by (simp add: rbac_inv_def)
  have "u_email u \<noteq> ruc_email payload" if "find (\<lambda>u. u_email u = lower email) (users d') = Some u" for u
    using that assms(3) inv' by (metis auth_invD(2) find_key_Some lower_idem)
  then have "fst (run_request (authenticate_user pf2 email password) d') \<noteq> Inr (Some (new_user pf salt is now payload))"
    using inv' by (auto simp: authenticate_run new_user_def split: option.splits if_splits)
  moreover have "find (\<lambda>u. u_email u = lower (ruc_email payload)) (users d') = None"
    if "lower (ruc_email payload) \<notin> u_email ` set (users d)"
    using that assms(3) by (auto simp: find_None_iff d' new_user_def image_iff)
  ultimately show ?thesis using inv' by (simp add: authenticate_run)
qed

definition demo_rbac_db :: rbac_db where
  "demo_rbac_db = auth_db.extend demo_auth_db (rbac_db.fields
     [\<lparr>r_id = 40, r_name = ''operator'', r_description = None, r_is_active = True, r_created_at = 0\<rparr>,
      \<lparr>r_id = 41, r_name = ''auditor'', r_description = None, r_is_active = True, r_created_at = 0\<rparr>]
     [\<lparr>p_id = 50, p_name = ''tenants:create'', p_description = None, p_resource = ''tenants'', p_action = ''create''\<rparr>,
      \<lparr>p_id = 51, p_name = ''tenants:read'', p_description = None, p_resource = ''tenants'', p_action = ''read''\<rparr>]
     [\<lparr>ur_id = 60, ur_user_id = 1, ur_role_id = 40, ur_assigned_by = None\<rparr>]
     [\<lparr>rp_id = 70, rp_role_id = 40, rp_permission_id = 50\<rparr>])"

definition demo_ids :: ids where
  "demo_ids = \<lparr>new_id = 90, link_id = (\<lambda>n. 100 + n)\<rparr>"

lemma demo_rbac_inv: "rbac_inv demo_rbac_db"
  by (simp add: rbac_inv_def auth_inv_def demo_rbac_db_def demo_auth_db_def demo_user_def
      auth_db.defs rbac_db.defs)

theorem rbac_requests_keep_integrity_witness:
  "rbac_inv (snd (run_request (remove_role 1 40) demo_rbac_db))"
  by (rule rbac_requests_keep_integrity [of demo_platform, OF step_remove demo_rbac_inv])

definition demo_role_update :: RoleUpdate where
  "demo_role_update = \<lparr>ru_name = Some ''operators'', ru_description = None, ru_is_active = None,
     ru_permission_ids = Some [51, 50, 51]\<rparr>"

theorem update_role_replaces_permissions_witness:
  "granted (snd (run_request (update_role demo_platform demo_ids 40 demo_role_update) demo_rbac_db)) 40 = {50, 51}"
proof -
  let ?r = "run_request (update_role demo_platform demo_ids 40 demo_role_update) demo_rbac_db"
  have "\<not> isl (fst ?r)" by code_simp
  then obtain out where r: "?r = (Inr out, snd ?r)" by (metis isl_def sum.exhaust prod.collapse)
  have "ru_permission_ids demo_role_update = Some [51, 50, 51]" by (simp add: demo_role_update_def)
  from update_role_replaces_permissions [OF demo_rbac_inv this r] show ?thesis by auto
qed

definition demo_user_create :: RbacUserCreate where
  "demo_user_create = \<lparr>ruc_email = ''Ada@nexus'', ruc_display_name = ''Ada'', ruc_password = ''long-enough'',
     ruc_is_admin = False, ruc_role_ids = [41, 40]\<rparr>"

theorem create_user_all_or_nothing_witness:
  "fst (run_request (create_user demo_platform 3 demo_ids 9 (demo_user_create\<lparr>ruc_role_ids := [41, 99]\<rparr>)) demo_rbac_db)
     = Inl (HTTPException 404 ''Unknown role id(s): 99'')
   \<and> snd (run_request (create_user demo_platform 3 demo_ids 9 (demo_user_create\<lparr>ruc_role_ids := [41, 99]\<rparr>)) demo_rbac_db)
     = demo_rbac_db"
proof -
  let ?r = "run_request (create_user demo_platform 3 demo_ids 9 (demo_user_create\<lparr>ruc_role_ids := [41, 99]\<rparr>)) demo_rbac_db"
  have e: "fst ?r = Inl (HTTPException 404 ''Unknown role id(s): 99'')" by code_simp
  obtain x y where r: "?r = (x, y)" by force
  let ?p = "demo_user_create\<lparr>ruc_role_ids := [41, 99]\<rparr>"
  have "case ?r of (Inl e, d') \<Rightarrow> d' = demo_rbac_db
    | (Inr out, d') \<Rightarrow>
        (\<exists>u. users d' = users demo_rbac_db @ [u] \<and> u_email u = ruc_email ?p \<and> u_is_active u
           \<and> verify_password demo_platform (ruc_password ?p) (u_hashed_password u)
           \<and> assigned d' (u_id u) = set (ruc_role_ids ?p))
        \<and> set (map rs_id (rur_roles out)) = set (ruc_role_ids ?p) \<and> roles d' = roles demo_rbac_db"
    by (rule create_user_all_or_nothing [OF demo_rbac_inv demo_bcrypt_law])
  with e r have "y = demo_rbac_db" by simp
  with e r show ?thesis by simp
qed

theorem create_user_with_capitals_cannot_log_in_witness:
  "fst (run_request (authenticate_user demo_platform ''Ada@nexus'' ''long-enough'')
     (snd (run_request (create_user demo_platform 3 demo_ids 9 demo_user_create) demo_rbac_db))) = Inr None"
proof -
  let ?r = "run_request (create_user demo_platform 3 demo_ids 9 demo_user_create) demo_rbac_db"
  have "\<not> isl (fst ?r)" by code_simp
  then obtain out where r: "?r = (Inr out, snd ?r)" by (metis isl_def sum.exhaust prod.collapse)
  have "lower (ruc_email demo_user_create) \<noteq> ruc_email demo_user_create" by code_simp
  from create_user_with_capitals_cannot_log_in [OF demo_rbac_inv r this, of demo_platform "''x''" "''long-enough''"]
  have "lower (ruc_email demo_user_create) \<notin> u_email ` set (users demo_rbac_db) \<longrightarrow>
      fst (run_request (authenticate_user demo_platform (ruc_email demo_user_create) ''long-enough'') (snd ?r)) = Inr None"
    by (rule conjunct2)
  moreover have "lower (ruc_email demo_user_create) \<notin> u_email ` set (users demo_rbac_db)" by code_simp
  moreover have "ruc_email demo_user_create = ''Ada@nexus''" by (simp add: demo_user_create_def)
  ultimately show ?thesis by simp
qed

text \<open>
  Assigning a role is idempotent and removing it undoes it: after a new assignment, a second
  one reports that the role is already assigned and changes nothing, and a removal restores
  the database exactly.
\<close>

theorem assign_role_idempotent_and_undone:
  assumes "rbac_inv d" and "run_request (assign_role is uid rid by) d = (Inr out, d1)"
    and "rar_detail out = ''Role assigned''"
  shows "run_request (assign_role is2 uid rid by2) d1 = (Inr (out\<lparr>rar_detail := ''Role already assigned''\<rparr>), d1)
    \<and> snd (run_request (remove_role uid rid) d1) = d"
proof -
  note new = assign_role_assigned [OF assms]
  have inv1: "rbac_inv d1" using keeps_run [OF keeps_rbac_others(3) assms(1)] assms(2) by (metis snd_conv)
  let ?l = "\<lparr>ur_id = new_id is, ur_user_id = uid, ur_role_id = rid, ur_assigned_by = Some by\<rparr>"
  have find: "find (\<lambda>l. (ur_user_id l, ur_role_id l) = (uid, rid)) (user_roles d1) = Some ?l"
    using inv1 by (subst find_key_Some) (auto simp: new(3) rbac_inv_def)
  obtain u r where ur: "get_row u_id uid (users d1) = Some u" "get_row r_id rid (roles d1) = Some r"
    using new(1,2) get_row_None [of u_id uid "users d"] get_row_None [of r_id rid "roles d"] by (auto simp: new(3))
  have out: "out = \<lparr>rar_detail = ''Role assigned'', rar_user_id = uid, rar_role_id = rid,
      rar_roles = map role_summary (group_of (roles_by_user d1 [uid]) uid)\<rparr>"
    using assms by (auto simp: assign_role_def get_user_orm_def get_role_orm_def svc_simps assignment_of_find
        role_summaries_for_user_def split: option.splits sum.splits if_splits)
  have "delete_where (\<lambda>x. ur_id x = new_id is) (user_roles d1) = user_roles d"
    using new(4) by (auto simp: new(3) delete_where_def image_iff intro!: filter_True)
  then have "user_roles_update (delete_where (\<lambda>x. ur_id x = new_id is)) d1 = d"
    by (simp add: new(3))
  with ur find inv1 show ?thesis
    by (simp add: assign_role_def remove_role_def get_user_orm_def get_role_orm_def svc_simps assignment_of_find
        role_summaries_for_user_def out)
qed

theorem assign_role_idempotent_and_undone_witness:
  "snd (run_request (remove_role 2 41) (snd (run_request (assign_role demo_ids 2 41 ''admin@nexus'') demo_rbac_db)))
   = demo_rbac_db"
proof -
  let ?r = "run_request (assign_role demo_ids 2 41 ''admin@nexus'') demo_rbac_db"
  have e: "map_sum id rar_detail (fst ?r) = Inr ''Role assigned''" by code_simp
  then obtain out where r: "?r = (Inr out, snd ?r)" and o: "rar_detail out = ''Role assigned''"
    by (cases ?r, cases "fst ?r") auto
  from assign_role_idempotent_and_undone [OF demo_rbac_inv r o, of demo_ids "''x''"] show ?thesis by simp
qed

text \<open>
  Nobody but an administrator changes accounts, roles or grants: each of the eight writing
  endpoints, called with the credentials of anyone else or with none, answers 401 or 403 and
  leaves the database as it was.
\<close>

theorem rbac_endpoints_refuse_others:
  assumes "\<forall>u. fst (run_request (get_current_user pf st now cred) d) = Inr u \<longrightarrow> \<not> u_is_admin u"
  shows "snd (run_request (create_new_user pf st now salt ids now' uc cred) d) = d
    \<and> snd (run_request (patch_user pf st now uid uu cred) d) = d
    \<and> snd (run_request (activate_user pf st now uid cred) d) = d
    \<and> snd (run_request (deactivate_user pf st now uid cred) d) = d
    \<and> snd (run_request (create_new_role pf st now ids now' rc cred) d) = d
    \<and> snd (run_request (patch_role pf st now ids rid ru cred) d) = d
    \<and> snd (run_request (assign_role_to_user pf st now ids uid rid cred) d) = d
    \<and> snd (run_request (remove_role_from_user pf st now uid rid cred) d) = d
    \<and> (\<exists>code detail. fst (run_request (assign_role_to_user pf st now ids uid rid cred) d)
          = Inl (HTTPException code detail) \<and> code \<in> {401, 403})"
  using create_new_user_ep.refused [OF assms] patch_user_ep.refused [OF assms] activate_user_ep.refused [OF assms]
    deactivate_user_ep.refused [OF assms] create_new_role_ep.refused [OF assms] patch_role_ep.refused [OF assms]
    assign_role_ep.refused [OF assms] remove_role_ep.refused [OF assms]
  by blast

theorem rbac_endpoints_refuse_others_witness:
  "snd (run_request (deactivate_user demo_platform demo_settings 0 1
     (Some (create_access_token demo_platform demo_settings 0 0 ''2'' []))) demo_rbac_db) = demo_rbac_db"
proof -
  let ?cred = "Some (create_access_token demo_platform demo_settings 0 0 ''2'' [])"
  have "map_sum id u_is_admin (fst (run_request (get_current_user demo_platform demo_settings 0 ?cred) demo_rbac_db)) = Inr False"
    by code_simp
  then have "\<forall>u. fst (run_request (get_current_user demo_platform demo_settings 0 ?cred) demo_rbac_db) = Inr u
      \<longrightarrow> \<not> u_is_admin u" by auto
  from rbac_endpoints_refuse_others [OF this] show ?thesis by blast
qed

end
