(* ===== verification/TenancyModels.thy ===== *)
theory TenancyModels
  imports Rbac Complex_Main
begin

text \<open>
  The tables of \<^verbatim>\<open>src/app/models/tenancy.py\<close>: tenants, memberships, breach alerts,
  provisioning jobs, schema validations and backup snapshots, with the computed properties of
  the model classes. The audit log refers to tenants, so the tables come before it; the
  operations are in theory \<open>Tenancy\<close>. A \<^verbatim>\<open>Float\<close> column holds a finite double, which is a
  rational number.
\<close>

section \<open>Enumerations\<close>

datatype TenantTier = ENTERPRISE | PREMIUM | STANDARD

fun TenantTier_value :: "TenantTier \<Rightarrow> string" where
  "TenantTier_value TenantTier.ENTERPRISE = ''enterprise''"
| "TenantTier_value TenantTier.PREMIUM = ''premium''"
| "TenantTier_value TenantTier.STANDARD = ''standard''"

datatype IsolationMode = STRICT | STANDARD | SHARED

fun IsolationMode_value :: "IsolationMode \<Rightarrow> string" where
  "IsolationMode_value IsolationMode.STRICT = ''strict''"
| "IsolationMode_value IsolationMode.STANDARD = ''standard''"
| "IsolationMode_value IsolationMode.SHARED = ''shared''"

datatype TenantStatus = ACTIVE | PROVISIONING | SUSPENDED | DECOMMISSIONED

fun TenantStatus_value :: "TenantStatus \<Rightarrow> string" where
  "TenantStatus_value TenantStatus.ACTIVE = ''active''"
| "TenantStatus_value TenantStatus.PROVISIONING = ''provisioning''"
| "TenantStatus_value TenantStatus.SUSPENDED = ''suspended''"
| "TenantStatus_value TenantStatus.DECOMMISSIONED = ''decommissioned''"

datatype TenantMemberRole = OWNER | ADMIN | ANALYST | VIEWER

fun TenantMemberRole_value :: "TenantMemberRole \<Rightarrow> string" where
  "TenantMemberRole_value TenantMemberRole.OWNER = ''owner''"
| "TenantMemberRole_value TenantMemberRole.ADMIN = ''admin''"
| "TenantMemberRole_value TenantMemberRole.ANALYST = ''analyst''"
| "TenantMemberRole_value TenantMemberRole.VIEWER = ''viewer''"

datatype BreachSeverity = CRITICAL | WARNING

fun BreachSeverity_value :: "BreachSeverity \<Rightarrow> string" where
  "BreachSeverity_value BreachSeverity.CRITICAL = ''critical''"
| "BreachSeverity_value BreachSeverity.WARNING = ''warning''"

datatype ProvisioningJobStatus = RUNNING | PAUSED | COMPLETE | ABORTED

fun ProvisioningJobStatus_value :: "ProvisioningJobStatus \<Rightarrow> string" where
  "ProvisioningJobStatus_value ProvisioningJobStatus.RUNNING = ''running''"
| "ProvisioningJobStatus_value ProvisioningJobStatus.PAUSED = ''paused''"
| "ProvisioningJobStatus_value ProvisioningJobStatus.COMPLETE = ''complete''"
| "ProvisioningJobStatus_value ProvisioningJobStatus.ABORTED = ''aborted''"

datatype SnapshotStatus = CURRENT | STALE | PENDING

fun SnapshotStatus_value :: "SnapshotStatus \<Rightarrow> string" where
  "SnapshotStatus_value SnapshotStatus.CURRENT = ''current''"
| "SnapshotStatus_value SnapshotStatus.STALE = ''stale''"
| "SnapshotStatus_value SnapshotStatus.PENDING = ''pending''"

section \<open>Tables\<close>

record Tenant =
  t_id :: uuid
  t_slug :: string
  t_org_id :: string
  t_display_name :: string
  t_tier :: TenantTier
  t_isolation_mode :: IsolationMode
  t_status :: TenantStatus
  t_region :: string
  t_db_schema_name :: string
  t_db_schema_valid :: bool
  t_network_cidr :: "string option"
  t_network_vpc :: "string option"
  t_network_shared :: bool
  t_dek_label :: "string option"
  t_encryption_valid :: bool
  t_events_per_second :: rat

text \<open>The score adds 40, 20 and 40 points; \<^verbatim>\<open>round(score, 1)\<close> leaves a whole number alone.\<close>

definition isolation_score :: "Tenant \<Rightarrow> nat" where
  "isolation_score t =
     (if t_db_schema_valid t then 40 else 0) + (if \<not> t_network_shared t then 20 else 0)
     + (if t_encryption_valid t then 40 else 0)"

definition isolation_level :: "Tenant \<Rightarrow> string" where
  "isolation_level t =
     (if t_status t = TenantStatus.PROVISIONING then ''pending''
      else if \<not> t_db_schema_valid t \<or> \<not> t_encryption_valid t then ''breach''
      else if t_network_shared t then ''partial''
      else ''strict'')"

record TenantMember =
  tm_id :: uuid
  tm_tenant_id :: uuid
  tm_user_id :: uuid
  tm_role :: TenantMemberRole
  tm_created_at :: datetime

record BreachAlert =
  ba_id :: uuid
  ba_severity :: BreachSeverity
  ba_title :: string
  ba_description :: string
  ba_source_tenant_id :: "uuid option"
  ba_target_tenant_id :: "uuid option"
  ba_resource :: "string option"
  ba_principal :: "string option"
  ba_action_taken :: "string option"
  ba_detected_at :: datetime
  ba_dismissed :: bool
  ba_dismissed_at :: "datetime option"

definition PROVISIONING_STEPS :: "string list" where
  "PROVISIONING_STEPS =
     [''org_namespace_created'', ''network_policy_applied'', ''schema_migration'', ''dek_generation'',
      ''isolation_validation'', ''initial_snapshot'']"

record TenantProvisioningJob =
  tpj_id :: uuid
  tpj_tenant_id :: uuid
  tpj_status :: ProvisioningJobStatus
  tpj_completed_steps :: "string list"
  tpj_current_step :: "string option"
  tpj_eta_seconds :: "int option"
  tpj_created_at :: datetime

text \<open>
  \<^verbatim>\<open>round(len(completed) / len(PROVISIONING_STEPS) * 100)\<close>. With six steps the quotient is a
  multiple of a third and never half way between two integers, so rounding the double gives
  the nearest integer of the exact quotient.
\<close>

definition percent_complete :: "TenantProvisioningJob \<Rightarrow> nat" where
  "percent_complete job =
     (if PROVISIONING_STEPS = [] then 0
      else (2 * 100 * length (tpj_completed_steps job) + length PROVISIONING_STEPS)
             div (2 * length PROVISIONING_STEPS))"

record TenantSchemaValidation =
  tsv_id :: uuid
  tsv_tenant_id :: uuid
  tsv_schema_name :: string
  tsv_schema_version :: string
  tsv_table_count :: "int option"
  tsv_status :: string
  tsv_detail :: "string option"
  tsv_validated_at :: datetime

record TenantBackupSnapshot =
  tbs_id :: uuid
  tbs_tenant_id :: uuid
  tbs_status :: SnapshotStatus
  tbs_size_bytes :: "int option"
  tbs_taken_at :: "datetime option"
  tbs_retention_days :: int
  tbs_retained_count :: int
  tbs_stale_reason :: "string option"

record tenancy_db = rbac_db +
  tenants :: "Tenant list"
  tenant_members :: "TenantMember list"
  breach_alerts :: "BreachAlert list"
  provisioning_jobs :: "TenantProvisioningJob list"
  schema_validations :: "TenantSchemaValidation list"
  backup_snapshots :: "TenantBackupSnapshot list"

interpretation tenants_table: table t_id tenants tenants_update
  by unfold_locales simp

interpretation tenant_members_table: table tm_id tenant_members tenant_members_update
  by unfold_locales simp

interpretation breach_alerts_table: table ba_id breach_alerts breach_alerts_update
  by unfold_locales simp

interpretation provisioning_jobs_table: table tpj_id provisioning_jobs provisioning_jobs_update
  by unfold_locales simp

interpretation backup_snapshots_table: table tbs_id backup_snapshots backup_snapshots_update
  by unfold_locales simp

end
