(* ===== verification/AuditLog.thy ===== *)
theory AuditLog
  imports TenancyModels
begin

text \<open>
  The append-only, hash-chained audit log: \<^verbatim>\<open>src/app/models/audit.py\<close>,
  \<^verbatim>\<open>src/app/core/crypto.py\<close>, \<^verbatim>\<open>src/app/schemas/audit.py\<close>,
  \<^verbatim>\<open>src/app/services/audit_service.py\<close> and \<^verbatim>\<open>src/app/api/v1/endpoints/audit_log.py\<close>.
  The redaction of metadata is in theory \<open>Json\<close>.
\<close>

section \<open>Models\<close>

datatype AuditSeverity = CRITICAL | WARNING | INFO

fun AuditSeverity_value :: "AuditSeverity \<Rightarrow> string" where
  "AuditSeverity_value AuditSeverity.CRITICAL = ''critical''"
| "AuditSeverity_value AuditSeverity.WARNING = ''warning''"
| "AuditSeverity_value AuditSeverity.INFO = ''info''"

datatype AuditEventType =
    STATE_CHANGE | AUTH_EVENT | CONFIG_CHANGE | POLICY_EVAL | TENANT_LIFECYCLE | KEY_OPERATION
  | ANOMALY_DETECTED

fun AuditEventType_value :: "AuditEventType \<Rightarrow> string" where
  "AuditEventType_value AuditEventType.STATE_CHANGE = ''state_change''"
| "AuditEventType_value AuditEventType.AUTH_EVENT = ''auth_event''"
| "AuditEventType_value AuditEventType.CONFIG_CHANGE = ''config_change''"
| "AuditEventType_value AuditEventType.POLICY_EVAL = ''policy_eval''"
| "AuditEventType_value AuditEventType.TENANT_LIFECYCLE = ''tenant_lifecycle''"
| "AuditEventType_value AuditEventType.KEY_OPERATION = ''key_operation''"
| "AuditEventType_value AuditEventType.ANOMALY_DETECTED = ''anomaly_detected''"

lemma enum_values_inj:
  "AuditSeverity_value s = AuditSeverity_value s' \<longleftrightarrow> s = s'"
  "AuditEventType_value t = AuditEventType_value t' \<longleftrightarrow> t = t'"
  by (cases s; cases s'; simp) (cases t; cases t'; simp)

record AuditLogEntry =
  ale_id :: uuid
  ale_sequence :: int
  ale_occurred_at :: datetime
  ale_severity :: AuditSeverity
  ale_event_type :: AuditEventType
  ale_event_subtype :: string
  ale_tenant_id :: "uuid option"
  ale_tenant_slug :: "string option"
  ale_actor :: string
  ale_source_ip :: "string option"
  ale_description :: string
  ale_metadata_json :: json
  ale_prev_hash :: "string option"
  ale_entry_hash :: string
  ale_signing_key_id :: string
  ale_signature :: string
  ale_created_at :: datetime

text \<open>\<open>audit_next\<close> is the next value of the identity column.\<close>

record audit_db = tenancy_db +
  audit_log_entries :: "AuditLogEntry list"
  audit_next :: int

text \<open>
  The functions of third-party packages the log calls, beside those of \<open>platform\<close>: ECDSA
  signing with the process's key (the first argument is the signature's randomness), the
  verification of a signature over a digest, the DER form of the public key, and
  SQLAlchemy's conversion of a string to a member of an \<^verbatim>\<open>Enum\<close> column.
\<close>

record audit_platform = platform +
  ec_sign :: "nat \<Rightarrow> bytes \<Rightarrow> bytes"
  ec_verify :: "bytes \<Rightarrow> bytes \<Rightarrow> bool"
  public_der :: bytes
  coerce_severity :: "string \<Rightarrow> AuditSeverity option"
  coerce_event_type :: "string \<Rightarrow> AuditEventType option"

section \<open>core/crypto.py\<close>

definition get_signing_key_id :: "'p audit_platform_scheme \<Rightarrow> string" where
  "get_signing_key_id pf = ''nexus-signing-key-v4:'' @ take 8 (hexlify (sha256 pf (public_der pf)))"

text \<open>\<^verbatim>\<open>bytes.fromhex\<close> refuses a text that is not hexadecimal: no signature then.\<close>

definition sign_hex_digest :: "'p audit_platform_scheme \<Rightarrow> nat \<Rightarrow> string \<Rightarrow> string option" where
  "sign_hex_digest pf nonce hex_digest =
     map_option (\<lambda>digest. b64encode (ec_sign pf nonce digest)) (fromhex hex_digest)"

definition verify_hex_digest :: "'p audit_platform_scheme \<Rightarrow> string \<Rightarrow> string \<Rightarrow> bool" where
  "verify_hex_digest pf hex_digest signature_b64 =
     (case (b64decode signature_b64, fromhex hex_digest) of
        (Some signature, Some digest) \<Rightarrow> ec_verify pf signature digest
      | _ \<Rightarrow> False)"

section \<open>services/audit\_service.py\<close>

subsection \<open>Hashing\<close>

definition json_opt :: "string option \<Rightarrow> json" where
  "json_opt s = (case s of None \<Rightarrow> JNull | Some x \<Rightarrow> JStr x)"

text \<open>The keyword arguments of \<^verbatim>\<open>_canonical_payload\<close>.\<close>

record hash_fields =
  hf_prev_hash :: "string option"
  hf_occurred_at :: datetime
  hf_severity :: string
  hf_event_type :: string
  hf_event_subtype :: string
  hf_actor :: string
  hf_description :: string
  hf_tenant_slug :: "string option"
  hf_source_ip :: "string option"
  hf_metadata_json :: json

definition payload_json :: "hash_fields \<Rightarrow> json" where
  "payload_json f = JDict
     [(''prev_hash'', json_opt (hf_prev_hash f)),
      (''occurred_at'', JStr (isoformat (hf_occurred_at f))),
      (''severity'', JStr (hf_severity f)),
      (''event_type'', JStr (hf_event_type f)),
      (''event_subtype'', JStr (hf_event_subtype f)),
      (''actor'', JStr (hf_actor f)),
      (''description'', JStr (hf_description f)),
      (''tenant_slug'', json_opt (hf_tenant_slug f)),
      (''source_ip'', json_opt (hf_source_ip f)),
      (''metadata_json'', hf_metadata_json f)]"

definition canonical_payload :: "hash_fields \<Rightarrow> bytes" where
  "canonical_payload f = utf8_encode (dumps (payload_json f))"

definition compute_entry_hash :: "'p platform_scheme \<Rightarrow> hash_fields \<Rightarrow> string" where
  "compute_entry_hash pf f = hexlify (sha256 pf (canonical_payload f))"

subsection \<open>Appending\<close>

definition get_tail :: "'z audit_db_scheme \<Rightarrow> AuditLogEntry option" where
  "get_tail d = first_row (order_by_desc ale_sequence (audit_log_entries d))"

record AuditLogEntryCreate =
  alc_severity :: string
  alc_event_type :: string
  alc_event_subtype :: string
  alc_actor :: string
  alc_description :: string
  alc_tenant_id :: "uuid option"
  alc_tenant_slug :: "string option"
  alc_source_ip :: "string option"
  alc_metadata_json :: json

text \<open>
  The clock reading and random values of one append; \<open>fr_skip\<close> counts the identity values
  that other, rolled back, transactions took in the meantime (PostgreSQL never gives them
  back).
\<close>

record fresh =
  fr_id :: uuid
  fr_nonce :: nat
  fr_now :: datetime
  fr_skip :: nat

text \<open>What the columns of the table take.\<close>

definition columns_ok :: "AuditLogEntry \<Rightarrow> bool" where
  "columns_ok e \<longleftrightarrow>
     fits 60 (ale_event_subtype e) \<and> fits_opt 80 (ale_tenant_slug e) \<and> fits 120 (ale_actor e)
     \<and> fits_opt 45 (ale_source_ip e) \<and> fits_opt 64 (ale_prev_hash e) \<and> fits 64 (ale_entry_hash e)
     \<and> fits 60 (ale_signing_key_id e)
     \<and> text_ok (ale_event_subtype e) \<and> text_ok (ale_actor e) \<and> text_ok (ale_description e)
     \<and> (case ale_tenant_slug e of None \<Rightarrow> True | Some s \<Rightarrow> text_ok s)
     \<and> (case ale_source_ip e of None \<Rightarrow> True | Some s \<Rightarrow> text_ok s)"

definition fields_of_payload :: "string option \<Rightarrow> datetime \<Rightarrow> AuditLogEntryCreate \<Rightarrow> hash_fields" where
  "fields_of_payload prev_hash occurred_at payload =
     \<lparr>hf_prev_hash = prev_hash, hf_occurred_at = occurred_at, hf_severity = alc_severity payload,
      hf_event_type = alc_event_type payload, hf_event_subtype = alc_event_subtype payload,
      hf_actor = alc_actor payload, hf_description = alc_description payload,
      hf_tenant_slug = alc_tenant_slug payload, hf_source_ip = alc_source_ip payload,
      hf_metadata_json = sanitize_metadata (alc_metadata_json payload)\<rparr>"

text \<open>
  The row an append builds on the tail it has read. The strings of the two enumeration
  columns become members when the row is flushed; \<open>sequence\<close> is the value the identity
  column gives.
\<close>

definition build_entry ::
  "'p audit_platform_scheme \<Rightarrow> fresh \<Rightarrow> int \<Rightarrow> string option \<Rightarrow> AuditLogEntryCreate \<Rightarrow> error + AuditLogEntry" where
  "build_entry pf fr seq prev_hash payload =
     (let occurred_at = fr_now fr;
          entry_hash = compute_entry_hash pf (fields_of_payload prev_hash occurred_at payload)
      in case sign_hex_digest pf (fr_nonce fr) entry_hash of
           None \<Rightarrow> Inl (DataError ''non-hexadecimal number'')
         | Some signature \<Rightarrow>
             (case (coerce_severity pf (alc_severity payload), coerce_event_type pf (alc_event_type payload)) of
                (Some sev, Some etype) \<Rightarrow> Inr
                  \<lparr>ale_id = fr_id fr, ale_sequence = seq, ale_occurred_at = occurred_at,
                   ale_severity = sev, ale_event_type = etype,
                   ale_event_subtype = alc_event_subtype payload, ale_tenant_id = alc_tenant_id payload,
                   ale_tenant_slug = alc_tenant_slug payload, ale_actor = alc_actor payload,
                   ale_source_ip = alc_source_ip payload, ale_description = alc_description payload,
                   ale_metadata_json = sanitize_metadata (alc_metadata_json payload),
                   ale_prev_hash = prev_hash, ale_entry_hash = entry_hash,
                   ale_signing_key_id = get_signing_key_id pf, ale_signature = signature,
                   ale_created_at = occurred_at\<rparr>
              | _ \<Rightarrow> Inl (LookupError ''enum'')))"

definition insert_entry :: "AuditLogEntry \<Rightarrow> 'z audit_db_scheme \<Rightarrow> error + 'z audit_db_scheme" where
  "insert_entry e d =
     (if \<not> columns_ok e then Inl (DataError ''audit_log_entries'')
      else if (case ale_tenant_id e of None \<Rightarrow> False | Some t \<Rightarrow> t \<notin> t_id ` set (tenants d))
      then Inl (IntegrityError ''audit_log_entries.tenant_id'')
      else if ale_entry_hash e \<in> ale_entry_hash ` set (audit_log_entries d)
      then Inl (IntegrityError ''audit_log_entries.entry_hash'')
      else (case insert_row ale_id e (audit_log_entries d) of
              Inl err \<Rightarrow> Inl err
            | Inr es \<Rightarrow> Inr (d\<lparr>audit_log_entries := es, audit_next := ale_sequence e + 1\<rparr>)))"

definition append_entry_in_transaction ::
  "'p audit_platform_scheme \<Rightarrow> fresh \<Rightarrow> AuditLogEntryCreate \<Rightarrow> ('z audit_db_scheme, AuditLogEntry) svc" where
  "append_entry_in_transaction pf fr payload =
     bind_svc (query get_tail)
     (\<lambda>tail. let prev_hash = map_option ale_entry_hash tail in
        bind_svc (query_e (\<lambda>d. build_entry pf fr (audit_next d + int (fr_skip fr)) prev_hash payload))
        (\<lambda>entry. bind_svc (flush (insert_entry entry)) (\<lambda>_. return_svc entry)))"

definition append_entry ::
  "'p audit_platform_scheme \<Rightarrow> fresh \<Rightarrow> AuditLogEntryCreate \<Rightarrow> ('z audit_db_scheme, AuditLogEntry) svc" where
  "append_entry pf fr payload =
     bind_svc (append_entry_in_transaction pf fr payload)
     (\<lambda>entry. bind_svc commit (\<lambda>_. return_svc entry))"

subsection \<open>Verification\<close>

record ChainVerificationResult =
  cvr_verified_count :: nat
  cvr_failed_count :: nat
  cvr_is_valid :: bool
  cvr_first_break_sequence :: "int option"
  cvr_duration_ms :: rat
  cvr_root_hash :: "string option"

definition fields_of_entry :: "string option \<Rightarrow> AuditLogEntry \<Rightarrow> hash_fields" where
  "fields_of_entry prev_hash e =
     \<lparr>hf_prev_hash = prev_hash, hf_occurred_at = ale_occurred_at e,
      hf_severity = AuditSeverity_value (ale_severity e),
      hf_event_type = AuditEventType_value (ale_event_type e), hf_event_subtype = ale_event_subtype e,
      hf_actor = ale_actor e, hf_description = ale_description e, hf_tenant_slug = ale_tenant_slug e,
      hf_source_ip = ale_source_ip e, hf_metadata_json = ale_metadata_json e\<rparr>"

text \<open>The body of the loop of \<^verbatim>\<open>verify_chain\<close> and the loop, with its accumulators.\<close>

definition entry_ok :: "'p audit_platform_scheme \<Rightarrow> string option \<Rightarrow> AuditLogEntry \<Rightarrow> bool" where
  "entry_ok pf expected_prev_hash entry =
     (let expected_hash = compute_entry_hash pf (fields_of_entry expected_prev_hash entry);
          hash_ok = (expected_hash = ale_entry_hash entry \<and> ale_prev_hash entry = expected_prev_hash);
          signature_ok = verify_hex_digest pf (ale_entry_hash entry) (ale_signature entry)
      in hash_ok \<and> signature_ok)"

fun verify_walk ::
  "'p audit_platform_scheme \<Rightarrow> nat \<Rightarrow> nat \<Rightarrow> int option \<Rightarrow> string option \<Rightarrow> AuditLogEntry list \<Rightarrow>
   nat \<times> nat \<times> int option" where
  "verify_walk pf verified failed first_break expected_prev_hash [] = (verified, failed, first_break)"
| "verify_walk pf verified failed first_break expected_prev_hash (entry # entries) =
     (if entry_ok pf expected_prev_hash entry
      then verify_walk pf (verified + 1) failed first_break (Some (ale_entry_hash entry)) entries
      else verify_walk pf verified (failed + 1)
             (case first_break of None \<Rightarrow> Some (ale_sequence entry) | Some s \<Rightarrow> Some s)
             (Some (ale_entry_hash entry)) entries)"

definition verify_chain ::
  "'p audit_platform_scheme \<Rightarrow> rat \<Rightarrow> ('z audit_db_scheme, ChainVerificationResult) svc" where
  "verify_chain pf duration_ms =
     query (\<lambda>d.
       let entries = sort_key ale_sequence (audit_log_entries d);
           (verified, failed, first_break) = verify_walk pf 0 0 None None entries
       in \<lparr>cvr_verified_count = verified, cvr_failed_count = failed, cvr_is_valid = (failed = 0),
           cvr_first_break_sequence = first_break, cvr_duration_ms = duration_ms,
           cvr_root_hash = (if entries = [] then None else Some (ale_entry_hash (last entries)))\<rparr>)"

subsection \<open>Reading\<close>

record HashChainSummary =
  hcs_total_entries :: nat
  hcs_root_hash :: "string option"
  hcs_signing_key_id :: "string option"
  hcs_last_verified_at :: "datetime option"
  hcs_last_verification :: "ChainVerificationResult option"

definition get_chain_summary :: "('z audit_db_scheme, HashChainSummary) svc" where
  "get_chain_summary =
     query (\<lambda>d. \<lparr>hcs_total_entries = length (audit_log_entries d),
       hcs_root_hash = map_option ale_entry_hash (get_tail d),
       hcs_signing_key_id = map_option ale_signing_key_id (get_tail d),
       hcs_last_verified_at = None, hcs_last_verification = None\<rparr>)"

record AuditLogEntryRead =
  alr_id :: uuid
  alr_sequence :: int
  alr_occurred_at :: datetime
  alr_severity :: string
  alr_event_type :: string
  alr_event_subtype :: string
  alr_tenant_slug :: "string option"
  alr_actor :: string
  alr_source_ip :: "string option"
  alr_description :: string
  alr_metadata_json :: json
  alr_prev_hash :: "string option"
  alr_entry_hash :: string
  alr_signing_key_id :: string
  alr_signature :: string
  alr_integrity :: string

definition entry_to_read :: "AuditLogEntry \<Rightarrow> string \<Rightarrow> AuditLogEntryRead" where
  "entry_to_read e integrity =
     \<lparr>alr_id = ale_id e, alr_sequence = ale_sequence e, alr_occurred_at = ale_occurred_at e,
      alr_severity = AuditSeverity_value (ale_severity e),
      alr_event_type = AuditEventType_value (ale_event_type e), alr_event_subtype = ale_event_subtype e,
      alr_tenant_slug = ale_tenant_slug e, alr_actor = ale_actor e, alr_source_ip = ale_source_ip e,
      alr_description = ale_description e, alr_metadata_json = ale_metadata_json e,
      alr_prev_hash = ale_prev_hash e, alr_entry_hash = ale_entry_hash e,
      alr_signing_key_id = ale_signing_key_id e, alr_signature = ale_signature e,
      alr_integrity = integrity\<rparr>"

definition get_entry :: "uuid \<Rightarrow> ('z audit_db_scheme, AuditLogEntryRead) svc" where
  "get_entry audit_log_id =
     bind_svc (query (\<lambda>d. get_row ale_id audit_log_id (audit_log_entries d)))
     (\<lambda>entry. case entry of
        None \<Rightarrow> raise_svc (HTTPException 404 ''Audit entry not found'')
      | Some e \<Rightarrow> return_svc (entry_to_read e ''unverified''))"

text \<open>
  The WHERE clauses shared by the listing and the export. A comparison with an enumeration
  column converts the string first and fails on one that is no member; an empty string or
  \<^verbatim>\<open>None\<close> sets no filter.
\<close>

definition truthy :: "string option \<Rightarrow> bool" where
  "truthy s \<longleftrightarrow> s \<noteq> None \<and> s \<noteq> Some []"

record entry_filter =
  ef_severity :: "string option"
  ef_event_type :: "string option"
  ef_tenant_slug :: "string option"
  ef_from_time :: "datetime option"
  ef_to_time :: "datetime option"

definition filter_known :: "'p audit_platform_scheme \<Rightarrow> entry_filter \<Rightarrow> bool" where
  "filter_known pf f \<longleftrightarrow>
     (truthy (ef_severity f) \<longrightarrow> coerce_severity pf (the (ef_severity f)) \<noteq> None)
     \<and> (truthy (ef_event_type f) \<longrightarrow> coerce_event_type pf (the (ef_event_type f)) \<noteq> None)"

definition entry_matches :: "'p audit_platform_scheme \<Rightarrow> entry_filter \<Rightarrow> AuditLogEntry \<Rightarrow> bool" where
  "entry_matches pf f e \<longleftrightarrow>
     (truthy (ef_severity f) \<longrightarrow> coerce_severity pf (the (ef_severity f)) = Some (ale_severity e))
     \<and> (truthy (ef_event_type f) \<longrightarrow> coerce_event_type pf (the (ef_event_type f)) = Some (ale_event_type e))
     \<and> (truthy (ef_tenant_slug f) \<longrightarrow> ale_tenant_slug e = ef_tenant_slug f)
     \<and> (case ef_from_time f of None \<Rightarrow> True | Some t \<Rightarrow> t \<le> ale_occurred_at e)
     \<and> (case ef_to_time f of None \<Rightarrow> True | Some t \<Rightarrow> ale_occurred_at e \<le> t)"

definition EXPORT_MAX_ROWS :: nat where
  "EXPORT_MAX_ROWS = 10000"

record AuditExportResponse =
  aer_generated_at :: datetime
  aer_total :: nat
  aer_returned :: nat
  aer_truncated :: bool
  aer_entries :: "AuditLogEntryRead list"

definition export_entries ::
  "'p audit_platform_scheme \<Rightarrow> datetime \<Rightarrow> entry_filter \<Rightarrow> ('z audit_db_scheme, AuditExportResponse) svc" where
  "export_entries pf now f =
     query_e (\<lambda>d.
       if \<not> filter_known pf f then Inl (LookupError ''enum'')
       else
         let total = length (filter (entry_matches pf f) (audit_log_entries d));
             entries = take EXPORT_MAX_ROWS
               (sort_key ale_sequence (filter (entry_matches pf f) (audit_log_entries d)))
         in Inr \<lparr>aer_generated_at = now, aer_total = total, aer_returned = length entries,
                 aer_truncated = (length entries < total),
                 aer_entries = map (\<lambda>e. entry_to_read e ''unverified'') entries\<rparr>)"

record IntegrityStatus =
  is_total_entries :: nat
  is_is_valid :: bool
  is_verified_count :: nat
  is_failed_count :: nat
  is_first_break_sequence :: "int option"
  is_root_hash :: "string option"
  is_signing_key_id :: "string option"
  is_checked_at :: datetime
  is_duration_ms :: rat

definition get_integrity_status ::
  "'p audit_platform_scheme \<Rightarrow> rat \<Rightarrow> datetime \<Rightarrow> ('z audit_db_scheme, IntegrityStatus) svc" where
  "get_integrity_status pf duration_ms now =
     bind_svc (verify_chain pf duration_ms)
     (\<lambda>v. bind_svc (query get_tail)
     (\<lambda>tail. return_svc
        \<lparr>is_total_entries = cvr_verified_count v + cvr_failed_count v, is_is_valid = cvr_is_valid v,
         is_verified_count = cvr_verified_count v, is_failed_count = cvr_failed_count v,
         is_first_break_sequence = cvr_first_break_sequence v, is_root_hash = cvr_root_hash v,
         is_signing_key_id = map_option ale_signing_key_id tail, is_checked_at = now,
         is_duration_ms = cvr_duration_ms v\<rparr>))"

definition ilike_opt :: "string \<Rightarrow> string option \<Rightarrow> bool" where
  "ilike_opt pattern s = (case s of None \<Rightarrow> False | Some x \<Rightarrow> ilike pattern x)"

definition search_matches :: "string option \<Rightarrow> string option \<Rightarrow> AuditLogEntry \<Rightarrow> bool" where
  "search_matches actor_search search e \<longleftrightarrow>
     (truthy actor_search \<longrightarrow> ilike (''%'' @ the actor_search @ ''%'') (ale_actor e))
     \<and> (truthy search \<longrightarrow>
          (let pattern = ''%'' @ the search @ ''%'' in
           ilike pattern (ale_actor e) \<or> ilike pattern (ale_description e)
           \<or> ilike pattern (ale_event_subtype e) \<or> ilike_opt pattern (ale_tenant_slug e)
           \<or> ilike_opt pattern (ale_source_ip e)))"

definition list_entries ::
  "'p audit_platform_scheme \<Rightarrow> entry_filter \<Rightarrow> string option \<Rightarrow> string option \<Rightarrow> nat \<Rightarrow> nat \<Rightarrow>
   ('z audit_db_scheme, AuditLogEntryRead list \<times> nat) svc" where
  "list_entries pf f actor_search search page page_size =
     query_e (\<lambda>d.
       if \<not> filter_known pf f then Inl (LookupError ''enum'')
       else
         let found = filter (\<lambda>e. entry_matches pf f e \<and> search_matches actor_search search e) (audit_log_entries d)
         in Inr (map (\<lambda>e. entry_to_read e ''unverified'') (page_of page page_size (order_by_desc ale_sequence found)),
                 length found))"

section \<open>api/v1/endpoints/audit\_log.py\<close>

text \<open>A query timestamp with its offset, \<open>None\<close> when the client sent none.\<close>

type_synonym query_time = "datetime \<times> timedelta option"

definition ensure_timezone_aware :: "query_time option \<Rightarrow> string \<Rightarrow> ('d, datetime option) svc" where
  "ensure_timezone_aware value field_name =
     (case value of
        None \<Rightarrow> return_svc None
      | Some (wall, None) \<Rightarrow> raise_svc (HTTPException 422 (field_name @ '' must include timezone information''))
      | Some (wall, Some off) \<Rightarrow> return_svc (Some (wall - off)))"

record 'a Page =
  pg_items :: "'a list"
  pg_total :: nat
  pg_page :: nat
  pg_page_size :: nat

definition has_next :: "'a Page \<Rightarrow> bool" where
  "has_next p \<longleftrightarrow> pg_page p * pg_page_size p < pg_total p"

definition checked_window ::
  "query_time option \<Rightarrow> query_time option \<Rightarrow> ('d, datetime option \<times> datetime option) svc" where
  "checked_window from_time to_time =
     bind_svc (ensure_timezone_aware from_time ''from_time'')
     (\<lambda>f. bind_svc (ensure_timezone_aware to_time ''to_time'')
     (\<lambda>t. if (case (f, t) of (Some a, Some b) \<Rightarrow> b < a | _ \<Rightarrow> False)
        then raise_svc (HTTPException 400 ''from_time must be before or equal to to_time'')
        else return_svc (f, t)))"

definition read_audit_entries ::
  "'p audit_platform_scheme \<Rightarrow> Settings \<Rightarrow> datetime \<Rightarrow> string option \<Rightarrow>
   AuditSeverity option \<Rightarrow> AuditEventType option \<Rightarrow> string option \<Rightarrow> string option \<Rightarrow> string option \<Rightarrow>
   query_time option \<Rightarrow> query_time option \<Rightarrow> nat \<Rightarrow> nat \<Rightarrow> ('z audit_db_scheme, AuditLogEntryRead Page) svc" where
  "read_audit_entries pf st now cred severity event_type tenant_slug actor search from_time to_time page page_size =
     bind_svc (get_current_user (pf) st now cred)
     (\<lambda>_. validated (1 \<le> page \<and> 1 \<le> page_size \<and> page_size \<le> MAX_PAGE_SIZE st)
        (bind_svc (checked_window from_time to_time)
        (\<lambda>(f, t). bind_svc (list_entries pf
            \<lparr>ef_severity = map_option AuditSeverity_value severity,
             ef_event_type = map_option AuditEventType_value event_type,
             ef_tenant_slug = tenant_slug, ef_from_time = f, ef_to_time = t\<rparr> actor search page page_size)
        (\<lambda>(items, total). return_svc
           \<lparr>pg_items = items, pg_total = total, pg_page = page, pg_page_size = page_size\<rparr>))))"

definition create_audit_entry ::
  "'p audit_platform_scheme \<Rightarrow> Settings \<Rightarrow> datetime \<Rightarrow> string option \<Rightarrow> fresh \<Rightarrow> AuditLogEntryCreate \<Rightarrow>
   ('z audit_db_scheme, AuditLogEntryRead) svc" where
  "create_audit_entry pf st now cred fr payload =
     bind_svc (get_current_user (pf) st now cred)
     (\<lambda>current_user.
        let payload = (if alc_actor payload = [] then payload\<lparr>alc_actor := u_email current_user\<rparr> else payload) in
        bind_svc (append_entry pf fr payload)
        (\<lambda>entry. return_svc (entry_to_read entry ''unverified'')))"

definition read_chain_summary ::
  "'p audit_platform_scheme \<Rightarrow> Settings \<Rightarrow> datetime \<Rightarrow> string option \<Rightarrow> ('z audit_db_scheme, HashChainSummary) svc" where
  "read_chain_summary pf st now cred =
     bind_svc (get_current_user (pf) st now cred) (\<lambda>_. get_chain_summary)"

definition export_audit_entries ::
  "'p audit_platform_scheme \<Rightarrow> Settings \<Rightarrow> datetime \<Rightarrow> AuditSeverity option \<Rightarrow> AuditEventType option \<Rightarrow>
   string option \<Rightarrow> query_time option \<Rightarrow> query_time option \<Rightarrow> datetime \<Rightarrow> string option \<Rightarrow>
   ('z audit_db_scheme, AuditExportResponse) svc" where
  "export_audit_entries pf st now severity event_type tenant_slug from_time to_time now' cred =
     bind_svc (require_admin (pf) st now cred)
     (\<lambda>_. bind_svc (checked_window from_time to_time)
     (\<lambda>(f, t). export_entries pf now'
        \<lparr>ef_severity = map_option AuditSeverity_value severity,
         ef_event_type = map_option AuditEventType_value event_type,
         ef_tenant_slug = tenant_slug, ef_from_time = f, ef_to_time = t\<rparr>))"

definition read_integrity_status ::
  "'p audit_platform_scheme \<Rightarrow> Settings \<Rightarrow> datetime \<Rightarrow> string option \<Rightarrow> rat \<Rightarrow> datetime \<Rightarrow>
   ('z audit_db_scheme, IntegrityStatus) svc" where
  "read_integrity_status pf st now cred duration_ms now' =
     bind_svc (get_current_user (pf) st now cred)
     (\<lambda>_. get_integrity_status pf duration_ms now')"

definition read_audit_entry ::
  "'p audit_platform_scheme \<Rightarrow> Settings \<Rightarrow> datetime \<Rightarrow> string option \<Rightarrow> uuid \<Rightarrow>
   ('z audit_db_scheme, AuditLogEntryRead) svc" where
  "read_audit_entry pf st now cred audit_log_id =
     bind_svc (get_current_user (pf) st now cred) (\<lambda>_. get_entry audit_log_id)"

definition trigger_chain_verification ::
  "'p audit_platform_scheme \<Rightarrow> Settings \<Rightarrow> datetime \<Rightarrow> rat \<Rightarrow> string option \<Rightarrow>
   ('z audit_db_scheme, ChainVerificationResult) svc" where
  "trigger_chain_verification pf st now duration_ms cred =
     bind_svc (require_admin (pf) st now cred) (\<lambda>_. verify_chain pf duration_ms)"

section \<open>The specification of the chain\<close>

text \<open>
  What an auditor means by an intact chain, without the loop: every entry beside the hash of
  its predecessor (none for the first), and the verdict on each such pair.
\<close>

definition links :: "AuditLogEntry list \<Rightarrow> (string option \<times> AuditLogEntry) list" where
  "links es = zip (None # map (\<lambda>e. Some (ale_entry_hash e)) es) es"

definition broken :: "'p audit_platform_scheme \<Rightarrow> AuditLogEntry list \<Rightarrow> AuditLogEntry list" where
  "broken pf es = map snd (filter (\<lambda>(p, e). \<not> entry_ok pf p e) (links es))"

definition chain_ok :: "'p audit_platform_scheme \<Rightarrow> AuditLogEntry list \<Rightarrow> bool" where
  "chain_ok pf es \<longleftrightarrow> (\<forall>(p, e) \<in> set (links es). entry_ok pf p e)"


definition tail_hash :: "AuditLogEntry list \<Rightarrow> string option" where
  "tail_hash es = (if es = [] then None else Some (ale_entry_hash (last es)))"

definition links_from :: "string option \<Rightarrow> AuditLogEntry list \<Rightarrow> (string option \<times> AuditLogEntry) list" where
  "links_from p es = zip (p # map (\<lambda>e. Some (ale_entry_hash e)) es) es"

lemma links_from_simps [simp]:
  "links_from p [] = []" "links_from p (e # es) = (p, e) # links_from (Some (ale_entry_hash e)) es"
  by (simp_all add: links_from_def)

lemma links_from_None: "links es = links_from None es"
  by (simp add: links_def links_from_def)

lemma links_from_append:
  "links_from p (xs @ ys) = links_from p xs
     @ links_from (if xs = [] then p else Some (ale_entry_hash (last xs))) ys"
  by (induction xs arbitrary: p) simp_all

lemma links_append: "links (xs @ ys) = links xs @ links_from (tail_hash xs) ys"
  by (simp add: links_from_None links_from_append tail_hash_def)

lemma map_snd_links_from [simp]: "map snd (links_from p es) = es"
  by (induction es arbitrary: p) simp_all

lemma length_links_from [simp]: "length (links_from p es) = length es"
  by (metis length_map map_snd_links_from)

lemma chain_ok_append: "chain_ok pf (xs @ ys) \<longleftrightarrow> chain_ok pf xs \<and> (\<forall>(p, e) \<in> set (links_from (tail_hash xs) ys). entry_ok pf p e)"
  by (auto simp: chain_ok_def links_append)

lemma chain_ok_broken: "chain_ok pf es \<longleftrightarrow> broken pf es = []"
  by (auto simp: chain_ok_def broken_def filter_empty_conv)

lemma verify_walk_eq:
  "verify_walk pf v f b p es =
     (v + length (filter (\<lambda>(p, e). entry_ok pf p e) (links_from p es)),
      f + length (filter (\<lambda>(p, e). \<not> entry_ok pf p e) (links_from p es)),
      (case b of Some s \<Rightarrow> Some s
       | None \<Rightarrow> map_option (\<lambda>l. ale_sequence (snd l)) (find (\<lambda>(p, e). \<not> entry_ok pf p e) (links_from p es))))"
  by (induction es arbitrary: v f b p) (auto split: option.splits)

lemma find_eq_hd_filter: "find P xs = (case filter P xs of [] \<Rightarrow> None | x # _ \<Rightarrow> Some x)"
  by (induction xs) auto

lemma verify_walk_broken:
  "verify_walk pf 0 0 None None es =
     (length es - length (broken pf es), length (broken pf es), map_option ale_sequence (first_row (broken pf es)))"
proof -
  have "length (filter (\<lambda>(p, e). entry_ok pf p e) (links es)) + length (broken pf es) = length es"
    using sum_length_filter_compl [of "\<lambda>l. entry_ok pf (fst l) (snd l)" "links es"]
    by (simp add: broken_def links_from_None case_prod_beta')
  moreover have "map_option (\<lambda>l. ale_sequence (snd l)) (find (\<lambda>(p, e). \<not> entry_ok pf p e) (links es))
      = map_option ale_sequence (first_row (broken pf es))"
    by (simp add: find_eq_hd_filter broken_def first_row_def split: list.splits)
  ultimately show ?thesis
    by (simp add: verify_walk_eq links_from_None [symmetric]) (simp add: broken_def)
qed

text \<open>The order of the log: later rows have larger sequence numbers, so sorting leaves it alone.\<close>

definition log_sorted :: "'z audit_db_scheme \<Rightarrow> bool" where
  "log_sorted d \<longleftrightarrow> sorted_wrt (<) (map ale_sequence (audit_log_entries d))
     \<and> (\<forall>e \<in> set (audit_log_entries d). ale_sequence e < audit_next d)"

text \<open>
  The invariant of the log: ordered, keys and hashes unique, and no stored metadata that the
  redaction would still change.
\<close>

definition audit_inv :: "'z audit_db_scheme \<Rightarrow> bool" where
  "audit_inv d \<longleftrightarrow> log_sorted d \<and> distinct (map ale_id (audit_log_entries d))
     \<and> distinct (map ale_entry_hash (audit_log_entries d))
     \<and> (\<forall>e \<in> set (audit_log_entries d). sanitize_metadata (ale_metadata_json e) = ale_metadata_json e)"

lemma sort_log: "log_sorted d \<Longrightarrow> sort_key ale_sequence (audit_log_entries d) = audit_log_entries d"
  by (intro sort_key_id_if_sorted) (auto simp: log_sorted_def strict_sorted_iff)

lemma sort_log_desc:
  assumes "sorted_wrt (<) (map k es)"
  shows "order_by_desc k es = rev es"
  unfolding order_by_desc_def
proof (rule sort_key_inj_key_eq)
  show "mset es = mset (rev es)" by simp
  have "distinct (map k es)" using assms by (simp add: strict_sorted_iff)
  then show "inj_on (\<lambda>r. - k r) (set es)" by (auto simp: distinct_map inj_on_def)
  have "sorted (map k es)" using assms by (simp add: strict_sorted_iff)
  then show "sorted (map (\<lambda>r. - k r) (rev es))"
    by (simp add: sorted_wrt_map sorted_wrt_rev)
qed

lemma get_tail_last:
  "log_sorted d \<Longrightarrow> get_tail d = (if audit_log_entries d = [] then None else Some (last (audit_log_entries d)))"
  by (simp add: get_tail_def log_sorted_def sort_log_desc first_row_def rev_swap last_rev split: list.splits)

lemma tail_hash_get_tail:
  "log_sorted d \<Longrightarrow> map_option ale_entry_hash (get_tail d) = tail_hash (audit_log_entries d)"
  by (simp add: get_tail_last tail_hash_def)

section \<open>What an append does\<close>

definition ec_law :: "'p audit_platform_scheme \<Rightarrow> bool" where
  "ec_law pf \<longleftrightarrow> (\<forall>nonce digest. ec_verify pf (ec_sign pf nonce digest) digest)"

text \<open>The strings of the payload are the values of the members they are stored as.\<close>

definition enum_values :: "'p audit_platform_scheme \<Rightarrow> AuditLogEntryCreate \<Rightarrow> bool" where
  "enum_values pf payload \<longleftrightarrow>
     map_option AuditSeverity_value (coerce_severity pf (alc_severity payload)) = Some (alc_severity payload)
     \<and> map_option AuditEventType_value (coerce_event_type pf (alc_event_type payload)) = Some (alc_event_type payload)"

lemma verify_signed: "ec_law pf \<Longrightarrow> sign_hex_digest pf nonce h = Some sg \<Longrightarrow> verify_hex_digest pf h sg"
  by (auto simp: sign_hex_digest_def verify_hex_digest_def b64decode_b64encode ec_law_def)

lemma build_entry_Inr:
  assumes "build_entry pf fr seq prev payload = Inr e"
  shows "ale_sequence e = seq" "ale_prev_hash e = prev" "ale_id e = fr_id fr" "ale_tenant_id e = alc_tenant_id payload"
    "ale_metadata_json e = sanitize_metadata (alc_metadata_json payload)"
    "ale_entry_hash e = compute_entry_hash pf (fields_of_payload prev (fr_now fr) payload)"
    "ale_occurred_at e = fr_now fr" "ale_actor e = alc_actor payload" "ale_description e = alc_description payload"
    "ale_event_subtype e = alc_event_subtype payload"
    "coerce_severity pf (alc_severity payload) = Some (ale_severity e)"
    "coerce_event_type pf (alc_event_type payload) = Some (ale_event_type e)"
    "ale_tenant_slug e = alc_tenant_slug payload" "ale_source_ip e = alc_source_ip payload"
    "sign_hex_digest pf (fr_nonce fr) (ale_entry_hash e) = Some (ale_signature e)"
  using assms by (auto simp: build_entry_def Let_def split: option.splits)

lemma fields_agree:
  assumes "build_entry pf fr seq prev payload = Inr e" and "enum_values pf payload"
  shows "fields_of_entry prev e = fields_of_payload prev (fr_now fr) payload"
  using assms(2) build_entry_Inr [OF assms(1)]
  by (simp add: fields_of_entry_def fields_of_payload_def enum_values_def)

lemma build_entry_ok:
  assumes "ec_law pf" and "build_entry pf fr seq prev payload = Inr e" and "enum_values pf payload"
  shows "entry_ok pf prev e"
  using verify_signed [OF assms(1) build_entry_Inr(15) [OF assms(2)]] build_entry_Inr(2,6) [OF assms(2)]
    fields_agree [OF assms(2,3)]
  by (simp add: entry_ok_def)

lemma insert_entry_Inr:
  "insert_entry e d = Inr d' \<longleftrightarrow> columns_ok e
     \<and> (\<forall>t. ale_tenant_id e = Some t \<longrightarrow> t \<in> t_id ` set (tenants d))
     \<and> ale_entry_hash e \<notin> ale_entry_hash ` set (audit_log_entries d) \<and> ale_id e \<notin> ale_id ` set (audit_log_entries d)
     \<and> d' = d\<lparr>audit_log_entries := audit_log_entries d @ [e], audit_next := ale_sequence e + 1\<rparr>"
  by (auto simp: insert_entry_def insert_row_def split: option.splits)

lemma insert_entry_inv:
  assumes "audit_inv d" and "insert_entry e d = Inr d'" and "audit_next d \<le> ale_sequence e"
    and "sanitize_metadata (ale_metadata_json e) = ale_metadata_json e"
  shows "audit_inv d'"
  using assms
  by (auto simp: audit_inv_def log_sorted_def insert_entry_Inr sorted_wrt_append
      intro: less_le_trans less_trans)

lemma append_in_transaction_run:
  assumes "append_entry_in_transaction pf fr payload s = (Inr e, s')"
  shows "build_entry pf fr (audit_next (working s) + int (fr_skip fr))
      (map_option ale_entry_hash (get_tail (working s))) payload = Inr e"
    and "insert_entry e (working s) = Inr (working s')" and "committed s' = committed s"
  using assms
  by (auto simp: append_entry_in_transaction_def bind_svc_Inr query_def query_e_def flush_def return_svc_def
      Let_def split: sum.splits)

lemma append_in_transaction_inv:
  assumes "audit_inv (working s)" and "append_entry_in_transaction pf fr payload s = (Inr e, s')"
  shows "audit_inv (working s')"
proof -
  note r = append_in_transaction_run [OF assms(2)]
  show ?thesis
    by (rule insert_entry_inv [OF assms(1) r(2)]) (simp_all add: build_entry_Inr [OF r(1)] sanitize_idem)
qed

lemma append_in_transaction_chain:
  assumes "ec_law pf" and "audit_inv (working s)" and "enum_values pf payload"
    and "append_entry_in_transaction pf fr payload s = (Inr e, s')"
  shows "audit_log_entries (working s') = audit_log_entries (working s) @ [e]"
    and "chain_ok pf (audit_log_entries (working s)) \<Longrightarrow> chain_ok pf (audit_log_entries (working s'))"
proof -
  note r = append_in_transaction_run [OF assms(4)]
  show es: "audit_log_entries (working s') = audit_log_entries (working s) @ [e]"
    using r(2) by (simp add: insert_entry_Inr)
  have "log_sorted (working s)" using assms(2) by (simp add: audit_inv_def)
  from build_entry_ok [OF assms(1) r(1) assms(3)]
  show "chain_ok pf (audit_log_entries (working s)) \<Longrightarrow> chain_ok pf (audit_log_entries (working s'))"
    by (simp add: es chain_ok_append tail_hash_get_tail [OF \<open>log_sorted (working s)\<close>])
qed

lemma keeps_audit_append [intro]: "keeps audit_inv (append_entry_in_transaction pf fr payload)"
proof -
  have "audit_inv (working s')" if "append_entry_in_transaction pf fr payload s = (r, s')" "audit_inv (working s)" for r s s'
  proof (cases r)
    case (Inr e)
    with that show ?thesis by (blast intro: append_in_transaction_inv)
  next
    case (Inl err)
    with that show ?thesis
      by (auto simp: append_entry_in_transaction_def svc_simps Let_def split: sum.splits)
  qed
  moreover have "uncommitting (append_entry_in_transaction pf fr payload)"
    unfolding append_entry_in_transaction_def Let_def by (intro uncommitting_bind uncommitting_basic)
  ultimately show ?thesis unfolding keeps_def uncommitting_def by (metis prod.collapse)
qed

lemma uncommitting_append [intro, simp]: "uncommitting (append_entry_in_transaction pf fr payload)"
  unfolding append_entry_in_transaction_def Let_def by (intro uncommitting_bind uncommitting_basic)

lemma append_entry_run:
  assumes "run_request (append_entry pf fr payload) d = (Inr e, d')"
  shows "append_entry_in_transaction pf fr payload \<lparr>committed = d, working = d\<rparr>
    = (Inr e, \<lparr>committed = d, working = d'\<rparr>)"
proof -
  obtain s where s: "append_entry_in_transaction pf fr payload \<lparr>committed = d, working = d\<rparr> = (Inr e, s)"
    and d': "d' = working s"
    using assms by (auto simp: append_entry_def run_request_def bind_svc_def commit_def return_svc_def
        split: prod.splits sum.splits)
  from append_in_transaction_run(3) [OF s] d' s show ?thesis by (cases s) simp
qed

section \<open>What a hash commits to\<close>

lemma utf8_char_cases:
  "(code c < 128 \<and> utf8_char c = [c])
   \<or> (128 \<le> code c \<and> (\<exists>b1 b2. utf8_char c = [b1, b2] \<and> code b1 = 192 + code c div 64 \<and> code b2 = 128 + code c mod 64))"
proof -
  have "code c div 64 \<le> 255 div 64" using code_less [of c] by (intro div_le_mono) linarith
  then have "192 + code c div 64 < 256" "128 + code c mod 64 < 256" by auto
  then show ?thesis by (auto simp: utf8_char_def code_def of_char_of)
qed

lemma utf8_encode_inj: "utf8_encode s = utf8_encode t \<Longrightarrow> s = t"
proof (induction s arbitrary: t)
  case Nil
  then show ?case by (cases t) (auto simp: utf8_encode_def utf8_char_def split: if_splits)
next
  case (Cons c s)
  show ?case
  proof (cases t)
    case Nil
    with Cons.prems show ?thesis by (auto simp: utf8_encode_def utf8_char_def split: if_splits)
  next
    case (Cons d t')
    from Cons.prems \<open>t = d # t'\<close> have eq: "utf8_char c @ utf8_encode s = utf8_char d @ utf8_encode t'"
      by (simp add: utf8_encode_def)
    have "code c = code d \<and> utf8_encode s = utf8_encode t'"
      using utf8_char_cases [of c] utf8_char_cases [of d] eq
      by (elim disjE conjE exE) (auto, metis div_mult_mod_eq)
    with Cons.IH \<open>t = d # t'\<close> show ?thesis by (simp add: code_inj)
  qed
qed

lemma hexlify_inj: "hexlify a = hexlify b \<Longrightarrow> a = b"
  by (metis fromhex_hexlify option.inject)

text \<open>
  Well-formed hash fields: an instant Python can represent and metadata that is a JSON value.
  Two sets of fields are the same up to the order of the keys in the metadata when their
  normal forms agree.
\<close>

definition wf_fields :: "hash_fields \<Rightarrow> bool" where
  "wf_fields f \<longleftrightarrow> valid_datetime (hf_occurred_at f) \<and> wf_json (hf_metadata_json f)"

definition norm_fields :: "hash_fields \<Rightarrow> hash_fields" where
  "norm_fields f = f\<lparr>hf_metadata_json := canon (hf_metadata_json f)\<rparr>"

lemma wf_json_opt [simp]: "wf_json (json_opt s)"
  by (simp add: json_opt_def split: option.splits)

lemma wf_payload: "wf_fields f \<Longrightarrow> wf_json (payload_json f)"
  by (simp add: payload_json_def wf_fields_def)

lemma json_opt_inj [simp]: "canon (json_opt s) = canon (json_opt t) \<longleftrightarrow> s = t"
  by (auto simp: json_opt_def split: option.splits)

lemma map_of_sorted:
  assumes "distinct (map fst xs)"
  shows "map_of (sort_key fst xs) k = map_of xs k"
proof -
  have "map_of (sort_key fst xs) k = Some v \<longleftrightarrow> map_of xs k = Some v" for v
    using assms by (simp add: map_of_eq_Some_iff distinct_map_sort_key)
  then show ?thesis by (metis not_Some_eq)
qed

lemma canon_items:
  assumes "canon (JDict xs) = canon (JDict ys)" and "distinct (map fst xs)" and "distinct (map fst ys)"
  shows "map_option canon (map_of xs k) = map_option canon (map_of ys k)"
proof -
  let ?c = "map (\<lambda>kv. (fst kv, canon (snd kv)))"
  have s: "sort_key fst (?c xs) = sort_key fst (?c ys)" using assms(1) by simp
  have d: "distinct (map fst (?c xs))" "distinct (map fst (?c ys))" using assms(2,3) by (simp_all add: comp_def)
  have "map_of (?c xs) k = map_of (sort_key fst (?c xs)) k" by (rule map_of_sorted [OF d(1), symmetric])
  also have "\<dots> = map_of (?c ys) k" unfolding s by (rule map_of_sorted [OF d(2)])
  finally have "map_of (?c xs) k = map_of (?c ys) k" .
  moreover have "map_of (?c zs) k = map_option canon (map_of zs k)" for zs by (induction zs) auto
  ultimately show ?thesis by simp
qed

lemma payload_inj:
  assumes "wf_fields f" "wf_fields g" "canonical_payload f = canonical_payload g"
  shows "norm_fields f = norm_fields g"
proof -
  have "dumps (payload_json f) = dumps (payload_json g)"
    using assms(3) unfolding canonical_payload_def by (rule utf8_encode_inj)
  then have c: "canon (payload_json f) = canon (payload_json g)"
    using assms(1,2) by (intro dumps_inj wf_payload)
  note item = canon_items [OF c [unfolded payload_json_def]]
  have iso: "isoformat (hf_occurred_at f) = isoformat (hf_occurred_at g)" using item [of "''occurred_at''"] by simp
  have "hf_occurred_at f = hf_occurred_at g"
    using isoformat_inj [OF _ _ iso] assms(1,2) by (simp add: wf_fields_def)
  moreover have "hf_prev_hash f = hf_prev_hash g" using item [of "''prev_hash''"] by simp
  moreover have "hf_severity f = hf_severity g" using item [of "''severity''"] by simp
  moreover have "hf_event_type f = hf_event_type g" using item [of "''event_type''"] by simp
  moreover have "hf_event_subtype f = hf_event_subtype g" using item [of "''event_subtype''"] by simp
  moreover have "hf_actor f = hf_actor g" using item [of "''actor''"] by simp
  moreover have "hf_description f = hf_description g" using item [of "''description''"] by simp
  moreover have "hf_tenant_slug f = hf_tenant_slug g" using item [of "''tenant_slug''"] by simp
  moreover have "hf_source_ip f = hf_source_ip g" using item [of "''source_ip''"] by simp
  moreover have "canon (hf_metadata_json f) = canon (hf_metadata_json g)" using item [of "''metadata_json''"] by simp
  ultimately show ?thesis by (simp add: norm_fields_def)
qed

text \<open>
  SHA-256 has no collision among the payloads at hand. This is what the tamper evidence of
  the log rests on; it speaks of finitely many given payloads, so the real function can
  satisfy it.
\<close>

definition no_collision :: "'p platform_scheme \<Rightarrow> hash_fields set \<Rightarrow> bool" where
  "no_collision pf F \<longleftrightarrow> inj_on (sha256 pf) (canonical_payload ` F)"

lemma hash_inj:
  assumes "no_collision pf F" "f \<in> F" "g \<in> F" "wf_fields f" "wf_fields g"
    and "compute_entry_hash pf f = compute_entry_hash pf g"
  shows "norm_fields f = norm_fields g"
proof -
  have "sha256 pf (canonical_payload f) = sha256 pf (canonical_payload g)"
    using assms(6) unfolding compute_entry_hash_def by (rule hexlify_inj)
  with assms(1-3) have "canonical_payload f = canonical_payload g"
    unfolding no_collision_def by (meson imageI inj_onD)
  with assms(4,5) show ?thesis by (rule payload_inj)
qed

text \<open>The hashed content of an entry, and all hash inputs of a log.\<close>

definition content :: "AuditLogEntry \<Rightarrow> hash_fields" where
  "content e = norm_fields (fields_of_entry (ale_prev_hash e) e)"

definition hash_inputs :: "AuditLogEntry list \<Rightarrow> hash_fields set" where
  "hash_inputs es = (\<lambda>(p, e). fields_of_entry p e) ` set (links es)"

definition wf_entry :: "AuditLogEntry \<Rightarrow> bool" where
  "wf_entry e \<longleftrightarrow> valid_datetime (ale_occurred_at e) \<and> wf_json (ale_metadata_json e)"

lemma wf_fields_of_entry [simp]: "wf_fields (fields_of_entry p e) \<longleftrightarrow> wf_entry e"
  by (simp add: wf_fields_def fields_of_entry_def wf_entry_def)

lemma hash_inputs_append_one: "hash_inputs (xs @ [e]) = insert (fields_of_entry (tail_hash xs) e) (hash_inputs xs)"
  by (simp add: hash_inputs_def links_append)

lemma no_collision_subset: "no_collision pf F \<Longrightarrow> G \<subseteq> F \<Longrightarrow> no_collision pf G"
  unfolding no_collision_def by (meson image_mono inj_on_subset)

lemma chain_commits:
  assumes "chain_ok pf es" "chain_ok pf es'" "tail_hash es = tail_hash es'"
    and "list_all wf_entry es" "list_all wf_entry es'" and "no_collision pf (hash_inputs es \<union> hash_inputs es')"
  shows "map content es = map content es'"
  using assms
proof (induction es arbitrary: es' rule: rev_induct)
  case Nil
  then show ?case by (simp add: tail_hash_def split: if_splits)
next
  case (snoc e xs)
  then obtain ys e' where es': "es' = ys @ [e']"
    by (cases es' rule: rev_cases) (auto simp: tail_hash_def)
  let ?f = "fields_of_entry (tail_hash xs) e" and ?g = "fields_of_entry (tail_hash ys) e'"
  have ok: "entry_ok pf (tail_hash xs) e" "entry_ok pf (tail_hash ys) e'" "chain_ok pf xs" "chain_ok pf ys"
    using snoc.prems(1,2) by (simp_all add: es' chain_ok_append)
  have h: "compute_entry_hash pf ?f = compute_entry_hash pf ?g"
    using ok(1,2) snoc.prems(3) by (simp add: entry_ok_def Let_def tail_hash_def es')
  have n: "norm_fields ?f = norm_fields ?g"
    by (rule hash_inj [OF snoc.prems(6) _ _ _ _ h])
       (use snoc.prems(4,5) in \<open>simp_all add: es' hash_inputs_append_one\<close>)
  then have "tail_hash xs = tail_hash ys"
    by (metis fields_of_entry_def hash_fields.select_convs(1) hash_fields.surjective hash_fields.update_convs(10) norm_fields_def)
  moreover have "no_collision pf (hash_inputs xs \<union> hash_inputs ys)"
    by (rule no_collision_subset [OF snoc.prems(6)]) (auto simp: es' hash_inputs_append_one)
  ultimately have "map content xs = map content ys"
    using snoc.IH [of ys] ok(3,4) snoc.prems(4,5) by (simp add: es')
  moreover have "content e = content e'"
    using ok(1,2) n by (simp add: content_def entry_ok_def Let_def)
  ultimately show ?case by (simp add: es')
qed

lemma verify_chain_run:
  "run_request (verify_chain pf t) d = (Inr
     (let es = sort_key ale_sequence (audit_log_entries d) in
      \<lparr>cvr_verified_count = length es - length (broken pf es), cvr_failed_count = length (broken pf es),
       cvr_is_valid = chain_ok pf es, cvr_first_break_sequence = map_option ale_sequence (first_row (broken pf es)),
       cvr_duration_ms = t, cvr_root_hash = tail_hash es\<rparr>), d)"
  by (simp add: verify_chain_def svc_simps verify_walk_broken Let_def chain_ok_broken tail_hash_def)

text \<open>
  When an append goes through: both enumeration strings are known, every text fits its column,
  the tenant exists, and hash and identifier are new.
\<close>

lemma build_entry_succeeds:
  assumes "coerce_severity pf (alc_severity p) = Some sev" and "coerce_event_type pf (alc_event_type p) = Some et"
  obtains e where "build_entry pf fr seq prev p = Inr e" "ale_severity e = sev" "ale_event_type e = et"
    "ale_signing_key_id e = get_signing_key_id pf"
  using assms
  by (auto simp: build_entry_def Let_def sign_hex_digest_def compute_entry_hash_def fromhex_hexlify)

lemma append_entry_succeeds:
  assumes "coerce_severity pf (alc_severity p) = Some sev" and "coerce_event_type pf (alc_event_type p) = Some et"
    and cols: "\<And>e. build_entry pf fr (audit_next d + int (fr_skip fr)) (map_option ale_entry_hash (get_tail d)) p = Inr e
      \<Longrightarrow> columns_ok e"
    and "\<And>t. alc_tenant_id p = Some t \<Longrightarrow> t \<in> t_id ` set (tenants d)"
    and "compute_entry_hash pf (fields_of_payload (map_option ale_entry_hash (get_tail d)) (fr_now fr) p)
      \<notin> ale_entry_hash ` set (audit_log_entries d)"
    and "fr_id fr \<notin> ale_id ` set (audit_log_entries d)"
  obtains e d' where "run_request (append_entry pf fr p) d = (Inr e, d')"
proof -
  let ?seq = "audit_next d + int (fr_skip fr)" and ?prev = "map_option ale_entry_hash (get_tail d)"
  obtain e where e: "build_entry pf fr ?seq ?prev p = Inr e" using build_entry_succeeds [OF assms(1,2)] by metis
  note f = build_entry_Inr [OF e]
  have "\<exists>d'. insert_entry e d = Inr d'"
    using cols [OF e] assms(4-6) by (simp add: insert_entry_Inr f)
  with e that show thesis
    by (auto simp: append_entry_def append_entry_in_transaction_def svc_simps Let_def)
qed

section \<open>A concrete log\<close>

definition demo_coerce_severity :: "string \<Rightarrow> AuditSeverity option" where
  "demo_coerce_severity s =
     (if s \<in> {''critical'', ''CRITICAL''} then Some AuditSeverity.CRITICAL
      else if s \<in> {''warning'', ''WARNING''} then Some AuditSeverity.WARNING
      else if s \<in> {''info'', ''INFO''} then Some AuditSeverity.INFO else None)"

definition demo_coerce_event_type :: "string \<Rightarrow> AuditEventType option" where
  "demo_coerce_event_type s =
     (if s = ''config_change'' then Some AuditEventType.CONFIG_CHANGE
      else if s = ''key_operation'' then Some AuditEventType.KEY_OPERATION
      else if s = ''anomaly_detected'' then Some AuditEventType.ANOMALY_DETECTED
      else if s = ''auth_event'' then Some AuditEventType.AUTH_EVENT else None)"

definition demo_audit_platform :: audit_platform where
  "demo_audit_platform = platform.extend demo_platform
     (audit_platform.fields (\<lambda>nonce digest. digest) (\<lambda>sg digest. sg = digest) []
        demo_coerce_severity demo_coerce_event_type)"

definition demo_tenancy_db :: tenancy_db where
  "demo_tenancy_db = rbac_db.extend demo_rbac_db (tenancy_db.fields
     [\<lparr>t_id = 5, t_slug = ''acme'', t_org_id = ''ORG-1'', t_display_name = ''Acme'', t_tier = TenantTier.PREMIUM,
       t_isolation_mode = IsolationMode.STRICT, t_status = TenantStatus.ACTIVE, t_region = ''eu'',
       t_db_schema_name = ''acme'', t_db_schema_valid = True, t_network_cidr = None, t_network_vpc = None,
       t_network_shared = False, t_dek_label = None, t_encryption_valid = True, t_events_per_second = 0\<rparr>] [] [] [] [] [])"

definition demo_audit_db :: audit_db where
  "demo_audit_db = tenancy_db.extend demo_tenancy_db (audit_db.fields [] 1)"

definition demo_fresh :: "nat \<Rightarrow> fresh" where
  "demo_fresh n = \<lparr>fr_id = 200 + n, fr_nonce = n, fr_now = - 62135596800000000 + 1000000 * int n, fr_skip = 0\<rparr>"

definition demo_payload :: AuditLogEntryCreate where
  "demo_payload = \<lparr>alc_severity = ''info'', alc_event_type = ''auth_event'', alc_event_subtype = ''login'',
     alc_actor = ''admin@nexus'', alc_description = ''ok'', alc_tenant_id = Some 5, alc_tenant_slug = None,
     alc_source_ip = None, alc_metadata_json = JDict [(''Token'', JStr ''abc''), (''n'', JInt 1)]\<rparr>"

lemma demo_ec_law: "ec_law demo_audit_platform"
  by (simp add: ec_law_def demo_audit_platform_def platform.defs audit_platform.defs)

lemma demo_audit_inv: "audit_inv demo_audit_db"
  by (simp add: audit_inv_def log_sorted_def demo_audit_db_def tenancy_db.defs audit_db.defs)

lemma demo_enum_values: "enum_values demo_audit_platform demo_payload"
  by code_simp

text \<open>
  The same platform with another digest: any one-byte function. The metadata of the payload may
  be any, for instance with its keys in another order.
\<close>

definition demo_with :: "(bytes \<Rightarrow> bytes) \<Rightarrow> audit_platform" where
  "demo_with f = demo_audit_platform\<lparr>sha256 := f\<rparr>"

definition demo_payload_with :: "json \<Rightarrow> AuditLogEntryCreate" where
  "demo_payload_with m = demo_payload\<lparr>alc_metadata_json := m\<rparr>"

lemma demo_payload_same: "demo_payload_with (alc_metadata_json demo_payload) = demo_payload"
  by (simp add: demo_payload_with_def)

lemma demo_platform_same: "demo_with (sha256 demo_audit_platform) = demo_audit_platform"
  by (simp add: demo_with_def)

lemma demo_coercions:
  "coerce_severity (demo_with f) (alc_severity (demo_payload_with m)) = Some AuditSeverity.INFO"
  "coerce_event_type (demo_with f) (alc_event_type (demo_payload_with m)) = Some AuditEventType.AUTH_EVENT"
proof -
  have "coerce_severity demo_audit_platform (alc_severity demo_payload) = Some AuditSeverity.INFO"
    "coerce_event_type demo_audit_platform (alc_event_type demo_payload) = Some AuditEventType.AUTH_EVENT" by code_simp+
  then show "coerce_severity (demo_with f) (alc_severity (demo_payload_with m)) = Some AuditSeverity.INFO"
    "coerce_event_type (demo_with f) (alc_event_type (demo_payload_with m)) = Some AuditEventType.AUTH_EVENT"
    by (simp_all add: demo_with_def demo_payload_with_def)
qed

lemma demo_enum_values_with: "enum_values (demo_with f) (demo_payload_with m)"
  unfolding enum_values_def demo_coercions by (simp add: demo_payload_with_def demo_payload_def)

lemma demo_ec_law_with: "ec_law (demo_with f)"
  using demo_ec_law by (simp add: ec_law_def demo_with_def)

definition demo_payload_as :: "string \<Rightarrow> json \<Rightarrow> AuditLogEntryCreate" where
  "demo_payload_as sev m = (demo_payload_with m)\<lparr>alc_severity := sev\<rparr>"

lemma demo_payload_as_info: "demo_payload_as ''info'' m = demo_payload_with m"
  by (simp add: demo_payload_as_def demo_payload_with_def demo_payload_def)

lemma demo_columns_ok_as:
  assumes "build_entry (demo_with f) fr seq prev (demo_payload_as sev m) = Inr e"
    and "\<And>b. length (f b) = 1" and "fits_opt 64 prev"
  shows "columns_ok e"
proof -
  have "ale_signing_key_id e = get_signing_key_id (demo_with f)"
    using assms(1) by (auto simp: build_entry_def Let_def split: option.splits)
  then have "fits 60 (ale_signing_key_id e)"
    by (simp add: get_signing_key_id_def fits_def)
  moreover have "fits 64 (compute_entry_hash (demo_with f) g)" for g
    using assms(2) [of "canonical_payload g"]
    by (cases "f (canonical_payload g)") (auto simp: fits_def compute_entry_hash_def demo_with_def hexlify_def hex2_def)
  ultimately show ?thesis
    using build_entry_Inr [OF assms(1)] assms(3)
    by (simp add: columns_ok_def demo_payload_as_def demo_payload_with_def demo_payload_def fits_def fits_opt_def text_ok_def)
qed

lemmas demo_columns_ok = demo_columns_ok_as [where sev = "''info''", unfolded demo_payload_as_info]

lemma demo_tenants [simp]: "t_id ` set (tenants demo_audit_db) = {5}"
  by (simp add: demo_audit_db_def demo_tenancy_db_def rbac_db.defs tenancy_db.defs audit_db.defs)

lemma demo_no_entries [simp]: "audit_log_entries demo_audit_db = []"
  by (simp add: demo_audit_db_def tenancy_db.defs audit_db.defs)

lemma demo_tail: "map_option ale_entry_hash (get_tail demo_audit_db) = None"
  by (simp add: get_tail_def order_by_desc_def first_row_def)

lemma demo_insert:
  assumes "build_entry (demo_with f) fr seq prev (demo_payload_with m) = Inr e"
    and "\<And>b. length (f b) = 1" and "fits_opt 64 prev" and "5 \<in> t_id ` set (tenants d)"
    and "ale_entry_hash e \<notin> ale_entry_hash ` set (audit_log_entries d)" and "fr_id fr \<notin> ale_id ` set (audit_log_entries d)"
  shows "insert_entry e d = Inr (d\<lparr>audit_log_entries := audit_log_entries d @ [e], audit_next := ale_sequence e + 1\<rparr>)"
  using demo_columns_ok [OF assms(1-3)] assms(4-6) build_entry_Inr [OF assms(1)]
  by (simp add: insert_entry_Inr demo_payload_with_def demo_payload_def)

lemma demo_append_with:
  assumes "\<And>b. length (f b) = 1"
  obtains e d' where "run_request (append_entry (demo_with f) (demo_fresh n) (demo_payload_with m)) demo_audit_db = (Inr e, d')"
proof (rule append_entry_succeeds [where pf = "demo_with f" and p = "demo_payload_with m" and fr = "demo_fresh n"
      and d = demo_audit_db, OF demo_coercions])
  fix e
  assume "build_entry (demo_with f) (demo_fresh n) (audit_next demo_audit_db + int (fr_skip (demo_fresh n)))
      (map_option ale_entry_hash (get_tail demo_audit_db)) (demo_payload_with m) = Inr e"
  then show "columns_ok e" by (rule demo_columns_ok) (simp_all add: assms demo_tail fits_opt_def)
qed (simp_all add: demo_payload_with_def demo_payload_def)

lemma demo_digest_length: "length (sha256 demo_audit_platform b) = 1"
  by (simp add: demo_audit_platform_def demo_platform_def platform.defs demo_digest_def)

lemma demo_append1:
  obtains e d' where "run_request (append_entry demo_audit_platform (demo_fresh n) demo_payload) demo_audit_db = (Inr e, d')"
  by (rule demo_append_with [where f = "sha256 demo_audit_platform" and n = n
        and m = "alc_metadata_json demo_payload", OF demo_digest_length])
     (simp add: demo_payload_same demo_platform_same)

section \<open>Interleaved requests\<close>

text \<open>
  An append reads the tail in one statement and inserts in a later one; nothing locks the
  log in between, so requests of several clients interleave at that point. A state holds the
  database and, for each client that has read and not yet written, the tail hash it saw.
\<close>

record log_state =
  ls_db :: audit_db
  ls_seen :: "nat \<Rightarrow> string option option"

inductive log_step :: "'p audit_platform_scheme \<Rightarrow> log_state \<Rightarrow> log_state \<Rightarrow> bool"
  for pf :: "'p audit_platform_scheme" where
  read_tail: "log_step pf s (s\<lparr>ls_seen := (ls_seen s)(c := Some (map_option ale_entry_hash (get_tail (ls_db s))))\<rparr>)"
| write_entry: "ls_seen s c = Some prev \<Longrightarrow>
    build_entry pf fr (audit_next (ls_db s) + int (fr_skip fr)) prev payload = Inr e \<Longrightarrow>
    insert_entry e (ls_db s) = Inr d' \<Longrightarrow>
    log_step pf s (s\<lparr>ls_db := d', ls_seen := (ls_seen s)(c := None)\<rparr>)"

inductive log_steps :: "'p audit_platform_scheme \<Rightarrow> log_state \<Rightarrow> log_state \<Rightarrow> bool"
  for pf :: "'p audit_platform_scheme" where
  log_refl: "log_steps pf s s"
| log_more: "log_steps pf s s' \<Longrightarrow> log_step pf s' s'' \<Longrightarrow> log_steps pf s s''"

inductive_cases log_stepE: "log_step pf s s'"

text \<open>Whatever the interleaving, the rows stay ordered, unique and redacted.\<close>

lemma log_step_inv: "log_step pf s s' \<Longrightarrow> audit_inv (ls_db s) \<Longrightarrow> audit_inv (ls_db s')"
proof (induction rule: log_step.induct)
  case (write_entry s c prev fr payload e d')
  note f = build_entry_Inr [OF write_entry(2)]
  have "audit_inv d'"
    by (rule insert_entry_inv [OF write_entry(4,3)]) (simp_all add: f sanitize_idem)
  then show ?case by simp
qed simp

lemma log_steps_inv: "log_steps pf s s' \<Longrightarrow> audit_inv (ls_db s) \<Longrightarrow> audit_inv (ls_db s')"
  by (induction rule: log_steps.induct) (auto intro: log_step_inv)

lemma log_steps_extend:
  "log_steps pf s s' \<Longrightarrow> \<exists>es. audit_log_entries (ls_db s') = audit_log_entries (ls_db s) @ es"
proof (induction rule: log_steps.induct)
  case (log_more s s' s'')
  from log_more(2) have "\<exists>es. audit_log_entries (ls_db s'') = audit_log_entries (ls_db s') @ es"
    by (cases rule: log_step.cases) (auto simp: insert_entry_Inr)
  with log_more(3) show ?case by auto
qed simp

text \<open>An entry chained to anything but the current tail breaks the chain.\<close>

lemma stale_entry_broken:
  assumes "ale_prev_hash e \<noteq> tail_hash es"
  shows "broken pf (es @ [e]) = broken pf es @ [e]"
  using assms by (simp add: broken_def links_append entry_ok_def Let_def)

text \<open>Requests that run one after the other.\<close>

inductive appended :: "'p audit_platform_scheme \<Rightarrow> 'z audit_db_scheme \<Rightarrow> 'z audit_db_scheme \<Rightarrow> bool"
  for pf :: "'p audit_platform_scheme" where
  appended_none: "appended pf d d"
| appended_one: "appended pf d d' \<Longrightarrow> enum_values pf payload \<Longrightarrow>
    appended pf d (snd (run_request (append_entry pf fr payload) d'))"

lemma append_entry_error:
  assumes "run_request (append_entry pf fr payload) d = (Inl err, d')"
  shows "d' = d"
  using assms atomic_request [of "append_entry_in_transaction pf fr payload" "\<lambda>e. e" d err]
  by (simp add: append_entry_def)

lemma append_entry_chain:
  assumes "ec_law pf" "audit_inv d" "enum_values pf payload"
    and "run_request (append_entry pf fr payload) d = (Inr e, d')"
  shows "audit_log_entries d' = audit_log_entries d @ [e]" "audit_inv d'"
    "chain_ok pf (audit_log_entries d) \<Longrightarrow> chain_ok pf (audit_log_entries d')"
    "ale_prev_hash e = tail_hash (audit_log_entries d)"
proof -
  note r = append_entry_run [OF assms(4)]
  show "audit_log_entries d' = audit_log_entries d @ [e]"
    "chain_ok pf (audit_log_entries d) \<Longrightarrow> chain_ok pf (audit_log_entries d')"
    using append_in_transaction_chain [OF assms(1) _ assms(3) r] assms(2) by simp_all
  show "audit_inv d'" using append_in_transaction_inv [OF _ r] assms(2) by simp
  have "log_sorted d" using assms(2) by (simp add: audit_inv_def)
  with build_entry_Inr(2) [OF append_in_transaction_run(1) [OF r]]
  show "ale_prev_hash e = tail_hash (audit_log_entries d)" by (simp add: tail_hash_get_tail)
qed

lemma appended_chain:
  "appended pf d d' \<Longrightarrow> ec_law pf \<Longrightarrow> audit_inv d \<Longrightarrow> chain_ok pf (audit_log_entries d) \<Longrightarrow>
   audit_inv d' \<and> chain_ok pf (audit_log_entries d')"
proof (induction rule: appended.induct)
  case (appended_one d d' payload fr)
  then show ?case
    by (cases "run_request (append_entry pf fr payload) d'", cases "fst (run_request (append_entry pf fr payload) d')")
       (auto dest: append_entry_error append_entry_chain)
qed simp

lemma verify_sorted:
  assumes "log_sorted d"
  shows "run_request (verify_chain pf t) d = (Inr
     \<lparr>cvr_verified_count = length (audit_log_entries d) - length (broken pf (audit_log_entries d)),
      cvr_failed_count = length (broken pf (audit_log_entries d)), cvr_is_valid = chain_ok pf (audit_log_entries d),
      cvr_first_break_sequence = map_option ale_sequence (first_row (broken pf (audit_log_entries d))),
      cvr_duration_ms = t, cvr_root_hash = tail_hash (audit_log_entries d)\<rparr>, d)"
  by (simp add: verify_chain_run sort_log [OF assms] Let_def)

lemma broken_append: "broken pf (xs @ ys) = broken pf xs
    @ map snd (filter (\<lambda>(p, e). \<not> entry_ok pf p e) (links_from (tail_hash xs) ys))"
  by (simp add: broken_def links_append)

text \<open>A row that is the first one broken stays so, whatever is appended behind it.\<close>

lemma verify_stays_broken:
  assumes "log_sorted d" and "audit_log_entries d = xs @ es" and "broken pf xs = e # bs"
  shows "\<exists>r. fst (run_request (verify_chain pf t) d) = Inr r \<and> \<not> cvr_is_valid r
    \<and> cvr_first_break_sequence r = Some (ale_sequence e)"
  using assms by (simp add: verify_sorted chain_ok_broken broken_append first_row_def)

text \<open>Replacing or removing one row of an intact chain: every other row still stands.\<close>

lemma broken_changed:
  assumes "chain_ok pf (xs @ e # ys)" and "ale_entry_hash e' = ale_entry_hash e"
    and "\<not> entry_ok pf (tail_hash xs) e'"
  shows "broken pf (xs @ e' # ys) = [e']"
  using assms by (simp add: chain_ok_broken broken_append split: if_splits)

lemma broken_removed:
  assumes "chain_ok pf (xs @ e # e2 # ys)" and "distinct (map ale_entry_hash (xs @ e # e2 # ys))"
  shows "broken pf (xs @ e2 # ys) = [e2]"
proof -
  have ok: "entry_ok pf (Some (ale_entry_hash e)) e2" using assms(1) by (simp add: chain_ok_append)
  have "tail_hash xs \<noteq> Some (ale_entry_hash e)"
    using assms(2) by (cases xs rule: rev_cases) (auto simp: tail_hash_def)
  with ok have "\<not> entry_ok pf (tail_hash xs) e2" by (auto simp: entry_ok_def Let_def)
  with assms(1) show ?thesis by (simp add: chain_ok_broken broken_append split: if_splits)
qed

lemma log_sorted_sub:
  assumes "log_sorted d" and "sorted_wrt (<) (map ale_sequence es)"
    and "ale_sequence ` set es \<subseteq> ale_sequence ` set (audit_log_entries d)"
  shows "log_sorted (d\<lparr>audit_log_entries := es\<rparr>)"
  using assms by (fastforce simp: log_sorted_def)

section \<open>Properties\<close>

text \<open>
  C1. A successful append of a payload whose severity and event type are sent as the values of
  the enumerations, as every caller in the services sends them, extends the log by one row that
  commits to the previous tail, keeps the log's invariant, and turns a log that verifies into a
  longer log that verifies, whose root hash is the new entry's hash. (Sent as the name of a
  member instead, the entry breaks the chain.)
\<close>

theorem append_entry_extends_chain:
  assumes "ec_law pf" and "audit_inv d" and "enum_values pf payload"
    and "run_request (append_entry pf fr payload) d = (Inr e, d')"
  shows "audit_inv d' \<and> audit_log_entries d' = audit_log_entries d @ [e]
    \<and> ale_prev_hash e = tail_hash (audit_log_entries d)
    \<and> (chain_ok pf (audit_log_entries d) \<longrightarrow> fst (run_request (verify_chain pf t) d') = Inr
         \<lparr>cvr_verified_count = Suc (length (audit_log_entries d)), cvr_failed_count = 0, cvr_is_valid = True,
          cvr_first_break_sequence = None, cvr_duration_ms = t, cvr_root_hash = Some (ale_entry_hash e)\<rparr>)"
proof -
  note r = append_entry_chain [OF assms]
  have "log_sorted d'" using r(2) by (simp add: audit_inv_def)
  then show ?thesis
    using r chain_ok_broken [of pf "audit_log_entries d'"]
    by (simp add: verify_sorted tail_hash_def first_row_def)
qed

theorem append_entry_extends_chain_witness:
  "\<exists>e d'. run_request (append_entry demo_audit_platform (demo_fresh 0) demo_payload) demo_audit_db = (Inr e, d')
     \<and> map_sum id cvr_verified_count (fst (run_request (verify_chain demo_audit_platform 0) d')) = Inr 1"
proof -
  obtain e d' where r: "run_request (append_entry demo_audit_platform (demo_fresh 0) demo_payload) demo_audit_db = (Inr e, d')"
    by (rule demo_append1)
  have "audit_log_entries demo_audit_db = []" by (simp add: demo_audit_db_def tenancy_db.defs audit_db.defs)
  with append_entry_extends_chain [OF demo_ec_law demo_audit_inv demo_enum_values r, of 0] r show ?thesis
    by (simp add: chain_ok_def links_def)
qed

text \<open>
  A log that was only ever written by append requests running one after the other, with
  enumeration values as their callers send them, verifies: whatever requests were made and
  whichever of them failed, no entry is reported broken.
\<close>

theorem serial_appends_verify:
  assumes "ec_law pf" and "appended pf d d'" and "audit_inv d" and "audit_log_entries d = []"
  shows "\<exists>r. run_request (verify_chain pf t) d' = (Inr r, d') \<and> cvr_is_valid r \<and> cvr_failed_count r = 0
    \<and> cvr_first_break_sequence r = None \<and> cvr_verified_count r = length (audit_log_entries d')"
proof -
  have "audit_inv d' \<and> chain_ok pf (audit_log_entries d')"
    using assms by (intro appended_chain [OF assms(2)]) (simp_all add: chain_ok_def links_def)
  then show ?thesis
    by (simp add: audit_inv_def verify_sorted chain_ok_broken first_row_def)
qed

theorem serial_appends_verify_witness:
  "\<exists>r. run_request (verify_chain demo_audit_platform 0)
        (snd (run_request (append_entry demo_audit_platform (demo_fresh 0) demo_payload) demo_audit_db))
      = (Inr r, snd (run_request (append_entry demo_audit_platform (demo_fresh 0) demo_payload) demo_audit_db))
     \<and> cvr_is_valid r"
proof -
  have "appended demo_audit_platform demo_audit_db
      (snd (run_request (append_entry demo_audit_platform (demo_fresh 0) demo_payload) demo_audit_db))"
    by (rule appended_one [OF appended_none demo_enum_values])
  from serial_appends_verify [OF demo_ec_law this demo_audit_inv demo_no_entries, of 0] show ?thesis by blast
qed


text \<open>
  C3. The root hash commits to the whole history: if verification passes on two databases and
  reports the same root hash, they hold the same number of entries with, one by one, the
  same time, severity, type, actor, description, tenant, address, metadata (up to the order
  of keys) and predecessor, as long as SHA-256 has no collision among the payloads involved.
\<close>

theorem root_hash_commits_to_history:
  assumes "fst (run_request (verify_chain pf t) d) = Inr r" and "cvr_is_valid r"
    and "fst (run_request (verify_chain pf t') d') = Inr r'" and "cvr_is_valid r'"
    and "cvr_root_hash r = cvr_root_hash r'"
    and "list_all wf_entry (audit_log_entries d)" and "list_all wf_entry (audit_log_entries d')"
    and "no_collision pf (hash_inputs (sort_key ale_sequence (audit_log_entries d))
           \<union> hash_inputs (sort_key ale_sequence (audit_log_entries d')))"
  shows "map content (sort_key ale_sequence (audit_log_entries d))
    = map content (sort_key ale_sequence (audit_log_entries d'))"
  by (rule chain_commits [of pf])
     (use assms in \<open>auto simp: verify_chain_run Let_def list_all_iff\<close>)

lemma demo_one_entry:
  assumes "run_request (append_entry (demo_with f) (demo_fresh n) (demo_payload_with m)) demo_audit_db = (Inr e, d')"
    and "wf_json m" and "n < 100"
  shows "audit_log_entries d' = [e]" "wf_entry e" "audit_inv d'" "chain_ok (demo_with f) [e]"
    "ale_entry_hash e = compute_entry_hash (demo_with f) (fields_of_entry None e)"
    "fst (run_request (verify_chain (demo_with f) 0) d') = Inr
     \<lparr>cvr_verified_count = 1, cvr_failed_count = 0, cvr_is_valid = True, cvr_first_break_sequence = None,
      cvr_duration_ms = 0, cvr_root_hash = Some (ale_entry_hash e)\<rparr>"
    "fields_of_entry None e = fields_of_payload None (fr_now (demo_fresh n)) (demo_payload_with m)"
    "tenants d' = tenants demo_audit_db"
proof -
  note c = append_entry_chain [OF demo_ec_law_with demo_audit_inv demo_enum_values_with assms(1)]
  show es: "audit_log_entries d' = [e]" using c(1) by simp
  show inv: "audit_inv d'" by (rule c(2))
  note b = append_in_transaction_run(1,2) [OF append_entry_run [OF assms(1)]]
  note g = build_entry_Inr [OF b(1)]
  show "tenants d' = tenants demo_audit_db" using b(2) by (simp add: insert_entry_Inr)
  show "wf_entry e"
    using wf_sanitize [OF assms(2)] assms(3)
    by (simp add: wf_entry_def g demo_payload_with_def demo_fresh_def valid_datetime_def)
  show eq: "fields_of_entry None e = fields_of_payload None (fr_now (demo_fresh n)) (demo_payload_with m)"
    using fields_agree [OF b(1) demo_enum_values_with] by (simp add: demo_tail)
  show "ale_entry_hash e = compute_entry_hash (demo_with f) (fields_of_entry None e)"
    unfolding eq using g(6) demo_tail by simp
  show ok: "chain_ok (demo_with f) [e]" using c(3) by (simp add: es chain_ok_def links_def)
  have "log_sorted d'" using inv by (simp add: audit_inv_def)
  with ok show "fst (run_request (verify_chain (demo_with f) 0) d') = Inr
     \<lparr>cvr_verified_count = 1, cvr_failed_count = 0, cvr_is_valid = True, cvr_first_break_sequence = None,
      cvr_duration_ms = 0, cvr_root_hash = Some (ale_entry_hash e)\<rparr>"
    by (simp add: verify_sorted chain_ok_broken es first_row_def tail_hash_def)
qed

text \<open>Two logs whose only entries have the same metadata with the keys in another order.\<close>

theorem root_hash_commits_to_history_witness:
  "\<exists>e d e' d'. run_request (append_entry (demo_with demo_digest) (demo_fresh 0)
        (demo_payload_with (JDict [(''a'', JInt 1), (''b'', JInt 2)]))) demo_audit_db = (Inr e, d)
     \<and> run_request (append_entry (demo_with demo_digest) (demo_fresh 0)
        (demo_payload_with (JDict [(''b'', JInt 2), (''a'', JInt 1)]))) demo_audit_db = (Inr e', d')
     \<and> map content (sort_key ale_sequence (audit_log_entries d))
       = map content (sort_key ale_sequence (audit_log_entries d'))"
proof -
  let ?m = "JDict [(''a'', JInt 1), (''b'', JInt 2)]" and ?m' = "JDict [(''b'', JInt 2), (''a'', JInt 1)]"
  have len: "length (demo_digest b) = 1" for b by (simp add: demo_digest_def)
  obtain e d where r: "run_request (append_entry (demo_with demo_digest) (demo_fresh 0) (demo_payload_with ?m)) demo_audit_db = (Inr e, d)"
    by (rule demo_append_with [OF len])
  obtain e' d' where r': "run_request (append_entry (demo_with demo_digest) (demo_fresh 0) (demo_payload_with ?m')) demo_audit_db = (Inr e', d')"
    by (rule demo_append_with [OF len])
  have wf: "wf_json ?m" "wf_json ?m'" by simp_all
  note f = demo_one_entry [OF r wf(1), simplified] and f' = demo_one_entry [OF r' wf(2), simplified]
  have "canon (sanitize_metadata ?m) = canon (sanitize_metadata ?m')" by code_simp
  then have p: "canonical_payload (fields_of_entry None e) = canonical_payload (fields_of_entry None e')"
    unfolding f(7) f'(7)
    by (simp add: canonical_payload_def dumps_def payload_json_def fields_of_payload_def demo_payload_with_def)
  have h: "ale_entry_hash e = ale_entry_hash e'" unfolding f(5) f'(5) by (simp add: compute_entry_hash_def p)
  have "map content (sort_key ale_sequence (audit_log_entries d)) = map content (sort_key ale_sequence (audit_log_entries d'))"
    by (rule root_hash_commits_to_history [OF f(6) _ f'(6)])
       (use f f' p h in \<open>simp_all add: no_collision_def hash_inputs_def links_def\<close>)
  with r r' show ?thesis by blast
qed

text \<open>
  A digest that tells one payload from all others, and a log of two entries on it.
\<close>

definition demo_mark :: "hash_fields \<Rightarrow> bytes \<Rightarrow> bytes" where
  "demo_mark F b = (if b = canonical_payload F then [CHR 0x01] else [CHR 0x02])"

definition demo_F :: hash_fields where
  "demo_F = fields_of_payload None (fr_now (demo_fresh 0)) (demo_payload_with (JDict []))"

definition demo_P :: audit_platform where
  "demo_P = demo_with (demo_mark demo_F)"

lemma demo_mark_length: "length (demo_mark F b) = 1"
  by (simp add: demo_mark_def)

lemma wf_demo_F: "wf_fields demo_F"
  by (simp add: wf_fields_def demo_F_def fields_of_payload_def demo_payload_with_def demo_fresh_def valid_datetime_def)

lemma demo_P_hash:
  "compute_entry_hash demo_P demo_F = ''01''"
  "wf_fields G \<Longrightarrow> norm_fields G \<noteq> norm_fields demo_F \<Longrightarrow> compute_entry_hash demo_P G = ''02''"
proof -
  have h: "compute_entry_hash demo_P G = hexlify (demo_mark demo_F (canonical_payload G))" for G
    by (simp add: compute_entry_hash_def demo_P_def demo_with_def)
  have "hexlify [CHR 0x01] = ''01''" "hexlify [CHR 0x02] = ''02''" by code_simp+
  then show "compute_entry_hash demo_P demo_F = ''01''"
    "wf_fields G \<Longrightarrow> norm_fields G \<noteq> norm_fields demo_F \<Longrightarrow> compute_entry_hash demo_P G = ''02''"
    using payload_inj [OF _ wf_demo_F] by (auto simp: h demo_mark_def)
qed

lemma demo_first:
  obtains e d where "run_request (append_entry demo_P (demo_fresh 0) (demo_payload_with (JDict []))) demo_audit_db = (Inr e, d)"
    "audit_log_entries d = [e]" "wf_entry e" "audit_inv d" "chain_ok demo_P [e]" "ale_entry_hash e = ''01''"
    "fields_of_entry None e = demo_F" "tenants d = tenants demo_audit_db" "ale_id e = 200" "ale_severity e = AuditSeverity.INFO"
proof -
  obtain e d where r: "run_request (append_entry demo_P (demo_fresh 0) (demo_payload_with (JDict []))) demo_audit_db = (Inr e, d)"
    unfolding demo_P_def by (rule demo_append_with [OF demo_mark_length])
  have "wf_json (JDict [])" by simp
  note f = demo_one_entry [OF r [unfolded demo_P_def] this, folded demo_P_def, OF zero_less_numeral]
  note g = build_entry_Inr [OF append_in_transaction_run(1) [OF append_entry_run [OF r]]]
  have "ale_severity e = AuditSeverity.INFO"
    using g(11) demo_coercions(1) [of "demo_mark demo_F" "JDict []"] by (simp add: demo_P_def)
  moreover have "ale_id e = 200" using g(3) by (simp add: demo_fresh_def)
  moreover have F: "fields_of_entry None e = demo_F" by (simp add: f(7) demo_F_def)
  moreover have "ale_entry_hash e = ''01''" unfolding f(5) F by (rule demo_P_hash)
  ultimately show thesis using that r f by blast
qed

lemma demo_two:
  obtains e1 e2 and d :: audit_db where "audit_inv d" "audit_log_entries d = [e1, e2]" "chain_ok demo_P [e1, e2]"
proof -
  obtain e1 :: AuditLogEntry and d1 :: audit_db where one: "audit_log_entries d1 = [e1]" "audit_inv d1" "chain_ok demo_P [e1]"
      "ale_entry_hash e1 = ''01''" "tenants d1 = tenants demo_audit_db" "ale_id e1 = 200"
    by (rule demo_first) blast
  have sorted: "log_sorted d1" using one(2) by (simp add: audit_inv_def)
  have tail: "map_option ale_entry_hash (get_tail d1) = Some ''01''"
    using tail_hash_get_tail [OF sorted] by (simp add: one tail_hash_def)
  let ?p = "demo_payload_with (JDict [])"
  let ?G = "fields_of_payload (Some ''01'') (fr_now (demo_fresh 1)) ?p"
  have "wf_fields ?G"
    by (simp add: wf_fields_def fields_of_payload_def demo_payload_with_def demo_fresh_def valid_datetime_def)
  moreover have "norm_fields ?G \<noteq> norm_fields demo_F"
    by (simp add: norm_fields_def fields_of_payload_def demo_F_def)
  ultimately have h2: "compute_entry_hash demo_P ?G = ''02''" by (rule demo_P_hash)
  obtain e2 d2 where r: "run_request (append_entry demo_P (demo_fresh 1) ?p) d1 = (Inr e2, d2)"
    unfolding demo_P_def
  proof (rule append_entry_succeeds [where pf = "demo_with (demo_mark demo_F)" and p = ?p and fr = "demo_fresh 1"
        and d = d1, OF demo_coercions])
    fix e
    assume "build_entry (demo_with (demo_mark demo_F)) (demo_fresh 1) (audit_next d1 + int (fr_skip (demo_fresh 1)))
        (map_option ale_entry_hash (get_tail d1)) ?p = Inr e"
    then show "columns_ok e" by (rule demo_columns_ok) (simp_all add: tail demo_mark_length fits_opt_def fits_def)
  next
    fix t
    assume "alc_tenant_id ?p = Some t"
    then show "t \<in> t_id ` set (tenants d1)" by (simp add: one demo_payload_with_def demo_payload_def)
  next
    show "compute_entry_hash (demo_with (demo_mark demo_F))
        (fields_of_payload (map_option ale_entry_hash (get_tail d1)) (fr_now (demo_fresh 1)) ?p)
        \<notin> ale_entry_hash ` set (audit_log_entries d1)"
      using h2 by (simp add: tail one demo_P_def [symmetric])
    show "fr_id (demo_fresh 1) \<notin> ale_id ` set (audit_log_entries d1)" by (simp add: one demo_fresh_def)
  qed
  note c = append_entry_chain [OF demo_ec_law_with one(2) demo_enum_values_with r [unfolded demo_P_def], folded demo_P_def]
  show thesis by (rule that [OF c(2)]) (use c(1,3) one in simp_all)
qed

text \<open>
  C25. Changing what one stored row of an intact log says is pinned to that row: if only the
  hashed content of a row was altered, verification reports exactly one failure, at the
  sequence number of that row, and counts every other row, those after it included, as verified.
\<close>

theorem tampering_is_located:
  assumes "log_sorted d" and "audit_log_entries d = xs @ e # ys" and "chain_ok pf (audit_log_entries d)"
    and "ale_entry_hash e' = ale_entry_hash e" and "ale_sequence e' = ale_sequence e"
    and "wf_entry e" and "wf_entry e'"
    and "norm_fields (fields_of_entry (tail_hash xs) e') \<noteq> norm_fields (fields_of_entry (tail_hash xs) e)"
    and "no_collision pf {fields_of_entry (tail_hash xs) e, fields_of_entry (tail_hash xs) e'}"
  shows "fst (run_request (verify_chain pf t) (d\<lparr>audit_log_entries := xs @ e' # ys\<rparr>)) = Inr
    \<lparr>cvr_verified_count = length xs + length ys, cvr_failed_count = 1, cvr_is_valid = False,
     cvr_first_break_sequence = Some (ale_sequence e), cvr_duration_ms = t,
     cvr_root_hash = tail_hash (audit_log_entries d)\<rparr>"
proof -
  let ?d = "d\<lparr>audit_log_entries := xs @ e' # ys\<rparr>"
  have ok: "entry_ok pf (tail_hash xs) e" using assms(2,3) by (simp add: chain_ok_append)
  have "\<not> entry_ok pf (tail_hash xs) e'"
  proof
    assume "entry_ok pf (tail_hash xs) e'"
    with ok assms(4) have "compute_entry_hash pf (fields_of_entry (tail_hash xs) e')
        = compute_entry_hash pf (fields_of_entry (tail_hash xs) e)" by (simp add: entry_ok_def Let_def)
    from hash_inj [OF assms(9) _ _ _ _ this] assms(6-8) show False by simp
  qed
  with assms(2-4) have b: "broken pf (xs @ e' # ys) = [e']" by (intro broken_changed [of pf xs e]) simp_all
  have "log_sorted ?d"
    by (rule log_sorted_sub [OF assms(1)]) (use assms(1) in \<open>simp_all add: log_sorted_def assms(2,5)\<close>)
  from verify_sorted [OF this, of pf t] b assms(2,4,5) show ?thesis
    by (simp add: chain_ok_broken first_row_def tail_hash_def)
qed

theorem tampering_is_located_witness:
  "\<exists>e (d :: audit_db). audit_log_entries d = [e] \<and> map_sum id cvr_first_break_sequence (fst (run_request (verify_chain demo_P 0)
     (d\<lparr>audit_log_entries := [e\<lparr>ale_description := ''forged''\<rparr>]\<rparr>))) = Inr (Some (ale_sequence e))"
proof -
  obtain e :: AuditLogEntry and d :: audit_db where f: "audit_log_entries d = [e]" "wf_entry e" "audit_inv d" "chain_ok demo_P [e]"
      "fields_of_entry None e = demo_F"
    by (rule demo_first) blast
  let ?e = "e\<lparr>ale_description := ''forged''\<rparr>"
  have desc: "ale_description e = ''ok''"
    using arg_cong [OF f(5), of hf_description]
    by (simp add: fields_of_entry_def demo_F_def fields_of_payload_def demo_payload_with_def demo_payload_def)
  let ?F = "fields_of_entry None e" and ?G = "fields_of_entry None ?e"
  have ne: "norm_fields ?G \<noteq> norm_fields ?F" by (simp add: norm_fields_def fields_of_entry_def desc)
  have wf: "wf_entry ?e" using f(2) by (simp add: wf_entry_def)
  have "sha256 demo_P (canonical_payload ?F) \<noteq> sha256 demo_P (canonical_payload ?G)"
    using demo_P_hash(1) demo_P_hash(2) [of ?G] ne wf f(5) by (auto simp: compute_entry_hash_def)
  then have nc: "no_collision demo_P {?F, ?G}" by (auto simp: no_collision_def inj_on_def)
  have "fst (run_request (verify_chain demo_P 0) (d\<lparr>audit_log_entries := [] @ ?e # []\<rparr>)) = Inr
    \<lparr>cvr_verified_count = length ([] :: AuditLogEntry list) + length ([] :: AuditLogEntry list), cvr_failed_count = 1,
     cvr_is_valid = False, cvr_first_break_sequence = Some (ale_sequence e), cvr_duration_ms = 0,
     cvr_root_hash = tail_hash (audit_log_entries d)\<rparr>"
    by (rule tampering_is_located) (use f wf ne nc in \<open>simp_all add: audit_inv_def tail_hash_def\<close>)
  with f(1) show ?thesis by (intro exI [of _ e] exI [of _ d]) simp
qed


text \<open>
  Deleting a row that is not the last one is detected: verification reports one failure, at
  the row that followed the deleted one.
\<close>

theorem deletion_is_detected:
  assumes "audit_inv d" and "audit_log_entries d = xs @ e # e2 # ys" and "chain_ok pf (audit_log_entries d)"
  shows "fst (run_request (verify_chain pf t) (d\<lparr>audit_log_entries := xs @ e2 # ys\<rparr>)) = Inr
    \<lparr>cvr_verified_count = length xs + length ys, cvr_failed_count = 1, cvr_is_valid = False,
     cvr_first_break_sequence = Some (ale_sequence e2), cvr_duration_ms = t,
     cvr_root_hash = tail_hash (audit_log_entries d)\<rparr>"
proof -
  let ?d = "d\<lparr>audit_log_entries := xs @ e2 # ys\<rparr>"
  have b: "broken pf (xs @ e2 # ys) = [e2]"
    by (rule broken_removed [of pf xs e]) (use assms in \<open>simp_all add: audit_inv_def\<close>)
  have "log_sorted ?d"
    by (rule log_sorted_sub) (use assms(1,2) in \<open>auto simp: audit_inv_def log_sorted_def sorted_wrt_append\<close>)
  from verify_sorted [OF this, of pf t] b assms(2) show ?thesis
    by (simp add: chain_ok_broken first_row_def tail_hash_def)
qed

theorem deletion_is_detected_witness:
  "\<exists>e1 e2 (d :: audit_db). audit_log_entries d = [e1, e2] \<and> map_sum id cvr_first_break_sequence
     (fst (run_request (verify_chain demo_P 0) (d\<lparr>audit_log_entries := [e2]\<rparr>))) = Inr (Some (ale_sequence e2))"
proof -
  obtain e1 e2 and d :: audit_db where f: "audit_inv d" "audit_log_entries d = [e1, e2]" "chain_ok demo_P [e1, e2]" by (rule demo_two)
  then have "audit_log_entries d = [] @ e1 # e2 # []" "chain_ok demo_P (audit_log_entries d)" by simp_all
  from deletion_is_detected [OF f(1) this, of 0]
  have "map_sum id cvr_first_break_sequence (fst (run_request (verify_chain demo_P 0) (d\<lparr>audit_log_entries := [e2]\<rparr>)))
      = Inr (Some (ale_sequence e2))" by simp
  with f(2) show ?thesis by blast
qed


text \<open>
  Cutting off the newest entries is not detected: every prefix of an intact log verifies as
  an intact log, so the root hash has to be kept elsewhere to notice a truncation.
\<close>

theorem truncation_is_not_detected:
  assumes "log_sorted d" and "chain_ok pf (audit_log_entries d)"
  shows "fst (run_request (verify_chain pf t) (d\<lparr>audit_log_entries := take n (audit_log_entries d)\<rparr>)) = Inr
    \<lparr>cvr_verified_count = min n (length (audit_log_entries d)), cvr_failed_count = 0, cvr_is_valid = True,
     cvr_first_break_sequence = None, cvr_duration_ms = t,
     cvr_root_hash = tail_hash (take n (audit_log_entries d))\<rparr>"
proof -
  let ?es = "audit_log_entries d"
  have "chain_ok pf (take n ?es @ drop n ?es)" using assms(2) by simp
  then have ok: "chain_ok pf (take n ?es)" unfolding chain_ok_append by blast
  have "log_sorted (d\<lparr>audit_log_entries := take n ?es\<rparr>)"
    by (rule log_sorted_sub [OF assms(1)])
       (use assms(1) in \<open>auto simp: log_sorted_def take_map [symmetric] sorted_wrt_take dest: in_set_takeD\<close>)
  from verify_sorted [OF this, of pf t] ok show ?thesis
    by (simp add: chain_ok_broken first_row_def min.commute)
qed

theorem truncation_is_not_detected_witness:
  "\<exists>e1 e2 (d :: audit_db). audit_log_entries d = [e1, e2] \<and> map_sum id cvr_is_valid
     (fst (run_request (verify_chain demo_P 0) (d\<lparr>audit_log_entries := [e1]\<rparr>))) = Inr True"
proof -
  obtain e1 e2 and d :: audit_db where f: "audit_inv d" "audit_log_entries d = [e1, e2]" "chain_ok demo_P [e1, e2]" by (rule demo_two)
  then have "log_sorted d" "chain_ok demo_P (audit_log_entries d)" by (simp_all add: audit_inv_def)
  from truncation_is_not_detected [OF this, of 0 1] f(2)
  have "map_sum id cvr_is_valid (fst (run_request (verify_chain demo_P 0) (d\<lparr>audit_log_entries := [e1]\<rparr>))) = Inr True"
    by simp
  with f(2) show ?thesis by blast
qed

text \<open>
  C24. Two clients that read the same tail of an intact log before either writes fork the chain.
  Whenever the database accepts each of the two entries on that log and they have identifiers
  and hashes of their own, it accepts the second one after the first as well: nothing in the
  service or the table ties an entry to the current tail. The first client's severity and event
  type are values of the enumerations. Verification then reports exactly the second row as
  broken, although nobody tampered with the log, and in every state that any interleaving of
  further appends reaches the log still fails verification, first at that row.
\<close>

theorem concurrent_appends_fork_the_chain:
  assumes "ec_law pf" and "audit_inv (ls_db s)" and "chain_ok pf (audit_log_entries (ls_db s))"
    and "enum_values pf p" and "prev = map_option ale_entry_hash (get_tail (ls_db s))"
    and e: "build_entry pf fr (audit_next (ls_db s) + int (fr_skip fr)) prev p = Inr e"
      "insert_entry e (ls_db s) = Inr d1"
    and e': "build_entry pf fr' (audit_next d1 + int (fr_skip fr')) prev p' = Inr e'"
      "insert_entry e' (ls_db s) = Inr d1'"
    and own: "ale_id e' \<noteq> ale_id e" "ale_entry_hash e' \<noteq> ale_entry_hash e"
  shows "\<exists>s2. log_steps pf s s2 \<and> insert_entry e' d1 = Inr (ls_db s2)
    \<and> fst (run_request (verify_chain pf t) (ls_db s2)) = Inr
        \<lparr>cvr_verified_count = Suc (length (audit_log_entries (ls_db s))), cvr_failed_count = 1, cvr_is_valid = False,
         cvr_first_break_sequence = Some (ale_sequence e'), cvr_duration_ms = t,
         cvr_root_hash = Some (ale_entry_hash e')\<rparr>
    \<and> (\<forall>s3. log_steps pf s2 s3 \<longrightarrow> (\<exists>r. fst (run_request (verify_chain pf t) (ls_db s3)) = Inr r
        \<and> \<not> cvr_is_valid r \<and> cvr_first_break_sequence r = Some (ale_sequence e')))"
proof -
  let ?es = "audit_log_entries (ls_db s)"
  obtain d2 where i2: "insert_entry e' d1 = Inr d2"
    using e(2) e'(2) own by (simp add: insert_entry_Inr)
  define s1 where "s1 = s\<lparr>ls_seen := (ls_seen s)(0 := Some prev)\<rparr>"
  define s2 where "s2 = s1\<lparr>ls_seen := (ls_seen s1)(1 := Some prev)\<rparr>"
  define s3 where "s3 = s2\<lparr>ls_db := d1, ls_seen := (ls_seen s2)(0 := None)\<rparr>"
  define s4 where "s4 = s3\<lparr>ls_db := d2, ls_seen := (ls_seen s3)(1 := None)\<rparr>"
  have "log_step pf s s1" unfolding s1_def assms(5) by (rule read_tail)
  moreover have "log_step pf s1 s2"
    using read_tail [of pf s1 1] by (simp add: s2_def s1_def assms(5))
  moreover have "log_step pf s2 s3"
    unfolding s3_def by (rule write_entry [of s2 0 prev pf fr p e]) (use e in \<open>simp_all add: s2_def s1_def\<close>)
  moreover have "log_step pf s3 s4"
    unfolding s4_def by (rule write_entry [of s3 1 prev pf fr' p' e'])
      (use e' i2 in \<open>simp_all add: s3_def s2_def s1_def\<close>)
  ultimately have run: "log_steps pf s s4" by (meson log_refl log_more)
  have db: "ls_db s4 = d2" by (simp add: s4_def)
  have es: "audit_log_entries d2 = (?es @ [e]) @ [e']" and new: "ale_entry_hash e \<notin> ale_entry_hash ` set ?es"
    using e(2) i2 by (auto simp: insert_entry_Inr)
  have "log_sorted (ls_db s)" using assms(2) by (simp add: audit_inv_def)
  then have prev: "prev = tail_hash ?es" by (simp add: assms(5) tail_hash_get_tail)
  from build_entry_ok [OF assms(1) e(1) assms(4)] have "chain_ok pf (?es @ [e])"
    by (simp add: chain_ok_append assms(3) prev)
  then have "broken pf (?es @ [e]) = []" by (simp add: chain_ok_broken)
  moreover have "prev \<noteq> Some (ale_entry_hash e)"
    using new by (cases ?es rule: rev_cases) (auto simp: prev tail_hash_def)
  ultimately have b: "broken pf (audit_log_entries d2) = [e']"
    unfolding es using build_entry_Inr(2) [OF e'(1)] by (subst stale_entry_broken) (simp_all add: tail_hash_def)
  have inv: "audit_inv d2" using log_steps_inv [OF run assms(2)] by (simp add: db)
  then have "log_sorted d2" by (simp add: audit_inv_def)
  from verify_sorted [OF this, of pf t] b
  have now: "fst (run_request (verify_chain pf t) d2) = Inr
        \<lparr>cvr_verified_count = Suc (length ?es), cvr_failed_count = 1, cvr_is_valid = False,
         cvr_first_break_sequence = Some (ale_sequence e'), cvr_duration_ms = t,
         cvr_root_hash = Some (ale_entry_hash e')\<rparr>"
    by (auto simp: chain_ok_broken first_row_def tail_hash_def es)
  have later: "\<exists>r. fst (run_request (verify_chain pf t) (ls_db s5)) = Inr r
        \<and> \<not> cvr_is_valid r \<and> cvr_first_break_sequence r = Some (ale_sequence e')"
    if steps: "log_steps pf s4 s5" for s5
  proof -
    obtain xs where "audit_log_entries (ls_db s5) = audit_log_entries d2 @ xs"
      using log_steps_extend [OF steps] by (auto simp: db)
    moreover have "log_sorted (ls_db s5)"
      using log_steps_inv [OF steps] inv by (simp add: db audit_inv_def)
    ultimately show ?thesis using b by (blast intro: verify_stays_broken)
  qed
  show ?thesis by (rule exI [of _ s4]) (use run i2 now later in \<open>simp add: db\<close>)
qed

theorem concurrent_appends_fork_the_chain_witness:
  "\<exists>s' (e' :: AuditLogEntry). log_steps demo_P \<lparr>ls_db = demo_audit_db, ls_seen = (\<lambda>c. None)\<rparr> s'
     \<and> map_sum id cvr_first_break_sequence (fst (run_request (verify_chain demo_P 0) (ls_db s')))
       = Inr (Some (ale_sequence e'))"
proof -
  let ?s = "\<lparr>ls_db = demo_audit_db, ls_seen = (\<lambda>c. None)\<rparr>" and ?p = "demo_payload_with (JDict [])"
  let ?G = "fields_of_payload None (fr_now (demo_fresh 1)) ?p"
  let ?d = "\<lambda>d e. d\<lparr>audit_log_entries := audit_log_entries d @ [e], audit_next := ale_sequence e + 1\<rparr>"
  have "wf_fields ?G"
    by (simp add: wf_fields_def fields_of_payload_def demo_payload_with_def demo_fresh_def valid_datetime_def)
  moreover have "norm_fields ?G \<noteq> norm_fields demo_F"
    by (simp add: norm_fields_def fields_of_payload_def demo_F_def demo_fresh_def)
  ultimately have h2: "compute_entry_hash demo_P ?G = ''02''" by (rule demo_P_hash)
  note co = demo_coercions [of "demo_mark demo_F" "JDict []", folded demo_P_def]
  obtain e where e: "build_entry demo_P (demo_fresh 0) (audit_next demo_audit_db + int (fr_skip (demo_fresh 0))) None ?p = Inr e"
    using build_entry_succeeds [OF co] by metis
  have h1: "ale_entry_hash e = ''01''" using build_entry_Inr(6) [OF e] demo_P_hash(1) by (simp add: demo_F_def)
  have i1: "insert_entry e demo_audit_db = Inr (?d demo_audit_db e)"
    by (rule demo_insert [OF e [unfolded demo_P_def]]) (simp_all add: demo_mark_length fits_opt_def)
  obtain e' where e': "build_entry demo_P (demo_fresh 1) (audit_next (?d demo_audit_db e) + int (fr_skip (demo_fresh 1))) None ?p
      = Inr e'"
    using build_entry_succeeds [OF co] by metis
  have id: "ale_id e = 200" using build_entry_Inr(3) [OF e] by (simp add: demo_fresh_def)
  have own: "ale_id e' \<noteq> ale_id e" "ale_entry_hash e' \<noteq> ale_entry_hash e"
    using h2 by (simp_all add: id h1 build_entry_Inr(3,6) [OF e'] demo_fresh_def)
  have alone: "insert_entry e' demo_audit_db = Inr (?d demo_audit_db e')"
    by (rule demo_insert [OF e' [unfolded demo_P_def]]) (simp_all add: demo_mark_length fits_opt_def)
  have "\<exists>s2. log_steps demo_P ?s s2 \<and> insert_entry e' (?d demo_audit_db e) = Inr (ls_db s2)
    \<and> fst (run_request (verify_chain demo_P 0) (ls_db s2)) = Inr
        \<lparr>cvr_verified_count = Suc (length (audit_log_entries (ls_db ?s))), cvr_failed_count = 1, cvr_is_valid = False,
         cvr_first_break_sequence = Some (ale_sequence e'), cvr_duration_ms = 0,
         cvr_root_hash = Some (ale_entry_hash e')\<rparr>
    \<and> (\<forall>s3. log_steps demo_P s2 s3 \<longrightarrow> (\<exists>r. fst (run_request (verify_chain demo_P 0) (ls_db s3)) = Inr r
        \<and> \<not> cvr_is_valid r \<and> cvr_first_break_sequence r = Some (ale_sequence e')))"
    by (rule concurrent_appends_fork_the_chain [where prev = None and e = e and p = ?p and p' = ?p
        and fr = "demo_fresh 0" and fr' = "demo_fresh 1" and ?d1.0 = "?d demo_audit_db e"
        and d1' = "?d demo_audit_db e'"])
      (use e i1 e' alone own demo_audit_inv demo_ec_law_with [of "demo_mark demo_F"]
          demo_enum_values_with [of "demo_mark demo_F" "JDict []"] demo_tail
        in \<open>simp_all add: chain_ok_def links_def flip: demo_P_def\<close>)
  then obtain s' where "log_steps demo_P ?s s'" "map_sum id cvr_first_break_sequence
      (fst (run_request (verify_chain demo_P 0) (ls_db s'))) = Inr (Some (ale_sequence e'))" by force
  then show ?thesis by blast
qed

text \<open>
  An entry whose severity or event type is sent as the name of the member (INFO) instead of
  its value (info) is accepted and stored, and leaves a log that no longer verifies: the
  hash covers the string that was sent, verification recomputes it from the stored member.
\<close>

theorem enum_member_name_breaks_chain:
  assumes "run_request (append_entry pf fr payload) d = (Inr e, d')" and "audit_inv d"
    and "chain_ok pf (audit_log_entries d)" and "\<not> enum_values pf payload"
    and "valid_datetime (fr_now fr)" and "wf_json (alc_metadata_json payload)"
    and "no_collision pf {fields_of_payload (tail_hash (audit_log_entries d)) (fr_now fr) payload,
      fields_of_entry (tail_hash (audit_log_entries d)) e}"
  shows "fst (run_request (verify_chain pf t) d') = Inr
    \<lparr>cvr_verified_count = length (audit_log_entries d), cvr_failed_count = 1, cvr_is_valid = False,
     cvr_first_break_sequence = Some (ale_sequence e), cvr_duration_ms = t,
     cvr_root_hash = Some (ale_entry_hash e)\<rparr>"
proof -
  let ?h = "tail_hash (audit_log_entries d)"
  have r: "append_entry_in_transaction pf fr payload \<lparr>committed = d, working = d\<rparr> = (Inr e, \<lparr>committed = d, working = d'\<rparr>)"
    by (rule append_entry_run [OF assms(1)])
  have "audit_inv d'" using append_in_transaction_inv [OF _ r] assms(2) by simp
  then have sorted: "log_sorted d'" by (simp add: audit_inv_def)
  have "log_sorted d" using assms(2) by (simp add: audit_inv_def)
  with append_in_transaction_run(1) [OF r]
  have b: "build_entry pf fr (audit_next d + int (fr_skip fr)) ?h payload = Inr e" by (simp add: tail_hash_get_tail)
  note f = build_entry_Inr [OF b]
  have es: "audit_log_entries d' = audit_log_entries d @ [e]"
    using append_in_transaction_run(2) [OF r] by (simp add: insert_entry_Inr)
  have "norm_fields (fields_of_payload ?h (fr_now fr) payload) \<noteq> norm_fields (fields_of_entry ?h e)"
    using assms(4) f(11,12) by (auto simp: norm_fields_def fields_of_payload_def fields_of_entry_def enum_values_def)
  moreover have "wf_fields (fields_of_payload ?h (fr_now fr) payload)"
    using assms(5) wf_sanitize [OF assms(6)] by (simp add: wf_fields_def fields_of_payload_def)
  moreover have "wf_entry e" using assms(5) wf_sanitize [OF assms(6)] by (simp add: wf_entry_def f)
  ultimately have "compute_entry_hash pf (fields_of_entry ?h e) \<noteq> ale_entry_hash e"
    using hash_inj [OF assms(7)] f(6) by (metis insertCI wf_fields_of_entry)
  then have "\<not> entry_ok pf ?h e" by (simp add: entry_ok_def Let_def)
  with assms(3) have "broken pf (audit_log_entries d') = [e]"
    by (simp add: es broken_append chain_ok_broken)
  with verify_sorted [OF sorted, of pf t] show ?thesis
    by (simp add: chain_ok_broken first_row_def tail_hash_def es)
qed

theorem enum_member_name_breaks_chain_witness:
  "\<exists>e d'. run_request (append_entry demo_P (demo_fresh 0) (demo_payload_as ''INFO'' (JDict []))) demo_audit_db
       = (Inr e, d')
     \<and> map_sum id cvr_first_break_sequence (fst (run_request (verify_chain demo_P 0) d')) = Inr (Some (ale_sequence e))"
proof -
  let ?p = "demo_payload_as ''INFO'' (JDict [])"
  have co: "coerce_severity demo_P (alc_severity ?p) = Some AuditSeverity.INFO"
    "coerce_event_type demo_P (alc_event_type ?p) = Some AuditEventType.AUTH_EVENT"
  proof -
    show "coerce_event_type demo_P (alc_event_type ?p) = Some AuditEventType.AUTH_EVENT"
      using demo_coercions(2) [of "demo_mark demo_F" "JDict []"] by (simp add: demo_P_def demo_payload_as_def)
    have "coerce_severity demo_audit_platform ''INFO'' = Some AuditSeverity.INFO" by code_simp
    then show "coerce_severity demo_P (alc_severity ?p) = Some AuditSeverity.INFO"
      by (simp add: demo_P_def demo_with_def demo_payload_as_def)
  qed
  obtain e d' where r: "run_request (append_entry demo_P (demo_fresh 0) ?p) demo_audit_db = (Inr e, d')"
  proof (rule append_entry_succeeds [where pf = demo_P and p = ?p and fr = "demo_fresh 0" and d = demo_audit_db, OF co])
    fix e
    assume "build_entry demo_P (demo_fresh 0) (audit_next demo_audit_db + int (fr_skip (demo_fresh 0)))
      (map_option ale_entry_hash (get_tail demo_audit_db)) ?p = Inr e"
    then show "columns_ok e" unfolding demo_P_def
      by (rule demo_columns_ok_as) (simp_all add: demo_mark_length demo_tail fits_opt_def)
  qed (simp_all add: demo_payload_as_def demo_payload_with_def demo_payload_def)
  note f = build_entry_Inr [OF append_in_transaction_run(1) [OF append_entry_run [OF r]]]
  let ?G = "fields_of_payload None (fr_now (demo_fresh 0)) ?p"
  have F: "fields_of_entry None e = demo_F"
    using f co unfolding demo_F_def fields_of_entry_def fields_of_payload_def
    by (simp add: demo_payload_as_def demo_payload_with_def demo_payload_def)
  have "norm_fields ?G \<noteq> norm_fields demo_F"
    by (simp add: norm_fields_def fields_of_payload_def demo_F_def demo_payload_as_def demo_payload_with_def demo_payload_def)
  moreover have "wf_fields ?G"
    by (simp add: wf_fields_def fields_of_payload_def demo_payload_as_def demo_payload_with_def demo_fresh_def valid_datetime_def)
  ultimately have "compute_entry_hash demo_P ?G \<noteq> compute_entry_hash demo_P demo_F" using demo_P_hash by simp
  then have nc: "no_collision demo_P {?G, demo_F}" by (auto simp: no_collision_def inj_on_def compute_entry_hash_def)
  have ne: "\<not> enum_values demo_P ?p" unfolding enum_values_def co by (simp add: demo_payload_as_def)
  have "fst (run_request (verify_chain demo_P 0) d') = Inr
    \<lparr>cvr_verified_count = length (audit_log_entries demo_audit_db), cvr_failed_count = 1, cvr_is_valid = False,
     cvr_first_break_sequence = Some (ale_sequence e), cvr_duration_ms = 0, cvr_root_hash = Some (ale_entry_hash e)\<rparr>"
    by (rule enum_member_name_breaks_chain [OF r demo_audit_inv _ ne])
       (use nc F in \<open>simp_all add: chain_ok_def links_def tail_hash_def demo_payload_as_def demo_payload_with_def
          demo_fresh_def valid_datetime_def\<close>)
  with r show ?thesis by simp
qed

text \<open>
  No secret reaches the log: in the metadata of a stored entry every value under a sensitive
  key, at any depth, is the placeholder, while a path that meets no sensitive key leads to
  exactly what the caller sent, redacted in the same way.
\<close>

theorem stored_metadata_is_redacted:
  assumes "run_request (append_entry pf fr payload) d = (Inr e, d')"
  shows "e \<in> set (audit_log_entries d')
    \<and> (\<forall>p k w. sensitive_key k \<longrightarrow> at_path (p @ [Key k]) (ale_metadata_json e) = Some w \<longrightarrow>
         w = JStr REDACTED_METADATA_VALUE)
    \<and> (\<forall>p. list_all (\<lambda>s. \<not> sensitive_step s) p \<longrightarrow>
         at_path p (ale_metadata_json e) = map_option sanitize_metadata (at_path p (alc_metadata_json payload)))"
proof -
  note r = append_in_transaction_run [OF append_entry_run [OF assms]]
  have "e \<in> set (audit_log_entries d')" using r(2) by (simp add: insert_entry_Inr)
  with build_entry_Inr(5) [OF r(1)] show ?thesis
    by (auto dest: at_path_sanitize_sensitive simp: at_path_sanitize)
qed

theorem stored_metadata_is_redacted_witness:
  "\<exists>e d'. run_request (append_entry demo_audit_platform (demo_fresh 0) demo_payload) demo_audit_db = (Inr e, d')
     \<and> at_path [Key ''n''] (ale_metadata_json e) = Some (JInt 1)"
proof -
  obtain e d' where r: "run_request (append_entry demo_audit_platform (demo_fresh 0) demo_payload) demo_audit_db = (Inr e, d')"
    by (rule demo_append1)
  have "list_all (\<lambda>s. \<not> sensitive_step s) [Key ''n'']"
    "map_option sanitize_metadata (at_path [Key ''n''] (alc_metadata_json demo_payload)) = Some (JInt 1)"
    by code_simp+
  with stored_metadata_is_redacted [OF r] r show ?thesis by metis
qed

text \<open>
  Paging is a partition of the listing: for any filter the first k pages, one after the
  other, are the first k page sizes of the matching entries, newest first; every page reports
  the number of all matches, and a page is followed by another exactly when matches remain.
\<close>

theorem pages_partition_the_listing:
  assumes "0 < page_size" and "filter_known pf f"
  shows "\<exists>rows pages. rows = order_by_desc ale_sequence
      (filter (\<lambda>e. entry_matches pf f e \<and> search_matches actor search e) (audit_log_entries d))
    \<and> (\<forall>k. run_request (list_entries pf f actor search k page_size) d = (Inr (pages k, length rows), d))
    \<and> (\<forall>k. concat (map pages [1..<Suc k]) = map (\<lambda>e. entry_to_read e ''unverified'') (take (k * page_size) rows))
    \<and> (\<forall>k. has_next \<lparr>pg_items = pages k, pg_total = length rows, pg_page = k, pg_page_size = page_size\<rparr>
           \<longleftrightarrow> pages (Suc k) \<noteq> [])"
proof -
  define rows where "rows = order_by_desc ale_sequence
      (filter (\<lambda>e. entry_matches pf f e \<and> search_matches actor search e) (audit_log_entries d))"
  define pages where "pages k = map (\<lambda>e. entry_to_read e ''unverified'') (page_of k page_size rows)" for k
  have "run_request (list_entries pf f actor search k page_size) d = (Inr (pages k, length rows), d)" for k
    using assms(2) by (simp add: list_entries_def svc_simps Let_def pages_def rows_def order_by_desc_def)
  moreover have "concat (map pages [1..<Suc k]) = map (\<lambda>e. entry_to_read e ''unverified'') (take (k * page_size) rows)" for k
    using arg_cong [OF concat_pages [OF assms(1), of rows k], of "map (\<lambda>e. entry_to_read e ''unverified'')"]
    by (simp add: map_concat comp_def pages_def [abs_def] del: upt_Suc)
  moreover have "has_next \<lparr>pg_items = pages k, pg_total = length rows, pg_page = k, pg_page_size = page_size\<rparr>
      \<longleftrightarrow> pages (Suc k) \<noteq> []" for k
    using assms(1) by (auto simp: has_next_def pages_def page_of_def)
  ultimately show ?thesis using rows_def by blast
qed

text \<open>
  C32. An export never returns more than the cap, says so when rows are missing, and is the
  matching entries with the lowest sequence numbers, in order; on a log kept by the service
  everything it contains is already redacted.
\<close>

theorem export_is_bounded_and_redacted:
  assumes "audit_inv d" and "filter_known pf f"
  shows "\<exists>r. run_request (export_entries pf now f) d = (Inr r, d)
    \<and> aer_returned r = length (aer_entries r) \<and> aer_returned r \<le> EXPORT_MAX_ROWS
    \<and> aer_total r = length (filter (entry_matches pf f) (audit_log_entries d))
    \<and> (aer_truncated r \<longleftrightarrow> EXPORT_MAX_ROWS < aer_total r)
    \<and> aer_entries r = map (\<lambda>e. entry_to_read e ''unverified'')
        (take EXPORT_MAX_ROWS (filter (entry_matches pf f) (audit_log_entries d)))
    \<and> sorted_wrt (<) (map alr_sequence (aer_entries r))
    \<and> (\<forall>x \<in> set (aer_entries r). sanitize_metadata (alr_metadata_json x) = alr_metadata_json x)"
proof -
  let ?es = "filter (entry_matches pf f) (audit_log_entries d)"
  have sorted: "sorted_wrt (<) (map ale_sequence (audit_log_entries d))"
    using assms(1) by (simp add: audit_inv_def log_sorted_def)
  then have s: "sorted_wrt (<) (map ale_sequence ?es)" by (simp add: sorted_wrt_map sorted_wrt_filter)
  then have "sort_key ale_sequence ?es = ?es" by (intro sort_key_id_if_sorted) (simp add: strict_sorted_iff)
  moreover have "sorted_wrt (<) (map alr_sequence (map (\<lambda>e. entry_to_read e ''unverified'') (take EXPORT_MAX_ROWS ?es)))"
    using sorted_wrt_take [OF s, of EXPORT_MAX_ROWS] by (simp add: entry_to_read_def comp_def take_map)
  ultimately show ?thesis
    using assms by (auto simp: export_entries_def svc_simps Let_def entry_to_read_def audit_inv_def dest!: in_set_takeD)
qed

definition demo_no_filter :: entry_filter where
  "demo_no_filter = \<lparr>ef_severity = None, ef_event_type = None, ef_tenant_slug = None, ef_from_time = None, ef_to_time = None\<rparr>"

lemma demo_no_filter_matches: "filter_known pf demo_no_filter" "entry_matches pf demo_no_filter e"
  by (simp_all add: demo_no_filter_def filter_known_def entry_matches_def truthy_def)

theorem export_is_bounded_and_redacted_witness:
  "\<exists>e (d :: audit_db) r. audit_log_entries d = [e] \<and> run_request (export_entries demo_P 0 demo_no_filter) d = (Inr r, d)
     \<and> aer_entries r = [entry_to_read e ''unverified''] \<and> aer_total r = 1"
proof -
  obtain e :: AuditLogEntry and d :: audit_db where f: "audit_log_entries d = [e]" "audit_inv d"
    by (rule demo_first) blast
  from export_is_bounded_and_redacted [OF f(2) demo_no_filter_matches(1), of demo_P 0] f(1) show ?thesis
    by (auto simp: demo_no_filter_matches EXPORT_MAX_ROWS_def)
qed

theorem pages_partition_the_listing_witness:
  "\<exists>e (d :: audit_db) x. audit_log_entries d = [e]
     \<and> run_request (list_entries demo_P demo_no_filter None None 1 10) d = (Inr (x, 1), d)"
proof -
  obtain e :: AuditLogEntry and d :: audit_db where f: "audit_log_entries d = [e]" by (rule demo_first) blast
  have "(0::nat) < 10" by simp
  from pages_partition_the_listing [OF this demo_no_filter_matches(1), of demo_P None None d] f
  have "\<exists>x. run_request (list_entries demo_P demo_no_filter None None 1 10) d = (Inr (x, 1), d)"
    by (auto simp: demo_no_filter_matches order_by_desc_def search_matches_def truthy_def)
  with f show ?thesis by blast
qed

end
