(* ===== verification/Tenancy.thy ===== *)
theory Tenancy
  imports AuditLog
begin

text \<open>
  Tenants and their provisioning: \<^verbatim>\<open>src/app/schemas/tenancy.py\<close>,
  \<^verbatim>\<open>src/app/services/tenancy_service.py\<close> and \<^verbatim>\<open>src/app/api/v1/endpoints/tenancy.py\<close>, on the
  tables of theory \<open>TenancyModels\<close>. Arithmetic on doubles is a parameter \<open>fl\<close>: the sum, the
  quotient and \<^verbatim>\<open>round(x, 1)\<close>.
\<close>

section \<open>Schemas\<close>

record floats =
  fl_sum :: "rat list \<Rightarrow> rat"
  fl_div :: "rat \<Rightarrow> rat \<Rightarrow> rat"
  fl_round1 :: "rat \<Rightarrow> rat"

record TenantCreate =
  tc_slug :: string
  tc_org_id :: string
  tc_display_name :: string
  tc_tier :: TenantTier
  tc_isolation_mode :: IsolationMode
  tc_region :: string
  tc_db_schema_name :: string
  tc_network_cidr :: "string option"
  tc_network_vpc :: "string option"
  tc_network_shared :: bool
  tc_dek_label :: "string option"

text \<open>A field that was not sent is \<open>None\<close>; one sent as \<^verbatim>\<open>null\<close> is \<open>Some None\<close>.\<close>

record TenantUpdate =
  tu_display_name :: "string option option"
  tu_tier :: "TenantTier option option"
  tu_isolation_mode :: "IsolationMode option option"
  tu_region :: "string option option"
  tu_network_cidr :: "string option option"
  tu_network_vpc :: "string option option"
  tu_network_shared :: "bool option option"
  tu_dek_label :: "string option option"
  tu_db_schema_valid :: "bool option option"
  tu_encryption_valid :: "bool option option"
  tu_events_per_second :: "rat option option"

record TenantRead =
  tr_id :: uuid
  tr_slug :: string
  tr_org_id :: string
  tr_display_name :: string
  tr_tier :: string
  tr_isolation_mode :: string
  tr_status :: string
  tr_region :: string
  tr_db_schema_name :: string
  tr_db_schema_valid :: bool
  tr_network_cidr :: "string option"
  tr_network_vpc :: "string option"
  tr_network_shared :: bool
  tr_dek_label :: "string option"
  tr_encryption_valid :: bool
  tr_events_per_second :: rat
  tr_isolation_score :: nat
  tr_isolation_level :: string

record BreachAlertRead =
  bar_id :: uuid
  bar_severity :: string
  bar_title :: string
  bar_description :: string
  bar_source_tenant_slug :: "string option"
  bar_target_tenant_slug :: "string option"
  bar_resource :: "string option"
  bar_principal :: "string option"
  bar_action_taken :: "string option"
  bar_detected_at :: datetime
  bar_dismissed :: bool

record ProvisioningStepRead =
  psr_key :: string
  psr_label :: string
  psr_status :: string

record ProvisioningJobRead =
  pjr_id :: uuid
  pjr_tenant_slug :: string
  pjr_status :: string
  pjr_percent_complete :: nat
  pjr_steps :: "ProvisioningStepRead list"
  pjr_eta_seconds :: "int option"

record TenantSchemaValidationRead =
  tsr_tenant_slug :: string
  tsr_schema_name :: string
  tsr_schema_version :: string
  tsr_table_count :: "int option"
  tsr_status :: string
  tsr_detail :: "string option"
  tsr_validated_at :: datetime

record BackupSnapshotRead =
  bsr_tenant_slug :: string
  bsr_status :: string
  bsr_size_bytes :: "int option"
  bsr_taken_at :: "datetime option"
  bsr_age_hours :: "rat option"
  bsr_retention_days :: int
  bsr_retained_count :: int
  bsr_stale_reason :: "string option"

record IsolationSummary =
  iso_enforced :: nat
  iso_partial :: nat
  iso_breach :: nat
  iso_pending :: nat
  iso_total :: nat

record TenancyOverview =
  to_tenants :: "TenantRead list"
  to_isolation_summary :: IsolationSummary
  to_breach_alerts :: "BreachAlertRead list"
  to_active_provisioning :: "ProvisioningJobRead list"
  to_schema_validations :: "TenantSchemaValidationRead list"
  to_backup_snapshots :: "BackupSnapshotRead list"
  to_total_events_per_second :: rat

record TenantMemberCreate =
  tmc_user_id :: uuid
  tmc_role :: TenantMemberRole

record TenantMemberRead =
  tmr_id :: uuid
  tmr_tenant_id :: uuid
  tmr_user_id :: uuid
  tmr_email :: string
  tmr_display_name :: string
  tmr_role :: string
  tmr_created_at :: datetime

record TenantUsageSummary =
  tus_tenant_id :: uuid
  tus_slug :: string
  tus_display_name :: string
  tus_status :: string
  tus_member_count :: nat
  tus_events_per_second :: rat
  tus_provisioning_jobs_total :: nat
  tus_active_provisioning_jobs :: nat
  tus_schema_validations_total :: nat
  tus_backup_snapshots_total :: nat
  tus_current_backup_snapshots :: nat
  tus_isolation_score :: nat
  tus_isolation_level :: string

section \<open>Constraints of the tables\<close>

definition tenant_columns_ok :: "Tenant \<Rightarrow> bool" where
  "tenant_columns_ok t \<longleftrightarrow>
     text_fits_opt 80 (Some (t_slug t)) \<and> text_fits_opt 20 (Some (t_org_id t))
     \<and> text_fits_opt 120 (Some (t_display_name t)) \<and> text_fits_opt 40 (Some (t_region t))
     \<and> text_fits_opt 80 (Some (t_db_schema_name t)) \<and> text_fits_opt 40 (t_network_cidr t)
     \<and> text_fits_opt 30 (t_network_vpc t) \<and> text_fits_opt 60 (t_dek_label t)"

definition insert_tenant :: "Tenant \<Rightarrow> 'z tenancy_db_scheme \<Rightarrow> error + 'z tenancy_db_scheme" where
  "insert_tenant t d =
     (if \<not> tenant_columns_ok t then Inl (DataError ''tenants'')
      else if t_slug t \<in> t_slug ` set (tenants d) \<or> t_org_id t \<in> t_org_id ` set (tenants d)
      then Inl (IntegrityError ''tenants'')
      else (case insert_row t_id t (tenants d) of
              Inl e \<Rightarrow> Inl e
            | Inr ts \<Rightarrow> Inr (d\<lparr>tenants := ts\<rparr>)))"

definition insert_provisioning_job :: "TenantProvisioningJob \<Rightarrow> 'z tenancy_db_scheme \<Rightarrow> error + 'z tenancy_db_scheme" where
  "insert_provisioning_job j d =
     (if tpj_tenant_id j \<notin> t_id ` set (tenants d) then Inl (IntegrityError ''tenant_provisioning_jobs.tenant_id'')
      else (case insert_row tpj_id j (provisioning_jobs d) of
              Inl e \<Rightarrow> Inl e
            | Inr js \<Rightarrow> Inr (d\<lparr>provisioning_jobs := js\<rparr>)))"

definition insert_tenant_member :: "TenantMember \<Rightarrow> 'z tenancy_db_scheme \<Rightarrow> error + 'z tenancy_db_scheme" where
  "insert_tenant_member m d =
     (if tm_tenant_id m \<notin> t_id ` set (tenants d) \<or> tm_user_id m \<notin> u_id ` set (users d)
      then Inl (IntegrityError ''tenant_members'')
      else if \<exists>x \<in> set (tenant_members d). tm_tenant_id x = tm_tenant_id m \<and> tm_user_id x = tm_user_id m
      then Inl (IntegrityError ''uq_tenant_members_tenant_user'')
      else (case insert_row tm_id m (tenant_members d) of
              Inl e \<Rightarrow> Inl e
            | Inr ms \<Rightarrow> Inr (d\<lparr>tenant_members := ms\<rparr>)))"

section \<open>services/tenancy\_service.py\<close>

definition STEP_LABELS :: "string \<Rightarrow> string option" where
  "STEP_LABELS = map_of
     [(''org_namespace_created'', ''Org namespace created''),
      (''network_policy_applied'', ''VPC + network policy applied''),
      (''schema_migration'', ''Schema migration running''),
      (''dek_generation'', ''DEK generation & HSM binding''),
      (''isolation_validation'', ''Isolation boundary validation''),
      (''initial_snapshot'', ''Initial backup snapshot'')]"

definition STALE_SNAPSHOT_AFTER_HOURS :: int where
  "STALE_SNAPSHOT_AFTER_HOURS = 24"

definition tenant_to_read :: "Tenant \<Rightarrow> TenantRead" where
  "tenant_to_read tenant =
     \<lparr>tr_id = t_id tenant, tr_slug = t_slug tenant, tr_org_id = t_org_id tenant,
      tr_display_name = t_display_name tenant, tr_tier = TenantTier_value (t_tier tenant),
      tr_isolation_mode = IsolationMode_value (t_isolation_mode tenant),
      tr_status = TenantStatus_value (t_status tenant), tr_region = t_region tenant,
      tr_db_schema_name = t_db_schema_name tenant, tr_db_schema_valid = t_db_schema_valid tenant,
      tr_network_cidr = t_network_cidr tenant, tr_network_vpc = t_network_vpc tenant,
      tr_network_shared = t_network_shared tenant, tr_dek_label = t_dek_label tenant,
      tr_encryption_valid = t_encryption_valid tenant, tr_events_per_second = t_events_per_second tenant,
      tr_isolation_score = isolation_score tenant, tr_isolation_level = isolation_level tenant\<rparr>"

text \<open>The dictionary of counters starts at zero for the four levels the model knows.\<close>

definition isolation_summary :: "Tenant list \<Rightarrow> IsolationSummary" where
  "isolation_summary ts =
     (let counts = fold (\<lambda>tenant counts. counts(isolation_level tenant := counts (isolation_level tenant) + 1))
                     ts (\<lambda>_. 0 :: nat)
      in \<lparr>iso_enforced = counts ''strict'', iso_partial = counts ''partial'', iso_breach = counts ''breach'',
          iso_pending = counts ''pending'', iso_total = length ts\<rparr>)"

text \<open>The loop of \<^verbatim>\<open>provisioning_job_to_read\<close> over the steps, with its flag \<^verbatim>\<open>reached_current\<close>.\<close>

fun step_reads :: "TenantProvisioningJob \<Rightarrow> bool \<Rightarrow> string list \<Rightarrow> ProvisioningStepRead list" where
  "step_reads job reached_current [] = []"
| "step_reads job reached_current (step_key # rest) =
     (let (step_status, reached') =
        (if step_key \<in> set (tpj_completed_steps job) then (''done'', reached_current)
         else if \<not> reached_current \<and> tpj_current_step job = Some step_key then (''in_progress'', True)
         else if \<not> reached_current \<and> tpj_current_step job = None then (''pending'', reached_current)
         else (''pending'', reached_current))
      in \<lparr>psr_key = step_key, psr_label = the (STEP_LABELS step_key), psr_status = step_status\<rparr>
         # step_reads job reached' rest)"

definition provisioning_job_to_read :: "TenantProvisioningJob \<Rightarrow> string \<Rightarrow> ProvisioningJobRead" where
  "provisioning_job_to_read job tenant_slug =
     \<lparr>pjr_id = tpj_id job, pjr_tenant_slug = tenant_slug,
      pjr_status = ProvisioningJobStatus_value (tpj_status job), pjr_percent_complete = percent_complete job,
      pjr_steps = step_reads job False PROVISIONING_STEPS, pjr_eta_seconds = tpj_eta_seconds job\<rparr>"

text \<open>
  \<^verbatim>\<open>total_seconds()\<close> is the correctly rounded quotient of the microseconds, so its comparison
  with a whole number of seconds is that of the microseconds.
\<close>

definition effective_snapshot_status :: "TenantBackupSnapshot \<Rightarrow> datetime \<Rightarrow> string" where
  "effective_snapshot_status snapshot now =
     (if tbs_status snapshot = SnapshotStatus.PENDING then SnapshotStatus_value SnapshotStatus.PENDING
      else if (case tbs_taken_at snapshot of
                 None \<Rightarrow> False
               | Some taken_at \<Rightarrow> STALE_SNAPSHOT_AFTER_HOURS * 3600 * 1000000 < now - taken_at)
      then SnapshotStatus_value SnapshotStatus.STALE
      else SnapshotStatus_value SnapshotStatus.CURRENT)"

definition breach_alert_to_read :: "Tenant list \<Rightarrow> BreachAlert \<Rightarrow> BreachAlertRead" where
  "breach_alert_to_read ts a =
     (let slug_of = (\<lambda>i. case i of None \<Rightarrow> None | Some x \<Rightarrow> map_option t_slug (get_row t_id x ts)) in
      \<lparr>bar_id = ba_id a, bar_severity = BreachSeverity_value (ba_severity a), bar_title = ba_title a,
       bar_description = ba_description a, bar_source_tenant_slug = slug_of (ba_source_tenant_id a),
       bar_target_tenant_slug = slug_of (ba_target_tenant_id a), bar_resource = ba_resource a,
       bar_principal = ba_principal a, bar_action_taken = ba_action_taken a,
       bar_detected_at = ba_detected_at a, bar_dismissed = ba_dismissed a\<rparr>)"

definition schema_validation_to_read ::
  "Tenant list \<Rightarrow> TenantSchemaValidation \<Rightarrow> error + TenantSchemaValidationRead" where
  "schema_validation_to_read ts v =
     (case get_row t_id (tsv_tenant_id v) ts of
        None \<Rightarrow> Inl (AttributeError ''slug'')
      | Some t \<Rightarrow> Inr
          \<lparr>tsr_tenant_slug = t_slug t, tsr_schema_name = tsv_schema_name v,
           tsr_schema_version = tsv_schema_version v, tsr_table_count = tsv_table_count v,
           tsr_status = tsv_status v, tsr_detail = tsv_detail v, tsr_validated_at = tsv_validated_at v\<rparr>)"

definition backup_snapshot_to_read ::
  "floats \<Rightarrow> datetime \<Rightarrow> Tenant list \<Rightarrow> TenantBackupSnapshot \<Rightarrow> error + BackupSnapshotRead" where
  "backup_snapshot_to_read fl now ts s =
     (case get_row t_id (tbs_tenant_id s) ts of
        None \<Rightarrow> Inl (AttributeError ''slug'')
      | Some t \<Rightarrow> Inr
          \<lparr>bsr_tenant_slug = t_slug t, bsr_status = effective_snapshot_status s now,
           bsr_size_bytes = tbs_size_bytes s, bsr_taken_at = tbs_taken_at s,
           bsr_age_hours = map_option (\<lambda>taken_at.
             fl_round1 fl (fl_div fl (fl_div fl (of_int (now - taken_at)) 1000000) 3600)) (tbs_taken_at s),
           bsr_retention_days = tbs_retention_days s, bsr_retained_count = tbs_retained_count s,
           bsr_stale_reason = tbs_stale_reason s\<rparr>)"

definition get_tenancy_overview :: "floats \<Rightarrow> datetime \<Rightarrow> ('z tenancy_db_scheme, TenancyOverview) svc" where
  "get_tenancy_overview fl now =
     query_e (\<lambda>d.
       let ts = sort_key t_display_name (tenants d);
           alerts = order_by_desc ba_detected_at (filter (\<lambda>a. \<not> ba_dismissed a) (breach_alerts d));
           jobs = order_by_desc tpj_created_at (provisioning_jobs d);
           validations = take 20 (order_by_desc tsv_validated_at (schema_validations d));
           snapshots = backup_snapshots d
       in case map_e (schema_validation_to_read ts) validations of
            Inl e \<Rightarrow> Inl e
          | Inr vs \<Rightarrow>
              (case map_e (backup_snapshot_to_read fl now ts) snapshots of
                 Inl e \<Rightarrow> Inl e
               | Inr ss \<Rightarrow> Inr
                   \<lparr>to_tenants = map tenant_to_read ts, to_isolation_summary = isolation_summary ts,
                    to_breach_alerts = map (breach_alert_to_read ts) alerts,
                    to_active_provisioning = concat (map (\<lambda>j.
                      case get_row t_id (tpj_tenant_id j) ts of
                        None \<Rightarrow> []
                      | Some t \<Rightarrow> [provisioning_job_to_read j (t_slug t)]) jobs),
                    to_schema_validations = vs, to_backup_snapshots = ss,
                    to_total_events_per_second = fl_round1 fl (fl_sum fl (map t_events_per_second ts))\<rparr>))"

definition dismiss_breach_alert :: "datetime \<Rightarrow> uuid \<Rightarrow> ('z tenancy_db_scheme, BreachAlert) svc" where
  "dismiss_breach_alert now alert_id =
     bind_svc (query (\<lambda>d. get_row ba_id alert_id (breach_alerts d)))
     (\<lambda>alert. case alert of
        None \<Rightarrow> raise_svc (HTTPException 404 ''Alert not found'')
      | Some a \<Rightarrow>
          let dismiss = (\<lambda>a. a\<lparr>ba_dismissed := True, ba_dismissed_at := Some now\<rparr>) in
          bind_svc (modify_db (breach_alerts_update (update_where (\<lambda>a. ba_id a = alert_id) dismiss)))
          (\<lambda>_. bind_svc commit (\<lambda>_. return_svc (dismiss a))))"

text \<open>
  One step of a provisioning job; \<open>None\<close> when no step remains. The answer carries the tenant
  of the job as it is after the commit.
\<close>

definition advanced_job :: "TenantProvisioningJob \<Rightarrow> TenantProvisioningJob option" where
  "advanced_job job =
     (let remaining = filter (\<lambda>s. s \<notin> set (tpj_completed_steps job)) PROVISIONING_STEPS in
      case remaining of
        [] \<Rightarrow> None
      | completed_step # _ \<Rightarrow>
          let completed = tpj_completed_steps job @ [completed_step];
              still_remaining = filter (\<lambda>s. s \<notin> set completed) PROVISIONING_STEPS;
              job' = job\<lparr>tpj_completed_steps := completed, tpj_current_step := first_row still_remaining\<rparr>
          in Some (if still_remaining = [] then job'\<lparr>tpj_status := ProvisioningJobStatus.COMPLETE\<rparr> else job'))"

definition advance_provisioning_job ::
  "uuid \<Rightarrow> ('z tenancy_db_scheme, TenantProvisioningJob \<times> Tenant option) svc" where
  "advance_provisioning_job job_id =
     bind_svc (query_e (\<lambda>d. scalar_one_or_none (filter (\<lambda>j. tpj_id j = job_id) (provisioning_jobs d))))
     (\<lambda>found. case found of
        None \<Rightarrow> raise_svc (HTTPException 404 ''Provisioning job not found'')
      | Some job \<Rightarrow>
          (case advanced_job job of
             None \<Rightarrow> bind_svc (query (\<lambda>d. get_row t_id (tpj_tenant_id job) (tenants d)))
               (\<lambda>tenant. return_svc (job, tenant))
           | Some job' \<Rightarrow>
               bind_svc (modify_db (provisioning_jobs_update (update_where (\<lambda>j. tpj_id j = job_id) (\<lambda>_. job'))))
               (\<lambda>_. bind_svc
                  (if tpj_current_step job' = None
                   then modify_db (tenants_update (update_where (\<lambda>t. t_id t = tpj_tenant_id job)
                          (\<lambda>t. t\<lparr>t_status := TenantStatus.ACTIVE\<rparr>)))
                   else return_svc ())
               (\<lambda>_. bind_svc commit
               (\<lambda>_. bind_svc (query (\<lambda>d. get_row t_id (tpj_tenant_id job) (tenants d)))
               (\<lambda>tenant. return_svc (job', tenant)))))))"

definition list_tenants ::
  "nat \<Rightarrow> nat \<Rightarrow> TenantStatus option \<Rightarrow> string option \<Rightarrow> ('z tenancy_db_scheme, TenantRead list \<times> nat) svc" where
  "list_tenants page page_size status_filter search =
     query (\<lambda>d.
       let found = filter (\<lambda>t.
             (case status_filter of None \<Rightarrow> True | Some s \<Rightarrow> t_status t = s)
             \<and> (truthy search \<longrightarrow>
                  (let pattern = ''%'' @ the search @ ''%'' in
                   ilike pattern (t_display_name t) \<or> ilike pattern (t_slug t)))) (tenants d)
       in (map tenant_to_read (page_of page page_size (sort_key t_display_name found)), length found))"

definition get_tenant :: "uuid \<Rightarrow> ('z tenancy_db_scheme, Tenant) svc" where
  "get_tenant tenant_id =
     bind_svc (query (\<lambda>d. get_row t_id tenant_id (tenants d)))
     (\<lambda>tenant. case tenant of
        None \<Rightarrow> raise_svc (HTTPException 404 ''Tenant not found'')
      | Some t \<Rightarrow> return_svc t)"

text \<open>The random identifiers and the clock reading of a request.\<close>

record tenant_ids =
  ti_tenant :: uuid
  ti_job :: uuid
  ti_now :: datetime

definition new_tenant :: "tenant_ids \<Rightarrow> TenantCreate \<Rightarrow> Tenant" where
  "new_tenant ids payload =
     \<lparr>t_id = ti_tenant ids, t_slug = tc_slug payload, t_org_id = tc_org_id payload,
      t_display_name = tc_display_name payload, t_tier = tc_tier payload,
      t_isolation_mode = tc_isolation_mode payload, t_status = TenantStatus.PROVISIONING,
      t_region = tc_region payload, t_db_schema_name = tc_db_schema_name payload, t_db_schema_valid = False,
      t_network_cidr = tc_network_cidr payload, t_network_vpc = tc_network_vpc payload,
      t_network_shared = tc_network_shared payload, t_dek_label = tc_dek_label payload,
      t_encryption_valid = False, t_events_per_second = 0\<rparr>"

definition new_job :: "tenant_ids \<Rightarrow> TenantProvisioningJob" where
  "new_job ids =
     \<lparr>tpj_id = ti_job ids, tpj_tenant_id = ti_tenant ids, tpj_status = ProvisioningJobStatus.RUNNING,
      tpj_completed_steps = [], tpj_current_step = Some (PROVISIONING_STEPS ! 0), tpj_eta_seconds = None,
      tpj_created_at = ti_now ids\<rparr>"

text \<open>
  \<^verbatim>\<open>except IntegrityError\<close> around the flush turns that error, and no other, into a 409 after a
  rollback.
\<close>

definition flush_or_409 :: "('d \<Rightarrow> error + 'd) \<Rightarrow> string \<Rightarrow> ('d, unit) svc" where
  "flush_or_409 f detail s =
     (case flush f s of
        (Inl (IntegrityError _), s') \<Rightarrow> bind_svc rollback (\<lambda>_. raise_svc (HTTPException 409 detail)) s'
      | r \<Rightarrow> r)"

definition create_tenant :: "tenant_ids \<Rightarrow> TenantCreate \<Rightarrow> ('z tenancy_db_scheme, Tenant) svc" where
  "create_tenant ids payload =
     bind_svc (flush_or_409 (insert_tenant (new_tenant ids payload)) ''A tenant with this slug or org_id already exists'')
     (\<lambda>_. bind_svc (flush (insert_provisioning_job (new_job ids)))
     (\<lambda>_. bind_svc commit (\<lambda>_. return_svc (new_tenant ids payload))))"

text \<open>
  \<^verbatim>\<open>setattr\<close> for every field that was sent. A column declared NOT NULL refuses a field sent as
  \<^verbatim>\<open>null\<close> when the row is flushed.
\<close>

definition set_required :: "'a option option \<Rightarrow> 'a \<Rightarrow> 'a" where
  "set_required u old = (case u of Some (Some x) \<Rightarrow> x | _ \<Rightarrow> old)"

definition set_nullable :: "'a option option \<Rightarrow> 'a option \<Rightarrow> 'a option" where
  "set_nullable u old = (case u of Some x \<Rightarrow> x | None \<Rightarrow> old)"

definition apply_tenant_update :: "TenantUpdate \<Rightarrow> Tenant \<Rightarrow> Tenant" where
  "apply_tenant_update p t = t
     \<lparr>t_display_name := set_required (tu_display_name p) (t_display_name t),
      t_tier := set_required (tu_tier p) (t_tier t),
      t_isolation_mode := set_required (tu_isolation_mode p) (t_isolation_mode t),
      t_region := set_required (tu_region p) (t_region t),
      t_network_cidr := set_nullable (tu_network_cidr p) (t_network_cidr t),
      t_network_vpc := set_nullable (tu_network_vpc p) (t_network_vpc t),
      t_network_shared := set_required (tu_network_shared p) (t_network_shared t),
      t_dek_label := set_nullable (tu_dek_label p) (t_dek_label t),
      t_db_schema_valid := set_required (tu_db_schema_valid p) (t_db_schema_valid t),
      t_encryption_valid := set_required (tu_encryption_valid p) (t_encryption_valid t),
      t_events_per_second := set_required (tu_events_per_second p) (t_events_per_second t)\<rparr>"

definition nulls_required_column :: "TenantUpdate \<Rightarrow> bool" where
  "nulls_required_column p \<longleftrightarrow>
     tu_display_name p = Some None \<or> tu_tier p = Some None \<or> tu_isolation_mode p = Some None
     \<or> tu_region p = Some None \<or> tu_network_shared p = Some None \<or> tu_db_schema_valid p = Some None
     \<or> tu_encryption_valid p = Some None \<or> tu_events_per_second p = Some None"

definition update_tenant :: "uuid \<Rightarrow> TenantUpdate \<Rightarrow> ('z tenancy_db_scheme, Tenant) svc" where
  "update_tenant tenant_id payload =
     bind_svc (get_tenant tenant_id)
     (\<lambda>tenant. let tenant' = apply_tenant_update payload tenant in
        bind_svc (flush (\<lambda>d.
          if \<not> tenant_columns_ok tenant' then Inl (DataError ''tenants'')
          else if nulls_required_column payload then Inl (IntegrityError ''tenants: null value'')
          else Inr (tenants_update (update_where (\<lambda>t. t_id t = tenant_id) (apply_tenant_update payload)) d)))
        (\<lambda>_. bind_svc commit (\<lambda>_. return_svc tenant')))"

definition set_tenant_status :: "uuid \<Rightarrow> TenantStatus \<Rightarrow> ('z tenancy_db_scheme, Tenant) svc" where
  "set_tenant_status tenant_id new_status =
     bind_svc (get_tenant tenant_id)
     (\<lambda>tenant. bind_svc (modify_db (tenants_update (update_where (\<lambda>t. t_id t = tenant_id)
          (\<lambda>t. t\<lparr>t_status := new_status\<rparr>))))
     (\<lambda>_. bind_svc commit (\<lambda>_. return_svc (tenant\<lparr>t_status := new_status\<rparr>))))"

text \<open>
  Deleting a tenant deletes the rows the ORM cascades to and sets the other references to it
  to NULL: those of the breach alerts, those of the audit log, and, through \<open>unlink\<close>, those of
  the components that extend this database. Setting a reference of the audit log is an UPDATE,
  which the trigger of \<^verbatim>\<open>src/alembic/versions/20260703_0309_d45ebfc59718_audit_log_immutability_trigger.py\<close>
  refuses at the first row it meets.
\<close>

definition unset_ref :: "uuid \<Rightarrow> uuid option \<Rightarrow> uuid option" where
  "unset_ref i r = (if r = Some i then None else r)"

definition reject_audit_log_mutation :: "string \<Rightarrow> AuditLogEntry \<Rightarrow> error" where
  "reject_audit_log_mutation tg_op old =
     DatabaseError (''audit_log_entries is append-only: '' @ tg_op @ '' is not permitted (sequence=''
       @ show_int (ale_sequence old) @ '')'')"

definition unset_audit_tenant :: "uuid \<Rightarrow> AuditLogEntry list \<Rightarrow> error + AuditLogEntry list" where
  "unset_audit_tenant i es =
     (case filter (\<lambda>e. ale_tenant_id e = Some i) es of
        [] \<Rightarrow> Inr es
      | e # _ \<Rightarrow> Inl (reject_audit_log_mutation ''UPDATE'' e))"

definition unset_breach_tenant :: "uuid \<Rightarrow> BreachAlert \<Rightarrow> BreachAlert" where
  "unset_breach_tenant i a = a
     \<lparr>ba_source_tenant_id := unset_ref i (ba_source_tenant_id a),
      ba_target_tenant_id := unset_ref i (ba_target_tenant_id a)\<rparr>"

definition cascade_tenant :: "uuid \<Rightarrow> 'z audit_db_scheme \<Rightarrow> 'z audit_db_scheme" where
  "cascade_tenant i d = d
     \<lparr>tenant_members := delete_where (\<lambda>m. tm_tenant_id m = i) (tenant_members d),
      provisioning_jobs := delete_where (\<lambda>j. tpj_tenant_id j = i) (provisioning_jobs d),
      schema_validations := delete_where (\<lambda>v. tsv_tenant_id v = i) (schema_validations d),
      backup_snapshots := delete_where (\<lambda>b. tbs_tenant_id b = i) (backup_snapshots d)\<rparr>"

definition delete_tenant_row ::
  "(uuid \<Rightarrow> 'z audit_db_scheme \<Rightarrow> 'z audit_db_scheme) \<Rightarrow> uuid \<Rightarrow> 'z audit_db_scheme \<Rightarrow> error + 'z audit_db_scheme" where
  "delete_tenant_row unlink i d =
     (case unset_audit_tenant i (audit_log_entries d) of
        Inl e \<Rightarrow> Inl e
      | Inr es \<Rightarrow> Inr (unlink i (cascade_tenant i (d
          \<lparr>tenants := delete_where (\<lambda>t. t_id t = i) (tenants d),
           breach_alerts := map (unset_breach_tenant i) (breach_alerts d), audit_log_entries := es\<rparr>))))"

lemma unset_audit_tenant_Inr:
  "unset_audit_tenant i es = Inr es' \<longleftrightarrow> es' = es \<and> (\<forall>e \<in> set es. ale_tenant_id e \<noteq> Some i)"
proof (cases "filter (\<lambda>e. ale_tenant_id e = Some i) es")
  case Nil
  then show ?thesis by (auto simp: unset_audit_tenant_def filter_empty_conv)
next
  case (Cons e xs)
  then have "e \<in> set (filter (\<lambda>e. ale_tenant_id e = Some i) es)" by simp
  then have "e \<in> set es" "ale_tenant_id e = Some i" by simp_all
  with Cons show ?thesis by (auto simp: unset_audit_tenant_def)
qed

lemma delete_tenant_row_Inr:
  "delete_tenant_row unlink i d = Inr d' \<longleftrightarrow> (\<forall>e \<in> set (audit_log_entries d). ale_tenant_id e \<noteq> Some i)
     \<and> d' = unlink i (cascade_tenant i (d\<lparr>tenants := delete_where (\<lambda>t. t_id t = i) (tenants d),
           breach_alerts := map (unset_breach_tenant i) (breach_alerts d)\<rparr>))"
  by (auto simp: delete_tenant_row_def unset_audit_tenant_Inr split: sum.splits)
     (auto simp: unset_audit_tenant_def split: list.splits)

definition delete_tenant ::
  "(uuid \<Rightarrow> 'z audit_db_scheme \<Rightarrow> 'z audit_db_scheme) \<Rightarrow> uuid \<Rightarrow> ('z audit_db_scheme, unit) svc" where
  "delete_tenant unlink tenant_id =
     bind_svc (get_tenant tenant_id)
     (\<lambda>tenant. bind_svc (flush (delete_tenant_row unlink tenant_id)) (\<lambda>_. commit))"

definition tenant_member_to_read :: "User list \<Rightarrow> TenantMember \<Rightarrow> error + TenantMemberRead" where
  "tenant_member_to_read us member =
     (case get_row u_id (tm_user_id member) us of
        None \<Rightarrow> Inl (AttributeError ''email'')
      | Some user \<Rightarrow> Inr
          \<lparr>tmr_id = tm_id member, tmr_tenant_id = tm_tenant_id member, tmr_user_id = tm_user_id member,
           tmr_email = u_email user, tmr_display_name = u_display_name user,
           tmr_role = TenantMemberRole_value (tm_role member), tmr_created_at = tm_created_at member\<rparr>)"

definition list_tenant_members :: "uuid \<Rightarrow> ('z tenancy_db_scheme, TenantMemberRead list) svc" where
  "list_tenant_members tenant_id =
     bind_svc (get_tenant tenant_id)
     (\<lambda>_. query_e (\<lambda>d. map_e (tenant_member_to_read (users d))
        (sort_key tm_created_at (filter (\<lambda>m. tm_tenant_id m = tenant_id) (tenant_members d)))))"

definition add_tenant_member ::
  "uuid \<Rightarrow> datetime \<Rightarrow> uuid \<Rightarrow> TenantMemberCreate \<Rightarrow> ('z tenancy_db_scheme, TenantMemberRead) svc" where
  "add_tenant_member member_id now tenant_id payload =
     bind_svc (get_tenant tenant_id)
     (\<lambda>_. bind_svc (query (\<lambda>d. get_row u_id (tmc_user_id payload) (users d)))
     (\<lambda>user. if user = None then raise_svc (HTTPException 404 ''User not found'')
        else
          let member = \<lparr>tm_id = member_id, tm_tenant_id = tenant_id, tm_user_id = tmc_user_id payload,
                        tm_role = tmc_role payload, tm_created_at = now\<rparr> in
          bind_svc (flush_or_409 (insert_tenant_member member) ''User is already a member of this tenant'')
          (\<lambda>_. bind_svc commit
          (\<lambda>_. query_e (\<lambda>d. tenant_member_to_read (users d) member)))))"

definition remove_tenant_member :: "uuid \<Rightarrow> uuid \<Rightarrow> ('z tenancy_db_scheme, unit) svc" where
  "remove_tenant_member tenant_id user_id =
     bind_svc (query_e (\<lambda>d. scalar_one_or_none
       (filter (\<lambda>m. tm_tenant_id m = tenant_id \<and> tm_user_id m = user_id) (tenant_members d))))
     (\<lambda>member. case member of
        None \<Rightarrow> raise_svc (HTTPException 404 ''Tenant membership not found'')
      | Some m \<Rightarrow>
          bind_svc (modify_db (tenant_members_update (delete_where (\<lambda>x. tm_id x = tm_id m)))) (\<lambda>_. commit))"

definition get_tenant_usage :: "datetime \<Rightarrow> uuid \<Rightarrow> ('z tenancy_db_scheme, TenantUsageSummary) svc" where
  "get_tenant_usage now tenant_id =
     bind_svc (get_tenant tenant_id)
     (\<lambda>tenant. query (\<lambda>d.
        let stale_cutoff = now - STALE_SNAPSHOT_AFTER_HOURS * 3600 * 1000000 in
        \<lparr>tus_tenant_id = t_id tenant, tus_slug = t_slug tenant, tus_display_name = t_display_name tenant,
         tus_status = TenantStatus_value (t_status tenant),
         tus_member_count = length (filter (\<lambda>m. tm_tenant_id m = tenant_id) (tenant_members d)),
         tus_events_per_second = t_events_per_second tenant,
         tus_provisioning_jobs_total = length (filter (\<lambda>j. tpj_tenant_id j = tenant_id) (provisioning_jobs d)),
         tus_active_provisioning_jobs = length (filter (\<lambda>j. tpj_tenant_id j = tenant_id
           \<and> tpj_status j = ProvisioningJobStatus.RUNNING) (provisioning_jobs d)),
         tus_schema_validations_total = length (filter (\<lambda>v. tsv_tenant_id v = tenant_id) (schema_validations d)),
         tus_backup_snapshots_total = length (filter (\<lambda>s. tbs_tenant_id s = tenant_id) (backup_snapshots d)),
         tus_current_backup_snapshots = length (filter (\<lambda>s. tbs_tenant_id s = tenant_id
           \<and> tbs_status s \<noteq> SnapshotStatus.PENDING
           \<and> (case tbs_taken_at s of None \<Rightarrow> True | Some taken_at \<Rightarrow> stale_cutoff \<le> taken_at)) (backup_snapshots d)),
         tus_isolation_score = isolation_score tenant, tus_isolation_level = isolation_level tenant\<rparr>))"

section \<open>api/v1/endpoints/tenancy.py\<close>

text \<open>The guard runs first; \<open>pf\<close>, \<open>st\<close> and \<open>now\<close> are what it reads.\<close>

definition read_tenancy_overview ::
  "'p platform_scheme \<Rightarrow> Settings \<Rightarrow> datetime \<Rightarrow> floats \<Rightarrow> datetime \<Rightarrow> string option \<Rightarrow>
   ('z tenancy_db_scheme, TenancyOverview) svc" where
  "read_tenancy_overview pf st now fl now' cred =
     bind_svc (get_current_user pf st now cred) (\<lambda>_. get_tenancy_overview fl now')"

definition dismiss_alert ::
  "'p platform_scheme \<Rightarrow> Settings \<Rightarrow> datetime \<Rightarrow> datetime \<Rightarrow> uuid \<Rightarrow> string option \<Rightarrow> ('z tenancy_db_scheme, string) svc" where
  "dismiss_alert pf st now now' alert_id cred =
     bind_svc (require_admin pf st now cred)
     (\<lambda>_. bind_svc (dismiss_breach_alert now' alert_id) (\<lambda>_. return_svc ''Alert dismissed''))"

definition advance_provisioning ::
  "'p platform_scheme \<Rightarrow> Settings \<Rightarrow> datetime \<Rightarrow> uuid \<Rightarrow> string option \<Rightarrow> ('z tenancy_db_scheme, ProvisioningJobRead) svc" where
  "advance_provisioning pf st now job_id cred =
     bind_svc (require_admin pf st now cred)
     (\<lambda>_. bind_svc (advance_provisioning_job job_id)
     (\<lambda>(job, tenant). return_svc (provisioning_job_to_read job
        (case tenant of None \<Rightarrow> ''unknown'' | Some t \<Rightarrow> t_slug t))))"

definition read_tenants ::
  "'p platform_scheme \<Rightarrow> Settings \<Rightarrow> datetime \<Rightarrow> nat \<Rightarrow> nat \<Rightarrow> TenantStatus option \<Rightarrow> string option \<Rightarrow>
   string option \<Rightarrow> ('z tenancy_db_scheme, TenantRead Page) svc" where
  "read_tenants pf st now page page_size status_filter search cred =
     bind_svc (get_current_user pf st now cred)
     (\<lambda>_. validated (1 \<le> page \<and> 1 \<le> page_size \<and> page_size \<le> MAX_PAGE_SIZE st)
        (bind_svc (list_tenants page page_size status_filter search)
        (\<lambda>(items, total). return_svc
           \<lparr>pg_items = items, pg_total = total, pg_page = page, pg_page_size = page_size\<rparr>)))"

definition read_tenant ::
  "'p platform_scheme \<Rightarrow> Settings \<Rightarrow> datetime \<Rightarrow> uuid \<Rightarrow> string option \<Rightarrow> ('z tenancy_db_scheme, TenantRead) svc" where
  "read_tenant pf st now tenant_id cred =
     bind_svc (get_current_user pf st now cred)
     (\<lambda>_. bind_svc (get_tenant tenant_id) (\<lambda>tenant. return_svc (tenant_to_read tenant)))"

definition provision_tenant ::
  "'p platform_scheme \<Rightarrow> Settings \<Rightarrow> datetime \<Rightarrow> tenant_ids \<Rightarrow> TenantCreate \<Rightarrow> string option \<Rightarrow>
   ('z tenancy_db_scheme, TenantRead) svc" where
  "provision_tenant pf st now ids payload cred =
     bind_svc (require_admin pf st now cred)
     (\<lambda>_. bind_svc (create_tenant ids payload) (\<lambda>tenant. return_svc (tenant_to_read tenant)))"

definition patch_tenant ::
  "'p platform_scheme \<Rightarrow> Settings \<Rightarrow> datetime \<Rightarrow> uuid \<Rightarrow> TenantUpdate \<Rightarrow> string option \<Rightarrow>
   ('z tenancy_db_scheme, TenantRead) svc" where
  "patch_tenant pf st now tenant_id payload cred =
     bind_svc (get_current_user pf st now cred)
     (\<lambda>_. bind_svc (update_tenant tenant_id payload) (\<lambda>tenant. return_svc (tenant_to_read tenant)))"

definition activate_tenant ::
  "'p platform_scheme \<Rightarrow> Settings \<Rightarrow> datetime \<Rightarrow> uuid \<Rightarrow> string option \<Rightarrow> ('z tenancy_db_scheme, TenantRead) svc" where
  "activate_tenant pf st now tenant_id cred =
     bind_svc (require_admin pf st now cred)
     (\<lambda>_. bind_svc (set_tenant_status tenant_id TenantStatus.ACTIVE) (\<lambda>tenant. return_svc (tenant_to_read tenant)))"

definition deactivate_tenant ::
  "'p platform_scheme \<Rightarrow> Settings \<Rightarrow> datetime \<Rightarrow> uuid \<Rightarrow> string option \<Rightarrow> ('z tenancy_db_scheme, TenantRead) svc" where
  "deactivate_tenant pf st now tenant_id cred =
     bind_svc (require_admin pf st now cred)
     (\<lambda>_. bind_svc (set_tenant_status tenant_id TenantStatus.SUSPENDED) (\<lambda>tenant. return_svc (tenant_to_read tenant)))"

definition remove_tenant ::
  "'p platform_scheme \<Rightarrow> Settings \<Rightarrow> datetime \<Rightarrow> (uuid \<Rightarrow> 'z audit_db_scheme \<Rightarrow> 'z audit_db_scheme) \<Rightarrow> uuid \<Rightarrow>
   string option \<Rightarrow> ('z audit_db_scheme, string) svc" where
  "remove_tenant pf st now unlink tenant_id cred =
     bind_svc (require_admin pf st now cred)
     (\<lambda>_. bind_svc (delete_tenant unlink tenant_id) (\<lambda>_. return_svc ''Tenant deleted successfully''))"

definition read_tenant_members ::
  "'p platform_scheme \<Rightarrow> Settings \<Rightarrow> datetime \<Rightarrow> uuid \<Rightarrow> string option \<Rightarrow> ('z tenancy_db_scheme, TenantMemberRead list) svc" where
  "read_tenant_members pf st now tenant_id cred =
     bind_svc (require_admin pf st now cred) (\<lambda>_. list_tenant_members tenant_id)"

definition add_member ::
  "'p platform_scheme \<Rightarrow> Settings \<Rightarrow> datetime \<Rightarrow> uuid \<Rightarrow> datetime \<Rightarrow> uuid \<Rightarrow> TenantMemberCreate \<Rightarrow> string option \<Rightarrow>
   ('z tenancy_db_scheme, TenantMemberRead) svc" where
  "add_member pf st now member_id now' tenant_id payload cred =
     bind_svc (require_admin pf st now cred) (\<lambda>_. add_tenant_member member_id now' tenant_id payload)"

definition remove_member ::
  "'p platform_scheme \<Rightarrow> Settings \<Rightarrow> datetime \<Rightarrow> uuid \<Rightarrow> uuid \<Rightarrow> string option \<Rightarrow> ('z tenancy_db_scheme, string) svc" where
  "remove_member pf st now tenant_id user_id cred =
     bind_svc (require_admin pf st now cred)
     (\<lambda>_. bind_svc (remove_tenant_member tenant_id user_id) (\<lambda>_. return_svc ''Member removed from tenant''))"

definition read_tenant_usage ::
  "'p platform_scheme \<Rightarrow> Settings \<Rightarrow> datetime \<Rightarrow> datetime \<Rightarrow> uuid \<Rightarrow> string option \<Rightarrow>
   ('z tenancy_db_scheme, TenantUsageSummary) svc" where
  "read_tenant_usage pf st now now' tenant_id cred =
     bind_svc (get_current_user pf st now cred) (\<lambda>_. get_tenant_usage now' tenant_id)"

text \<open>The writing endpoints behind the administrator's guard; \<open>patch_tenant\<close> asks for any account only.\<close>

interpretation dismiss_alert_ep: admin_endpoint pf st now "dismiss_alert pf st now now' alert_id"
    "\<lambda>_. bind_svc (dismiss_breach_alert now' alert_id) (\<lambda>_. return_svc ''Alert dismissed'')"
  for pf :: "'p platform_scheme" and st now now' alert_id
  by unfold_locales (simp add: dismiss_alert_def)

interpretation advance_provisioning_ep: admin_endpoint pf st now "advance_provisioning pf st now job_id"
    "\<lambda>_. bind_svc (advance_provisioning_job job_id)
     (\<lambda>(job, tenant). return_svc (provisioning_job_to_read job
        (case tenant of None \<Rightarrow> ''unknown'' | Some t \<Rightarrow> t_slug t)))"
  for pf :: "'p platform_scheme" and st now job_id
  by unfold_locales (simp add: advance_provisioning_def)

interpretation provision_tenant_ep: admin_endpoint pf st now "provision_tenant pf st now ids payload"
    "\<lambda>_. bind_svc (create_tenant ids payload) (\<lambda>tenant. return_svc (tenant_to_read tenant))"
  for pf :: "'p platform_scheme" and st now ids payload
  by unfold_locales (simp add: provision_tenant_def)

interpretation activate_tenant_ep: admin_endpoint pf st now "activate_tenant pf st now tenant_id"
    "\<lambda>_. bind_svc (set_tenant_status tenant_id TenantStatus.ACTIVE) (\<lambda>tenant. return_svc (tenant_to_read tenant))"
  for pf :: "'p platform_scheme" and st now tenant_id
  by unfold_locales (simp add: activate_tenant_def)

interpretation deactivate_tenant_ep: admin_endpoint pf st now "deactivate_tenant pf st now tenant_id"
    "\<lambda>_. bind_svc (set_tenant_status tenant_id TenantStatus.SUSPENDED) (\<lambda>tenant. return_svc (tenant_to_read tenant))"
  for pf :: "'p platform_scheme" and st now tenant_id
  by unfold_locales (simp add: deactivate_tenant_def)

interpretation remove_tenant_ep: admin_endpoint pf st now "remove_tenant pf st now unlink tenant_id"
    "\<lambda>_. bind_svc (delete_tenant unlink tenant_id) (\<lambda>_. return_svc ''Tenant deleted successfully'')"
  for pf :: "'p platform_scheme" and st now unlink tenant_id
  by unfold_locales (simp add: remove_tenant_def)

interpretation add_member_ep: admin_endpoint pf st now "add_member pf st now member_id now' tenant_id payload"
    "\<lambda>_. add_tenant_member member_id now' tenant_id payload"
  for pf :: "'p platform_scheme" and st now member_id now' tenant_id payload
  by unfold_locales (simp add: add_member_def)

interpretation remove_member_ep: admin_endpoint pf st now "remove_member pf st now tenant_id user_id"
    "\<lambda>_. bind_svc (remove_tenant_member tenant_id user_id) (\<lambda>_. return_svc ''Member removed from tenant'')"
  for pf :: "'p platform_scheme" and st now tenant_id user_id
  by unfold_locales (simp add: remove_member_def)

section \<open>The invariant of the tables\<close>

text \<open>
  A job that the code made stands at some point of the list of steps: it has completed a
  prefix of it, works on the next step, and is complete when no step is left.
\<close>

definition job_ok :: "TenantProvisioningJob \<Rightarrow> bool" where
  "job_ok j \<longleftrightarrow>
     (let n = length (tpj_completed_steps j) in
      tpj_completed_steps j = take n PROVISIONING_STEPS
      \<and> tpj_current_step j = first_row (drop n PROVISIONING_STEPS)
      \<and> (tpj_status j = ProvisioningJobStatus.COMPLETE \<longleftrightarrow> n = length PROVISIONING_STEPS))"

definition tenancy_inv :: "'z audit_db_scheme \<Rightarrow> bool" where
  "tenancy_inv d \<longleftrightarrow>
     distinct (map t_id (tenants d)) \<and> distinct (map t_slug (tenants d)) \<and> distinct (map t_org_id (tenants d))
     \<and> distinct (map tm_id (tenant_members d))
     \<and> distinct (map (\<lambda>m. (tm_tenant_id m, tm_user_id m)) (tenant_members d))
     \<and> distinct (map tpj_id (provisioning_jobs d))
     \<and> tm_tenant_id ` set (tenant_members d) \<subseteq> t_id ` set (tenants d)
     \<and> tm_user_id ` set (tenant_members d) \<subseteq> u_id ` set (users d)
     \<and> tpj_tenant_id ` set (provisioning_jobs d) \<subseteq> t_id ` set (tenants d)
     \<and> tsv_tenant_id ` set (schema_validations d) \<subseteq> t_id ` set (tenants d)
     \<and> tbs_tenant_id ` set (backup_snapshots d) \<subseteq> t_id ` set (tenants d)
     \<and> (\<forall>a \<in> set (breach_alerts d). \<forall>i. ba_source_tenant_id a = Some i \<or> ba_target_tenant_id a = Some i
          \<longrightarrow> i \<in> t_id ` set (tenants d))
     \<and> (\<forall>e \<in> set (audit_log_entries d). \<forall>i. ale_tenant_id e = Some i \<longrightarrow> i \<in> t_id ` set (tenants d))
     \<and> list_all job_ok (provisioning_jobs d)"

text \<open>What the other components may do when a tenant goes: anything to their own tables.\<close>

definition unlink_law :: "(uuid \<Rightarrow> 'z audit_db_scheme \<Rightarrow> 'z audit_db_scheme) \<Rightarrow> bool" where
  "unlink_law unlink \<longleftrightarrow> (\<forall>i d. audit_db.truncate (unlink i d) = audit_db.truncate d)"

lemma tenancy_inv_truncate: "tenancy_inv (audit_db.truncate d) \<longleftrightarrow> tenancy_inv d"
  by (simp add: tenancy_inv_def audit_db.defs)

lemma insert_tenant_Inr:
  "insert_tenant t d = Inr d' \<longleftrightarrow> tenant_columns_ok t \<and> t_slug t \<notin> t_slug ` set (tenants d)
     \<and> t_org_id t \<notin> t_org_id ` set (tenants d) \<and> t_id t \<notin> t_id ` set (tenants d)
     \<and> d' = d\<lparr>tenants := tenants d @ [t]\<rparr>"
  by (auto simp: insert_tenant_def insert_row_def)

lemma insert_provisioning_job_Inr:
  "insert_provisioning_job j d = Inr d' \<longleftrightarrow> tpj_tenant_id j \<in> t_id ` set (tenants d)
     \<and> tpj_id j \<notin> tpj_id ` set (provisioning_jobs d) \<and> d' = d\<lparr>provisioning_jobs := provisioning_jobs d @ [j]\<rparr>"
  by (auto simp: insert_provisioning_job_def insert_row_def)

lemma insert_tenant_member_Inr:
  "insert_tenant_member m d = Inr d' \<longleftrightarrow> tm_tenant_id m \<in> t_id ` set (tenants d) \<and> tm_user_id m \<in> u_id ` set (users d)
     \<and> (tm_tenant_id m, tm_user_id m) \<notin> (\<lambda>x. (tm_tenant_id x, tm_user_id x)) ` set (tenant_members d)
     \<and> tm_id m \<notin> tm_id ` set (tenant_members d) \<and> d' = d\<lparr>tenant_members := tenant_members d @ [m]\<rparr>"
  by (auto simp: insert_tenant_member_def insert_row_def image_iff) metis+

lemmas insert_tenancy_Inr = insert_tenant_Inr insert_provisioning_job_Inr insert_tenant_member_Inr

lemma job_ok_new: "job_ok (new_job ids)"
  by (simp add: job_ok_def new_job_def PROVISIONING_STEPS_def first_row_def)

text \<open>Every position of the list of steps, with the job advanced from it.\<close>

lemma distinct_steps: "distinct PROVISIONING_STEPS"
  by (simp add: PROVISIONING_STEPS_def)

lemma remaining_steps: "filter (\<lambda>s. s \<notin> set (take n PROVISIONING_STEPS)) PROVISIONING_STEPS = drop n PROVISIONING_STEPS"
proof -
  have "filter (\<lambda>s. s \<notin> set (take n xs)) xs = drop n xs" if "distinct xs" for xs :: "string list"
  proof -
    have "filter (\<lambda>s. s \<notin> set (take n xs)) (take n xs @ drop n xs) = drop n xs"
      using that unfolding filter_append by (auto simp: filter_id_conv filter_empty_conv dest: in_set_takeD in_set_dropD)
        (metis IntI append_take_drop_id disjoint_iff distinct_append)
    then show ?thesis by simp
  qed
  then show ?thesis using distinct_steps by blast
qed

lemma advanced_job_run:
  assumes "job_ok j" and "n = length (tpj_completed_steps j)"
  shows "advanced_job j = (if n = length PROVISIONING_STEPS then None
    else Some (j\<lparr>tpj_completed_steps := take (Suc n) PROVISIONING_STEPS,
      tpj_current_step := first_row (drop (Suc n) PROVISIONING_STEPS),
      tpj_status := (if Suc n = length PROVISIONING_STEPS then ProvisioningJobStatus.COMPLETE else tpj_status j)\<rparr>))"
proof -
  have c: "tpj_completed_steps j = take n PROVISIONING_STEPS" and le: "n \<le> length PROVISIONING_STEPS"
    using assms by (auto simp: job_ok_def Let_def) (metis length_take min.cobounded1 nat_le_linear min_def)
  show ?thesis
  proof (cases "n = length PROVISIONING_STEPS")
    case True
    then show ?thesis by (simp add: advanced_job_def c)
  next
    case False
    with le have lt: "n < length PROVISIONING_STEPS" by simp
    then have d: "drop n PROVISIONING_STEPS = PROVISIONING_STEPS ! n # drop (Suc n) PROVISIONING_STEPS"
      by (simp add: Cons_nth_drop_Suc)
    have t: "take n PROVISIONING_STEPS @ [PROVISIONING_STEPS ! n] = take (Suc n) PROVISIONING_STEPS"
      using lt by (simp add: take_Suc_conv_app_nth)
    have r: "filter (\<lambda>s. s \<notin> set (take n PROVISIONING_STEPS @ [PROVISIONING_STEPS ! n])) PROVISIONING_STEPS
        = drop (Suc n) PROVISIONING_STEPS"
      unfolding t by (rule remaining_steps)
    have e: "drop (Suc n) PROVISIONING_STEPS = [] \<longleftrightarrow> Suc n = length PROVISIONING_STEPS" using lt by auto
    show ?thesis
      using lt unfolding advanced_job_def Let_def c remaining_steps d list.case r
      by (simp add: t e)
  qed
qed

lemma advanced_job_ok:
  assumes "job_ok j" and "advanced_job j = Some j'"
  shows "job_ok j' \<and> tpj_id j' = tpj_id j \<and> tpj_tenant_id j' = tpj_tenant_id j
    \<and> length (tpj_completed_steps j') = Suc (length (tpj_completed_steps j))"
proof -
  let ?n = "length (tpj_completed_steps j)"
  have n: "?n \<noteq> length PROVISIONING_STEPS"
    and j': "j' = j\<lparr>tpj_completed_steps := take (Suc ?n) PROVISIONING_STEPS,
      tpj_current_step := first_row (drop (Suc ?n) PROVISIONING_STEPS),
      tpj_status := (if Suc ?n = length PROVISIONING_STEPS then ProvisioningJobStatus.COMPLETE else tpj_status j)\<rparr>"
    using assms(2) unfolding advanced_job_run [OF assms(1) refl] by (auto split: if_splits)
  have "tpj_completed_steps j = take ?n PROVISIONING_STEPS" using assms(1) by (simp add: job_ok_def Let_def)
  then have "?n \<le> length PROVISIONING_STEPS" by (metis length_take min.cobounded1)
  with n assms(1) show ?thesis by (auto simp: j' job_ok_def Let_def)
qed

lemma tenancy_inv_insert_tenant: "tenancy_inv d \<Longrightarrow> insert_tenant t d = Inr d' \<Longrightarrow> tenancy_inv d'"
  by (auto simp: insert_tenancy_Inr tenancy_inv_def)

lemma tenancy_inv_insert_job:
  "tenancy_inv d \<Longrightarrow> job_ok j \<Longrightarrow> insert_provisioning_job j d = Inr d' \<Longrightarrow> tenancy_inv d'"
  by (simp add: insert_tenancy_Inr tenancy_inv_def)

lemma tenancy_inv_insert_member: "tenancy_inv d \<Longrightarrow> insert_tenant_member m d = Inr d' \<Longrightarrow> tenancy_inv d'"
  by (simp add: insert_tenancy_Inr tenancy_inv_def)

lemma tenancy_inv_tenants:
  assumes "tenancy_inv d" and "\<And>t. t_id (f t) = t_id t" "\<And>t. t_slug (f t) = t_slug t" "\<And>t. t_org_id (f t) = t_org_id t"
  shows "tenancy_inv (tenants_update (update_where P f) d)"
proof -
  have "t_id ` set (update_where P f (tenants d)) = t_id ` set (tenants d)" by (rule ids_update_where) (rule assms)
  with assms show ?thesis by (simp add: tenancy_inv_def map_update_where)
qed

lemma tenancy_inv_jobs:
  assumes "tenancy_inv d" and "\<And>j. j \<in> set (provisioning_jobs d) \<Longrightarrow> P j \<Longrightarrow> job_ok (f j) \<and> tpj_id (f j) = tpj_id j \<and> tpj_tenant_id (f j) = tpj_tenant_id j"
  shows "tenancy_inv (provisioning_jobs_update (update_where P f) d)"
proof -
  have m: "map k (update_where P f (provisioning_jobs d)) = map k (provisioning_jobs d)"
    if "k = tpj_id \<or> k = tpj_tenant_id" for k
    using that assms(2) by (auto simp: update_where_def)
  have "tpj_tenant_id ` set (update_where P f (provisioning_jobs d)) = tpj_tenant_id ` set (provisioning_jobs d)"
    using m [of tpj_tenant_id] by (metis set_map)
  moreover have "list_all job_ok (update_where P f (provisioning_jobs d))"
    using assms by (auto simp: list_all_iff update_where_def tenancy_inv_def)
  ultimately show ?thesis using assms(1) m by (simp add: tenancy_inv_def)
qed

lemma tenancy_inv_alerts:
  assumes "tenancy_inv d" and "\<And>a. ba_source_tenant_id (f a) = ba_source_tenant_id a" "\<And>a. ba_target_tenant_id (f a) = ba_target_tenant_id a"
  shows "tenancy_inv (breach_alerts_update (update_where P f) d)"
  using assms by (auto simp: tenancy_inv_def set_update_where)

lemma distinct_delete_where: "distinct (map k rs) \<Longrightarrow> distinct (map k (delete_where P rs))"
  by (simp add: delete_where_def distinct_map_filter)

lemma tenancy_inv_members: "tenancy_inv d \<Longrightarrow> tenancy_inv (tenant_members_update (delete_where P) d)"
  by (simp add: tenancy_inv_def distinct_delete_where) (auto simp: delete_where_def)

lemma tenancy_inv_delete:
  assumes "tenancy_inv d" and "unlink_law unlink" and "delete_tenant_row unlink i d = Inr d'"
  shows "tenancy_inv d'"
proof -
  define d1 where "d1 = cascade_tenant i (d\<lparr>tenants := delete_where (\<lambda>t. t_id t = i) (tenants d),
           breach_alerts := map (unset_breach_tenant i) (breach_alerts d)\<rparr>)"
  have ids: "t_id ` set (delete_where (\<lambda>t. t_id t = i) (tenants d)) = t_id ` set (tenants d) - {i}"
    by (auto simp: delete_where_def)
  have refs: "k ` set (delete_where (\<lambda>x. k x = i) rs) = k ` set rs - {i}" for k :: "'r \<Rightarrow> uuid" and rs
    by (auto simp: delete_where_def)
  have none: "\<forall>e \<in> set (audit_log_entries d). ale_tenant_id e \<noteq> Some i" and d': "d' = unlink i d1"
    using assms(3) by (simp_all add: delete_tenant_row_Inr d1_def)
  have users: "tm_user_id ` set (delete_where (\<lambda>m. tm_tenant_id m = i) (tenant_members d)) \<subseteq> u_id ` set (users d)"
    and jobs: "list_all job_ok (delete_where (\<lambda>j. tpj_tenant_id j = i) (provisioning_jobs d))"
    using assms(1) by (auto simp: delete_where_def list_all_iff tenancy_inv_def)
  have "tenancy_inv d1"
    using assms(1) none users jobs
    unfolding tenancy_inv_def d1_def cascade_tenant_def unset_breach_tenant_def
    by (simp add: distinct_delete_where ids refs unset_ref_def Diff_mono) auto
  then show ?thesis using assms(2) unfolding d' unlink_law_def by (metis tenancy_inv_truncate)
qed

section \<open>Requests\<close>

lemma keeps_flush_or_409:
  "(\<And>d d'. I d \<Longrightarrow> f d = Inr d' \<Longrightarrow> I d') \<Longrightarrow> keeps I (flush_or_409 f detail)"
  by (auto simp: keeps_def flush_or_409_def svc_simps split: sum.splits error.splits)

lemma uncommitting_flush_or_409 [intro, simp]: "uncommitting (flush_or_409 f detail)"
  by (auto simp: uncommitting_def flush_or_409_def svc_simps split: sum.splits error.splits)

lemma keeps_get_tenant: "keeps I (get_tenant i)"
  unfolding get_tenant_def by (intro keeps_rules)

lemma keeps_tenancy_flush:
  "keeps tenancy_inv (flush_or_409 (insert_tenant t) detail)" "keeps tenancy_inv (flush_or_409 (insert_tenant_member m) detail)"
  "keeps tenancy_inv (flush (insert_provisioning_job (new_job ids)))"
  using tenancy_inv_insert_tenant tenancy_inv_insert_member tenancy_inv_insert_job job_ok_new
  by (intro keeps_flush_or_409 keeps_flush; blast)+

lemma keeps_tenancy:
  "keeps tenancy_inv (create_tenant ids payload)" "keeps tenancy_inv (set_tenant_status i st)"
  "keeps tenancy_inv (dismiss_breach_alert now a)" "keeps tenancy_inv (add_tenant_member mid now i mc)"
  "keeps tenancy_inv (remove_tenant_member i u)"
  unfolding create_tenant_def set_tenant_status_def dismiss_breach_alert_def add_tenant_member_def
    remove_tenant_member_def Let_def
  by (intro keeps_rules keeps_get_tenant keeps_tenancy_flush keeps_modify tenancy_inv_tenants tenancy_inv_alerts
      tenancy_inv_members; simp)+

lemma keeps_update_tenant: "keeps tenancy_inv (update_tenant i payload)"
  unfolding update_tenant_def Let_def
  by (intro keeps_rules keeps_get_tenant keeps_flush)
     (auto simp: apply_tenant_update_def intro!: tenancy_inv_tenants split: if_splits)

lemma keeps_delete_tenant: "unlink_law unlink \<Longrightarrow> keeps tenancy_inv (delete_tenant unlink i)"
  unfolding delete_tenant_def
  by (intro keeps_rules keeps_get_tenant keeps_flush) (rule tenancy_inv_delete)

text \<open>The database after one step of a job.\<close>

definition job_stepped :: "TenantProvisioningJob \<Rightarrow> TenantProvisioningJob \<Rightarrow> 'z tenancy_db_scheme \<Rightarrow> 'z tenancy_db_scheme" where
  "job_stepped j j' d =
     (let d1 = provisioning_jobs_update (update_where (\<lambda>x. tpj_id x = tpj_id j) (\<lambda>_. j')) d in
      if tpj_current_step j' = None
      then tenants_update (update_where (\<lambda>t. t_id t = tpj_tenant_id j) (\<lambda>t. t\<lparr>t_status := TenantStatus.ACTIVE\<rparr>)) d1
      else d1)"

lemma advance_run:
  assumes "distinct (map tpj_id (provisioning_jobs d))"
  shows "run_request (advance_provisioning_job i) d =
    (case get_row tpj_id i (provisioning_jobs d) of
       None \<Rightarrow> (Inl (HTTPException 404 ''Provisioning job not found''), d)
     | Some j \<Rightarrow>
         (case advanced_job j of
            None \<Rightarrow> (Inr (j, get_row t_id (tpj_tenant_id j) (tenants d)), d)
          | Some j' \<Rightarrow> (Inr (j', get_row t_id (tpj_tenant_id j) (tenants (job_stepped j j' d))), job_stepped j j' d)))"
proof -
  note q = scalar_by_unique_key [OF assms, of i, folded get_row_def]
  show ?thesis
    by (auto simp: advance_provisioning_job_def svc_simps q job_stepped_def Let_def split: option.splits
        dest!: get_row_Some)
qed

lemma job_stepped_inv:
  assumes "tenancy_inv d" and "j \<in> set (provisioning_jobs d)" and "advanced_job j = Some j'"
  shows "tenancy_inv (job_stepped j j' d)"
proof -
  have ok: "job_ok j" using assms(1,2) by (auto simp: tenancy_inv_def list_all_iff)
  note adv = advanced_job_ok [OF ok assms(3)]
  have "tenancy_inv (provisioning_jobs_update (update_where (\<lambda>x. tpj_id x = tpj_id j) (\<lambda>_. j')) d)"
  proof (rule tenancy_inv_jobs [OF assms(1)])
    fix x
    assume "x \<in> set (provisioning_jobs d)" "tpj_id x = tpj_id j"
    then have "x = j" using assms(1,2) by (auto simp: tenancy_inv_def distinct_map dest: inj_onD)
    with adv show "job_ok j' \<and> tpj_id j' = tpj_id x \<and> tpj_tenant_id j' = tpj_tenant_id x" by simp
  qed
  then show ?thesis by (auto simp: job_stepped_def Let_def intro: tenancy_inv_tenants)
qed

lemma advance_keeps: "tenancy_inv d \<Longrightarrow> tenancy_inv (snd (run_request (advance_provisioning_job i) d))"
  by (subst advance_run) (auto simp: tenancy_inv_def [of d] split: option.splits dest!: get_row_Some intro: job_stepped_inv)

inductive tenancy_step :: "(uuid \<Rightarrow> 'z audit_db_scheme \<Rightarrow> 'z audit_db_scheme) \<Rightarrow> 'z audit_db_scheme \<Rightarrow> 'z audit_db_scheme \<Rightarrow> bool"
  for unlink :: "uuid \<Rightarrow> 'z audit_db_scheme \<Rightarrow> 'z audit_db_scheme" where
  step_create: "tenancy_step unlink d (snd (run_request (create_tenant ids payload) d))"
| step_update: "tenancy_step unlink d (snd (run_request (update_tenant i upd) d))"
| step_status: "tenancy_step unlink d (snd (run_request (set_tenant_status i st) d))"
| step_delete: "tenancy_step unlink d (snd (run_request (delete_tenant unlink i) d))"
| step_advance: "tenancy_step unlink d (snd (run_request (advance_provisioning_job j) d))"
| step_dismiss: "tenancy_step unlink d (snd (run_request (dismiss_breach_alert now a) d))"
| step_add_member: "tenancy_step unlink d (snd (run_request (add_tenant_member mid now i mc) d))"
| step_remove_member: "tenancy_step unlink d (snd (run_request (remove_tenant_member i u) d))"

text \<open>What a successful creation leaves behind.\<close>

lemma create_tenant_run:
  assumes "run_request (create_tenant ids payload) d = (Inr t, d')"
  shows "t = new_tenant ids payload"
    and "d' = d\<lparr>tenants := tenants d @ [t], provisioning_jobs := provisioning_jobs d @ [new_job ids]\<rparr>"
    and "ti_tenant ids \<notin> t_id ` set (tenants d)" and "ti_job ids \<notin> tpj_id ` set (provisioning_jobs d)"
proof -
  obtain d1 where "insert_tenant (new_tenant ids payload) d = Inr d1" "insert_provisioning_job (new_job ids) d1 = Inr d'"
      "t = new_tenant ids payload"
    using assms by (auto simp: create_tenant_def flush_or_409_def svc_simps split: sum.splits error.splits)
  then show "t = new_tenant ids payload"
    "d' = d\<lparr>tenants := tenants d @ [t], provisioning_jobs := provisioning_jobs d @ [new_job ids]\<rparr>"
    "ti_tenant ids \<notin> t_id ` set (tenants d)" "ti_job ids \<notin> tpj_id ` set (provisioning_jobs d)"
    by (auto simp: insert_tenancy_Inr new_tenant_def new_job_def)
qed

text \<open>A job at position \<open>n\<close> of its steps, and the tenant it provisions.\<close>

definition provisioned :: "uuid \<Rightarrow> Tenant \<Rightarrow> nat \<Rightarrow> 'z tenancy_db_scheme \<Rightarrow> bool" where
  "provisioned job_id t n d \<longleftrightarrow>
     (\<exists>j. get_row tpj_id job_id (provisioning_jobs d) = Some j \<and> tpj_tenant_id j = t_id t
        \<and> tpj_completed_steps j = take n PROVISIONING_STEPS
        \<and> tpj_status j = (if n < length PROVISIONING_STEPS then ProvisioningJobStatus.RUNNING
                           else ProvisioningJobStatus.COMPLETE))
     \<and> get_row t_id (t_id t) (tenants d)
       = Some (if n < length PROVISIONING_STEPS then t else t\<lparr>t_status := TenantStatus.ACTIVE\<rparr>)"

lemma first_row_drop: "first_row (drop n xs) = None \<longleftrightarrow> length xs \<le> n"
  by (auto simp: first_row_def split: list.splits)

lemma get_row_replace:
  "i \<in> pk ` set rs \<Longrightarrow> pk r' = i \<Longrightarrow> get_row pk i (update_where (\<lambda>x. pk x = i) (\<lambda>_. r') rs) = Some r'"
  by (induction rs) (auto simp: get_row_def)

lemma provisioned_step:
  assumes "tenancy_inv d" and "provisioned job_id t n d"
  shows "provisioned job_id t (Suc n) (snd (run_request (advance_provisioning_job job_id) d))"
proof -
  let ?N = "length PROVISIONING_STEPS"
  obtain j where j: "get_row tpj_id job_id (provisioning_jobs d) = Some j" "tpj_tenant_id j = t_id t"
      "tpj_completed_steps j = take n PROVISIONING_STEPS"
      "tpj_status j = (if n < ?N then ProvisioningJobStatus.RUNNING else ProvisioningJobStatus.COMPLETE)"
    and t: "get_row t_id (t_id t) (tenants d) = Some (if n < ?N then t else t\<lparr>t_status := TenantStatus.ACTIVE\<rparr>)"
    using assms(2) by (auto simp: provisioned_def)
  have mem: "j \<in> set (provisioning_jobs d)" "tpj_id j = job_id" using get_row_Some [OF j(1)] by auto
  have ok: "job_ok j" using assms(1) mem by (auto simp: tenancy_inv_def list_all_iff)
  have dist: "distinct (map tpj_id (provisioning_jobs d))" using assms(1) by (simp add: tenancy_inv_def)
  note run = advance_run [OF dist, of job_id, unfolded j(1) option.case]
  show ?thesis
  proof (cases "n < ?N")
    case False
    then have "advanced_job j = None" using advanced_job_run [OF ok refl] j(3) by simp
    with run j t False show ?thesis by (simp add: provisioned_def)
  next
    case True
    define j' where "j' = j\<lparr>tpj_completed_steps := take (Suc n) PROVISIONING_STEPS,
      tpj_current_step := first_row (drop (Suc n) PROVISIONING_STEPS),
      tpj_status := (if Suc n = ?N then ProvisioningJobStatus.COMPLETE else tpj_status j)\<rparr>"
    have adv: "advanced_job j = Some j'" using advanced_job_run [OF ok refl] j(3) True by (simp add: j'_def)
    have id: "tpj_id j' = tpj_id j" using advanced_job_ok [OF ok adv] by simp
    have "get_row tpj_id job_id (provisioning_jobs (job_stepped j j' d)) = Some j'"
      using get_row_replace [of job_id tpj_id "provisioning_jobs d" j'] mem id by (auto simp: job_stepped_def Let_def)
    moreover have "get_row t_id (t_id t) (tenants (job_stepped j j' d))
        = Some (if Suc n < ?N then t else t\<lparr>t_status := TenantStatus.ACTIVE\<rparr>)"
      using t True j(2) by (auto simp: job_stepped_def Let_def j'_def first_row_drop get_row_update_where)
    ultimately show ?thesis using run adv j True by (auto simp: provisioned_def j'_def)
  qed
qed

text \<open>No request of this component writes to the audit log.\<close>

lemma keeps_log:
  "keeps (\<lambda>d. audit_log_entries d = es) (create_tenant ids payload)"
  "keeps (\<lambda>d. audit_log_entries d = es) (update_tenant i upd)"
  "keeps (\<lambda>d. audit_log_entries d = es) (set_tenant_status i st)"
  "keeps (\<lambda>d. audit_log_entries d = es) (advance_provisioning_job j)"
  "keeps (\<lambda>d. audit_log_entries d = es) (dismiss_breach_alert now a)"
  "keeps (\<lambda>d. audit_log_entries d = es) (add_tenant_member mid now i mc)"
  "keeps (\<lambda>d. audit_log_entries d = es) (remove_tenant_member i u)"
  unfolding create_tenant_def update_tenant_def set_tenant_status_def advance_provisioning_job_def dismiss_breach_alert_def
    add_tenant_member_def remove_tenant_member_def Let_def
  by (intro keeps_rules keeps_get_tenant keeps_flush_or_409 keeps_flush keeps_modify;
      (auto simp: insert_tenancy_Inr split: if_splits; fail)?)+

lemma keeps_log_delete:
  assumes "unlink_law unlink"
  shows "keeps (\<lambda>d. audit_log_entries d = es) (delete_tenant unlink i)"
proof -
  have "audit_log_entries (unlink i d) = audit_log_entries d" for i d
    using assms unfolding unlink_law_def by (metis audit_db.truncate_def audit_db.select_convs(1))
  then show ?thesis
    unfolding delete_tenant_def
    by (intro keeps_rules keeps_get_tenant keeps_flush) (auto simp: delete_tenant_row_Inr cascade_tenant_def)
qed

section \<open>A concrete database\<close>

definition demo_snapshot :: "uuid \<Rightarrow> datetime option \<Rightarrow> TenantBackupSnapshot" where
  "demo_snapshot n taken = \<lparr>tbs_id = n, tbs_tenant_id = 5, tbs_status = SnapshotStatus.CURRENT, tbs_size_bytes = None,
     tbs_taken_at = taken, tbs_retention_days = 30, tbs_retained_count = 0, tbs_stale_reason = None\<rparr>"

definition demo_tenants_db :: audit_db where
  "demo_tenants_db = demo_audit_db\<lparr>backup_snapshots := [demo_snapshot 1 (Some 0), demo_snapshot 2 (Some 86400000001)]\<rparr>"

definition demo_floats :: floats where
  "demo_floats = \<lparr>fl_sum = sum_list, fl_div = (/), fl_round1 = (\<lambda>x. of_int (round (10 * x)) / 10)\<rparr>"

definition demo_tenant_ids :: tenant_ids where
  "demo_tenant_ids = \<lparr>ti_tenant = 6, ti_job = 7, ti_now = 0\<rparr>"

definition demo_tenant_create :: TenantCreate where
  "demo_tenant_create = \<lparr>tc_slug = ''beta'', tc_org_id = ''ORG-2'', tc_display_name = ''Beta'', tc_tier = TenantTier.STANDARD,
     tc_isolation_mode = IsolationMode.STRICT, tc_region = ''eu'', tc_db_schema_name = ''beta'', tc_network_cidr = None,
     tc_network_vpc = None, tc_network_shared = False, tc_dek_label = None\<rparr>"

lemma demo_tenancy_inv: "tenancy_inv demo_audit_db" "tenancy_inv demo_tenants_db"
  by (simp_all add: tenancy_inv_def demo_tenants_db_def demo_audit_db_def demo_tenancy_db_def demo_snapshot_def
      rbac_db.defs tenancy_db.defs audit_db.defs)

lemma demo_unlink_law: "unlink_law (\<lambda>_ d. d)"
  by (simp add: unlink_law_def)

lemma demo_create_tenant:
  obtains t d where "run_request (create_tenant demo_tenant_ids demo_tenant_create) demo_audit_db = (Inr t, d)"
proof -
  have "\<not> isl (fst (run_request (create_tenant demo_tenant_ids demo_tenant_create) demo_audit_db))" by code_simp
  then obtain t where "fst (run_request (create_tenant demo_tenant_ids demo_tenant_create) demo_audit_db) = Inr t"
    by (metis sum.collapse(2))
  then show thesis using that by (metis prod.collapse)
qed

section \<open>Properties\<close>

text \<open>
  C33. Every request of the tenancy API, whether it succeeds or fails, leaves the tables
  consistent: slugs, organisation identifiers and memberships stay unique, no row refers to a
  tenant or user that does not exist (deletion of a tenant included), and every provisioning
  job stands at a well-defined position of the list of steps.
\<close>

theorem tenancy_requests_keep_integrity:
  assumes "unlink_law unlink" and "tenancy_step unlink d d'" and "tenancy_inv d"
  shows "tenancy_inv d'"
  using assms(2,3)
  by (cases rule: tenancy_step.cases)
     (auto intro: keeps_run keeps_tenancy keeps_update_tenant keeps_delete_tenant [OF assms(1)] advance_keeps)

theorem tenancy_requests_keep_integrity_witness:
  "tenancy_inv (snd (run_request (delete_tenant (\<lambda>_ d. d) 5) demo_tenants_db))"
  by (rule tenancy_requests_keep_integrity [OF demo_unlink_law step_delete demo_tenancy_inv(2)])

text \<open>
  C34. Provisioning makes progress and ends: after a tenant was created, every advance of its job
  completes exactly the next step of the list, in order; the tenant keeps its status until the
  last step, which completes the job and makes the tenant active, and further advances change
  nothing.
\<close>

theorem provisioning_runs_to_completion:
  assumes "tenancy_inv d" and "run_request (create_tenant ids payload) d = (Inr t, d1)"
    and "\<And>n. ds (Suc n) = snd (run_request (advance_provisioning_job (ti_job ids)) (ds n))" and "ds 0 = d1"
  shows "t_status t = TenantStatus.PROVISIONING \<and> provisioned (ti_job ids) t n (ds n)
    \<and> (length PROVISIONING_STEPS \<le> n \<longrightarrow> ds (Suc n) = ds n
        \<and> (\<exists>j. get_row tpj_id (ti_job ids) (provisioning_jobs (ds n)) = Some j \<and> percent_complete j = 100))"
proof -
  note c = create_tenant_run [OF assms(2)]
  have none: "get_row t_id (ti_tenant ids) (tenants d) = None" "get_row tpj_id (ti_job ids) (provisioning_jobs d) = None"
    using c(3,4) by (simp_all add: get_row_None)
  have inv0: "tenancy_inv d1" using keeps_run [OF keeps_tenancy(1) assms(1)] assms(2) by (metis snd_conv)
  have inv: "tenancy_inv (ds n)" for n by (induction n) (simp_all add: assms(3,4) inv0 advance_keeps)
  have "provisioned (ti_job ids) t 0 d1"
    using c(1,2) none
    by (simp add: provisioned_def get_row_append new_job_def new_tenant_def) (simp add: get_row_def PROVISIONING_STEPS_def)
  then have p: "provisioned (ti_job ids) t n (ds n)" for n
    by (induction n) (simp_all add: assms(3,4) inv provisioned_step)
  have stop: "ds (Suc n) = ds n \<and> (\<exists>j. get_row tpj_id (ti_job ids) (provisioning_jobs (ds n)) = Some j \<and> percent_complete j = 100)"
    if le: "length PROVISIONING_STEPS \<le> n"
  proof -
    obtain j where j: "get_row tpj_id (ti_job ids) (provisioning_jobs (ds n)) = Some j"
        "tpj_completed_steps j = PROVISIONING_STEPS"
      using p [of n] le by (auto simp: provisioned_def)
    then have "advanced_job j = None" by (simp add: advanced_job_def)
    moreover have "distinct (map tpj_id (provisioning_jobs (ds n)))" using inv [of n] by (simp add: tenancy_inv_def)
    ultimately have "ds (Suc n) = ds n" unfolding assms(3) using j(1) by (simp add: advance_run)
    with j show ?thesis by (simp add: percent_complete_def PROVISIONING_STEPS_def)
  qed
  with p [of n] show ?thesis by (simp add: c(1) new_tenant_def)
qed

theorem provisioning_runs_to_completion_witness:
  "\<exists>t d. run_request (create_tenant demo_tenant_ids demo_tenant_create) demo_audit_db = (Inr t, d)
     \<and> provisioned (ti_job demo_tenant_ids) t 6
          (((\<lambda>x. snd (run_request (advance_provisioning_job (ti_job demo_tenant_ids)) x)) ^^ 6) d)"
proof -
  obtain t d where r: "run_request (create_tenant demo_tenant_ids demo_tenant_create) demo_audit_db = (Inr t, d)"
    by (rule demo_create_tenant)
  define ds where "ds n = ((\<lambda>x. snd (run_request (advance_provisioning_job (ti_job demo_tenant_ids)) x)) ^^ n) d" for n
  have "provisioned (ti_job demo_tenant_ids) t 6 (ds 6)"
    using provisioning_runs_to_completion [OF demo_tenancy_inv(1) r, of ds 6] by (simp add: ds_def)
  with r show ?thesis by (auto simp: ds_def)
qed

text \<open>
  The two views of backup health agree, as the comment in the code promises: for an existing
  tenant the number of current snapshots in its usage summary is the number of its snapshots
  that the overview, taken at the same instant, shows as current. Neither request fails.
\<close>

theorem backup_health_views_agree:
  assumes "tenancy_inv d" and "get_row t_id i (tenants d) = Some t"
  shows "\<exists>ov u. run_request (get_tenancy_overview fl now) d = (Inr ov, d)
    \<and> run_request (get_tenant_usage now i) d = (Inr u, d)
    \<and> tus_current_backup_snapshots u
      = length (filter (\<lambda>b. bsr_tenant_slug b = t_slug t \<and> bsr_status b = ''current'') (to_backup_snapshots ov))
    \<and> tus_backup_snapshots_total u = length (filter (\<lambda>b. bsr_tenant_slug b = t_slug t) (to_backup_snapshots ov))"
proof -
  let ?ts = "sort_key t_display_name (tenants d)"
  have dist: "distinct (map t_id ?ts)"
    using assms(1) by (simp add: tenancy_inv_def distinct_map)
  have some: "\<exists>t. get_row t_id x ?ts = Some t" if "x \<in> t_id ` set (tenants d)" for x
    using that get_row_None [of t_id x ?ts] by (metis not_Some_eq set_sort)
  define tenant_of where "tenant_of x = the (get_row t_id x ?ts)" for x
  have the: "get_row t_id x ?ts = Some (tenant_of x)" if "x \<in> t_id ` set (tenants d)" for x
    using some [OF that] by (auto simp: tenant_of_def)
  define V where "V v = the (case schema_validation_to_read ?ts v of Inr r \<Rightarrow> Some r | Inl e \<Rightarrow> None)" for v
  define B where "B s = the (case backup_snapshot_to_read fl now ?ts s of Inr r \<Rightarrow> Some r | Inl e \<Rightarrow> None)" for s
  have vs: "map_e (schema_validation_to_read ?ts) (take 20 (order_by_desc tsv_validated_at (schema_validations d)))
      = Inr (map V (take 20 (order_by_desc tsv_validated_at (schema_validations d))))"
  proof (rule map_e_Inr)
    fix v
    assume "v \<in> set (take 20 (order_by_desc tsv_validated_at (schema_validations d)))"
    then have "tsv_tenant_id v \<in> t_id ` set (tenants d)"
      using assms(1) by (auto simp: tenancy_inv_def order_by_desc_def dest!: in_set_takeD)
    from the [OF this] show "schema_validation_to_read ?ts v = Inr (V v)"
      by (simp add: V_def schema_validation_to_read_def)
  qed
  have snap: "backup_snapshot_to_read fl now ?ts s = Inr (B s)
      \<and> bsr_status (B s) = effective_snapshot_status s now \<and> (bsr_tenant_slug (B s) = t_slug t \<longleftrightarrow> tbs_tenant_id s = i)"
    if "s \<in> set (backup_snapshots d)" for s
  proof -
    have "tbs_tenant_id s \<in> t_id ` set (tenants d)" using assms(1) that by (auto simp: tenancy_inv_def)
    note x = the [OF this]
    have "tenant_of (tbs_tenant_id s) \<in> set (tenants d)" "t_id (tenant_of (tbs_tenant_id s)) = tbs_tenant_id s"
      "t \<in> set (tenants d)" "t_id t = i"
      using get_row_Some [OF x] get_row_Some [OF assms(2)] by auto
    moreover have "inj_on t_slug (set (tenants d))" "inj_on t_id (set (tenants d))"
      using assms(1) by (simp_all add: tenancy_inv_def distinct_map)
    ultimately have "t_slug (tenant_of (tbs_tenant_id s)) = t_slug t \<longleftrightarrow> tbs_tenant_id s = i"
      by (metis inj_onD)
    with x show ?thesis by (simp add: B_def backup_snapshot_to_read_def)
  qed
  then have ss: "map_e (backup_snapshot_to_read fl now ?ts) (backup_snapshots d) = Inr (map B (backup_snapshots d))"
    by (intro map_e_Inr) blast
  have cur: "effective_snapshot_status s now = ''current'' \<longleftrightarrow> tbs_status s \<noteq> SnapshotStatus.PENDING
      \<and> (case tbs_taken_at s of None \<Rightarrow> True | Some taken_at \<Rightarrow> now - 86400000000 \<le> taken_at)" for s
    by (auto simp: effective_snapshot_status_def STALE_SNAPSHOT_AFTER_HOURS_def split: option.splits)
  have f1: "length (filter (\<lambda>b. bsr_tenant_slug b = t_slug t \<and> bsr_status b = ''current'') (map B (backup_snapshots d)))
      = length (filter (\<lambda>s. tbs_tenant_id s = i \<and> effective_snapshot_status s now = ''current'') (backup_snapshots d))"
    and f2: "length (filter (\<lambda>b. bsr_tenant_slug b = t_slug t) (map B (backup_snapshots d)))
      = length (filter (\<lambda>s. tbs_tenant_id s = i) (backup_snapshots d))"
    unfolding filter_map length_map using snap by (auto intro!: arg_cong [where f = length] filter_cong)
  show ?thesis
    unfolding get_tenancy_overview_def get_tenant_usage_def get_tenant_def
    using assms(2) vs ss f1 f2 by (simp add: svc_simps Let_def cur STALE_SNAPSHOT_AFTER_HOURS_def)
qed

text \<open>Two snapshots a little more than a day apart: the usage counts one of the two as current.\<close>

theorem backup_health_views_agree_witness:
  "\<exists>ov u. run_request (get_tenancy_overview demo_floats 86400000001) demo_tenants_db = (Inr ov, demo_tenants_db)
    \<and> run_request (get_tenant_usage 86400000001 5) demo_tenants_db = (Inr u, demo_tenants_db)
    \<and> tus_current_backup_snapshots u
      = length (filter (\<lambda>b. bsr_tenant_slug b = ''acme'' \<and> bsr_status b = ''current'') (to_backup_snapshots ov))"
proof -
  have "get_row t_id 5 (tenants demo_tenants_db) = Some (hd (tenants demo_tenants_db))"
    and slug: "t_slug (hd (tenants demo_tenants_db)) = ''acme''"
    by (simp_all add: get_row_def demo_tenants_db_def demo_audit_db_def demo_tenancy_db_def rbac_db.defs tenancy_db.defs audit_db.defs)
  from backup_health_views_agree [OF demo_tenancy_inv(2) this(1), of demo_floats 86400000001] show ?thesis
    unfolding slug by blast
qed

text \<open>
  C35. A tenant that an audit entry refers to can never be deleted: the foreign key of the audit
  log wants the reference set to NULL, the append-only trigger forbids it, and the request ends
  with the trigger's error whatever other tenancy requests came before.
\<close>

theorem audited_tenant_cannot_be_deleted:
  assumes "unlink_law unlink" and "tenancy_inv d" and "(tenancy_step unlink)\<^sup>*\<^sup>* d d'"
    and "e \<in> set (audit_log_entries d)" and "ale_tenant_id e = Some i"
  shows "i \<in> t_id ` set (tenants d') \<and> (\<exists>f \<in> set (audit_log_entries d'). ale_tenant_id f = Some i
    \<and> run_request (delete_tenant unlink i) d'
      = (Inl (DatabaseError (''audit_log_entries is append-only: UPDATE is not permitted (sequence=''
            @ show_int (ale_sequence f) @ '')'')), d'))"
proof -
  have log: "audit_log_entries y = audit_log_entries x" if "tenancy_step unlink x y" for x y
    using that
    by (cases rule: tenancy_step.cases)
       (auto intro: keeps_run [of "\<lambda>d. audit_log_entries d = audit_log_entries x"] keeps_log keeps_log_delete [OF assms(1)])
  from assms(3) have "tenancy_inv d' \<and> audit_log_entries d' = audit_log_entries d"
  proof induction
    case (step y z)
    have "tenancy_inv z"
      using step.hyps(2) step.IH
      by (cases rule: tenancy_step.cases)
         (auto intro: keeps_run keeps_tenancy keeps_update_tenant keeps_delete_tenant [OF assms(1)] advance_keeps)
    with step log show ?case by simp
  qed (simp add: assms(2))
  then have mem: "e \<in> set (audit_log_entries d')" and id: "i \<in> t_id ` set (tenants d')"
    using assms(4,5) by (auto simp: tenancy_inv_def)
  then obtain t where "get_row t_id i (tenants d') = Some t" using get_row_None [of t_id i "tenants d'"] by auto
  moreover obtain f fs where f: "filter (\<lambda>e. ale_tenant_id e = Some i) (audit_log_entries d') = f # fs"
    using mem assms(5) by (cases "filter (\<lambda>e. ale_tenant_id e = Some i) (audit_log_entries d')")
      (auto simp: filter_empty_conv)
  moreover have "f \<in> set (filter (\<lambda>e. ale_tenant_id e = Some i) (audit_log_entries d'))" unfolding f by simp
  then have "f \<in> set (audit_log_entries d')" "ale_tenant_id f = Some i" by simp_all
  moreover have "run_request (delete_tenant unlink i) d'
      = (Inl (DatabaseError (''audit_log_entries is append-only: UPDATE is not permitted (sequence=''
            @ show_int (ale_sequence f) @ '')'')), d')"
    using calculation by (simp add: delete_tenant_def get_tenant_def svc_simps delete_tenant_row_def
        unset_audit_tenant_def reject_audit_log_mutation_def)
  ultimately show ?thesis using id by blast
qed

theorem audited_tenant_cannot_be_deleted_witness:
  "\<exists>(d :: audit_db). 5 \<in> t_id ` set (tenants d) \<and> isl (fst (run_request (delete_tenant (\<lambda>_ d. d) 5) d))"
proof -
  obtain e :: AuditLogEntry and d :: audit_db where r: "run_request (append_entry demo_P (demo_fresh 0) (demo_payload_with (JDict []))) demo_audit_db = (Inr e, d)"
      and f: "audit_log_entries d = [e]" "tenants d = tenants demo_audit_db"
    by (rule demo_first) blast
  note b = append_in_transaction_run(1,2) [OF append_entry_run [OF r]]
  have id: "ale_tenant_id e = Some 5"
    using build_entry_Inr(4) [OF b(1)] by (simp add: demo_payload_with_def demo_payload_def)
  have "tenancy_inv d"
    using demo_tenancy_inv(1) b(2) id by (auto simp: insert_entry_Inr tenancy_inv_def)
  from audited_tenant_cannot_be_deleted [OF demo_unlink_law this rtranclp.rtrancl_refl, of e 5] id f show ?thesis
    by (intro exI [of _ d]) auto
qed

text \<open>
  C36. A membership is unique and can be undone: after a user was added to a tenant the members
  of the tenant are listed with them, adding them again is answered with 409 and changes
  nothing, and removing them restores the database exactly.
\<close>

theorem membership_unique_and_undone:
  assumes "tenancy_inv d" and "run_request (add_tenant_member mid now i mc) d = (Inr out, d')"
  shows "tmr_user_id out = tmc_user_id mc \<and> length (tenant_members d') = Suc (length (tenant_members d))
    \<and> (\<exists>rs. run_request (list_tenant_members i) d' = (Inr rs, d') \<and> out \<in> set rs)
    \<and> (tmc_user_id mc2 = tmc_user_id mc \<longrightarrow> run_request (add_tenant_member mid2 now2 i mc2) d'
          = (Inl (HTTPException 409 ''User is already a member of this tenant''), d'))
    \<and> run_request (remove_tenant_member i (tmc_user_id mc)) d' = (Inr (), d)"
proof -
  define m where "m = \<lparr>tm_id = mid, tm_tenant_id = i, tm_user_id = tmc_user_id mc, tm_role = tmc_role mc, tm_created_at = now\<rparr>"
  have ex: "get_row t_id i (tenants d) \<noteq> None" "get_row u_id (tmc_user_id mc) (users d) \<noteq> None"
    and ins: "insert_tenant_member m d = Inr d'" and out: "tenant_member_to_read (users d') m = Inr out"
    using assms(2)
    by (auto simp: add_tenant_member_def get_tenant_def flush_or_409_def svc_simps Let_def m_def
        split: option.splits sum.splits error.splits if_splits)
  then have d': "d' = d\<lparr>tenant_members := tenant_members d @ [m]\<rparr>"
    and new: "(i, tmc_user_id mc) \<notin> (\<lambda>x. (tm_tenant_id x, tm_user_id x)) ` set (tenant_members d)"
      "mid \<notin> tm_id ` set (tenant_members d)"
    by (auto simp: insert_tenancy_Inr m_def)
  have inv: "tenancy_inv d'" using tenancy_inv_insert_member [OF assms(1) ins] .
  obtain t where t: "get_row t_id i (tenants d') = Some t" using ex(1) by (auto simp: d')
  define R where "R x = the (case tenant_member_to_read (users d') x of Inr r \<Rightarrow> Some r | Inl e \<Rightarrow> None)" for x
  have read: "tenant_member_to_read (users d') x = Inr (R x)" if "x \<in> set (tenant_members d')" for x
  proof -
    have "tm_user_id x \<in> u_id ` set (users d')" using inv that by (auto simp: tenancy_inv_def)
    then obtain u where "get_row u_id (tm_user_id x) (users d') = Some u"
      using get_row_None [of u_id "tm_user_id x" "users d'"] by auto
    then show ?thesis by (simp add: R_def tenant_member_to_read_def)
  qed
  let ?ms = "sort_key tm_created_at (filter (\<lambda>m. tm_tenant_id m = i) (tenant_members d'))"
  have "map_e (tenant_member_to_read (users d')) ?ms = Inr (map R ?ms)" by (rule map_e_Inr) (simp add: read)
  moreover have "out \<in> R ` set ?ms" using read [of m] out by (auto simp: d' m_def)
  ultimately have list: "\<exists>rs. run_request (list_tenant_members i) d' = (Inr rs, d') \<and> out \<in> set rs"
    using t by (auto simp: list_tenant_members_def get_tenant_def svc_simps)
  have "\<exists>u. get_row u_id (tmc_user_id mc) (users d') = Some u" using ex(2) by (auto simp: d')
  moreover have "m \<in> set (tenant_members d')" by (simp add: d')
  ultimately have again: "run_request (add_tenant_member mid2 now2 i mc2) d'
      = (Inl (HTTPException 409 ''User is already a member of this tenant''), d')" if "tmc_user_id mc2 = tmc_user_id mc"
    using t that get_row_Some [OF t]
    by (auto simp: add_tenant_member_def get_tenant_def svc_simps flush_or_409_def insert_tenant_member_def Let_def m_def
        split: option.splits sum.splits if_splits dest!: get_row_Some)
  have none: "filter (\<lambda>m. tm_tenant_id m = i \<and> tm_user_id m = tmc_user_id mc) (tenant_members d) = []"
    using new(1) by (auto simp: filter_empty_conv image_iff)
  have del: "delete_where (\<lambda>x. tm_id x = mid) (tenant_members d @ [m]) = tenant_members d"
    using new(2) by (auto simp: delete_where_def filter_id_conv m_def image_iff)
  have "run_request (remove_tenant_member i (tmc_user_id mc)) d' = (Inr (), d)"
    using none del by (simp add: remove_tenant_member_def svc_simps scalar_one_or_none_def d' m_def)
  with again list out show ?thesis by (auto simp: d' m_def tenant_member_to_read_def split: option.splits)
qed

theorem membership_unique_and_undone_witness:
  "\<exists>out d. run_request (add_tenant_member 9 0 5 \<lparr>tmc_user_id = 1, tmc_role = TenantMemberRole.VIEWER\<rparr>) demo_audit_db = (Inr out, d)
     \<and> run_request (remove_tenant_member 5 1) d = (Inr (), demo_audit_db)"
proof -
  let ?mc = "\<lparr>tmc_user_id = 1, tmc_role = TenantMemberRole.VIEWER\<rparr>"
  have "\<not> isl (fst (run_request (add_tenant_member 9 0 5 ?mc) demo_audit_db))" by code_simp
  then obtain out d where r: "run_request (add_tenant_member 9 0 5 ?mc) demo_audit_db = (Inr out, d)"
    by (metis prod.collapse sum.collapse(2))
  from membership_unique_and_undone [OF demo_tenancy_inv(1) r] r show ?thesis by auto
qed

end
