(* ===== verification/ConfigParams.thy ===== *)
theory ConfigParams
  imports Tenancy
begin

text \<open>
  The engine parameters of the configuration manager: staging a value, reverting it, applying
  everything that is staged, and the overview (the first part of
  \<^verbatim>\<open>src/app/services/config_service.py\<close>, with \<^verbatim>\<open>src/app/models/config.py\<close>,
  \<^verbatim>\<open>src/app/schemas/config.py\<close> and \<^verbatim>\<open>src/app/api/v1/endpoints/config_manager.py\<close>). Versioned
  configuration documents are in theory \<open>ConfigVersions\<close>.
\<close>

section \<open>Models\<close>

datatype ConfigTier = CRITICAL | NECESSARY | OPTIONAL

fun ConfigTier_value :: "ConfigTier \<Rightarrow> string" where
  "ConfigTier_value ConfigTier.CRITICAL = ''critical''"
| "ConfigTier_value ConfigTier.NECESSARY = ''necessary''"
| "ConfigTier_value ConfigTier.OPTIONAL = ''optional''"

datatype ConfigValueType = STRING | INTEGER | BOOLEAN | DURATION | ENUM | JSON

fun ConfigValueType_value :: "ConfigValueType \<Rightarrow> string" where
  "ConfigValueType_value ConfigValueType.STRING = ''string''"
| "ConfigValueType_value ConfigValueType.INTEGER = ''integer''"
| "ConfigValueType_value ConfigValueType.BOOLEAN = ''boolean''"
| "ConfigValueType_value ConfigValueType.DURATION = ''duration''"
| "ConfigValueType_value ConfigValueType.ENUM = ''enum''"
| "ConfigValueType_value ConfigValueType.JSON = ''json''"

record ConfigParameter =
  cp_id :: uuid
  cp_key :: string
  cp_section :: string
  cp_tier :: ConfigTier
  cp_value_type :: ConfigValueType
  cp_active_value :: string
  cp_pending_value :: "string option"
  cp_allowed_values :: "string option"
  cp_is_sensitive :: bool
  cp_requires_restart :: bool
  cp_description :: "string option"

definition has_pending_change :: "ConfigParameter \<Rightarrow> bool" where
  "has_pending_change p \<longleftrightarrow> cp_pending_value p \<noteq> None \<and> cp_pending_value p \<noteq> Some (cp_active_value p)"

datatype ConfigChangeStatus = PENDING | APPLIED | REVERTED

fun ConfigChangeStatus_value :: "ConfigChangeStatus \<Rightarrow> string" where
  "ConfigChangeStatus_value ConfigChangeStatus.PENDING = ''pending''"
| "ConfigChangeStatus_value ConfigChangeStatus.APPLIED = ''applied''"
| "ConfigChangeStatus_value ConfigChangeStatus.REVERTED = ''reverted''"

record ConfigChange =
  cc_id :: uuid
  cc_parameter_id :: uuid
  cc_previous_value :: string
  cc_new_value :: string
  cc_reason :: "string option"
  cc_changed_by :: string
  cc_status :: ConfigChangeStatus
  cc_applied_at :: "datetime option"
  cc_created_at :: datetime

datatype ConfigurationStatus = DRAFT | ACTIVE | ARCHIVED

fun ConfigurationStatus_value :: "ConfigurationStatus \<Rightarrow> string" where
  "ConfigurationStatus_value ConfigurationStatus.DRAFT = ''draft''"
| "ConfigurationStatus_value ConfigurationStatus.ACTIVE = ''active''"
| "ConfigurationStatus_value ConfigurationStatus.ARCHIVED = ''archived''"

record Configuration =
  cf_id :: uuid
  cf_name :: string
  cf_version :: int
  cf_status :: ConfigurationStatus
  cf_payload :: "(string \<times> json) list"
  cf_sensitive_keys :: "string list"
  cf_checksum :: string
  cf_description :: "string option"
  cf_created_by :: string
  cf_activated_at :: "datetime option"
  cf_archived_at :: "datetime option"
  cf_deleted_at :: "datetime option"
  cf_created_at :: datetime
  cf_updated_at :: datetime

record config_db = audit_db +
  config_parameters :: "ConfigParameter list"
  config_changes :: "ConfigChange list"
  configurations :: "Configuration list"

interpretation config_parameters_table: table cp_id config_parameters config_parameters_update
  by unfold_locales simp

interpretation config_changes_table: table cc_id config_changes config_changes_update
  by unfold_locales simp

interpretation configurations_table: table cf_id configurations configurations_update
  by unfold_locales simp

section \<open>Schemas\<close>

text \<open>
  The mask is eight bullets. The bullet has no code point below 256; it is written here with
  its code in the Windows-1252 page.
\<close>

definition MASK :: string where
  "MASK = replicate 8 (CHR 0x95)"

record ConfigParameterRead =
  cpr_id :: uuid
  cpr_key :: string
  cpr_section :: string
  cpr_tier :: string
  cpr_value_type :: string
  cpr_active_value :: string
  cpr_pending_value :: "string option"
  cpr_has_pending_change :: bool
  cpr_allowed_values :: "string list option"
  cpr_is_sensitive :: bool
  cpr_requires_restart :: bool
  cpr_description :: "string option"

definition from_model :: "ConfigParameter \<Rightarrow> ConfigParameterRead" where
  "from_model param =
     (let allowed = (if truthy (cp_allowed_values param)
                     then Some (split_on (CHR '','') (the (cp_allowed_values param))) else None);
          value = (if cp_is_sensitive param then MASK else cp_active_value param);
          pending = (if cp_is_sensitive param \<and> truthy (cp_pending_value param) then Some MASK
                     else cp_pending_value param)
      in \<lparr>cpr_id = cp_id param, cpr_key = cp_key param, cpr_section = cp_section param,
          cpr_tier = ConfigTier_value (cp_tier param),
          cpr_value_type = ConfigValueType_value (cp_value_type param), cpr_active_value = value,
          cpr_pending_value = pending, cpr_has_pending_change = has_pending_change param,
          cpr_allowed_values = allowed, cpr_is_sensitive = cp_is_sensitive param,
          cpr_requires_restart = cp_requires_restart param, cpr_description = cp_description param\<rparr>)"

record ConfigParameterStage =
  cps_value :: string
  cps_reason :: "string option"
  cps_changed_by :: string

record ConfigChangeRead =
  ccr_id :: uuid
  ccr_parameter_key :: string
  ccr_previous_value :: string
  ccr_new_value :: string
  ccr_reason :: "string option"
  ccr_changed_by :: string
  ccr_status :: string
  ccr_created_at :: datetime
  ccr_applied_at :: "datetime option"

record ConfigTierSummary =
  cts_tier :: string
  cts_total :: nat
  cts_pending :: nat

record ConfigManagerOverview =
  cmo_sections :: "(string \<times> ConfigParameterRead list) list"
  cmo_tier_summary :: "ConfigTierSummary list"
  cmo_pending_changes :: "ConfigChangeRead list"

section \<open>services/config\_service.py\<close>

definition REDACTED_CONFIG_VALUE :: string where
  "REDACTED_CONFIG_VALUE = ''[REDACTED]''"

definition py_list_repr :: "string list \<Rightarrow> string" where
  "py_list_repr xs = ''['' @ join '', '' (map py_repr xs) @ '']''"

definition validate_value :: "ConfigParameter \<Rightarrow> string \<Rightarrow> ('d, unit) svc" where
  "validate_value parameter value =
     (let allowed = map strip (split_on (CHR '','') (the (cp_allowed_values parameter))) in
      if cp_value_type parameter = ConfigValueType.ENUM \<and> truthy (cp_allowed_values parameter)
         \<and> value \<notin> set allowed
      then raise_svc (HTTPException 422 (CHR 0x27 # value @ [CHR 0x27]
             @ '' is not one of the allowed values for '' @ cp_key parameter @ '': ''
             @ py_list_repr (sorted_list_of_set (set allowed))))
      else if cp_value_type parameter = ConfigValueType.INTEGER \<and> \<not> isdigit (lstrip_char (CHR ''-'') value)
      then raise_svc (HTTPException 422 (cp_key parameter @ '' expects an integer value''))
      else if cp_value_type parameter = ConfigValueType.BOOLEAN \<and> lower value \<notin> {''true'', ''false''}
      then raise_svc (HTTPException 422 (cp_key parameter @ '' expects a boolean value (''
             @ CHR 0x27 # ''true'' @ CHR 0x27 # ''/'' @ CHR 0x27 # ''false'' @ CHR 0x27 # '')''))
      else return_svc ())"

definition insert_config_change :: "ConfigChange \<Rightarrow> 'z config_db_scheme \<Rightarrow> error + 'z config_db_scheme" where
  "insert_config_change c d =
     (if \<not> (text_ok (cc_previous_value c) \<and> text_ok (cc_new_value c) \<and> text_fits_opt 255 (cc_reason c)
             \<and> text_fits_opt 120 (Some (cc_changed_by c)))
      then Inl (DataError ''config_changes'')
      else if cc_parameter_id c \<notin> cp_id ` set (config_parameters d)
      then Inl (IntegrityError ''config_changes.parameter_id'')
      else (case insert_row cc_id c (config_changes d) of
              Inl e \<Rightarrow> Inl e
            | Inr cs \<Rightarrow> Inr (d\<lparr>config_changes := cs\<rparr>)))"

definition set_pending :: "uuid \<Rightarrow> string option \<Rightarrow> 'z config_db_scheme \<Rightarrow> 'z config_db_scheme" where
  "set_pending i v =
     config_parameters_update (update_where (\<lambda>p. cp_id p = i) (\<lambda>p. p\<lparr>cp_pending_value := v\<rparr>))"

text \<open>\<open>change_id\<close> and \<open>now\<close> are the identifier and creation time of the change record.\<close>

definition staged_change :: "uuid \<Rightarrow> datetime \<Rightarrow> ConfigParameter \<Rightarrow> ConfigParameterStage \<Rightarrow> ConfigChange" where
  "staged_change change_id now parameter payload =
     \<lparr>cc_id = change_id, cc_parameter_id = cp_id parameter,
      cc_previous_value = cp_active_value parameter, cc_new_value = cps_value payload,
      cc_reason = cps_reason payload, cc_changed_by = cps_changed_by payload,
      cc_status = ConfigChangeStatus.PENDING, cc_applied_at = None, cc_created_at = now\<rparr>"

definition stage_config_change ::
  "uuid \<Rightarrow> datetime \<Rightarrow> uuid \<Rightarrow> ConfigParameterStage \<Rightarrow> ('z config_db_scheme, ConfigParameter) svc" where
  "stage_config_change change_id now parameter_id payload =
     bind_svc (query (\<lambda>d. get_row cp_id parameter_id (config_parameters d)))
     (\<lambda>found. case found of
        None \<Rightarrow> raise_svc (HTTPException 404 ''Parameter not found'')
      | Some parameter \<Rightarrow>
          bind_svc (validate_value parameter (cps_value payload))
          (\<lambda>_. if cps_value payload = cp_active_value parameter
             then
               bind_svc (modify_db (set_pending parameter_id None))
               (\<lambda>_. bind_svc commit (\<lambda>_. return_svc (parameter\<lparr>cp_pending_value := None\<rparr>)))
             else
               bind_svc (modify_db (set_pending parameter_id (Some (cps_value payload))))
               (\<lambda>_. bind_svc (flush (insert_config_change (staged_change change_id now parameter payload)))
               (\<lambda>_. bind_svc commit
               (\<lambda>_. return_svc (parameter\<lparr>cp_pending_value := Some (cps_value payload)\<rparr>))))))"

definition revert_config_change :: "uuid \<Rightarrow> ('z config_db_scheme, ConfigParameter) svc" where
  "revert_config_change parameter_id =
     bind_svc (query (\<lambda>d. get_row cp_id parameter_id (config_parameters d)))
     (\<lambda>found. case found of
        None \<Rightarrow> raise_svc (HTTPException 404 ''Parameter not found'')
      | Some parameter \<Rightarrow>
          bind_svc (modify_db (set_pending parameter_id None))
          (\<lambda>_. bind_svc (modify_db (config_changes_update (update_where
               (\<lambda>c. cc_parameter_id c = parameter_id \<and> cc_status c = ConfigChangeStatus.PENDING)
               (\<lambda>c. c\<lparr>cc_status := ConfigChangeStatus.REVERTED\<rparr>))))
          (\<lambda>_. bind_svc commit (\<lambda>_. return_svc (parameter\<lparr>cp_pending_value := None\<rparr>)))))"

text \<open>The audit payload of one applied parameter, and the body of the loop and the loop.\<close>

definition applied_payload :: "string \<Rightarrow> ConfigParameter \<Rightarrow> AuditLogEntryCreate" where
  "applied_payload changed_by parameter =
     (let previous = (if cp_is_sensitive parameter then REDACTED_CONFIG_VALUE else cp_active_value parameter);
          new = (if cp_is_sensitive parameter then REDACTED_CONFIG_VALUE else the (cp_pending_value parameter))
      in \<lparr>alc_severity = ''info'', alc_event_type = ''config_change'', alc_event_subtype = ''PARAMETER_UPDATED'',
          alc_actor = changed_by,
          alc_description = ''Config parameter '' @ CHR 0x27 # cp_key parameter @ CHR 0x27 # '' updated: ''
            @ py_repr previous @ '' -> '' @ py_repr new,
          alc_tenant_id = None, alc_tenant_slug = None, alc_source_ip = None,
          alc_metadata_json = JDict
            [(''parameter_key'', JStr (cp_key parameter)), (''previous_value'', JStr previous),
             (''new_value'', JStr new), (''requires_restart'', JBool (cp_requires_restart parameter))]\<rparr>)"

definition apply_parameter ::
  "'p audit_platform_scheme \<Rightarrow> fresh \<Rightarrow> datetime \<Rightarrow> string \<Rightarrow> ConfigParameter \<Rightarrow> ('z config_db_scheme, unit) svc" where
  "apply_parameter pf fr now changed_by parameter =
     bind_svc (query (\<lambda>d. first_row (filter
       (\<lambda>c. cc_parameter_id c = cp_id parameter \<and> cc_status c = ConfigChangeStatus.PENDING) (config_changes d))))
     (\<lambda>change. bind_svc (modify_db (config_parameters_update (update_where (\<lambda>p. cp_id p = cp_id parameter)
          (\<lambda>p. p\<lparr>cp_active_value := the (cp_pending_value parameter), cp_pending_value := None\<rparr>))))
     (\<lambda>_. bind_svc
        (case change of
           None \<Rightarrow> return_svc ()
         | Some c \<Rightarrow> modify_db (config_changes_update (update_where (\<lambda>x. cc_id x = cc_id c)
             (\<lambda>x. x\<lparr>cc_status := ConfigChangeStatus.APPLIED, cc_applied_at := Some now\<rparr>))))
     (\<lambda>_. bind_svc (append_entry_in_transaction pf fr (applied_payload changed_by parameter))
     (\<lambda>_. return_svc ()))))"

fun apply_parameters ::
  "'p audit_platform_scheme \<Rightarrow> (nat \<Rightarrow> fresh) \<Rightarrow> (nat \<Rightarrow> datetime) \<Rightarrow> string \<Rightarrow> nat \<Rightarrow> ConfigParameter list \<Rightarrow>
   ('z config_db_scheme, nat) svc" where
  "apply_parameters pf frs nows changed_by applied_count [] = return_svc applied_count"
| "apply_parameters pf frs nows changed_by applied_count (parameter # rest) =
     bind_svc (apply_parameter pf (frs applied_count) (nows applied_count) changed_by parameter)
     (\<lambda>_. apply_parameters pf frs nows changed_by (applied_count + 1) rest)"

definition apply_pending_changes ::
  "'p audit_platform_scheme \<Rightarrow> (nat \<Rightarrow> fresh) \<Rightarrow> (nat \<Rightarrow> datetime) \<Rightarrow> string \<Rightarrow> ('z config_db_scheme, nat) svc" where
  "apply_pending_changes pf frs nows changed_by =
     except_rollback
       (bind_svc (query (\<lambda>d. filter (\<lambda>p. cp_pending_value p \<noteq> None) (config_parameters d)))
       (\<lambda>parameters. bind_svc (apply_parameters pf frs nows changed_by 0 parameters)
       (\<lambda>applied_count. bind_svc commit (\<lambda>_. return_svc applied_count))))"

text \<open>\<^verbatim>\<open>itertools.groupby\<close>: runs of neighbours with the same key.\<close>

function groupby :: "('a \<Rightarrow> 'k) \<Rightarrow> 'a list \<Rightarrow> ('k \<times> 'a list) list" where
  "groupby k [] = []"
| "groupby k (x # xs) =
     (k x, x # takeWhile (\<lambda>y. k y = k x) xs) # groupby k (dropWhile (\<lambda>y. k y = k x) xs)"
  by pat_completeness auto
termination
  by (relation "measure (\<lambda>(k, xs). length xs)") (auto simp: less_Suc_eq_le length_dropWhile_le)

definition tier_counts :: "ConfigParameter list \<Rightarrow> (string \<times> nat \<times> nat) list" where
  "tier_counts ps = foldl (\<lambda>counts p.
     let tier = ConfigTier_value (cp_tier p);
         (total, pending) = (case map_of counts tier of None \<Rightarrow> (0, 0) | Some c \<Rightarrow> c)
     in dict_set tier (total + 1, if has_pending_change p then pending + 1 else pending) counts) [] ps"

definition change_to_read :: "ConfigParameter list \<Rightarrow> ConfigChange \<Rightarrow> ConfigChangeRead" where
  "change_to_read ps change =
     \<lparr>ccr_id = cc_id change,
      ccr_parameter_key = (case get_row cp_id (cc_parameter_id change) ps of None \<Rightarrow> ''unknown'' | Some p \<Rightarrow> cp_key p),
      ccr_previous_value = cc_previous_value change, ccr_new_value = cc_new_value change,
      ccr_reason = cc_reason change, ccr_changed_by = cc_changed_by change,
      ccr_status = ConfigChangeStatus_value (cc_status change), ccr_created_at = cc_created_at change,
      ccr_applied_at = cc_applied_at change\<rparr>"

definition get_config_manager_overview :: "('z config_db_scheme, ConfigManagerOverview) svc" where
  "get_config_manager_overview =
     query (\<lambda>d.
       let parameters = sort_key cp_section (sort_key cp_key (config_parameters d));
           changes = order_by_desc cc_created_at
             (filter (\<lambda>c. cc_status c = ConfigChangeStatus.PENDING) (config_changes d))
       in \<lparr>cmo_sections = foldl (\<lambda>acc (section, group). dict_set section (map from_model group) acc) []
             (groupby cp_section parameters),
           cmo_tier_summary = map (\<lambda>(tier, total, pending).
             \<lparr>cts_tier = tier, cts_total = total, cts_pending = pending\<rparr>) (tier_counts parameters),
           cmo_pending_changes = map (change_to_read (config_parameters d)) changes\<rparr>)"

section \<open>api/v1/endpoints/config\_manager.py\<close>

definition read_config_overview ::
  "'p platform_scheme \<Rightarrow> Settings \<Rightarrow> datetime \<Rightarrow> string option \<Rightarrow> ('z config_db_scheme, ConfigManagerOverview) svc" where
  "read_config_overview pf st now cred =
     bind_svc (get_current_user pf st now cred) (\<lambda>_. get_config_manager_overview)"

definition stage_parameter_change ::
  "'p platform_scheme \<Rightarrow> Settings \<Rightarrow> datetime \<Rightarrow> uuid \<Rightarrow> datetime \<Rightarrow> uuid \<Rightarrow> ConfigParameterStage \<Rightarrow> string option \<Rightarrow>
   ('z config_db_scheme, ConfigParameterRead) svc" where
  "stage_parameter_change pf st now change_id now' parameter_id payload cred =
     bind_svc (require_admin pf st now cred)
     (\<lambda>_. bind_svc (stage_config_change change_id now' parameter_id payload)
     (\<lambda>parameter. return_svc (from_model parameter)))"

definition revert_parameter_change ::
  "'p platform_scheme \<Rightarrow> Settings \<Rightarrow> datetime \<Rightarrow> uuid \<Rightarrow> string option \<Rightarrow> ('z config_db_scheme, ConfigParameterRead) svc" where
  "revert_parameter_change pf st now parameter_id cred =
     bind_svc (require_admin pf st now cred)
     (\<lambda>_. bind_svc (revert_config_change parameter_id) (\<lambda>parameter. return_svc (from_model parameter)))"

definition apply_all_pending_changes ::
  "'p audit_platform_scheme \<Rightarrow> Settings \<Rightarrow> datetime \<Rightarrow> (nat \<Rightarrow> fresh) \<Rightarrow> (nat \<Rightarrow> datetime) \<Rightarrow> string option \<Rightarrow>
   ('z config_db_scheme, string) svc" where
  "apply_all_pending_changes pf st now frs nows cred =
     bind_svc (require_admin pf st now cred)
     (\<lambda>current_user. bind_svc (apply_pending_changes pf frs nows (u_email current_user))
     (\<lambda>count. return_svc (''Applied '' @ show_nat count @ '' pending change(s)'')))"

interpretation stage_parameter_change_ep: admin_endpoint pf st now
    "stage_parameter_change pf st now change_id now' parameter_id payload"
    "\<lambda>_. bind_svc (stage_config_change change_id now' parameter_id payload) (\<lambda>parameter. return_svc (from_model parameter))"
  for pf :: "'p platform_scheme" and st now change_id now' parameter_id payload
  by unfold_locales (simp add: stage_parameter_change_def)

interpretation revert_parameter_change_ep: admin_endpoint pf st now "revert_parameter_change pf st now parameter_id"
    "\<lambda>_. bind_svc (revert_config_change parameter_id) (\<lambda>parameter. return_svc (from_model parameter))"
  for pf :: "'p platform_scheme" and st now parameter_id
  by unfold_locales (simp add: revert_parameter_change_def)

interpretation apply_all_pending_changes_ep: admin_endpoint pf st now "apply_all_pending_changes pf st now frs nows"
    "\<lambda>current_user. bind_svc (apply_pending_changes pf frs nows (u_email current_user))
      (\<lambda>count. return_svc (''Applied '' @ show_nat count @ '' pending change(s)''))"
  for pf :: "'p audit_platform_scheme" and st now frs nows
  by unfold_locales (simp add: apply_all_pending_changes_def)

section \<open>What staging does\<close>

lemma validate_value_state: "validate_value p v s = (r, s') \<Longrightarrow> s' = s"
  by (auto simp: validate_value_def svc_simps Let_def split: if_splits)

lemma insert_config_change_Inr:
  "insert_config_change c d = Inr d' \<Longrightarrow> cc_parameter_id c \<in> cp_id ` set (config_parameters d)
     \<and> cc_id c \<notin> cc_id ` set (config_changes d) \<and> d' = d\<lparr>config_changes := config_changes d @ [c]\<rparr>"
  by (auto simp: insert_config_change_def insert_row_def split: if_splits)

lemma stage_Inr:
  assumes "run_request (stage_config_change cid now i payload) d = (Inr p, d')" and "cps_value payload \<noteq> cp_active_value p"
  obtains p0 where "get_row cp_id i (config_parameters d) = Some p0" "p = p0\<lparr>cp_pending_value := Some (cps_value payload)\<rparr>"
    "config_parameters d' = config_parameters (set_pending i (Some (cps_value payload)) d)"
    "config_changes d' = config_changes d @ [staged_change cid now p0 payload]" "cid \<notin> cc_id ` set (config_changes d)"
    "audit_inv d \<longrightarrow> audit_inv d'" "get_row cp_id i (config_parameters d') = Some p"
proof -
  obtain p0 where p0: "get_row cp_id i (config_parameters d) = Some p0" and p: "p = p0\<lparr>cp_pending_value := Some (cps_value payload)\<rparr>"
    and ins: "insert_config_change (staged_change cid now p0 payload) (set_pending i (Some (cps_value payload)) d) = Inr d'"
    using assms
    by (auto simp: stage_config_change_def svc_simps split: option.splits sum.splits prod.splits if_splits
        dest!: validate_value_state)
  have "get_row cp_id i (config_parameters (set_pending i (Some (cps_value payload)) d)) = Some p"
    using p0 get_row_Some [OF p0] by (simp add: set_pending_def get_row_update_where p)
  with p0 p insert_config_change_Inr [OF ins] show thesis
    by (intro that [of p0]) (auto simp: staged_change_def set_pending_def audit_inv_def log_sorted_def)
qed

section \<open>What applying does\<close>

text \<open>The parameter after its staged value, if it has one, was promoted.\<close>

definition promoted :: "ConfigParameter \<Rightarrow> ConfigParameter" where
  "promoted p = (case cp_pending_value p of None \<Rightarrow> p | Some v \<Rightarrow> p\<lparr>cp_active_value := v, cp_pending_value := None\<rparr>)"

definition config_inv :: "'z config_db_scheme \<Rightarrow> bool" where
  "config_inv d \<longleftrightarrow> distinct (map cp_id (config_parameters d)) \<and> distinct (map cp_key (config_parameters d))
     \<and> distinct (map cc_id (config_changes d))
     \<and> cc_parameter_id ` set (config_changes d) \<subseteq> cp_id ` set (config_parameters d)"

lemma stage_inv:
  assumes "config_inv d" and "run_request (stage_config_change cid now i payload) d = (Inr p, d')"
    and "cps_value payload \<noteq> cp_active_value p"
  shows "config_inv d'"
proof (rule stage_Inr [OF assms(2,3)])
  fix p0
  assume p0: "get_row cp_id i (config_parameters d) = Some p0"
    and cs: "config_changes d' = config_changes d @ [staged_change cid now p0 payload]" "cid \<notin> cc_id ` set (config_changes d)"
    and ps: "config_parameters d' = config_parameters (set_pending i (Some (cps_value payload)) d)"
  have "map cp_id (config_parameters d') = map cp_id (config_parameters d)"
    "map cp_key (config_parameters d') = map cp_key (config_parameters d)"
    unfolding ps by (simp_all add: set_pending_def map_update_where)
  moreover from this(1) have "cp_id ` set (config_parameters d') = cp_id ` set (config_parameters d)" by (metis set_map)
  moreover have "cp_id p0 \<in> cp_id ` set (config_parameters d)" using get_row_Some [OF p0] by blast
  ultimately show ?thesis using assms(1) cs by (auto simp: config_inv_def staged_change_def)
qed

text \<open>The entry an applied parameter leaves in the audit log.\<close>

definition entry_for :: "string \<Rightarrow> ConfigParameter \<Rightarrow> AuditLogEntry \<Rightarrow> bool" where
  "entry_for changed_by p e \<longleftrightarrow> ale_actor e = changed_by
     \<and> ale_description e = alc_description (applied_payload changed_by p)
     \<and> ale_metadata_json e = sanitize_metadata (alc_metadata_json (applied_payload changed_by p))"

text \<open>The first change record that is pending for a parameter is closed.\<close>

definition mark_applied :: "ConfigParameter \<Rightarrow> datetime \<Rightarrow> ConfigChange list \<Rightarrow> ConfigChange list" where
  "mark_applied p now cs =
     (case first_row (filter (\<lambda>c. cc_parameter_id c = cp_id p \<and> cc_status c = ConfigChangeStatus.PENDING) cs) of
        None \<Rightarrow> cs
      | Some c \<Rightarrow> update_where (\<lambda>x. cc_id x = cc_id c)
          (\<lambda>x. x\<lparr>cc_status := ConfigChangeStatus.APPLIED, cc_applied_at := Some now\<rparr>) cs)"

definition pending_changes :: "uuid \<Rightarrow> ConfigChange list \<Rightarrow> ConfigChange list" where
  "pending_changes i cs = filter (\<lambda>c. cc_parameter_id c = i \<and> cc_status c = ConfigChangeStatus.PENDING) cs"

lemma mark_applied_maps:
  "map cc_id (mark_applied p now cs) = map cc_id cs" "map cc_parameter_id (mark_applied p now cs) = map cc_parameter_id cs"
  by (simp_all add: mark_applied_def map_update_where split: option.splits)

lemma filter_update_one:
  "distinct (map k cs) \<Longrightarrow> c \<in> set cs \<Longrightarrow>
   length (filter Q cs) \<le> length (filter Q (update_where (\<lambda>x. k x = k c) f cs)) + (if Q c then 1 else 0)"
proof (induction cs)
  case (Cons a cs)
  show ?case
  proof (cases "a = c")
    case True
    with Cons.prems have "update_where (\<lambda>x. k x = k c) f cs = cs" by (intro update_where_none) (auto simp: image_iff)
    with True show ?thesis by simp
  next
    case False
    with Cons.prems have "c \<in> set cs" "k a \<noteq> k c" by (auto simp: image_iff)
    with Cons.IH Cons.prems(1) show ?thesis by (auto split: if_splits)
  qed
qed simp

text \<open>Applying a parameter closes at most one of its pending records, and none of another parameter.\<close>

lemma mark_applied_pending:
  assumes "distinct (map cc_id cs)"
  shows "length (pending_changes i cs) \<le> length (pending_changes i (mark_applied p now cs)) + (if cp_id p = i then 1 else 0)"
proof (cases "first_row (filter (\<lambda>c. cc_parameter_id c = cp_id p \<and> cc_status c = ConfigChangeStatus.PENDING) cs)")
  case None
  then show ?thesis by (simp add: mark_applied_def)
next
  case (Some c)
  then obtain xs where "filter (\<lambda>c. cc_parameter_id c = cp_id p \<and> cc_status c = ConfigChangeStatus.PENDING) cs = c # xs"
    by (auto simp: first_row_def split: list.splits)
  then have "c \<in> set (filter (\<lambda>c. cc_parameter_id c = cp_id p \<and> cc_status c = ConfigChangeStatus.PENDING) cs)" by simp
  then have c: "c \<in> set cs" "cc_parameter_id c = cp_id p" by auto
  note le = filter_update_one [OF assms c(1), of "\<lambda>c. cc_parameter_id c = i \<and> cc_status c = ConfigChangeStatus.PENDING"
      "\<lambda>x. x\<lparr>cc_status := ConfigChangeStatus.APPLIED, cc_applied_at := Some now\<rparr>"]
  from le c(2) show ?thesis by (auto simp: mark_applied_def pending_changes_def Some split: if_splits)
qed

lemma apply_parameter_Inr:
  fixes s :: "'z config_db_scheme session"
  assumes "apply_parameter pf fr now by' p s = (Inr u, s')"
  obtains e where "committed s' = committed s" "audit_log_entries (working s') = audit_log_entries (working s) @ [e]"
    "config_parameters (working s') = update_where (\<lambda>x. cp_id x = cp_id p)
       (\<lambda>x. x\<lparr>cp_active_value := the (cp_pending_value p), cp_pending_value := None\<rparr>) (config_parameters (working s))"
    "config_changes (working s') = mark_applied p now (config_changes (working s))"
    "entry_for by' p e" "audit_inv (working s) \<longrightarrow> audit_inv (working s')"
    "ec_law pf \<and> enum_values pf (applied_payload by' p) \<and> audit_inv (working s)
       \<and> chain_ok pf (audit_log_entries (working s)) \<longrightarrow> chain_ok pf (audit_log_entries (working s'))"
proof -
  let ?ch = "first_row (filter (\<lambda>c. cc_parameter_id c = cp_id p \<and> cc_status c = ConfigChangeStatus.PENDING)
    (config_changes (working s)))"
  define mark :: "ConfigChange list \<Rightarrow> ConfigChange list" where "mark = (case ?ch of None \<Rightarrow> (\<lambda>cs. cs)
    | Some c \<Rightarrow> update_where (\<lambda>x. cc_id x = cc_id c)
        (\<lambda>x. x\<lparr>cc_status := ConfigChangeStatus.APPLIED, cc_applied_at := Some now\<rparr>))"
  have mark: "mark (config_changes (working s)) = mark_applied p now (config_changes (working s))"
    by (simp add: mark_def mark_applied_def split: option.splits)
  define D where "D = config_changes_update mark (config_parameters_update (update_where (\<lambda>x. cp_id x = cp_id p)
    (\<lambda>x. x\<lparr>cp_active_value := the (cp_pending_value p), cp_pending_value := None\<rparr>)) (working s))"
  have same: "config_changes_update (\<lambda>cs. cs) x = x" for x :: "'z config_db_scheme" by (cases x) simp
  obtain e where e: "append_entry_in_transaction pf fr (applied_payload by' p) (s\<lparr>working := D\<rparr>) = (Inr e, s')"
    using assms by (cases ?ch)
      (auto simp: same apply_parameter_def bind_svc_Inr query_def modify_db_def return_svc_def D_def mark_def)
  note r = append_in_transaction_run [OF e]
  have D: "audit_log_entries D = audit_log_entries (working s)" "audit_inv D \<longleftrightarrow> audit_inv (working s)"
    by (simp_all add: D_def audit_inv_def log_sorted_def)
  have w: "audit_log_entries (working s') = audit_log_entries D @ [e]"
    "config_parameters (working s') = config_parameters D" "config_changes (working s') = config_changes D"
    using r(2) by (simp_all add: insert_entry_Inr)
  note f = build_entry_Inr [OF r(1)]
  show thesis
  proof (rule that)
    show "audit_inv (working s) \<longrightarrow> audit_inv (working s')"
      using append_in_transaction_inv [OF _ e] D by simp
    show "ec_law pf \<and> enum_values pf (applied_payload by' p) \<and> audit_inv (working s)
       \<and> chain_ok pf (audit_log_entries (working s)) \<longrightarrow> chain_ok pf (audit_log_entries (working s'))"
      using append_in_transaction_chain(2) [OF _ _ _ e] D by simp
    show "entry_for by' p e" using f(5,8,9) by (simp add: entry_for_def) (simp add: applied_payload_def Let_def)
  qed (use r(3) w D mark in \<open>simp_all add: D_def\<close>)
qed

text \<open>
  The loop, from the first failure-free iteration to the last: every parameter of the list is
  promoted, in order, with one entry each.
\<close>

lemma apply_parameters_Inr:
  assumes "apply_parameters pf frs nows by' n ps s = (Inr k, s')"
    and "distinct (map cp_id ps)" and "\<forall>p \<in> set ps. cp_pending_value p \<noteq> None \<and> p \<in> set (config_parameters (working s))"
    and "distinct (map cp_id (config_parameters (working s)))" and "audit_inv (working s)"
    and "distinct (map cc_id (config_changes (working s)))"
  shows "k = n + length ps \<and> committed s' = committed s \<and> audit_inv (working s')
    \<and> config_parameters (working s') = map (\<lambda>p. if p \<in> set ps then promoted p else p) (config_parameters (working s))
    \<and> map cc_id (config_changes (working s')) = map cc_id (config_changes (working s))
    \<and> map cc_parameter_id (config_changes (working s')) = map cc_parameter_id (config_changes (working s))
    \<and> length (pending_changes i (config_changes (working s)))
        \<le> length (pending_changes i (config_changes (working s'))) + (if i \<in> cp_id ` set ps then 1 else 0)
    \<and> (\<exists>es. audit_log_entries (working s') = audit_log_entries (working s) @ es
        \<and> list_all2 (entry_for by') ps es)
    \<and> (ec_law pf \<longrightarrow> (\<forall>p \<in> set ps. enum_values pf (applied_payload by' p)) \<longrightarrow>
        chain_ok pf (audit_log_entries (working s)) \<longrightarrow> chain_ok pf (audit_log_entries (working s')))"
  using assms
proof (induction ps arbitrary: n s)
  case Nil
  then show ?case by (simp add: return_svc_def)
next
  case (Cons p ps)
  obtain s1 where s1: "apply_parameter pf (frs n) (nows n) by' p s = (Inr (), s1)"
    and rest: "apply_parameters pf frs nows by' (n + 1) ps s1 = (Inr k, s')"
    using Cons.prems(1) by (auto simp: bind_svc_Inr)
  obtain e where e: "committed s1 = committed s" "audit_log_entries (working s1) = audit_log_entries (working s) @ [e]"
      "config_parameters (working s1) = update_where (\<lambda>x. cp_id x = cp_id p)
         (\<lambda>x. x\<lparr>cp_active_value := the (cp_pending_value p), cp_pending_value := None\<rparr>) (config_parameters (working s))"
      "config_changes (working s1) = mark_applied p (nows n) (config_changes (working s))"
      "entry_for by' p e" "audit_inv (working s) \<longrightarrow> audit_inv (working s1)"
      "ec_law pf \<and> enum_values pf (applied_payload by' p) \<and> audit_inv (working s)
         \<and> chain_ok pf (audit_log_entries (working s)) \<longrightarrow> chain_ok pf (audit_log_entries (working s1))"
    by (rule apply_parameter_Inr [OF s1])
  let ?cs = "config_parameters (working s)"
  have inj: "x = y" if "x \<in> set ?cs" "y \<in> set ?cs" "cp_id x = cp_id y" for x y
    using that Cons.prems(4) by (auto simp: distinct_map dest: inj_onD)
  have p: "p \<in> set ?cs" "cp_pending_value p \<noteq> None" using Cons.prems(3) by auto
  have cs1: "config_parameters (working s1) = map (\<lambda>x. if x = p then promoted x else x) ?cs"
    unfolding e(3) update_where_def
    by (rule map_cong [OF refl]) (use inj [OF _ p(1)] p(2) in \<open>auto simp: promoted_def split: option.splits\<close>)
  have ne: "cp_id q \<noteq> cp_id p" if "q \<in> set ps" for q using that Cons.prems(2) by (auto simp: image_iff)
  have ids: "map cp_id (config_parameters (working s1)) = map cp_id ?cs"
    unfolding e(3) by (simp add: map_update_where)
  have "\<forall>q \<in> set ps. cp_pending_value q \<noteq> None \<and> q \<in> set (config_parameters (working s1))"
    using Cons.prems(3) ne unfolding cs1 by (auto simp: image_iff intro!: bexI)
  from Cons.IH [OF rest _ this] Cons.prems(2,4,5,6) e(6) ids mark_applied_maps(1) [of p "nows n" "config_changes (working s)"]
  have IH: "k = n + 1 + length ps" "committed s' = committed s1" "audit_inv (working s')"
      "config_parameters (working s') = map (\<lambda>q. if q \<in> set ps then promoted q else q) (config_parameters (working s1))"
      "map cc_id (config_changes (working s')) = map cc_id (config_changes (working s1))"
      "map cc_parameter_id (config_changes (working s')) = map cc_parameter_id (config_changes (working s1))"
      "length (pending_changes i (config_changes (working s1)))
        \<le> length (pending_changes i (config_changes (working s'))) + (if i \<in> cp_id ` set ps then 1 else 0)"
      "\<exists>es. audit_log_entries (working s') = audit_log_entries (working s1) @ es
        \<and> list_all2 (entry_for by') ps es"
      "ec_law pf \<longrightarrow> (\<forall>p \<in> set ps. enum_values pf (applied_payload by' p)) \<longrightarrow>
        chain_ok pf (audit_log_entries (working s1)) \<longrightarrow> chain_ok pf (audit_log_entries (working s'))"
    by (simp_all add: e(4))
  have pid: "cp_id (promoted p) = cp_id p" by (simp add: promoted_def split: option.splits)
  have "config_parameters (working s') = map (\<lambda>x. if x \<in> set (p # ps) then promoted x else x) ?cs"
    unfolding IH(4) cs1 map_map
    by (rule map_cong [OF refl]) (use ne [of "promoted p"] pid in auto)
  moreover obtain es where "audit_log_entries (working s') = audit_log_entries (working s1) @ es"
    "list_all2 (entry_for by') ps es"
    using IH(8) by blast
  moreover have "cp_id p \<notin> cp_id ` set ps" using Cons.prems(2) by simp
  then have "length (pending_changes i (config_changes (working s)))
      \<le> length (pending_changes i (config_changes (working s'))) + (if i \<in> cp_id ` set (p # ps) then 1 else 0)"
    using IH(7) mark_applied_pending [OF Cons.prems(6), of i p "nows n"] unfolding e(4) by (simp split: if_splits)
  ultimately show ?case using IH(1-3,5,6,9) e Cons.prems(5) mark_applied_maps
    by (auto intro!: exI [of _ "e # es"])
qed

lemma uncommitting_apply_parameter: "uncommitting (apply_parameter pf fr now by' p)"
  unfolding apply_parameter_def
  by (intro uncommitting_bind uncommitting_option uncommitting_basic uncommitting_append)

lemma uncommitting_apply_parameters: "uncommitting (apply_parameters pf frs nows by' n ps)"
  by (induction ps arbitrary: n) (auto intro: uncommitting_bind uncommitting_apply_parameter)

lemma apply_pending_run:
  "run_request (apply_pending_changes pf frs nows by') d =
     (case apply_parameters pf frs nows by' 0 (filter (\<lambda>p. cp_pending_value p \<noteq> None) (config_parameters d))
        \<lparr>committed = d, working = d\<rparr> of
        (Inl e, s) \<Rightarrow> (Inl e, d)
      | (Inr k, s) \<Rightarrow> (Inr k, working s))"
  using uncommittingD [OF uncommitting_apply_parameters [of pf frs nows by' 0], of _ "\<lparr>committed = d, working = d\<rparr>"]
  by (force simp: apply_pending_changes_def svc_simps split: prod.splits sum.splits)

lemma apply_pending_Inr:
  assumes "config_inv d" and "audit_inv d" and "run_request (apply_pending_changes pf frs nows by') d = (Inr k, d')"
  shows "k = length (filter (\<lambda>p. cp_pending_value p \<noteq> None) (config_parameters d))" "audit_inv d'" "config_inv d'"
    "config_parameters d' = map promoted (config_parameters d)"
    "\<exists>es. audit_log_entries d' = audit_log_entries d @ es
       \<and> list_all2 (entry_for by') (filter (\<lambda>p. cp_pending_value p \<noteq> None) (config_parameters d)) es"
    "ec_law pf \<Longrightarrow> (\<And>p. enum_values pf (applied_payload by' p)) \<Longrightarrow> chain_ok pf (audit_log_entries d) \<Longrightarrow>
       chain_ok pf (audit_log_entries d')"
    "length (pending_changes i (config_changes d)) \<le> length (pending_changes i (config_changes d')) + 1"
proof -
  let ?ps = "filter (\<lambda>p. cp_pending_value p \<noteq> None) (config_parameters d)"
  obtain s where s: "apply_parameters pf frs nows by' 0 ?ps \<lparr>committed = d, working = d\<rparr> = (Inr k, s)" and d': "d' = working s"
    using assms(3) by (auto simp: apply_pending_run split: prod.splits sum.splits)
  let ?s0 = "\<lparr>committed = d, working = d\<rparr>"
  have pre: "distinct (map cp_id ?ps)"
    "\<forall>p \<in> set ?ps. cp_pending_value p \<noteq> None \<and> p \<in> set (config_parameters (working ?s0))"
    "distinct (map cp_id (config_parameters (working ?s0)))" "audit_inv (working ?s0)"
    "distinct (map cc_id (config_changes (working ?s0)))"
    using assms(1,2) by (simp_all add: config_inv_def distinct_map_filter)
  note r = apply_parameters_Inr [OF s pre, of i, unfolded session.select_convs add_0, folded d']
  show cps: "config_parameters d' = map promoted (config_parameters d)"
    using r by (auto simp: promoted_def intro!: map_cong)
  have "map cp_id (config_parameters d') = map cp_id (config_parameters d)"
    "map cp_key (config_parameters d') = map cp_key (config_parameters d)"
    unfolding cps by (simp_all add: promoted_def comp_def split: option.splits)
  then show "config_inv d'" using assms(1) r unfolding config_inv_def by (metis set_map)
  show "k = length ?ps" "audit_inv d'" "\<exists>es. audit_log_entries d' = audit_log_entries d @ es \<and> list_all2 (entry_for by') ?ps es"
    "ec_law pf \<Longrightarrow> (\<And>p. enum_values pf (applied_payload by' p)) \<Longrightarrow> chain_ok pf (audit_log_entries d) \<Longrightarrow>
       chain_ok pf (audit_log_entries d')"
    using r by blast+
  show "length (pending_changes i (config_changes d)) \<le> length (pending_changes i (config_changes d')) + 1"
    using r by (auto split: if_splits)
qed

text \<open>The strings the service sends are values of the two enumerations.\<close>

definition config_enum_law :: "'p audit_platform_scheme \<Rightarrow> bool" where
  "config_enum_law pf \<longleftrightarrow> coerce_severity pf ''info'' = Some AuditSeverity.INFO
     \<and> coerce_event_type pf ''config_change'' = Some AuditEventType.CONFIG_CHANGE"

lemma config_enum_values: "config_enum_law pf \<Longrightarrow> enum_values pf (applied_payload by' p)"
  by (simp add: config_enum_law_def enum_values_def applied_payload_def Let_def)

section \<open>A concrete database\<close>

lemma bind_query: "bind_svc (query q) f s = f (q (working s)) s"
  by (simp add: bind_svc_def query_def)

lemma bind_modify: "bind_svc (modify_db g) f s = f () (s\<lparr>working := g (working s)\<rparr>)"
  by (simp add: bind_svc_def modify_db_def)

lemma append_in_transaction_succeeds:
  assumes "build_entry pf fr (audit_next (working s) + int (fr_skip fr)) (map_option ale_entry_hash (get_tail (working s))) p = Inr e"
    and "insert_entry e (working s) = Inr d"
  shows "append_entry_in_transaction pf fr p s = (Inr e, s\<lparr>working := d\<rparr>)"
  using assms by (simp add: append_entry_in_transaction_def svc_simps Let_def)

definition demo_param :: ConfigParameter where
  "demo_param = \<lparr>cp_id = 30, cp_key = ''pin'', cp_section = ''hsm'', cp_tier = ConfigTier.CRITICAL,
     cp_value_type = ConfigValueType.INTEGER, cp_active_value = ''1'', cp_pending_value = None, cp_allowed_values = None,
     cp_is_sensitive = True, cp_requires_restart = False, cp_description = None\<rparr>"

definition demo_config_db :: config_db where
  "demo_config_db = audit_db.extend demo_audit_db (config_db.fields [demo_param] [] [])"

definition demo_stage :: "string \<Rightarrow> ConfigParameterStage" where
  "demo_stage v = \<lparr>cps_value = v, cps_reason = None, cps_changed_by = ''admin@nexus''\<rparr>"

definition demo_staged_db :: config_db where
  "demo_staged_db = snd (run_request (stage_config_change 40 0 30 (demo_stage ''2'')) demo_config_db)"

definition demo_restaged_db :: config_db where
  "demo_restaged_db = snd (run_request (stage_config_change 41 1 30 (demo_stage ''3'')) demo_staged_db)"

lemma demo_config_inv: "config_inv demo_config_db" "audit_inv demo_config_db"
  by (simp_all add: config_inv_def audit_inv_def log_sorted_def demo_config_db_def demo_audit_db_def
      tenancy_db.defs audit_db.defs config_db.defs)

lemma demo_config_columns:
  assumes "build_entry demo_P fr seq prev p = Inr e" and "text_ok (alc_description p)" and "fits_opt 64 prev"
    and "fits 60 (alc_event_subtype p)" "text_ok (alc_event_subtype p)" "fits 120 (alc_actor p)" "text_ok (alc_actor p)" "alc_tenant_slug p = None" "alc_source_ip p = None"
  shows "columns_ok e"
proof -
  have "ale_signing_key_id e = get_signing_key_id demo_P"
    using assms(1) by (auto simp: build_entry_def Let_def split: option.splits)
  then have "fits 60 (ale_signing_key_id e)" by (simp add: get_signing_key_id_def fits_def)
  moreover have "fits 64 (compute_entry_hash demo_P g)" for g
    using demo_mark_length [of demo_F "canonical_payload g"]
    by (cases "demo_mark demo_F (canonical_payload g)")
       (auto simp: fits_def compute_entry_hash_def demo_P_def demo_with_def hexlify_def hex2_def)
  ultimately show ?thesis
    using build_entry_Inr [OF assms(1)] assms(2-)
    by (simp add: columns_ok_def fits_opt_def)
qed

lemma demo_config_enum_law: "config_enum_law demo_P"
proof -
  have "coerce_severity demo_audit_platform ''info'' = Some AuditSeverity.INFO"
    "coerce_event_type demo_audit_platform ''config_change'' = Some AuditEventType.CONFIG_CHANGE" by code_simp+
  then show ?thesis by (simp add: config_enum_law_def demo_P_def demo_with_def)
qed

lemma demo_append_coerced:
  fixes s :: "'z audit_db_scheme session"
  assumes "audit_log_entries (working s) = []"
    and co: "coerce_severity demo_P (alc_severity p) = Some sv" "coerce_event_type demo_P (alc_event_type p) = Some ty"
    and "text_ok (alc_description p)" "fits 60 (alc_event_subtype p)" "text_ok (alc_event_subtype p)"
    and "fits 120 (alc_actor p)" "text_ok (alc_actor p)"
    and "alc_tenant_id p = None" "alc_tenant_slug p = None" "alc_source_ip p = None"
  shows "\<exists>e d. append_entry_in_transaction demo_P fr p s = (Inr e, s\<lparr>working := d\<rparr>)"
proof -
  have tail: "map_option ale_entry_hash (get_tail (working s)) = None"
    by (simp add: get_tail_def assms(1) order_by_desc_def first_row_def)
  obtain e where e: "build_entry demo_P fr (audit_next (working s) + int (fr_skip fr)) None p = Inr e"
    using build_entry_succeeds [OF co] by metis
  have "columns_ok e" using assms by (intro demo_config_columns [OF e]) (simp_all add: fits_opt_def)
  moreover have "ale_tenant_id e = None" using build_entry_Inr(4) [OF e] assms(9) by simp
  ultimately have "\<exists>d. insert_entry e (working s) = Inr d" using assms(1) by (simp add: insert_entry_Inr)
  with append_in_transaction_succeeds [of demo_P fr s p e] e tail show ?thesis by metis
qed

lemma demo_append:
  fixes s :: "config_db session"
  assumes "audit_log_entries (working s) = []" and "alc_severity p = ''info''" "alc_event_type p = ''config_change''"
    and "text_ok (alc_description p)" "fits 60 (alc_event_subtype p)" "text_ok (alc_event_subtype p)"
    and "fits 120 (alc_actor p)" "text_ok (alc_actor p)"
    and "alc_tenant_id p = None" "alc_tenant_slug p = None" "alc_source_ip p = None"
  shows "\<exists>e d. append_entry_in_transaction demo_P fr p s = (Inr e, s\<lparr>working := d\<rparr>)"
  using demo_config_enum_law assms
  by (intro demo_append_coerced [of _ _ AuditSeverity.INFO AuditEventType.CONFIG_CHANGE]) (simp_all add: config_enum_law_def)

lemma demo_apply:
  fixes d :: config_db
  assumes "filter (\<lambda>p. cp_pending_value p \<noteq> None) (config_parameters d) = [p]" and "audit_log_entries d = []"
    and "text_ok (alc_description (applied_payload ''admin@nexus'' p))"
  obtains d' where "run_request (apply_pending_changes demo_P demo_fresh (\<lambda>_. 0) ''admin@nexus'') d = (Inr 1, d')"
proof -
  let ?pl = "applied_payload ''admin@nexus'' p"
  have ok: "\<exists>s'. bind_svc (append_entry_in_transaction demo_P (demo_fresh 0) ?pl) (\<lambda>_. return_svc ()) s = (Inr (), s')"
    if "audit_log_entries (working s) = []" for s :: "config_db session"
    using demo_append [OF that, of ?pl "demo_fresh 0"] assms(3)
    by (auto simp: applied_payload_def Let_def fits_def text_ok_def bind_svc_def return_svc_def)
  have "\<exists>s'. apply_parameter demo_P (demo_fresh 0) 0 ''admin@nexus'' p \<lparr>committed = d, working = d\<rparr> = (Inr (), s')"
    by (cases "first_row (filter (\<lambda>c. cc_parameter_id c = cp_id p \<and> cc_status c = ConfigChangeStatus.PENDING)
          (config_changes d))") (simp_all add: apply_parameter_def bind_query bind_modify ok assms(2))
  then show thesis using that unfolding apply_pending_run assms(1) by (auto simp: bind_svc_def return_svc_def)
qed

lemma demo_staged_facts:
  "filter (\<lambda>p. cp_pending_value p \<noteq> None) (config_parameters demo_staged_db) = [demo_param\<lparr>cp_pending_value := Some ''2''\<rparr>]"
  "audit_log_entries demo_staged_db = []"
  "filter (\<lambda>p. cp_pending_value p \<noteq> None) (config_parameters demo_restaged_db) = [demo_param\<lparr>cp_pending_value := Some ''3''\<rparr>]"
  "audit_log_entries demo_restaged_db = []"
  by code_simp+

lemma demo_staged_runs:
  "run_request (stage_config_change 40 0 30 (demo_stage ''2'')) demo_config_db
     = (Inr (demo_param\<lparr>cp_pending_value := Some ''2''\<rparr>), demo_staged_db)"
  "run_request (stage_config_change 41 1 30 (demo_stage ''3'')) demo_staged_db
     = (Inr (demo_param\<lparr>cp_pending_value := Some ''3''\<rparr>), demo_restaged_db)"
proof -
  have "fst (run_request (stage_config_change 40 0 30 (demo_stage ''2'')) demo_config_db) = Inr (demo_param\<lparr>cp_pending_value := Some ''2''\<rparr>)"
    "fst (run_request (stage_config_change 41 1 30 (demo_stage ''3'')) demo_staged_db) = Inr (demo_param\<lparr>cp_pending_value := Some ''3''\<rparr>)"
    by code_simp+
  then show "run_request (stage_config_change 40 0 30 (demo_stage ''2'')) demo_config_db
     = (Inr (demo_param\<lparr>cp_pending_value := Some ''2''\<rparr>), demo_staged_db)"
  "run_request (stage_config_change 41 1 30 (demo_stage ''3'')) demo_staged_db
     = (Inr (demo_param\<lparr>cp_pending_value := Some ''3''\<rparr>), demo_restaged_db)"
    unfolding demo_restaged_db_def by (simp_all add: prod_eq_iff demo_staged_db_def)
qed

lemma demo_active: "cps_value (demo_stage v) = cp_active_value demo_param \<longleftrightarrow> v = ''1''"
  by (simp add: demo_stage_def demo_param_def)

lemma demo_texts:
  "text_ok (alc_description (applied_payload ''admin@nexus'' (demo_param\<lparr>cp_pending_value := Some ''2''\<rparr>)))"
  "text_ok (alc_description (applied_payload ''admin@nexus'' (demo_param\<lparr>cp_pending_value := Some ''3''\<rparr>)))"
  by code_simp+

lemma demo_staged_inv: "config_inv demo_staged_db" "audit_inv demo_staged_db"
proof -
  show "config_inv demo_staged_db" by (rule stage_inv [OF demo_config_inv(1) demo_staged_runs(1)]) (simp add: demo_active)
  show "audit_inv demo_staged_db"
    by (rule stage_Inr [OF demo_staged_runs(1)]) (simp_all add: demo_active demo_config_inv)
qed

section \<open>Properties\<close>

text \<open>
  C37. Applying the staged changes is all or nothing. On success every parameter with a staged
  value has it as its active value and nothing is staged any more, the others are untouched, the
  answer is the number of promoted parameters, and the audit log grew by exactly one entry for
  each of them, in order, so that a log that verified still does. On any failure, in the middle
  of the loop included, neither a parameter nor the log has changed.
\<close>

theorem apply_promotes_all_or_nothing:
  assumes "config_inv d" and "audit_inv d" and "run_request (apply_pending_changes pf frs nows by') d = (r, d')"
  shows "case r of
      Inl e \<Rightarrow> d' = d
    | Inr k \<Rightarrow>
        let staged = filter (\<lambda>p. cp_pending_value p \<noteq> None) (config_parameters d) in
        k = length staged \<and> config_parameters d' = map promoted (config_parameters d)
        \<and> (\<forall>p \<in> set (config_parameters d'). cp_pending_value p = None)
        \<and> audit_inv d' \<and> config_inv d'
        \<and> (\<exists>es. audit_log_entries d' = audit_log_entries d @ es \<and> list_all2 (entry_for by') staged es)
        \<and> (ec_law pf \<and> config_enum_law pf \<and> chain_ok pf (audit_log_entries d) \<longrightarrow> chain_ok pf (audit_log_entries d'))"
proof (cases r)
  case (Inl e)
  with assms(3) show ?thesis by (auto simp: apply_pending_run split: prod.splits sum.splits)
next
  case (Inr k)
  note f = apply_pending_Inr [OF assms(1,2) assms(3) [unfolded Inr]]
  have "\<forall>p \<in> set (config_parameters d'). cp_pending_value p = None"
    unfolding f(4) by (auto simp: promoted_def split: option.splits)
  with f show ?thesis by (simp add: Inr Let_def config_enum_values)
qed

theorem apply_promotes_all_or_nothing_witness:
  "\<exists>d'. run_request (apply_pending_changes demo_P demo_fresh (\<lambda>_. 0) ''admin@nexus'') demo_staged_db = (Inr 1, d')
     \<and> config_parameters d' = map promoted (config_parameters demo_staged_db)"
proof -
  obtain d' where r: "run_request (apply_pending_changes demo_P demo_fresh (\<lambda>_. 0) ''admin@nexus'') demo_staged_db = (Inr 1, d')"
    by (rule demo_apply [OF demo_staged_facts(1,2) demo_texts(1)])
  from apply_promotes_all_or_nothing [OF demo_staged_inv r] r show ?thesis by (simp add: Let_def)
qed

text \<open>
  The value of a sensitive parameter never reaches the audit log: the entry written when it
  is applied holds the placeholder for the old and for the new value, in the description as
  well as in the metadata, whatever the two values were.
\<close>

theorem sensitive_values_stay_out_of_the_log:
  assumes "config_inv d" and "audit_inv d" and "run_request (apply_pending_changes pf frs nows by') d = (Inr k, d')"
    and "e \<in> set (audit_log_entries d') - set (audit_log_entries d)"
  shows "\<exists>p \<in> set (config_parameters d). cp_pending_value p \<noteq> None \<and> ale_actor e = by'
    \<and> (cp_is_sensitive p \<longrightarrow>
        ale_description e = ''Config parameter '' @ CHR 0x27 # cp_key p @ CHR 0x27 # '' updated: ''
          @ py_repr REDACTED_CONFIG_VALUE @ '' -> '' @ py_repr REDACTED_CONFIG_VALUE
        \<and> ale_metadata_json e = JDict
          [(''parameter_key'', JStr (cp_key p)), (''previous_value'', JStr REDACTED_CONFIG_VALUE),
           (''new_value'', JStr REDACTED_CONFIG_VALUE), (''requires_restart'', JBool (cp_requires_restart p))])"
proof -
  obtain es where es: "audit_log_entries d' = audit_log_entries d @ es"
      "list_all2 (entry_for by') (filter (\<lambda>p. cp_pending_value p \<noteq> None) (config_parameters d)) es"
    using apply_pending_Inr(5) [OF assms(1-3)] by blast
  then obtain i where i: "e = es ! i" "i < length es" using assms(4) by (auto simp: in_set_conv_nth)
  let ?ps = "filter (\<lambda>p. cp_pending_value p \<noteq> None) (config_parameters d)"
  define p where "p = ?ps ! i"
  have "p \<in> set ?ps" "entry_for by' p e" using es(2) i unfolding p_def by (metis list_all2_conv_all_nth nth_mem)+
  then have "p \<in> set (config_parameters d)" "cp_pending_value p \<noteq> None" "entry_for by' p e" by auto
  moreover have "\<not> sensitive_key ''parameter_key''" "\<not> sensitive_key ''previous_value''" "\<not> sensitive_key ''new_value''"
    "\<not> sensitive_key ''requires_restart''" by code_simp+
  ultimately show ?thesis by (intro bexI [of _ p]) (auto simp: entry_for_def applied_payload_def Let_def)
qed

theorem sensitive_values_stay_out_of_the_log_witness:
  "\<exists>d' e. run_request (apply_pending_changes demo_P demo_fresh (\<lambda>_. 0) ''admin@nexus'') demo_staged_db = (Inr 1, d')
     \<and> e \<in> set (audit_log_entries d') \<and> (\<exists>p \<in> set (config_parameters demo_staged_db). cp_is_sensitive p \<longrightarrow>
        ale_metadata_json e = JDict
          [(''parameter_key'', JStr (cp_key p)), (''previous_value'', JStr REDACTED_CONFIG_VALUE),
           (''new_value'', JStr REDACTED_CONFIG_VALUE), (''requires_restart'', JBool (cp_requires_restart p))])"
proof -
  obtain d' where r: "run_request (apply_pending_changes demo_P demo_fresh (\<lambda>_. 0) ''admin@nexus'') demo_staged_db = (Inr 1, d')"
    by (rule demo_apply [OF demo_staged_facts(1,2) demo_texts(1)])
  obtain es where "audit_log_entries d' = es" "list_all2 (entry_for ''admin@nexus'') [demo_param\<lparr>cp_pending_value := Some ''2''\<rparr>] es"
    using apply_pending_Inr(5) [OF demo_staged_inv r] unfolding demo_staged_facts by auto
  then obtain e where "audit_log_entries d' = [e]" by (auto simp: list_all2_Cons1)
  then have "e \<in> set (audit_log_entries d') - set (audit_log_entries demo_staged_db)" "e \<in> set (audit_log_entries d')"
    by (simp_all add: demo_staged_facts)
  with sensitive_values_stay_out_of_the_log [OF demo_staged_inv r this(1)] r show ?thesis by blast
qed

text \<open>
  Reverting a parameter takes back what was staged for it and nothing else: its staged value
  is gone, its active value stays, every change record of it that was pending is closed as
  reverted and no other record or parameter is touched; reverting again changes nothing.
\<close>

theorem revert_undoes_staging:
  assumes "config_inv d" and "run_request (revert_config_change i) d = (Inr p, d')"
  shows "config_inv d' \<and> get_row cp_id i (config_parameters d') = Some p
    \<and> cp_pending_value p = None \<and> map_option cp_active_value (get_row cp_id i (config_parameters d)) = Some (cp_active_value p)
    \<and> filter (\<lambda>q. cp_id q \<noteq> i) (config_parameters d') = filter (\<lambda>q. cp_id q \<noteq> i) (config_parameters d)
    \<and> filter (\<lambda>c. cc_parameter_id c \<noteq> i) (config_changes d') = filter (\<lambda>c. cc_parameter_id c \<noteq> i) (config_changes d)
    \<and> (\<forall>c \<in> set (config_changes d'). cc_parameter_id c = i \<longrightarrow> cc_status c \<noteq> ConfigChangeStatus.PENDING)
    \<and> audit_log_entries d' = audit_log_entries d
    \<and> run_request (revert_config_change i) d' = (Inr p, d')"
proof -
  define S :: "ConfigChange list \<Rightarrow> ConfigChange list" where "S = update_where (\<lambda>c. cc_parameter_id c = i \<and> cc_status c = ConfigChangeStatus.PENDING)
      (\<lambda>c. c\<lparr>cc_status := ConfigChangeStatus.REVERTED\<rparr>)"
  define P :: "ConfigParameter list \<Rightarrow> ConfigParameter list" where "P = update_where (\<lambda>q. cp_id q = i) (\<lambda>q. q\<lparr>cp_pending_value := None\<rparr>)"
  obtain p0 where p0: "get_row cp_id i (config_parameters d) = Some p0" and p: "p = p0\<lparr>cp_pending_value := None\<rparr>"
    and d': "d' = config_changes_update S (config_parameters_update P d)"
    using assms(2) by (auto simp: revert_config_change_def set_pending_def svc_simps S_def P_def split: option.splits)
  have id: "cp_id p0 = i" using get_row_Some [OF p0] by simp
  have g: "get_row cp_id i (config_parameters d') = Some p"
    using p0 id by (simp add: d' P_def get_row_update_where p)
  have PP: "P (P xs) = P xs" for xs by (induction xs) (simp_all add: P_def)
  have SS: "S (S xs) = S xs" for xs by (induction xs) (simp_all add: S_def)
  have fP: "filter (\<lambda>q. cp_id q \<noteq> i) (P xs) = filter (\<lambda>q. cp_id q \<noteq> i) xs" for xs by (induction xs) (simp_all add: P_def)
  have fS: "filter (\<lambda>c. cc_parameter_id c \<noteq> i) (S xs) = filter (\<lambda>c. cc_parameter_id c \<noteq> i) xs" for xs
    by (induction xs) (simp_all add: S_def)
  have nS: "\<forall>c \<in> set (S xs). cc_parameter_id c = i \<longrightarrow> cc_status c \<noteq> ConfigChangeStatus.PENDING" for xs
    by (induction xs) (simp_all add: S_def)
  have m: "map cp_id (P xs) = map cp_id xs" "map cp_key (P xs) = map cp_key xs" for xs by (simp_all add: P_def map_update_where)
  have mS: "map cc_id (S xs) = map cc_id xs" "map cc_parameter_id (S xs) = map cc_parameter_id xs" for xs
    by (simp_all add: S_def map_update_where)
  have im: "cp_id ` set (P xs) = cp_id ` set xs" "cc_parameter_id ` set (S ys) = cc_parameter_id ` set ys" for xs ys
    unfolding P_def S_def by (rule ids_update_where; simp)+
  have inv: "config_inv d'"
    using assms(1) im by (simp add: config_inv_def d' m mS)
  have "run_request (revert_config_change i) d' = (Inr p, config_changes_update S (config_parameters_update P d'))"
    using g p by (simp add: revert_config_change_def set_pending_def svc_simps S_def P_def)
  moreover have "config_changes_update S (config_parameters_update P d') = d'"
    by (simp add: d' PP SS comp_def)
  ultimately show ?thesis using g p p0 inv fP fS nS by (simp add: d')
qed

theorem revert_undoes_staging_witness:
  "\<exists>p d'. run_request (revert_config_change 30) demo_staged_db = (Inr p, d') \<and> cp_pending_value p = None
     \<and> run_request (revert_config_change 30) d' = (Inr p, d')"
proof -
  have "\<not> isl (fst (run_request (revert_config_change 30) demo_staged_db))" by code_simp
  then obtain p d' where r: "run_request (revert_config_change 30) demo_staged_db = (Inr p, d')"
    by (metis prod.collapse sum.collapse(2))
  from revert_undoes_staging [OF demo_staged_inv(1) r] r show ?thesis by blast
qed

text \<open>
  C38. The overview, open to every account, shows what the parameter view masks: after a new
  value was staged for a sensitive parameter, the parameter itself is answered with the mask,
  but the list of pending changes of the overview holds the old and the new value in clear.
\<close>

theorem overview_leaks_sensitive_values:
  assumes "run_request (stage_config_change cid now i payload) d = (Inr p, d')"
    and "cp_is_sensitive p" and "cps_value payload \<noteq> cp_active_value p" and "cps_value payload \<noteq> []"
  shows "cpr_active_value (from_model p) = MASK \<and> cpr_pending_value (from_model p) = Some MASK
    \<and> (\<exists>ov. run_request get_config_manager_overview d' = (Inr ov, d')
        \<and> (\<exists>c \<in> set (cmo_pending_changes ov). ccr_parameter_key c = cp_key p
             \<and> ccr_previous_value c = cp_active_value p \<and> ccr_new_value c = cps_value payload))"
proof -
  obtain p0 where p0: "p = p0\<lparr>cp_pending_value := Some (cps_value payload)\<rparr>" "get_row cp_id i (config_parameters d) = Some p0"
      "config_changes d' = config_changes d @ [staged_change cid now p0 payload]" "get_row cp_id i (config_parameters d') = Some p"
    by (rule stage_Inr [OF assms(1,3)]) blast
  let ?c = "staged_change cid now p0 payload"
  have "ccr_parameter_key (change_to_read (config_parameters d') ?c) = cp_key p"
    "ccr_previous_value (change_to_read (config_parameters d') ?c) = cp_active_value p"
    "ccr_new_value (change_to_read (config_parameters d') ?c) = cps_value payload"
    using p0 get_row_Some [OF p0(2)] by (simp_all add: change_to_read_def staged_change_def)
  moreover have "?c \<in> set (order_by_desc cc_created_at (filter (\<lambda>c. cc_status c = ConfigChangeStatus.PENDING) (config_changes d')))"
    by (simp add: order_by_desc_def p0(3) staged_change_def)
  moreover have "cpr_active_value (from_model p) = MASK \<and> cpr_pending_value (from_model p) = Some MASK"
    using assms(2,4) by (simp add: from_model_def Let_def p0(1) truthy_def)
  ultimately show ?thesis by (auto simp: get_config_manager_overview_def svc_simps Let_def)
qed

theorem overview_leaks_sensitive_values_witness:
  "\<exists>ov. run_request get_config_manager_overview demo_staged_db = (Inr ov, demo_staged_db)
     \<and> (\<exists>c \<in> set (cmo_pending_changes ov). ccr_parameter_key c = ''pin'' \<and> ccr_new_value c = ''2'')"
proof -
  have "cps_value (demo_stage ''2'') \<noteq> cp_active_value (demo_param\<lparr>cp_pending_value := Some ''2''\<rparr>)" by (simp add: demo_active)
  from overview_leaks_sensitive_values [OF demo_staged_runs(1) _ this] show ?thesis
    by (auto simp: demo_param_def demo_stage_def)
qed

text \<open>
  A parameter that was staged twice leaves a change record behind: after both values were
  staged and everything was applied no parameter has a staged value, but the overview still
  reports a pending change, because only one of the two records was closed.
\<close>

theorem restaging_leaves_a_stale_change:
  assumes "config_inv d" and "audit_inv d"
    and "run_request (stage_config_change c1 t1 i v1) d = (Inr p1, d1)" and "cps_value v1 \<noteq> cp_active_value p1"
    and "run_request (stage_config_change c2 t2 i v2) d1 = (Inr p2, d2)" and "cps_value v2 \<noteq> cp_active_value p2"
    and "run_request (apply_pending_changes pf frs nows by') d2 = (Inr k, d3)"
  shows "(\<forall>p \<in> set (config_parameters d3). cp_pending_value p = None)
    \<and> (\<exists>ov. run_request get_config_manager_overview d3 = (Inr ov, d3) \<and> cmo_pending_changes ov \<noteq> [])"
proof -
  have inv1: "config_inv d1" by (rule stage_inv [OF assms(1,3,4)])
  have inv2: "config_inv d2" by (rule stage_inv [OF inv1 assms(5,6)])
  obtain q1 where q1: "config_changes d1 = config_changes d @ [staged_change c1 t1 q1 v1]" "audit_inv d \<longrightarrow> audit_inv d1"
      "get_row cp_id i (config_parameters d) = Some q1"
    by (rule stage_Inr [OF assms(3,4)]) blast
  obtain q2 where q2: "config_changes d2 = config_changes d1 @ [staged_change c2 t2 q2 v2]" "audit_inv d1 \<longrightarrow> audit_inv d2"
      "get_row cp_id i (config_parameters d1) = Some q2"
    by (rule stage_Inr [OF assms(5,6)]) blast
  have "audit_inv d2" using q1(2) q2(2) assms(2) by simp
  note f = apply_pending_Inr [OF inv2 this assms(7)]
  have "cp_id q1 = i" "cp_id q2 = i" using get_row_Some [OF q1(3)] get_row_Some [OF q2(3)] by simp_all
  then have "2 \<le> length (pending_changes i (config_changes d2))"
    by (simp add: q1(1) q2(1) pending_changes_def staged_change_def)
  with f(7) [of i] have "pending_changes i (config_changes d3) \<noteq> []" by (cases "pending_changes i (config_changes d3)") auto
  then have "filter (\<lambda>c. cc_status c = ConfigChangeStatus.PENDING) (config_changes d3) \<noteq> []"
    by (auto simp: pending_changes_def filter_empty_conv)
  then have "order_by_desc cc_created_at (filter (\<lambda>c. cc_status c = ConfigChangeStatus.PENDING) (config_changes d3)) \<noteq> []"
    by (metis order_by_desc_def set_empty set_sort)
  moreover have "\<forall>p \<in> set (config_parameters d3). cp_pending_value p = None"
    unfolding f(4) by (auto simp: promoted_def split: option.splits)
  ultimately show ?thesis by (simp add: get_config_manager_overview_def svc_simps Let_def)
qed

theorem restaging_leaves_a_stale_change_witness:
  "\<exists>d'. run_request (apply_pending_changes demo_P demo_fresh (\<lambda>_. 0) ''admin@nexus'') demo_restaged_db = (Inr 1, d')
     \<and> (\<exists>ov. run_request get_config_manager_overview d' = (Inr ov, d') \<and> cmo_pending_changes ov \<noteq> [])"
proof -
  obtain d' where r: "run_request (apply_pending_changes demo_P demo_fresh (\<lambda>_. 0) ''admin@nexus'') demo_restaged_db = (Inr 1, d')"
    by (rule demo_apply [OF demo_staged_facts(3,4) demo_texts(2)])
  from restaging_leaves_a_stale_change [OF demo_config_inv demo_staged_runs(1) _ demo_staged_runs(2) _ r] r show ?thesis
    by (simp add: demo_active)
qed

end
