(* ===== verification/ConfigVersions.thy ===== *)
theory ConfigVersions
  imports ConfigParams
begin

text \<open>
  Versioned configuration documents: the second part of \<^verbatim>\<open>src/app/services/config_service.py\<close>
  with its schemas and endpoints. A document is the list of the items of a JSON object, in
  order. Rows are written by one request at a time; the clock readings and identifiers of a
  request are its arguments.
\<close>

section \<open>Schemas\<close>

record ConfigurationRead =
  cfr_id :: uuid
  cfr_name :: string
  cfr_version :: int
  cfr_status :: string
  cfr_payload :: "(string \<times> json) list"
  cfr_sensitive_keys :: "string list"
  cfr_checksum :: string
  cfr_description :: "string option"
  cfr_created_by :: string
  cfr_activated_at :: "datetime option"
  cfr_archived_at :: "datetime option"
  cfr_deleted_at :: "datetime option"
  cfr_is_deleted :: bool
  cfr_created_at :: datetime
  cfr_updated_at :: datetime

record ConfigurationCreate =
  cfc_name :: string
  cfc_payload :: "(string \<times> json) list"
  cfc_description :: "string option"
  cfc_sensitive_keys :: "string list"

definition valid_ConfigurationCreate :: "ConfigurationCreate \<Rightarrow> bool" where
  "valid_ConfigurationCreate p \<longleftrightarrow> len_in 2 120 (cfc_name p) \<and> len_in_opt 0 255 (cfc_description p)"

record ConfigurationUpdate =
  cfu_payload :: "(string \<times> json) list"
  cfu_description :: "string option"
  cfu_sensitive_keys :: "string list option"

definition valid_ConfigurationUpdate :: "ConfigurationUpdate \<Rightarrow> bool" where
  "valid_ConfigurationUpdate p \<longleftrightarrow> len_in_opt 0 255 (cfu_description p)"

record ConfigurationValidateRequest =
  cvq_name :: "string option"
  cvq_payload :: "(string \<times> json) list"
  cvq_sensitive_keys :: "string list"

definition valid_ConfigurationValidateRequest :: "ConfigurationValidateRequest \<Rightarrow> bool" where
  "valid_ConfigurationValidateRequest p \<longleftrightarrow> len_in_opt 0 120 (cvq_name p)"

record ConfigurationValidateResponse =
  cvp_valid :: bool
  cvp_errors :: "string list"
  cvp_checksum :: "string option"

record ConfigurationCompareResponse =
  ccp_name :: string
  ccp_base_version :: int
  ccp_other_version :: int
  ccp_added :: "(string \<times> json) list"
  ccp_removed :: "(string \<times> json) list"
  ccp_changed :: "(string \<times> json \<times> json) list"
  ccp_unchanged_count :: nat

record ConfigurationExportItem =
  cei_name :: string
  cei_version :: int
  cei_status :: string
  cei_checksum :: string
  cei_description :: "string option"
  cei_created_by :: string
  cei_created_at :: datetime

record ConfigurationExportResponse =
  cer_exported_at :: datetime
  cer_count :: nat
  cer_items :: "ConfigurationExportItem list"

text \<open>An import item has the fields of \<open>ConfigurationCreate\<close>; a request has 1 to 100 of them.\<close>

definition valid_ConfigurationImportRequest :: "ConfigurationCreate list \<Rightarrow> bool" where
  "valid_ConfigurationImportRequest items \<longleftrightarrow>
     1 \<le> length items \<and> length items \<le> 100 \<and> list_all valid_ConfigurationCreate items"

record ConfigurationImportResultRow =
  cir_name :: string
  cir_version :: "int option"
  cir_outcome :: string
  cir_detail :: string

record ConfigurationImportResponse =
  cim_imported :: nat
  cim_skipped :: nat
  cim_rows :: "ConfigurationImportResultRow list"

section \<open>services/config\_service.py\<close>

definition MAX_PAYLOAD_KEYS :: nat where
  "MAX_PAYLOAD_KEYS = 200"

definition checksum :: "'p platform_scheme \<Rightarrow> (string \<times> json) list \<Rightarrow> string" where
  "checksum pf payload = hexlify (sha256 pf (utf8_encode (dumps (JDict payload))))"

definition mask_payload :: "(string \<times> json) list \<Rightarrow> string list \<Rightarrow> (string \<times> json) list" where
  "mask_payload payload sensitive_keys =
     map (\<lambda>(k, v). (k, if k \<in> set sensitive_keys then JStr MASK else v)) payload"

definition is_deleted :: "Configuration \<Rightarrow> bool" where
  "is_deleted c \<longleftrightarrow> cf_deleted_at c \<noteq> None"

definition to_read :: "Configuration \<Rightarrow> ConfigurationRead" where
  "to_read config =
     \<lparr>cfr_id = cf_id config, cfr_name = cf_name config, cfr_version = cf_version config,
      cfr_status = ConfigurationStatus_value (cf_status config),
      cfr_payload = mask_payload (cf_payload config) (cf_sensitive_keys config),
      cfr_sensitive_keys = cf_sensitive_keys config, cfr_checksum = cf_checksum config,
      cfr_description = cf_description config, cfr_created_by = cf_created_by config,
      cfr_activated_at = cf_activated_at config, cfr_archived_at = cf_archived_at config,
      cfr_deleted_at = cf_deleted_at config, cfr_is_deleted = is_deleted config,
      cfr_created_at = cf_created_at config, cfr_updated_at = cf_updated_at config\<rparr>"

definition quoted :: "string \<Rightarrow> string" where
  "quoted s = CHR 0x27 # s @ [CHR 0x27]"

definition key_errors :: "string \<Rightarrow> string list" where
  "key_errors key =
     (if strip key = [] then [''invalid payload key: '' @ py_repr key]
      else if key \<noteq> strip key then [''key '' @ quoted key @ '' has leading/trailing whitespace''] else [])"

definition validate_payload :: "(string \<times> json) list \<Rightarrow> string list \<Rightarrow> string list" where
  "validate_payload payload sensitive_keys =
     (if payload = [] then [''payload must be a non-empty object'']
      else
        (if MAX_PAYLOAD_KEYS < length payload
         then [''payload has too many keys (>'' @ show_nat MAX_PAYLOAD_KEYS @ '')''] else [])
        @ concat (map (\<lambda>kv. key_errors (fst kv)) payload)
        @ map (\<lambda>k. ''sensitive key '' @ quoted k @ '' is not present in payload'')
            (filter (\<lambda>k. k \<notin> fst ` set payload) sensitive_keys))"

definition get_configuration_orm :: "uuid \<Rightarrow> ('z config_db_scheme, Configuration) svc" where
  "get_configuration_orm config_id =
     bind_svc (query (\<lambda>d. get_row cf_id config_id (configurations d)))
     (\<lambda>found. case found of
        None \<Rightarrow> raise_svc (HTTPException 404 ''Configuration not found'')
      | Some config \<Rightarrow>
          if cf_deleted_at config \<noteq> None then raise_svc (HTTPException 404 ''Configuration not found'')
          else return_svc config)"

text \<open>The maximum over all rows of the name, deleted ones included; none counts as 0.\<close>

definition next_version :: "string \<Rightarrow> 'z config_db_scheme \<Rightarrow> int" where
  "next_version name d =
     foldl max 0 (map cf_version (filter (\<lambda>c. cf_name c = name) (configurations d))) + 1"

definition active_configuration :: "string \<Rightarrow> 'z config_db_scheme \<Rightarrow> Configuration option" where
  "active_configuration name d =
     first_row (order_by_desc cf_version (filter (\<lambda>c. cf_name c = name
       \<and> cf_status c = ConfigurationStatus.ACTIVE \<and> cf_deleted_at c = None) (configurations d)))"

definition audit_config ::
  "'p audit_platform_scheme \<Rightarrow> fresh \<Rightarrow> string \<Rightarrow> string \<Rightarrow> string \<Rightarrow> json \<Rightarrow> ('z config_db_scheme, unit) svc" where
  "audit_config pf fr actor subtype description metadata =
     bind_svc (append_entry_in_transaction pf fr
       \<lparr>alc_severity = ''info'', alc_event_type = ''config_change'', alc_event_subtype = subtype, alc_actor = actor,
        alc_description = description, alc_tenant_id = None, alc_tenant_slug = None, alc_source_ip = None,
        alc_metadata_json = metadata\<rparr>) (\<lambda>_. return_svc ())"

definition list_configurations ::
  "string option \<Rightarrow> ConfigurationStatus option \<Rightarrow> bool \<Rightarrow> ('z config_db_scheme, ConfigurationRead list) svc" where
  "list_configurations name config_status include_deleted =
     query (\<lambda>d. map to_read (sort_key cf_name (order_by_desc cf_version (filter (\<lambda>c.
       (include_deleted \<or> cf_deleted_at c = None)
       \<and> (case name of None \<Rightarrow> True | Some n \<Rightarrow> cf_name c = n)
       \<and> (case config_status of None \<Rightarrow> True | Some s \<Rightarrow> cf_status c = s)) (configurations d)))))"

definition configuration_columns_ok :: "Configuration \<Rightarrow> bool" where
  "configuration_columns_ok c \<longleftrightarrow>
     text_fits_opt 120 (Some (cf_name c)) \<and> fits 64 (cf_checksum c) \<and> text_fits_opt 255 (cf_description c)
     \<and> text_fits_opt 120 (Some (cf_created_by c))"

definition insert_configuration :: "Configuration \<Rightarrow> 'z config_db_scheme \<Rightarrow> error + 'z config_db_scheme" where
  "insert_configuration c d =
     (if \<not> configuration_columns_ok c then Inl (DataError ''configurations'')
      else if \<exists>x \<in> set (configurations d). cf_name x = cf_name c \<and> cf_version x = cf_version c
      then Inl (IntegrityError ''uq_configurations_name_version'')
      else (case insert_row cf_id c (configurations d) of
              Inl e \<Rightarrow> Inl e
            | Inr cs \<Rightarrow> Inr (d\<lparr>configurations := cs\<rparr>)))"

text \<open>
  The clock readings of a request: the one in the body of the service, and those the mixin
  takes for \<^verbatim>\<open>created_at\<close> and for every new value of \<^verbatim>\<open>updated_at\<close> when rows are flushed.
\<close>

record clock =
  ck_now :: datetime
  ck_created :: datetime
  ck_updated :: "nat \<Rightarrow> datetime"

definition new_configuration ::
  "uuid \<Rightarrow> clock \<Rightarrow> string \<Rightarrow> int \<Rightarrow> (string \<times> json) list \<Rightarrow> string list \<Rightarrow> string \<Rightarrow> string option \<Rightarrow> string \<Rightarrow> Configuration" where
  "new_configuration config_id ck name version payload sensitive_keys digest description created_by =
     \<lparr>cf_id = config_id, cf_name = name, cf_version = version, cf_status = ConfigurationStatus.DRAFT,
      cf_payload = payload, cf_sensitive_keys = sensitive_keys, cf_checksum = digest, cf_description = description,
      cf_created_by = created_by, cf_activated_at = None, cf_archived_at = None, cf_deleted_at = None,
      cf_created_at = ck_created ck, cf_updated_at = ck_updated ck 0\<rparr>"

definition create_configuration ::
  "'p platform_scheme \<Rightarrow> uuid \<Rightarrow> clock \<Rightarrow> ConfigurationCreate \<Rightarrow> string \<Rightarrow> ('z config_db_scheme, ConfigurationRead) svc" where
  "create_configuration pf config_id ck payload created_by =
     bind_svc (query (\<lambda>d. filter (\<lambda>c. cf_name c = cfc_name payload) (configurations d)))
     (\<lambda>existing. if existing \<noteq> []
        then raise_svc (HTTPException 409 (''Configuration '' @ quoted (cfc_name payload)
               @ '' already exists; PATCH it to add a version''))
        else
          let errors = validate_payload (cfc_payload payload) (cfc_sensitive_keys payload) in
          if errors \<noteq> [] then raise_svc (HTTPException 422 (join ''; '' errors))
          else
            let config = new_configuration config_id ck (cfc_name payload) 1 (cfc_payload payload)
                  (cfc_sensitive_keys payload) (checksum pf (cfc_payload payload)) (cfc_description payload) created_by in
            bind_svc (flush (insert_configuration config))
            (\<lambda>_. bind_svc commit (\<lambda>_. return_svc (to_read config))))"

definition get_configuration :: "uuid \<Rightarrow> ('z config_db_scheme, ConfigurationRead) svc" where
  "get_configuration config_id = bind_svc (get_configuration_orm config_id) (\<lambda>c. return_svc (to_read c))"

definition get_latest_configuration :: "string \<Rightarrow> ('z config_db_scheme, ConfigurationRead) svc" where
  "get_latest_configuration name =
     bind_svc (query (\<lambda>d. first_row (order_by_desc cf_version
       (filter (\<lambda>c. cf_name c = name \<and> cf_deleted_at c = None) (configurations d)))))
     (\<lambda>config. case config of
        None \<Rightarrow> raise_svc (HTTPException 404 (''No configuration found for name '' @ quoted name))
      | Some c \<Rightarrow> return_svc (to_read c))"

definition get_latest_active_configuration :: "string \<Rightarrow> ('z config_db_scheme, ConfigurationRead) svc" where
  "get_latest_active_configuration name =
     bind_svc (query (active_configuration name))
     (\<lambda>config. case config of
        None \<Rightarrow> raise_svc (HTTPException 404 (''No active configuration for name '' @ quoted name))
      | Some c \<Rightarrow> return_svc (to_read c))"

definition create_successor_version ::
  "'p platform_scheme \<Rightarrow> uuid \<Rightarrow> clock \<Rightarrow> uuid \<Rightarrow> ConfigurationUpdate \<Rightarrow> string \<Rightarrow> ('z config_db_scheme, ConfigurationRead) svc" where
  "create_successor_version pf new_config_id ck config_id payload created_by =
     bind_svc (get_configuration_orm config_id)
     (\<lambda>base.
        let sensitive = (case cfu_sensitive_keys payload of Some ks \<Rightarrow> ks | None \<Rightarrow> cf_sensitive_keys base);
            errors = validate_payload (cfu_payload payload) sensitive in
        if errors \<noteq> [] then raise_svc (HTTPException 422 (join ''; '' errors))
        else
          bind_svc (query (next_version (cf_name base)))
          (\<lambda>version.
             let config = new_configuration new_config_id ck (cf_name base) version (cfu_payload payload) sensitive
                   (checksum pf (cfu_payload payload))
                   (case cfu_description payload of Some x \<Rightarrow> Some x | None \<Rightarrow> cf_description base) created_by in
             bind_svc (flush (insert_configuration config))
             (\<lambda>_. bind_svc commit (\<lambda>_. return_svc (to_read config)))))"

definition update_configuration_row :: "uuid \<Rightarrow> (Configuration \<Rightarrow> Configuration) \<Rightarrow> 'z config_db_scheme \<Rightarrow> 'z config_db_scheme" where
  "update_configuration_row i f = configurations_update (update_where (\<lambda>c. cf_id c = i) f)"

definition delete_configuration :: "clock \<Rightarrow> uuid \<Rightarrow> ('z config_db_scheme, unit) svc" where
  "delete_configuration ck config_id =
     bind_svc (get_configuration_orm config_id)
     (\<lambda>config. if cf_status config = ConfigurationStatus.ACTIVE
        then raise_svc (HTTPException 409 ''Cannot delete an active configuration; archive it first'')
        else bind_svc (modify_db (update_configuration_row config_id
               (\<lambda>c. c\<lparr>cf_deleted_at := Some (ck_now ck), cf_updated_at := ck_updated ck 0\<rparr>))) (\<lambda>_. commit))"

definition get_configuration_history :: "uuid \<Rightarrow> ('z config_db_scheme, ConfigurationRead list) svc" where
  "get_configuration_history config_id =
     bind_svc (get_configuration_orm config_id)
     (\<lambda>config. query (\<lambda>d. map to_read (order_by_desc cf_version
        (filter (\<lambda>c. cf_name c = cf_name config \<and> cf_deleted_at c = None) (configurations d)))))"

text \<open>The fields the two activating services set on the version that was active and on the new one.\<close>

definition archived_row :: "clock \<Rightarrow> Configuration \<Rightarrow> Configuration" where
  "archived_row ck c = c\<lparr>cf_status := ConfigurationStatus.ARCHIVED, cf_archived_at := Some (ck_now ck), cf_updated_at := ck_updated ck 1\<rparr>"

definition archive_current ::
  "clock \<Rightarrow> Configuration option \<Rightarrow> uuid \<Rightarrow> ('z config_db_scheme, unit) svc" where
  "archive_current ck current config_id =
     (case current of
        None \<Rightarrow> return_svc ()
      | Some c \<Rightarrow>
          if cf_id c \<noteq> config_id then modify_db (update_configuration_row (cf_id c) (archived_row ck))
          else return_svc ())"

definition activate_configuration ::
  "'p audit_platform_scheme \<Rightarrow> fresh \<Rightarrow> clock \<Rightarrow> uuid \<Rightarrow> string \<Rightarrow> ('z config_db_scheme, ConfigurationRead) svc" where
  "activate_configuration pf fr ck config_id actor =
     bind_svc (get_configuration_orm config_id)
     (\<lambda>config. if cf_status config = ConfigurationStatus.ACTIVE
        then raise_svc (HTTPException 409 ''Configuration version is already active'')
        else
          let activate = (\<lambda>c. c\<lparr>cf_status := ConfigurationStatus.ACTIVE, cf_activated_at := Some (ck_now ck),
                cf_archived_at := None, cf_updated_at := ck_updated ck 0\<rparr>) in
          bind_svc (query (active_configuration (cf_name config)))
          (\<lambda>current. bind_svc (archive_current ck current config_id)
          (\<lambda>_. bind_svc (modify_db (update_configuration_row config_id activate))
          (\<lambda>_. bind_svc (audit_config pf fr actor ''CONFIGURATION_ACTIVATED''
             (''Configuration '' @ quoted (cf_name config) @ '' v'' @ show_int (cf_version config) @ '' activated'')
             (JDict [(''name'', JStr (cf_name config)), (''version'', JInt (cf_version config)),
                     (''checksum'', JStr (cf_checksum config))]))
          (\<lambda>_. bind_svc commit (\<lambda>_. return_svc (to_read (activate config))))))))"

definition archive_configuration ::
  "clock \<Rightarrow> uuid \<Rightarrow> string \<Rightarrow> ('z config_db_scheme, ConfigurationRead) svc" where
  "archive_configuration ck config_id actor =
     bind_svc (get_configuration_orm config_id)
     (\<lambda>config. if cf_status config = ConfigurationStatus.ARCHIVED
        then raise_svc (HTTPException 409 ''Configuration version is already archived'')
        else bind_svc (modify_db (update_configuration_row config_id (archived_row ck)))
          (\<lambda>_. bind_svc commit (\<lambda>_. return_svc (to_read (archived_row ck config)))))"

definition rollback_configuration ::
  "'p audit_platform_scheme \<Rightarrow> fresh \<Rightarrow> uuid \<Rightarrow> clock \<Rightarrow> uuid \<Rightarrow> string \<Rightarrow> ('z config_db_scheme, ConfigurationRead) svc" where
  "rollback_configuration pf fr new_config_id ck config_id actor =
     bind_svc (get_configuration_orm config_id)
     (\<lambda>base. bind_svc (query (next_version (cf_name base)))
     (\<lambda>version.
        let config = new_configuration new_config_id ck (cf_name base) version (cf_payload base) (cf_sensitive_keys base)
              (cf_checksum base)
              (Some (''Rollback of '' @ quoted (cf_name base) @ '' to v'' @ show_int (cf_version base))) actor;
            activate = (\<lambda>c. c\<lparr>cf_status := ConfigurationStatus.ACTIVE, cf_activated_at := Some (ck_now ck),
              cf_updated_at := ck_updated ck 2\<rparr>) in
        bind_svc (flush (insert_configuration config))
        (\<lambda>_. bind_svc (query (active_configuration (cf_name base)))
        (\<lambda>current. bind_svc (archive_current ck current new_config_id)
        (\<lambda>_. bind_svc (modify_db (update_configuration_row new_config_id activate))
        (\<lambda>_. bind_svc (audit_config pf fr actor ''CONFIGURATION_ROLLED_BACK''
           (''Configuration '' @ quoted (cf_name base) @ '' rolled back to v'' @ show_int (cf_version base)
              @ '' (activated as v'' @ show_int version @ '')'')
           (JDict [(''name'', JStr (cf_name base)), (''restored_from_version'', JInt (cf_version base)),
                   (''new_version'', JInt version)]))
        (\<lambda>_. bind_svc commit (\<lambda>_. return_svc (to_read (activate config)))))))))) "

text \<open>
  Python's equality of JSON values: a Boolean equals the integer 0 or 1, dictionaries are equal
  whatever the order of their items. \<open>int_eq_float\<close> compares an integer with a double, both
  zeros are equal.
\<close>

definition num_eq :: "(int \<Rightarrow> string \<Rightarrow> bool) \<Rightarrow> int \<Rightarrow> json \<Rightarrow> bool" where
  "num_eq int_eq_float i w =
     (case w of
        JBool b \<Rightarrow> i = (if b then 1 else 0)
      | JInt j \<Rightarrow> i = j
      | JFloat b \<Rightarrow> int_eq_float i b
      | _ \<Rightarrow> False)"

fun py_eq :: "(int \<Rightarrow> string \<Rightarrow> bool) \<Rightarrow> json \<Rightarrow> json \<Rightarrow> bool"
  and py_eq_list :: "(int \<Rightarrow> string \<Rightarrow> bool) \<Rightarrow> json list \<Rightarrow> json list \<Rightarrow> bool"
  and py_eq_items :: "(int \<Rightarrow> string \<Rightarrow> bool) \<Rightarrow> (string \<times> json) list \<Rightarrow> (string \<times> json) list \<Rightarrow> bool" where
  "py_eq e JNull w = (w = JNull)"
| "py_eq e (JBool b) w = num_eq e (if b then 1 else 0) w"
| "py_eq e (JInt i) w = num_eq e i w"
| "py_eq e (JFloat a) w =
     (case w of
        JFloat b \<Rightarrow> a = b \<or> {a, b} \<subseteq> {''0.0'', ''-0.0''}
      | JBool b \<Rightarrow> e (if b then 1 else 0) a
      | JInt j \<Rightarrow> e j a
      | _ \<Rightarrow> False)"
| "py_eq e (JStr s) w = (w = JStr s)"
| "py_eq e (JList xs) w = (case w of JList ys \<Rightarrow> py_eq_list e xs ys | _ \<Rightarrow> False)"
| "py_eq e (JDict xs) w = (case w of JDict ys \<Rightarrow> length xs = length ys \<and> py_eq_items e xs ys | _ \<Rightarrow> False)"
| "py_eq_list e [] ys = (ys = [])"
| "py_eq_list e (x # xs) ys = (case ys of [] \<Rightarrow> False | y # ys' \<Rightarrow> py_eq e x y \<and> py_eq_list e xs ys')"
| "py_eq_items e [] ys = True"
| "py_eq_items e ((k, x) # xs) ys =
     ((case map_of ys k of None \<Rightarrow> False | Some y \<Rightarrow> py_eq e x y) \<and> py_eq_items e xs ys)"

text \<open>The three set comprehensions of the comparison, in the order of the items they come from.\<close>

definition compare_configurations ::
  "(int \<Rightarrow> string \<Rightarrow> bool) \<Rightarrow> uuid \<Rightarrow> int \<Rightarrow> ('z config_db_scheme, ConfigurationCompareResponse) svc" where
  "compare_configurations int_eq_float config_id other_version =
     bind_svc (get_configuration_orm config_id)
     (\<lambda>base. bind_svc (query_e (\<lambda>d. scalar_one_or_none (filter (\<lambda>c. cf_name c = cf_name base
        \<and> cf_version c = other_version \<and> cf_deleted_at c = None) (configurations d))))
     (\<lambda>found. case found of
        None \<Rightarrow> raise_svc (HTTPException 404 (''Version '' @ show_int other_version
          @ '' not found for configuration '' @ quoted (cf_name base)))
      | Some other \<Rightarrow>
          let base_p = cf_payload base; other_p = cf_payload other;
              base_m = mask_payload base_p (cf_sensitive_keys base);
              other_m = mask_payload other_p (cf_sensitive_keys other);
              common = filter (\<lambda>k. k \<in> fst ` set other_p) (map fst base_p);
              differ = (\<lambda>k. \<not> py_eq int_eq_float (the (map_of base_p k)) (the (map_of other_p k)))
          in return_svc
            \<lparr>ccp_name = cf_name base, ccp_base_version = cf_version base, ccp_other_version = cf_version other,
             ccp_added = filter (\<lambda>kv. fst kv \<notin> fst ` set base_p) other_m,
             ccp_removed = filter (\<lambda>kv. fst kv \<notin> fst ` set other_p) base_m,
             ccp_changed = map (\<lambda>k. (k, the (map_of base_m k), the (map_of other_m k))) (filter differ common),
             ccp_unchanged_count = length (filter (\<lambda>k. \<not> differ k) common)\<rparr>))"

definition validate_configuration_payload ::
  "'p platform_scheme \<Rightarrow> ConfigurationValidateRequest \<Rightarrow> ConfigurationValidateResponse" where
  "validate_configuration_payload pf req =
     (let errors = validate_payload (cvq_payload req) (cvq_sensitive_keys req) in
      \<lparr>cvp_valid = (errors = []), cvp_errors = errors,
       cvp_checksum = (if errors = [] then Some (checksum pf (cvq_payload req)) else None)\<rparr>)"

definition export_configurations :: "datetime \<Rightarrow> ('z config_db_scheme, ConfigurationExportResponse) svc" where
  "export_configurations now =
     query (\<lambda>d.
       let items = map (\<lambda>c. \<lparr>cei_name = cf_name c, cei_version = cf_version c,
             cei_status = ConfigurationStatus_value (cf_status c), cei_checksum = cf_checksum c,
             cei_description = cf_description c, cei_created_by = cf_created_by c, cei_created_at = cf_created_at c\<rparr>)
             (sort_key cf_name (sort_key cf_version (filter (\<lambda>c. cf_deleted_at c = None) (configurations d))))
       in \<lparr>cer_exported_at = now, cer_count = length items, cer_items = items\<rparr>)"

text \<open>The loop over the items of an import, with its accumulators; \<open>ids\<close> and \<open>cks\<close> give each new row its own.\<close>

fun import_items ::
  "'p platform_scheme \<Rightarrow> (nat \<Rightarrow> uuid) \<Rightarrow> (nat \<Rightarrow> clock) \<Rightarrow> string \<Rightarrow> nat \<Rightarrow> nat \<Rightarrow> ConfigurationImportResultRow list \<Rightarrow>
   ConfigurationCreate list \<Rightarrow> ('z config_db_scheme, ConfigurationImportResponse) svc" where
  "import_items pf ids cks created_by imported skipped rows [] =
     return_svc \<lparr>cim_imported = imported, cim_skipped = skipped, cim_rows = rows\<rparr>"
| "import_items pf ids cks created_by imported skipped rows (it # items) =
     (let errors = validate_payload (cfc_payload it) (cfc_sensitive_keys it) in
      if errors \<noteq> []
      then import_items pf ids cks created_by imported (skipped + 1)
             (rows @ [\<lparr>cir_name = cfc_name it, cir_version = None, cir_outcome = ''skipped'',
                       cir_detail = join ''; '' errors\<rparr>]) items
      else
        bind_svc (query (next_version (cfc_name it)))
        (\<lambda>version. bind_svc (flush (insert_configuration
             (new_configuration (ids imported) (cks imported) (cfc_name it) version (cfc_payload it)
               (cfc_sensitive_keys it) (checksum pf (cfc_payload it)) (cfc_description it) created_by)))
        (\<lambda>_. import_items pf ids cks created_by (imported + 1) skipped
             (rows @ [\<lparr>cir_name = cfc_name it, cir_version = Some version, cir_outcome = ''created'',
                       cir_detail = ''created v'' @ show_int version\<rparr>]) items)))"

definition import_configurations ::
  "'p platform_scheme \<Rightarrow> (nat \<Rightarrow> uuid) \<Rightarrow> (nat \<Rightarrow> clock) \<Rightarrow> ConfigurationCreate list \<Rightarrow> string \<Rightarrow>
   ('z config_db_scheme, ConfigurationImportResponse) svc" where
  "import_configurations pf ids cks items created_by =
     bind_svc (import_items pf ids cks created_by 0 0 [] items)
     (\<lambda>response. bind_svc commit (\<lambda>_. return_svc response))"

section \<open>api/v1/endpoints/config\_manager.py\<close>

definition read_configurations ::
  "'p platform_scheme \<Rightarrow> Settings \<Rightarrow> datetime \<Rightarrow> string option \<Rightarrow> ConfigurationStatus option \<Rightarrow> bool \<Rightarrow> string option \<Rightarrow>
   ('z config_db_scheme, ConfigurationRead list) svc" where
  "read_configurations pf st now name status_filter include_deleted cred =
     bind_svc (get_current_user pf st now cred)
     (\<lambda>_. list_configurations name status_filter include_deleted)"

definition create_new_configuration ::
  "'p platform_scheme \<Rightarrow> Settings \<Rightarrow> datetime \<Rightarrow> uuid \<Rightarrow> clock \<Rightarrow> ConfigurationCreate \<Rightarrow> string option \<Rightarrow>
   ('z config_db_scheme, ConfigurationRead) svc" where
  "create_new_configuration pf st now config_id ck payload cred =
     bind_svc (require_admin pf st now cred)
     (\<lambda>current_user. validated (valid_ConfigurationCreate payload) (create_configuration pf config_id ck payload (u_email current_user)))"

definition read_latest_configuration ::
  "'p platform_scheme \<Rightarrow> Settings \<Rightarrow> datetime \<Rightarrow> string \<Rightarrow> string option \<Rightarrow>
   ('z config_db_scheme, ConfigurationRead) svc" where
  "read_latest_configuration pf st now name cred =
     bind_svc (get_current_user pf st now cred)
     (\<lambda>_. validated (len_in 2 120 name) (get_latest_configuration name))"

definition read_latest_active_configuration ::
  "'p platform_scheme \<Rightarrow> Settings \<Rightarrow> datetime \<Rightarrow> string \<Rightarrow> string option \<Rightarrow>
   ('z config_db_scheme, ConfigurationRead) svc" where
  "read_latest_active_configuration pf st now name cred =
     bind_svc (get_current_user pf st now cred)
     (\<lambda>_. validated (len_in 2 120 name) (get_latest_active_configuration name))"

definition export_all_configurations ::
  "'p platform_scheme \<Rightarrow> Settings \<Rightarrow> datetime \<Rightarrow> datetime \<Rightarrow> string option \<Rightarrow>
   ('z config_db_scheme, ConfigurationExportResponse) svc" where
  "export_all_configurations pf st now now' cred =
     bind_svc (get_current_user pf st now cred)
     (\<lambda>_. export_configurations now')"

definition validate_configuration ::
  "'p platform_scheme \<Rightarrow> Settings \<Rightarrow> datetime \<Rightarrow> ConfigurationValidateRequest \<Rightarrow> string option \<Rightarrow>
   ('z config_db_scheme, ConfigurationValidateResponse) svc" where
  "validate_configuration pf st now payload cred =
     bind_svc (get_current_user pf st now cred)
     (\<lambda>_. validated (valid_ConfigurationValidateRequest payload) (return_svc (validate_configuration_payload pf payload)))"

definition import_all_configurations ::
  "'p platform_scheme \<Rightarrow> Settings \<Rightarrow> datetime \<Rightarrow> (nat \<Rightarrow> uuid) \<Rightarrow> (nat \<Rightarrow> clock) \<Rightarrow> ConfigurationCreate list \<Rightarrow> string option \<Rightarrow>
   ('z config_db_scheme, ConfigurationImportResponse) svc" where
  "import_all_configurations pf st now ids cks items cred =
     bind_svc (require_admin pf st now cred)
     (\<lambda>current_user. validated (valid_ConfigurationImportRequest items) (import_configurations pf ids cks items (u_email current_user)))"

definition read_configuration ::
  "'p platform_scheme \<Rightarrow> Settings \<Rightarrow> datetime \<Rightarrow> uuid \<Rightarrow> string option \<Rightarrow>
   ('z config_db_scheme, ConfigurationRead) svc" where
  "read_configuration pf st now configuration_id cred =
     bind_svc (get_current_user pf st now cred)
     (\<lambda>_. get_configuration configuration_id)"

definition update_configuration ::
  "'p platform_scheme \<Rightarrow> Settings \<Rightarrow> datetime \<Rightarrow> uuid \<Rightarrow> clock \<Rightarrow> uuid \<Rightarrow> ConfigurationUpdate \<Rightarrow> string option \<Rightarrow>
   ('z config_db_scheme, ConfigurationRead) svc" where
  "update_configuration pf st now new_config_id ck configuration_id payload cred =
     bind_svc (require_admin pf st now cred)
     (\<lambda>current_user. validated (valid_ConfigurationUpdate payload) (create_successor_version pf new_config_id ck configuration_id payload (u_email current_user)))"

definition soft_delete_configuration ::
  "'p platform_scheme \<Rightarrow> Settings \<Rightarrow> datetime \<Rightarrow> clock \<Rightarrow> uuid \<Rightarrow> string option \<Rightarrow>
   ('z config_db_scheme, string) svc" where
  "soft_delete_configuration pf st now ck configuration_id cred =
     bind_svc (require_admin pf st now cred)
     (\<lambda>_. bind_svc (delete_configuration ck configuration_id) (\<lambda>_. return_svc ''Configuration deleted''))"

definition read_configuration_history ::
  "'p platform_scheme \<Rightarrow> Settings \<Rightarrow> datetime \<Rightarrow> uuid \<Rightarrow> string option \<Rightarrow>
   ('z config_db_scheme, ConfigurationRead list) svc" where
  "read_configuration_history pf st now configuration_id cred =
     bind_svc (get_current_user pf st now cred)
     (\<lambda>_. get_configuration_history configuration_id)"

definition rollback_to_configuration ::
  "'p audit_platform_scheme \<Rightarrow> Settings \<Rightarrow> datetime \<Rightarrow> fresh \<Rightarrow> uuid \<Rightarrow> clock \<Rightarrow> uuid \<Rightarrow> string option \<Rightarrow>
   ('z config_db_scheme, ConfigurationRead) svc" where
  "rollback_to_configuration pf st now fr new_config_id ck configuration_id cred =
     bind_svc (require_admin pf st now cred)
     (\<lambda>current_user. rollback_configuration pf fr new_config_id ck configuration_id (u_email current_user))"

definition activate_configuration_version ::
  "'p audit_platform_scheme \<Rightarrow> Settings \<Rightarrow> datetime \<Rightarrow> fresh \<Rightarrow> clock \<Rightarrow> uuid \<Rightarrow> string option \<Rightarrow>
   ('z config_db_scheme, ConfigurationRead) svc" where
  "activate_configuration_version pf st now fr ck configuration_id cred =
     bind_svc (require_admin pf st now cred)
     (\<lambda>current_user. activate_configuration pf fr ck configuration_id (u_email current_user))"

definition archive_configuration_version ::
  "'p platform_scheme \<Rightarrow> Settings \<Rightarrow> datetime \<Rightarrow> clock \<Rightarrow> uuid \<Rightarrow> string option \<Rightarrow>
   ('z config_db_scheme, ConfigurationRead) svc" where
  "archive_configuration_version pf st now ck configuration_id cred =
     bind_svc (require_admin pf st now cred)
     (\<lambda>current_user. archive_configuration ck configuration_id (u_email current_user))"

definition compare_configuration_versions ::
  "'p platform_scheme \<Rightarrow> Settings \<Rightarrow> datetime \<Rightarrow> (int \<Rightarrow> string \<Rightarrow> bool) \<Rightarrow> uuid \<Rightarrow> int \<Rightarrow> string option \<Rightarrow>
   ('z config_db_scheme, ConfigurationCompareResponse) svc" where
  "compare_configuration_versions pf st now int_eq_float configuration_id version cred =
     bind_svc (get_current_user pf st now cred)
     (\<lambda>_. compare_configurations int_eq_float configuration_id version)"

interpretation create_new_configuration_ep: admin_endpoint pf st now "create_new_configuration pf st now config_id ck payload"
    "\<lambda>current_user. validated (valid_ConfigurationCreate payload) (create_configuration pf config_id ck payload (u_email current_user))"
  for pf :: "'p platform_scheme" and st now config_id ck payload
  by unfold_locales (simp add: create_new_configuration_def)

interpretation import_all_configurations_ep: admin_endpoint pf st now "import_all_configurations pf st now ids cks items"
    "\<lambda>current_user. validated (valid_ConfigurationImportRequest items) (import_configurations pf ids cks items (u_email current_user))"
  for pf :: "'p platform_scheme" and st now ids cks items
  by unfold_locales (simp add: import_all_configurations_def)

interpretation update_configuration_ep: admin_endpoint pf st now "update_configuration pf st now new_config_id ck configuration_id payload"
    "\<lambda>current_user. validated (valid_ConfigurationUpdate payload) (create_successor_version pf new_config_id ck configuration_id payload (u_email current_user))"
  for pf :: "'p platform_scheme" and st now new_config_id ck configuration_id payload
  by unfold_locales (simp add: update_configuration_def)

interpretation soft_delete_configuration_ep: admin_endpoint pf st now "soft_delete_configuration pf st now ck configuration_id"
    "\<lambda>_. bind_svc (delete_configuration ck configuration_id) (\<lambda>_. return_svc ''Configuration deleted'')"
  for pf :: "'p platform_scheme" and st now ck configuration_id
  by unfold_locales (simp add: soft_delete_configuration_def)

interpretation rollback_to_configuration_ep: admin_endpoint pf st now "rollback_to_configuration pf st now fr new_config_id ck configuration_id"
    "\<lambda>current_user. rollback_configuration pf fr new_config_id ck configuration_id (u_email current_user)"
  for pf :: "'p audit_platform_scheme" and st now fr new_config_id ck configuration_id
  by unfold_locales (simp add: rollback_to_configuration_def)

interpretation activate_configuration_version_ep: admin_endpoint pf st now "activate_configuration_version pf st now fr ck configuration_id"
    "\<lambda>current_user. activate_configuration pf fr ck configuration_id (u_email current_user)"
  for pf :: "'p audit_platform_scheme" and st now fr ck configuration_id
  by unfold_locales (simp add: activate_configuration_version_def)

interpretation archive_configuration_version_ep: admin_endpoint pf st now "archive_configuration_version pf st now ck configuration_id"
    "\<lambda>current_user. archive_configuration ck configuration_id (u_email current_user)"
  for pf :: "'p platform_scheme" and st now ck configuration_id
  by unfold_locales (simp add: archive_configuration_version_def)

section \<open>The invariant of the versions\<close>

text \<open>
  What the class promises: rows are identified by name and version, versions count from 1, a
  checksum is that of its payload, and at most one version of a name is active, never a
  deleted one.
\<close>

definition active_ok :: "Configuration list \<Rightarrow> bool" where
  "active_ok cs \<longleftrightarrow>
     (\<forall>c \<in> set cs. \<forall>c' \<in> set cs. cf_status c = ConfigurationStatus.ACTIVE \<and> cf_status c' = ConfigurationStatus.ACTIVE
        \<and> cf_name c = cf_name c' \<longrightarrow> cf_id c = cf_id c')
     \<and> (\<forall>c \<in> set cs. cf_status c = ConfigurationStatus.ACTIVE \<longrightarrow> cf_deleted_at c = None)"

definition rows_ok :: "'p platform_scheme \<Rightarrow> Configuration list \<Rightarrow> bool" where
  "rows_ok pf cs \<longleftrightarrow> distinct (map cf_id cs) \<and> distinct (map (\<lambda>c. (cf_name c, cf_version c)) cs)
     \<and> (\<forall>c \<in> set cs. 1 \<le> cf_version c \<and> cf_checksum c = checksum pf (cf_payload c))"

definition versions_inv :: "'p platform_scheme \<Rightarrow> 'z config_db_scheme \<Rightarrow> bool" where
  "versions_inv pf d \<longleftrightarrow> rows_ok pf (configurations d) \<and> active_ok (configurations d)"

text \<open>An update that keeps what identifies a version and its document.\<close>

definition same_document :: "(Configuration \<Rightarrow> Configuration) \<Rightarrow> bool" where
  "same_document f \<longleftrightarrow> (\<forall>c. cf_id (f c) = cf_id c \<and> cf_name (f c) = cf_name c \<and> cf_version (f c) = cf_version c
     \<and> cf_payload (f c) = cf_payload c \<and> cf_checksum (f c) = cf_checksum c \<and> cf_sensitive_keys (f c) = cf_sensitive_keys c)"

lemma rows_ok_update:
  assumes "rows_ok pf cs" and "same_document f"
  shows "rows_ok pf (update_where P f cs)"
proof -
  have "map cf_id (update_where P f cs) = map cf_id cs"
    "map (\<lambda>c. (cf_name c, cf_version c)) (update_where P f cs) = map (\<lambda>c. (cf_name c, cf_version c)) cs"
    using assms(2) by (simp_all add: map_update_where same_document_def)
  moreover have "\<forall>c \<in> set (update_where P f cs). 1 \<le> cf_version c \<and> cf_checksum c = checksum pf (cf_payload c)"
    using assms by (auto simp: update_where_def rows_ok_def same_document_def)
  ultimately show ?thesis using assms(1) by (simp only: rows_ok_def)
qed

lemma next_version_greater: "c \<in> set (configurations d) \<Longrightarrow> cf_name c = n \<Longrightarrow> cf_version c < next_version n d"
proof -
  have acc: "a \<le> foldl max a vs" for a :: int and vs by (induction vs arbitrary: a) (simp, metis foldl_Cons max.bounded_iff)
  have "v \<in> set vs \<Longrightarrow> v \<le> foldl max a vs" for v a :: int and vs
  proof (induction vs arbitrary: a)
    case (Cons x xs)
    then show ?case using acc [of "max a x" xs] by auto
  qed simp
  moreover assume "c \<in> set (configurations d)" "cf_name c = n"
  ultimately show ?thesis unfolding next_version_def by (simp add: less_add_one zless_add1_eq order.order_iff_strict [symmetric])
qed

lemma next_version_pos: "1 \<le> next_version n d"
proof -
  have "a \<le> foldl max a vs" for a :: int and vs by (induction vs arbitrary: a) (simp, metis foldl_Cons max.bounded_iff)
  then show ?thesis by (simp add: next_version_def)
qed

lemma pair_in_image: "(\<exists>x \<in> S. f x = a \<and> g x = b) \<longleftrightarrow> (a, b) \<in> (\<lambda>x. (f x, g x)) ` S"
  by force

lemma insert_configuration_Inr:
  "insert_configuration c d = Inr d' \<longleftrightarrow> configuration_columns_ok c
     \<and> (cf_name c, cf_version c) \<notin> (\<lambda>x. (cf_name x, cf_version x)) ` set (configurations d)
     \<and> cf_id c \<notin> cf_id ` set (configurations d) \<and> d' = d\<lparr>configurations := configurations d @ [c]\<rparr>"
  unfolding insert_configuration_def insert_row_def pair_in_image set_map
  by (cases "configuration_columns_ok c"; cases "cf_id c \<in> cf_id ` set (configurations d)";
      cases "(cf_name c, cf_version c) \<in> (\<lambda>x. (cf_name x, cf_version x)) ` set (configurations d)")
     (simp_all add: eq_commute [of d'])

lemma versions_inv_insert:
  assumes "versions_inv pf d" and "insert_configuration c d = Inr d'" and "1 \<le> cf_version c"
    and "cf_checksum c = checksum pf (cf_payload c)" and "cf_status c \<noteq> ConfigurationStatus.ACTIVE"
  shows "versions_inv pf d'"
proof -
  have "rows_ok pf (configurations d @ [c])"
    using assms by (simp add: versions_inv_def rows_ok_def insert_configuration_Inr)
  moreover have "active_ok (configurations d @ [c])"
    using assms(1,5) unfolding versions_inv_def active_ok_def set_append list.set ball_Un by blast
  ultimately show ?thesis using assms(2) by (simp add: versions_inv_def insert_configuration_Inr)
qed

lemma active_ok_update:
  assumes "active_ok cs" and "\<And>c. c \<in> set cs \<Longrightarrow> P c \<Longrightarrow> cf_status (f c) \<noteq> ConfigurationStatus.ACTIVE"
  shows "active_ok (update_where P f cs)"
proof -
  have old: "\<exists>b \<in> set cs. c = b" if "c \<in> set (update_where P f cs)" "cf_status c = ConfigurationStatus.ACTIVE" for c
    using that assms(2) by (auto simp: update_where_def split: if_splits)
  then show ?thesis using assms(1) unfolding active_ok_def by blast
qed

lemma active_configuration_Some:
  "active_configuration n d = Some c \<Longrightarrow>
   c \<in> set (configurations d) \<and> cf_name c = n \<and> cf_status c = ConfigurationStatus.ACTIVE \<and> cf_deleted_at c = None"
proof -
  let ?xs = "order_by_desc cf_version (filter (\<lambda>c. cf_name c = n \<and> cf_status c = ConfigurationStatus.ACTIVE
    \<and> cf_deleted_at c = None) (configurations d))"
  assume "active_configuration n d = Some c"
  then obtain ys where "?xs = c # ys" by (auto simp: active_configuration_def first_row_def split: list.splits)
  then have "c \<in> set ?xs" by simp
  then show ?thesis by (simp add: order_by_desc_def)
qed

lemma active_configuration_unique:
  assumes "active_ok (configurations d)" and "x \<in> set (configurations d)" "cf_name x = n" "cf_status x = ConfigurationStatus.ACTIVE"
  obtains c where "active_configuration n d = Some c" "cf_id c = cf_id x"
proof -
  let ?xs = "order_by_desc cf_version (filter (\<lambda>c. cf_name c = n \<and> cf_status c = ConfigurationStatus.ACTIVE
    \<and> cf_deleted_at c = None) (configurations d))"
  have "cf_deleted_at x = None" using assms unfolding active_ok_def by blast
  then have "x \<in> set ?xs" using assms by (simp add: order_by_desc_def)
  then obtain c ys where "?xs = c # ys" by (cases ?xs) auto
  then have c: "active_configuration n d = Some c" by (simp add: active_configuration_def first_row_def)
  then have "cf_id c = cf_id x" using assms active_configuration_Some [OF c] unfolding active_ok_def by blast
  with c that show thesis by blast
qed

text \<open>The rows after the version that was active is archived and row \<open>i\<close> made active.\<close>

definition archived_rows :: "clock \<Rightarrow> Configuration option \<Rightarrow> uuid \<Rightarrow> Configuration list \<Rightarrow> Configuration list" where
  "archived_rows ck cur i cs =
     (case cur of
        None \<Rightarrow> cs
      | Some c \<Rightarrow> if cf_id c \<noteq> i then update_where (\<lambda>x. cf_id x = cf_id c) (archived_row ck) cs else cs)"

lemma same_document_archived: "same_document (archived_row ck)"
  by (simp add: same_document_def archived_row_def)

lemma archived_status: "cf_status (archived_row ck c) = ConfigurationStatus.ARCHIVED"
  by (simp add: archived_row_def)

lemma archived_rowsE:
  assumes "x \<in> set (archived_rows ck cur i cs)"
  obtains "x \<in> set cs" "\<And>c. cur = Some c \<Longrightarrow> cf_id c \<noteq> i \<Longrightarrow> cf_id x \<noteq> cf_id c"
  | y where "y \<in> set cs" "x = archived_row ck y" "cur \<noteq> None" "cf_id y \<noteq> i"
  using assms by (auto simp: archived_rows_def update_where_def split: option.splits if_splits)

lemma active_ok_switch:
  assumes "active_ok (configurations d)" and "k \<in> set (configurations d)" "cf_id k = i" "cf_name k = n" "cf_deleted_at k = None"
    and "distinct (map cf_id (configurations d))" and "\<And>c. cf_id (f c) = cf_id c \<and> cf_name (f c) = cf_name c \<and> cf_deleted_at (f c) = cf_deleted_at c"
  shows "active_ok (update_where (\<lambda>c. cf_id c = i) f (archived_rows ck (active_configuration n d) i (configurations d)))"
    (is "active_ok ?new")
proof -
  let ?cs = "configurations d" and ?cs1 = "archived_rows ck (active_configuration n d) i (configurations d)"
  have k: "z = k" if "z \<in> set ?cs" "cf_id z = i" for z
    using that assms(2,3,6) by (auto simp: distinct_map dest: inj_onD)
  have claim: "(cf_id x = i \<and> cf_name x = n \<and> cf_deleted_at x = None) \<or> (x \<in> set ?cs \<and> cf_name x \<noteq> n)"
    if "x \<in> set ?new" and act: "cf_status x = ConfigurationStatus.ACTIVE" for x
  proof -
    consider (upd) y where "y \<in> set ?cs1" "cf_id y = i" "x = f y" | (old) "x \<in> set ?cs1" "cf_id x \<noteq> i"
      using \<open>x \<in> set ?new\<close> by (auto simp: update_where_def split: if_splits)
    then show ?thesis
    proof cases
      case upd
      from upd(1) show ?thesis
      proof (cases rule: archived_rowsE)
        case 1
        with k upd have "y = k" by blast
        with upd assms(3-5,7) show ?thesis by simp
      next
        case (2 z)
        with upd show ?thesis by (simp add: archived_row_def)
      qed
    next
      case old
      from old(1) show ?thesis
      proof (cases rule: archived_rowsE)
        case 1
        have "cf_name x \<noteq> n"
        proof
          assume "cf_name x = n"
          from assms(1) 1(1) this act obtain c where "active_configuration n d = Some c" "cf_id c = cf_id x"
            by (rule active_configuration_unique)
          with 1(2) old(2) show False by metis
        qed
        with 1(1) show ?thesis by blast
      next
        case (2 z)
        with act show ?thesis by (simp add: archived_row_def)
      qed
    qed
  qed
  show ?thesis using claim assms(1) unfolding active_ok_def by metis
qed

section \<open>What the requests do\<close>

text \<open>A request whose error leaves the committed database alone; a commit may only come last.\<close>

definition all_or_nothing :: "('d, 'a) svc \<Rightarrow> bool" where
  "all_or_nothing m \<longleftrightarrow> (\<forall>s e s'. m s = (Inl e, s') \<longrightarrow> committed s' = committed s)"

lemma all_or_nothing_rules:
  "uncommitting m \<Longrightarrow> all_or_nothing m"
  "uncommitting n \<Longrightarrow> (\<And>x. all_or_nothing (f x)) \<Longrightarrow> all_or_nothing (bind_svc n f)"
  "all_or_nothing (bind_svc commit (\<lambda>_. return_svc y))" "all_or_nothing commit"
  "(b \<Longrightarrow> all_or_nothing m1) \<Longrightarrow> (\<not> b \<Longrightarrow> all_or_nothing m2) \<Longrightarrow> all_or_nothing (if b then m1 else m2)"
  using uncommittingD [of n]
  by (auto simp: all_or_nothing_def svc_simps split: prod.splits sum.splits dest: uncommittingD)

lemma all_or_nothing_run: "all_or_nothing m \<Longrightarrow> run_request m d = (Inl e, d') \<Longrightarrow> d' = d"
  by (auto simp: all_or_nothing_def run_request_def split: prod.splits)

lemma uncommitting_versions [intro, simp]:
  "uncommitting (get_configuration_orm i)" "uncommitting (audit_config pf fr a b c j)" "uncommitting (archive_current ck cur i)"
  unfolding get_configuration_orm_def audit_config_def archive_current_def
  by (intro uncommitting_bind uncommitting_option uncommitting_if uncommitting_basic uncommitting_append)+

lemma flush_Inr: "flush g s = (Inr u, s') \<longleftrightarrow> (\<exists>d. g (working s) = Inr d \<and> s' = s\<lparr>working := d\<rparr>)"
  by (auto simp: flush_def split: sum.splits)

lemma orm_Inr:
  "get_configuration_orm i s = (Inr c, s') \<longleftrightarrow> s' = s \<and> get_row cf_id i (configurations (working s)) = Some c \<and> cf_deleted_at c = None"
  by (auto simp: get_configuration_orm_def svc_simps split: option.splits)

lemma bind_orm:
  "bind_svc (get_configuration_orm i) f s =
     (case get_row cf_id i (configurations (working s)) of
        None \<Rightarrow> (Inl (HTTPException 404 ''Configuration not found''), s)
      | Some c \<Rightarrow> if cf_deleted_at c = None then f c s else (Inl (HTTPException 404 ''Configuration not found''), s))"
  by (auto simp: get_configuration_orm_def svc_simps split: option.splits)

lemma archive_current_Inr:
  "archive_current ck cur i s = (Inr u, s') \<longleftrightarrow>
     s' = s\<lparr>working := configurations_update (\<lambda>_. archived_rows ck cur i (configurations (working s))) (working s)\<rparr>"
  by (cases s)
     (auto simp: archive_current_def archived_rows_def update_configuration_row_def svc_simps split: option.splits)

lemma audit_config_Inr:
  assumes "audit_config pf fr actor subtype desc md s = (Inr u, s')"
  obtains e where "committed s' = committed s" "configurations (working s') = configurations (working s)"
    "audit_log_entries (working s') = audit_log_entries (working s) @ [e]" "ale_actor e = actor" "ale_event_subtype e = subtype"
    "audit_inv (working s) \<longrightarrow> audit_inv (working s')"
    "ec_law pf \<and> config_enum_law pf \<and> audit_inv (working s) \<and> chain_ok pf (audit_log_entries (working s))
       \<longrightarrow> chain_ok pf (audit_log_entries (working s'))"
proof -
  let ?p = "\<lparr>alc_severity = ''info'', alc_event_type = ''config_change'', alc_event_subtype = subtype, alc_actor = actor,
        alc_description = desc, alc_tenant_id = None, alc_tenant_slug = None, alc_source_ip = None, alc_metadata_json = md\<rparr>"
  obtain e where e: "append_entry_in_transaction pf fr ?p s = (Inr e, s')"
    using assms by (auto simp: audit_config_def bind_svc_Inr return_svc_def)
  note r = append_in_transaction_run [OF e]
  have "config_enum_law pf \<Longrightarrow> enum_values pf ?p" by (simp add: config_enum_law_def enum_values_def)
  with append_in_transaction_chain(2) [OF _ _ _ e] append_in_transaction_inv [OF _ e] r build_entry_Inr [OF r(1)]
  show thesis by (intro that [of e]) (auto simp: insert_entry_Inr)
qed

lemma activate_Inr:
  assumes "run_request (activate_configuration pf fr ck i actor) d = (Inr out, d')"
  obtains c f e where "get_row cf_id i (configurations d) = Some c" "cf_deleted_at c = None" "cf_status c \<noteq> ConfigurationStatus.ACTIVE"
    "f = (\<lambda>c. c\<lparr>cf_status := ConfigurationStatus.ACTIVE, cf_activated_at := Some (ck_now ck), cf_archived_at := None,
            cf_updated_at := ck_updated ck 0\<rparr>)"
    "configurations d' = update_where (\<lambda>c. cf_id c = i) f
       (archived_rows ck (active_configuration (cf_name c) d) i (configurations d))" "out = to_read (f c)"
    "audit_log_entries d' = audit_log_entries d @ [e]" "ale_actor e = actor" "audit_inv d \<longrightarrow> audit_inv d'"
    "ec_law pf \<and> config_enum_law pf \<and> audit_inv d \<and> chain_ok pf (audit_log_entries d) \<longrightarrow> chain_ok pf (audit_log_entries d')"
proof -
  define f where "f = (\<lambda>c. c\<lparr>cf_status := ConfigurationStatus.ACTIVE, cf_activated_at := Some (ck_now ck), cf_archived_at := None,
            cf_updated_at := ck_updated ck 0\<rparr> :: Configuration)"
  obtain s where s: "activate_configuration pf fr ck i actor \<lparr>committed = d, working = d\<rparr> = (Inr out, s)" "committed s = d'"
    using assms by (auto simp: run_request_def split: prod.splits)
  let ?rows = "\<lambda>c. update_where (\<lambda>c. cf_id c = i) f (archived_rows ck (active_configuration (cf_name c) d) i (configurations d))"
  obtain c s1 desc md where c: "get_row cf_id i (configurations d) = Some c" "cf_deleted_at c = None" "cf_status c \<noteq> ConfigurationStatus.ACTIVE"
      and a: "audit_config pf fr actor ''CONFIGURATION_ACTIVATED'' desc md
        \<lparr>committed = d, working = configurations_update (\<lambda>_. ?rows c) d\<rparr> = (Inr (), s1)"
      and out: "out = to_read (f c)" and d': "d' = working s1"
    using s
    by (auto simp: activate_configuration_def Let_def bind_svc_Inr orm_Inr archive_current_Inr query_def modify_db_def
        update_configuration_row_def commit_def return_svc_def raise_svc_def f_def comp_def split: if_splits)
  show thesis
  proof (rule audit_config_Inr [OF a])
    fix e
    assume "configurations (working s1) = configurations (working \<lparr>committed = d, working = configurations_update (\<lambda>_. ?rows c) d\<rparr>)"
      "audit_log_entries (working s1) = audit_log_entries (working \<lparr>committed = d, working = configurations_update (\<lambda>_. ?rows c) d\<rparr>) @ [e]"
      "ale_actor e = actor" "audit_inv (working \<lparr>committed = d, working = configurations_update (\<lambda>_. ?rows c) d\<rparr>) \<longrightarrow> audit_inv (working s1)"
      "ec_law pf \<and> config_enum_law pf \<and> audit_inv (working \<lparr>committed = d, working = configurations_update (\<lambda>_. ?rows c) d\<rparr>)
        \<and> chain_ok pf (audit_log_entries (working \<lparr>committed = d, working = configurations_update (\<lambda>_. ?rows c) d\<rparr>))
       \<longrightarrow> chain_ok pf (audit_log_entries (working s1))"
    then show thesis
      using that [OF c f_def, of e] out by (simp add: d' audit_inv_def log_sorted_def)
  qed
qed

lemma rollback_Inr:
  assumes "run_request (rollback_configuration pf fr j ck i actor) d = (Inr out, d')"
  obtains b c d1 f e where "get_row cf_id i (configurations d) = Some b" "cf_deleted_at b = None"
    "f = (\<lambda>c. c\<lparr>cf_status := ConfigurationStatus.ACTIVE, cf_activated_at := Some (ck_now ck), cf_updated_at := ck_updated ck 2\<rparr>)"
    "c = new_configuration j ck (cf_name b) (next_version (cf_name b) d) (cf_payload b) (cf_sensitive_keys b) (cf_checksum b)
       (Some (''Rollback of '' @ quoted (cf_name b) @ '' to v'' @ show_int (cf_version b))) actor"
    "insert_configuration c d = Inr d1"
    "configurations d' = update_where (\<lambda>c. cf_id c = j) f (archived_rows ck (active_configuration (cf_name b) d1) j (configurations d1))"
    "out = to_read (f c)" "audit_log_entries d' = audit_log_entries d @ [e]" "ale_actor e = actor"
    "ale_event_subtype e = ''CONFIGURATION_ROLLED_BACK''" "audit_inv d \<longrightarrow> audit_inv d'"
    "ec_law pf \<and> config_enum_law pf \<and> audit_inv d \<and> chain_ok pf (audit_log_entries d) \<longrightarrow> chain_ok pf (audit_log_entries d')"
proof -
  define f where "f = (\<lambda>c. c\<lparr>cf_status := ConfigurationStatus.ACTIVE, cf_activated_at := Some (ck_now ck),
            cf_updated_at := ck_updated ck 2\<rparr> :: Configuration)"
  define C where "C b = new_configuration j ck (cf_name b) (next_version (cf_name b) d) (cf_payload b) (cf_sensitive_keys b) (cf_checksum b)
       (Some (''Rollback of '' @ quoted (cf_name b) @ '' to v'' @ show_int (cf_version b))) actor" for b :: Configuration
  obtain s where s: "rollback_configuration pf fr j ck i actor \<lparr>committed = d, working = d\<rparr> = (Inr out, s)" "committed s = d'"
    using assms by (auto simp: run_request_def split: prod.splits)
  let ?rows = "\<lambda>b d1. update_where (\<lambda>c. cf_id c = j) f (archived_rows ck (active_configuration (cf_name b) d1) j (configurations d1))"
  obtain b d1 s1 desc md where b: "get_row cf_id i (configurations d) = Some b" "cf_deleted_at b = None"
      and ins: "insert_configuration (C b) d = Inr d1"
      and a: "audit_config pf fr actor ''CONFIGURATION_ROLLED_BACK'' desc md
        \<lparr>committed = d, working = configurations_update (\<lambda>_. ?rows b d1) d1\<rparr> = (Inr (), s1)"
      and out: "out = to_read (f (C b))" and d': "d' = working s1"
    using s
    by (auto simp: rollback_configuration_def Let_def bind_svc_Inr orm_Inr archive_current_Inr query_def modify_db_def flush_Inr
        update_configuration_row_def commit_def return_svc_def raise_svc_def f_def C_def comp_def split: if_splits)
  have same: "audit_log_entries d1 = audit_log_entries d" "audit_next d1 = audit_next d"
    using ins by (simp_all add: insert_configuration_Inr)
  let ?s0 = "\<lparr>committed = d, working = configurations_update (\<lambda>_. ?rows b d1) d1\<rparr>"
  show thesis
  proof (rule audit_config_Inr [OF a])
    fix e
    assume "configurations (working s1) = configurations (working ?s0)"
      "audit_log_entries (working s1) = audit_log_entries (working ?s0) @ [e]"
      "ale_actor e = actor" "ale_event_subtype e = ''CONFIGURATION_ROLLED_BACK''" "audit_inv (working ?s0) \<longrightarrow> audit_inv (working s1)"
      "ec_law pf \<and> config_enum_law pf \<and> audit_inv (working ?s0) \<and> chain_ok pf (audit_log_entries (working ?s0))
       \<longrightarrow> chain_ok pf (audit_log_entries (working s1))"
    then show thesis
      using that [OF b f_def C_def ins, of e] out by (simp add: d' audit_inv_def log_sorted_def same)
  qed
qed

lemma all_or_nothing_versions:
  "all_or_nothing (activate_configuration pf fr ck i actor)" "all_or_nothing (rollback_configuration pf fr j ck i actor)"
  unfolding activate_configuration_def rollback_configuration_def Let_def
  by (intro all_or_nothing_rules(2,3,5) all_or_nothing_rules(1) [of "raise_svc _"] uncommitting_versions uncommitting_basic)+

lemma switch_same_document:
  "same_document (\<lambda>c. c\<lparr>cf_status := a, cf_activated_at := b, cf_archived_at := x, cf_updated_at := t\<rparr>)"
  "same_document (\<lambda>c. c\<lparr>cf_status := a, cf_activated_at := b, cf_updated_at := t\<rparr>)"
  by (simp_all add: same_document_def)

lemma rows_ok_archived: "rows_ok pf cs \<Longrightarrow> rows_ok pf (archived_rows ck cur i cs)"
  by (auto simp: archived_rows_def intro: rows_ok_update same_document_archived split: option.splits)

lemma activate_keeps:
  assumes "versions_inv pf d"
  shows "versions_inv pf (snd (run_request (activate_configuration pf' fr ck i actor) d))"
proof (cases "run_request (activate_configuration pf' fr ck i actor) d")
  case (Pair r d')
  show ?thesis
  proof (cases r)
    case (Inl e)
    with Pair all_or_nothing_run [OF all_or_nothing_versions(1)] assms show ?thesis by (metis snd_conv)
  next
    case (Inr out)
    show ?thesis
    proof (rule activate_Inr [OF Pair [unfolded Inr]])
      fix c f
      assume c: "get_row cf_id i (configurations d) = Some c" "cf_deleted_at c = None"
        and f: "f = (\<lambda>c. c\<lparr>cf_status := ConfigurationStatus.ACTIVE, cf_activated_at := Some (ck_now ck), cf_archived_at := None,
            cf_updated_at := ck_updated ck 0\<rparr>)"
        and rows: "configurations d' = update_where (\<lambda>c. cf_id c = i) f
          (archived_rows ck (active_configuration (cf_name c) d) i (configurations d))"
      have mem: "c \<in> set (configurations d)" "cf_id c = i" using get_row_Some [OF c(1)] by simp_all
      have ok: "rows_ok pf (configurations d)" "active_ok (configurations d)" using assms by (simp_all add: versions_inv_def)
      have "rows_ok pf (configurations d')" unfolding rows f
        by (intro rows_ok_update rows_ok_archived ok switch_same_document)
      moreover have "active_ok (configurations d')" unfolding rows f
        by (rule active_ok_switch [OF ok(2) mem refl c(2)]) (use ok(1) in \<open>simp_all add: rows_ok_def\<close>)
      ultimately show ?thesis by (simp add: Pair versions_inv_def)
    qed
  qed
qed

lemma rollback_keeps:
  assumes "versions_inv pf d"
  shows "versions_inv pf (snd (run_request (rollback_configuration pf' fr j ck i actor) d))"
proof (cases "run_request (rollback_configuration pf' fr j ck i actor) d")
  case (Pair r d')
  show ?thesis
  proof (cases r)
    case (Inl e)
    with Pair all_or_nothing_run [OF all_or_nothing_versions(2)] assms show ?thesis by (metis snd_conv)
  next
    case (Inr out)
    show ?thesis
    proof (rule rollback_Inr [OF Pair [unfolded Inr]])
      fix b c d1 f
      assume b: "get_row cf_id i (configurations d) = Some b" "cf_deleted_at b = None"
        and f: "f = (\<lambda>c. c\<lparr>cf_status := ConfigurationStatus.ACTIVE, cf_activated_at := Some (ck_now ck), cf_updated_at := ck_updated ck 2\<rparr>)"
        and c: "c = new_configuration j ck (cf_name b) (next_version (cf_name b) d) (cf_payload b) (cf_sensitive_keys b) (cf_checksum b)
           (Some (''Rollback of '' @ quoted (cf_name b) @ '' to v'' @ show_int (cf_version b))) actor"
        and ins: "insert_configuration c d = Inr d1"
        and rows: "configurations d' = update_where (\<lambda>c. cf_id c = j) f (archived_rows ck (active_configuration (cf_name b) d1) j (configurations d1))"
      have "cf_checksum b = checksum pf (cf_payload b)"
        using get_row_Some [OF b(1)] assms by (simp add: versions_inv_def rows_ok_def)
      then have inv1: "versions_inv pf d1"
        by (intro versions_inv_insert [OF assms ins]) (simp_all add: c new_configuration_def next_version_pos)
      then have ok: "rows_ok pf (configurations d1)" "active_ok (configurations d1)" by (simp_all add: versions_inv_def)
      have mem: "c \<in> set (configurations d1)" "cf_id c = j" "cf_name c = cf_name b" "cf_deleted_at c = None"
        using ins by (auto simp: insert_configuration_Inr c new_configuration_def)
      have "rows_ok pf (configurations d')" unfolding rows f
        by (intro rows_ok_update rows_ok_archived ok switch_same_document)
      moreover have "active_ok (configurations d')" unfolding rows f
        by (rule active_ok_switch [OF ok(2) mem]) (use ok(1) in \<open>simp_all add: rows_ok_def\<close>)
      ultimately show ?thesis by (simp add: Pair versions_inv_def)
    qed
  qed
qed

lemma delete_run:
  "run_request (delete_configuration ck i) d =
     (case get_row cf_id i (configurations d) of
        None \<Rightarrow> (Inl (HTTPException 404 ''Configuration not found''), d)
      | Some c \<Rightarrow>
          if cf_deleted_at c \<noteq> None then (Inl (HTTPException 404 ''Configuration not found''), d)
          else if cf_status c = ConfigurationStatus.ACTIVE
          then (Inl (HTTPException 409 ''Cannot delete an active configuration; archive it first''), d)
          else (Inr (), update_configuration_row i (\<lambda>c. c\<lparr>cf_deleted_at := Some (ck_now ck), cf_updated_at := ck_updated ck 0\<rparr>) d))"
  by (simp add: delete_configuration_def run_request_def bind_orm raise_svc_def bind_modify commit_def split: option.splits)

lemma delete_keeps:
  assumes "versions_inv pf d"
  shows "versions_inv pf (snd (run_request (delete_configuration ck i) d))"
proof -
  let ?f = "\<lambda>c. c\<lparr>cf_deleted_at := Some (ck_now ck), cf_updated_at := ck_updated ck 0\<rparr> :: Configuration"
  show ?thesis
  proof (cases "get_row cf_id i (configurations d)")
    case None
    then show ?thesis by (simp add: delete_run assms)
  next
    case (Some c)
    show ?thesis
    proof (cases "cf_deleted_at c \<noteq> None \<or> cf_status c = ConfigurationStatus.ACTIVE")
      case True
      with Some show ?thesis by (auto simp: delete_run assms)
    next
      case False
      have ok: "rows_ok pf (configurations d)" "active_ok (configurations d)" using assms by (simp_all add: versions_inv_def)
      have "x = c" if "x \<in> set (configurations d)" "cf_id x = i" for x
        using that get_row_Some [OF Some] ok(1) by (auto simp: rows_ok_def distinct_map dest: inj_onD)
      then have "active_ok (update_where (\<lambda>c. cf_id c = i) ?f (configurations d))"
        using False by (intro active_ok_update [OF ok(2)]) auto
      moreover have "rows_ok pf (update_where (\<lambda>c. cf_id c = i) ?f (configurations d))"
        by (rule rows_ok_update [OF ok(1)]) (simp add: same_document_def)
      ultimately show ?thesis using Some False by (simp add: delete_run versions_inv_def update_configuration_row_def)
    qed
  qed
qed

lemma keeps_bind_query: "(\<And>d. keeps I (f (q d))) \<Longrightarrow> keeps I (bind_svc (query q) f)"
  unfolding keeps_def by (simp add: bind_query)

lemma keeps_insert_version:
  "1 \<le> v \<Longrightarrow> keeps (versions_inv pf) (flush (insert_configuration (new_configuration j ck n v p ks (checksum pf p) desc by')))"
  by (rule keeps_flush, rule versions_inv_insert, assumption+) (simp_all add: new_configuration_def)

lemma keeps_orm: "keeps I (get_configuration_orm i)"
  unfolding get_configuration_orm_def by (intro keeps_rules)

lemma keeps_archive: "keeps (versions_inv pf) (archive_configuration ck i actor)"
  unfolding archive_configuration_def
  by (intro keeps_rules keeps_orm keeps_modify)
     (auto simp: versions_inv_def update_configuration_row_def archived_status
        intro!: rows_ok_update active_ok_update same_document_archived)

lemma keeps_create:
  "keeps (versions_inv pf) (create_configuration pf j ck payload by')"
  "keeps (versions_inv pf) (create_successor_version pf j ck i upd by')"
  unfolding create_configuration_def create_successor_version_def Let_def
  by (intro keeps_rules keeps_orm keeps_bind_query keeps_insert_version next_version_pos order.refl)+

lemma keeps_import_items: "keeps (versions_inv pf) (import_items pf ids cks by' m k rows its)"
proof (induction its arbitrary: m k rows)
  case (Cons it its)
  then show ?case unfolding import_items.simps Let_def
    by (intro keeps_if keeps_bind_query keeps_bind keeps_insert_version next_version_pos)
qed simp

lemma keeps_import: "keeps (versions_inv pf) (import_configurations pf ids cks its by')"
  unfolding import_configurations_def by (intro keeps_rules keeps_import_items)

inductive version_step :: "'p audit_platform_scheme \<Rightarrow> 'z config_db_scheme \<Rightarrow> 'z config_db_scheme \<Rightarrow> bool"
  for pf :: "'p audit_platform_scheme" where
  step_create_version: "version_step pf d (snd (run_request (create_configuration pf j ck payload by') d))"
| step_successor: "version_step pf d (snd (run_request (create_successor_version pf j ck i upd by') d))"
| step_delete_version: "version_step pf d (snd (run_request (delete_configuration ck i) d))"
| step_activate: "version_step pf d (snd (run_request (activate_configuration pf fr ck i by') d))"
| step_archive: "version_step pf d (snd (run_request (archive_configuration ck i by') d))"
| step_rollback: "version_step pf d (snd (run_request (rollback_configuration pf fr j ck i by') d))"
| step_import: "version_step pf d (snd (run_request (import_configurations pf ids cks its by') d))"

text \<open>What a version says, apart from its place in the life cycle.\<close>

definition document_of ::
  "Configuration \<Rightarrow> uuid \<times> string \<times> int \<times> (string \<times> json) list \<times> string list \<times> string \<times> string option \<times> string" where
  "document_of c = (cf_id c, cf_name c, cf_version c, cf_payload c, cf_sensitive_keys c, cf_checksum c, cf_description c, cf_created_by c)"

lemma get_row_archived: "get_row cf_id j (archived_rows ck cur j cs) = get_row cf_id j cs"
proof -
  have "get_row cf_id j (update_where (\<lambda>x. cf_id x = cf_id c) (archived_row ck) cs) = get_row cf_id j cs" if "cf_id c \<noteq> j" for c
    using that by (subst get_row_update_where) (auto simp: archived_row_def dest!: get_row_Some intro!: option.map_ident_strong)
  then show ?thesis by (auto simp: archived_rows_def split: option.splits)
qed

lemma filter_archived:
  assumes "\<And>c. cur = Some c \<Longrightarrow> c \<in> set cs \<and> cf_name c = n" and "distinct (map cf_id cs)"
  shows "filter (\<lambda>x. cf_name x \<noteq> n) (archived_rows ck cur j cs) = filter (\<lambda>x. cf_name x \<noteq> n) cs"
proof -
  have upd: "filter (\<lambda>x. cf_name x \<noteq> n) (update_where P (archived_row ck) xs) = filter (\<lambda>x. cf_name x \<noteq> n) xs"
    if "\<And>x. x \<in> set xs \<Longrightarrow> P x \<Longrightarrow> cf_name x = n" for P xs
    using that by (induction xs) (auto simp: archived_row_def)
  show ?thesis
  proof (cases cur)
    case (Some c)
    have same: "cf_name x = n" if "x \<in> set cs" "cf_id x = cf_id c" for x
      using that assms(1) [OF Some] assms(2) by (auto simp: distinct_map dest: inj_onD)
    then have "filter (\<lambda>x. cf_name x \<noteq> n) (update_where (\<lambda>x. cf_id x = cf_id c) (archived_row ck) cs) = filter (\<lambda>x. cf_name x \<noteq> n) cs"
      by (rule upd)
    then show ?thesis by (simp add: archived_rows_def Some)
  qed (simp add: archived_rows_def)
qed

lemma bind_flush: "bind_svc (flush g) f s = (case g (working s) of Inl e \<Rightarrow> (Inl e, s) | Inr d \<Rightarrow> f () (s\<lparr>working := d\<rparr>))"
  by (simp add: bind_svc_def flush_def split: sum.splits)

lemma bind_archive_current:
  "bind_svc (archive_current ck cur i) f s =
     f () (s\<lparr>working := configurations_update (\<lambda>_. archived_rows ck cur i (configurations (working s))) (working s)\<rparr>)"
proof -
  obtain u s' where "archive_current ck cur i s = (Inr u, s')"
    by (cases "archive_current ck cur i s") (auto simp: archive_current_def svc_simps split: option.splits if_splits)
  then show ?thesis using archive_current_Inr [of ck cur i s u s'] by (simp add: bind_svc_def)
qed

text \<open>A version whose sensitive values are replaced by others.\<close>

definition scrub :: "(Configuration \<Rightarrow> string \<Rightarrow> json \<Rightarrow> json) \<Rightarrow> Configuration \<Rightarrow> Configuration" where
  "scrub g c = c\<lparr>cf_payload := map (\<lambda>(k, v). (k, if k \<in> set (cf_sensitive_keys c) then g c k v else v)) (cf_payload c)\<rparr>"

lemma scrub_fields [simp]:
  "cf_id (scrub g c) = cf_id c" "cf_name (scrub g c) = cf_name c" "cf_version (scrub g c) = cf_version c"
  "cf_status (scrub g c) = cf_status c" "cf_deleted_at (scrub g c) = cf_deleted_at c" "cf_checksum (scrub g c) = cf_checksum c"
  "cf_description (scrub g c) = cf_description c" "cf_created_by (scrub g c) = cf_created_by c"
  "cf_created_at (scrub g c) = cf_created_at c" "cf_sensitive_keys (scrub g c) = cf_sensitive_keys c"
  by (simp_all add: scrub_def)

lemma to_read_scrub [simp]: "to_read (scrub g c) = to_read c"
  by (auto simp: to_read_def scrub_def mask_payload_def is_deleted_def)

lemma sort_key_map: "(\<And>x. k (h x) = k x) \<Longrightarrow> sort_key k (map h xs) = map h (sort_key k xs)"
proof -
  assume k: "\<And>x. k (h x) = k x"
  have "insort_key k (h x) (map h ys) = map h (insort_key k x ys)" for x ys by (induction ys) (simp_all add: k)
  then show ?thesis by (induction xs) simp_all
qed

lemma order_by_desc_map: "(\<And>x. k (h x) = k x) \<Longrightarrow> order_by_desc k (map h xs) = map h (order_by_desc k xs)"
  by (simp add: order_by_desc_def sort_key_map rev_map)

lemma get_row_map: "(\<And>x. k (h x) = k x) \<Longrightarrow> get_row k i (map h xs) = map_option h (get_row k i xs)"
  by (induction xs) (simp_all add: get_row_def)

lemma first_row_map: "first_row (map h xs) = map_option h (first_row xs)"
  by (simp add: first_row_def split: list.splits)

lemmas scrub_rows = sort_key_map order_by_desc_map get_row_map first_row_map filter_map comp_def

lemma masked: "(k, x) \<in> set (mask_payload p ks) \<Longrightarrow> k \<in> set ks \<Longrightarrow> x = JStr MASK"
  by (auto simp: mask_payload_def)

lemma masked_lookup: "k \<in> fst ` set p \<Longrightarrow> k \<in> set ks \<Longrightarrow> the (map_of (mask_payload p ks) k) = JStr MASK"
proof -
  assume "k \<in> fst ` set p" and ks: "k \<in> set ks"
  then have "k \<in> fst ` set (mask_payload p ks)" by (force simp: mask_payload_def)
  then obtain x where x: "map_of (mask_payload p ks) k = Some x" by (metis map_of_eq_None_iff not_None_eq)
  with masked [OF map_of_SomeD [OF x] ks] show ?thesis by simp
qed

lemma compare_masks:
  assumes "run_request (compare_configurations e i v) d = (Inr out, d')"
  shows "\<exists>b c. get_row cf_id i (configurations d) = Some b \<and> c \<in> set (configurations d) \<and> cf_name c = cf_name b \<and> cf_version c = v
    \<and> (\<forall>(k, x) \<in> set (ccp_removed out). k \<in> set (cf_sensitive_keys b) \<longrightarrow> x = JStr MASK)
    \<and> (\<forall>(k, x) \<in> set (ccp_added out). k \<in> set (cf_sensitive_keys c) \<longrightarrow> x = JStr MASK)
    \<and> (\<forall>(k, x, y) \<in> set (ccp_changed out). (k \<in> set (cf_sensitive_keys b) \<longrightarrow> x = JStr MASK)
         \<and> (k \<in> set (cf_sensitive_keys c) \<longrightarrow> y = JStr MASK))"
proof -
  have "\<exists>b c. get_row cf_id i (configurations d) = Some b
      \<and> filter (\<lambda>c. cf_name c = cf_name b \<and> cf_version c = v \<and> cf_deleted_at c = None) (configurations d) = [c]
      \<and> ccp_added out = filter (\<lambda>kv. fst kv \<notin> fst ` set (cf_payload b)) (mask_payload (cf_payload c) (cf_sensitive_keys c))
      \<and> ccp_removed out = filter (\<lambda>kv. fst kv \<notin> fst ` set (cf_payload c)) (mask_payload (cf_payload b) (cf_sensitive_keys b))
      \<and> set (ccp_changed out) \<subseteq> (\<lambda>k. (k, the (map_of (mask_payload (cf_payload b) (cf_sensitive_keys b)) k),
           the (map_of (mask_payload (cf_payload c) (cf_sensitive_keys c)) k))) ` (fst ` set (cf_payload b) \<inter> fst ` set (cf_payload c))"
    using assms
    by (auto simp: compare_configurations_def run_request_def bind_svc_Inr orm_Inr query_e_def return_svc_def raise_svc_def Let_def
        scalar_one_or_none_Inr split: prod.splits sum.splits option.splits) (intro image_eqI refl; force)
  then obtain b c where b: "get_row cf_id i (configurations d) = Some b"
      and c: "filter (\<lambda>c. cf_name c = cf_name b \<and> cf_version c = v \<and> cf_deleted_at c = None) (configurations d) = [c]"
      and out: "ccp_added out = filter (\<lambda>kv. fst kv \<notin> fst ` set (cf_payload b)) (mask_payload (cf_payload c) (cf_sensitive_keys c))"
        "ccp_removed out = filter (\<lambda>kv. fst kv \<notin> fst ` set (cf_payload c)) (mask_payload (cf_payload b) (cf_sensitive_keys b))"
        "set (ccp_changed out) \<subseteq> (\<lambda>k. (k, the (map_of (mask_payload (cf_payload b) (cf_sensitive_keys b)) k),
           the (map_of (mask_payload (cf_payload c) (cf_sensitive_keys c)) k))) ` (fst ` set (cf_payload b) \<inter> fst ` set (cf_payload c))"
    by blast
  have "c \<in> set (configurations d) \<and> cf_name c = cf_name b \<and> cf_version c = v"
    using arg_cong [OF c, of set] by auto
  moreover have "\<forall>(k, x) \<in> set (ccp_removed out). k \<in> set (cf_sensitive_keys b) \<longrightarrow> x = JStr MASK"
    "\<forall>(k, x) \<in> set (ccp_added out). k \<in> set (cf_sensitive_keys c) \<longrightarrow> x = JStr MASK"
    unfolding out by (auto dest: masked)
  moreover have "\<forall>(k, x, y) \<in> set (ccp_changed out). (k \<in> set (cf_sensitive_keys b) \<longrightarrow> x = JStr MASK)
         \<and> (k \<in> set (cf_sensitive_keys c) \<longrightarrow> y = JStr MASK)"
  proof (rule ballI)
    fix t assume "t \<in> set (ccp_changed out)"
    with out(3) obtain k where k: "k \<in> fst ` set (cf_payload b)" "k \<in> fst ` set (cf_payload c)"
      and t: "t = (k, the (map_of (mask_payload (cf_payload b) (cf_sensitive_keys b)) k),
        the (map_of (mask_payload (cf_payload c) (cf_sensitive_keys c)) k))" by blast
    show "case t of (k, x, y) \<Rightarrow> (k \<in> set (cf_sensitive_keys b) \<longrightarrow> x = JStr MASK) \<and> (k \<in> set (cf_sensitive_keys c) \<longrightarrow> y = JStr MASK)"
      unfolding t prod.case using masked_lookup [OF k(1)] masked_lookup [OF k(2)] by blast
  qed
  ultimately show ?thesis using b by blast
qed

lemma reads_of_scrubbed:
  assumes "d' = d\<lparr>configurations := map (scrub g) (configurations d)\<rparr>"
  shows "fst (run_request (get_configuration i) d') = fst (run_request (get_configuration i) d)"
    "fst (run_request (get_latest_configuration name) d') = fst (run_request (get_latest_configuration name) d)"
    "fst (run_request (get_latest_active_configuration name) d') = fst (run_request (get_latest_active_configuration name) d)"
    "fst (run_request (list_configurations nm st del) d') = fst (run_request (list_configurations nm st del) d)"
    "fst (run_request (get_configuration_history i) d') = fst (run_request (get_configuration_history i) d)"
    "fst (run_request (export_configurations now) d') = fst (run_request (export_configurations now) d)"
proof -
  note run = run_request_def bind_orm bind_query return_svc_def raise_svc_def query_def assms scrub_rows
  show "fst (run_request (get_configuration i) d') = fst (run_request (get_configuration i) d)"
    by (auto simp: get_configuration_def run split: option.splits prod.splits)
  show "fst (run_request (get_latest_configuration name) d') = fst (run_request (get_latest_configuration name) d)"
    by (simp add: get_latest_configuration_def run split: option.splits prod.splits)
  show "fst (run_request (get_latest_active_configuration name) d') = fst (run_request (get_latest_active_configuration name) d)"
    by (simp add: get_latest_active_configuration_def active_configuration_def run split: option.splits prod.splits)
  show "fst (run_request (list_configurations nm st del) d') = fst (run_request (list_configurations nm st del) d)"
    by (cases nm; cases st) (simp_all add: list_configurations_def run)
  show "fst (run_request (get_configuration_history i) d') = fst (run_request (get_configuration_history i) d)"
    by (auto simp: get_configuration_history_def run split: option.splits prod.splits)
  show "fst (run_request (export_configurations now) d') = fst (run_request (export_configurations now) d)"
    by (simp add: export_configurations_def run Let_def)
qed

text \<open>What an import makes of an item and of the items it accepts.\<close>

definition importable :: "ConfigurationCreate \<Rightarrow> bool" where
  "importable it \<longleftrightarrow> validate_payload (cfc_payload it) (cfc_sensitive_keys it) = []"

text \<open>The response to the items in order, and the rows of the accepted ones.\<close>

definition import_answers :: "ConfigurationCreate list \<Rightarrow> ConfigurationImportResultRow list \<Rightarrow> bool" where
  "import_answers items rows \<longleftrightarrow> map cir_name rows = map cfc_name items
     \<and> map (\<lambda>r. cir_outcome r = ''created'') rows = map importable items"

definition imported_rows ::
  "'p platform_scheme \<Rightarrow> string \<Rightarrow> ConfigurationCreate list \<Rightarrow> ConfigurationImportResultRow list \<Rightarrow> Configuration list \<Rightarrow> bool" where
  "imported_rows pf by' items rows news \<longleftrightarrow>
     map (\<lambda>c. (cf_name c, Some (cf_version c))) news
       = map (\<lambda>r. (cir_name r, cir_version r)) (filter (\<lambda>r. cir_outcome r = ''created'') rows)
     \<and> map (\<lambda>c. (cf_name c, cf_payload c, cf_sensitive_keys c, cf_checksum c, cf_description c)) news
       = map (\<lambda>it. (cfc_name it, cfc_payload it, cfc_sensitive_keys it, checksum pf (cfc_payload it), cfc_description it))
           (filter importable items)
     \<and> list_all (\<lambda>c. cf_status c = ConfigurationStatus.DRAFT \<and> cf_created_by c = by') news"

lemma import_items_Inr:
  assumes "import_items pf ids cks by' n k rows items s = (Inr out, s')"
  shows "\<exists>news answers. cim_imported out = n + length (filter importable items)
      \<and> cim_skipped out = k + length (filter (\<lambda>it. \<not> importable it) items)
      \<and> working s' = configurations_update (\<lambda>cs. cs @ news) (working s)
      \<and> cim_rows out = rows @ answers \<and> import_answers items answers \<and> imported_rows pf by' items answers news"
  using assms
proof (induction items arbitrary: n k rows s)
  case Nil
  have "s' = s" "out = \<lparr>cim_imported = n, cim_skipped = k, cim_rows = rows\<rparr>" using Nil by (simp_all add: return_svc_def)
  then show ?case
    by (intro exI [of _ "[] :: Configuration list"] exI [of _ "[] :: ConfigurationImportResultRow list"])
       (simp add: import_answers_def imported_rows_def)
next
  case (Cons it items)
  show ?case
  proof (cases "importable it")
    case False
    let ?r = "\<lparr>cir_name = cfc_name it, cir_version = None, cir_outcome = ''skipped'',
      cir_detail = join ''; '' (validate_payload (cfc_payload it) (cfc_sensitive_keys it))\<rparr>"
    have "import_items pf ids cks by' n (k + 1) (rows @ [?r]) items s = (Inr out, s')"
      using Cons.prems False by (simp add: importable_def)
    from Cons.IH [OF this] obtain news answers where
      ih: "cim_imported out = n + length (filter importable items)" "cim_skipped out = k + 1 + length (filter (\<lambda>it. \<not> importable it) items)"
      "working s' = configurations_update (\<lambda>cs. cs @ news) (working s)" "cim_rows out = (rows @ [?r]) @ answers"
      "import_answers items answers" "imported_rows pf by' items answers news" by blast
    then have "import_answers (it # items) (?r # answers)" "imported_rows pf by' (it # items) (?r # answers) news"
      using False by (simp_all add: import_answers_def imported_rows_def)
    with ih False show ?thesis by (intro exI [of _ news] exI [of _ "?r # answers"]) simp
  next
    case True
    let ?v = "next_version (cfc_name it) (working s)"
    let ?c = "new_configuration (ids n) (cks n) (cfc_name it) ?v (cfc_payload it) (cfc_sensitive_keys it)
      (checksum pf (cfc_payload it)) (cfc_description it) by'"
    let ?r = "\<lparr>cir_name = cfc_name it, cir_version = Some ?v, cir_outcome = ''created'', cir_detail = ''created v'' @ show_int ?v\<rparr>"
    obtain d where d: "insert_configuration ?c (working s) = Inr d"
        and rest: "import_items pf ids cks by' (n + 1) k (rows @ [?r]) items (s\<lparr>working := d\<rparr>) = (Inr out, s')"
      using Cons.prems True by (auto simp: importable_def bind_query bind_flush split: sum.splits)
    from Cons.IH [OF rest] obtain news answers where
      ih: "cim_imported out = n + 1 + length (filter importable items)" "cim_skipped out = k + length (filter (\<lambda>it. \<not> importable it) items)"
      "working s' = configurations_update (\<lambda>cs. cs @ news) d" "cim_rows out = (rows @ [?r]) @ answers"
      "import_answers items answers" "imported_rows pf by' items answers news" by auto
    then have "import_answers (it # items) (?r # answers)" "imported_rows pf by' (it # items) (?r # answers) (?c # news)"
      using True by (simp_all add: import_answers_def imported_rows_def new_configuration_def)
    moreover have "working s' = configurations_update (\<lambda>cs. cs @ ?c # news) (working s)"
      using d ih(3) by (simp add: insert_configuration_Inr)
    ultimately show ?thesis using ih True by (intro exI [of _ "?c # news"] exI [of _ "?r # answers"]) simp
  qed
qed

lemma uncommitting_import_items: "uncommitting (import_items pf ids cks by' n k rows items)"
proof (induction items arbitrary: n k rows)
  case (Cons it items)
  then show ?case by (simp add: Let_def uncommitting_bind uncommitting_basic)
qed (simp add: uncommitting_basic)

section \<open>A concrete database\<close>

definition demo_version :: "uuid \<Rightarrow> int \<Rightarrow> ConfigurationStatus \<Rightarrow> (string \<times> json) list \<Rightarrow> Configuration" where
  "demo_version i v st payload = \<lparr>cf_id = i, cf_name = ''limits'', cf_version = v, cf_status = st, cf_payload = payload,
     cf_sensitive_keys = [''pin''], cf_checksum = checksum demo_P payload, cf_description = None, cf_created_by = ''admin@nexus'',
     cf_activated_at = None, cf_archived_at = None, cf_deleted_at = None, cf_created_at = 0, cf_updated_at = 0\<rparr>"

definition demo_versions_db :: config_db where
  "demo_versions_db = demo_config_db\<lparr>configurations :=
     [demo_version 50 1 ConfigurationStatus.ARCHIVED [(''pin'', JInt 1), (''max'', JInt 5)],
      demo_version 51 2 ConfigurationStatus.ACTIVE [(''pin'', JInt 2), (''max'', JInt 5)]]\<rparr>"

definition demo_clock :: clock where
  "demo_clock = \<lparr>ck_now = 0, ck_created = 0, ck_updated = (\<lambda>_. 0)\<rparr>"

lemma demo_versions_inv: "versions_inv demo_P demo_versions_db"
  by (simp add: versions_inv_def rows_ok_def active_ok_def demo_versions_db_def demo_version_def)

lemma demo_checksum_fits: "fits 64 (checksum demo_P payload)"
  using demo_mark_length [of demo_F "utf8_encode (dumps (JDict payload))"]
  by (cases "demo_mark demo_F (utf8_encode (dumps (JDict payload)))")
     (auto simp: fits_def checksum_def demo_P_def demo_with_def hexlify_def hex2_def)

lemma demo_rollback:
  obtains out d' where
    "run_request (rollback_configuration demo_P (demo_fresh 0) 52 demo_clock 50 ''admin@nexus'') demo_versions_db = (Inr out, d')"
proof -
  have texts: "text_ok (''Configuration '' @ quoted ''limits'' @ '' rolled back to v'' @ show_int 1 @ '' (activated as v'' @ show_int 3 @ '')'')"
    "text_fits_opt 255 (Some (''Rollback of '' @ quoted ''limits'' @ '' to v'' @ show_int 1))"
    "text_fits_opt 120 (Some ''limits'')" "text_fits_opt 120 (Some ''admin@nexus'')" by code_simp+
  have log: "audit_log_entries demo_versions_db = []" by (simp add: demo_versions_db_def) code_simp
  have v: "next_version ''limits'' demo_versions_db = 3"
    by (simp add: next_version_def demo_versions_db_def demo_version_def)
  have row: "get_row cf_id 50 (configurations demo_versions_db) =
      Some (demo_version 50 1 ConfigurationStatus.ARCHIVED [(''pin'', JInt 1), (''max'', JInt 5)])"
    by (simp add: get_row_def demo_versions_db_def demo_version_def)
  let ?c = "new_configuration 52 demo_clock ''limits'' 3 [(''pin'', JInt 1), (''max'', JInt 5)] [''pin'']
    (checksum demo_P [(''pin'', JInt 1), (''max'', JInt 5)]) (Some (''Rollback of '' @ quoted ''limits'' @ '' to v'' @ show_int 1)) ''admin@nexus''"
  have ins: "insert_configuration ?c demo_versions_db = Inr (demo_versions_db\<lparr>configurations := configurations demo_versions_db @ [?c]\<rparr>)"
    using texts by (simp add: insert_configuration_Inr configuration_columns_ok_def new_configuration_def demo_checksum_fits
        del: append.simps) (simp add: demo_versions_db_def demo_version_def)
  have audit: "\<exists>out s'. bind_svc (audit_config demo_P (demo_fresh 0) ''admin@nexus'' ''CONFIGURATION_ROLLED_BACK'' desc md)
      (\<lambda>_. bind_svc commit (\<lambda>_. return_svc x)) s = (Inr out, s')"
    if "audit_log_entries (working s) = []" "text_ok desc" for s :: "config_db session" and desc md and x :: ConfigurationRead
    using demo_append [OF that(1), of "\<lparr>alc_severity = ''info'', alc_event_type = ''config_change'',
        alc_event_subtype = ''CONFIGURATION_ROLLED_BACK'', alc_actor = ''admin@nexus'', alc_description = desc, alc_tenant_id = None,
        alc_tenant_slug = None, alc_source_ip = None, alc_metadata_json = md\<rparr>" "demo_fresh 0"] that(2)
    by (auto simp: audit_config_def fits_def text_ok_def bind_svc_def return_svc_def commit_def)
  have "\<exists>out s'. rollback_configuration demo_P (demo_fresh 0) 52 demo_clock 50 ''admin@nexus''
      \<lparr>committed = demo_versions_db, working = demo_versions_db\<rparr> = (Inr out, s')"
    unfolding rollback_configuration_def
    by (simp add: bind_orm row bind_query Let_def bind_flush bind_archive_current bind_modify del: append.simps,
        simp add: demo_version_def v ins bind_query bind_archive_current bind_modify del: append.simps, rule audit)
       (use log texts in \<open>simp_all add: update_configuration_row_def\<close>)
  then show thesis using that by (auto simp: run_request_def split: prod.splits)
qed

lemma demo_compare:
  "fst (run_request (compare_configurations (\<lambda>_ _. False) 50 2) demo_versions_db) = Inr
     \<lparr>ccp_name = ''limits'', ccp_base_version = 1, ccp_other_version = 2, ccp_added = [], ccp_removed = [],
      ccp_changed = [(''pin'', JStr MASK, JStr MASK)], ccp_unchanged_count = 1\<rparr>"
  by (simp add: compare_configurations_def run_request_def get_configuration_orm_def svc_simps get_row_def
      scalar_one_or_none_def demo_versions_db_def demo_version_def mask_payload_def Let_def num_eq_def)

definition demo_items :: "ConfigurationCreate list" where
  "demo_items = [\<lparr>cfc_name = ''ports'', cfc_payload = [(''http'', JInt 80)], cfc_description = None, cfc_sensitive_keys = []\<rparr>,
     \<lparr>cfc_name = ''limits'', cfc_payload = [], cfc_description = None, cfc_sensitive_keys = []\<rparr>]"

section \<open>Properties\<close>

text \<open>
  C39. Every request on versioned configurations keeps the promises of the class: names with
  versions stay unique, versions start at 1, a checksum is that of its document, at most one
  version of a name is active, and no deleted version is active.
\<close>

theorem version_requests_keep_one_active:
  assumes "version_step pf d d'" and "versions_inv pf d"
  shows "versions_inv pf d'"
  using assms
  by (cases rule: version_step.cases)
     (auto intro: keeps_run keeps_create keeps_archive keeps_import activate_keeps rollback_keeps delete_keeps)

theorem version_requests_keep_one_active_witness:
  "versions_inv demo_P demo_versions_db
   \<and> versions_inv demo_P (snd (run_request (rollback_configuration demo_P (demo_fresh 0) 52 demo_clock 50 ''admin@nexus'') demo_versions_db))"
  using version_requests_keep_one_active [OF step_rollback demo_versions_inv] demo_versions_inv by blast

text \<open>
  Rolling back rewrites no history. A successful rollback to a version appends one version
  with the next number and that version's document, sensitive keys and checksum, makes it the
  active one, so that it is what the next reader of the active configuration gets, and records
  one audit entry. What every earlier version says is unchanged, versions of other names are
  untouched, and every other version of the name is inactive.
\<close>

theorem rollback_preserves_history:
  assumes "versions_inv pf0 d" and "run_request (rollback_configuration pf fr j ck i actor) d = (Inr out, d')"
  shows "\<exists>b c. get_row cf_id i (configurations d) = Some b \<and> get_row cf_id j (configurations d') = Some c
    \<and> cf_name c = cf_name b \<and> cf_payload c = cf_payload b \<and> cf_sensitive_keys c = cf_sensitive_keys b \<and> cf_checksum c = cf_checksum b
    \<and> cf_status c = ConfigurationStatus.ACTIVE \<and> out = to_read c
    \<and> (\<forall>x \<in> set (configurations d). cf_name x = cf_name b \<longrightarrow> cf_version x < cf_version c)
    \<and> map document_of (configurations d') = map document_of (configurations d) @ [document_of c]
    \<and> filter (\<lambda>x. cf_name x \<noteq> cf_name b) (configurations d') = filter (\<lambda>x. cf_name x \<noteq> cf_name b) (configurations d)
    \<and> (\<forall>x \<in> set (configurations d'). cf_name x = cf_name b \<and> cf_id x \<noteq> j \<longrightarrow> cf_status x \<noteq> ConfigurationStatus.ACTIVE)
    \<and> fst (run_request (get_latest_active_configuration (cf_name b)) d') = Inr out
    \<and> (\<exists>e. audit_log_entries d' = audit_log_entries d @ [e] \<and> ale_event_subtype e = ''CONFIGURATION_ROLLED_BACK'')"
proof (rule rollback_Inr [OF assms(2)])
  fix b c0 d1 f e
  assume b: "get_row cf_id i (configurations d) = Some b" "cf_deleted_at b = None"
    and f: "f = (\<lambda>c. c\<lparr>cf_status := ConfigurationStatus.ACTIVE, cf_activated_at := Some (ck_now ck), cf_updated_at := ck_updated ck 2\<rparr>)"
    and c0: "c0 = new_configuration j ck (cf_name b) (next_version (cf_name b) d) (cf_payload b) (cf_sensitive_keys b) (cf_checksum b)
       (Some (''Rollback of '' @ quoted (cf_name b) @ '' to v'' @ show_int (cf_version b))) actor"
    and ins: "insert_configuration c0 d = Inr d1"
    and rows: "configurations d' = update_where (\<lambda>c. cf_id c = j) f (archived_rows ck (active_configuration (cf_name b) d1) j (configurations d1))"
    and out: "out = to_read (f c0)" and e: "audit_log_entries d' = audit_log_entries d @ [e]" "ale_event_subtype e = ''CONFIGURATION_ROLLED_BACK''"
  let ?cs1 = "configurations d @ [c0]" and ?n = "cf_name b"
  have d1: "configurations d1 = ?cs1" and new: "j \<notin> cf_id ` set (configurations d)"
    using ins by (auto simp: insert_configuration_Inr c0 new_configuration_def)
  have inv': "versions_inv pf0 d'" using rollback_keeps [OF assms(1), of pf fr j ck i actor] assms(2) by simp
  then have ok: "active_ok (configurations d')" "distinct (map cf_id (configurations d'))" by (simp_all add: versions_inv_def rows_ok_def)
  have id0: "cf_id c0 = j" "cf_name c0 = ?n" by (simp_all add: c0 new_configuration_def)
  have "get_row cf_id j (configurations d) = None" using new by (simp add: get_row_None)
  then have "get_row cf_id j ?cs1 = Some c0" by (simp add: get_row_append) (simp add: get_row_def id0)
  then have row: "get_row cf_id j (configurations d') = Some (f c0)"
    unfolding rows d1 by (subst get_row_update_where) (simp_all add: f get_row_archived id0)
  have mem: "f c0 \<in> set (configurations d')" "cf_id (f c0) = j" using get_row_Some [OF row] by simp_all
  have fc: "cf_name (f c0) = ?n" "cf_status (f c0) = ConfigurationStatus.ACTIVE" "cf_version (f c0) = next_version ?n d"
    "cf_payload (f c0) = cf_payload b" "cf_sensitive_keys (f c0) = cf_sensitive_keys b" "cf_checksum (f c0) = cf_checksum b"
    by (simp_all add: f c0 new_configuration_def)
  have "map document_of (configurations d') = map document_of (archived_rows ck (active_configuration ?n d1) j ?cs1)"
    unfolding rows d1 by (rule map_update_where) (simp add: f document_of_def)
  also have "\<dots> = map document_of ?cs1"
    by (auto simp: archived_rows_def archived_row_def document_of_def map_update_where split: option.splits)
  also have "\<dots> = map document_of (configurations d) @ [document_of (f c0)]" by (simp add: f document_of_def)
  finally have docs: "map document_of (configurations d') = map document_of (configurations d) @ [document_of (f c0)]" .
  have dist1: "distinct (map cf_id ?cs1)" using assms(1) new by (simp add: versions_inv_def rows_ok_def id0)
  have fupd: "filter (\<lambda>x. cf_name x \<noteq> ?n) (update_where P f xs) = filter (\<lambda>x. cf_name x \<noteq> ?n) xs"
    if "\<And>x. x \<in> set xs \<Longrightarrow> P x \<Longrightarrow> cf_name x = ?n" for P xs
    using that by (induction xs) (auto simp: f)
  have named: "cf_name x = ?n" if "x \<in> set (archived_rows ck (active_configuration ?n d1) j ?cs1)" "cf_id x = j" for x
    using that(1)
  proof (cases rule: archived_rowsE)
    case 1
    with that(2) new id0 show ?thesis by auto
  next
    case (2 y)
    with that(2) show ?thesis by (simp add: archived_row_def)
  qed
  have "filter (\<lambda>x. cf_name x \<noteq> ?n) (configurations d') = filter (\<lambda>x. cf_name x \<noteq> ?n) ?cs1"
    unfolding rows d1
    by (subst fupd, erule (1) named, rule filter_archived) (use active_configuration_Some [of ?n d1] d1 dist1 in auto)
  then have others: "filter (\<lambda>x. cf_name x \<noteq> ?n) (configurations d') = filter (\<lambda>x. cf_name x \<noteq> ?n) (configurations d)"
    by (simp add: id0)
  obtain a where a: "active_configuration ?n d' = Some a" "cf_id a = cf_id (f c0)"
    by (rule active_configuration_unique [OF ok(1) mem(1) fc(1,2)])
  have "a = f c0" using active_configuration_Some [OF a(1)] a(2) mem ok(2) by (auto simp: distinct_map dest: inj_onD)
  with a have latest: "fst (run_request (get_latest_active_configuration ?n) d') = Inr out"
    by (simp add: get_latest_active_configuration_def svc_simps out)
  have "\<forall>x \<in> set (configurations d'). cf_name x = ?n \<and> cf_id x \<noteq> j \<longrightarrow> cf_status x \<noteq> ConfigurationStatus.ACTIVE"
    using ok(1) mem fc(1,2) unfolding active_ok_def by metis
  with b row fc out docs others latest e show ?thesis by (auto simp: next_version_greater)
qed

theorem rollback_preserves_history_witness:
  "\<exists>out d' c. run_request (rollback_configuration demo_P (demo_fresh 0) 52 demo_clock 50 ''admin@nexus'') demo_versions_db = (Inr out, d')
     \<and> get_row cf_id 52 (configurations d') = Some c \<and> cf_status c = ConfigurationStatus.ACTIVE \<and> out = to_read c"
proof (rule demo_rollback)
  fix out d'
  assume "run_request (rollback_configuration demo_P (demo_fresh 0) 52 demo_clock 50 ''admin@nexus'') demo_versions_db = (Inr out, d')"
  with rollback_preserves_history [OF demo_versions_inv this] show ?thesis by blast
qed

text \<open>
  C40. No read of versioned configurations depends on a sensitive value: getting a version by
  its identifier, the latest or the active version of a name, the list, the history and the
  export answer the same when the values under the sensitive keys of the stored rows are any
  other values (the stored checksums being the same). A comparison of two versions that succeeds
  shows the mask in place of every value under a key that is sensitive in the version the value
  is from.
\<close>

theorem reads_never_reveal_sensitive_values:
  assumes "d' = d\<lparr>configurations := map (scrub g) (configurations d)\<rparr>"
  shows "fst (run_request (get_configuration i) d') = fst (run_request (get_configuration i) d)
    \<and> fst (run_request (get_latest_configuration name) d') = fst (run_request (get_latest_configuration name) d)
    \<and> fst (run_request (get_latest_active_configuration name) d') = fst (run_request (get_latest_active_configuration name) d)
    \<and> fst (run_request (list_configurations nm st del) d') = fst (run_request (list_configurations nm st del) d)
    \<and> fst (run_request (get_configuration_history i) d') = fst (run_request (get_configuration_history i) d)
    \<and> fst (run_request (export_configurations now) d') = fst (run_request (export_configurations now) d)
    \<and> (\<forall>j v diff. fst (run_request (compare_configurations int_eq_float j v) d) = Inr diff \<longrightarrow>
       (\<exists>b c. get_row cf_id j (configurations d) = Some b \<and> c \<in> set (configurations d) \<and> cf_name c = cf_name b \<and> cf_version c = v
        \<and> (\<forall>(k, x) \<in> set (ccp_removed diff). k \<in> set (cf_sensitive_keys b) \<longrightarrow> x = JStr MASK)
        \<and> (\<forall>(k, x) \<in> set (ccp_added diff). k \<in> set (cf_sensitive_keys c) \<longrightarrow> x = JStr MASK)
        \<and> (\<forall>(k, x, y) \<in> set (ccp_changed diff). (k \<in> set (cf_sensitive_keys b) \<longrightarrow> x = JStr MASK)
             \<and> (k \<in> set (cf_sensitive_keys c) \<longrightarrow> y = JStr MASK))))"
proof (intro conjI reads_of_scrubbed [OF assms] allI impI)
  fix j v diff
  assume "fst (run_request (compare_configurations int_eq_float j v) d) = Inr diff"
  then have "run_request (compare_configurations int_eq_float j v) d
      = (Inr diff, snd (run_request (compare_configurations int_eq_float j v) d))"
    by (metis prod.collapse)
  then show "\<exists>b c. get_row cf_id j (configurations d) = Some b \<and> c \<in> set (configurations d)
        \<and> cf_name c = cf_name b \<and> cf_version c = v
        \<and> (\<forall>(k, x) \<in> set (ccp_removed diff). k \<in> set (cf_sensitive_keys b) \<longrightarrow> x = JStr MASK)
        \<and> (\<forall>(k, x) \<in> set (ccp_added diff). k \<in> set (cf_sensitive_keys c) \<longrightarrow> x = JStr MASK)
        \<and> (\<forall>(k, x, y) \<in> set (ccp_changed diff). (k \<in> set (cf_sensitive_keys b) \<longrightarrow> x = JStr MASK)
             \<and> (k \<in> set (cf_sensitive_keys c) \<longrightarrow> y = JStr MASK))"
    by (rule compare_masks)
qed

theorem reads_never_reveal_sensitive_values_witness:
  "fst (run_request (get_latest_active_configuration ''limits'')
      (demo_versions_db\<lparr>configurations := map (scrub (\<lambda>_ _ _. JNull)) (configurations demo_versions_db)\<rparr>))
   = fst (run_request (get_latest_active_configuration ''limits'') demo_versions_db)
   \<and> map (scrub (\<lambda>_ _ _. JNull)) (configurations demo_versions_db) \<noteq> configurations demo_versions_db
   \<and> (\<exists>diff. fst (run_request (compare_configurations (\<lambda>_ _. False) 50 2) demo_versions_db) = Inr diff
        \<and> ccp_changed diff = [(''pin'', JStr MASK, JStr MASK)])"
proof -
  obtain diff where run: "fst (run_request (compare_configurations (\<lambda>_ _. False) 50 2) demo_versions_db) = Inr diff"
      and diff: "ccp_changed diff = [(''pin'', JStr MASK, JStr MASK)]"
    using demo_compare by auto
  have "map (scrub (\<lambda>_ _ _. JNull)) (configurations demo_versions_db) \<noteq> configurations demo_versions_db"
    by (simp add: demo_versions_db_def demo_version_def scrub_def)
  then show ?thesis
    using reads_never_reveal_sensitive_values [OF refl, where d = demo_versions_db and name = "''limits''"
        and g = "\<lambda>_ _ _. JNull" and int_eq_float = "\<lambda>_ _. False"] run diff by blast
qed

text \<open>
  An import is all or nothing. When it fails the database is as before. When it succeeds,
  every item is answered in order, as created exactly when its payload is valid, the two counts
  add up to the number of items, and the rows added are one draft per valid item with its
  document, its checksum and the version the answer reports.
\<close>

theorem import_creates_the_valid_items:
  assumes "run_request (import_configurations pf ids cks items actor) d = (r, d')"
  shows "case r of
      Inl e \<Rightarrow> d' = d
    | Inr out \<Rightarrow> cim_imported out = length (filter importable items) \<and> cim_imported out + cim_skipped out = length items
        \<and> import_answers items (cim_rows out)
        \<and> (\<exists>news. d' = configurations_update (\<lambda>cs. cs @ news) d \<and> imported_rows pf actor items (cim_rows out) news)"
proof (cases r)
  case (Inl e)
  have "all_or_nothing (import_configurations pf ids cks items actor)"
    unfolding import_configurations_def by (intro all_or_nothing_rules uncommitting_import_items)
  with assms Inl show ?thesis by (auto dest: all_or_nothing_run)
next
  case (Inr out)
  obtain s where s: "import_items pf ids cks actor 0 0 [] items \<lparr>committed = d, working = d\<rparr> = (Inr out, s)" and d': "d' = working s"
    using assms Inr by (auto simp: import_configurations_def run_request_def bind_svc_Inr commit_def return_svc_def split: prod.splits)
  show ?thesis using import_items_Inr [OF s] sum_length_filter_compl [of importable items] Inr d' by auto
qed

theorem import_creates_the_valid_items_witness:
  "\<exists>out. fst (run_request (import_configurations demo_P (\<lambda>n. 60 + n) (\<lambda>_. demo_clock) demo_items ''admin@nexus'') demo_versions_db) = Inr out
     \<and> cim_imported out = 1 \<and> cim_imported out + cim_skipped out = 2"
proof -
  let ?run = "run_request (import_configurations demo_P (\<lambda>n. 60 + n) (\<lambda>_. demo_clock) demo_items ''admin@nexus'') demo_versions_db"
  have valid: "map importable demo_items = [True, False]" by code_simp
  then have count: "length (filter importable demo_items) = 1" "length demo_items = 2" by (simp_all add: demo_items_def)
  have texts: "text_fits_opt 120 (Some ''ports'')" "text_fits_opt 120 (Some ''admin@nexus'')" "text_fits_opt 255 None" by code_simp+
  have "\<exists>out. fst ?run = Inr out"
    using valid texts demo_checksum_fits
    by (simp add: demo_items_def import_configurations_def run_request_def svc_simps importable_def insert_configuration_def insert_row_def configuration_columns_ok_def new_configuration_def
        demo_versions_db_def demo_version_def)
  then obtain out where out: "?run = (Inr out, snd ?run)" by (auto simp: prod_eq_iff)
  from import_creates_the_valid_items [OF out] count have "cim_imported out = 1 \<and> cim_imported out + cim_skipped out = 2" by simp
  with out show ?thesis by (metis fst_conv)
qed

end
