(* ===== verification/Transactions.thy ===== *)
theory Transactions
  imports ConfigVersions
begin

text \<open>
  A calculus of what a request publishes. \<open>publishes m d Q\<close> says of an action \<open>m\<close> that starts with
  the pending database \<open>d\<close>: whatever its outcome, it leaves the committed database alone or
  replaces it by one that satisfies \<open>Q\<close>. The rules compute it through the statements of a
  service from the first to the commit.
\<close>

named_theorems publish_simps "what a statement followed by the rest of a service publishes"
named_theorems publish_intros "the statements that give a new obligation"

definition publishes :: "('d, 'a) svc \<Rightarrow> 'd \<Rightarrow> ('d \<Rightarrow> bool) \<Rightarrow> bool" where
  "publishes m d Q \<longleftrightarrow>
     (\<forall>c. committed (snd (m \<lparr>committed = c, working = d\<rparr>)) = c \<or> Q (committed (snd (m \<lparr>committed = c, working = d\<rparr>))))"

lemma publishes_run: "publishes m d Q \<Longrightarrow> run_request m d = (r, d') \<Longrightarrow> d' = d \<or> Q d'"
  unfolding publishes_def run_request_def by (auto split: prod.splits) (metis snd_conv)

lemma publishes_snd: "publishes m d Q \<Longrightarrow> snd (run_request m d) = d \<or> Q (snd (run_request m d))"
  using publishes_run [of m d Q "fst (run_request m d)"] by simp

lemma publishes_mono: "publishes m d P \<Longrightarrow> (\<And>d'. P d' \<Longrightarrow> Q d') \<Longrightarrow> publishes m d Q"
  unfolding publishes_def by blast

lemma publishes_uncommitting: "uncommitting m \<Longrightarrow> publishes m d Q"
  by (simp add: publishes_def uncommitting_def)

lemma publishes_basic [publish_simps]:
  "publishes (return_svc x) d Q" "publishes (raise_svc e) d Q" "publishes (query q) d Q" "publishes (query_e r) d Q"
  "publishes (modify_db f) d Q" "publishes (flush g) d Q"
  by (simp_all add: publishes_uncommitting)

lemma publishes_query [publish_simps]: "publishes (bind_svc (query q) f) d Q \<longleftrightarrow> publishes (f (q d)) d Q"
  by (simp add: publishes_def bind_svc_def query_def)

lemma publishes_query_e [publish_simps]:
  "publishes (bind_svc (query_e q) f) d Q \<longleftrightarrow> (\<forall>x. q d = Inr x \<longrightarrow> publishes (f x) d Q)"
  by (auto simp: publishes_def bind_svc_def query_e_def split: sum.splits)

lemma publishes_modify [publish_simps]: "publishes (bind_svc (modify_db g) f) d Q \<longleftrightarrow> publishes (f ()) (g d) Q"
  by (simp add: publishes_def bind_svc_def modify_db_def)

lemma publishes_flush [publish_simps]:
  "publishes (bind_svc (flush g) f) d Q \<longleftrightarrow> (\<forall>d'. g d = Inr d' \<longrightarrow> publishes (f ()) d' Q)"
  by (auto simp: publishes_def bind_svc_def flush_def split: sum.splits)

lemma publishes_if [publish_simps]:
  "publishes (if b then m else n) d Q \<longleftrightarrow> (b \<longrightarrow> publishes m d Q) \<and> (\<not> b \<longrightarrow> publishes n d Q)"
  by simp

lemma publishes_option [publish_simps]:
  "publishes (case z of None \<Rightarrow> m | Some x \<Rightarrow> f x) d Q \<longleftrightarrow>
     (z = None \<longrightarrow> publishes m d Q) \<and> (\<forall>x. z = Some x \<longrightarrow> publishes (f x) d Q)"
  by (cases z) simp_all

lemma publishes_commit [publish_intros]: "uncommitting (f ()) \<Longrightarrow> Q d \<Longrightarrow> publishes (bind_svc commit f) d Q"
  by (simp add: publishes_def uncommitting_def bind_svc_def commit_def)

lemma publishes_commit_last [publish_intros]: "Q d \<Longrightarrow> publishes commit d Q"
  by (simp add: publishes_def commit_def)

declare bind_svc_assoc [publish_simps] bind_svc_return [publish_simps] bind_svc_raise [publish_simps] Let_def [publish_simps]

lemma bind_if [publish_simps]: "bind_svc (if b then m else n) f = (if b then bind_svc m f else bind_svc n f)"
  by simp

lemma bind_option [publish_simps]:
  "bind_svc (case z of None \<Rightarrow> m | Some x \<Rightarrow> g x) f = (case z of None \<Rightarrow> bind_svc m f | Some x \<Rightarrow> bind_svc (g x) f)"
  by (cases z) simp_all

text \<open>An audit entry that is appended changes the log and its counter only.\<close>

definition logged :: "'p audit_platform_scheme \<Rightarrow> fresh \<Rightarrow> AuditLogEntryCreate \<Rightarrow> AuditLogEntry \<Rightarrow> 'z audit_db_scheme \<Rightarrow> 'z audit_db_scheme \<Rightarrow> bool" where
  "logged pf fr p e d d' \<longleftrightarrow>
     build_entry pf fr (audit_next d + int (fr_skip fr)) (map_option ale_entry_hash (get_tail d)) p = Inr e
     \<and> insert_entry e d = Inr d'"

lemma logged_entry:
  assumes "logged pf fr p e d d'"
  shows "d' = d\<lparr>audit_log_entries := audit_log_entries d @ [e], audit_next := ale_sequence e + 1\<rparr>"
    and "ale_event_subtype e = alc_event_subtype p" "ale_actor e = alc_actor p" "ale_description e = alc_description p"
    and "ale_metadata_json e = sanitize_metadata (alc_metadata_json p)" "coerce_event_type pf (alc_event_type p) = Some (ale_event_type e)"
    and "audit_next d \<le> ale_sequence e"
  using build_entry_Inr [OF assms [unfolded logged_def, THEN conjunct1]] assms by (simp_all add: logged_def insert_entry_Inr)

lemma publishes_append [publish_intros]:
  assumes "\<And>e d'. logged pf fr p e d d' \<Longrightarrow> publishes (f e) d' Q"
  shows "publishes (bind_svc (append_entry_in_transaction pf fr p) f) d Q"
  unfolding publishes_def
proof
  fix c
  let ?s = "\<lparr>committed = c, working = d\<rparr>"
  show "committed (snd (bind_svc (append_entry_in_transaction pf fr p) f ?s)) = c
    \<or> Q (committed (snd (bind_svc (append_entry_in_transaction pf fr p) f ?s)))"
  proof (cases "append_entry_in_transaction pf fr p ?s")
    case (Pair r s')
    then have c: "committed s' = c" using uncommittingD [OF uncommitting_append] by fastforce
    show ?thesis
    proof (cases r)
      case (Inr e)
      note run = append_in_transaction_run [OF Pair [unfolded Inr]]
      have "logged pf fr p e d (working s')" using run by (simp add: logged_def)
      from assms [OF this] show ?thesis using Pair Inr c by (cases s') (auto simp: publishes_def bind_svc_def)
    qed (simp add: Pair c bind_svc_def)
  qed
qed

end
