(* ===== verification/Outcomes.thy ===== *)
theory Outcomes
  imports Transactions
begin

text \<open>
  A calculus of outcomes, which computes a service from its first statement to the answer.
  \<open>ends m s Q\<close> says that \<open>m\<close>, started in session \<open>s\<close>, ends with a result and a session that satisfy
  \<open>Q\<close>. The last section has the platform on which the examples of the later theories append to
  the audit log.
\<close>

named_theorems ends_simps "the outcome of a statement followed by the rest of a service"
named_theorems ends_intros "the statements whose outcome has a case for errors"

definition ends :: "('d, 'a) svc \<Rightarrow> 'd session \<Rightarrow> (error + 'a \<Rightarrow> 'd session \<Rightarrow> bool) \<Rightarrow> bool" where
  "ends m s Q \<longleftrightarrow> Q (fst (m s)) (snd (m s))"

lemma ends_run: "run_request m d = (r, d') \<Longrightarrow> ends m \<lparr>committed = d, working = d\<rparr> (\<lambda>r s. Q r (committed s)) \<Longrightarrow> Q r d'"
  by (auto simp: ends_def run_request_def split: prod.splits)

lemma ends_mono: "ends m s P \<Longrightarrow> (\<And>r s'. P r s' \<Longrightarrow> Q r s') \<Longrightarrow> ends m s Q"
  by (simp add: ends_def)

lemma ends_last [ends_simps]:
  "ends (return_svc x) s Q \<longleftrightarrow> Q (Inr x) s"
  "ends (raise_svc e) s Q \<longleftrightarrow> Q (Inl e) s"
  by (simp_all add: ends_def svc_simps)

lemma ends_last_read [ends_simps]:
  "ends (query q) s Q \<longleftrightarrow> Q (Inr (q (working s))) s"
  "ends (query_e g) s Q \<longleftrightarrow> Q (g (working s)) s"
  by (simp_all add: ends_def svc_simps)

lemma ends_last_write [ends_simps]:
  "ends commit s Q \<longleftrightarrow> Q (Inr ()) (s\<lparr>committed := working s\<rparr>)"
  "ends (modify_db f) s Q \<longleftrightarrow> Q (Inr ()) (s\<lparr>working := f (working s)\<rparr>)"
  by (simp_all add: ends_def svc_simps)

lemma ends_query [ends_simps]: "ends (bind_svc (query q) f) s Q \<longleftrightarrow> ends (f (q (working s))) s Q"
  by (simp add: ends_def svc_simps)

lemma ends_modify [ends_simps]: "ends (bind_svc (modify_db g) f) s Q \<longleftrightarrow> ends (f ()) (s\<lparr>working := g (working s)\<rparr>) Q"
  by (simp add: ends_def svc_simps)

lemma ends_commit [ends_simps]: "ends (bind_svc commit f) s Q \<longleftrightarrow> ends (f ()) (s\<lparr>committed := working s\<rparr>) Q"
  by (simp add: ends_def svc_simps)

lemma ends_query_e [ends_simps]:
  "ends (bind_svc (query_e q) f) s Q \<longleftrightarrow>
     (\<forall>e. q (working s) = Inl e \<longrightarrow> Q (Inl e) s) \<and> (\<forall>x. q (working s) = Inr x \<longrightarrow> ends (f x) s Q)"
  by (auto simp: ends_def svc_simps split: sum.splits)

lemma ends_flush [ends_simps]:
  "ends (bind_svc (flush g) f) s Q \<longleftrightarrow>
     (\<forall>e. g (working s) = Inl e \<longrightarrow> Q (Inl e) s) \<and> (\<forall>d. g (working s) = Inr d \<longrightarrow> ends (f ()) (s\<lparr>working := d\<rparr>) Q)"
  by (auto simp: ends_def svc_simps split: sum.splits)

lemma ends_found: "q (working s) = Inr x \<Longrightarrow> ends (f x) s Q \<Longrightarrow> ends (bind_svc (query_e q) f) s Q"
  by (simp add: ends_query_e)

lemma ends_stored: "g (working s) = Inr d \<Longrightarrow> ends (f ()) (s\<lparr>working := d\<rparr>) Q \<Longrightarrow> ends (bind_svc (flush g) f) s Q"
  by (simp add: ends_flush)

lemma ends_if [ends_simps]: "ends (if b then m else n) s Q \<longleftrightarrow> (b \<longrightarrow> ends m s Q) \<and> (\<not> b \<longrightarrow> ends n s Q)"
  by simp

lemma ends_option [ends_simps]:
  "ends (case z of None \<Rightarrow> m | Some x \<Rightarrow> f x) s Q \<longleftrightarrow>
     (z = None \<longrightarrow> ends m s Q) \<and> (\<forall>x. z = Some x \<longrightarrow> ends (f x) s Q)"
  by (cases z) simp_all

declare bind_svc_assoc [ends_simps] bind_svc_return [ends_simps] bind_svc_raise [ends_simps] Let_def [ends_simps]
  bind_if [ends_simps] bind_option [ends_simps]

lemma ends_append [ends_intros]:
  assumes "\<And>e s'. committed s' = committed s \<Longrightarrow> Q (Inl e) s'"
    and "\<And>e d'. logged pf fr p e (working s) d' \<Longrightarrow> ends (f e) (s\<lparr>working := d'\<rparr>) Q"
  shows "ends (bind_svc (append_entry_in_transaction pf fr p) f) s Q"
proof (cases "append_entry_in_transaction pf fr p s")
  case (Pair r s')
  then have c: "committed s' = committed s" using uncommittingD [OF uncommitting_append] by fastforce
  show ?thesis
  proof (cases r)
    case (Inl e)
    then show ?thesis using assms(1) [OF c] by (simp add: ends_def bind_svc_def Pair)
  next
    case (Inr e)
    note run = append_in_transaction_run [OF Pair [unfolded Inr]]
    have "logged pf fr p e (working s) (working s')" using run by (simp add: logged_def)
    moreover have "s\<lparr>working := working s'\<rparr> = s'" using c by (cases s, cases s') simp
    ultimately show ?thesis using assms(2) [of e "working s'"] by (simp add: ends_def bind_svc_def Pair Inr)
  qed
qed

lemma ends_except [ends_simps]:
  "ends (except_rollback m) s Q \<longleftrightarrow>
     ends m s (\<lambda>r s'. Q r (case r of Inl _ \<Rightarrow> s'\<lparr>working := committed s'\<rparr> | Inr _ \<Rightarrow> s'))"
  by (auto simp: ends_def svc_simps split: prod.splits sum.splits)

lemma ends_except_bind [ends_simps]:
  "ends (bind_svc (except_rollback m) f) s Q \<longleftrightarrow>
     ends m s (\<lambda>r s'. case r of Inl e \<Rightarrow> Q (Inl e) (s'\<lparr>working := committed s'\<rparr>) | Inr x \<Rightarrow> ends (f x) s' Q)"
  by (auto simp: ends_def svc_simps split: prod.splits sum.splits)

lemma ends_rollback [ends_simps]: "ends (bind_svc rollback f) s Q \<longleftrightarrow> ends (f ()) (s\<lparr>working := committed s\<rparr>) Q"
  by (simp add: ends_def svc_simps)

lemma ends_append_last [ends_intros]:
  assumes "\<And>e s'. committed s' = committed s \<Longrightarrow> Q (Inl e) s'"
    and "\<And>e d'. logged pf fr p e (working s) d' \<Longrightarrow> Q (Inr e) (s\<lparr>working := d'\<rparr>)"
  shows "ends (append_entry_in_transaction pf fr p) s Q"
proof -
  have "ends (bind_svc (append_entry_in_transaction pf fr p) return_svc) s Q"
    by (rule ends_append) (simp_all add: assms ends_simps)
  then show ?thesis by (simp add: ends_def bind_svc_def return_svc_def split: prod.splits sum.splits)
qed

lemma ends_snd: "ends m \<lparr>committed = d, working = d\<rparr> (\<lambda>r s. P (committed s)) \<Longrightarrow> P (snd (run_request m d))"
  by (auto simp: ends_def run_request_def split: prod.splits)

lemma current_user_of_users:
  "users (working s) = users (working s') \<Longrightarrow> fst (get_current_user pf st now cred s) = fst (get_current_user pf st now cred s')"
  by (simp add: get_current_user_def svc_simps split: option.splits claim.splits)

lemma ends_current_user:
  assumes "\<And>u s'. fst (get_current_user pf st now cred s) = Inr u \<Longrightarrow> ends (f u) s Q" and "\<And>e. Q (Inl e) s"
  shows "ends (bind_svc (get_current_user pf st now cred) f) s Q"
proof (cases "get_current_user pf st now cred s")
  case (Pair r s')
  then have "s' = s" using get_current_user_pure [of pf st now cred s] by simp
  then show ?thesis using Pair assms by (cases r) (auto simp: ends_def bind_svc_def)
qed

lemma ends_user: "fst (get_current_user pf st now cred s) = Inr u \<Longrightarrow> ends (f u) s Q \<Longrightarrow> ends (bind_svc (get_current_user pf st now cred) f) s Q"
  using get_current_user_pure [of pf st now cred s] by (auto simp: ends_def bind_svc_def split: prod.splits)

lemma get_row_snoc: "get_row pk j (rs @ [r]) = (case get_row pk j rs of Some x \<Rightarrow> Some x | None \<Rightarrow> if pk r = j then Some r else None)"
proof -
  have "get_row pk j [r] = (if pk r = j then Some r else None)" by (simp add: get_row_def)
  then show ?thesis by (simp add: get_row_append split: option.split)
qed

lemma distinct_dict_fromkeys: "distinct (dict_fromkeys ks)"
  by (induction ks) (simp_all add: distinct_filter)

section \<open>A platform with a constant digest\<close>

text \<open>Its entries all hash to one value, so that each request of an example takes a digest of its own.\<close>

definition demo_K :: "char \<Rightarrow> audit_platform" where
  "demo_K c = demo_with (\<lambda>_. [c])"

lemma demo_K_hash: "compute_entry_hash (demo_K c) g = hexlify [c]"
  by (simp add: compute_entry_hash_def demo_K_def demo_with_def)

lemma demo_K_append:
  fixes s :: "'z audit_db_scheme session"
  assumes co: "coerce_severity (demo_K c) (alc_severity p) = Some sv" "coerce_event_type (demo_K c) (alc_event_type p) = Some ty"
    and texts: "text_ok (alc_description p)" "fits 60 (alc_event_subtype p)" "text_ok (alc_event_subtype p)"
      "fits 120 (alc_actor p)" "text_ok (alc_actor p)"
    and none: "alc_tenant_id p = None" "alc_tenant_slug p = None" "alc_source_ip p = None"
    and new: "hexlify [c] \<notin> ale_entry_hash ` set (audit_log_entries (working s))" "fr_id fr \<notin> ale_id ` set (audit_log_entries (working s))"
      "fits_opt 64 (map_option ale_entry_hash (get_tail (working s)))"
  obtains e n where "ale_entry_hash e = hexlify [c]" "ale_id e = fr_id fr" "append_entry_in_transaction (demo_K c) fr p s =
    (Inr e, s\<lparr>working := (working s)\<lparr>audit_log_entries := audit_log_entries (working s) @ [e], audit_next := n\<rparr>\<rparr>)"
proof -
  let ?prev = "map_option ale_entry_hash (get_tail (working s))"
  obtain e where e: "build_entry (demo_K c) fr (audit_next (working s) + int (fr_skip fr)) ?prev p = Inr e"
    using build_entry_succeeds [OF co] by metis
  note row = build_entry_Inr [OF e]
  have hash: "ale_entry_hash e = hexlify [c]" using row by (simp add: demo_K_hash)
  have "ale_signing_key_id e = get_signing_key_id (demo_K c)"
    using e by (auto simp: build_entry_def Let_def split: option.splits)
  then have "fits 60 (ale_signing_key_id e)" by (simp add: get_signing_key_id_def fits_def)
  moreover have "fits 64 (hexlify [c])" by (simp add: fits_def hexlify_def hex2_def)
  ultimately have "columns_ok e" using row texts none new(3) by (simp add: columns_ok_def fits_opt_def demo_K_hash)
  moreover have tenant: "ale_tenant_id e = None" and id: "ale_id e = fr_id fr" using row none by simp_all
  ultimately have "insert_entry e (working s) = Inr ((working s)\<lparr>audit_log_entries := audit_log_entries (working s) @ [e],
      audit_next := ale_sequence e + 1\<rparr>)"
    unfolding insert_entry_Inr id hash tenant using new(1,2) by blast
  from that [OF hash id append_in_transaction_succeeds [OF e this]] show thesis .
qed

lemma ends_demo_append:
  fixes s :: "'z audit_db_scheme session"
  assumes "coerce_severity (demo_K c) (alc_severity p) = Some sv" "coerce_event_type (demo_K c) (alc_event_type p) = Some ty"
    and "text_ok (alc_description p)" "fits 60 (alc_event_subtype p)" "text_ok (alc_event_subtype p)"
      "fits 120 (alc_actor p)" "text_ok (alc_actor p)"
    and "alc_tenant_id p = None" "alc_tenant_slug p = None" "alc_source_ip p = None"
    and "hexlify [c] \<notin> ale_entry_hash ` set (audit_log_entries (working s))" "fr_id fr \<notin> ale_id ` set (audit_log_entries (working s))"
      "fits_opt 64 (map_option ale_entry_hash (get_tail (working s)))"
    and "\<And>e n. ale_entry_hash e = hexlify [c] \<Longrightarrow> ale_id e = fr_id fr \<Longrightarrow> ends (f e)
      (s\<lparr>working := (working s)\<lparr>audit_log_entries := audit_log_entries (working s) @ [e], audit_next := n\<rparr>\<rparr>) Q"
  shows "ends (bind_svc (append_entry_in_transaction (demo_K c) fr p) f) s Q"
proof (rule demo_K_append [OF assms(1-13)])
  fix e n assume e: "ale_entry_hash e = hexlify [c]" "ale_id e = fr_id fr" and run: "append_entry_in_transaction (demo_K c) fr p s =
    (Inr e, s\<lparr>working := (working s)\<lparr>audit_log_entries := audit_log_entries (working s) @ [e], audit_next := n\<rparr>\<rparr>)"
  from assms(14) [OF e, of n] show ?thesis by (simp add: ends_def bind_svc_def run)
qed

lemma ends_success: "ends m \<lparr>committed = d, working = d\<rparr> (\<lambda>r s. \<exists>x. r = Inr x \<and> P x (committed s)) \<Longrightarrow>
   \<exists>x d'. run_request m d = (Inr x, d') \<and> P x d'"
  by (auto simp: ends_def run_request_def split: prod.splits)

lemma demo_K_coercions:
  "coerce_severity (demo_K c) ''info'' = Some AuditSeverity.INFO" "coerce_severity (demo_K c) ''warning'' = Some AuditSeverity.WARNING"
  "coerce_severity (demo_K c) ''critical'' = Some AuditSeverity.CRITICAL"
  "coerce_event_type (demo_K c) ''key_operation'' = Some AuditEventType.KEY_OPERATION"
proof -
  have "coerce_severity demo_audit_platform ''info'' = Some AuditSeverity.INFO"
    "coerce_severity demo_audit_platform ''warning'' = Some AuditSeverity.WARNING"
    "coerce_severity demo_audit_platform ''critical'' = Some AuditSeverity.CRITICAL"
    "coerce_event_type demo_audit_platform ''key_operation'' = Some AuditEventType.KEY_OPERATION" by code_simp+
  then show "coerce_severity (demo_K c) ''info'' = Some AuditSeverity.INFO" "coerce_severity (demo_K c) ''warning'' = Some AuditSeverity.WARNING"
    "coerce_severity (demo_K c) ''critical'' = Some AuditSeverity.CRITICAL"
    "coerce_event_type (demo_K c) ''key_operation'' = Some AuditEventType.KEY_OPERATION"
    by (simp_all add: demo_K_def demo_with_def)
qed

lemma hexlify_digit: "hexlify [CHR 0x01] = ''01''" "hexlify [CHR 0x02] = ''02''"
  by code_simp+

end
