(* ===== verification/RbacProps.thy ===== *)
theory RbacProps
  imports Outcomes
begin

text \<open>
  How the role-administration endpoints answer: the checks of
  \<^verbatim>\<open>src/app/services/rbac_service.py\<close> stand in front of every constraint of the tables, so
  that a request ends with a value or an \<^verbatim>\<open>HTTPException\<close> and never with an error of the
  database, which the client would see as a server error.
\<close>

section \<open>Answers\<close>

text \<open>A value or an \<^verbatim>\<open>HTTPException\<close>; anything else is a server error.\<close>

definition answered :: "error + 'a \<Rightarrow> bool" where
  "answered r = (case r of Inr _ \<Rightarrow> True | Inl e \<Rightarrow> (case e of HTTPException _ _ \<Rightarrow> True | _ \<Rightarrow> False))"

abbreviation answers :: "('d, 'a) svc \<Rightarrow> 'd session \<Rightarrow> bool" where
  "answers m s \<equiv> ends m s (\<lambda>r _. answered r)"

lemma answered_simps [simp]:
  "answered (Inr x)" "answered (Inl (HTTPException n detail))"
  by (simp_all add: answered_def)

lemma answers_run: "answers m \<lparr>committed = d, working = d\<rparr> \<Longrightarrow> answered (fst (run_request m d))"
  by (simp add: ends_def run_request_def split_beta)

lemma answers_admin:
  assumes "\<And>u. u \<in> set (users d) \<Longrightarrow> u_is_admin u \<Longrightarrow> answered (fst (run_request (f u) d))"
  shows "answered (fst (run_request (bind_svc (require_admin pf st now cred) f) d))"
proof (cases "fst (run_request (get_current_user pf st now cred) d)")
  case (Inr u)
  then have "u \<in> set (users d)"
    using get_current_user_in [of pf st now cred "\<lparr>committed = d, working = d\<rparr>" u]
    by (simp add: current_user_run)
  with Inr show ?thesis by (simp add: admin_guard_run assms)
qed (simp add: admin_guard_run)

lemma answers_validated: "(ok \<Longrightarrow> answered (fst (run_request m d))) \<Longrightarrow> answered (fst (run_request (validated ok m) d))"
  by (simp add: validated_def svc_simps)

text \<open>The reads at the end of a request answer in every session.\<close>

lemma answers_reads:
  "answers (get_user i) s" "answers (role_read_for r) s"
  by (simp_all add: get_user_def get_user_orm_def role_read_for_def ends_simps)

section \<open>Values no row has yet\<close>

definition fresh_ids :: "ids \<Rightarrow> 'z rbac_db_scheme \<Rightarrow> bool" where
  "fresh_ids ids d \<longleftrightarrow> new_id ids \<notin> u_id ` set (users d) \<and> new_id ids \<notin> r_id ` set (roles d)
     \<and> new_id ids \<notin> ur_id ` set (user_roles d) \<and> inj (link_id ids)
     \<and> (\<forall>n. link_id ids n \<notin> ur_id ` set (user_roles d) \<and> link_id ids n \<notin> rp_id ` set (role_permissions d))"

text \<open>Link rows with new identifiers and new pairs are accepted one after the other.\<close>

lemma ends_add_user_roles:
  fixes s :: "'z rbac_db_scheme session"
  assumes "uid \<in> u_id ` set (users (working s))" and "r_id ` set rs \<subseteq> r_id ` set (roles (working s))"
    and "distinct (map r_id rs)" and "\<forall>r \<in> set rs. (uid, r_id r) \<notin> (\<lambda>l. (ur_user_id l, ur_role_id l)) ` set (user_roles (working s))"
    and "inj is" and "\<forall>k \<ge> n. is k \<notin> ur_id ` set (user_roles (working s))" and "text_fits_opt 120 by"
    and "\<And>s'. ends (f ()) s' Q"
  shows "ends (bind_svc (add_user_roles is n uid by rs) f) s Q"
  using assms(1-4,6)
proof (induction rs arbitrary: n s)
  case Nil
  then show ?case by (simp add: assms(8))
next
  case (Cons r rs)
  let ?l = "\<lparr>ur_id = is n, ur_user_id = uid, ur_role_id = r_id r, ur_assigned_by = by\<rparr>"
  let ?d = "(working s)\<lparr>user_roles := user_roles (working s) @ [?l]\<rparr>"
  have ins: "insert_user_role ?l (working s) = Inr ?d"
    using Cons.prems assms(7) by (auto simp: insert_link_Inr)
  have next_ids: "\<forall>k \<ge> Suc n. is k \<notin> ur_id ` set (user_roles ?d)"
    using Cons.prems(5) assms(5) by (auto dest: injD)
  have "ends (bind_svc (add_user_roles is (Suc n) uid by rs) f) (s\<lparr>working := ?d\<rparr>) Q"
    by (rule Cons.IH) (use Cons.prems next_ids in \<open>auto simp: image_iff\<close>)
  then show ?case
    by (simp add: bind_svc_assoc) (rule ends_stored, rule ins, assumption)
qed

lemma ends_add_role_permissions:
  fixes s :: "'z rbac_db_scheme session"
  assumes "rid \<in> r_id ` set (roles (working s))" and "set ps \<subseteq> p_id ` set (permissions (working s))"
    and "distinct ps" and "\<forall>p \<in> set ps. (rid, p) \<notin> (\<lambda>l. (rp_role_id l, rp_permission_id l)) ` set (role_permissions (working s))"
    and "inj is" and "\<forall>k \<ge> n. is k \<notin> rp_id ` set (role_permissions (working s))"
    and "\<And>s'. ends (f ()) s' Q"
  shows "ends (bind_svc (add_role_permissions is n rid ps) f) s Q"
  using assms(1-4,6)
proof (induction ps arbitrary: n s)
  case Nil
  then show ?case by (simp add: assms(7))
next
  case (Cons p ps)
  let ?l = "\<lparr>rp_id = is n, rp_role_id = rid, rp_permission_id = p\<rparr>"
  let ?d = "(working s)\<lparr>role_permissions := role_permissions (working s) @ [?l]\<rparr>"
  have ins: "insert_role_permission ?l (working s) = Inr ?d"
    using Cons.prems by (auto simp: insert_link_Inr)
  have next_ids: "\<forall>k \<ge> Suc n. is k \<notin> rp_id ` set (role_permissions ?d)"
    using Cons.prems(5) assms(5) by (auto dest: injD)
  have "ends (bind_svc (add_role_permissions is (Suc n) rid ps) f) (s\<lparr>working := ?d\<rparr>) Q"
    by (rule Cons.IH) (use Cons.prems next_ids in \<open>auto simp: image_iff\<close>)
  then show ?case
    by (simp add: bind_svc_assoc) (rule ends_stored, rule ins, assumption)
qed

section \<open>The services\<close>

lemma rbac_invD:
  assumes "rbac_inv d"
  shows "distinct (map r_id (roles d))" "distinct (map r_name (roles d))" "distinct (map p_name (permissions d))"
    "ur_user_id ` set (user_roles d) \<subseteq> u_id ` set (users d)" "distinct (map u_email (users d))"
    "rp_role_id ` set (role_permissions d) \<subseteq> r_id ` set (roles d)"
  using assms by (simp_all add: rbac_inv_def auth_inv_def)

lemma find_none_key: "find (\<lambda>x. k x = v) xs = None \<longleftrightarrow> v \<notin> k ` set xs"
  by (auto simp: find_None_iff)

lemma create_user_answered:
  assumes inv: "rbac_inv d" and ids: "fresh_ids ids d" 
    and law: "fits 255 (hash_password pf salt (ruc_password payload))" "text_ok (hash_password pf salt (ruc_password payload))"
    and ok: "valid_RbacUserCreate payload" "text_ok (ruc_email payload)" "text_ok (ruc_display_name payload)"
  shows "answered (fst (run_request (create_user pf salt ids now payload) d))"
proof -
  let ?u = "new_user pf salt ids now payload"
  let ?d = "d\<lparr>users := users d @ [?u]\<rparr>"
  let ?rs = "filter (\<lambda>r. r_id r \<in> set (ruc_role_ids payload)) (roles d)"
  note lookup = scalar_by_unique_key [OF rbac_invD(5) [OF inv], of "ruc_email payload"]
  have ins: "insert_user ?u d = Inr ?d" if "ruc_email payload \<notin> u_email ` set (users d)"
    using that ids ok law
    by (auto simp: insert_Inr user_columns_ok_def new_user_def fresh_ids_def valid_RbacUserCreate_def len_in_def
        fits_def)
  have grant: "answers (bind_svc (grant_initial_roles pf ids (ruc_role_ids payload))
      (\<lambda>_. bind_svc commit (\<lambda>_. get_user (new_id ids)))) \<lparr>committed = d, working = ?d\<rparr>"
  proof -
    have "answers (bind_svc (add_user_roles (link_id ids) 0 (new_id ids) None ?rs)
        (\<lambda>_. bind_svc commit (\<lambda>_. get_user (new_id ids)))) \<lparr>committed = d, working = ?d\<rparr>"
    proof (rule ends_add_user_roles)
      show "\<forall>r \<in> set ?rs. (new_id ids, r_id r) \<notin> (\<lambda>l. (ur_user_id l, ur_role_id l)) `
          set (user_roles (working \<lparr>committed = d, working = ?d\<rparr>))"
        using rbac_invD(4) [OF inv] ids by (auto simp: fresh_ids_def)
    qed (use ids distinct_map_filter [OF rbac_invD(1) [OF inv]] in
        \<open>auto simp: fresh_ids_def new_user_def text_fits_opt_def fits_opt_def ends_simps answers_reads\<close>)
    then show ?thesis by (simp add: grant_initial_roles_def ends_simps answers_reads)
  qed
  show ?thesis
    by (rule answers_run, unfold create_user_def new_user_def [symmetric])
       (use ins grant lookup in \<open>auto simp: ends_simps find_none_key split: option.splits
          intro!: ends_stored [where d = ?d]\<close>)
qed

lemma update_user_answered:
  fixes d :: "'z rbac_db_scheme"
  assumes "valid_RbacUserUpdate payload" and "text_ok_opt (ruu_display_name payload)"
  shows "answered (fst (run_request (update_user uid payload) d))"
proof -
  have "update_user_row uid payload x
      = Inr (users_update (update_where (\<lambda>u. u_id u = uid) (apply_user_update payload)) x)" for x :: "'z rbac_db_scheme"
    using assms by (cases "ruu_display_name payload")
      (simp_all add: update_user_row_def valid_RbacUserUpdate_def text_ok_opt_def text_fits_opt_def fits_opt_def
        len_in_opt_def len_in_def fits_def)
  then show ?thesis
    by (intro answers_run) (simp add: update_user_def get_user_orm_def ends_simps answers_reads)
qed

lemma set_user_active_answered: "answered (fst (run_request (set_user_active uid b) d))"
  by (rule answers_run) (simp add: set_user_active_def get_user_orm_def ends_simps answers_reads)

text \<open>The rows of the listed permissions, or a 404.\<close>

lemma ends_validate_permission_ids:
  assumes "set pids \<subseteq> p_id ` set (permissions (working s)) \<Longrightarrow>
      ends (f (filter (\<lambda>p. p_id p \<in> set pids) (permissions (working s)))) s (\<lambda>r _. answered r)"
    and "pids = [] \<Longrightarrow> ends (f []) s (\<lambda>r _. answered r)"
  shows "answers (bind_svc (validate_permission_ids pf pids) f) s"
  using assms by (auto simp: validate_permission_ids_def ends_simps filter_empty_conv image_iff)

lemma create_role_answered:
  assumes inv: "rbac_inv d" and ids: "fresh_ids ids d"
    and ok: "valid_RoleCreate payload" "text_ok (rc_name payload)" "text_ok_opt (rc_description payload)"
  shows "answered (fst (run_request (create_role pf ids now payload) d))"
proof -
  let ?r = "\<lparr>r_id = new_id ids, r_name = rc_name payload, r_description = rc_description payload,
       r_is_active = True, r_created_at = now\<rparr>"
  let ?d = "d\<lparr>roles := roles d @ [?r]\<rparr>"
  note lookup = scalar_by_unique_key [OF rbac_invD(2) [OF inv], of "rc_name payload"]
  have ins: "insert_role ?r d = Inr ?d" if "rc_name payload \<notin> r_name ` set (roles d)"
    using that ids ok by (auto simp: insert_Inr role_columns_ok_def fresh_ids_def valid_RoleCreate_def len_in_def fits_def)
  have links: "answers (bind_svc (add_role_permissions (link_id ids) 0 (new_id ids) (dict_fromkeys (rc_permission_ids payload)))
      (\<lambda>_. bind_svc commit (\<lambda>_. role_read_for ?r))) \<lparr>committed = d, working = ?d\<rparr>"
    if "set (rc_permission_ids payload) \<subseteq> p_id ` set (permissions d)"
    by (rule ends_add_role_permissions)
       (use that ids rbac_invD(6) [OF inv] distinct_dict_fromkeys in
         \<open>auto simp: fresh_ids_def ends_simps answers_reads\<close>)
  have rest: "answers (bind_svc (validate_permission_ids pf (rc_permission_ids payload))
      (\<lambda>_. bind_svc (flush (insert_role ?r))
      (\<lambda>_. bind_svc (add_role_permissions (link_id ids) 0 (new_id ids) (dict_fromkeys (rc_permission_ids payload)))
      (\<lambda>_. bind_svc commit (\<lambda>_. role_read_for ?r))))) \<lparr>committed = d, working = d\<rparr>"
    if "rc_name payload \<notin> r_name ` set (roles d)"
    by (rule ends_validate_permission_ids; rule ends_stored [where d = ?d]) (use ins [OF that] links in auto)
  show ?thesis
    by (rule answers_run, unfold create_role_def Let_def)
       (use rest lookup in \<open>auto simp: ends_query_e ends_if ends_last find_none_key\<close>)
qed

lemma update_role_answered:
  assumes inv: "rbac_inv d" and ids: "fresh_ids ids d"
    and ok: "valid_RoleUpdate payload" "text_ok_opt (ru_name payload)" "text_ok_opt (ru_description payload)"
  shows "answered (fst (run_request (update_role pf ids rid payload) d))"
proof -
  have rest: "answered (fst (run_request (write_role_update pf ids rid payload role) d))"
    if role: "get_row r_id rid (roles d) = Some role" and free: "name_free rid payload d" for role
  proof (rule answers_run)
    let ?d = "roles_update (update_where (\<lambda>r. r_id r = rid) (apply_role_update payload)) d"
    let ?s = "\<lparr>committed = d, working = d\<rparr>"
    have row: "update_role_row rid payload d = Inr ?d"
      using ok free by (cases "ru_name payload")
        (auto simp: update_role_row_def name_free_def valid_RoleUpdate_def text_ok_opt_def text_fits_opt_def fits_opt_def
          len_in_opt_def len_in_def fits_def)
    have ex: "rid \<in> r_id ` set (roles d)" using role by (auto dest: get_row_Some)
    have links: "answers (bind_svc (add_role_permissions (link_id ids) 0 rid (dict_fromkeys pids)) f)
        (?s\<lparr>working := role_permissions_update (delete_where (\<lambda>l. rp_role_id l = rid)) ?d\<rparr>)"
      if "set pids \<subseteq> p_id ` set (permissions d)" "\<And>s'. answers (f ()) s'" for pids f
      by (rule ends_add_role_permissions)
         (use that ex ids distinct_dict_fromkeys in
           \<open>auto simp: fresh_ids_def delete_where_def ids_update_where apply_role_update_def\<close>)
    show "answers (write_role_update pf ids rid payload role) ?s"
    proof (cases "ru_permission_ids payload")
      case None
      then show ?thesis
        by (simp add: write_role_update_def flush_role_update_def)
           (rule ends_stored [where d = ?d], simp_all add: row ends_simps answers_reads)
    next
      case (Some pids)
      have linked: "answers (bind_svc (add_role_permissions (link_id ids) 0 rid (dict_fromkeys pids))
          (\<lambda>_. bind_svc commit (\<lambda>_. role_read_for (apply_role_update payload role))))
          (?s\<lparr>working := role_permissions_update (delete_where (\<lambda>l. rp_role_id l = rid)) ?d\<rparr>)"
        if "set pids \<subseteq> p_id ` set (permissions d)"
        by (rule links [OF that]) (simp add: ends_commit answers_reads)
      have "answers (bind_svc (validate_permission_ids pf pids)
          (\<lambda>_. bind_svc (flush (update_role_row rid payload))
          (\<lambda>_. bind_svc (modify_db (role_permissions_update (delete_where (\<lambda>l. rp_role_id l = rid))))
          (\<lambda>_. bind_svc (add_role_permissions (link_id ids) 0 rid (dict_fromkeys pids))
          (\<lambda>_. bind_svc commit (\<lambda>_. role_read_for (apply_role_update payload role))))))) ?s"
        by (rule ends_validate_permission_ids; rule ends_stored [where d = ?d])
           (use row linked in \<open>simp_all add: ends_modify\<close>)
      with Some show ?thesis by (simp add: write_role_update_def flush_role_update_def bind_svc_assoc)
    qed
  qed
  then show ?thesis by (simp add: update_role_run [OF inv] split: option.split)
qed

lemma assign_role_answered:
  assumes inv: "rbac_inv d" and ids: "new_id ids \<notin> ur_id ` set (user_roles d)" and email: "text_fits_opt 120 (Some email)"
  shows "answered (fst (run_request (assign_role ids uid rid email) d))"
proof -
  let ?l = "\<lparr>ur_id = new_id ids, ur_user_id = uid, ur_role_id = rid, ur_assigned_by = Some email\<rparr>"
  have ins: "insert_user_role ?l d = Inr (d\<lparr>user_roles := user_roles d @ [?l]\<rparr>)"
    if "get_row u_id uid (users d) = Some u" "get_row r_id rid (roles d) = Some r"
      "find (\<lambda>l. (ur_user_id l, ur_role_id l) = (uid, rid)) (user_roles d) = None" for u r
    using that ids email by (auto simp: insert_link_Inr find_None_iff dest!: get_row_Some)
  show ?thesis
    by (rule answers_run)
       (auto simp: assign_role_def get_user_orm_def get_role_orm_def role_summaries_for_user_def ends_simps
          assignment_of_find [OF inv] ins)
qed

lemma remove_role_answered: "rbac_inv d \<Longrightarrow> answered (fst (run_request (remove_role uid rid) d))"
  by (rule answers_run)
     (auto simp: remove_role_def get_user_orm_def get_role_orm_def role_summaries_for_user_def ends_simps
        assignment_of_find)

section \<open>Properties\<close>

text \<open>The texts of a request have no NUL character.\<close>

definition request_texts_ok :: "RbacUserCreate \<Rightarrow> RbacUserUpdate \<Rightarrow> RoleCreate \<Rightarrow> RoleUpdate \<Rightarrow> bool" where
  "request_texts_ok uc uu rc ru \<longleftrightarrow>
     text_ok (ruc_email uc) \<and> text_ok (ruc_display_name uc) \<and> text_ok_opt (ruu_display_name uu)
     \<and> text_ok (rc_name rc) \<and> text_ok_opt (rc_description rc)
     \<and> text_ok_opt (ru_name ru) \<and> text_ok_opt (ru_description ru)"

lemma keeps_admin: "(\<And>u. keeps I (f u)) \<Longrightarrow> keeps I (bind_svc (require_admin pf st now cred) f)"
  unfolding require_admin_def by (intro keeps_bind keeps_if keeps_basic keeps_get_current_user)

lemma answered_and_kept:
  assumes "rbac_inv d" and "answered (fst (run_request m d))" and "keeps rbac_inv m"
  shows "let (r, d') = run_request m d in answered r \<and> rbac_inv d'"
  using assms(2) keeps_run [OF assms(3,1)] by (simp add: split_beta)

lemmas answered_services = create_user_answered update_user_answered set_user_active_answered create_role_answered
  update_role_answered assign_role_answered remove_role_answered

text \<open>
  C26. The checks of the role administration cover the constraints of its tables. With
  consistent tables (unique emails and names, one link per pair, no link to a missing row),
  identifiers no row has yet, texts without NUL characters, a password hash that fits its column
  (bcrypt's have 60 characters) and administrators whose address fits the 120 characters of
  assigned_by, each of the eight writing endpoints, whatever the
  credentials, the body and the rows it names, answers with a value or an HTTPException and
  never with a database error: a taken email or role name, an unknown user, role or permission,
  a repeated assignment, permission ids listed twice, each is caught before the insert. The
  tables stay consistent.
\<close>

theorem rbac_requests_answered:
  assumes inv: "rbac_inv d" and ids: "fresh_ids ids d"
    and hash: "length (hash_password pf salt (ruc_password uc)) \<le> 255 \<and> text_ok (hash_password pf salt (ruc_password uc))"
    and texts: "request_texts_ok uc uu rc ru"
    and emails: "\<forall>u \<in> set (users d). u_is_admin u \<longrightarrow> text_ok (u_email u) \<and> length (u_email u) \<le> 120"
  shows "(let (r, d') = run_request (create_new_user pf st now salt ids now' uc cred) d in answered r \<and> rbac_inv d')
    \<and> (let (r, d') = run_request (patch_user pf st now uid uu cred) d in answered r \<and> rbac_inv d')
    \<and> (let (r, d') = run_request (activate_user pf st now uid cred) d in answered r \<and> rbac_inv d')
    \<and> (let (r, d') = run_request (deactivate_user pf st now uid cred) d in answered r \<and> rbac_inv d')
    \<and> (let (r, d') = run_request (create_new_role pf st now ids now' rc cred) d in answered r \<and> rbac_inv d')
    \<and> (let (r, d') = run_request (patch_role pf st now ids rid ru cred) d in answered r \<and> rbac_inv d')
    \<and> (let (r, d') = run_request (assign_role_to_user pf st now ids uid rid cred) d in answered r \<and> rbac_inv d')
    \<and> (let (r, d') = run_request (remove_role_from_user pf st now uid rid cred) d in answered r \<and> rbac_inv d')"
proof -
  note guards = answered_and_kept [OF inv] answers_admin answers_validated keeps_admin keeps_validated
  note t = texts [unfolded request_texts_ok_def]
  show ?thesis
    unfolding create_new_user_def patch_user_def activate_user_def deactivate_user_def create_new_role_def
      patch_role_def assign_role_to_user_def remove_role_from_user_def
    by (intro conjI guards keeps_rbac_users keeps_rbac_others keeps_role_update answered_services inv ids)
       (use t ids emails hash in \<open>auto simp: fresh_ids_def text_fits_opt_def fits_opt_def fits_def\<close>)
qed

text \<open>Creating an account with the address of an existing one is answered with 409.\<close>

theorem rbac_requests_answered_witness:
  "fst (run_request (create_new_user demo_platform demo_settings 0 3 demo_ids 9
        (demo_user_create\<lparr>ruc_email := ''admin@nexus''\<rparr>)
        (Some (create_access_token demo_platform demo_settings 0 0 ''1'' []))) demo_rbac_db)
     = Inl (HTTPException 409 ''A user with this email already exists'')
   \<and> answered (fst (run_request (create_new_user demo_platform demo_settings 0 3 demo_ids 9
        (demo_user_create\<lparr>ruc_email := ''admin@nexus''\<rparr>)
        (Some (create_access_token demo_platform demo_settings 0 0 ''1'' []))) demo_rbac_db))
   \<and> (\<exists>out. fst (run_request (create_new_user demo_platform demo_settings 0 3 demo_ids 9 demo_user_create
        (Some (create_access_token demo_platform demo_settings 0 0 ''1'' []))) demo_rbac_db) = Inr out)"
proof -
  let ?cred = "Some (create_access_token demo_platform demo_settings 0 0 ''1'' [])"
  let ?uc = "demo_user_create\<lparr>ruc_email := ''admin@nexus''\<rparr>"
  let ?rc = "\<lparr>rc_name = ''ops'', rc_description = None, rc_permission_ids = []\<rparr>"
  let ?uu = "\<lparr>ruu_display_name = None, ruu_is_admin = None\<rparr>"
  have "fst (run_request (create_new_user demo_platform demo_settings 0 3 demo_ids 9 ?uc ?cred) demo_rbac_db)
      = Inl (HTTPException 409 ''A user with this email already exists'')"
    by code_simp
  moreover have "\<not> isl (fst (run_request (create_new_user demo_platform demo_settings 0 3 demo_ids 9 demo_user_create ?cred) demo_rbac_db))"
    by code_simp
  then have "\<exists>out. fst (run_request (create_new_user demo_platform demo_settings 0 3 demo_ids 9 demo_user_create ?cred) demo_rbac_db) = Inr out"
    by (metis isl_def sum.exhaust)
  moreover have "request_texts_ok ?uc ?uu ?rc demo_role_update" by code_simp
  moreover have "fresh_ids demo_ids demo_rbac_db"
    by (simp add: fresh_ids_def demo_ids_def demo_rbac_db_def demo_auth_db_def demo_user_def auth_db.defs rbac_db.defs inj_def)
  moreover have "\<forall>u \<in> set (users demo_rbac_db). u_is_admin u \<longrightarrow> text_ok (u_email u) \<and> length (u_email u) \<le> 120"
    by code_simp
  moreover have "length (hash_password demo_platform 3 (ruc_password ?uc)) \<le> 255
      \<and> text_ok (hash_password demo_platform 3 (ruc_password ?uc))"
    by code_simp
  ultimately show ?thesis
    using rbac_requests_answered [OF demo_rbac_inv, where ids = demo_ids and pf = demo_platform and uc = ?uc and uu = ?uu
        and rc = ?rc and ru = demo_role_update and st = demo_settings and now = 0 and salt = 3 and now' = 9
        and cred = ?cred] by (simp add: split_beta)
qed

text \<open>
  Why the address of the administrator is bounded: accounts take addresses of up to 255
  characters, \<^verbatim>\<open>assigned_by\<close> takes 120, so an administrator with a longer address cannot
  assign a role; the request ends with the database's error and changes nothing.
\<close>

theorem long_address_cannot_assign:
  assumes "fst (run_request (get_current_user pf st now cred) d) = Inr u" and "u_is_admin u" and "120 < length (u_email u)"
    and "uid \<in> u_id ` set (users d)" and "rid \<in> r_id ` set (roles d)"
    and "rbac_inv d" and "(uid, rid) \<notin> (\<lambda>l. (ur_user_id l, ur_role_id l)) ` set (user_roles d)"
  shows "run_request (assign_role_to_user pf st now ids uid rid cred) d = (Inl (DataError ''user_roles''), d)"
proof -
  obtain v r where "get_row u_id uid (users d) = Some v" "get_row r_id rid (roles d) = Some r"
    using assms(4,5) get_row_None [of u_id uid "users d"] get_row_None [of r_id rid "roles d"] by auto
  moreover have "find (\<lambda>l. (ur_user_id l, ur_role_id l) = (uid, rid)) (user_roles d) = None"
    using assms(7) by (auto simp: find_None_iff image_iff)
  ultimately show ?thesis
    unfolding assign_role_to_user_def admin_guard_run assms(1) using assms(2,3)
    by (simp add: assign_role_def get_user_orm_def get_role_orm_def svc_simps assignment_of_find [OF assms(6)]
        insert_user_role_def text_fits_opt_def fits_opt_def fits_def)
qed

end
