(* ===== verification/HsmModels.thy ===== *)
theory HsmModels
  imports Transactions
begin

text \<open>
  The tables of \<^verbatim>\<open>src/app/models/hsm.py\<close> with the computed properties of the model classes, and
  the schemas of \<^verbatim>\<open>src/app/schemas/hsm.py\<close>. \<^verbatim>\<open>Float\<close> columns hold rational numbers; arithmetic on
  doubles is the parameter \<open>fl\<close>, with the product that percentages need beside the operations
  of \<open>floats\<close>. The attestation checks, which the column stores as JSON objects with four fixed
  keys, are records.
\<close>

section \<open>models/hsm.py\<close>

record hsm_floats = floats +
  fl_mul :: "rat \<Rightarrow> rat \<Rightarrow> rat"

datatype SlotPurpose = PRIMARY | SIGNING | TENANT_DEK | STANDBY

fun SlotPurpose_value :: "SlotPurpose \<Rightarrow> string" where
  "SlotPurpose_value SlotPurpose.PRIMARY = ''primary''"
| "SlotPurpose_value SlotPurpose.SIGNING = ''signing''"
| "SlotPurpose_value SlotPurpose.TENANT_DEK = ''tenant_dek''"
| "SlotPurpose_value SlotPurpose.STANDBY = ''standby''"

record HsmSlot =
  hs_id :: uuid
  hs_slot_number :: int
  hs_label :: string
  hs_purpose :: SlotPurpose
  hs_is_active :: bool
  hs_object_count :: int
  hs_capacity_max_objects :: int
  hs_ops_per_second :: rat
  hs_token_flags :: string

text \<open>\<^verbatim>\<open>round(min(100.0, part / whole * 100), 1)\<close>, or 0 when the whole is not positive.\<close>

definition percent1 :: "'f hsm_floats_scheme \<Rightarrow> int \<Rightarrow> int \<Rightarrow> rat" where
  "percent1 fl part whole =
     (if whole \<le> 0 then 0
      else fl_round1 fl (min 100 (fl_mul fl (fl_div fl (of_int part) (of_int whole)) 100)))"

definition capacity_percent :: "'f hsm_floats_scheme \<Rightarrow> HsmSlot \<Rightarrow> rat" where
  "capacity_percent fl s = percent1 fl (hs_object_count s) (hs_capacity_max_objects s)"

datatype MasterKeyStatus = ACTIVE | EXPIRING | RETIRED | PENDING | DISABLED

fun MasterKeyStatus_value :: "MasterKeyStatus \<Rightarrow> string" where
  "MasterKeyStatus_value MasterKeyStatus.ACTIVE = ''active''"
| "MasterKeyStatus_value MasterKeyStatus.EXPIRING = ''expiring''"
| "MasterKeyStatus_value MasterKeyStatus.RETIRED = ''retired''"
| "MasterKeyStatus_value MasterKeyStatus.PENDING = ''pending''"
| "MasterKeyStatus_value MasterKeyStatus.DISABLED = ''disabled''"

record MasterKey =
  mk_id :: uuid
  mk_key_label :: string
  mk_slot_id :: "uuid option"
  mk_hsm_object_id :: "string option"
  mk_algorithm :: string
  mk_status :: MasterKeyStatus
  mk_rotation_policy_days :: int
  mk_activated_at :: "datetime option"
  mk_expires_at :: "datetime option"
  mk_retired_at :: "datetime option"
  mk_superseded_by_id :: "uuid option"
  mk_wraps_dek_count :: int
  mk_throughput_ops :: rat
  mk_created_at :: datetime

datatype CeremonyStatus = PENDING | COMPLETE | ABORTED

fun CeremonyStatus_value :: "CeremonyStatus \<Rightarrow> string" where
  "CeremonyStatus_value CeremonyStatus.PENDING = ''pending''"
| "CeremonyStatus_value CeremonyStatus.COMPLETE = ''complete''"
| "CeremonyStatus_value CeremonyStatus.ABORTED = ''aborted''"

record KeyCeremony =
  kc_id :: uuid
  kc_ceremony_ref :: string
  kc_master_key_id :: uuid
  kc_predecessor_label :: "string option"
  kc_required_approvals :: int
  kc_status :: CeremonyStatus
  kc_scheduled_at :: "datetime option"
  kc_completed_at :: "datetime option"
  kc_created_at :: datetime

record KeyCustodianApproval =
  kca_id :: uuid
  kca_ceremony_id :: uuid
  kca_custodian_email :: string
  kca_approved_at :: "datetime option"

text \<open>The two properties of a ceremony, of the approvals its relationship loads.\<close>

definition approval_count :: "KeyCustodianApproval list \<Rightarrow> int" where
  "approval_count approvals = int (length (filter (\<lambda>a. kca_approved_at a \<noteq> None) approvals))"

definition quorum_met :: "KeyCeremony \<Rightarrow> KeyCustodianApproval list \<Rightarrow> bool" where
  "quorum_met c approvals \<longleftrightarrow> kc_required_approvals c \<le> approval_count approvals"

datatype CertificateType = TLS_SERVER | CODE_SIGN | OIDC_JWT | MUTUAL_TLS | ROOT_CA | ATTESTATION

fun CertificateType_value :: "CertificateType \<Rightarrow> string" where
  "CertificateType_value CertificateType.TLS_SERVER = ''tls_server''"
| "CertificateType_value CertificateType.CODE_SIGN = ''code_sign''"
| "CertificateType_value CertificateType.OIDC_JWT = ''oidc_jwt''"
| "CertificateType_value CertificateType.MUTUAL_TLS = ''mutual_tls''"
| "CertificateType_value CertificateType.ROOT_CA = ''root_ca''"
| "CertificateType_value CertificateType.ATTESTATION = ''attestation''"

record Certificate =
  ce_id :: uuid
  ce_common_name :: string
  ce_cert_type :: CertificateType
  ce_key_algorithm :: string
  ce_signature_algorithm :: string
  ce_issued_at :: datetime
  ce_expires_at :: datetime
  ce_auto_renew :: bool

definition days_left :: "Certificate \<Rightarrow> datetime \<Rightarrow> int" where
  "days_left c now = max 0 (days_of (ce_expires_at c - now))"

record CryptoAlgorithm =
  ca_id :: uuid
  ca_name :: string
  ca_purpose_label :: string
  ca_is_active :: bool
  ca_is_deprecated :: bool
  ca_deprecated_at :: "datetime option"
  ca_ops_per_second :: rat
  ca_detail_json :: json

record AttestationCheckResult =
  ac_key :: string
  ac_label :: string
  ac_passed :: bool
  ac_detail :: string

record AttestationRun =
  ar_id :: uuid
  ar_ran_at :: datetime
  ar_checks :: "AttestationCheckResult list"
  ar_all_passed :: bool

datatype SecurityProviderType = PKCS11 | CLOUD_KMS | SOFTWARE

fun SecurityProviderType_value :: "SecurityProviderType \<Rightarrow> string" where
  "SecurityProviderType_value SecurityProviderType.PKCS11 = ''pkcs11''"
| "SecurityProviderType_value SecurityProviderType.CLOUD_KMS = ''cloud_kms''"
| "SecurityProviderType_value SecurityProviderType.SOFTWARE = ''software''"

record SecurityProvider =
  sp_id :: uuid
  sp_name :: string
  sp_provider_type :: SecurityProviderType
  sp_model :: string
  sp_manufacturer :: string
  sp_library_path :: "string option"
  sp_firmware_version :: "string option"
  sp_serial_number :: "string option"
  sp_fips_level :: string
  sp_is_active :: bool
  sp_pool_active :: int
  sp_pool_max :: int
  sp_connection_timeout_seconds :: int
  sp_avg_latency_ms :: rat
  sp_session_count :: int
  sp_rw_session_count :: int
  sp_error_count_24h :: int
  sp_supported_mechanisms :: "string list"
  sp_last_health_check_at :: "datetime option"

definition pool_utilization_percent :: "'f hsm_floats_scheme \<Rightarrow> SecurityProvider \<Rightarrow> rat" where
  "pool_utilization_percent fl p = percent1 fl (sp_pool_active p) (sp_pool_max p)"

datatype SecurityOperationType = KEY_CREATE | KEY_ROTATE | KEY_DISABLE | ATTESTATION_RUN | CEREMONY_COMPLETE

fun SecurityOperationType_value :: "SecurityOperationType \<Rightarrow> string" where
  "SecurityOperationType_value SecurityOperationType.KEY_CREATE = ''key_create''"
| "SecurityOperationType_value SecurityOperationType.KEY_ROTATE = ''key_rotate''"
| "SecurityOperationType_value SecurityOperationType.KEY_DISABLE = ''key_disable''"
| "SecurityOperationType_value SecurityOperationType.ATTESTATION_RUN = ''attestation_run''"
| "SecurityOperationType_value SecurityOperationType.CEREMONY_COMPLETE = ''ceremony_complete''"

datatype SecurityOperationStatus = SUCCESS | FAILED

fun SecurityOperationStatus_value :: "SecurityOperationStatus \<Rightarrow> string" where
  "SecurityOperationStatus_value SecurityOperationStatus.SUCCESS = ''success''"
| "SecurityOperationStatus_value SecurityOperationStatus.FAILED = ''failed''"

record SecurityOperation =
  so_id :: uuid
  so_operation_type :: SecurityOperationType
  so_master_key_id :: "uuid option"
  so_key_label :: "string option"
  so_actor :: string
  so_status :: SecurityOperationStatus
  so_detail :: string
  so_occurred_at :: datetime

record hsm_db = config_db +
  hsm_slots :: "HsmSlot list"
  master_keys :: "MasterKey list"
  key_ceremonies :: "KeyCeremony list"
  key_custodian_approvals :: "KeyCustodianApproval list"
  certificates :: "Certificate list"
  crypto_algorithms :: "CryptoAlgorithm list"
  attestation_runs :: "AttestationRun list"
  security_providers :: "SecurityProvider list"
  security_operations :: "SecurityOperation list"

text \<open>What the database checks when a new row is flushed.\<close>

definition insert_master_key :: "MasterKey \<Rightarrow> 'z hsm_db_scheme \<Rightarrow> error + 'z hsm_db_scheme" where
  "insert_master_key k d =
     (if \<not> (text_fits_opt 80 (Some (mk_key_label k)) \<and> text_fits_opt 20 (mk_hsm_object_id k)
             \<and> text_fits_opt 40 (Some (mk_algorithm k)))
      then Inl (DataError ''master_keys'')
      else if mk_key_label k \<in> mk_key_label ` set (master_keys d) then Inl (IntegrityError ''master_keys.key_label'')
      else if \<not> (case mk_slot_id k of None \<Rightarrow> True | Some i \<Rightarrow> i \<in> hs_id ` set (hsm_slots d))
      then Inl (IntegrityError ''master_keys.slot_id'')
      else (case insert_row mk_id k (master_keys d) of
              Inl e \<Rightarrow> Inl e
            | Inr ks \<Rightarrow> Inr (d\<lparr>master_keys := ks\<rparr>)))"

definition insert_key_ceremony :: "KeyCeremony \<Rightarrow> 'z hsm_db_scheme \<Rightarrow> error + 'z hsm_db_scheme" where
  "insert_key_ceremony c d =
     (if \<not> (text_fits_opt 40 (Some (kc_ceremony_ref c)) \<and> text_fits_opt 80 (kc_predecessor_label c))
      then Inl (DataError ''key_ceremonies'')
      else if kc_ceremony_ref c \<in> kc_ceremony_ref ` set (key_ceremonies d)
      then Inl (IntegrityError ''key_ceremonies.ceremony_ref'')
      else if kc_master_key_id c \<notin> mk_id ` set (master_keys d) then Inl (IntegrityError ''key_ceremonies.master_key_id'')
      else (case insert_row kc_id c (key_ceremonies d) of
              Inl e \<Rightarrow> Inl e
            | Inr cs \<Rightarrow> Inr (d\<lparr>key_ceremonies := cs\<rparr>)))"

definition insert_custodian_approval :: "KeyCustodianApproval \<Rightarrow> 'z hsm_db_scheme \<Rightarrow> error + 'z hsm_db_scheme" where
  "insert_custodian_approval a d =
     (if \<not> text_fits_opt 120 (Some (kca_custodian_email a)) then Inl (DataError ''key_custodian_approvals'')
      else if kca_ceremony_id a \<notin> kc_id ` set (key_ceremonies d)
      then Inl (IntegrityError ''key_custodian_approvals.ceremony_id'')
      else (case insert_row kca_id a (key_custodian_approvals d) of
              Inl e \<Rightarrow> Inl e
            | Inr xs \<Rightarrow> Inr (d\<lparr>key_custodian_approvals := xs\<rparr>)))"

definition insert_attestation_run :: "AttestationRun \<Rightarrow> 'z hsm_db_scheme \<Rightarrow> error + 'z hsm_db_scheme" where
  "insert_attestation_run r d =
     (case insert_row ar_id r (attestation_runs d) of
        Inl e \<Rightarrow> Inl e
      | Inr rs \<Rightarrow> Inr (d\<lparr>attestation_runs := rs\<rparr>))"

definition insert_security_operation :: "SecurityOperation \<Rightarrow> 'z hsm_db_scheme \<Rightarrow> error + 'z hsm_db_scheme" where
  "insert_security_operation p d =
     (if \<not> (text_fits_opt 80 (so_key_label p) \<and> text_fits_opt 120 (Some (so_actor p)) \<and> text_fits_opt 300 (Some (so_detail p)))
      then Inl (DataError ''security_operations'')
      else if \<not> (case so_master_key_id p of None \<Rightarrow> True | Some i \<Rightarrow> i \<in> mk_id ` set (master_keys d))
      then Inl (IntegrityError ''security_operations.master_key_id'')
      else (case insert_row so_id p (security_operations d) of
              Inl e \<Rightarrow> Inl e
            | Inr ps \<Rightarrow> Inr (d\<lparr>security_operations := ps\<rparr>)))"

section \<open>schemas/hsm.py\<close>

record HsmSlotRead =
  hsr_id :: uuid
  hsr_slot_number :: int
  hsr_label :: string
  hsr_purpose :: string
  hsr_is_active :: bool
  hsr_object_count :: int
  hsr_capacity_max_objects :: int
  hsr_capacity_percent :: rat
  hsr_ops_per_second :: rat
  hsr_token_flags :: string

record MasterKeyRead =
  mkr_id :: uuid
  mkr_key_label :: string
  mkr_slot_label :: "string option"
  mkr_algorithm :: string
  mkr_status :: string
  mkr_effective_status :: string
  mkr_rotation_policy_days :: int
  mkr_rotation_percent :: rat
  mkr_activated_at :: "datetime option"
  mkr_expires_at :: "datetime option"
  mkr_days_until_rotation :: "int option"
  mkr_wraps_dek_count :: int
  mkr_throughput_ops :: rat

record CustodianApprovalRead =
  car_custodian_email :: string
  car_approved_at :: "datetime option"

record KeyCeremonyRead =
  kcr_id :: uuid
  kcr_ceremony_ref :: string
  kcr_master_key_label :: string
  kcr_predecessor_label :: "string option"
  kcr_required_approvals :: int
  kcr_approval_count :: int
  kcr_quorum_met :: bool
  kcr_status :: string
  kcr_scheduled_at :: "datetime option"
  kcr_completed_at :: "datetime option"
  kcr_approvals :: "CustodianApprovalRead list"

record KeyCeremonyCreate =
  kcc_master_key_id :: uuid
  kcc_predecessor_key_id :: "uuid option"
  kcc_required_approvals :: int
  kcc_scheduled_at :: "query_time option"

text \<open>The validator refuses a time without an offset.\<close>

definition scheduled_at_must_be_timezone_aware :: "query_time option \<Rightarrow> bool" where
  "scheduled_at_must_be_timezone_aware value \<longleftrightarrow> (case value of Some (_, None) \<Rightarrow> False | _ \<Rightarrow> True)"

definition valid_KeyCeremonyCreate :: "KeyCeremonyCreate \<Rightarrow> bool" where
  "valid_KeyCeremonyCreate p \<longleftrightarrow> 1 \<le> kcc_required_approvals p \<and> kcc_required_approvals p \<le> 10
     \<and> scheduled_at_must_be_timezone_aware (kcc_scheduled_at p)"

record CertificateRead =
  crt_id :: uuid
  crt_common_name :: string
  crt_cert_type :: string
  crt_key_algorithm :: string
  crt_signature_algorithm :: string
  crt_issued_at :: datetime
  crt_expires_at :: datetime
  crt_days_left :: int
  crt_status :: string
  crt_auto_renew :: bool

record AttestationRunRead =
  arr_id :: uuid
  arr_ran_at :: datetime
  arr_all_passed :: bool
  arr_pass_count :: int
  arr_total_checks :: int
  arr_checks :: "AttestationCheckResult list"

record AttestationHistoryPoint =
  ahp_ran_at :: datetime
  ahp_all_passed :: bool

record HsmOverview =
  hov_module_serial :: string
  hov_slots :: "HsmSlotRead list"
  hov_master_keys :: "MasterKeyRead list"
  hov_ceremonies :: "KeyCeremonyRead list"
  hov_certificates :: "CertificateRead list"
  hov_algorithms :: "CryptoAlgorithm list"
  hov_latest_attestation :: "AttestationRunRead option"
  hov_attestation_history :: "AttestationHistoryPoint list"

record MasterKeyCreate =
  mkc_key_label :: string
  mkc_algorithm :: string
  mkc_slot_id :: "uuid option"
  mkc_rotation_policy_days :: int

definition valid_MasterKeyCreate :: "MasterKeyCreate \<Rightarrow> bool" where
  "valid_MasterKeyCreate p \<longleftrightarrow> len_in 3 80 (mkc_key_label p) \<and> len_in 2 40 (mkc_algorithm p)
     \<and> 1 \<le> mkc_rotation_policy_days p \<and> mkc_rotation_policy_days p \<le> 3650"

text \<open>The body of a rotation is one optional label.\<close>

definition valid_MasterKeyRotateRequest :: "string option \<Rightarrow> bool" where
  "valid_MasterKeyRotateRequest new_label \<longleftrightarrow> len_in_opt 3 80 new_label"

record SecurityProviderRead =
  spr_id :: uuid
  spr_name :: string
  spr_provider_type :: string
  spr_model :: string
  spr_manufacturer :: string
  spr_library_path :: "string option"
  spr_firmware_version :: "string option"
  spr_serial_number :: "string option"
  spr_fips_level :: string
  spr_is_active :: bool
  spr_status :: string
  spr_pool_active :: int
  spr_pool_max :: int
  spr_pool_utilization_percent :: rat
  spr_connection_timeout_seconds :: int
  spr_avg_latency_ms :: rat
  spr_session_count :: int
  spr_rw_session_count :: int
  spr_error_count_24h :: int
  spr_supported_mechanisms :: "string list"
  spr_last_health_check_at :: "datetime option"

record SecurityOperationRead =
  sor_id :: uuid
  sor_operation_type :: string
  sor_master_key_id :: "uuid option"
  sor_key_label :: "string option"
  sor_actor :: string
  sor_status :: string
  sor_detail :: string
  sor_occurred_at :: datetime

record SecuritySummary =
  ssm_module_serial :: string
  ssm_overall_status :: string
  ssm_provider_count :: int
  ssm_active_provider_count :: int
  ssm_total_keys :: int
  ssm_active_keys :: int
  ssm_expiring_keys :: int
  ssm_pending_keys :: int
  ssm_retired_keys :: int
  ssm_disabled_keys :: int
  ssm_key_ops_per_second :: rat
  ssm_slot_count :: int
  ssm_active_slots :: int
  ssm_near_capacity_slots :: int
  ssm_certificate_count :: int
  ssm_expiring_certificates :: int
  ssm_algorithm_count :: int
  ssm_deprecated_algorithm_count :: int
  ssm_pending_ceremonies :: int
  ssm_next_rotation_days :: "int option"
  ssm_latest_attestation_passed :: "bool option"
  ssm_attestation_pass_rate :: rat

record SecurityHealthCheck =
  shc_key :: string
  shc_label :: string
  shc_passed :: bool
  shc_detail :: string

record SecurityProviderHealth =
  sph_name :: string
  sph_status :: string
  sph_detail :: string

record SecurityHealth =
  shl_overall_status :: string
  shl_checked_at :: datetime
  shl_db_reachable :: bool
  shl_providers :: "SecurityProviderHealth list"
  shl_checks :: "SecurityHealthCheck list"

end
