(* ===== verification/Hsm.thy ===== *)
theory Hsm
  imports HsmModels
begin

text \<open>
  Master keys, custodian ceremonies, attestation and the security posture:
  \<^verbatim>\<open>src/app/services/hsm_service.py\<close> and \<^verbatim>\<open>src/app/api/v1/endpoints/hsm.py\<close>. The clock readings and the
  identifiers of a request are its arguments. The em dash, which has no code point below 256, is
  written with its code in the Windows-1252 page.
\<close>

section \<open>services/hsm\_service.py\<close>

definition EXPIRING_WITHIN_DAYS :: int where
  "EXPIRING_WITHIN_DAYS = 30"

definition NEAR_CAPACITY_PERCENT :: rat where
  "NEAR_CAPACITY_PERCENT = 85"

definition CAPACITY_CRITICAL_PERCENT :: rat where
  "CAPACITY_CRITICAL_PERCENT = 95"

definition PROVIDER_STALE_AFTER_SECONDS :: int where
  "PROVIDER_STALE_AFTER_SECONDS = 3600"

definition effective_key_status :: "MasterKey \<Rightarrow> datetime \<Rightarrow> string" where
  "effective_key_status key now =
     (if mk_status key \<in> {MasterKeyStatus.RETIRED, MasterKeyStatus.PENDING, MasterKeyStatus.DISABLED}
      then MasterKeyStatus_value (mk_status key)
      else case mk_expires_at key of
             Some t \<Rightarrow> if days_of (t - now) \<le> EXPIRING_WITHIN_DAYS then MasterKeyStatus_value MasterKeyStatus.EXPIRING
                       else MasterKeyStatus_value MasterKeyStatus.ACTIVE
           | None \<Rightarrow> MasterKeyStatus_value MasterKeyStatus.ACTIVE)"

definition total_seconds :: "'f hsm_floats_scheme \<Rightarrow> timedelta \<Rightarrow> rat" where
  "total_seconds fl t = fl_div fl (of_int t) 1000000"

definition rotation_percent :: "'f hsm_floats_scheme \<Rightarrow> MasterKey \<Rightarrow> datetime \<Rightarrow> rat" where
  "rotation_percent fl key now =
     (case (mk_activated_at key, mk_expires_at key) of
        (Some a, Some e) \<Rightarrow>
          if e - a \<le> 0 then 100
          else fl_round1 fl (min 100 (max 0
                 (fl_mul fl (fl_div fl (total_seconds fl (now - a)) (total_seconds fl (e - a))) 100)))
      | _ \<Rightarrow> 0)"

definition certificate_status :: "Certificate \<Rightarrow> datetime \<Rightarrow> string" where
  "certificate_status cert now =
     (if ce_expires_at cert \<le> now then ''expired''
      else if days_of (ce_expires_at cert - now) \<le> EXPIRING_WITHIN_DAYS then ''expiring'' else ''valid'')"

text \<open>The relationships of a ceremony: its approvals and its key.\<close>

definition approvals_of :: "'z hsm_db_scheme \<Rightarrow> uuid \<Rightarrow> KeyCustodianApproval list" where
  "approvals_of d ceremony_id = filter (\<lambda>a. kca_ceremony_id a = ceremony_id) (key_custodian_approvals d)"

definition ceremony_to_read :: "'z hsm_db_scheme \<Rightarrow> KeyCeremony \<Rightarrow> error + KeyCeremonyRead" where
  "ceremony_to_read d c =
     (case get_row mk_id (kc_master_key_id c) (master_keys d) of
        None \<Rightarrow> Inl (AttributeError ''key_label'')
      | Some k \<Rightarrow> Inr
          \<lparr>kcr_id = kc_id c, kcr_ceremony_ref = kc_ceremony_ref c, kcr_master_key_label = mk_key_label k,
           kcr_predecessor_label = kc_predecessor_label c, kcr_required_approvals = kc_required_approvals c,
           kcr_approval_count = approval_count (approvals_of d (kc_id c)),
           kcr_quorum_met = quorum_met c (approvals_of d (kc_id c)), kcr_status = CeremonyStatus_value (kc_status c),
           kcr_scheduled_at = kc_scheduled_at c, kcr_completed_at = kc_completed_at c,
           kcr_approvals = map (\<lambda>a. \<lparr>car_custodian_email = kca_custodian_email a, car_approved_at = kca_approved_at a\<rparr>)
             (approvals_of d (kc_id c))\<rparr>)"

definition slot_reads :: "'f hsm_floats_scheme \<Rightarrow> 'z hsm_db_scheme \<Rightarrow> HsmSlotRead list" where
  "slot_reads fl d = map (\<lambda>s.
     \<lparr>hsr_id = hs_id s, hsr_slot_number = hs_slot_number s, hsr_label = hs_label s, hsr_purpose = SlotPurpose_value (hs_purpose s),
      hsr_is_active = hs_is_active s, hsr_object_count = hs_object_count s, hsr_capacity_max_objects = hs_capacity_max_objects s,
      hsr_capacity_percent = capacity_percent fl s, hsr_ops_per_second = hs_ops_per_second s, hsr_token_flags = hs_token_flags s\<rparr>)
     (sort_key hs_slot_number (hsm_slots d))"

definition master_key_to_read :: "'f hsm_floats_scheme \<Rightarrow> 'z hsm_db_scheme \<Rightarrow> MasterKey \<Rightarrow> datetime \<Rightarrow> MasterKeyRead" where
  "master_key_to_read fl d k now =
     \<lparr>mkr_id = mk_id k, mkr_key_label = mk_key_label k,
      mkr_slot_label = (case mk_slot_id k of
         None \<Rightarrow> None | Some i \<Rightarrow> map_option hs_label (get_row hs_id i (hsm_slots d))),
      mkr_algorithm = mk_algorithm k, mkr_status = MasterKeyStatus_value (mk_status k),
      mkr_effective_status = effective_key_status k now, mkr_rotation_policy_days = mk_rotation_policy_days k,
      mkr_rotation_percent = rotation_percent fl k now, mkr_activated_at = mk_activated_at k, mkr_expires_at = mk_expires_at k,
      mkr_days_until_rotation = map_option (\<lambda>t. days_of (t - now)) (mk_expires_at k),
      mkr_wraps_dek_count = mk_wraps_dek_count k, mkr_throughput_ops = mk_throughput_ops k\<rparr>"

definition master_key_reads :: "'f hsm_floats_scheme \<Rightarrow> datetime \<Rightarrow> 'z hsm_db_scheme \<Rightarrow> MasterKeyRead list" where
  "master_key_reads fl now d = map (\<lambda>k. master_key_to_read fl d k now) (order_by_desc mk_created_at (master_keys d))"

definition ceremony_reads :: "'z hsm_db_scheme \<Rightarrow> error + KeyCeremonyRead list" where
  "ceremony_reads d = map_e (ceremony_to_read d) (order_by_desc kc_created_at (key_ceremonies d))"

text \<open>\<open>now'\<close> is the reading of the \<^verbatim>\<open>days_left\<close> property, which takes its own.\<close>

definition certificate_reads :: "datetime \<Rightarrow> (uuid \<Rightarrow> datetime) \<Rightarrow> 'z hsm_db_scheme \<Rightarrow> CertificateRead list" where
  "certificate_reads now now' d = map (\<lambda>c.
     \<lparr>crt_id = ce_id c, crt_common_name = ce_common_name c, crt_cert_type = CertificateType_value (ce_cert_type c),
      crt_key_algorithm = ce_key_algorithm c, crt_signature_algorithm = ce_signature_algorithm c, crt_issued_at = ce_issued_at c,
      crt_expires_at = ce_expires_at c, crt_days_left = days_left c (now' (ce_id c)), crt_status = certificate_status c now,
      crt_auto_renew = ce_auto_renew c\<rparr>) (sort_key ce_expires_at (certificates d))"

text \<open>The schema of an algorithm has the fields of its row.\<close>

definition algorithm_reads :: "'z hsm_db_scheme \<Rightarrow> CryptoAlgorithm list" where
  "algorithm_reads d = sort_key ca_is_deprecated (sort_key ca_name (crypto_algorithms d))"

definition attestation_run_to_read :: "AttestationRun \<Rightarrow> AttestationRunRead" where
  "attestation_run_to_read r =
     \<lparr>arr_id = ar_id r, arr_ran_at = ar_ran_at r, arr_all_passed = ar_all_passed r,
      arr_pass_count = int (length (filter ac_passed (ar_checks r))), arr_total_checks = int (length (ar_checks r)),
      arr_checks = ar_checks r\<rparr>"

definition get_hsm_overview ::
  "'f hsm_floats_scheme \<Rightarrow> datetime \<Rightarrow> datetime \<Rightarrow> datetime \<Rightarrow> (uuid \<Rightarrow> datetime) \<Rightarrow> string \<Rightarrow> ('z hsm_db_scheme, HsmOverview) svc" where
  "get_hsm_overview fl now now_keys now_certs now_left module_serial =
     bind_svc (query (\<lambda>d. take 7 (order_by_desc ar_ran_at
       (filter (\<lambda>r. now - timedelta_days 2 \<le> ar_ran_at r) (attestation_runs d)))))
     (\<lambda>history. bind_svc (query_e ceremony_reads)
     (\<lambda>ceremonies. query (\<lambda>d.
        \<lparr>hov_module_serial = module_serial, hov_slots = slot_reads fl d, hov_master_keys = master_key_reads fl now_keys d,
         hov_ceremonies = ceremonies, hov_certificates = certificate_reads now_certs now_left d,
         hov_algorithms = algorithm_reads d, hov_latest_attestation = map_option attestation_run_to_read (first_row history),
         hov_attestation_history = map (\<lambda>r. \<lparr>ahp_ran_at = ar_ran_at r, ahp_all_passed = ar_all_passed r\<rparr>) (rev history)\<rparr>)))"

definition get_key_orm :: "uuid \<Rightarrow> ('z hsm_db_scheme, MasterKey) svc" where
  "get_key_orm key_id =
     bind_svc (query_e (\<lambda>d. scalar_one_or_none (filter (\<lambda>k. mk_id k = key_id) (master_keys d))))
     (\<lambda>key. case key of
        None \<Rightarrow> raise_svc (HTTPException 404 ''Key not found'')
      | Some key \<Rightarrow> return_svc key)"

text \<open>An entry of type \<^verbatim>\<open>key_operation\<close>, and the times of \<^verbatim>\<open>strftime('%Y%m%d')\<close>.\<close>

definition key_operation_entry :: "string \<Rightarrow> string \<Rightarrow> string \<Rightarrow> string \<Rightarrow> json \<Rightarrow> AuditLogEntryCreate" where
  "key_operation_entry severity subtype actor description metadata =
     \<lparr>alc_severity = severity, alc_event_type = ''key_operation'', alc_event_subtype = subtype, alc_actor = actor,
      alc_description = description, alc_tenant_id = None, alc_tenant_slug = None, alc_source_ip = None,
      alc_metadata_json = metadata\<rparr>"

definition strftime_ymd :: "datetime \<Rightarrow> string" where
  "strftime_ymd t = (case ord2ymd (t div 86400000000 + 719162) of (y, m, d) \<Rightarrow> show_int y @ pad 2 (nat m) @ pad 2 (nat d))"

definition json_opt_text :: "string option \<Rightarrow> json" where
  "json_opt_text s = (case s of None \<Rightarrow> JNull | Some x \<Rightarrow> JStr x)"

text \<open>The predecessor a ceremony names: another key that is active or expiring.\<close>

definition ceremony_predecessor :: "KeyCeremonyCreate \<Rightarrow> ('z hsm_db_scheme, MasterKey option) svc" where
  "ceremony_predecessor payload =
     (case kcc_predecessor_key_id payload of
        None \<Rightarrow> return_svc None
      | Some p \<Rightarrow>
          if p = kcc_master_key_id payload
          then raise_svc (HTTPException 409 ''Predecessor key must be different from the pending key'')
          else bind_svc (get_key_orm p)
            (\<lambda>predecessor. if mk_status predecessor \<notin> {MasterKeyStatus.ACTIVE, MasterKeyStatus.EXPIRING}
               then raise_svc (HTTPException 409 (''Predecessor key must be active or expiring (key is ''
                      @ MasterKeyStatus_value (mk_status predecessor) @ '')''))
               else return_svc (Some predecessor)))"

definition new_ceremony ::
  "'p platform_scheme \<Rightarrow> uuid \<Rightarrow> uuid \<Rightarrow> datetime \<Rightarrow> datetime \<Rightarrow> KeyCeremonyCreate \<Rightarrow> MasterKey option \<Rightarrow> KeyCeremony" where
  "new_ceremony pf ceremony_id ref_id now created payload predecessor =
     \<lparr>kc_id = ceremony_id,
      kc_ceremony_ref = ''CER-'' @ strftime_ymd now @ ''-'' @ upper (take 8 (uuid_text pf ref_id)),
      kc_master_key_id = kcc_master_key_id payload, kc_predecessor_label = map_option mk_key_label predecessor,
      kc_required_approvals = kcc_required_approvals payload, kc_status = CeremonyStatus.PENDING,
      kc_scheduled_at = map_option (\<lambda>(wall, off). wall - (case off of None \<Rightarrow> 0 | Some o' \<Rightarrow> o')) (kcc_scheduled_at payload),
      kc_completed_at = None, kc_created_at = created\<rparr>"

definition create_ceremony ::
  "'p audit_platform_scheme \<Rightarrow> fresh \<Rightarrow> uuid \<Rightarrow> uuid \<Rightarrow> datetime \<Rightarrow> datetime \<Rightarrow> KeyCeremonyCreate \<Rightarrow> string \<Rightarrow>
   ('z hsm_db_scheme, KeyCeremony) svc" where
  "create_ceremony pf fr ceremony_id ref_id now created payload actor =
     bind_svc (get_key_orm (kcc_master_key_id payload))
     (\<lambda>target_key. if mk_status target_key \<noteq> MasterKeyStatus.PENDING
        then raise_svc (HTTPException 409 (''Ceremonies can only be initiated for pending keys (key is ''
               @ MasterKeyStatus_value (mk_status target_key) @ '')''))
        else
          bind_svc (ceremony_predecessor payload)
          (\<lambda>predecessor. bind_svc (query_e (\<lambda>d. scalar_one_or_none (filter (\<lambda>c. kc_master_key_id c = mk_id target_key
              \<and> kc_status c = CeremonyStatus.PENDING) (key_ceremonies d))))
          (\<lambda>duplicate. if duplicate \<noteq> None
             then raise_svc (HTTPException 409 ''A pending ceremony already exists for this key'')
             else
               let ceremony = new_ceremony pf ceremony_id ref_id now created payload predecessor in
               bind_svc (flush (insert_key_ceremony ceremony))
               (\<lambda>_. bind_svc (append_entry_in_transaction pf fr (key_operation_entry ''info'' ''KEY_CEREMONY_INITIATED'' actor
                  (''Initiated key ceremony '' @ kc_ceremony_ref ceremony @ '' for '' @ mk_key_label target_key)
                  (JDict [(''ceremony_ref'', JStr (kc_ceremony_ref ceremony)),
                          (''master_key_id'', JStr (uuid_text pf (mk_id target_key))),
                          (''master_key_label'', JStr (mk_key_label target_key)),
                          (''predecessor_label'', json_opt_text (kc_predecessor_label ceremony)),
                          (''required_approvals'', JInt (kc_required_approvals ceremony))])))
               (\<lambda>_. bind_svc commit (\<lambda>_. return_svc ceremony))))))"

definition get_ceremony :: "uuid \<Rightarrow> ('z hsm_db_scheme, KeyCeremony) svc" where
  "get_ceremony ceremony_id =
     bind_svc (query_e (\<lambda>d. scalar_one_or_none (filter (\<lambda>c. kc_id c = ceremony_id) (key_ceremonies d))))
     (\<lambda>found. case found of
        None \<Rightarrow> raise_svc (HTTPException 404 ''Ceremony not found'')
      | Some ceremony \<Rightarrow>
          if kc_status ceremony \<noteq> CeremonyStatus.PENDING
          then raise_svc (HTTPException 409 (''Ceremony is already '' @ CeremonyStatus_value (kc_status ceremony)))
          else return_svc ceremony)"

text \<open>The key a ceremony's relationship loads.\<close>

definition ceremony_key :: "KeyCeremony \<Rightarrow> ('z hsm_db_scheme, MasterKey) svc" where
  "ceremony_key ceremony =
     query_e (\<lambda>d. case get_row mk_id (kc_master_key_id ceremony) (master_keys d) of
        None \<Rightarrow> Inl (AttributeError ''master_key'')
      | Some k \<Rightarrow> Inr k)"

text \<open>
  The approval of a custodian: \<open>None\<close> when the custodian has approved before. A new row is added,
  a row without a time is completed.
\<close>

definition record_approval ::
  "uuid \<Rightarrow> datetime \<Rightarrow> uuid \<Rightarrow> string \<Rightarrow> KeyCustodianApproval option \<Rightarrow> ('z hsm_db_scheme, unit) svc" where
  "record_approval approval_id now ceremony_id custodian_email approval =
     (case approval of
        None \<Rightarrow> flush (insert_custodian_approval \<lparr>kca_id = approval_id, kca_ceremony_id = ceremony_id,
                  kca_custodian_email = custodian_email, kca_approved_at = Some now\<rparr>)
      | Some a \<Rightarrow> modify_db (key_custodian_approvals_update (update_where (\<lambda>x. kca_id x = kca_id a)
                  (\<lambda>x. x\<lparr>kca_approved_at := Some now\<rparr>))))"

definition approve_ceremony ::
  "'p audit_platform_scheme \<Rightarrow> fresh \<Rightarrow> uuid \<Rightarrow> datetime \<Rightarrow> uuid \<Rightarrow> string \<Rightarrow> ('z hsm_db_scheme, KeyCeremony) svc" where
  "approve_ceremony pf fr approval_id now ceremony_id custodian_email =
     bind_svc (get_ceremony ceremony_id)
     (\<lambda>ceremony. bind_svc (query (\<lambda>d. first_row (filter (\<lambda>a. kca_custodian_email a = custodian_email) (approvals_of d ceremony_id))))
     (\<lambda>approval.
        bind_svc
          (if (case approval of None \<Rightarrow> False | Some a \<Rightarrow> kca_approved_at a \<noteq> None) then return_svc ()
           else
             bind_svc (record_approval approval_id now ceremony_id custodian_email approval)
             (\<lambda>_. bind_svc (ceremony_key ceremony)
             (\<lambda>key. bind_svc (query (\<lambda>d. approval_count (approvals_of d ceremony_id)))
             (\<lambda>count. bind_svc (append_entry_in_transaction pf fr (key_operation_entry ''info'' ''KEY_CEREMONY_APPROVED'' custodian_email
                (''Approved key ceremony '' @ kc_ceremony_ref ceremony)
                (JDict [(''ceremony_ref'', JStr (kc_ceremony_ref ceremony)),
                        (''master_key_id'', JStr (uuid_text pf (kc_master_key_id ceremony))),
                        (''master_key_label'', JStr (mk_key_label key)),
                        (''approval_count'', JInt count),
                        (''required_approvals'', JInt (kc_required_approvals ceremony))])))
             (\<lambda>_. return_svc ())))))
        (\<lambda>_. bind_svc commit (\<lambda>_. return_svc ceremony))))"

definition record_operation ::
  "uuid \<Rightarrow> SecurityOperationType \<Rightarrow> MasterKey option \<Rightarrow> string \<Rightarrow> string \<Rightarrow> datetime \<Rightarrow> ('z hsm_db_scheme, unit) svc" where
  "record_operation op_id operation_type key actor detail occurred_at =
     flush (insert_security_operation
       \<lparr>so_id = op_id, so_operation_type = operation_type, so_master_key_id = map_option mk_id key,
        so_key_label = map_option mk_key_label key, so_actor = actor, so_status = SecurityOperationStatus.SUCCESS,
        so_detail = detail, so_occurred_at = occurred_at\<rparr>)"

definition update_master_key :: "uuid \<Rightarrow> (MasterKey \<Rightarrow> MasterKey) \<Rightarrow> 'z hsm_db_scheme \<Rightarrow> 'z hsm_db_scheme" where
  "update_master_key i f = master_keys_update (update_where (\<lambda>k. mk_id k = i) f)"

text \<open>Retiring the predecessor a completed ceremony names.\<close>

definition retire_predecessor :: "datetime \<Rightarrow> uuid \<Rightarrow> string option \<Rightarrow> ('z hsm_db_scheme, unit) svc" where
  "retire_predecessor now new_key_id predecessor_label =
     (case predecessor_label of
        None \<Rightarrow> return_svc ()
      | Some label \<Rightarrow>
          if label = [] then return_svc ()
          else bind_svc (query_e (\<lambda>d. scalar_one_or_none (filter (\<lambda>k. mk_key_label k = label) (master_keys d))))
            (\<lambda>predecessor. case predecessor of
               None \<Rightarrow> return_svc ()
             | Some p \<Rightarrow>
                 bind_svc (modify_db (update_master_key (mk_id p)
                   (\<lambda>k. k\<lparr>mk_status := MasterKeyStatus.RETIRED, mk_retired_at := Some now\<rparr>)))
                 (\<lambda>_. bind_svc (modify_db (update_master_key new_key_id (\<lambda>k. k\<lparr>mk_superseded_by_id := None\<rparr>)))
                 (\<lambda>_. modify_db (update_master_key (mk_id p) (\<lambda>k. k\<lparr>mk_superseded_by_id := Some new_key_id\<rparr>))))))"

definition complete_ceremony ::
  "'p audit_platform_scheme \<Rightarrow> fresh \<Rightarrow> uuid \<Rightarrow> datetime \<Rightarrow> uuid \<Rightarrow> string \<Rightarrow> ('z hsm_db_scheme, KeyCeremony) svc" where
  "complete_ceremony pf fr op_id now ceremony_id actor =
     bind_svc (get_ceremony ceremony_id)
     (\<lambda>ceremony. bind_svc (query (\<lambda>d. approvals_of d ceremony_id))
     (\<lambda>approvals. if \<not> quorum_met ceremony approvals
        then raise_svc (HTTPException 409 (''Quorum not met: '' @ show_int (approval_count approvals) @ ''/''
               @ show_int (kc_required_approvals ceremony) @ '' approved''))
        else
          bind_svc (ceremony_key ceremony)
          (\<lambda>new_key. bind_svc (modify_db (update_master_key (mk_id new_key) (\<lambda>k. k\<lparr>mk_status := MasterKeyStatus.ACTIVE,
              mk_activated_at := Some now, mk_expires_at := Some (now + timedelta_days (mk_rotation_policy_days new_key))\<rparr>)))
          (\<lambda>_. bind_svc (retire_predecessor now (mk_id new_key) (kc_predecessor_label ceremony))
          (\<lambda>_. bind_svc (modify_db (key_ceremonies_update (update_where (\<lambda>c. kc_id c = ceremony_id)
              (\<lambda>c. c\<lparr>kc_status := CeremonyStatus.COMPLETE, kc_completed_at := Some now\<rparr>))))
          (\<lambda>_. bind_svc (record_operation op_id SecurityOperationType.CEREMONY_COMPLETE (Some new_key) actor
              (''Completed ceremony '' @ kc_ceremony_ref ceremony) now)
          (\<lambda>_. bind_svc (append_entry_in_transaction pf fr (key_operation_entry ''info'' ''KEY_ROTATION_COMPLETE'' actor
              ((case kc_predecessor_label ceremony of Some l \<Rightarrow> if l = [] then ''new key'' else l | None \<Rightarrow> ''new key'')
                 @ '' -> '' @ mk_key_label new_key @ '' rotation completed via ceremony '' @ kc_ceremony_ref ceremony)
              (JDict [(''ceremony_ref'', JStr (kc_ceremony_ref ceremony)), (''new_key'', JStr (mk_key_label new_key)),
                      (''approvals'', JInt (approval_count approvals))])))
          (\<lambda>_. bind_svc commit
          (\<lambda>_. return_svc (ceremony\<lparr>kc_status := CeremonyStatus.COMPLETE, kc_completed_at := Some now\<rparr>))))))))))"

definition attestation_checks :: "AttestationCheckResult list" where
  "attestation_checks =
     [\<lparr>ac_key = ''fips_mode'', ac_label = ''FIPS Mode'', ac_passed = True, ac_detail = ''FIPS 140-3 Level 3''\<rparr>,
      \<lparr>ac_key = ''tamper_seal'', ac_label = ''Tamper Seal'', ac_passed = True, ac_detail = ''seal intact''\<rparr>,
      \<lparr>ac_key = ''firmware_hash'', ac_label = ''Firmware Hash'', ac_passed = True, ac_detail = ''sha256 verified''\<rparr>,
      \<lparr>ac_key = ''rng_quality'', ac_label = ''RNG Quality'', ac_passed = True, ac_detail = ''entropy 7.99 bits''\<rparr>,
      \<lparr>ac_key = ''key_zeroize'', ac_label = ''Key Zeroize'', ac_passed = True, ac_detail = ''zeroization test passed''\<rparr>,
      \<lparr>ac_key = ''self_test'', ac_label = ''Self-Test'', ac_passed = True, ac_detail = ''12/12 KATs passed''\<rparr>,
      \<lparr>ac_key = ''attest_chain'', ac_label = ''Attest Chain'', ac_passed = True, ac_detail = ''3-cert chain valid''\<rparr>]"

definition run_attestation ::
  "'p audit_platform_scheme \<Rightarrow> fresh \<Rightarrow> uuid \<Rightarrow> uuid \<Rightarrow> datetime \<Rightarrow> string \<Rightarrow> ('z hsm_db_scheme, AttestationRun) svc" where
  "run_attestation pf fr run_id op_id now actor =
     (let run = \<lparr>ar_id = run_id, ar_ran_at = now, ar_checks = attestation_checks,
                 ar_all_passed = list_all ac_passed attestation_checks\<rparr> in
      bind_svc (flush (insert_attestation_run run))
      (\<lambda>_. bind_svc (record_operation op_id SecurityOperationType.ATTESTATION_RUN None actor
          ''Executed hardware attestation checks'' now)
      (\<lambda>_. bind_svc (append_entry_in_transaction pf fr (key_operation_entry ''info'' ''HSM_ATTESTATION_RUN'' actor
          ''Executed HSM attestation checks''
          (JDict [(''attestation_run_id'', JStr (uuid_text pf run_id)), (''all_passed'', JBool (ar_all_passed run)),
                  (''check_count'', JInt (int (length attestation_checks)))])))
      (\<lambda>_. bind_svc commit (\<lambda>_. return_svc run)))))"

text \<open>
  The search for \<^verbatim>\<open>-v(\d+)$\<close>, from the left; \<^verbatim>\<open>$\<close> also matches before a final line break. Below 256 the
  decimal digits are those of ASCII.
\<close>

definition version_suffix :: "string \<Rightarrow> nat option" where
  "version_suffix s =
     (let digits = takeWhile is_ascii_digit (drop 2 s); rest = dropWhile is_ascii_digit (drop 2 s) in
      if take 2 s = ''-v'' \<and> digits \<noteq> [] \<and> (rest = [] \<or> rest = [CHR 0x0A]) then Some (read_nat 0 digits) else None)"

fun search_version :: "string \<Rightarrow> string \<Rightarrow> (string \<times> nat) option" where
  "search_version before [] = None"
| "search_version before (c # cs) =
     (case version_suffix (c # cs) of
        Some n \<Rightarrow> Some (before, n)
      | None \<Rightarrow> search_version (before @ [c]) cs)"

definition next_version_label :: "string \<Rightarrow> string" where
  "next_version_label label =
     (case search_version [] label of
        Some (before, n) \<Rightarrow> before @ ''-v'' @ show_nat (n + 1)
      | None \<Rightarrow> label @ ''-v2'')"

definition assert_label_available :: "string \<Rightarrow> ('z hsm_db_scheme, unit) svc" where
  "assert_label_available label =
     bind_svc (query_e (\<lambda>d. scalar_one_or_none (filter (\<lambda>k. mk_key_label k = label) (master_keys d))))
     (\<lambda>existing. if existing \<noteq> None
        then raise_svc (HTTPException 409 (''Key label '' @ quoted label @ '' already exists''))
        else return_svc ())"

definition list_keys ::
  "'f hsm_floats_scheme \<Rightarrow> datetime \<Rightarrow> MasterKeyStatus option \<Rightarrow> ('z hsm_db_scheme, MasterKeyRead list) svc" where
  "list_keys fl now key_status =
     query (\<lambda>d. map (\<lambda>k. master_key_to_read fl d k now) (order_by_desc mk_created_at
       (filter (\<lambda>k. case key_status of None \<Rightarrow> True | Some s \<Rightarrow> mk_status k = s) (master_keys d))))"

definition get_key :: "'f hsm_floats_scheme \<Rightarrow> datetime \<Rightarrow> uuid \<Rightarrow> ('z hsm_db_scheme, MasterKeyRead) svc" where
  "get_key fl now key_id = bind_svc (get_key_orm key_id) (\<lambda>k. query (\<lambda>d. master_key_to_read fl d k now))"

text \<open>
  The new key and the operation that refers to it are sent in one flush. Their classes have no
  \<^verbatim>\<open>relationship\<close>, so the unit of work does not order the two inserts: \<open>key_first\<close> is its choice.
\<close>

definition create_key ::
  "'p audit_platform_scheme \<Rightarrow> 'f hsm_floats_scheme \<Rightarrow> fresh \<Rightarrow> bool \<Rightarrow> uuid \<Rightarrow> uuid \<Rightarrow> datetime \<Rightarrow> datetime \<Rightarrow> datetime \<Rightarrow>
   MasterKeyCreate \<Rightarrow> string \<Rightarrow> ('z hsm_db_scheme, MasterKeyRead) svc" where
  "create_key pf fl fr key_first key_id op_id now created now' payload actor =
     bind_svc (assert_label_available (mkc_key_label payload))
     (\<lambda>_. bind_svc (query (\<lambda>d. case mkc_slot_id payload of
          None \<Rightarrow> True | Some i \<Rightarrow> get_row hs_id i (hsm_slots d) \<noteq> None))
     (\<lambda>slot_found. if \<not> slot_found then raise_svc (HTTPException 404 ''Slot not found'')
        else
          let key = \<lparr>mk_id = key_id, mk_key_label = mkc_key_label payload, mk_slot_id = mkc_slot_id payload,
                mk_hsm_object_id = None, mk_algorithm = mkc_algorithm payload, mk_status = MasterKeyStatus.PENDING,
                mk_rotation_policy_days = mkc_rotation_policy_days payload, mk_activated_at = None, mk_expires_at = None,
                mk_retired_at = None, mk_superseded_by_id = None, mk_wraps_dek_count = 0, mk_throughput_ops = 0,
                mk_created_at = created\<rparr>;
              add_key = flush (insert_master_key key);
              add_operation = record_operation op_id SecurityOperationType.KEY_CREATE (Some key) actor
                (''Registered key reference '' @ mk_key_label key @ '' ('' @ mk_algorithm key @ '') '' @ [CHR 0x97] @ '' pending ceremony'') now
          in
          bind_svc (if key_first then add_key else add_operation)
          (\<lambda>_. bind_svc (if key_first then add_operation else add_key)
          (\<lambda>_. bind_svc (append_entry_in_transaction pf fr (key_operation_entry ''info'' ''KEY_REFERENCE_REGISTERED'' actor
              (''Registered key reference '' @ mk_key_label key)
              (JDict [(''master_key_id'', JStr (uuid_text pf (mk_id key))), (''key_label'', JStr (mk_key_label key)),
                      (''algorithm'', JStr (mk_algorithm key)), (''slot_id'', json_opt_text (map_option (uuid_text pf) (mk_slot_id key))),
                      (''rotation_policy_days'', JInt (mk_rotation_policy_days key))])))
          (\<lambda>_. bind_svc commit (\<lambda>_. get_key fl now' key_id))))))"

definition successor_label :: "string option \<Rightarrow> MasterKey \<Rightarrow> string" where
  "successor_label new_label key =
     (case new_label of
        Some l \<Rightarrow> if l = [] then next_version_label (mk_key_label key) else l
      | None \<Rightarrow> next_version_label (mk_key_label key))"

definition successor_of :: "uuid \<Rightarrow> string \<Rightarrow> datetime \<Rightarrow> datetime \<Rightarrow> MasterKey \<Rightarrow> MasterKey" where
  "successor_of new_id' label now created key =
     \<lparr>mk_id = new_id', mk_key_label = label, mk_slot_id = mk_slot_id key, mk_hsm_object_id = None,
      mk_algorithm = mk_algorithm key, mk_status = MasterKeyStatus.ACTIVE, mk_rotation_policy_days = mk_rotation_policy_days key,
      mk_activated_at = Some now, mk_expires_at = Some (now + timedelta_days (mk_rotation_policy_days key)),
      mk_retired_at = None, mk_superseded_by_id = None, mk_wraps_dek_count = mk_wraps_dek_count key,
      mk_throughput_ops = mk_throughput_ops key, mk_created_at = created\<rparr>"

definition rotate_key ::
  "'p audit_platform_scheme \<Rightarrow> 'f hsm_floats_scheme \<Rightarrow> fresh \<Rightarrow> uuid \<Rightarrow> uuid \<Rightarrow> datetime \<Rightarrow> datetime \<Rightarrow> datetime \<Rightarrow>
   uuid \<Rightarrow> string \<Rightarrow> string option \<Rightarrow> ('z hsm_db_scheme, MasterKeyRead) svc" where
  "rotate_key pf fl fr new_id' op_id now created now' key_id actor new_label =
     bind_svc (get_key_orm key_id)
     (\<lambda>key. if mk_status key \<notin> {MasterKeyStatus.ACTIVE, MasterKeyStatus.EXPIRING}
        then raise_svc (HTTPException 409 (''Only active or expiring keys can be rotated (key is ''
               @ MasterKeyStatus_value (mk_status key) @ '')''))
        else
          let label = successor_label new_label key;
              successor = successor_of new_id' label now created key
          in
          bind_svc (assert_label_available label)
          (\<lambda>_. bind_svc (flush (insert_master_key successor))
          (\<lambda>_. bind_svc (modify_db (update_master_key key_id (\<lambda>k. k\<lparr>mk_status := MasterKeyStatus.RETIRED,
              mk_retired_at := Some now, mk_superseded_by_id := Some new_id', mk_throughput_ops := 0\<rparr>)))
          (\<lambda>_. bind_svc (record_operation op_id SecurityOperationType.KEY_ROTATE (Some successor) actor
              (''Rotated '' @ mk_key_label key @ '' -> '' @ label @ '' via provider abstraction (''
                 @ show_int (mk_wraps_dek_count successor) @ '' DEKs re-wrapped)'') now)
          (\<lambda>_. bind_svc (append_entry_in_transaction pf fr (key_operation_entry ''info'' ''KEY_ROTATED'' actor
              (''Rotated '' @ mk_key_label key @ '' to '' @ label)
              (JDict [(''predecessor_key_id'', JStr (uuid_text pf (mk_id key))), (''predecessor_label'', JStr (mk_key_label key)),
                      (''successor_key_id'', JStr (uuid_text pf new_id')), (''successor_label'', JStr label),
                      (''wraps_dek_count'', JInt (mk_wraps_dek_count successor))])))
          (\<lambda>_. bind_svc commit (\<lambda>_. get_key fl now' new_id')))))))"

definition disable_key ::
  "'p audit_platform_scheme \<Rightarrow> 'f hsm_floats_scheme \<Rightarrow> fresh \<Rightarrow> uuid \<Rightarrow> datetime \<Rightarrow> datetime \<Rightarrow> uuid \<Rightarrow> string \<Rightarrow>
   ('z hsm_db_scheme, MasterKeyRead) svc" where
  "disable_key pf fl fr op_id now now' key_id actor =
     bind_svc (get_key_orm key_id)
     (\<lambda>key. if mk_status key \<in> {MasterKeyStatus.RETIRED, MasterKeyStatus.DISABLED}
        then raise_svc (HTTPException 409 (''Key is already '' @ MasterKeyStatus_value (mk_status key)))
        else
          bind_svc (modify_db (update_master_key key_id (\<lambda>k. k\<lparr>mk_status := MasterKeyStatus.DISABLED,
              mk_retired_at := Some now, mk_throughput_ops := 0\<rparr>)))
          (\<lambda>_. bind_svc (record_operation op_id SecurityOperationType.KEY_DISABLE (Some key) actor
              (''Disabled key '' @ mk_key_label key) now)
          (\<lambda>_. bind_svc (append_entry_in_transaction pf fr (key_operation_entry ''warning'' ''KEY_DISABLED'' actor
              (''Disabled key '' @ mk_key_label key)
              (JDict [(''master_key_id'', JStr (uuid_text pf (mk_id key))), (''key_label'', JStr (mk_key_label key)),
                      (''previous_status'', JStr (MasterKeyStatus_value (mk_status key)))])))
          (\<lambda>_. bind_svc commit (\<lambda>_. get_key fl now' key_id)))))"

definition list_operations ::
  "SecurityOperationType option \<Rightarrow> nat \<Rightarrow> ('z hsm_db_scheme, SecurityOperationRead list) svc" where
  "list_operations operation_type limit =
     query (\<lambda>d. map (\<lambda>p.
       \<lparr>sor_id = so_id p, sor_operation_type = SecurityOperationType_value (so_operation_type p),
        sor_master_key_id = so_master_key_id p, sor_key_label = so_key_label p, sor_actor = so_actor p,
        sor_status = SecurityOperationStatus_value (so_status p), sor_detail = so_detail p, sor_occurred_at = so_occurred_at p\<rparr>)
       (take limit (order_by_desc so_occurred_at
         (filter (\<lambda>p. case operation_type of None \<Rightarrow> True | Some t \<Rightarrow> so_operation_type p = t) (security_operations d)))))"

definition provider_status :: "'f hsm_floats_scheme \<Rightarrow> SecurityProvider \<Rightarrow> datetime \<Rightarrow> string" where
  "provider_status fl provider now =
     (if \<not> sp_is_active provider then ''offline''
      else if (case sp_last_health_check_at provider of
                 None \<Rightarrow> False | Some t \<Rightarrow> PROVIDER_STALE_AFTER_SECONDS * 1000000 < now - t) then ''stale''
      else if 0 < sp_error_count_24h provider \<or> 90 \<le> pool_utilization_percent fl provider then ''degraded''
      else ''online'')"

definition provider_to_read :: "'f hsm_floats_scheme \<Rightarrow> SecurityProvider \<Rightarrow> datetime \<Rightarrow> SecurityProviderRead" where
  "provider_to_read fl p now =
     \<lparr>spr_id = sp_id p, spr_name = sp_name p, spr_provider_type = SecurityProviderType_value (sp_provider_type p),
      spr_model = sp_model p, spr_manufacturer = sp_manufacturer p, spr_library_path = sp_library_path p,
      spr_firmware_version = sp_firmware_version p, spr_serial_number = sp_serial_number p, spr_fips_level = sp_fips_level p,
      spr_is_active = sp_is_active p, spr_status = provider_status fl p now, spr_pool_active = sp_pool_active p,
      spr_pool_max = sp_pool_max p, spr_pool_utilization_percent = pool_utilization_percent fl p,
      spr_connection_timeout_seconds = sp_connection_timeout_seconds p, spr_avg_latency_ms = sp_avg_latency_ms p,
      spr_session_count = sp_session_count p, spr_rw_session_count = sp_rw_session_count p,
      spr_error_count_24h = sp_error_count_24h p, spr_supported_mechanisms = sp_supported_mechanisms p,
      spr_last_health_check_at = sp_last_health_check_at p\<rparr>"

definition list_providers :: "'f hsm_floats_scheme \<Rightarrow> datetime \<Rightarrow> ('z hsm_db_scheme, SecurityProviderRead list) svc" where
  "list_providers fl now = query (\<lambda>d. map (\<lambda>p. provider_to_read fl p now) (sort_key sp_name (security_providers d)))"

definition count_rows :: "('r \<Rightarrow> bool) \<Rightarrow> 'r list \<Rightarrow> int" where
  "count_rows P rs = int (length (filter P rs))"

definition next_rotation_days :: "MasterKey list \<Rightarrow> datetime \<Rightarrow> int option" where
  "next_rotation_days keys now =
     (case concat (map (\<lambda>k. case mk_expires_at k of
              Some t \<Rightarrow> if mk_status k \<in> {MasterKeyStatus.ACTIVE, MasterKeyStatus.EXPIRING} then [days_of (t - now)] else []
            | None \<Rightarrow> []) keys) of
        [] \<Rightarrow> None
      | c # cs \<Rightarrow> Some (max 0 (foldl min c cs)))"

definition get_security_summary ::
  "'f hsm_floats_scheme \<Rightarrow> datetime \<Rightarrow> string \<Rightarrow> ('z hsm_db_scheme, SecuritySummary) svc" where
  "get_security_summary fl now module_serial =
     query (\<lambda>d.
       let keys = master_keys d; slots = hsm_slots d; certs = certificates d; algorithms = crypto_algorithms d;
           providers = security_providers d; count_status = (\<lambda>target. count_rows (\<lambda>k. mk_status k = target) keys);
           runs = take 7 (order_by_desc ar_ran_at (attestation_runs d));
           latest = map_option ar_all_passed (first_row runs);
           pass_rate = (if runs = [] then 100
             else fl_round1 fl (fl_mul fl (fl_div fl (of_int (count_rows ar_all_passed runs)) (of_nat (length runs))) 100));
           cert_states = map (\<lambda>c. certificate_status c now) certs;
           disabled = count_status MasterKeyStatus.DISABLED;
           attention = (latest = Some False \<or> (\<exists>p \<in> set providers. \<not> sp_is_active p)
             \<or> (\<exists>s \<in> set slots. CAPACITY_CRITICAL_PERCENT \<le> capacity_percent fl s) \<or> 0 < disabled)
       in \<lparr>ssm_module_serial = module_serial, ssm_overall_status = (if attention then ''attention'' else ''healthy''),
           ssm_provider_count = int (length providers), ssm_active_provider_count = count_rows sp_is_active providers,
           ssm_total_keys = int (length keys), ssm_active_keys = count_status MasterKeyStatus.ACTIVE,
           ssm_expiring_keys = count_status MasterKeyStatus.EXPIRING, ssm_pending_keys = count_status MasterKeyStatus.PENDING,
           ssm_retired_keys = count_status MasterKeyStatus.RETIRED, ssm_disabled_keys = disabled,
           ssm_key_ops_per_second = fl_round1 fl (fl_sum fl (map hs_ops_per_second slots)),
           ssm_slot_count = int (length slots), ssm_active_slots = count_rows hs_is_active slots,
           ssm_near_capacity_slots = count_rows (\<lambda>s. NEAR_CAPACITY_PERCENT \<le> capacity_percent fl s) slots,
           ssm_certificate_count = int (length certs),
           ssm_expiring_certificates = count_rows (\<lambda>s. s \<in> {''expiring'', ''expired''}) cert_states,
           ssm_algorithm_count = int (length algorithms), ssm_deprecated_algorithm_count = count_rows ca_is_deprecated algorithms,
           ssm_pending_ceremonies = count_rows (\<lambda>c. kc_status c = CeremonyStatus.PENDING) (key_ceremonies d),
           ssm_next_rotation_days = next_rotation_days keys now, ssm_latest_attestation_passed = latest,
           ssm_attestation_pass_rate = pass_rate\<rparr>)"

text \<open>The five checks of the health report, and the report; \<open>reachable\<close> is whether \<^verbatim>\<open>SELECT 1\<close> succeeds.\<close>

definition health_checks :: "'f hsm_floats_scheme \<Rightarrow> datetime \<Rightarrow> 'z hsm_db_scheme \<Rightarrow> SecurityHealthCheck list" where
  "health_checks fl now d =
     (let providers = security_providers d; slots = hsm_slots d; certs = certificates d;
          latest_run = first_row (order_by_desc ar_ran_at (attestation_runs d));
          active_providers = count_rows sp_is_active providers;
          critical_slots = filter (\<lambda>s. CAPACITY_CRITICAL_PERCENT \<le> capacity_percent fl s) slots;
          near_slots = filter (\<lambda>s. NEAR_CAPACITY_PERCENT \<le> capacity_percent fl s) slots;
          expired = filter (\<lambda>c. certificate_status c now = ''expired'') certs;
          expiring = filter (\<lambda>c. certificate_status c now = ''expiring'') certs
      in [\<lparr>shc_key = ''database'', shc_label = ''Database Connectivity'', shc_passed = True, shc_detail = ''reachable''\<rparr>,
          \<lparr>shc_key = ''providers'', shc_label = ''Provider Availability'', shc_passed = (0 < active_providers),
           shc_detail = show_int active_providers @ ''/'' @ show_nat (length providers) @ '' provider(s) active''\<rparr>,
          \<lparr>shc_key = ''attestation'', shc_label = ''Hardware Attestation'',
           shc_passed = (case latest_run of None \<Rightarrow> False | Some r \<Rightarrow> ar_all_passed r),
           shc_detail = (case latest_run of
              None \<Rightarrow> ''no attestation runs recorded''
            | Some r \<Rightarrow> if ar_all_passed r then ''latest attestation passed'' else ''latest attestation failed'')\<rparr>,
          \<lparr>shc_key = ''slot_capacity'', shc_label = ''Slot Capacity'', shc_passed = (critical_slots = []),
           shc_detail = (if near_slots \<noteq> [] then show_nat (length near_slots) @ '' slot(s) near capacity''
              else ''all slots within capacity'')\<rparr>,
          \<lparr>shc_key = ''certificates'', shc_label = ''Certificate Validity'', shc_passed = (expired = []),
           shc_detail = (if expired \<noteq> [] \<or> expiring \<noteq> []
              then show_nat (length expired) @ '' expired '' @ [CHR 0xB7] @ '' '' @ show_nat (length expiring) @ '' expiring''
              else ''all certificates valid'')\<rparr>])"

definition get_security_health ::
  "'f hsm_floats_scheme \<Rightarrow> bool \<Rightarrow> datetime \<Rightarrow> ('z hsm_db_scheme, SecurityHealth) svc" where
  "get_security_health fl reachable now =
     (if \<not> reachable then return_svc
        \<lparr>shl_overall_status = ''unavailable'', shl_checked_at = now, shl_db_reachable = False, shl_providers = [],
         shl_checks = [\<lparr>shc_key = ''database'', shc_label = ''Database Connectivity'', shc_passed = False,
           shc_detail = ''database unreachable''\<rparr>]\<rparr>
      else query (\<lambda>d.
        \<lparr>shl_overall_status = (if list_all shc_passed (health_checks fl now d) then ''healthy'' else ''degraded''),
         shl_checked_at = now, shl_db_reachable = True,
         shl_providers = map (\<lambda>p. \<lparr>sph_name = sp_name p, sph_status = provider_status fl p now,
           sph_detail = ''pool '' @ show_int (sp_pool_active p) @ ''/'' @ show_int (sp_pool_max p) @ '' '' @ [CHR 0xB7] @ '' ''
             @ show_int (sp_error_count_24h p) @ '' errors/24h''\<rparr>) (sort_key sp_name (security_providers d)),
         shl_checks = health_checks fl now d\<rparr>))"

section \<open>api/v1/endpoints/hsm.py\<close>

definition MODULE_SERIAL :: string where
  "MODULE_SERIAL = ''TL7-US-E1-0042''"

definition read_hsm_overview ::
  "'p platform_scheme \<Rightarrow> Settings \<Rightarrow> datetime \<Rightarrow> 'f hsm_floats_scheme \<Rightarrow> datetime \<Rightarrow> datetime \<Rightarrow> datetime \<Rightarrow> (uuid \<Rightarrow> datetime) \<Rightarrow> string option \<Rightarrow>
   ('z hsm_db_scheme, HsmOverview) svc" where
  "read_hsm_overview pf st now fl t1 t2 t3 t4 cred =
     bind_svc (get_current_user pf st now cred)
     (\<lambda>_. get_hsm_overview fl t1 t2 t3 t4 MODULE_SERIAL)"

definition approve_key_ceremony ::
  "'p audit_platform_scheme \<Rightarrow> Settings \<Rightarrow> datetime \<Rightarrow> fresh \<Rightarrow> uuid \<Rightarrow> datetime \<Rightarrow> uuid \<Rightarrow> string option \<Rightarrow>
   ('z hsm_db_scheme, KeyCeremonyRead) svc" where
  "approve_key_ceremony pf st now fr approval_id t1 ceremony_id cred =
     bind_svc (require_admin pf st now cred)
     (\<lambda>current_user. bind_svc (approve_ceremony pf fr approval_id t1 ceremony_id (u_email current_user))
       (\<lambda>ceremony. query_e (\<lambda>d. ceremony_to_read d ceremony)))"

definition initiate_key_ceremony ::
  "'p audit_platform_scheme \<Rightarrow> Settings \<Rightarrow> datetime \<Rightarrow> fresh \<Rightarrow> uuid \<Rightarrow> uuid \<Rightarrow> datetime \<Rightarrow> datetime \<Rightarrow> KeyCeremonyCreate \<Rightarrow> string option \<Rightarrow>
   ('z hsm_db_scheme, KeyCeremonyRead) svc" where
  "initiate_key_ceremony pf st now fr ceremony_id ref_id t1 created payload cred =
     bind_svc (require_admin pf st now cred)
     (\<lambda>current_user. validated (valid_KeyCeremonyCreate payload)
       (bind_svc (create_ceremony pf fr ceremony_id ref_id t1 created payload (u_email current_user))
       (\<lambda>ceremony. query_e (\<lambda>d. ceremony_to_read d ceremony))))"

definition complete_key_ceremony ::
  "'p audit_platform_scheme \<Rightarrow> Settings \<Rightarrow> datetime \<Rightarrow> fresh \<Rightarrow> uuid \<Rightarrow> datetime \<Rightarrow> uuid \<Rightarrow> string option \<Rightarrow>
   ('z hsm_db_scheme, KeyCeremonyRead) svc" where
  "complete_key_ceremony pf st now fr op_id t1 ceremony_id cred =
     bind_svc (require_admin pf st now cred)
     (\<lambda>current_user. bind_svc (complete_ceremony pf fr op_id t1 ceremony_id (u_email current_user))
       (\<lambda>ceremony. query_e (\<lambda>d. ceremony_to_read d ceremony)))"

definition trigger_attestation_run ::
  "'p audit_platform_scheme \<Rightarrow> Settings \<Rightarrow> datetime \<Rightarrow> fresh \<Rightarrow> uuid \<Rightarrow> uuid \<Rightarrow> datetime \<Rightarrow> string option \<Rightarrow>
   ('z hsm_db_scheme, AttestationRunRead) svc" where
  "trigger_attestation_run pf st now fr run_id op_id t1 cred =
     bind_svc (require_admin pf st now cred)
     (\<lambda>current_user. bind_svc (run_attestation pf fr run_id op_id t1 (u_email current_user))
       (\<lambda>run. return_svc (attestation_run_to_read run)))"

definition read_security_summary ::
  "'p platform_scheme \<Rightarrow> Settings \<Rightarrow> datetime \<Rightarrow> 'f hsm_floats_scheme \<Rightarrow> datetime \<Rightarrow> string option \<Rightarrow>
   ('z hsm_db_scheme, SecuritySummary) svc" where
  "read_security_summary pf st now fl t1 cred =
     bind_svc (get_current_user pf st now cred)
     (\<lambda>_. get_security_summary fl t1 MODULE_SERIAL)"

definition read_keys ::
  "'p platform_scheme \<Rightarrow> Settings \<Rightarrow> datetime \<Rightarrow> 'f hsm_floats_scheme \<Rightarrow> datetime \<Rightarrow> MasterKeyStatus option \<Rightarrow> string option \<Rightarrow>
   ('z hsm_db_scheme, MasterKeyRead list) svc" where
  "read_keys pf st now fl t1 status_filter cred =
     bind_svc (get_current_user pf st now cred)
     (\<lambda>_. list_keys fl t1 status_filter)"

definition register_key ::
  "'p audit_platform_scheme \<Rightarrow> Settings \<Rightarrow> datetime \<Rightarrow> 'f hsm_floats_scheme \<Rightarrow> fresh \<Rightarrow> bool \<Rightarrow> uuid \<Rightarrow> uuid \<Rightarrow> datetime \<Rightarrow> datetime \<Rightarrow> datetime \<Rightarrow> MasterKeyCreate \<Rightarrow> string option \<Rightarrow>
   ('z hsm_db_scheme, MasterKeyRead) svc" where
  "register_key pf st now fl fr key_first key_id op_id t1 created t2 payload cred =
     bind_svc (require_admin pf st now cred)
     (\<lambda>current_user. validated (valid_MasterKeyCreate payload)
       (create_key pf fl fr key_first key_id op_id t1 created t2 payload (u_email current_user)))"

definition read_key ::
  "'p platform_scheme \<Rightarrow> Settings \<Rightarrow> datetime \<Rightarrow> 'f hsm_floats_scheme \<Rightarrow> datetime \<Rightarrow> uuid \<Rightarrow> string option \<Rightarrow>
   ('z hsm_db_scheme, MasterKeyRead) svc" where
  "read_key pf st now fl t1 key_id cred =
     bind_svc (get_current_user pf st now cred)
     (\<lambda>_. get_key fl t1 key_id)"

definition rotate_master_key ::
  "'p audit_platform_scheme \<Rightarrow> Settings \<Rightarrow> datetime \<Rightarrow> 'f hsm_floats_scheme \<Rightarrow> fresh \<Rightarrow> uuid \<Rightarrow> uuid \<Rightarrow> datetime \<Rightarrow> datetime \<Rightarrow> datetime \<Rightarrow> uuid \<Rightarrow> string option \<Rightarrow> string option \<Rightarrow>
   ('z hsm_db_scheme, MasterKeyRead) svc" where
  "rotate_master_key pf st now fl fr new_id' op_id t1 created t2 key_id new_label cred =
     bind_svc (require_admin pf st now cred)
     (\<lambda>current_user. validated (valid_MasterKeyRotateRequest new_label)
       (rotate_key pf fl fr new_id' op_id t1 created t2 key_id (u_email current_user) new_label))"

definition disable_master_key ::
  "'p audit_platform_scheme \<Rightarrow> Settings \<Rightarrow> datetime \<Rightarrow> 'f hsm_floats_scheme \<Rightarrow> fresh \<Rightarrow> uuid \<Rightarrow> datetime \<Rightarrow> datetime \<Rightarrow> uuid \<Rightarrow> string option \<Rightarrow>
   ('z hsm_db_scheme, MasterKeyRead) svc" where
  "disable_master_key pf st now fl fr op_id t1 t2 key_id cred =
     bind_svc (require_admin pf st now cred)
     (\<lambda>current_user. disable_key pf fl fr op_id t1 t2 key_id (u_email current_user))"

definition read_operations ::
  "'p platform_scheme \<Rightarrow> Settings \<Rightarrow> datetime \<Rightarrow> SecurityOperationType option \<Rightarrow> nat \<Rightarrow> string option \<Rightarrow>
   ('z hsm_db_scheme, SecurityOperationRead list) svc" where
  "read_operations pf st now operation_type limit cred =
     bind_svc (get_current_user pf st now cred)
     (\<lambda>_. validated (1 \<le> limit \<and> limit \<le> 200) (list_operations operation_type limit))"

definition read_providers ::
  "'p platform_scheme \<Rightarrow> Settings \<Rightarrow> datetime \<Rightarrow> 'f hsm_floats_scheme \<Rightarrow> datetime \<Rightarrow> string option \<Rightarrow>
   ('z hsm_db_scheme, SecurityProviderRead list) svc" where
  "read_providers pf st now fl t1 cred =
     bind_svc (get_current_user pf st now cred)
     (\<lambda>_. list_providers fl t1)"

definition read_security_health ::
  "'p platform_scheme \<Rightarrow> Settings \<Rightarrow> datetime \<Rightarrow> 'f hsm_floats_scheme \<Rightarrow> bool \<Rightarrow> datetime \<Rightarrow> string option \<Rightarrow>
   ('z hsm_db_scheme, SecurityHealth) svc" where
  "read_security_health pf st now fl reachable t1 cred =
     bind_svc (get_current_user pf st now cred)
     (\<lambda>_. get_security_health fl reachable t1)"

interpretation approve_key_ceremony_ep: admin_endpoint pf st now "approve_key_ceremony pf st now fr approval_id t1 ceremony_id"
    "\<lambda>current_user. bind_svc (approve_ceremony pf fr approval_id t1 ceremony_id (u_email current_user))
       (\<lambda>ceremony. query_e (\<lambda>d. ceremony_to_read d ceremony))"
  for pf :: "'p audit_platform_scheme" and st now fr approval_id t1 ceremony_id
  by unfold_locales (simp add: approve_key_ceremony_def)

interpretation initiate_key_ceremony_ep: admin_endpoint pf st now "initiate_key_ceremony pf st now fr ceremony_id ref_id t1 created payload"
    "\<lambda>current_user. validated (valid_KeyCeremonyCreate payload)
       (bind_svc (create_ceremony pf fr ceremony_id ref_id t1 created payload (u_email current_user))
       (\<lambda>ceremony. query_e (\<lambda>d. ceremony_to_read d ceremony)))"
  for pf :: "'p audit_platform_scheme" and st now fr ceremony_id ref_id t1 created payload
  by unfold_locales (simp add: initiate_key_ceremony_def)

interpretation complete_key_ceremony_ep: admin_endpoint pf st now "complete_key_ceremony pf st now fr op_id t1 ceremony_id"
    "\<lambda>current_user. bind_svc (complete_ceremony pf fr op_id t1 ceremony_id (u_email current_user))
       (\<lambda>ceremony. query_e (\<lambda>d. ceremony_to_read d ceremony))"
  for pf :: "'p audit_platform_scheme" and st now fr op_id t1 ceremony_id
  by unfold_locales (simp add: complete_key_ceremony_def)

interpretation trigger_attestation_run_ep: admin_endpoint pf st now "trigger_attestation_run pf st now fr run_id op_id t1"
    "\<lambda>current_user. bind_svc (run_attestation pf fr run_id op_id t1 (u_email current_user))
       (\<lambda>run. return_svc (attestation_run_to_read run))"
  for pf :: "'p audit_platform_scheme" and st now fr run_id op_id t1
  by unfold_locales (simp add: trigger_attestation_run_def)

interpretation register_key_ep: admin_endpoint pf st now "register_key pf st now fl fr key_first key_id op_id t1 created t2 payload"
    "\<lambda>current_user. validated (valid_MasterKeyCreate payload)
       (create_key pf fl fr key_first key_id op_id t1 created t2 payload (u_email current_user))"
  for pf :: "'p audit_platform_scheme" and st now fl fr key_first key_id op_id t1 created t2 payload
  by unfold_locales (simp add: register_key_def)

interpretation rotate_master_key_ep: admin_endpoint pf st now "rotate_master_key pf st now fl fr new_id' op_id t1 created t2 key_id new_label"
    "\<lambda>current_user. validated (valid_MasterKeyRotateRequest new_label)
       (rotate_key pf fl fr new_id' op_id t1 created t2 key_id (u_email current_user) new_label)"
  for pf :: "'p audit_platform_scheme" and st now fl fr new_id' op_id t1 created t2 key_id new_label
  by unfold_locales (simp add: rotate_master_key_def)

interpretation disable_master_key_ep: admin_endpoint pf st now "disable_master_key pf st now fl fr op_id t1 t2 key_id"
    "\<lambda>current_user. disable_key pf fl fr op_id t1 t2 key_id (u_email current_user)"
  for pf :: "'p audit_platform_scheme" and st now fl fr op_id t1 t2 key_id
  by unfold_locales (simp add: disable_master_key_def)

end
