(* ===== verification/AnomalyModels.thy ===== *)
theory AnomalyModels
  imports Hsm
begin

text \<open>
  The rows of \<^verbatim>\<open>src/app/models/anomaly.py\<close> and the schemas of \<^verbatim>\<open>src/app/schemas/anomaly.py\<close> (the redaction of
  metadata is in \<open>Json\<close>). A score is the rational value of its double; NaN and the infinities are
  not modelled.
\<close>

section \<open>models/anomaly.py\<close>

datatype AnomalySeverity = CRITICAL | HIGH | MEDIUM | LOW

fun AnomalySeverity_value :: "AnomalySeverity \<Rightarrow> string" where
  "AnomalySeverity_value AnomalySeverity.CRITICAL = ''critical''"
| "AnomalySeverity_value AnomalySeverity.HIGH = ''high''"
| "AnomalySeverity_value AnomalySeverity.MEDIUM = ''medium''"
| "AnomalySeverity_value AnomalySeverity.LOW = ''low''"

text \<open>The doubles that the literals \<^verbatim>\<open>0.90\<close>, \<^verbatim>\<open>0.70\<close> and \<^verbatim>\<open>0.40\<close> denote.\<close>

definition double_090 :: rat where "double_090 = 8106479329266893 / 9007199254740992"

definition double_070 :: rat where "double_070 = 6305039478318694 / 9007199254740992"

definition double_040 :: rat where "double_040 = 7205759403792794 / 18014398509481984"

definition from_score :: "rat \<Rightarrow> AnomalySeverity" where
  "from_score score =
     (if double_090 \<le> score then AnomalySeverity.CRITICAL
      else if double_070 \<le> score then AnomalySeverity.HIGH
      else if double_040 \<le> score then AnomalySeverity.MEDIUM
      else AnomalySeverity.LOW)"

datatype AnomalyStatus = OPEN | INVESTIGATING | RESOLVED | DISMISSED

fun AnomalyStatus_value :: "AnomalyStatus \<Rightarrow> string" where
  "AnomalyStatus_value AnomalyStatus.OPEN = ''open''"
| "AnomalyStatus_value AnomalyStatus.INVESTIGATING = ''investigating''"
| "AnomalyStatus_value AnomalyStatus.RESOLVED = ''resolved''"
| "AnomalyStatus_value AnomalyStatus.DISMISSED = ''dismissed''"

record AnomalyEvent =
  ae_id :: uuid
  ae_tenant_id :: "uuid option"
  ae_category :: string
  ae_score :: rat
  ae_severity :: AnomalySeverity
  ae_status :: AnomalyStatus
  ae_title :: string
  ae_description :: string
  ae_actor :: "string option"
  ae_source_ip :: "string option"
  ae_baseline_sigma :: "rat option"
  ae_metadata_json :: json
  ae_occurred_at :: datetime
  ae_resolved_at :: "datetime option"
  ae_created_at :: datetime
  ae_updated_at :: datetime

record BehavioralBaseline =
  bb_id :: uuid
  bb_metric_key :: string
  bb_label :: string
  bb_baseline_value :: rat
  bb_current_value :: rat
  bb_unit :: string
  bb_upper_bound :: rat

datatype IncidentSeverity = P1 | P2 | P3

fun IncidentSeverity_value :: "IncidentSeverity \<Rightarrow> string" where
  "IncidentSeverity_value IncidentSeverity.P1 = ''p1''"
| "IncidentSeverity_value IncidentSeverity.P2 = ''p2''"
| "IncidentSeverity_value IncidentSeverity.P3 = ''p3''"

datatype IncidentStatus = UNASSIGNED | IN_PROGRESS | RESOLVED

fun IncidentStatus_value :: "IncidentStatus \<Rightarrow> string" where
  "IncidentStatus_value IncidentStatus.UNASSIGNED = ''unassigned''"
| "IncidentStatus_value IncidentStatus.IN_PROGRESS = ''in_progress''"
| "IncidentStatus_value IncidentStatus.RESOLVED = ''resolved''"

record Incident =
  inc_id :: uuid
  inc_code :: string
  inc_severity :: IncidentSeverity
  inc_status :: IncidentStatus
  inc_summary :: string
  inc_sla_minutes :: int
  inc_resolved_at :: "datetime option"
  inc_created_at :: datetime

record anomaly_db = hsm_db +
  anomaly_events :: "AnomalyEvent list"
  behavioral_baselines :: "BehavioralBaseline list"
  incidents :: "Incident list"

text \<open>What the database checks when a new event is flushed.\<close>

definition insert_anomaly_event :: "AnomalyEvent \<Rightarrow> 'z anomaly_db_scheme \<Rightarrow> error + 'z anomaly_db_scheme" where
  "insert_anomaly_event e d =
     (if \<not> (text_fits_opt 60 (Some (ae_category e)) \<and> text_fits_opt 255 (Some (ae_title e)) \<and> text_ok (ae_description e)
         \<and> text_fits_opt 120 (ae_actor e) \<and> text_fits_opt 45 (ae_source_ip e))
      then Inl (DataError ''anomaly_events'')
      else if \<not> (case ae_tenant_id e of None \<Rightarrow> True | Some i \<Rightarrow> i \<in> t_id ` set (tenants d))
      then Inl (IntegrityError ''anomaly_events.tenant_id'')
      else (case insert_row ae_id e (anomaly_events d) of
              Inl x \<Rightarrow> Inl x
            | Inr es \<Rightarrow> Inr (d\<lparr>anomaly_events := es\<rparr>)))"

section \<open>schemas/anomaly.py\<close>

record AnomalyEventRead =
  anr_id :: uuid
  anr_category :: string
  anr_score :: rat
  anr_severity :: string
  anr_status :: string
  anr_title :: string
  anr_description :: string
  anr_actor :: "string option"
  anr_source_ip :: "string option"
  anr_baseline_sigma :: "rat option"
  anr_metadata_json :: json
  anr_occurred_at :: datetime

text \<open>\<^verbatim>\<open>AnomalyEventRead.model_validate\<close>, with the validator that redacts the metadata.\<close>

definition AnomalyEventRead_validate :: "AnomalyEvent \<Rightarrow> AnomalyEventRead" where
  "AnomalyEventRead_validate e =
     \<lparr>anr_id = ae_id e, anr_category = ae_category e, anr_score = ae_score e, anr_severity = AnomalySeverity_value (ae_severity e),
      anr_status = AnomalyStatus_value (ae_status e), anr_title = ae_title e, anr_description = ae_description e,
      anr_actor = ae_actor e, anr_source_ip = ae_source_ip e, anr_baseline_sigma = ae_baseline_sigma e,
      anr_metadata_json = redact_sensitive_metadata (ae_metadata_json e), anr_occurred_at = ae_occurred_at e\<rparr>"

record AnomalyEventCreate =
  aec_category :: string
  aec_score :: rat
  aec_title :: string
  aec_description :: string
  aec_actor :: "string option"
  aec_source_ip :: "string option"
  aec_tenant_id :: "uuid option"
  aec_baseline_sigma :: "rat option"
  aec_metadata_json :: "(string \<times> json) list"

record SeveritySummaryBucket =
  ssb_severity :: string
  ssb_count :: int
  ssb_trend_delta :: int
  ssb_trend_window_label :: string

record BehavioralBaselineRead =
  bbr_metric_key :: string
  bbr_label :: string
  bbr_baseline_value :: rat
  bbr_current_value :: rat
  bbr_unit :: string
  bbr_upper_bound :: rat
  bbr_percent_of_upper_bound :: rat
  bbr_deviation_multiple :: rat

record HeatmapCell =
  hmc_hour :: int
  hmc_severity :: string
  hmc_count :: int
  hmc_intensity_percent :: rat

record ThreatCategoryStat =
  tcs_category :: string
  tcs_count :: int
  tcs_percent :: rat

record IncidentRead =
  ir_id :: uuid
  ir_code :: string
  ir_severity :: string
  ir_status :: string
  ir_summary :: string
  ir_sla_minutes :: int
  ir_sla_remaining_minutes :: "int option"
  ir_is_overdue :: bool
  ir_created_at :: datetime
  ir_resolved_at :: "datetime option"

record AnomalyDetectionOverview =
  ado_stream_events_per_second :: rat
  ado_ml_model_name :: string
  ado_severity_summary :: "SeveritySummaryBucket list"
  ado_recent_events :: "AnomalyEventRead list"
  ado_baselines :: "BehavioralBaselineRead list"
  ado_heatmap :: "HeatmapCell list"
  ado_threat_categories :: "ThreatCategoryStat list"
  ado_incidents :: "IncidentRead list"

record AnomalyHistoryEntry =
  ahe_sequence :: int
  ahe_occurred_at :: datetime
  ahe_actor :: string
  ahe_subtype :: string
  ahe_description :: string
  ahe_previous_status :: "string option"
  ahe_new_status :: "string option"

text \<open>The body of a bulk request is a list of identifiers.\<close>

definition valid_BulkStatusRequest :: "uuid list \<Rightarrow> bool" where
  "valid_BulkStatusRequest event_ids \<longleftrightarrow> 1 \<le> length event_ids \<and> length event_ids \<le> 500"

record BulkStatusResponse =
  bsr_new_status :: string
  bsr_requested :: nat
  bsr_updated :: nat
  bsr_updated_ids :: "uuid list"
  bsr_not_found_ids :: "uuid list"

record AnomalyTrendBucket =
  atb_bucket :: datetime
  atb_severity :: string
  atb_count :: int

record AnomalyTrends =
  atr_interval :: string
  atr_from_timestamp :: datetime
  atr_to_timestamp :: datetime
  atr_buckets :: "AnomalyTrendBucket list"

record AnomalyTypeStat =
  ats_category :: string
  ats_total :: int
  ats_open_count :: int

record AnomalyTypesResponse =
  aty_categories :: "AnomalyTypeStat list"
  aty_severities :: "string list"
  aty_statuses :: "string list"

end
