(* ===== verification/Notifications.thy ===== *)
theory Notifications
  imports AnomalyModels
begin

text \<open>
  The notifications of a user and the alert rules of the administrators: \<^verbatim>\<open>src/app/models/notification.py\<close>,
  \<^verbatim>\<open>src/app/schemas/notification.py\<close>, \<^verbatim>\<open>src/app/services/notification_service.py\<close> and
  \<^verbatim>\<open>src/app/api/v1/endpoints/notifications.py\<close>. The column \<^verbatim>\<open>updated_at\<close>, which nothing reads, is left out.
\<close>

section \<open>models/notification.py\<close>

datatype NotificationSeverity = CRITICAL | WARNING | INFO

fun NotificationSeverity_value :: "NotificationSeverity \<Rightarrow> string" where
  "NotificationSeverity_value NotificationSeverity.CRITICAL = ''critical''"
| "NotificationSeverity_value NotificationSeverity.WARNING = ''warning''"
| "NotificationSeverity_value NotificationSeverity.INFO = ''info''"

datatype AlertChannel = IN_APP | EMAIL | SLACK | WEBHOOK

fun AlertChannel_value :: "AlertChannel \<Rightarrow> string" where
  "AlertChannel_value IN_APP = ''in_app''"
| "AlertChannel_value EMAIL = ''email''"
| "AlertChannel_value SLACK = ''slack''"
| "AlertChannel_value WEBHOOK = ''webhook''"

record Notification =
  no_id :: uuid
  no_user_id :: uuid
  no_severity :: NotificationSeverity
  no_category :: string
  no_title :: string
  no_body :: string
  no_source :: string
  no_link :: "string option"
  no_is_read :: bool
  no_read_at :: "datetime option"
  no_created_at :: datetime

record AlertRule =
  al_id :: uuid
  al_name :: string
  al_description :: "string option"
  al_source :: string
  al_condition :: string
  al_threshold_severity :: NotificationSeverity
  al_channel :: AlertChannel
  al_target :: string
  al_is_enabled :: bool
  al_created_by :: string
  al_last_triggered_at :: "datetime option"
  al_trigger_count :: int
  al_created_at :: datetime

record notify_db = anomaly_db +
  notifications :: "Notification list"
  alert_rules :: "AlertRule list"

text \<open>The columns of an alert rule, and what the database checks when a new one is flushed.\<close>

definition rule_columns_ok :: "AlertRule \<Rightarrow> bool" where
  "rule_columns_ok r \<longleftrightarrow>
     text_fits_opt 120 (Some (al_name r)) \<and> (case al_description r of None \<Rightarrow> True | Some s \<Rightarrow> text_ok s)
     \<and> text_fits_opt 40 (Some (al_source r)) \<and> text_fits_opt 255 (Some (al_condition r))
     \<and> text_fits_opt 200 (Some (al_target r)) \<and> text_fits_opt 120 (Some (al_created_by r))"

definition insert_alert_rule :: "AlertRule \<Rightarrow> 'z notify_db_scheme \<Rightarrow> error + 'z notify_db_scheme" where
  "insert_alert_rule r d =
     (if \<not> rule_columns_ok r then Inl (DataError ''alert_rules'')
      else if al_name r \<in> al_name ` set (alert_rules d) then Inl (IntegrityError ''alert_rules.name'')
      else (case insert_row al_id r (alert_rules d) of
              Inl x \<Rightarrow> Inl x
            | Inr rs \<Rightarrow> Inr (d\<lparr>alert_rules := rs\<rparr>)))"

section \<open>schemas/notification.py\<close>

record NotificationRead =
  nor_id :: uuid
  nor_severity :: string
  nor_category :: string
  nor_title :: string
  nor_body :: string
  nor_source :: string
  nor_link :: "string option"
  nor_is_read :: bool
  nor_read_at :: "datetime option"
  nor_created_at :: datetime

record UnreadCountResponse =
  uc_unread :: int
  uc_total :: int

record MarkAllReadResponse =
  ma_detail :: string
  ma_marked_read :: int

record AlertRuleRead =
  ald_id :: uuid
  ald_name :: string
  ald_description :: "string option"
  ald_source :: string
  ald_condition :: string
  ald_threshold_severity :: string
  ald_channel :: string
  ald_target :: string
  ald_is_enabled :: bool
  ald_created_by :: string
  ald_last_triggered_at :: "datetime option"
  ald_trigger_count :: int
  ald_created_at :: datetime

record AlertRuleCreate =
  aln_name :: string
  aln_description :: "string option"
  aln_source :: string
  aln_condition :: string
  aln_threshold_severity :: NotificationSeverity
  aln_channel :: AlertChannel
  aln_target :: string
  aln_is_enabled :: bool

definition valid_AlertRuleCreate :: "AlertRuleCreate \<Rightarrow> bool" where
  "valid_AlertRuleCreate p \<longleftrightarrow>
     2 \<le> length (aln_name p) \<and> length (aln_name p) \<le> 120
     \<and> (case aln_description p of None \<Rightarrow> True | Some s \<Rightarrow> length s \<le> 500)
     \<and> 1 \<le> length (aln_source p) \<and> length (aln_source p) \<le> 40
     \<and> 1 \<le> length (aln_condition p) \<and> length (aln_condition p) \<le> 255
     \<and> 1 \<le> length (aln_target p) \<and> length (aln_target p) \<le> 200"

text \<open>A field of a PATCH: \<open>None\<close> when it was not sent, \<open>Some None\<close> when it was sent as \<^verbatim>\<open>null\<close>.\<close>

record AlertRuleUpdate =
  alu_name :: "string option option"
  alu_description :: "string option option"
  alu_source :: "string option option"
  alu_condition :: "string option option"
  alu_threshold_severity :: "NotificationSeverity option option"
  alu_channel :: "AlertChannel option option"
  alu_target :: "string option option"
  alu_is_enabled :: "bool option option"

definition sent_length :: "nat \<Rightarrow> nat \<Rightarrow> string option option \<Rightarrow> bool" where
  "sent_length lo hi u = (case u of Some (Some s) \<Rightarrow> lo \<le> length s \<and> length s \<le> hi | _ \<Rightarrow> True)"

definition valid_AlertRuleUpdate :: "AlertRuleUpdate \<Rightarrow> bool" where
  "valid_AlertRuleUpdate p \<longleftrightarrow>
     sent_length 2 120 (alu_name p) \<and> sent_length 0 500 (alu_description p) \<and> sent_length 1 40 (alu_source p)
     \<and> sent_length 1 255 (alu_condition p) \<and> sent_length 1 200 (alu_target p)"

section \<open>services/notification\_service.py\<close>

definition notification_to_read :: "Notification \<Rightarrow> NotificationRead" where
  "notification_to_read row =
     \<lparr>nor_id = no_id row, nor_severity = NotificationSeverity_value (no_severity row), nor_category = no_category row,
      nor_title = no_title row, nor_body = no_body row, nor_source = no_source row, nor_link = no_link row,
      nor_is_read = no_is_read row, nor_read_at = no_read_at row, nor_created_at = no_created_at row\<rparr>"

definition list_notifications ::
  "uuid \<Rightarrow> bool \<Rightarrow> string option \<Rightarrow> nat \<Rightarrow> ('z notify_db_scheme, NotificationRead list) svc" where
  "list_notifications user_id unread_only category limit =
     query (\<lambda>d. map notification_to_read (take limit (order_by_desc no_created_at
       (filter (\<lambda>n. no_user_id n = user_id \<and> (unread_only \<longrightarrow> \<not> no_is_read n)
          \<and> (truthy category \<longrightarrow> category = Some (no_category n))) (notifications d)))))"

definition get_unread_count :: "uuid \<Rightarrow> ('z notify_db_scheme, UnreadCountResponse) svc" where
  "get_unread_count user_id =
     query (\<lambda>d. \<lparr>uc_unread = count_rows (\<lambda>n. no_user_id n = user_id \<and> \<not> no_is_read n) (notifications d),
                uc_total = count_rows (\<lambda>n. no_user_id n = user_id) (notifications d)\<rparr>)"

definition mark_notification_read ::
  "datetime \<Rightarrow> uuid \<Rightarrow> uuid \<Rightarrow> ('z notify_db_scheme, NotificationRead) svc" where
  "mark_notification_read now user_id notification_id =
     bind_svc (query (\<lambda>d. get_row no_id notification_id (notifications d)))
     (\<lambda>found. case found of
        None \<Rightarrow> raise_svc (HTTPException 404 ''Notification not found'')
      | Some n \<Rightarrow>
          if no_user_id n \<noteq> user_id then raise_svc (HTTPException 404 ''Notification not found'')
          else if \<not> no_is_read n then
            let n' = n\<lparr>no_is_read := True, no_read_at := Some now\<rparr> in
            bind_svc (modify_db (notifications_update (update_where (\<lambda>x. no_id x = notification_id) (\<lambda>_. n'))))
            (\<lambda>_. bind_svc commit (\<lambda>_. return_svc (notification_to_read n')))
          else return_svc (notification_to_read n))"

definition mark_all_read :: "datetime \<Rightarrow> uuid \<Rightarrow> ('z notify_db_scheme, MarkAllReadResponse) svc" where
  "mark_all_read now user_id =
     (let unread = (\<lambda>n. no_user_id n = user_id \<and> \<not> no_is_read n) in
      bind_svc (query (\<lambda>d. count_rows unread (notifications d)))
      (\<lambda>rowcount. bind_svc (modify_db (notifications_update (update_where unread (\<lambda>n. n\<lparr>no_is_read := True, no_read_at := Some now\<rparr>))))
      (\<lambda>_. bind_svc commit
      (\<lambda>_. return_svc \<lparr>ma_detail = ''All notifications marked read'', ma_marked_read = rowcount\<rparr>))))"

definition alert_rule_to_read :: "AlertRule \<Rightarrow> AlertRuleRead" where
  "alert_rule_to_read rule =
     \<lparr>ald_id = al_id rule, ald_name = al_name rule, ald_description = al_description rule, ald_source = al_source rule,
      ald_condition = al_condition rule, ald_threshold_severity = NotificationSeverity_value (al_threshold_severity rule),
      ald_channel = AlertChannel_value (al_channel rule), ald_target = al_target rule, ald_is_enabled = al_is_enabled rule,
      ald_created_by = al_created_by rule, ald_last_triggered_at = al_last_triggered_at rule,
      ald_trigger_count = al_trigger_count rule, ald_created_at = al_created_at rule\<rparr>"

definition list_alert_rules :: "string option \<Rightarrow> bool option \<Rightarrow> ('z notify_db_scheme, AlertRuleRead list) svc" where
  "list_alert_rules source is_enabled =
     query (\<lambda>d. map alert_rule_to_read (sort_key al_name
       (filter (\<lambda>r. (truthy source \<longrightarrow> source = Some (al_source r))
          \<and> (case is_enabled of None \<Rightarrow> True | Some b \<Rightarrow> al_is_enabled r = b)) (alert_rules d))))"

definition get_rule_orm :: "uuid \<Rightarrow> ('z notify_db_scheme, AlertRule) svc" where
  "get_rule_orm rule_id =
     bind_svc (query (\<lambda>d. get_row al_id rule_id (alert_rules d)))
     (\<lambda>rule. case rule of
        None \<Rightarrow> raise_svc (HTTPException 404 ''Alert rule not found'')
      | Some r \<Rightarrow> return_svc r)"

definition create_alert_rule ::
  "uuid \<Rightarrow> datetime \<Rightarrow> AlertRuleCreate \<Rightarrow> string \<Rightarrow> ('z notify_db_scheme, AlertRuleRead) svc" where
  "create_alert_rule rule_id created payload created_by =
     bind_svc (query_e (\<lambda>d. scalar_one_or_none (filter (\<lambda>r. al_name r = aln_name payload) (alert_rules d))))
     (\<lambda>existing.
        if existing \<noteq> None then raise_svc (HTTPException 409 ''An alert rule with this name already exists'')
        else
          let rule = \<lparr>al_id = rule_id, al_name = aln_name payload, al_description = aln_description payload,
                 al_source = aln_source payload, al_condition = aln_condition payload,
                 al_threshold_severity = aln_threshold_severity payload, al_channel = aln_channel payload,
                 al_target = aln_target payload, al_is_enabled = aln_is_enabled payload, al_created_by = created_by,
                 al_last_triggered_at = None, al_trigger_count = 0, al_created_at = created\<rparr>
          in bind_svc (flush (insert_alert_rule rule))
             (\<lambda>_. bind_svc commit (\<lambda>_. return_svc (alert_rule_to_read rule))))"

text \<open>\<^verbatim>\<open>setattr\<close> for the fields sent; the flush sends the row and refuses a required field set to \<^verbatim>\<open>null\<close>.\<close>

definition apply_rule_update :: "AlertRuleUpdate \<Rightarrow> AlertRule \<Rightarrow> AlertRule" where
  "apply_rule_update p r = r
     \<lparr>al_name := set_required (alu_name p) (al_name r), al_description := set_nullable (alu_description p) (al_description r),
      al_source := set_required (alu_source p) (al_source r), al_condition := set_required (alu_condition p) (al_condition r),
      al_threshold_severity := set_required (alu_threshold_severity p) (al_threshold_severity r),
      al_channel := set_required (alu_channel p) (al_channel r), al_target := set_required (alu_target p) (al_target r),
      al_is_enabled := set_required (alu_is_enabled p) (al_is_enabled r)\<rparr>"

definition nulls_required_rule_column :: "AlertRuleUpdate \<Rightarrow> bool" where
  "nulls_required_rule_column p \<longleftrightarrow>
     alu_name p = Some None \<or> alu_source p = Some None \<or> alu_condition p = Some None \<or> alu_threshold_severity p = Some None
     \<or> alu_channel p = Some None \<or> alu_target p = Some None \<or> alu_is_enabled p = Some None"

definition flush_rule_update :: "AlertRuleUpdate \<Rightarrow> AlertRule \<Rightarrow> 'z notify_db_scheme \<Rightarrow> error + 'z notify_db_scheme" where
  "flush_rule_update p rule d =
     (let rule' = apply_rule_update p rule in
      if \<not> rule_columns_ok rule' then Inl (DataError ''alert_rules'')
      else if nulls_required_rule_column p then Inl (IntegrityError ''alert_rules: null value'')
      else if \<exists>r \<in> set (alert_rules d). al_id r \<noteq> al_id rule \<and> al_name r = al_name rule'
        then Inl (IntegrityError ''alert_rules.name'')
      else Inr (d\<lparr>alert_rules := update_where (\<lambda>r. al_id r = al_id rule) (\<lambda>_. rule') (alert_rules d)\<rparr>))"

definition update_alert_rule :: "uuid \<Rightarrow> AlertRuleUpdate \<Rightarrow> ('z notify_db_scheme, AlertRuleRead) svc" where
  "update_alert_rule rule_id payload =
     bind_svc (get_rule_orm rule_id)
     (\<lambda>rule. bind_svc
        (case alu_name payload of
           Some (Some new_name) \<Rightarrow>
             if new_name \<noteq> al_name rule then
               bind_svc (query_e (\<lambda>d. scalar_one_or_none
                  (filter (\<lambda>r. al_name r = new_name \<and> al_id r \<noteq> al_id rule) (alert_rules d))))
               (\<lambda>clash. if clash \<noteq> None then raise_svc (HTTPException 409 ''An alert rule with this name already exists'')
                        else return_svc ())
             else return_svc ()
         | _ \<Rightarrow> return_svc ())
     (\<lambda>_. bind_svc (flush (flush_rule_update payload rule))
     (\<lambda>_. bind_svc commit (\<lambda>_. return_svc (alert_rule_to_read (apply_rule_update payload rule))))))"

definition delete_alert_rule :: "uuid \<Rightarrow> ('z notify_db_scheme, unit) svc" where
  "delete_alert_rule rule_id =
     bind_svc (get_rule_orm rule_id)
     (\<lambda>rule. bind_svc (modify_db (alert_rules_update (delete_where (\<lambda>r. al_id r = al_id rule))))
     (\<lambda>_. commit))"

section \<open>api/v1/endpoints/notifications.py\<close>

definition read_notifications ::
  "'p platform_scheme \<Rightarrow> Settings \<Rightarrow> datetime \<Rightarrow> string option \<Rightarrow> bool \<Rightarrow> string option \<Rightarrow> nat \<Rightarrow>
   ('z notify_db_scheme, NotificationRead list) svc" where
  "read_notifications pf st now cred unread_only category limit =
     bind_svc (get_current_user pf st now cred)
     (\<lambda>current_user. validated (1 \<le> limit \<and> limit \<le> 200)
        (list_notifications (u_id current_user) unread_only category limit))"

definition read_unread_count ::
  "'p platform_scheme \<Rightarrow> Settings \<Rightarrow> datetime \<Rightarrow> string option \<Rightarrow> ('z notify_db_scheme, UnreadCountResponse) svc" where
  "read_unread_count pf st now cred =
     bind_svc (get_current_user pf st now cred) (\<lambda>current_user. get_unread_count (u_id current_user))"

definition mark_all_notifications_read ::
  "'p platform_scheme \<Rightarrow> Settings \<Rightarrow> datetime \<Rightarrow> string option \<Rightarrow> datetime \<Rightarrow> ('z notify_db_scheme, MarkAllReadResponse) svc" where
  "mark_all_notifications_read pf st now cred now' =
     bind_svc (get_current_user pf st now cred) (\<lambda>current_user. mark_all_read now' (u_id current_user))"

definition mark_notification_as_read ::
  "'p platform_scheme \<Rightarrow> Settings \<Rightarrow> datetime \<Rightarrow> string option \<Rightarrow> datetime \<Rightarrow> uuid \<Rightarrow> ('z notify_db_scheme, NotificationRead) svc" where
  "mark_notification_as_read pf st now cred now' notification_id =
     bind_svc (get_current_user pf st now cred)
     (\<lambda>current_user. mark_notification_read now' (u_id current_user) notification_id)"

text \<open>The router of the alert rules depends on \<^verbatim>\<open>require_admin\<close>.\<close>

definition read_alert_rules ::
  "'p platform_scheme \<Rightarrow> Settings \<Rightarrow> datetime \<Rightarrow> string option \<Rightarrow> bool option \<Rightarrow> string option \<Rightarrow>
   ('z notify_db_scheme, AlertRuleRead list) svc" where
  "read_alert_rules pf st now source is_enabled cred =
     bind_svc (require_admin pf st now cred) (\<lambda>_. list_alert_rules source is_enabled)"

definition create_new_alert_rule ::
  "'p platform_scheme \<Rightarrow> Settings \<Rightarrow> datetime \<Rightarrow> uuid \<Rightarrow> datetime \<Rightarrow> AlertRuleCreate \<Rightarrow> string option \<Rightarrow>
   ('z notify_db_scheme, AlertRuleRead) svc" where
  "create_new_alert_rule pf st now rule_id created payload cred =
     bind_svc (require_admin pf st now cred)
     (\<lambda>current_user. validated (valid_AlertRuleCreate payload)
        (create_alert_rule rule_id created payload (u_email current_user)))"

definition patch_alert_rule ::
  "'p platform_scheme \<Rightarrow> Settings \<Rightarrow> datetime \<Rightarrow> uuid \<Rightarrow> AlertRuleUpdate \<Rightarrow> string option \<Rightarrow> ('z notify_db_scheme, AlertRuleRead) svc" where
  "patch_alert_rule pf st now rule_id payload cred =
     bind_svc (require_admin pf st now cred)
     (\<lambda>_. validated (valid_AlertRuleUpdate payload) (update_alert_rule rule_id payload))"

definition remove_alert_rule ::
  "'p platform_scheme \<Rightarrow> Settings \<Rightarrow> datetime \<Rightarrow> uuid \<Rightarrow> string option \<Rightarrow> ('z notify_db_scheme, unit) svc" where
  "remove_alert_rule pf st now rule_id cred = bind_svc (require_admin pf st now cred) (\<lambda>_. delete_alert_rule rule_id)"

interpretation read_alert_rules_ep: admin_endpoint pf st now "read_alert_rules pf st now source is_enabled"
    "\<lambda>_. list_alert_rules source is_enabled"
  for pf :: "'p platform_scheme" and st now source is_enabled
  by unfold_locales (simp add: read_alert_rules_def)

interpretation create_new_alert_rule_ep: admin_endpoint pf st now "create_new_alert_rule pf st now rule_id created payload"
    "\<lambda>current_user. validated (valid_AlertRuleCreate payload) (create_alert_rule rule_id created payload (u_email current_user))"
  for pf :: "'p platform_scheme" and st now rule_id created payload
  by unfold_locales (simp add: create_new_alert_rule_def)

interpretation patch_alert_rule_ep: admin_endpoint pf st now "patch_alert_rule pf st now rule_id payload"
    "\<lambda>_. validated (valid_AlertRuleUpdate payload) (update_alert_rule rule_id payload)"
  for pf :: "'p platform_scheme" and st now rule_id payload
  by unfold_locales (simp add: patch_alert_rule_def)

interpretation remove_alert_rule_ep: admin_endpoint pf st now "remove_alert_rule pf st now rule_id" "\<lambda>_. delete_alert_rule rule_id"
  for pf :: "'p platform_scheme" and st now rule_id
  by unfold_locales (simp add: remove_alert_rule_def)

end
