(* ===== verification/ComplianceModels.thy ===== *)
theory ComplianceModels
  imports Notifications
begin

text \<open>
  The rows of \<^verbatim>\<open>src/app/models/compliance.py\<close> and the schemas of \<^verbatim>\<open>src/app/schemas/compliance.py\<close>. Columns that
  nothing reads are left out.
\<close>

section \<open>models/compliance.py\<close>

datatype FrameworkCode = SOC2 | ISO27001 | GDPR | HIPAA

fun FrameworkCode_value :: "FrameworkCode \<Rightarrow> string" where
  "FrameworkCode_value SOC2 = ''soc2''"
| "FrameworkCode_value ISO27001 = ''iso27001''"
| "FrameworkCode_value GDPR = ''gdpr''"
| "FrameworkCode_value HIPAA = ''hipaa''"

text \<open>An enumeration column without \<^verbatim>\<open>values_callable\<close> stores the name of the member, which ORDER BY compares.\<close>

fun FrameworkCode_name :: "FrameworkCode \<Rightarrow> string" where
  "FrameworkCode_name SOC2 = ''SOC2''"
| "FrameworkCode_name ISO27001 = ''ISO27001''"
| "FrameworkCode_name GDPR = ''GDPR''"
| "FrameworkCode_name HIPAA = ''HIPAA''"

record ComplianceFramework =
  fw_id :: uuid
  fw_code :: FrameworkCode
  fw_display_name :: string
  fw_subtitle :: string
  fw_description :: string
  fw_auditor :: "string option"
  fw_certified :: bool
  fw_cert_expires_at :: "datetime option"
  fw_score :: rat

datatype ControlStatus = MAPPED | PARTIAL | GAP | NOT_APPLICABLE

fun ControlStatus_value :: "ControlStatus \<Rightarrow> string" where
  "ControlStatus_value MAPPED = ''mapped''"
| "ControlStatus_value PARTIAL = ''partial''"
| "ControlStatus_value GAP = ''gap''"
| "ControlStatus_value NOT_APPLICABLE = ''not_applicable''"

record ControlMapping =
  cm_id :: uuid
  cm_framework_id :: uuid
  cm_control_domain :: string
  cm_control_description :: string
  cm_control_code :: string
  cm_status :: ControlStatus

datatype ViolationSeverity = VIOLATION | REVIEW

fun ViolationSeverity_value :: "ViolationSeverity \<Rightarrow> string" where
  "ViolationSeverity_value VIOLATION = ''violation''"
| "ViolationSeverity_value REVIEW = ''review''"

datatype ViolationStatus = OPEN | RESOLVED

fun ViolationStatus_value :: "ViolationStatus \<Rightarrow> string" where
  "ViolationStatus_value ViolationStatus.OPEN = ''open''"
| "ViolationStatus_value ViolationStatus.RESOLVED = ''resolved''"

record ComplianceViolation =
  vi_id :: uuid
  vi_framework_id :: uuid
  vi_severity :: ViolationSeverity
  vi_status :: ViolationStatus
  vi_control_reference :: string
  vi_title :: string
  vi_description :: string
  vi_detected_at :: datetime
  vi_resolved_at :: "datetime option"
  vi_resolution_note :: "string option"

record SchemaValidationResult =
  vr_endpoint_path :: string
  vr_schema_ref :: string
  vr_passed :: bool
  vr_error_message :: "string option"
  vr_tenant_slug :: "string option"
  vr_reference_id :: "string option"
  vr_validated_at :: datetime

datatype AssessmentStatus = IN_PROGRESS | COMPLETED

fun AssessmentStatus_value :: "AssessmentStatus \<Rightarrow> string" where
  "AssessmentStatus_value AssessmentStatus.IN_PROGRESS = ''in_progress''"
| "AssessmentStatus_value AssessmentStatus.COMPLETED = ''completed''"

record ComplianceAssessment =
  as_id :: uuid
  as_framework_id :: uuid
  as_status :: AssessmentStatus
  as_started_by :: string
  as_started_at :: datetime
  as_completed_at :: "datetime option"
  as_score :: "rat option"
  as_total_controls :: "nat option"
  as_mapped_controls :: "nat option"
  as_gap_controls :: "nat option"
  as_notes :: "string option"

record ComplianceScoreSnapshot =
  sn_framework_id :: uuid
  sn_score :: rat
  sn_captured_at :: datetime

record compliance_db = notify_db +
  compliance_frameworks :: "ComplianceFramework list"
  control_mappings :: "ControlMapping list"
  compliance_violations :: "ComplianceViolation list"
  schema_validation_results :: "SchemaValidationResult list"
  compliance_assessments :: "ComplianceAssessment list"
  compliance_score_snapshots :: "ComplianceScoreSnapshot list"

text \<open>What the database checks when a new assessment is flushed.\<close>

definition insert_assessment :: "ComplianceAssessment \<Rightarrow> 'z compliance_db_scheme \<Rightarrow> error + 'z compliance_db_scheme" where
  "insert_assessment a d =
     (if \<not> text_fits_opt 255 (Some (as_started_by a)) then Inl (DataError ''compliance_assessments'')
      else if as_framework_id a \<notin> fw_id ` set (compliance_frameworks d)
      then Inl (IntegrityError ''compliance_assessments.framework_id'')
      else (case insert_row as_id a (compliance_assessments d) of
              Inl x \<Rightarrow> Inl x
            | Inr rs \<Rightarrow> Inr (d\<lparr>compliance_assessments := rs\<rparr>)))"

section \<open>schemas/compliance.py\<close>

record ControlMappingRead =
  cmr_control_domain :: string
  cmr_control_description :: string
  cmr_control_code :: string
  cmr_status :: string

record FrameworkRead =
  fwr_id :: uuid
  fwr_code :: string
  fwr_display_name :: string
  fwr_subtitle :: string
  fwr_description :: string
  fwr_auditor :: "string option"
  fwr_certified :: bool
  fwr_cert_expires_at :: "datetime option"
  fwr_score :: rat
  fwr_open_violation_count :: int
  fwr_control_breakdown :: "ControlMappingRead list"

record ControlCoverageRow =
  ccw_control_domain :: string
  ccw_control_description :: string
  ccw_per_framework :: "(string \<times> ControlMappingRead) list"
  ccw_coverage_percent :: rat

record ViolationRead =
  vir_id :: uuid
  vir_framework_code :: string
  vir_severity :: string
  vir_status :: string
  vir_control_reference :: string
  vir_title :: string
  vir_description :: string
  vir_detected_at :: datetime
  vir_resolved_at :: "datetime option"
  vir_resolution_note :: "string option"

record SchemaValidationRow =
  svw_endpoint_path :: string
  svw_schema_ref :: string
  svw_passed :: bool
  svw_error_message :: "string option"
  svw_tenant_slug :: "string option"
  svw_reference_id :: "string option"
  svw_validated_at :: datetime

record SchemaValidationSummary =
  svs_total_today :: nat
  svs_pass_rate_percent :: rat
  svs_failure_count :: nat
  svs_failures :: "SchemaValidationRow list"

record ComplianceOverview =
  cov_overall_score :: rat
  cov_frameworks :: "FrameworkRead list"
  cov_control_coverage :: "ControlCoverageRow list"
  cov_violations :: "ViolationRead list"
  cov_schema_validation :: SchemaValidationSummary

record ControlRead =
  ctr_id :: uuid
  ctr_framework_id :: uuid
  ctr_framework_code :: string
  ctr_control_domain :: string
  ctr_control_description :: string
  ctr_control_code :: string
  ctr_status :: string

record AssessmentRead =
  asr_id :: uuid
  asr_framework_id :: uuid
  asr_framework_code :: string
  asr_status :: string
  asr_started_by :: string
  asr_started_at :: datetime
  asr_completed_at :: "datetime option"
  asr_score :: "rat option"
  asr_total_controls :: "nat option"
  asr_mapped_controls :: "nat option"
  asr_gap_controls :: "nat option"
  asr_notes :: "string option"

record FrameworkScore =
  fsc_code :: string
  fsc_display_name :: string
  fsc_score :: rat
  fsc_certified :: bool
  fsc_open_violation_count :: int

record ComplianceSummary =
  csm_overall_score :: rat
  csm_framework_count :: nat
  csm_certified_count :: int
  csm_total_controls :: int
  csm_mapped_controls :: int
  csm_partial_controls :: int
  csm_gap_controls :: int
  csm_open_violation_count :: int
  csm_frameworks :: "FrameworkScore list"

record GapRead =
  gap_framework_id :: uuid
  gap_framework_code :: string
  gap_control_domain :: string
  gap_control_description :: string
  gap_control_code :: string
  gap_status :: string

record ScoreTrendPoint =
  stp_captured_at :: datetime
  stp_score :: rat

record ScoreTrendSeries =
  sts_framework_id :: uuid
  sts_code :: string
  sts_display_name :: string
  sts_current_score :: rat
  sts_delta :: rat
  sts_points :: "ScoreTrendPoint list"

record ScoreTrendsResponse =
  str_window_days :: nat
  str_series :: "ScoreTrendSeries list"

end
