(* ===== verification/Anomaly.thy ===== *)
theory Anomaly
  imports AnomalyModels
begin

text \<open>
  Anomalies, their life cycle in the audit log and the aggregates of the detection screen:
  \<^verbatim>\<open>src/app/services/anomaly_service.py\<close> and \<^verbatim>\<open>src/app/api/v1/endpoints/anomalies.py\<close>. The database's time zone is UTC, and a
  grouping without an order lists its groups as they first occur.
\<close>

section \<open>services/anomaly\_service.py\<close>

text \<open>\<open>fl_repr\<close> is how \<^verbatim>\<open>json.dumps\<close> prints a double, \<open>fl_round2\<close> is \<^verbatim>\<open>round(x, 2)\<close>.\<close>

record anomaly_floats = hsm_floats +
  fl_repr :: "rat \<Rightarrow> string"
  fl_sub :: "rat \<Rightarrow> rat \<Rightarrow> rat"
  fl_round2 :: "rat \<Rightarrow> rat"

definition HEATMAP_WINDOW_HOURS :: int where
  "HEATMAP_WINDOW_HOURS = 24"

definition ML_MODEL_NAME :: string where
  "ML_MODEL_NAME = ''IsolationForest v3.2''"

definition timedelta_hours :: "int \<Rightarrow> timedelta" where
  "timedelta_hours n = n * 3600000000"

definition audit_actor :: "string option \<Rightarrow> string option \<Rightarrow> string" where
  "audit_actor primary fallback =
     (if truthy primary then the primary else if truthy fallback then the fallback else ''system'')"

definition audit_metadata ::
  "'p platform_scheme \<Rightarrow> 'f anomaly_floats_scheme \<Rightarrow> AnomalyEvent \<Rightarrow> AnomalyStatus option \<Rightarrow> json" where
  "audit_metadata pf fl event previous_status =
     JDict ([(''anomaly_id'', JStr (uuid_text pf (ae_id event))), (''category'', JStr (ae_category event)),
             (''severity'', JStr (AnomalySeverity_value (ae_severity event))),
             (''status'', JStr (AnomalyStatus_value (ae_status event))), (''score'', JFloat (fl_repr fl (ae_score event))),
             (''metadata_json'', ae_metadata_json event)]
            @ (case previous_status of None \<Rightarrow> [] | Some s \<Rightarrow> [(''previous_status'', JStr (AnomalyStatus_value s))]))"

definition append_anomaly_audit ::
  "'p audit_platform_scheme \<Rightarrow> 'f anomaly_floats_scheme \<Rightarrow> fresh \<Rightarrow> AnomalyEvent \<Rightarrow> string \<Rightarrow> string \<Rightarrow> string \<Rightarrow> AnomalyStatus option \<Rightarrow>
   ('z anomaly_db_scheme, AuditLogEntry) svc" where
  "append_anomaly_audit pf fl fr event actor subtype description previous_status =
     append_entry_in_transaction pf fr
       \<lparr>alc_severity = ''info'', alc_event_type = ''anomaly_detected'', alc_event_subtype = subtype, alc_actor = actor,
        alc_description = description, alc_tenant_id = ae_tenant_id event, alc_tenant_slug = None,
        alc_source_ip = ae_source_ip event, alc_metadata_json = audit_metadata pf fl event previous_status\<rparr>"

text \<open>A new event gets its identifier and the times of its row when it is flushed.\<close>

definition new_event :: "uuid \<Rightarrow> datetime \<Rightarrow> datetime \<Rightarrow> AnomalyEventCreate \<Rightarrow> AnomalyEvent" where
  "new_event event_id now created payload =
     \<lparr>ae_id = event_id, ae_tenant_id = aec_tenant_id payload, ae_category = aec_category payload, ae_score = aec_score payload,
      ae_severity = from_score (aec_score payload), ae_status = AnomalyStatus.OPEN, ae_title = aec_title payload,
      ae_description = aec_description payload, ae_actor = aec_actor payload, ae_source_ip = aec_source_ip payload,
      ae_baseline_sigma = aec_baseline_sigma payload, ae_metadata_json = JDict (aec_metadata_json payload),
      ae_occurred_at = now, ae_resolved_at = None, ae_created_at = created, ae_updated_at = created\<rparr>"

definition create_anomaly_event ::
  "'p audit_platform_scheme \<Rightarrow> 'f anomaly_floats_scheme \<Rightarrow> fresh \<Rightarrow> uuid \<Rightarrow> datetime \<Rightarrow> datetime \<Rightarrow> AnomalyEventCreate \<Rightarrow> string option \<Rightarrow>
   ('z anomaly_db_scheme, AnomalyEvent) svc" where
  "create_anomaly_event pf fl fr event_id now created payload actor =
     (let event = new_event event_id now created payload in
      except_rollback
        (bind_svc (flush (insert_anomaly_event event))
        (\<lambda>_. bind_svc (append_anomaly_audit pf fl fr event (audit_actor actor (aec_actor payload)) ''ANOMALY_CREATED''
               (''Anomaly created: '' @ ae_title event) None)
        (\<lambda>_. bind_svc commit (\<lambda>_. return_svc event)))))"

text \<open>The counts of \<^verbatim>\<open>GROUP BY\<close> looked up with \<^verbatim>\<open>.get(key, 0)\<close> are counts of rows.\<close>

definition severity_summary :: "datetime \<Rightarrow> 'z anomaly_db_scheme \<Rightarrow> SeveritySummaryBucket list" where
  "severity_summary now d =
     (let hour_ago = now - timedelta_hours 1; two_hours_ago = now - timedelta_hours 2 in
      map (\<lambda>severity.
        let current = count_rows (\<lambda>e. ae_severity e = severity \<and> hour_ago \<le> ae_occurred_at e) (anomaly_events d);
            previous = count_rows (\<lambda>e. ae_severity e = severity \<and> two_hours_ago \<le> ae_occurred_at e \<and> ae_occurred_at e < hour_ago)
              (anomaly_events d)
        in \<lparr>ssb_severity = AnomalySeverity_value severity, ssb_count = current, ssb_trend_delta = current - previous,
            ssb_trend_window_label = ''last hour''\<rparr>)
        [AnomalySeverity.CRITICAL, AnomalySeverity.HIGH, AnomalySeverity.MEDIUM, AnomalySeverity.LOW])"

text \<open>\<^verbatim>\<open>SELECT f, count(*) ... GROUP BY f\<close>: the groups in the order of their first rows.\<close>

definition group_counts :: "('r \<Rightarrow> 'k) \<Rightarrow> 'r list \<Rightarrow> ('k \<times> int) list" where
  "group_counts f rows = map (\<lambda>k. (k, count_rows (\<lambda>r. f r = k) rows)) (rev (remdups (rev (map f rows))))"

text \<open>\<^verbatim>\<open>date_trunc('hour', t)\<close> and \<^verbatim>\<open>date_trunc('day', t)\<close>.\<close>

definition date_trunc :: "string \<Rightarrow> datetime \<Rightarrow> datetime" where
  "date_trunc interval t =
     (if interval = ''hour'' then t div 3600000000 * 3600000000 else t div 86400000000 * 86400000000)"

definition hour_of :: "datetime \<Rightarrow> int" where
  "hour_of t = t div 3600000000 mod 24"

definition percent_of :: "'f anomaly_floats_scheme \<Rightarrow> int \<Rightarrow> int \<Rightarrow> rat" where
  "percent_of fl n whole = fl_round1 fl (fl_mul fl (fl_div fl (of_int n) (of_int whole)) 100)"

definition heatmap :: "'f anomaly_floats_scheme \<Rightarrow> datetime \<Rightarrow> 'z anomaly_db_scheme \<Rightarrow> HeatmapCell list" where
  "heatmap fl now d =
     (let since = now - timedelta_hours HEATMAP_WINDOW_HOURS;
          rows = group_counts (\<lambda>e. (date_trunc ''hour'' (ae_occurred_at e), ae_severity e))
            (filter (\<lambda>e. since \<le> ae_occurred_at e) (anomaly_events d))
      in if rows = [] then []
         else let m = fold max (map snd rows) 0; max_count = (if m = 0 then 1 else m) in
           map (\<lambda>((bucket, severity), n).
             \<lparr>hmc_hour = hour_of bucket, hmc_severity = AnomalySeverity_value severity, hmc_count = n,
              hmc_intensity_percent = percent_of fl n max_count\<rparr>) rows)"

definition threat_categories :: "'f anomaly_floats_scheme \<Rightarrow> datetime \<Rightarrow> 'z anomaly_db_scheme \<Rightarrow> ThreatCategoryStat list" where
  "threat_categories fl now d =
     (let since = now - timedelta_hours HEATMAP_WINDOW_HOURS;
          rows = order_by_desc snd (group_counts ae_category (filter (\<lambda>e. since \<le> ae_occurred_at e) (anomaly_events d)));
          whole = sum_list (map snd rows)
      in if whole = 0 then []
         else map (\<lambda>(category, n). \<lparr>tcs_category = category, tcs_count = n, tcs_percent = percent_of fl n whole\<rparr>) rows)"

definition baselines :: "'f anomaly_floats_scheme \<Rightarrow> 'z anomaly_db_scheme \<Rightarrow> BehavioralBaselineRead list" where
  "baselines fl d = map (\<lambda>b.
     \<lparr>bbr_metric_key = bb_metric_key b, bbr_label = bb_label b, bbr_baseline_value = bb_baseline_value b,
      bbr_current_value = bb_current_value b, bbr_unit = bb_unit b, bbr_upper_bound = bb_upper_bound b,
      bbr_percent_of_upper_bound =
        (if bb_upper_bound b \<noteq> 0
         then fl_round1 fl (min 100 (fl_mul fl (fl_div fl (bb_current_value b) (bb_upper_bound b)) 100)) else 0),
      bbr_deviation_multiple =
        (if bb_baseline_value b \<noteq> 0 then fl_round2 fl (fl_div fl (bb_current_value b) (bb_baseline_value b)) else 0)\<rparr>)
     (sort_key bb_label (behavioral_baselines d))"

text \<open>\<^verbatim>\<open>round(x)\<close>: to the nearest integer, a tie to the even one.\<close>

definition py_round :: "rat \<Rightarrow> int" where
  "py_round x =
     (let f = \<lfloor>x\<rfloor>; r = x - of_int f in
      if r < 1 / 2 then f else if 1 / 2 < r then f + 1 else if even f then f else f + 1)"

definition incident_to_read :: "'f anomaly_floats_scheme \<Rightarrow> datetime \<Rightarrow> Incident \<Rightarrow> IncidentRead" where
  "incident_to_read fl now incident =
     (let remaining =
            (if inc_status incident \<noteq> IncidentStatus.RESOLVED
             then Some (py_round (fl_sub fl (of_int (inc_sla_minutes incident))
                    (fl_div fl (total_seconds fl (now - inc_created_at incident)) 60)))
             else None)
      in \<lparr>ir_id = inc_id incident, ir_code = inc_code incident, ir_severity = IncidentSeverity_value (inc_severity incident),
          ir_status = IncidentStatus_value (inc_status incident), ir_summary = inc_summary incident,
          ir_sla_minutes = inc_sla_minutes incident, ir_sla_remaining_minutes = remaining,
          ir_is_overdue = (case remaining of None \<Rightarrow> False | Some r \<Rightarrow> r < 0),
          ir_created_at = inc_created_at incident, ir_resolved_at = inc_resolved_at incident\<rparr>)"

text \<open>Every aggregate takes its own reading of the clock, an incident too.\<close>

definition get_anomaly_detection_overview ::
  "'f anomaly_floats_scheme \<Rightarrow> datetime \<Rightarrow> datetime \<Rightarrow> datetime \<Rightarrow> datetime \<Rightarrow> (uuid \<Rightarrow> datetime) \<Rightarrow> ('z anomaly_db_scheme, AnomalyDetectionOverview) svc" where
  "get_anomaly_detection_overview fl now now_summary now_heatmap now_categories now_incident =
     query (\<lambda>d.
       \<lparr>ado_stream_events_per_second = of_int (count_rows (\<lambda>e. now - 1000000 \<le> ae_occurred_at e) (anomaly_events d)),
        ado_ml_model_name = ML_MODEL_NAME, ado_severity_summary = severity_summary now_summary d,
        ado_recent_events = map AnomalyEventRead_validate (take 25 (order_by_desc ae_occurred_at (anomaly_events d))),
        ado_baselines = baselines fl d, ado_heatmap = heatmap fl now_heatmap d,
        ado_threat_categories = threat_categories fl now_categories d,
        ado_incidents = map (\<lambda>i. incident_to_read fl (now_incident (inc_id i)) i) (order_by_desc inc_created_at (incidents d))\<rparr>)"

text \<open>
  The new status of an event. The flush sends an UPDATE, which sets \<^verbatim>\<open>updated_at\<close>, only for a row
  whose columns changed.
\<close>

definition with_status :: "datetime \<Rightarrow> AnomalyStatus \<Rightarrow> AnomalyEvent \<Rightarrow> AnomalyEvent" where
  "with_status now status_value event =
     event\<lparr>ae_status := status_value,
       ae_resolved_at := (if status_value = AnomalyStatus.RESOLVED then Some now
                          else if status_value = AnomalyStatus.OPEN then None else ae_resolved_at event)\<rparr>"

definition flushed_event :: "datetime \<Rightarrow> AnomalyEvent \<Rightarrow> AnomalyEvent \<Rightarrow> AnomalyEvent" where
  "flushed_event updated old new = (if new = old then old else new\<lparr>ae_updated_at := updated\<rparr>)"

text \<open>One transition with its audit entry, shared by the single and the bulk update.\<close>

definition transition ::
  "'p audit_platform_scheme \<Rightarrow> 'f anomaly_floats_scheme \<Rightarrow> fresh \<Rightarrow> datetime \<Rightarrow> datetime \<Rightarrow> AnomalyStatus \<Rightarrow> string option \<Rightarrow> AnomalyEvent \<Rightarrow>
   ('z anomaly_db_scheme, AnomalyEvent) svc" where
  "transition pf fl fr now updated status_value actor event =
     (let new = flushed_event updated event (with_status now status_value event) in
      bind_svc (modify_db (anomaly_events_update (update_where (\<lambda>e. ae_id e = ae_id event) (\<lambda>_. new))))
      (\<lambda>_. bind_svc (append_anomaly_audit pf fl fr new (audit_actor actor (ae_actor event)) ''ANOMALY_STATUS_UPDATED''
             (''Anomaly status updated: '' @ AnomalyStatus_value (ae_status event) @ '' -> '' @ AnomalyStatus_value status_value)
             (Some (ae_status event)))
      (\<lambda>_. return_svc new)))"

definition update_anomaly_status ::
  "'p audit_platform_scheme \<Rightarrow> 'f anomaly_floats_scheme \<Rightarrow> fresh \<Rightarrow> datetime \<Rightarrow> datetime \<Rightarrow> uuid \<Rightarrow> AnomalyStatus \<Rightarrow> string option \<Rightarrow>
   ('z anomaly_db_scheme, AnomalyEvent option) svc" where
  "update_anomaly_status pf fl fr now updated event_id status_value actor =
     except_rollback
       (bind_svc (query (\<lambda>d. get_row ae_id event_id (anomaly_events d)))
       (\<lambda>found. case found of
          None \<Rightarrow> bind_svc rollback (\<lambda>_. return_svc None)
        | Some event \<Rightarrow>
            bind_svc (transition pf fl fr now updated status_value actor event)
            (\<lambda>new. bind_svc commit (\<lambda>_. return_svc (Some new)))))"

definition get_anomaly_event :: "uuid \<Rightarrow> ('z anomaly_db_scheme, AnomalyEvent) svc" where
  "get_anomaly_event event_id =
     bind_svc (query (\<lambda>d. get_row ae_id event_id (anomaly_events d)))
     (\<lambda>event. case event of
        None \<Rightarrow> raise_svc (HTTPException 404 ''Anomaly not found'')
      | Some e \<Rightarrow> return_svc e)"

record anomaly_filter =
  af_status :: "AnomalyStatus option"
  af_severity :: "AnomalySeverity option"
  af_category :: "string option"
  af_tenant_id :: "uuid option"

definition anomaly_matches :: "anomaly_filter \<Rightarrow> AnomalyEvent \<Rightarrow> bool" where
  "anomaly_matches f e \<longleftrightarrow>
     (case af_status f of None \<Rightarrow> True | Some s \<Rightarrow> ae_status e = s)
     \<and> (case af_severity f of None \<Rightarrow> True | Some s \<Rightarrow> ae_severity e = s)
     \<and> (truthy (af_category f) \<longrightarrow> af_category f = Some (ae_category e))
     \<and> (case af_tenant_id f of None \<Rightarrow> True | Some i \<Rightarrow> ae_tenant_id e = Some i)"

definition list_anomaly_events ::
  "nat \<Rightarrow> nat \<Rightarrow> anomaly_filter \<Rightarrow> ('z anomaly_db_scheme, AnomalyEventRead list \<times> nat) svc" where
  "list_anomaly_events page page_size f =
     query (\<lambda>d. let found = filter (anomaly_matches f) (anomaly_events d) in
       (map AnomalyEventRead_validate (page_of page page_size (order_by_desc ae_occurred_at found)), length found))"

text \<open>
  \<^verbatim>\<open>metadata_json ->> key\<close>: the text of a field. The text of a dictionary or a list starts with a bracket
  and is never that of an identifier.
\<close>

definition json_field_text :: "json \<Rightarrow> string \<Rightarrow> string option" where
  "json_field_text v key =
     (case v of
        JDict kvs \<Rightarrow> (case map_of kvs key of
            Some (JStr s) \<Rightarrow> Some s
          | Some (JInt i) \<Rightarrow> Some (show_int i)
          | Some (JFloat r) \<Rightarrow> Some r
          | Some (JBool b) \<Rightarrow> Some (if b then ''true'' else ''false'')
          | _ \<Rightarrow> None)
      | _ \<Rightarrow> None)"

text \<open>
  \<^verbatim>\<open>(row.metadata_json or {}).get(key)\<close>, a field of type \<^verbatim>\<open>str | None\<close> of the answer: another value is a
  validation error.
\<close>

definition metadata_text :: "json \<Rightarrow> string \<Rightarrow> error + string option" where
  "metadata_text v key =
     (case v of
        JDict kvs \<Rightarrow> (case map_of kvs key of
            None \<Rightarrow> Inr None
          | Some JNull \<Rightarrow> Inr None
          | Some (JStr s) \<Rightarrow> Inr (Some s)
          | Some _ \<Rightarrow> Inl (DataError ''AnomalyHistoryEntry''))
      | _ \<Rightarrow> if v \<in> {JNull, JBool False, JInt 0, JStr [], JList []} then Inr None else Inl (AttributeError ''get''))"

definition history_entry :: "AuditLogEntry \<Rightarrow> error + AnomalyHistoryEntry" where
  "history_entry row =
     (case metadata_text (ale_metadata_json row) ''previous_status'' of
        Inl x \<Rightarrow> Inl x
      | Inr previous \<Rightarrow>
          (case metadata_text (ale_metadata_json row) ''status'' of
             Inl x \<Rightarrow> Inl x
           | Inr new \<Rightarrow> Inr
               \<lparr>ahe_sequence = ale_sequence row, ahe_occurred_at = ale_occurred_at row, ahe_actor = ale_actor row,
                ahe_subtype = ale_event_subtype row, ahe_description = ale_description row,
                ahe_previous_status = previous, ahe_new_status = new\<rparr>))"

definition history_rows :: "'p platform_scheme \<Rightarrow> uuid \<Rightarrow> 'z audit_db_scheme \<Rightarrow> AuditLogEntry list" where
  "history_rows pf event_id d = sort_key ale_sequence
     (filter (\<lambda>row. ale_event_type row = AuditEventType.ANOMALY_DETECTED
        \<and> json_field_text (ale_metadata_json row) ''anomaly_id'' = Some (uuid_text pf event_id)) (audit_log_entries d))"

definition get_anomaly_history ::
  "'p platform_scheme \<Rightarrow> uuid \<Rightarrow> ('z anomaly_db_scheme, AnomalyHistoryEntry list) svc" where
  "get_anomaly_history pf event_id =
     bind_svc (get_anomaly_event event_id)
     (\<lambda>_. query_e (\<lambda>d. map_e history_entry (history_rows pf event_id d)))"

text \<open>\<open>n\<close> numbers the transitions of a batch, which all take the reading \<open>now\<close>.\<close>

fun transitions ::
  "'p audit_platform_scheme \<Rightarrow> 'f anomaly_floats_scheme \<Rightarrow> (nat \<Rightarrow> fresh) \<Rightarrow> datetime \<Rightarrow> (nat \<Rightarrow> datetime) \<Rightarrow> AnomalyStatus \<Rightarrow> string option \<Rightarrow>
   nat \<Rightarrow> AnomalyEvent list \<Rightarrow> ('z anomaly_db_scheme, unit) svc" where
  "transitions pf fl frs now updated status_value actor n [] = return_svc ()"
| "transitions pf fl frs now updated status_value actor n (event # events) =
     bind_svc (transition pf fl (frs n) now (updated n) status_value actor event)
     (\<lambda>_. transitions pf fl frs now updated status_value actor (Suc n) events)"

definition bulk_update_anomaly_status ::
  "'p audit_platform_scheme \<Rightarrow> 'f anomaly_floats_scheme \<Rightarrow> (nat \<Rightarrow> fresh) \<Rightarrow> datetime \<Rightarrow> (nat \<Rightarrow> datetime) \<Rightarrow> uuid list \<Rightarrow> AnomalyStatus \<Rightarrow> string option \<Rightarrow>
   ('z anomaly_db_scheme, BulkStatusResponse) svc" where
  "bulk_update_anomaly_status pf fl frs now updated event_ids status_value actor =
     (let unique_ids = dict_fromkeys event_ids in
      bind_svc
        (except_rollback
          (bind_svc (query (\<lambda>d. filter (\<lambda>e. ae_id e \<in> set unique_ids) (anomaly_events d)))
          (\<lambda>events. bind_svc (transitions pf fl frs now updated status_value actor 0 events)
          (\<lambda>_. bind_svc commit (\<lambda>_. return_svc events)))))
        (\<lambda>events.
          let found_by_id = ae_id ` set events;
              updated_ids = filter (\<lambda>i. i \<in> found_by_id) unique_ids;
              not_found_ids = filter (\<lambda>i. i \<notin> found_by_id) unique_ids
          in return_svc \<lparr>bsr_new_status = AnomalyStatus_value status_value, bsr_requested = length unique_ids,
               bsr_updated = length updated_ids, bsr_updated_ids = updated_ids, bsr_not_found_ids = not_found_ids\<rparr>))"

definition get_anomaly_trends ::
  "datetime \<Rightarrow> datetime \<Rightarrow> string \<Rightarrow> ('z anomaly_db_scheme, AnomalyTrends) svc" where
  "get_anomaly_trends from_timestamp to_timestamp interval =
     query (\<lambda>d.
       let rows = sort_key (\<lambda>((bucket, _), _). bucket)
             (group_counts (\<lambda>e. (date_trunc interval (ae_occurred_at e), ae_severity e))
               (filter (\<lambda>e. from_timestamp \<le> ae_occurred_at e \<and> ae_occurred_at e \<le> to_timestamp) (anomaly_events d)))
       in \<lparr>atr_interval = interval, atr_from_timestamp = from_timestamp, atr_to_timestamp = to_timestamp,
           atr_buckets = map (\<lambda>((bucket, severity), n).
             \<lparr>atb_bucket = bucket, atb_severity = AnomalySeverity_value severity, atb_count = n\<rparr>) rows\<rparr>)"

definition get_anomaly_types :: "('z anomaly_db_scheme, AnomalyTypesResponse) svc" where
  "get_anomaly_types =
     query (\<lambda>d.
       \<lparr>aty_categories = map (\<lambda>(category, n).
          \<lparr>ats_category = category, ats_total = n,
           ats_open_count = count_rows (\<lambda>e. ae_category e = category \<and> ae_status e \<in> {AnomalyStatus.OPEN, AnomalyStatus.INVESTIGATING})
             (anomaly_events d)\<rparr>)
          (order_by_desc snd (group_counts ae_category (anomaly_events d))),
        aty_severities = map AnomalySeverity_value [AnomalySeverity.CRITICAL, AnomalySeverity.HIGH, AnomalySeverity.MEDIUM, AnomalySeverity.LOW],
        aty_statuses = map AnomalyStatus_value
          [AnomalyStatus.OPEN, AnomalyStatus.INVESTIGATING, AnomalyStatus.RESOLVED, AnomalyStatus.DISMISSED]\<rparr>)"

section \<open>api/v1/endpoints/anomalies.py\<close>

definition read_anomaly_overview ::
  "'p platform_scheme \<Rightarrow> 'f anomaly_floats_scheme \<Rightarrow> Settings \<Rightarrow> datetime \<Rightarrow> datetime \<Rightarrow> datetime \<Rightarrow> datetime \<Rightarrow> datetime \<Rightarrow> (uuid \<Rightarrow> datetime) \<Rightarrow>
   string option \<Rightarrow> ('z anomaly_db_scheme, AnomalyDetectionOverview) svc" where
  "read_anomaly_overview pf fl st now now_rate now_summary now_heatmap now_categories now_incident cred =
     bind_svc (get_current_user pf st now cred)
     (\<lambda>_. get_anomaly_detection_overview fl now_rate now_summary now_heatmap now_categories now_incident)"

text \<open>A time without an offset fails when asyncpg binds it to a column with a time zone.\<close>

definition bound_time :: "query_time \<Rightarrow> ('d, datetime) svc" where
  "bound_time t =
     (case t of
        (wall, None) \<Rightarrow> raise_svc (DataError ''timestamptz'')
      | (wall, Some off) \<Rightarrow> return_svc (wall - off))"

definition read_anomaly_trends ::
  "'p platform_scheme \<Rightarrow> Settings \<Rightarrow> datetime \<Rightarrow> datetime \<Rightarrow> string option \<Rightarrow> query_time option \<Rightarrow> query_time option \<Rightarrow> string \<Rightarrow>
   ('z anomaly_db_scheme, AnomalyTrends) svc" where
  "read_anomaly_trends pf st now now' cred from_timestamp to_timestamp interval =
     bind_svc (get_current_user pf st now cred)
     (\<lambda>_. validated (interval = ''hour'' \<or> interval = ''day'')
        (let to_timestamp = (case to_timestamp of None \<Rightarrow> (now', Some 0) | Some t \<Rightarrow> t);
             from_timestamp = (case from_timestamp of None \<Rightarrow> (fst to_timestamp - timedelta_days 7, snd to_timestamp) | Some t \<Rightarrow> t)
         in bind_svc (bound_time from_timestamp)
            (\<lambda>f. bind_svc (bound_time to_timestamp) (\<lambda>t. get_anomaly_trends f t interval))))"

definition read_anomaly_types ::
  "'p platform_scheme \<Rightarrow> Settings \<Rightarrow> datetime \<Rightarrow> string option \<Rightarrow> ('z anomaly_db_scheme, AnomalyTypesResponse) svc" where
  "read_anomaly_types pf st now cred = bind_svc (get_current_user pf st now cred) (\<lambda>_. get_anomaly_types)"

definition read_anomaly_events ::
  "'p platform_scheme \<Rightarrow> Settings \<Rightarrow> datetime \<Rightarrow> string option \<Rightarrow> nat \<Rightarrow> nat \<Rightarrow> anomaly_filter \<Rightarrow>
   ('z anomaly_db_scheme, AnomalyEventRead Page) svc" where
  "read_anomaly_events pf st now cred page page_size f =
     bind_svc (get_current_user pf st now cred)
     (\<lambda>_. validated (1 \<le> page \<and> 1 \<le> page_size \<and> page_size \<le> MAX_PAGE_SIZE st)
        (bind_svc (list_anomaly_events page page_size f)
        (\<lambda>(items, n). return_svc \<lparr>pg_items = items, pg_total = n, pg_page = page, pg_page_size = page_size\<rparr>)))"

definition bulk_acknowledge_anomaly_events ::
  "'p audit_platform_scheme \<Rightarrow> 'f anomaly_floats_scheme \<Rightarrow> Settings \<Rightarrow> datetime \<Rightarrow> string option \<Rightarrow> (nat \<Rightarrow> fresh) \<Rightarrow> datetime \<Rightarrow> (nat \<Rightarrow> datetime) \<Rightarrow>
   uuid list \<Rightarrow> ('z anomaly_db_scheme, BulkStatusResponse) svc" where
  "bulk_acknowledge_anomaly_events pf fl st now cred frs now' updated event_ids =
     bind_svc (get_current_user pf st now cred)
     (\<lambda>current_user. validated (valid_BulkStatusRequest event_ids)
        (bulk_update_anomaly_status pf fl frs now' updated event_ids AnomalyStatus.INVESTIGATING (Some (u_email current_user))))"

definition bulk_resolve_anomaly_events ::
  "'p audit_platform_scheme \<Rightarrow> 'f anomaly_floats_scheme \<Rightarrow> Settings \<Rightarrow> datetime \<Rightarrow> string option \<Rightarrow> (nat \<Rightarrow> fresh) \<Rightarrow> datetime \<Rightarrow> (nat \<Rightarrow> datetime) \<Rightarrow>
   uuid list \<Rightarrow> ('z anomaly_db_scheme, BulkStatusResponse) svc" where
  "bulk_resolve_anomaly_events pf fl st now cred frs now' updated event_ids =
     bind_svc (get_current_user pf st now cred)
     (\<lambda>current_user. validated (valid_BulkStatusRequest event_ids)
        (bulk_update_anomaly_status pf fl frs now' updated event_ids AnomalyStatus.RESOLVED (Some (u_email current_user))))"

definition read_anomaly_event ::
  "'p platform_scheme \<Rightarrow> Settings \<Rightarrow> datetime \<Rightarrow> string option \<Rightarrow> uuid \<Rightarrow> ('z anomaly_db_scheme, AnomalyEventRead) svc" where
  "read_anomaly_event pf st now cred event_id =
     bind_svc (get_current_user pf st now cred)
     (\<lambda>_. bind_svc (get_anomaly_event event_id)
     (\<lambda>event. return_svc (AnomalyEventRead_validate event)))"

definition read_anomaly_event_history ::
  "'p platform_scheme \<Rightarrow> Settings \<Rightarrow> datetime \<Rightarrow> string option \<Rightarrow> uuid \<Rightarrow> ('z anomaly_db_scheme, AnomalyHistoryEntry list) svc" where
  "read_anomaly_event_history pf st now cred event_id =
     bind_svc (get_current_user pf st now cred) (\<lambda>_. get_anomaly_history pf event_id)"

definition ingest_anomaly_event ::
  "'p audit_platform_scheme \<Rightarrow> 'f anomaly_floats_scheme \<Rightarrow> Settings \<Rightarrow> datetime \<Rightarrow> string option \<Rightarrow> fresh \<Rightarrow> uuid \<Rightarrow> datetime \<Rightarrow> datetime \<Rightarrow>
   AnomalyEventCreate \<Rightarrow> ('z anomaly_db_scheme, AnomalyEventRead) svc" where
  "ingest_anomaly_event pf fl st now cred fr event_id now' created payload =
     bind_svc (get_current_user pf st now cred)
     (\<lambda>current_user. bind_svc (create_anomaly_event pf fl fr event_id now' created payload (Some (u_email current_user)))
     (\<lambda>event. return_svc (AnomalyEventRead_validate event)))"

text \<open>The end of the four handlers that change a status.\<close>

definition updated_or_404 :: "AnomalyEvent option \<Rightarrow> ('d, AnomalyEventRead) svc" where
  "updated_or_404 event =
     (case event of
        None \<Rightarrow> raise_svc (HTTPException 404 ''Anomaly not found'')
      | Some e \<Rightarrow> return_svc (AnomalyEventRead_validate e))"

definition acknowledge_anomaly_event ::
  "'p audit_platform_scheme \<Rightarrow> 'f anomaly_floats_scheme \<Rightarrow> Settings \<Rightarrow> datetime \<Rightarrow> string option \<Rightarrow> fresh \<Rightarrow> datetime \<Rightarrow> datetime \<Rightarrow> uuid \<Rightarrow>
   ('z anomaly_db_scheme, AnomalyEventRead) svc" where
  "acknowledge_anomaly_event pf fl st now cred fr now' updated event_id =
     bind_svc (get_current_user pf st now cred)
     (\<lambda>current_user. bind_svc
        (update_anomaly_status pf fl fr now' updated event_id AnomalyStatus.INVESTIGATING (Some (u_email current_user)))
        updated_or_404)"

definition resolve_anomaly_event ::
  "'p audit_platform_scheme \<Rightarrow> 'f anomaly_floats_scheme \<Rightarrow> Settings \<Rightarrow> datetime \<Rightarrow> string option \<Rightarrow> fresh \<Rightarrow> datetime \<Rightarrow> datetime \<Rightarrow> uuid \<Rightarrow>
   ('z anomaly_db_scheme, AnomalyEventRead) svc" where
  "resolve_anomaly_event pf fl st now cred fr now' updated event_id =
     bind_svc (get_current_user pf st now cred)
     (\<lambda>current_user. bind_svc
        (update_anomaly_status pf fl fr now' updated event_id AnomalyStatus.RESOLVED (Some (u_email current_user)))
        updated_or_404)"

definition dismiss_anomaly_event ::
  "'p audit_platform_scheme \<Rightarrow> 'f anomaly_floats_scheme \<Rightarrow> Settings \<Rightarrow> datetime \<Rightarrow> string option \<Rightarrow> fresh \<Rightarrow> datetime \<Rightarrow> datetime \<Rightarrow> uuid \<Rightarrow>
   ('z anomaly_db_scheme, AnomalyEventRead) svc" where
  "dismiss_anomaly_event pf fl st now cred fr now' updated event_id =
     bind_svc (get_current_user pf st now cred)
     (\<lambda>current_user. bind_svc
        (update_anomaly_status pf fl fr now' updated event_id AnomalyStatus.DISMISSED (Some (u_email current_user)))
        updated_or_404)"

definition reopen_anomaly_event ::
  "'p audit_platform_scheme \<Rightarrow> 'f anomaly_floats_scheme \<Rightarrow> Settings \<Rightarrow> datetime \<Rightarrow> string option \<Rightarrow> fresh \<Rightarrow> datetime \<Rightarrow> datetime \<Rightarrow> uuid \<Rightarrow>
   ('z anomaly_db_scheme, AnomalyEventRead) svc" where
  "reopen_anomaly_event pf fl st now cred fr now' updated event_id =
     bind_svc (get_current_user pf st now cred)
     (\<lambda>current_user. bind_svc
        (update_anomaly_status pf fl fr now' updated event_id AnomalyStatus.OPEN (Some (u_email current_user)))
        updated_or_404)"

end
