(* ===== verification/Compliance.thy ===== *)
theory Compliance
  imports ComplianceModels Anomaly
begin

text \<open>
  Frameworks, controls, assessments and score trends: \<^verbatim>\<open>src/app/services/compliance_service.py\<close> and
  \<^verbatim>\<open>src/app/api/v1/endpoints/compliance.py\<close>. The relationship \<^verbatim>\<open>framework\<close> of a row is the row its foreign key names;
  a collection that is loaded without an order comes in the order of its table.
\<close>

section \<open>services/compliance\_service.py\<close>

text \<open>\<open>fl_round0\<close> is \<^verbatim>\<open>round(x, 0)\<close>. The weights are halves, so their sum is exact.\<close>

record compliance_floats = anomaly_floats +
  fl_round0 :: "rat \<Rightarrow> rat"

definition PARTIAL_WEIGHT :: rat where
  "PARTIAL_WEIGHT = 1 / 2"

definition load_frameworks :: "'z compliance_db_scheme \<Rightarrow> ComplianceFramework list" where
  "load_frameworks d = sort_key fw_display_name (compliance_frameworks d)"

text \<open>\<^verbatim>\<open>framework.control_mappings\<close> and \<^verbatim>\<open>row.framework.code.value\<close>.\<close>

definition mappings_of :: "'z compliance_db_scheme \<Rightarrow> uuid \<Rightarrow> ControlMapping list" where
  "mappings_of d framework_id = filter (\<lambda>m. cm_framework_id m = framework_id) (control_mappings d)"

definition framework_of :: "'z compliance_db_scheme \<Rightarrow> uuid \<Rightarrow> error + ComplianceFramework" where
  "framework_of d framework_id =
     (case get_row fw_id framework_id (compliance_frameworks d) of
        None \<Rightarrow> Inl (AttributeError ''code'')
      | Some f \<Rightarrow> Inr f)"

definition with_framework :: "'z compliance_db_scheme \<Rightarrow> uuid \<Rightarrow> (ComplianceFramework \<Rightarrow> 'b) \<Rightarrow> error + 'b" where
  "with_framework d framework_id f = (case framework_of d framework_id of Inl e \<Rightarrow> Inl e | Inr x \<Rightarrow> Inr (f x))"

definition open_violation_counts :: "'z compliance_db_scheme \<Rightarrow> (uuid \<times> int) list" where
  "open_violation_counts d = group_counts vi_framework_id (filter (\<lambda>v. vi_status v = ViolationStatus.OPEN) (compliance_violations d))"

text \<open>\<^verbatim>\<open>counts.get(key, 0)\<close>.\<close>

definition count_of :: "('k \<times> int) list \<Rightarrow> 'k \<Rightarrow> int" where
  "count_of counts k = (case map_of counts k of None \<Rightarrow> 0 | Some n \<Rightarrow> n)"

definition mapping_to_read :: "ControlMapping \<Rightarrow> ControlMappingRead" where
  "mapping_to_read m =
     \<lparr>cmr_control_domain = cm_control_domain m, cmr_control_description = cm_control_description m,
      cmr_control_code = cm_control_code m, cmr_status = ControlStatus_value (cm_status m)\<rparr>"

definition framework_to_read ::
  "'z compliance_db_scheme \<Rightarrow> ComplianceFramework \<Rightarrow> (uuid \<times> int) list \<Rightarrow> FrameworkRead" where
  "framework_to_read d framework open_counts =
     \<lparr>fwr_id = fw_id framework, fwr_code = FrameworkCode_value (fw_code framework), fwr_display_name = fw_display_name framework,
      fwr_subtitle = fw_subtitle framework, fwr_description = fw_description framework, fwr_auditor = fw_auditor framework,
      fwr_certified = fw_certified framework, fwr_cert_expires_at = fw_cert_expires_at framework, fwr_score = fw_score framework,
      fwr_open_violation_count = count_of open_counts (fw_id framework),
      fwr_control_breakdown = map mapping_to_read (mappings_of d (fw_id framework))\<rparr>"

definition applicable :: "ControlMapping list \<Rightarrow> ControlMapping list" where
  "applicable ms = filter (\<lambda>m. cm_status m \<noteq> NOT_APPLICABLE) ms"

definition weighted :: "ControlMapping list \<Rightarrow> rat" where
  "weighted ms = sum_list (map (\<lambda>m. if cm_status m = MAPPED then 1 else PARTIAL_WEIGHT)
     (filter (\<lambda>m. cm_status m \<in> {MAPPED, PARTIAL}) ms))"

definition coverage :: "'f compliance_floats_scheme \<Rightarrow> (rat \<Rightarrow> rat) \<Rightarrow> ControlMapping list \<Rightarrow> rat" where
  "coverage fl round_score ms =
     (if ms = [] then 0 else round_score (fl_mul fl (fl_div fl (weighted ms) (of_nat (length ms))) 100))"

text \<open>The dictionaries of the first loop: by domain and framework code, and the descriptions.\<close>

definition mapping_entries :: "'z compliance_db_scheme \<Rightarrow> ComplianceFramework list \<Rightarrow> (string \<times> ControlMapping) list" where
  "mapping_entries d frameworks =
     concat (map (\<lambda>f. map (\<lambda>m. (FrameworkCode_value (fw_code f), m)) (mappings_of d (fw_id f))) frameworks)"

definition by_domain :: "(string \<times> ControlMapping) list \<Rightarrow> (string \<times> (string \<times> ControlMapping) list) list" where
  "by_domain entries = foldl (\<lambda>acc (code, m).
     dict_set (cm_control_domain m)
       (dict_set code m (case map_of acc (cm_control_domain m) of None \<Rightarrow> [] | Some inner \<Rightarrow> inner)) acc) [] entries"

definition domain_descriptions :: "(string \<times> ControlMapping) list \<Rightarrow> (string \<times> string) list" where
  "domain_descriptions entries =
     foldl (\<lambda>acc (code, m). dict_set (cm_control_domain m) (cm_control_description m) acc) [] entries"

definition build_control_coverage ::
  "'f compliance_floats_scheme \<Rightarrow> 'z compliance_db_scheme \<Rightarrow> ComplianceFramework list \<Rightarrow> ControlCoverageRow list" where
  "build_control_coverage fl d frameworks =
     (let entries = mapping_entries d frameworks; descriptions = domain_descriptions entries in
      map (\<lambda>(domain, per_framework).
        \<lparr>ccw_control_domain = domain, ccw_control_description = the (map_of descriptions domain),
         ccw_per_framework = map (\<lambda>(code, m). (code, mapping_to_read m)) per_framework,
         ccw_coverage_percent = coverage fl (fl_round0 fl) (applicable (map snd per_framework))\<rparr>)
      (sort_key fst (by_domain entries)))"

definition violation_reads :: "'z compliance_db_scheme \<Rightarrow> error + ViolationRead list" where
  "violation_reads d = map_e (\<lambda>v. with_framework d (vi_framework_id v) (\<lambda>f.
       \<lparr>vir_id = vi_id v, vir_framework_code = FrameworkCode_value (fw_code f), vir_severity = ViolationSeverity_value (vi_severity v),
        vir_status = ViolationStatus_value (vi_status v), vir_control_reference = vi_control_reference v, vir_title = vi_title v,
        vir_description = vi_description v, vir_detected_at = vi_detected_at v, vir_resolved_at = vi_resolved_at v,
        vir_resolution_note = vi_resolution_note v\<rparr>))
     (take 50 (order_by_desc vi_detected_at (compliance_violations d)))"

definition schema_validation_summary ::
  "'f compliance_floats_scheme \<Rightarrow> datetime \<Rightarrow> 'z compliance_db_scheme \<Rightarrow> SchemaValidationSummary" where
  "schema_validation_summary fl now d =
     (let results = order_by_desc vr_validated_at
            (filter (\<lambda>r. now - timedelta_hours 24 \<le> vr_validated_at r) (schema_validation_results d));
          passed = length (filter vr_passed results);
          failures = filter (\<lambda>r. \<not> vr_passed r) results
      in \<lparr>svs_total_today = length results,
          svs_pass_rate_percent = (if length results \<noteq> 0
            then fl_round2 fl (fl_mul fl (fl_div fl (of_nat passed) (of_nat (length results))) 100) else 100),
          svs_failure_count = length failures,
          svs_failures = map (\<lambda>f.
            \<lparr>svw_endpoint_path = vr_endpoint_path f, svw_schema_ref = vr_schema_ref f, svw_passed = vr_passed f,
             svw_error_message = vr_error_message f, svw_tenant_slug = vr_tenant_slug f, svw_reference_id = vr_reference_id f,
             svw_validated_at = vr_validated_at f\<rparr>) (take 10 failures)\<rparr>)"

definition overall_score :: "'f compliance_floats_scheme \<Rightarrow> ComplianceFramework list \<Rightarrow> rat" where
  "overall_score fl frameworks =
     (if frameworks \<noteq> [] then fl_round1 fl (fl_div fl (fl_sum fl (map fw_score frameworks)) (of_nat (length frameworks))) else 0)"

definition get_compliance_overview ::
  "'f compliance_floats_scheme \<Rightarrow> datetime \<Rightarrow> ('z compliance_db_scheme, ComplianceOverview) svc" where
  "get_compliance_overview fl now =
     query_e (\<lambda>d. let frameworks = load_frameworks d; open_counts = open_violation_counts d in
       (case violation_reads d of
          Inl e \<Rightarrow> Inl e
        | Inr violations \<Rightarrow> Inr
            \<lparr>cov_overall_score = overall_score fl frameworks,
             cov_frameworks = map (\<lambda>f. framework_to_read d f open_counts) frameworks,
             cov_control_coverage = build_control_coverage fl d frameworks, cov_violations = violations,
             cov_schema_validation = schema_validation_summary fl now d\<rparr>))"

subsection \<open>Frameworks and controls\<close>

definition get_framework_orm :: "uuid \<Rightarrow> ('z compliance_db_scheme, ComplianceFramework) svc" where
  "get_framework_orm framework_id =
     bind_svc (query_e (\<lambda>d. scalar_one_or_none (filter (\<lambda>f. fw_id f = framework_id) (compliance_frameworks d))))
     (\<lambda>framework. case framework of
        None \<Rightarrow> raise_svc (HTTPException 404 ''Framework not found'')
      | Some f \<Rightarrow> return_svc f)"

definition list_frameworks :: "('z compliance_db_scheme, FrameworkRead list) svc" where
  "list_frameworks = query (\<lambda>d. map (\<lambda>f. framework_to_read d f (open_violation_counts d)) (load_frameworks d))"

definition get_framework :: "uuid \<Rightarrow> ('z compliance_db_scheme, FrameworkRead) svc" where
  "get_framework framework_id =
     bind_svc (get_framework_orm framework_id)
     (\<lambda>framework. query (\<lambda>d. framework_to_read d framework (open_violation_counts d)))"

definition control_to_read :: "'z compliance_db_scheme \<Rightarrow> ControlMapping \<Rightarrow> error + ControlRead" where
  "control_to_read d mapping = with_framework d (cm_framework_id mapping) (\<lambda>f.
     \<lparr>ctr_id = cm_id mapping, ctr_framework_id = cm_framework_id mapping, ctr_framework_code = FrameworkCode_value (fw_code f),
      ctr_control_domain = cm_control_domain mapping, ctr_control_description = cm_control_description mapping,
      ctr_control_code = cm_control_code mapping, ctr_status = ControlStatus_value (cm_status mapping)\<rparr>)"

text \<open>\<^verbatim>\<open>JOIN ... ORDER BY code, control_domain\<close>, with the condition on the framework.\<close>

definition joined_mappings :: "FrameworkCode option \<Rightarrow> (ControlMapping \<Rightarrow> bool) \<Rightarrow> 'z compliance_db_scheme \<Rightarrow> ControlMapping list" where
  "joined_mappings framework_code P d =
     (let code_of = (\<lambda>m. map_option fw_code (get_row fw_id (cm_framework_id m) (compliance_frameworks d)))
      in sort_key (\<lambda>m. case code_of m of None \<Rightarrow> [] | Some c \<Rightarrow> FrameworkCode_name c) (sort_key cm_control_domain
           (filter (\<lambda>m. code_of m \<noteq> None \<and> P m \<and> (framework_code = None \<or> code_of m = framework_code)) (control_mappings d))))"

definition list_controls ::
  "FrameworkCode option \<Rightarrow> ControlStatus option \<Rightarrow> ('z compliance_db_scheme, ControlRead list) svc" where
  "list_controls framework_code control_status =
     query_e (\<lambda>d. map_e (control_to_read d)
       (joined_mappings framework_code (\<lambda>m. case control_status of None \<Rightarrow> True | Some s \<Rightarrow> cm_status m = s) d))"

definition get_control :: "uuid \<Rightarrow> ('z compliance_db_scheme, ControlRead) svc" where
  "get_control control_id =
     bind_svc (query_e (\<lambda>d. scalar_one_or_none (filter (\<lambda>m. cm_id m = control_id) (control_mappings d))))
     (\<lambda>mapping. case mapping of
        None \<Rightarrow> raise_svc (HTTPException 404 ''Control not found'')
      | Some m \<Rightarrow> query_e (\<lambda>d. control_to_read d m))"

subsection \<open>Summary and gaps\<close>

definition get_compliance_summary :: "'f compliance_floats_scheme \<Rightarrow> ('z compliance_db_scheme, ComplianceSummary) svc" where
  "get_compliance_summary fl =
     query (\<lambda>d.
       let frameworks = load_frameworks d; open_counts = open_violation_counts d;
           mappings = concat (map (\<lambda>f. mappings_of d (fw_id f)) frameworks)
       in \<lparr>csm_overall_score = overall_score fl frameworks, csm_framework_count = length frameworks,
           csm_certified_count = count_rows fw_certified frameworks, csm_total_controls = count_rows (\<lambda>m. True) mappings,
           csm_mapped_controls = count_rows (\<lambda>m. cm_status m = MAPPED) mappings,
           csm_partial_controls = count_rows (\<lambda>m. cm_status m = PARTIAL) mappings,
           csm_gap_controls = count_rows (\<lambda>m. cm_status m = GAP) mappings,
           csm_open_violation_count = sum_list (map snd open_counts),
           csm_frameworks = map (\<lambda>f. \<lparr>fsc_code = FrameworkCode_value (fw_code f), fsc_display_name = fw_display_name f,
             fsc_score = fw_score f, fsc_certified = fw_certified f, fsc_open_violation_count = count_of open_counts (fw_id f)\<rparr>) frameworks\<rparr>)"

definition get_gaps :: "FrameworkCode option \<Rightarrow> ('z compliance_db_scheme, GapRead list) svc" where
  "get_gaps framework_code =
     query_e (\<lambda>d. map_e (\<lambda>m. with_framework d (cm_framework_id m) (\<lambda>f.
         \<lparr>gap_framework_id = cm_framework_id m, gap_framework_code = FrameworkCode_value (fw_code f),
          gap_control_domain = cm_control_domain m, gap_control_description = cm_control_description m,
          gap_control_code = cm_control_code m, gap_status = ControlStatus_value (cm_status m)\<rparr>))
       (joined_mappings framework_code (\<lambda>m. cm_status m \<in> {GAP, PARTIAL}) d))"

subsection \<open>Assessments\<close>

definition assessment_to_read :: "'z compliance_db_scheme \<Rightarrow> ComplianceAssessment \<Rightarrow> error + AssessmentRead" where
  "assessment_to_read d a = with_framework d (as_framework_id a) (\<lambda>f.
     \<lparr>asr_id = as_id a, asr_framework_id = as_framework_id a, asr_framework_code = FrameworkCode_value (fw_code f),
      asr_status = AssessmentStatus_value (as_status a), asr_started_by = as_started_by a, asr_started_at = as_started_at a,
      asr_completed_at = as_completed_at a, asr_score = as_score a, asr_total_controls = as_total_controls a,
      asr_mapped_controls = as_mapped_controls a, asr_gap_controls = as_gap_controls a, asr_notes = as_notes a\<rparr>)"

definition get_assessment_orm :: "uuid \<Rightarrow> ('z compliance_db_scheme, ComplianceAssessment) svc" where
  "get_assessment_orm assessment_id =
     bind_svc (query_e (\<lambda>d. scalar_one_or_none (filter (\<lambda>a. as_id a = assessment_id) (compliance_assessments d))))
     (\<lambda>assessment. case assessment of
        None \<Rightarrow> raise_svc (HTTPException 404 ''Assessment not found'')
      | Some a \<Rightarrow> return_svc a)"

definition get_assessment :: "uuid \<Rightarrow> ('z compliance_db_scheme, AssessmentRead) svc" where
  "get_assessment assessment_id =
     bind_svc (get_assessment_orm assessment_id) (\<lambda>a. query_e (\<lambda>d. assessment_to_read d a))"

definition start_assessment ::
  "uuid \<Rightarrow> datetime \<Rightarrow> uuid \<Rightarrow> string \<Rightarrow> ('z compliance_db_scheme, AssessmentRead) svc" where
  "start_assessment assessment_id now framework_id started_by =
     bind_svc (get_framework_orm framework_id)
     (\<lambda>_. let assessment = \<lparr>as_id = assessment_id, as_framework_id = framework_id, as_status = AssessmentStatus.IN_PROGRESS,
            as_started_by = started_by, as_started_at = now, as_completed_at = None, as_score = None, as_total_controls = None,
            as_mapped_controls = None, as_gap_controls = None, as_notes = None\<rparr>
      in bind_svc (flush (insert_assessment assessment))
         (\<lambda>_. bind_svc commit (\<lambda>_. get_assessment assessment_id)))"

definition list_assessments ::
  "uuid option \<Rightarrow> AssessmentStatus option \<Rightarrow> ('z compliance_db_scheme, AssessmentRead list) svc" where
  "list_assessments framework_id assessment_status =
     query_e (\<lambda>d. map_e (assessment_to_read d) (order_by_desc as_started_at
       (filter (\<lambda>a. (case framework_id of None \<Rightarrow> True | Some i \<Rightarrow> as_framework_id a = i)
          \<and> (case assessment_status of None \<Rightarrow> True | Some s \<Rightarrow> as_status a = s)) (compliance_assessments d))))"

definition completed_assessment ::
  "'f compliance_floats_scheme \<Rightarrow> datetime \<Rightarrow> ControlMapping list \<Rightarrow> ComplianceAssessment \<Rightarrow> ComplianceAssessment" where
  "completed_assessment fl now mappings a = a
     \<lparr>as_status := AssessmentStatus.COMPLETED, as_completed_at := Some now, as_total_controls := Some (length mappings),
      as_mapped_controls := Some (length (filter (\<lambda>m. cm_status m = MAPPED) mappings)),
      as_gap_controls := Some (length (filter (\<lambda>m. cm_status m = GAP) mappings)),
      as_score := Some (coverage fl (fl_round1 fl) (applicable mappings))\<rparr>"

definition complete_assessment ::
  "'f compliance_floats_scheme \<Rightarrow> datetime \<Rightarrow> uuid \<Rightarrow> ('z compliance_db_scheme, AssessmentRead) svc" where
  "complete_assessment fl now assessment_id =
     bind_svc (get_assessment_orm assessment_id)
     (\<lambda>a. if as_status a = AssessmentStatus.COMPLETED then raise_svc (HTTPException 409 ''Assessment already completed'')
        else
          bind_svc (get_framework_orm (as_framework_id a))
          (\<lambda>framework. bind_svc (query (\<lambda>d. mappings_of d (fw_id framework)))
          (\<lambda>mappings. bind_svc (modify_db (compliance_assessments_update
               (update_where (\<lambda>x. as_id x = as_id a) (completed_assessment fl now mappings))))
          (\<lambda>_. bind_svc commit (\<lambda>_. get_assessment (as_id a))))))"

subsection \<open>Score trends\<close>

text \<open>The grouping keeps the order of the rows, so each group is sorted by time when it is sorted again.\<close>

definition get_score_trends ::
  "'f compliance_floats_scheme \<Rightarrow> datetime \<Rightarrow> nat \<Rightarrow> ('z compliance_db_scheme, ScoreTrendsResponse) svc" where
  "get_score_trends fl now window_days =
     query_e (\<lambda>d.
       let since = now - timedelta_days (int window_days);
           snapshots = sort_key sn_framework_id (sort_key sn_captured_at
             (filter (\<lambda>s. since \<le> sn_captured_at s) (compliance_score_snapshots d)))
       in (case map_e (\<lambda>framework_id.
               let snaps = sort_key sn_captured_at (filter (\<lambda>s. sn_framework_id s = framework_id) snapshots)
               in with_framework d framework_id (\<lambda>f.
                 \<lparr>sts_framework_id = framework_id, sts_code = FrameworkCode_value (fw_code f), sts_display_name = fw_display_name f,
                  sts_current_score = sn_score (last snaps),
                  sts_delta = fl_round1 fl (fl_sub fl (sn_score (last snaps)) (sn_score (hd snaps))),
                  sts_points = map (\<lambda>s. \<lparr>stp_captured_at = sn_captured_at s, stp_score = sn_score s\<rparr>) snaps\<rparr>))
             (remdups (map sn_framework_id snapshots)) of
             Inl e \<Rightarrow> Inl e
           | Inr series \<Rightarrow> Inr \<lparr>str_window_days = window_days, str_series = sort_key sts_display_name series\<rparr>))"

section \<open>api/v1/endpoints/compliance.py\<close>

definition read_compliance_overview ::
  "'p platform_scheme \<Rightarrow> 'f compliance_floats_scheme \<Rightarrow> Settings \<Rightarrow> datetime \<Rightarrow> string option \<Rightarrow> datetime \<Rightarrow>
   ('z compliance_db_scheme, ComplianceOverview) svc" where
  "read_compliance_overview pf fl st now cred now' =
     bind_svc (get_current_user pf st now cred) (\<lambda>_. get_compliance_overview fl now')"

definition read_frameworks ::
  "'p platform_scheme \<Rightarrow> Settings \<Rightarrow> datetime \<Rightarrow> string option \<Rightarrow> ('z compliance_db_scheme, FrameworkRead list) svc" where
  "read_frameworks pf st now cred = bind_svc (get_current_user pf st now cred) (\<lambda>_. list_frameworks)"

definition read_framework ::
  "'p platform_scheme \<Rightarrow> Settings \<Rightarrow> datetime \<Rightarrow> string option \<Rightarrow> uuid \<Rightarrow> ('z compliance_db_scheme, FrameworkRead) svc" where
  "read_framework pf st now cred framework_id =
     bind_svc (get_current_user pf st now cred) (\<lambda>_. get_framework framework_id)"

definition read_controls ::
  "'p platform_scheme \<Rightarrow> Settings \<Rightarrow> datetime \<Rightarrow> string option \<Rightarrow> FrameworkCode option \<Rightarrow> ControlStatus option \<Rightarrow>
   ('z compliance_db_scheme, ControlRead list) svc" where
  "read_controls pf st now cred framework status_filter =
     bind_svc (get_current_user pf st now cred) (\<lambda>_. list_controls framework status_filter)"

definition read_control ::
  "'p platform_scheme \<Rightarrow> Settings \<Rightarrow> datetime \<Rightarrow> string option \<Rightarrow> uuid \<Rightarrow> ('z compliance_db_scheme, ControlRead) svc" where
  "read_control pf st now cred control_id = bind_svc (get_current_user pf st now cred) (\<lambda>_. get_control control_id)"

definition create_assessment ::
  "'p platform_scheme \<Rightarrow> Settings \<Rightarrow> datetime \<Rightarrow> uuid \<Rightarrow> datetime \<Rightarrow> uuid \<Rightarrow> string option \<Rightarrow> ('z compliance_db_scheme, AssessmentRead) svc" where
  "create_assessment pf st now assessment_id now' framework_id cred =
     bind_svc (require_admin pf st now cred)
     (\<lambda>current_user. start_assessment assessment_id now' framework_id (u_email current_user))"

definition read_assessments ::
  "'p platform_scheme \<Rightarrow> Settings \<Rightarrow> datetime \<Rightarrow> string option \<Rightarrow> uuid option \<Rightarrow> AssessmentStatus option \<Rightarrow>
   ('z compliance_db_scheme, AssessmentRead list) svc" where
  "read_assessments pf st now cred framework_id status_filter =
     bind_svc (get_current_user pf st now cred) (\<lambda>_. list_assessments framework_id status_filter)"

definition read_assessment ::
  "'p platform_scheme \<Rightarrow> Settings \<Rightarrow> datetime \<Rightarrow> string option \<Rightarrow> uuid \<Rightarrow> ('z compliance_db_scheme, AssessmentRead) svc" where
  "read_assessment pf st now cred assessment_id =
     bind_svc (get_current_user pf st now cred) (\<lambda>_. get_assessment assessment_id)"

definition finish_assessment ::
  "'p platform_scheme \<Rightarrow> 'f compliance_floats_scheme \<Rightarrow> Settings \<Rightarrow> datetime \<Rightarrow> datetime \<Rightarrow> uuid \<Rightarrow> string option \<Rightarrow>
   ('z compliance_db_scheme, AssessmentRead) svc" where
  "finish_assessment pf fl st now now' assessment_id cred =
     bind_svc (require_admin pf st now cred) (\<lambda>_. complete_assessment fl now' assessment_id)"

definition read_compliance_summary ::
  "'p platform_scheme \<Rightarrow> 'f compliance_floats_scheme \<Rightarrow> Settings \<Rightarrow> datetime \<Rightarrow> string option \<Rightarrow> ('z compliance_db_scheme, ComplianceSummary) svc" where
  "read_compliance_summary pf fl st now cred = bind_svc (get_current_user pf st now cred) (\<lambda>_. get_compliance_summary fl)"

definition read_gaps ::
  "'p platform_scheme \<Rightarrow> Settings \<Rightarrow> datetime \<Rightarrow> string option \<Rightarrow> FrameworkCode option \<Rightarrow> ('z compliance_db_scheme, GapRead list) svc" where
  "read_gaps pf st now cred framework = bind_svc (get_current_user pf st now cred) (\<lambda>_. get_gaps framework)"

definition read_score_trends ::
  "'p platform_scheme \<Rightarrow> 'f compliance_floats_scheme \<Rightarrow> Settings \<Rightarrow> datetime \<Rightarrow> string option \<Rightarrow> datetime \<Rightarrow> nat \<Rightarrow>
   ('z compliance_db_scheme, ScoreTrendsResponse) svc" where
  "read_score_trends pf fl st now cred now' window_days =
     bind_svc (get_current_user pf st now cred)
     (\<lambda>_. validated (1 \<le> window_days \<and> window_days \<le> 365) (get_score_trends fl now' window_days))"

interpretation create_assessment_ep: admin_endpoint pf st now "create_assessment pf st now assessment_id now' framework_id"
    "\<lambda>current_user. start_assessment assessment_id now' framework_id (u_email current_user)"
  for pf :: "'p platform_scheme" and st now assessment_id now' framework_id
  by unfold_locales (simp add: create_assessment_def)

interpretation finish_assessment_ep: admin_endpoint pf st now "finish_assessment pf fl st now now' assessment_id"
    "\<lambda>_. complete_assessment fl now' assessment_id"
  for pf :: "'p platform_scheme" and fl :: "'f compliance_floats_scheme" and st now now' assessment_id
  by unfold_locales (simp add: finish_assessment_def)

end
