(* ===== verification/Engine.thy ===== *)
theory Engine
  imports Compliance
begin

text \<open>
  The engine node that the command centre shows, its etcd cluster, telemetry and rate limits:
  \<^verbatim>\<open>src/app/models/engine.py\<close>, \<^verbatim>\<open>src/app/schemas/engine.py\<close>, \<^verbatim>\<open>src/app/services/engine_service.py\<close> and
  \<^verbatim>\<open>src/app/api/v1/endpoints/engine.py\<close>.
\<close>

section \<open>models/engine.py\<close>

datatype ClusterRole = PRIMARY | REPLICA | STANDBY

fun ClusterRole_value :: "ClusterRole \<Rightarrow> string" where
  "ClusterRole_value PRIMARY = ''primary''"
| "ClusterRole_value REPLICA = ''replica''"
| "ClusterRole_value STANDBY = ''standby''"

record EngineInstance =
  ei_id :: uuid
  ei_instance_uuid :: string
  ei_name :: string
  ei_region :: string
  ei_availability_zone :: string
  ei_cluster_role :: ClusterRole
  ei_build_hash :: string
  ei_build_branch :: string
  ei_version :: string
  ei_started_at :: datetime
  ei_is_operational :: bool
  ei_oidc_provider :: "string option"
  ei_oidc_active_tokens :: int
  ei_oidc_auth_rate :: rat
  ei_oidc_failure_count :: int
  ei_oidc_jwks_refreshed_at :: "datetime option"
  ei_oidc_cert_valid_until :: "datetime option"
  ei_created_at :: datetime
  ei_updated_at :: datetime

record EtcdNode =
  en_id :: uuid
  en_engine_instance_id :: uuid
  en_node_name :: string
  en_address :: string
  en_is_leader :: bool
  en_raft_term :: int
  en_lag_ms :: rat
  en_db_size_bytes :: int
  en_created_at :: datetime
  en_updated_at :: datetime

datatype MetricKey =
    CPU_PERCENT | MEMORY_PERCENT | DISK_IO_MBPS | NETWORK_MBPS | GOROUTINES | GC_PAUSE_MS | OPEN_FDS

fun MetricKey_value :: "MetricKey \<Rightarrow> string" where
  "MetricKey_value CPU_PERCENT = ''cpu_percent''"
| "MetricKey_value MEMORY_PERCENT = ''memory_percent''"
| "MetricKey_value DISK_IO_MBPS = ''disk_io_mbps''"
| "MetricKey_value NETWORK_MBPS = ''network_mbps''"
| "MetricKey_value GOROUTINES = ''goroutines''"
| "MetricKey_value GC_PAUSE_MS = ''gc_pause_ms''"
| "MetricKey_value OPEN_FDS = ''open_fds''"

text \<open>The column holds the name of the member.\<close>

fun MetricKey_name :: "MetricKey \<Rightarrow> string" where
  "MetricKey_name CPU_PERCENT = ''CPU_PERCENT''"
| "MetricKey_name MEMORY_PERCENT = ''MEMORY_PERCENT''"
| "MetricKey_name DISK_IO_MBPS = ''DISK_IO_MBPS''"
| "MetricKey_name NETWORK_MBPS = ''NETWORK_MBPS''"
| "MetricKey_name GOROUTINES = ''GOROUTINES''"
| "MetricKey_name GC_PAUSE_MS = ''GC_PAUSE_MS''"
| "MetricKey_name OPEN_FDS = ''OPEN_FDS''"

record SystemMetricSample =
  sms_id :: uuid
  sms_engine_instance_id :: uuid
  sms_metric_key :: MetricKey
  sms_value :: rat
  sms_unit :: string
  sms_limit_value :: "rat option"
  sms_recorded_at :: datetime

record ApiEndpointStat =
  aes_id :: uuid
  aes_engine_instance_id :: uuid
  aes_endpoint_path :: string
  aes_requests_per_second :: rat
  aes_throttled_count :: int
  aes_rejected_count :: int
  aes_latency_p99_ms :: rat
  aes_recorded_at :: datetime

record engine_db = compliance_db +
  engine_instances :: "EngineInstance list"
  etcd_nodes :: "EtcdNode list"
  system_metric_samples :: "SystemMetricSample list"
  api_endpoint_stats :: "ApiEndpointStat list"

section \<open>schemas/engine.py\<close>

record EngineIdentity =
  eid_instance_uuid :: string
  eid_name :: string
  eid_region :: string
  eid_availability_zone :: string
  eid_cluster_role :: string
  eid_uptime_seconds :: int
  eid_build_hash :: string
  eid_build_branch :: string
  eid_version :: string
  eid_is_operational :: bool

record SystemHealthMetric =
  shm_metric_key :: string
  shm_label :: string
  shm_value :: rat
  shm_unit :: string
  shm_limit_value :: "rat option"
  shm_percent_of_limit :: "rat option"
  shm_footnote :: string
  shm_recorded_at :: datetime

record EtcdNodeStatus =
  ens_node_name :: string
  ens_address :: string
  ens_is_leader :: bool
  ens_raft_term :: int
  ens_lag_ms :: rat

record EtcdClusterStatus =
  ecs_nodes :: "EtcdNodeStatus list"
  ecs_has_quorum :: bool
  ecs_raft_term :: int
  ecs_db_size_bytes :: int
  ecs_write_ops_per_second :: rat
  ecs_read_ops_per_second :: rat

record ApiEndpointBreakdown =
  aeb_endpoint_path :: string
  aeb_requests_per_second :: rat
  aeb_percent_of_total :: rat

record ApiRateSummary =
  ars_current_rate :: rat
  ars_peak_rate :: rat
  ars_rate_limit :: rat
  ars_throttled :: int
  ars_rejected :: int
  ars_latency_p99_ms :: rat
  ars_endpoints :: "ApiEndpointBreakdown list"

record OidcAuthStatus =
  oas_provider :: "string option"
  oas_active_tokens :: int
  oas_auth_rate :: rat
  oas_failure_count :: int
  oas_failure_rate_percent :: rat
  oas_jwks_refreshed_minutes_ago :: "int option"
  oas_cert_valid_days :: "int option"

record CommandCenterOverview =
  cco_engine :: EngineIdentity
  cco_system_health :: "SystemHealthMetric list"
  cco_etcd_cluster :: EtcdClusterStatus
  cco_api_rate :: ApiRateSummary
  cco_oidc :: OidcAuthStatus

section \<open>services/engine\_service.py\<close>

definition QUORUM_LAG_THRESHOLD_MS :: rat where
  "QUORUM_LAG_THRESHOLD_MS = 5000"

definition METRIC_LIMITS :: "(string \<times> rat) list" where
  "METRIC_LIMITS = [(''goroutines'', 10000), (''gc_pause_ms'', 2), (''open_fds'', 65536)]"

text \<open>\<^verbatim>\<open>instance.etcd_nodes\<close> are the rows that name the instance, in the order of the table.\<close>

definition get_engine_instance :: "('z engine_db_scheme, EngineInstance \<times> EtcdNode list) svc" where
  "get_engine_instance =
     query_e (\<lambda>d.
       case first_row (sort_key ei_created_at (filter ei_is_operational (engine_instances d))) of
         None \<Rightarrow> Inl (HTTPException 404 ''No operational engine instance found'')
       | Some instance_row \<Rightarrow> Inr (instance_row, filter (\<lambda>n. en_engine_instance_id n = ei_id instance_row) (etcd_nodes d)))"

text \<open>\<^verbatim>\<open>int(x)\<close> of a float drops the fraction.\<close>

definition int_of_float :: "rat \<Rightarrow> int" where
  "int_of_float x = (if 0 \<le> x then \<lfloor>x\<rfloor> else \<lceil>x\<rceil>)"

definition build_identity :: "'f compliance_floats_scheme \<Rightarrow> datetime \<Rightarrow> EngineInstance \<Rightarrow> EngineIdentity" where
  "build_identity fl now i =
     (let uptime = int_of_float (total_seconds fl (now - ei_started_at i)) in
      \<lparr>eid_instance_uuid = ei_instance_uuid i, eid_name = ei_name i, eid_region = ei_region i,
       eid_availability_zone = ei_availability_zone i, eid_cluster_role = ClusterRole_value (ei_cluster_role i),
       eid_uptime_seconds = max 0 uptime, eid_build_hash = ei_build_hash i, eid_build_branch = ei_build_branch i,
       eid_version = ei_version i, eid_is_operational = ei_is_operational i\<rparr>)"

text \<open>The loops with a set \<^verbatim>\<open>seen\<close> keep the first row of each key.\<close>

fun first_per_key :: "('r \<Rightarrow> 'k) \<Rightarrow> 'k list \<Rightarrow> 'r list \<Rightarrow> 'r list" where
  "first_per_key key seen [] = []"
| "first_per_key key seen (sample # samples) =
     (if key sample \<in> set seen then first_per_key key seen samples
      else sample # first_per_key key (key sample # seen) samples)"

text \<open>\<^verbatim>\<open>key.replace("_", " ").title()\<close> on a key of ASCII characters.\<close>

fun title_from :: "bool \<Rightarrow> string \<Rightarrow> string" where
  "title_from after_letter [] = []"
| "title_from after_letter (c # cs) =
     (if after_letter then [lower_char c] else upper_char c)
     @ title_from ((65 \<le> code c \<and> code c \<le> 90) \<or> (97 \<le> code c \<and> code c \<le> 122)) cs"

definition metric_label :: "string \<Rightarrow> string" where
  "metric_label key = title_from False (map (\<lambda>c. if c = CHR ''_'' then CHR '' '' else c) key)"

text \<open>\<^verbatim>\<open>f"{x:,.0f}"\<close>: rounded half to even, with a comma between the thousands.\<close>

fun group_thousands :: "string \<Rightarrow> string" where
  "group_thousands (a # b # c # d # ds) = a # b # c # CHR '','' # group_thousands (d # ds)"
| "group_thousands ds = ds"

definition format_thousands :: "rat \<Rightarrow> string" where
  "format_thousands x = (if x < 0 then ''-'' else []) @ rev (group_thousands (rev (show_int (py_round \<bar>x\<bar>))))"

definition effective_limit :: "SystemMetricSample \<Rightarrow> rat option" where
  "effective_limit sample =
     (case sms_limit_value sample of
        Some l \<Rightarrow> if l \<noteq> 0 then Some l else map_of METRIC_LIMITS (MetricKey_value (sms_metric_key sample))
      | None \<Rightarrow> map_of METRIC_LIMITS (MetricKey_value (sms_metric_key sample)))"

definition health_metric :: "'f compliance_floats_scheme \<Rightarrow> SystemMetricSample \<Rightarrow> SystemHealthMetric" where
  "health_metric fl sample =
     (let key = MetricKey_value (sms_metric_key sample);
          limit_value = effective_limit sample
      in \<lparr>shm_metric_key = key, shm_label = metric_label key, shm_value = sms_value sample, shm_unit = sms_unit sample,
          shm_limit_value = limit_value,
          shm_percent_of_limit = (case limit_value of None \<Rightarrow> None
            | Some l \<Rightarrow> Some (fl_round1 fl (fl_mul fl (fl_div fl (sms_value sample) l) 100))),
          shm_footnote = (case limit_value of None \<Rightarrow> [] | Some l \<Rightarrow> ''limit '' @ format_thousands l),
          shm_recorded_at = sms_recorded_at sample\<rparr>)"

definition latest_system_health :: "'f compliance_floats_scheme \<Rightarrow> uuid \<Rightarrow> ('z engine_db_scheme, SystemHealthMetric list) svc" where
  "latest_system_health fl instance_id =
     query (\<lambda>d.
       let samples = sort_key (\<lambda>s. MetricKey_name (sms_metric_key s))
             (order_by_desc sms_recorded_at (filter (\<lambda>s. sms_engine_instance_id s = instance_id) (system_metric_samples d)))
       in map (health_metric fl) (first_per_key (\<lambda>s. MetricKey_value (sms_metric_key s)) [] samples))"

definition build_etcd_cluster :: "EtcdNode list \<Rightarrow> EtcdClusterStatus" where
  "build_etcd_cluster nodes =
     (let responsive = filter (\<lambda>n. en_lag_ms n < QUORUM_LAG_THRESHOLD_MS) nodes;
          majority = length nodes div 2 + 1;
          leader = first_row (filter en_is_leader nodes)
      in \<lparr>ecs_nodes = map (\<lambda>n. \<lparr>ens_node_name = en_node_name n, ens_address = en_address n, ens_is_leader = en_is_leader n,
            ens_raft_term = en_raft_term n, ens_lag_ms = en_lag_ms n\<rparr>) nodes,
          ecs_has_quorum = (if nodes \<noteq> [] then majority \<le> length responsive else False),
          ecs_raft_term = (case leader of Some l \<Rightarrow> en_raft_term l
            | None \<Rightarrow> (case nodes of n # _ \<Rightarrow> en_raft_term n | [] \<Rightarrow> 0)),
          ecs_db_size_bytes = sum_list (map en_db_size_bytes nodes) div int (max (length nodes) 1),
          ecs_write_ops_per_second = 0, ecs_read_ops_per_second = 0\<rparr>)"

text \<open>\<^verbatim>\<open>max(xs, default=0.0)\<close>.\<close>

definition max_default :: "rat list \<Rightarrow> rat" where
  "max_default xs = (case xs of [] \<Rightarrow> 0 | y # ys \<Rightarrow> fold max ys y)"

definition build_api_rate_summary :: "'f compliance_floats_scheme \<Rightarrow> uuid \<Rightarrow> ('z engine_db_scheme, ApiRateSummary) svc" where
  "build_api_rate_summary fl instance_id =
     query (\<lambda>d.
       let samples = take 20 (order_by_desc aes_recorded_at
             (filter (\<lambda>s. aes_engine_instance_id s = instance_id) (api_endpoint_stats d)));
           latest_per_endpoint = first_per_key aes_endpoint_path [] samples;
           total_rate = fl_sum fl (map aes_requests_per_second latest_per_endpoint);
           endpoints = map (\<lambda>s. \<lparr>aeb_endpoint_path = aes_endpoint_path s, aeb_requests_per_second = aes_requests_per_second s,
               aeb_percent_of_total = (if total_rate \<noteq> 0
                 then fl_round1 fl (fl_mul fl (fl_div fl (aes_requests_per_second s) total_rate) 100) else 0)\<rparr>)
             (sort_key (\<lambda>s. - aes_requests_per_second s) latest_per_endpoint)
       in \<lparr>ars_current_rate = fl_round1 fl total_rate,
           ars_peak_rate = fl_round1 fl (max_default (map aes_requests_per_second latest_per_endpoint)),
           ars_rate_limit = 1000, ars_throttled = sum_list (map aes_throttled_count latest_per_endpoint),
           ars_rejected = sum_list (map aes_rejected_count latest_per_endpoint),
           ars_latency_p99_ms = fl_round2 fl (max_default (map aes_latency_p99_ms latest_per_endpoint)),
           ars_endpoints = endpoints\<rparr>)"

definition build_oidc_status :: "'f compliance_floats_scheme \<Rightarrow> datetime \<Rightarrow> EngineInstance \<Rightarrow> OidcAuthStatus" where
  "build_oidc_status fl now i =
     (let jwks_minutes_ago = map_option (\<lambda>t. max 0 \<lfloor>total_seconds fl (now - t) / 60\<rfloor>) (ei_oidc_jwks_refreshed_at i);
          cert_days = map_option (\<lambda>t. max 0 (days_of (t - now))) (ei_oidc_cert_valid_until i);
          attempts = ei_oidc_active_tokens i + ei_oidc_failure_count i;
          failure_rate = (if attempts \<noteq> 0
            then fl_round2 fl (fl_mul fl (fl_div fl (of_int (ei_oidc_failure_count i)) (of_int attempts)) 100) else 0)
      in \<lparr>oas_provider = ei_oidc_provider i, oas_active_tokens = ei_oidc_active_tokens i, oas_auth_rate = ei_oidc_auth_rate i,
          oas_failure_count = ei_oidc_failure_count i, oas_failure_rate_percent = failure_rate,
          oas_jwks_refreshed_minutes_ago = jwks_minutes_ago, oas_cert_valid_days = cert_days\<rparr>)"

definition get_command_center_overview ::
  "'f compliance_floats_scheme \<Rightarrow> datetime \<Rightarrow> datetime \<Rightarrow> ('z engine_db_scheme, CommandCenterOverview) svc" where
  "get_command_center_overview fl now_identity now_oidc =
     bind_svc get_engine_instance
     (\<lambda>(instance_row, nodes). bind_svc (latest_system_health fl (ei_id instance_row))
     (\<lambda>health. bind_svc (build_api_rate_summary fl (ei_id instance_row))
     (\<lambda>rate. return_svc
        \<lparr>cco_engine = build_identity fl now_identity instance_row, cco_system_health = health,
         cco_etcd_cluster = build_etcd_cluster nodes, cco_api_rate = rate,
         cco_oidc = build_oidc_status fl now_oidc instance_row\<rparr>)))"

section \<open>api/v1/endpoints/engine.py\<close>

definition read_command_center_overview ::
  "'p platform_scheme \<Rightarrow> 'f compliance_floats_scheme \<Rightarrow> Settings \<Rightarrow> datetime \<Rightarrow> datetime \<Rightarrow> datetime \<Rightarrow> string option \<Rightarrow>
   ('z engine_db_scheme, CommandCenterOverview) svc" where
  "read_command_center_overview pf fl st now now_identity now_oidc cred =
     bind_svc (get_current_user pf st now cred) (\<lambda>_. get_command_center_overview fl now_identity now_oidc)"

end
