(* ===== verification/Operations.thy ===== *)
theory Operations
  imports Engine
begin

text \<open>
  The observability of the platform and its probes: \<^verbatim>\<open>src/app/models/operations.py\<close>, \<^verbatim>\<open>src/app/schemas/operations.py\<close>,
  \<^verbatim>\<open>src/app/services/operations_service.py\<close>, \<^verbatim>\<open>src/app/api/v1/endpoints/operations.py\<close>, \<^verbatim>\<open>src/app/schemas/system.py\<close>,
  \<^verbatim>\<open>src/app/api/v1/endpoints/system.py\<close> and the health route of \<^verbatim>\<open>src/app/main.py\<close>.
  In the probes the database may fail in the middle of a request: \<open>answers k\<close> says whether it answers
  the statement number \<open>k\<close> after those that look up the caller.
\<close>

section \<open>models/operations.py\<close>

datatype JobStatus = QUEUED | RUNNING | SUCCEEDED | FAILED

fun JobStatus_value :: "JobStatus \<Rightarrow> string" where
  "JobStatus_value JobStatus.QUEUED = ''queued''"
| "JobStatus_value JobStatus.RUNNING = ''running''"
| "JobStatus_value JobStatus.SUCCEEDED = ''succeeded''"
| "JobStatus_value JobStatus.FAILED = ''failed''"

datatype ErrorLevel = CRITICAL | ERROR | WARNING

fun ErrorLevel_value :: "ErrorLevel \<Rightarrow> string" where
  "ErrorLevel_value ErrorLevel.CRITICAL = ''critical''"
| "ErrorLevel_value ErrorLevel.ERROR = ''error''"
| "ErrorLevel_value ErrorLevel.WARNING = ''warning''"

record BackgroundJob =
  bj_id :: uuid
  bj_name :: string
  bj_queue :: string
  bj_status :: JobStatus
  bj_progress_percent :: rat
  bj_scheduled_at :: "datetime option"
  bj_started_at :: "datetime option"
  bj_finished_at :: "datetime option"
  bj_duration_ms :: "rat option"
  bj_attempts :: int
  bj_max_attempts :: int
  bj_last_error :: "string option"
  bj_detail :: "string option"
  bj_created_at :: datetime
  bj_updated_at :: datetime

record ApplicationError =
  ape_id :: uuid
  ape_occurred_at :: datetime
  ape_level :: ErrorLevel
  ape_error_type :: string
  ape_message :: string
  ape_source :: string
  ape_request_path :: "string option"
  ape_status_code :: "int option"
  ape_occurrences :: int
  ape_resolved :: bool
  ape_created_at :: datetime

text \<open>\<open>alembic_version\<close> is \<open>None\<close> in a database without that table.\<close>

record operations_db = engine_db +
  background_jobs :: "BackgroundJob list"
  application_errors :: "ApplicationError list"
  alembic_version :: "string list option"

section \<open>schemas/operations.py\<close>

record MetricGauge =
  mg_metric_key :: string
  mg_value :: rat
  mg_unit :: string
  mg_limit_value :: "rat option"
  mg_percent_of_limit :: "rat option"

record EndpointThroughput =
  eth_endpoint_path :: string
  eth_requests_per_second :: rat
  eth_throttled_count :: int
  eth_rejected_count :: int
  eth_latency_p99_ms :: rat

record MetricsSummary =
  mes_captured_at :: "datetime option"
  mes_gauges :: "MetricGauge list"
  mes_total_requests_per_second :: rat
  mes_total_throttled :: int
  mes_total_rejected :: int
  mes_max_latency_p99_ms :: rat
  mes_top_endpoints :: "EndpointThroughput list"

record ApplicationErrorRead =
  aer_id :: uuid
  aer_occurred_at :: datetime
  aer_level :: string
  aer_error_type :: string
  aer_message :: string
  aer_source :: string
  aer_request_path :: "string option"
  aer_status_code :: "int option"
  aer_occurrences :: int
  aer_resolved :: bool

record BackgroundJobRead =
  bjr_id :: uuid
  bjr_name :: string
  bjr_queue :: string
  bjr_status :: string
  bjr_progress_percent :: rat
  bjr_scheduled_at :: "datetime option"
  bjr_started_at :: "datetime option"
  bjr_finished_at :: "datetime option"
  bjr_duration_ms :: "rat option"
  bjr_attempts :: int
  bjr_max_attempts :: int
  bjr_last_error :: "string option"
  bjr_detail :: "string option"

record CacheStatus =
  cas_configured :: bool
  cas_status :: string
  cas_backend :: string
  cas_detail :: string

record DbStatus =
  dbs_status :: string
  dbs_reachable :: bool
  dbs_database :: string
  dbs_pool_size :: int
  dbs_checked_out :: int
  dbs_overflow :: int
  dbs_available :: int
  dbs_latency_ms :: "rat option"
  dbs_detail :: "string option"

record MigrationStatus =
  mgs_current_revision :: "string option"
  mgs_head_revision :: "string option"
  mgs_is_up_to_date :: bool
  mgs_pending_count :: nat
  mgs_detail :: string

record EventPublisherStatus =
  eps_status :: string
  eps_sink :: string
  eps_total_published :: nat
  eps_last_published_at :: "datetime option"
  eps_backlog :: nat

record ReadinessCheck =
  rck_name :: string
  rck_status :: string
  rck_detail :: "string option"

record OperationalReadiness =
  opr_status :: string
  opr_checked_at :: datetime
  opr_checks :: "ReadinessCheck list"

section \<open>services/operations\_service.py\<close>

definition metric_gauge :: "'f compliance_floats_scheme \<Rightarrow> SystemMetricSample \<Rightarrow> MetricGauge" where
  "metric_gauge fl s =
     \<lparr>mg_metric_key = MetricKey_value (sms_metric_key s), mg_value = fl_round2 fl (sms_value s), mg_unit = sms_unit s,
      mg_limit_value = sms_limit_value s,
      mg_percent_of_limit = (case sms_limit_value s of
          None \<Rightarrow> None
        | Some l \<Rightarrow> if l = 0 then None else Some (fl_round1 fl (min 100 (fl_mul fl (fl_div fl (sms_value s) l) 100))))\<rparr>"

definition endpoint_throughput :: "'f compliance_floats_scheme \<Rightarrow> ApiEndpointStat \<Rightarrow> EndpointThroughput" where
  "endpoint_throughput fl s =
     \<lparr>eth_endpoint_path = aes_endpoint_path s, eth_requests_per_second = fl_round2 fl (aes_requests_per_second s),
      eth_throttled_count = aes_throttled_count s, eth_rejected_count = aes_rejected_count s,
      eth_latency_p99_ms = fl_round2 fl (aes_latency_p99_ms s)\<rparr>"

text \<open>The times of the samples that are kept, the latest of which is the time of the capture.\<close>

definition captured_at :: "datetime list \<Rightarrow> datetime option" where
  "captured_at ts = fold (\<lambda>t captured. case captured of None \<Rightarrow> Some t | Some c \<Rightarrow> if c < t then Some t else Some c) ts None"

definition get_metrics_summary :: "'f compliance_floats_scheme \<Rightarrow> ('z engine_db_scheme, MetricsSummary) svc" where
  "get_metrics_summary fl =
     query (\<lambda>d.
       let samples = order_by_desc sms_recorded_at (system_metric_samples d);
           latest_by_key = first_per_key sms_metric_key [] samples;
           gauges = sort_key mg_metric_key (map (metric_gauge fl) latest_by_key);
           stats = api_endpoint_stats d;
           top = take 5 (sort_key (\<lambda>s. - aes_requests_per_second s) stats)
       in \<lparr>mes_captured_at = captured_at (map sms_recorded_at latest_by_key), mes_gauges = gauges,
           mes_total_requests_per_second = fl_round2 fl (fl_sum fl (map aes_requests_per_second stats)),
           mes_total_throttled = sum_list (map aes_throttled_count stats),
           mes_total_rejected = sum_list (map aes_rejected_count stats),
           mes_max_latency_p99_ms = fl_round2 fl (max_default (map aes_latency_p99_ms stats)),
           mes_top_endpoints = map (endpoint_throughput fl) top\<rparr>)"

definition list_errors ::
  "ErrorLevel option \<Rightarrow> bool option \<Rightarrow> nat \<Rightarrow> ('z operations_db_scheme, ApplicationErrorRead list) svc" where
  "list_errors level resolved limit =
     query (\<lambda>d.
       map (\<lambda>r. \<lparr>aer_id = ape_id r, aer_occurred_at = ape_occurred_at r, aer_level = ErrorLevel_value (ape_level r),
           aer_error_type = ape_error_type r, aer_message = ape_message r, aer_source = ape_source r,
           aer_request_path = ape_request_path r, aer_status_code = ape_status_code r, aer_occurrences = ape_occurrences r,
           aer_resolved = ape_resolved r\<rparr>)
         (take limit (order_by_desc ape_occurred_at
           (filter (\<lambda>r. (case level of None \<Rightarrow> True | Some l \<Rightarrow> ape_level r = l)
             \<and> (case resolved of None \<Rightarrow> True | Some b \<Rightarrow> ape_resolved r = b)) (application_errors d)))))"

definition list_jobs :: "JobStatus option \<Rightarrow> nat \<Rightarrow> ('z operations_db_scheme, BackgroundJobRead list) svc" where
  "list_jobs status_filter limit =
     query (\<lambda>d.
       map (\<lambda>r. \<lparr>bjr_id = bj_id r, bjr_name = bj_name r, bjr_queue = bj_queue r, bjr_status = JobStatus_value (bj_status r),
           bjr_progress_percent = bj_progress_percent r, bjr_scheduled_at = bj_scheduled_at r, bjr_started_at = bj_started_at r,
           bjr_finished_at = bj_finished_at r, bjr_duration_ms = bj_duration_ms r, bjr_attempts = bj_attempts r,
           bjr_max_attempts = bj_max_attempts r, bjr_last_error = bj_last_error r, bjr_detail = bj_detail r\<rparr>)
         (take limit (order_by_desc bj_created_at
           (filter (\<lambda>r. case status_filter of None \<Rightarrow> True | Some x \<Rightarrow> bj_status r = x) (background_jobs d)))))"

definition get_cache_status :: CacheStatus where
  "get_cache_status = \<lparr>cas_configured = False, cas_status = ''not_configured'', cas_backend = ''none'',
     cas_detail = ''No cache backend (e.g. Redis) is configured for this environment.''\<rparr>"

text \<open>\<^verbatim>\<open>await db.execute(...)\<close>, which raises when the database does not answer.\<close>

definition execute :: "(nat \<Rightarrow> bool) \<Rightarrow> nat \<Rightarrow> ('d \<Rightarrow> 'a) \<Rightarrow> ('d, 'a) svc" where
  "execute answers k q = (if answers k then query q else raise_svc (DatabaseError ''statement failed''))"

text \<open>
  What the process measures: \<open>elapsed\<close> is the difference of the two readings of \<^verbatim>\<open>perf_counter\<close>, \<open>pool\<close> the
  size, the connections that are checked out and the overflow, \<open>None\<close> for a pool without these methods.
\<close>

definition get_db_status ::
  "'f compliance_floats_scheme \<Rightarrow> Settings \<Rightarrow> rat \<Rightarrow> (int \<times> int \<times> int) option \<Rightarrow> (nat \<Rightarrow> bool) \<Rightarrow> nat \<Rightarrow> DbStatus" where
  "get_db_status fl st elapsed pool answers k =
     (let reachable = answers k;
          latency_ms = (if reachable then Some (fl_round2 fl (fl_mul fl elapsed 1000)) else None);
          detail = (if reachable then None else Some ''database unreachable'');
          (pool_size, checked_out, overflow) = (case pool of Some p \<Rightarrow> p | None \<Rightarrow> (DB_POOL_SIZE st, 0, 0))
      in \<lparr>dbs_status = (if reachable then ''up'' else ''down''), dbs_reachable = reachable, dbs_database = POSTGRES_DB st,
          dbs_pool_size = pool_size, dbs_checked_out = checked_out, dbs_overflow = overflow,
          dbs_available = max 0 (pool_size - checked_out), dbs_latency_ms = latency_ms, dbs_detail = detail\<rparr>)"

text \<open>\<open>head\<close> is the result of \<^verbatim>\<open>_alembic_head()\<close>, which reads the migration scripts with Alembic.\<close>

definition migration_status :: "string option \<Rightarrow> string option \<Rightarrow> MigrationStatus" where
  "migration_status current_revision head =
     (let up_to_date = (current_revision \<noteq> None \<and> head \<noteq> None \<and> current_revision = head);
          (detail, pending) =
            (if up_to_date then (''Database schema is at the latest migration.'', 0)
             else if current_revision = None then (''No alembic_version recorded; database may be schema-managed out of band.'', 0)
             else if head = None then (''Could not resolve the migration head from the script directory.'', 0)
             else (''Database is at '' @ [CHR 0x27] @ the current_revision @ [CHR 0x27] @ '' but code head is '' @ [CHR 0x27] @ the head @ [CHR 0x27] @ ''.'', 1))
      in \<lparr>mgs_current_revision = current_revision, mgs_head_revision = head, mgs_is_up_to_date = up_to_date,
          mgs_pending_count = pending, mgs_detail = detail\<rparr>)"

definition get_migration_status ::
  "string option \<Rightarrow> (nat \<Rightarrow> bool) \<Rightarrow> nat \<Rightarrow> ('z operations_db_scheme, MigrationStatus) svc" where
  "get_migration_status head answers k =
     bind_svc (execute answers k (\<lambda>d. alembic_version d \<noteq> None))
     (\<lambda>has_version_table.
        bind_svc (if has_version_table then execute answers (k + 1) (\<lambda>d. first_row (the (alembic_version d))) else return_svc None)
        (\<lambda>current_revision. return_svc (migration_status current_revision head)))"

definition get_event_publisher_status :: "('z operations_db_scheme, EventPublisherStatus) svc" where
  "get_event_publisher_status =
     query (\<lambda>d.
       \<lparr>eps_status = ''healthy'', eps_sink = ''immutable-audit-log'', eps_total_published = length (audit_log_entries d),
        eps_last_published_at = (case map ale_occurred_at (audit_log_entries d) of [] \<Rightarrow> None | t # ts \<Rightarrow> Some (fold max ts t)),
        eps_backlog = 0\<rparr>)"

definition get_operational_readiness ::
  "'f compliance_floats_scheme \<Rightarrow> Settings \<Rightarrow> datetime \<Rightarrow> rat \<Rightarrow> (int \<times> int \<times> int) option \<Rightarrow> string option \<Rightarrow> (nat \<Rightarrow> bool) \<Rightarrow>
   ('z operations_db_scheme, OperationalReadiness) svc" where
  "get_operational_readiness fl st now elapsed pool head answers =
     (let db_status = get_db_status fl st elapsed pool answers 0 in
      bind_svc (get_migration_status head answers 1)
      (\<lambda>migration_status.
         let cache_status = get_cache_status;
             latency = (case dbs_latency_ms db_status of Some l \<Rightarrow> fl_repr fl l | None \<Rightarrow> ''None'');
             checks =
               [\<lparr>rck_name = ''database'', rck_status = dbs_status db_status,
                 rck_detail = Some (case dbs_detail db_status of Some t \<Rightarrow> t | None \<Rightarrow> ''latency '' @ latency @ ''ms'')\<rparr>,
                \<lparr>rck_name = ''migrations'', rck_status = (if mgs_is_up_to_date migration_status then ''up'' else ''degraded''),
                 rck_detail = Some (mgs_detail migration_status)\<rparr>,
                \<lparr>rck_name = ''cache'', rck_status = cas_status cache_status, rck_detail = Some (cas_detail cache_status)\<rparr>];
             ready = dbs_reachable db_status
         in return_svc \<lparr>opr_status = (if ready then ''ready'' else ''not_ready''), opr_checked_at = now, opr_checks = checks\<rparr>))"

section \<open>api/v1/endpoints/operations.py\<close>

definition read_metrics_summary ::
  "'p platform_scheme \<Rightarrow> Settings \<Rightarrow> datetime \<Rightarrow> 'f compliance_floats_scheme \<Rightarrow> string option \<Rightarrow> ('z operations_db_scheme, MetricsSummary) svc" where
  "read_metrics_summary pf st now fl cred = bind_svc (require_admin pf st now cred) (\<lambda>_. get_metrics_summary fl)"

definition read_errors ::
  "'p platform_scheme \<Rightarrow> Settings \<Rightarrow> datetime \<Rightarrow> ErrorLevel option \<Rightarrow> bool option \<Rightarrow> nat \<Rightarrow> string option \<Rightarrow>
   ('z operations_db_scheme, ApplicationErrorRead list) svc" where
  "read_errors pf st now level resolved limit cred =
     bind_svc (require_admin pf st now cred) (\<lambda>_. validated (1 \<le> limit \<and> limit \<le> 200) (list_errors level resolved limit))"

definition read_jobs ::
  "'p platform_scheme \<Rightarrow> Settings \<Rightarrow> datetime \<Rightarrow> JobStatus option \<Rightarrow> nat \<Rightarrow> string option \<Rightarrow>
   ('z operations_db_scheme, BackgroundJobRead list) svc" where
  "read_jobs pf st now status_filter limit cred =
     bind_svc (require_admin pf st now cred) (\<lambda>_. validated (1 \<le> limit \<and> limit \<le> 200) (list_jobs status_filter limit))"

definition read_cache_status ::
  "'p platform_scheme \<Rightarrow> Settings \<Rightarrow> datetime \<Rightarrow> string option \<Rightarrow> ('z operations_db_scheme, CacheStatus) svc" where
  "read_cache_status pf st now cred = bind_svc (require_admin pf st now cred) (\<lambda>_. return_svc get_cache_status)"

definition read_db_status ::
  "'p platform_scheme \<Rightarrow> Settings \<Rightarrow> datetime \<Rightarrow> 'f compliance_floats_scheme \<Rightarrow> rat \<Rightarrow> (int \<times> int \<times> int) option \<Rightarrow> (nat \<Rightarrow> bool) \<Rightarrow>
   string option \<Rightarrow> ('z operations_db_scheme, DbStatus) svc" where
  "read_db_status pf st now fl elapsed pool answers cred =
     bind_svc (require_admin pf st now cred) (\<lambda>_. return_svc (get_db_status fl st elapsed pool answers 0))"

definition read_migration_status ::
  "'p platform_scheme \<Rightarrow> Settings \<Rightarrow> datetime \<Rightarrow> string option \<Rightarrow> (nat \<Rightarrow> bool) \<Rightarrow> string option \<Rightarrow>
   ('z operations_db_scheme, MigrationStatus) svc" where
  "read_migration_status pf st now head answers cred =
     bind_svc (require_admin pf st now cred) (\<lambda>_. get_migration_status head answers 0)"

definition read_event_publisher_status ::
  "'p platform_scheme \<Rightarrow> Settings \<Rightarrow> datetime \<Rightarrow> string option \<Rightarrow> ('z operations_db_scheme, EventPublisherStatus) svc" where
  "read_event_publisher_status pf st now cred = bind_svc (require_admin pf st now cred) (\<lambda>_. get_event_publisher_status)"

definition read_operational_readiness ::
  "'p platform_scheme \<Rightarrow> Settings \<Rightarrow> datetime \<Rightarrow> 'f compliance_floats_scheme \<Rightarrow> datetime \<Rightarrow> rat \<Rightarrow> (int \<times> int \<times> int) option \<Rightarrow>
   string option \<Rightarrow> (nat \<Rightarrow> bool) \<Rightarrow> string option \<Rightarrow> ('z operations_db_scheme, OperationalReadiness) svc" where
  "read_operational_readiness pf st now fl now' elapsed pool head answers cred =
     bind_svc (require_admin pf st now cred) (\<lambda>_. get_operational_readiness fl st now' elapsed pool head answers)"

interpretation read_metrics_summary_ep: admin_endpoint pf st now "read_metrics_summary pf st now fl" "\<lambda>_. get_metrics_summary fl"
  for pf :: "'p platform_scheme" and st now and fl :: "'f compliance_floats_scheme"
  by unfold_locales (simp add: read_metrics_summary_def)

interpretation read_errors_ep: admin_endpoint pf st now "read_errors pf st now level resolved limit"
    "\<lambda>_. validated (1 \<le> limit \<and> limit \<le> 200) (list_errors level resolved limit)"
  for pf :: "'p platform_scheme" and st now level resolved limit
  by unfold_locales (simp add: read_errors_def)

interpretation read_jobs_ep: admin_endpoint pf st now "read_jobs pf st now status_filter limit"
    "\<lambda>_. validated (1 \<le> limit \<and> limit \<le> 200) (list_jobs status_filter limit)"
  for pf :: "'p platform_scheme" and st now status_filter limit
  by unfold_locales (simp add: read_jobs_def)

interpretation read_cache_status_ep: admin_endpoint pf st now "read_cache_status pf st now" "\<lambda>_. return_svc get_cache_status"
  for pf :: "'p platform_scheme" and st now
  by unfold_locales (simp add: read_cache_status_def)

interpretation read_db_status_ep: admin_endpoint pf st now "read_db_status pf st now fl elapsed pool answers"
    "\<lambda>_. return_svc (get_db_status fl st elapsed pool answers 0)"
  for pf :: "'p platform_scheme" and st now and fl :: "'f compliance_floats_scheme" and elapsed pool answers
  by unfold_locales (simp add: read_db_status_def)

interpretation read_migration_status_ep: admin_endpoint pf st now "read_migration_status pf st now head answers"
    "\<lambda>_. get_migration_status head answers 0"
  for pf :: "'p platform_scheme" and st now head answers
  by unfold_locales (simp add: read_migration_status_def)

interpretation read_event_publisher_status_ep: admin_endpoint pf st now "read_event_publisher_status pf st now"
    "\<lambda>_. get_event_publisher_status"
  for pf :: "'p platform_scheme" and st now
  by unfold_locales (simp add: read_event_publisher_status_def)

interpretation read_operational_readiness_ep: admin_endpoint pf st now
    "read_operational_readiness pf st now fl now' elapsed pool head answers"
    "\<lambda>_. get_operational_readiness fl st now' elapsed pool head answers"
  for pf :: "'p platform_scheme" and st now and fl :: "'f compliance_floats_scheme" and now' elapsed pool head answers
  by unfold_locales (simp add: read_operational_readiness_def)

section \<open>schemas/system.py\<close>

record DependencyHealth =
  dph_name :: string
  dph_status :: string
  dph_detail :: "string option"

record ReadinessResponse =
  rdr_status :: string
  rdr_dependencies :: "DependencyHealth list"

record VersionResponse =
  ver_name :: string
  ver_version :: string
  ver_environment :: string
  ver_api_prefix :: string

record DependenciesResponse =
  der_status :: string
  der_dependencies :: "DependencyHealth list"

section \<open>api/v1/endpoints/system.py\<close>

definition APP_VERSION :: string where
  "APP_VERSION = ''0.1.0''"

text \<open>\<open>probe\<close> is the text of the exception of \<^verbatim>\<open>SELECT 1\<close>, \<open>None\<close> when the database answers.\<close>

definition check_database :: "string option \<Rightarrow> bool \<Rightarrow> DependencyHealth" where
  "check_database probe expose_detail =
     (case probe of
        None \<Rightarrow> \<lparr>dph_name = ''database'', dph_status = ''up'', dph_detail = None\<rparr>
      | Some exc \<Rightarrow> \<lparr>dph_name = ''database'', dph_status = ''down'',
          dph_detail = Some (if expose_detail then take 200 exc else ''unavailable'')\<rparr>)"

text \<open>\<open>present\<close> is whether a file exists at \<^verbatim>\<open>AUDIT_SIGNING_KEY_PATH\<close>.\<close>

definition check_audit_signing_key :: "(string \<Rightarrow> bool) \<Rightarrow> Settings \<Rightarrow> DependencyHealth" where
  "check_audit_signing_key file_exists st =
     (let present = file_exists (AUDIT_SIGNING_KEY_PATH st) in
      \<lparr>dph_name = ''audit_signing_key'', dph_status = (if present then ''up'' else ''down''),
       dph_detail = (if present then None else Some ''signing key file not found (generated at bootstrap)'')\<rparr>)"

definition liveness :: "('d, string) svc" where
  "liveness = return_svc ''alive''"

text \<open>The status code of the response comes with the body.\<close>

definition readiness :: "string option \<Rightarrow> ('d, nat \<times> ReadinessResponse) svc" where
  "readiness probe =
     (let dependencies = [check_database probe False];
          ready = list_all (\<lambda>dep. dph_status dep = ''up'') dependencies
      in return_svc (if ready then 200 else 503,
           \<lparr>rdr_status = (if ready then ''ready'' else ''not_ready''), rdr_dependencies = dependencies\<rparr>))"

definition app_version :: "'p platform_scheme \<Rightarrow> Settings \<Rightarrow> datetime \<Rightarrow> string option \<Rightarrow> ('z auth_db_scheme, VersionResponse) svc" where
  "app_version pf st now cred =
     bind_svc (get_current_user pf st now cred)
     (\<lambda>_. return_svc \<lparr>ver_name = PROJECT_NAME st, ver_version = APP_VERSION, ver_environment = ENVIRONMENT st,
        ver_api_prefix = API_V1_PREFIX st\<rparr>)"

definition dependencies ::
  "'p platform_scheme \<Rightarrow> Settings \<Rightarrow> datetime \<Rightarrow> (string \<Rightarrow> bool) \<Rightarrow> string option \<Rightarrow> string option \<Rightarrow>
   ('z auth_db_scheme, nat \<times> DependenciesResponse) svc" where
  "dependencies pf st now file_exists probe cred =
     bind_svc (require_admin pf st now cred)
     (\<lambda>_. let checks = [check_database probe True, check_audit_signing_key file_exists st];
              healthy = list_all (\<lambda>check. dph_status check = ''up'') checks
          in return_svc (if healthy then 200 else 503,
               \<lparr>der_status = (if healthy then ''healthy'' else ''degraded''), der_dependencies = checks\<rparr>))"

interpretation dependencies_ep: admin_endpoint pf st now "dependencies pf st now file_exists probe"
    "\<lambda>_. let checks = [check_database probe True, check_audit_signing_key file_exists st];
              healthy = list_all (\<lambda>check. dph_status check = ''up'') checks
          in return_svc (if healthy then 200 else 503,
               \<lparr>der_status = (if healthy then ''healthy'' else ''degraded''), der_dependencies = checks\<rparr>)"
  for pf :: "'p platform_scheme" and st now file_exists probe
  by unfold_locales (simp add: dependencies_def)

section \<open>main.py\<close>

definition health_check :: "Settings \<Rightarrow> (string \<times> string) list" where
  "health_check st = [(''status'', ''ok''), (''environment'', ENVIRONMENT st)]"

end
