(* ===== verification/Dashboard.thy ===== *)
theory Dashboard
  imports Compliance
begin

text \<open>
  The aggregates of the command centre, which read the tables of the other components:
  \<^verbatim>\<open>src/app/services/dashboard_service.py\<close>, \<^verbatim>\<open>src/app/schemas/dashboard.py\<close> and \<^verbatim>\<open>src/app/api/v1/endpoints/dashboard.py\<close>.
  Functions that share their name with one of another component have the prefix \<open>dashboard_\<close>.
\<close>

section \<open>schemas/dashboard.py\<close>

record DashboardSummary =
  ds_total_tenants :: int
  ds_active_tenants :: int
  ds_total_configurations :: int
  ds_configurations_with_pending_changes :: int
  ds_audit_events_last_24h :: int
  ds_critical_audit_events_last_24h :: int
  ds_open_anomalies :: int

record TenantHealth =
  th_tenant_id :: uuid
  th_tenant_slug :: string
  th_tenant_display_name :: string
  th_tenant_status :: string
  th_isolation_score :: nat
  th_isolation_level :: string
  th_recent_audit_event_count :: int
  th_critical_audit_event_count :: int
  th_open_anomaly_count :: int

record TenantHealthList =
  thl_items :: "TenantHealth list"
  thl_total :: nat

record EventTrendBucket =
  etb_bucket :: datetime
  etb_severity :: string
  etb_count :: int

record EventTrends =
  et_interval :: string
  et_from_timestamp :: datetime
  et_to_timestamp :: datetime
  et_buckets :: "EventTrendBucket list"

record SeverityCount =
  sct_severity :: string
  sct_count :: int

record CategoryCount =
  cct_category :: string
  cct_count :: int

record AnomalyOverviewKpis =
  kp_open_count :: int
  kp_investigating_count :: int
  kp_resolved_last_24h :: int
  kp_dismissed_last_24h :: int
  kp_critical_open :: int
  kp_high_open :: int
  kp_events_last_24h :: int
  kp_events_last_hour :: int
  kp_ml_model_name :: string
  kp_open_by_severity :: "SeverityCount list"
  kp_top_categories :: "CategoryCount list"

section \<open>services/dashboard\_service.py\<close>

definition OPEN_ANOMALY_STATUSES :: "AnomalyStatus list" where
  "OPEN_ANOMALY_STATUSES = [AnomalyStatus.OPEN, AnomalyStatus.INVESTIGATING]"

definition HSM_MODULE_SERIAL :: string where
  "HSM_MODULE_SERIAL = ''TL7-US-E1-0042''"

definition dashboard_ML_MODEL_NAME :: string where
  "dashboard_ML_MODEL_NAME = ''IsolationForest v3.2''"

definition get_summary :: "datetime \<Rightarrow> ('z compliance_db_scheme, DashboardSummary) svc" where
  "get_summary now =
     (let since_24h = now - timedelta_hours 24 in
      query (\<lambda>d.
        \<lparr>ds_total_tenants = count_rows (\<lambda>t. True) (tenants d),
         ds_active_tenants = count_rows (\<lambda>t. t_status t = TenantStatus.ACTIVE) (tenants d),
         ds_total_configurations = count_rows (\<lambda>p. True) (config_parameters d),
         ds_configurations_with_pending_changes = count_rows (\<lambda>p. cp_pending_value p \<noteq> None) (config_parameters d),
         ds_audit_events_last_24h = count_rows (\<lambda>e. since_24h \<le> ale_occurred_at e) (audit_log_entries d),
         ds_critical_audit_events_last_24h =
           count_rows (\<lambda>e. since_24h \<le> ale_occurred_at e \<and> ale_severity e = AuditSeverity.CRITICAL) (audit_log_entries d),
         ds_open_anomalies = count_rows (\<lambda>e. ae_status e \<in> set OPEN_ANOMALY_STATUSES) (anomaly_events d)\<rparr>))"

definition get_tenant_health :: "datetime \<Rightarrow> ('z compliance_db_scheme, TenantHealthList) svc" where
  "get_tenant_health since =
     query (\<lambda>d.
       let audit_counts = group_counts ale_tenant_id
             (filter (\<lambda>e. since \<le> ale_occurred_at e \<and> ale_tenant_id e \<noteq> None) (audit_log_entries d));
           critical_audit_counts = group_counts ale_tenant_id
             (filter (\<lambda>e. since \<le> ale_occurred_at e \<and> ale_tenant_id e \<noteq> None \<and> ale_severity e = AuditSeverity.CRITICAL)
               (audit_log_entries d));
           open_anomaly_counts = group_counts ae_tenant_id
             (filter (\<lambda>e. ae_tenant_id e \<noteq> None \<and> ae_status e \<in> set OPEN_ANOMALY_STATUSES) (anomaly_events d));
           items = map (\<lambda>tenant.
             \<lparr>th_tenant_id = t_id tenant, th_tenant_slug = t_slug tenant, th_tenant_display_name = t_display_name tenant,
              th_tenant_status = TenantStatus_value (t_status tenant), th_isolation_score = isolation_score tenant,
              th_isolation_level = isolation_level tenant, th_recent_audit_event_count = count_of audit_counts (Some (t_id tenant)),
              th_critical_audit_event_count = count_of critical_audit_counts (Some (t_id tenant)),
              th_open_anomaly_count = count_of open_anomaly_counts (Some (t_id tenant))\<rparr>) (sort_key t_display_name (tenants d))
       in \<lparr>thl_items = items, thl_total = length items\<rparr>)"

definition get_event_trends ::
  "datetime \<Rightarrow> datetime \<Rightarrow> string \<Rightarrow> ('z compliance_db_scheme, EventTrends) svc" where
  "get_event_trends from_timestamp to_timestamp interval =
     query (\<lambda>d.
       let rows = sort_key (\<lambda>((bucket, _), _). bucket)
             (group_counts (\<lambda>e. (date_trunc interval (ale_occurred_at e), ale_severity e))
               (filter (\<lambda>e. from_timestamp \<le> ale_occurred_at e \<and> ale_occurred_at e \<le> to_timestamp) (audit_log_entries d)))
       in \<lparr>et_interval = interval, et_from_timestamp = from_timestamp, et_to_timestamp = to_timestamp,
           et_buckets = map (\<lambda>((bucket, severity), n).
             \<lparr>etb_bucket = bucket, etb_severity = AuditSeverity_value severity, etb_count = n\<rparr>) rows\<rparr>)"

definition get_anomaly_overview :: "datetime \<Rightarrow> ('z compliance_db_scheme, AnomalyOverviewKpis) svc" where
  "get_anomaly_overview now =
     (let since_24h = now - timedelta_hours 24; since_1h = now - timedelta_hours 1 in
      query (\<lambda>d.
        let events = anomaly_events d;
            status_counts = group_counts ae_status events;
            open_by_severity = group_counts ae_severity (filter (\<lambda>e. ae_status e \<in> set OPEN_ANOMALY_STATUSES) events);
            category_rows = take 5 (order_by_desc snd (group_counts ae_category (filter (\<lambda>e. since_24h \<le> ae_occurred_at e) events)))
        in \<lparr>kp_open_count = count_of status_counts AnomalyStatus.OPEN,
            kp_investigating_count = count_of status_counts AnomalyStatus.INVESTIGATING,
            kp_resolved_last_24h = count_rows (\<lambda>e. ae_status e = AnomalyStatus.RESOLVED
              \<and> (case ae_resolved_at e of None \<Rightarrow> False | Some t \<Rightarrow> since_24h \<le> t)) events,
            kp_dismissed_last_24h = count_rows (\<lambda>e. ae_status e = AnomalyStatus.DISMISSED \<and> since_24h \<le> ae_updated_at e) events,
            kp_critical_open = count_of open_by_severity AnomalySeverity.CRITICAL,
            kp_high_open = count_of open_by_severity AnomalySeverity.HIGH,
            kp_events_last_24h = count_rows (\<lambda>e. since_24h \<le> ae_occurred_at e) events,
            kp_events_last_hour = count_rows (\<lambda>e. since_1h \<le> ae_occurred_at e) events,
            kp_ml_model_name = dashboard_ML_MODEL_NAME,
            kp_open_by_severity = map (\<lambda>sev. \<lparr>sct_severity = AnomalySeverity_value sev, sct_count = count_of open_by_severity sev\<rparr>)
              [AnomalySeverity.CRITICAL, AnomalySeverity.HIGH, AnomalySeverity.MEDIUM, AnomalySeverity.LOW],
            kp_top_categories = map (\<lambda>(category, n). \<lparr>cct_category = category, cct_count = n\<rparr>) category_rows\<rparr>))"

definition dashboard_compliance_overview :: "'f compliance_floats_scheme \<Rightarrow> ('z compliance_db_scheme, ComplianceSummary) svc" where
  "dashboard_compliance_overview fl = get_compliance_summary fl"

definition get_security_overview :: "'f compliance_floats_scheme \<Rightarrow> datetime \<Rightarrow> ('z compliance_db_scheme, SecuritySummary) svc" where
  "get_security_overview fl now = get_security_summary fl now HSM_MODULE_SERIAL"

text \<open>The filters of the activity; an unknown member of an enumeration makes the query fail.\<close>

record activity_filter =
  xf_tenant_id :: "uuid option"
  xf_event_type :: "string option"
  xf_severity :: "string option"
  xf_created_from :: "datetime option"
  xf_created_to :: "datetime option"

definition activity_known :: "'p audit_platform_scheme \<Rightarrow> activity_filter \<Rightarrow> bool" where
  "activity_known pf f \<longleftrightarrow>
     (truthy (xf_event_type f) \<longrightarrow> coerce_event_type pf (the (xf_event_type f)) \<noteq> None)
     \<and> (truthy (xf_severity f) \<longrightarrow> coerce_severity pf (the (xf_severity f)) \<noteq> None)"

definition activity_matches :: "'p audit_platform_scheme \<Rightarrow> activity_filter \<Rightarrow> AuditLogEntry \<Rightarrow> bool" where
  "activity_matches pf f e \<longleftrightarrow>
     (case xf_tenant_id f of None \<Rightarrow> True | Some i \<Rightarrow> ale_tenant_id e = Some i)
     \<and> (truthy (xf_event_type f) \<longrightarrow> coerce_event_type pf (the (xf_event_type f)) = Some (ale_event_type e))
     \<and> (truthy (xf_severity f) \<longrightarrow> coerce_severity pf (the (xf_severity f)) = Some (ale_severity e))
     \<and> (case xf_created_from f of None \<Rightarrow> True | Some t \<Rightarrow> t \<le> ale_occurred_at e)
     \<and> (case xf_created_to f of None \<Rightarrow> True | Some t \<Rightarrow> ale_occurred_at e \<le> t)"

definition get_activity ::
  "'p audit_platform_scheme \<Rightarrow> nat \<Rightarrow> nat \<Rightarrow> activity_filter \<Rightarrow> ('z compliance_db_scheme, AuditLogEntryRead list \<times> nat) svc" where
  "get_activity pf page page_size f =
     query_e (\<lambda>d.
       if \<not> activity_known pf f then Inl (LookupError ''enum'')
       else
         let found = filter (activity_matches pf f) (audit_log_entries d)
         in Inr (map (\<lambda>e.
              \<lparr>alr_id = ale_id e, alr_sequence = ale_sequence e, alr_occurred_at = ale_occurred_at e,
               alr_severity = AuditSeverity_value (ale_severity e), alr_event_type = AuditEventType_value (ale_event_type e),
               alr_event_subtype = ale_event_subtype e, alr_tenant_slug = ale_tenant_slug e, alr_actor = ale_actor e,
               alr_source_ip = ale_source_ip e, alr_description = ale_description e, alr_metadata_json = ale_metadata_json e,
               alr_prev_hash = ale_prev_hash e, alr_entry_hash = ale_entry_hash e, alr_signing_key_id = ale_signing_key_id e,
               alr_signature = ale_signature e, alr_integrity = ''valid''\<rparr>)
            (page_of page page_size (order_by_desc ale_sequence found)), length found))"

section \<open>api/v1/endpoints/dashboard.py\<close>

definition read_dashboard_summary ::
  "'p platform_scheme \<Rightarrow> Settings \<Rightarrow> datetime \<Rightarrow> string option \<Rightarrow> datetime \<Rightarrow> ('z compliance_db_scheme, DashboardSummary) svc" where
  "read_dashboard_summary pf st now cred now' = bind_svc (get_current_user pf st now cred) (\<lambda>_. get_summary now')"

text \<open>The times of the activity are bound as they come, so one without an offset fails.\<close>

definition bound_time_opt :: "query_time option \<Rightarrow> ('d, datetime option) svc" where
  "bound_time_opt t =
     (case t of
        None \<Rightarrow> return_svc None
      | Some q \<Rightarrow> bind_svc (bound_time q) (\<lambda>x. return_svc (Some x)))"

definition read_dashboard_activity ::
  "'p audit_platform_scheme \<Rightarrow> Settings \<Rightarrow> datetime \<Rightarrow> string option \<Rightarrow> nat \<Rightarrow> nat \<Rightarrow> uuid option \<Rightarrow> string option \<Rightarrow> string option \<Rightarrow>
   query_time option \<Rightarrow> query_time option \<Rightarrow> ('z compliance_db_scheme, AuditLogEntryRead Page) svc" where
  "read_dashboard_activity pf st now cred page page_size tenant_id event_type severity created_from created_to =
     bind_svc (get_current_user pf st now cred)
     (\<lambda>_. validated (1 \<le> page \<and> 1 \<le> page_size \<and> page_size \<le> MAX_PAGE_SIZE st)
        (bind_svc (bound_time_opt created_from)
        (\<lambda>f. bind_svc (bound_time_opt created_to)
        (\<lambda>t. bind_svc (get_activity pf page page_size
               \<lparr>xf_tenant_id = tenant_id, xf_event_type = event_type, xf_severity = severity, xf_created_from = f, xf_created_to = t\<rparr>)
        (\<lambda>(items, n). return_svc \<lparr>pg_items = items, pg_total = n, pg_page = page, pg_page_size = page_size\<rparr>)))))"

definition read_tenant_health ::
  "'p platform_scheme \<Rightarrow> Settings \<Rightarrow> datetime \<Rightarrow> string option \<Rightarrow> datetime \<Rightarrow> query_time option \<Rightarrow> ('z compliance_db_scheme, TenantHealthList) svc" where
  "read_tenant_health pf st now cred now' since =
     bind_svc (get_current_user pf st now cred)
     (\<lambda>_. case since of
        None \<Rightarrow> get_tenant_health (now' - timedelta_hours 24)
      | Some t \<Rightarrow> bind_svc (bound_time t) get_tenant_health)"

definition read_event_trends ::
  "'p platform_scheme \<Rightarrow> Settings \<Rightarrow> datetime \<Rightarrow> datetime \<Rightarrow> string option \<Rightarrow> query_time option \<Rightarrow> query_time option \<Rightarrow> string \<Rightarrow>
   ('z compliance_db_scheme, EventTrends) svc" where
  "read_event_trends pf st now now' cred from_timestamp to_timestamp interval =
     bind_svc (get_current_user pf st now cred)
     (\<lambda>_. validated (interval = ''hour'' \<or> interval = ''day'')
        (let to_timestamp = (case to_timestamp of None \<Rightarrow> (now', Some 0) | Some t \<Rightarrow> t);
             from_timestamp = (case from_timestamp of None \<Rightarrow> (fst to_timestamp - timedelta_days 7, snd to_timestamp) | Some t \<Rightarrow> t)
         in bind_svc (bound_time from_timestamp)
            (\<lambda>f. bind_svc (bound_time to_timestamp) (\<lambda>t. get_event_trends f t interval))))"

definition read_dashboard_anomaly_overview ::
  "'p platform_scheme \<Rightarrow> Settings \<Rightarrow> datetime \<Rightarrow> string option \<Rightarrow> datetime \<Rightarrow> ('z compliance_db_scheme, AnomalyOverviewKpis) svc" where
  "read_dashboard_anomaly_overview pf st now cred now' = bind_svc (get_current_user pf st now cred) (\<lambda>_. get_anomaly_overview now')"

definition read_dashboard_compliance_overview ::
  "'p platform_scheme \<Rightarrow> 'f compliance_floats_scheme \<Rightarrow> Settings \<Rightarrow> datetime \<Rightarrow> string option \<Rightarrow> ('z compliance_db_scheme, ComplianceSummary) svc" where
  "read_dashboard_compliance_overview pf fl st now cred = bind_svc (get_current_user pf st now cred) (\<lambda>_. dashboard_compliance_overview fl)"

definition read_security_overview ::
  "'p platform_scheme \<Rightarrow> 'f compliance_floats_scheme \<Rightarrow> Settings \<Rightarrow> datetime \<Rightarrow> string option \<Rightarrow> datetime \<Rightarrow> ('z compliance_db_scheme, SecuritySummary) svc" where
  "read_security_overview pf fl st now cred now' = bind_svc (get_current_user pf st now cred) (\<lambda>_. get_security_overview fl now')"

end
