(* ===== verification/HsmLifecycle.thy ===== *)
theory HsmLifecycle
  imports Hsm
begin

text \<open>
  The life cycle of master keys and ceremonies: what each request of \<open>Hsm\<close> publishes, the
  invariant of the tables, an abstract machine of keys and ceremonies that the requests refine,
  and the properties of the component.
\<close>

section \<open>What the requests publish\<close>

text \<open>The tables of the life cycle.\<close>

definition hsm_tables :: "'z hsm_db_scheme \<Rightarrow> MasterKey list \<times> KeyCeremony list \<times> KeyCustodianApproval list" where
  "hsm_tables d = (master_keys d, key_ceremonies d, key_custodian_approvals d)"

lemma insert_master_key_Inr:
  "insert_master_key k d = Inr d' \<longleftrightarrow> text_fits_opt 80 (Some (mk_key_label k)) \<and> text_fits_opt 20 (mk_hsm_object_id k)
     \<and> text_fits_opt 40 (Some (mk_algorithm k)) \<and> mk_key_label k \<notin> mk_key_label ` set (master_keys d)
     \<and> (\<forall>i. mk_slot_id k = Some i \<longrightarrow> i \<in> hs_id ` set (hsm_slots d)) \<and> mk_id k \<notin> mk_id ` set (master_keys d)
     \<and> d' = d\<lparr>master_keys := master_keys d @ [k]\<rparr>"
  by (auto simp: insert_master_key_def insert_row_def split: option.splits)

lemma insert_key_ceremony_Inr:
  "insert_key_ceremony c d = Inr d' \<longleftrightarrow> text_fits_opt 40 (Some (kc_ceremony_ref c)) \<and> text_fits_opt 80 (kc_predecessor_label c)
     \<and> kc_ceremony_ref c \<notin> kc_ceremony_ref ` set (key_ceremonies d) \<and> kc_master_key_id c \<in> mk_id ` set (master_keys d)
     \<and> kc_id c \<notin> kc_id ` set (key_ceremonies d) \<and> d' = d\<lparr>key_ceremonies := key_ceremonies d @ [c]\<rparr>"
  by (auto simp: insert_key_ceremony_def insert_row_def)

lemma insert_custodian_approval_Inr:
  "insert_custodian_approval a d = Inr d' \<longleftrightarrow> text_fits_opt 120 (Some (kca_custodian_email a))
     \<and> kca_ceremony_id a \<in> kc_id ` set (key_ceremonies d) \<and> kca_id a \<notin> kca_id ` set (key_custodian_approvals d)
     \<and> d' = d\<lparr>key_custodian_approvals := key_custodian_approvals d @ [a]\<rparr>"
  by (auto simp: insert_custodian_approval_def insert_row_def)

lemma insert_attestation_run_Inr:
  "insert_attestation_run r d = Inr d' \<longleftrightarrow> ar_id r \<notin> ar_id ` set (attestation_runs d) \<and> d' = d\<lparr>attestation_runs := attestation_runs d @ [r]\<rparr>"
  by (auto simp: insert_attestation_run_def insert_row_def)

lemma insert_security_operation_Inr:
  "insert_security_operation p d = Inr d' \<longleftrightarrow> text_fits_opt 80 (so_key_label p) \<and> text_fits_opt 120 (Some (so_actor p))
     \<and> text_fits_opt 300 (Some (so_detail p)) \<and> (\<forall>i. so_master_key_id p = Some i \<longrightarrow> i \<in> mk_id ` set (master_keys d))
     \<and> so_id p \<notin> so_id ` set (security_operations d) \<and> d' = d\<lparr>security_operations := security_operations d @ [p]\<rparr>"
  by (auto simp: insert_security_operation_def insert_row_def split: option.splits)

lemma operation_tables: "insert_security_operation p d = Inr d' \<Longrightarrow> hsm_tables d' = hsm_tables d"
  by (auto simp: insert_security_operation_Inr hsm_tables_def)

lemmas hsm_inserts = insert_master_key_Inr insert_key_ceremony_Inr insert_custodian_approval_Inr insert_attestation_run_Inr

lemma uncommitting_get_key [intro, simp]: "uncommitting (get_key fl now i)"
  unfolding get_key_def get_key_orm_def by (intro uncommitting_bind uncommitting_option uncommitting_basic)

lemma logged_tables: "logged pf fr p e d d' \<Longrightarrow> hsm_tables d' = hsm_tables d"
  by (drule logged_entry(1)) (simp add: hsm_tables_def)

lemma option_Inr: "(case z of None \<Rightarrow> Inl e | Some x \<Rightarrow> Inr x) = Inr y \<longleftrightarrow> z = Some y"
  by (cases z) simp_all

lemma create_key_publishes:
  "publishes (create_key pf fl fr key_first i op_id now created now' p actor) d (\<lambda>d'. \<exists>k.
     hsm_tables d' = (master_keys d @ [k], key_ceremonies d, key_custodian_approvals d) \<and> mk_id k = i \<and> i \<notin> mk_id ` set (master_keys d)
     \<and> mk_key_label k = mkc_key_label p \<and> mkc_key_label p \<notin> mk_key_label ` set (master_keys d)
     \<and> mk_status k = MasterKeyStatus.PENDING \<and> mk_superseded_by_id k = None)"
  unfolding create_key_def assert_label_available_def record_operation_def
  by (simp only: publish_simps; intro allI impI conjI publish_intros uncommitting_get_key;
      clarsimp simp: hsm_inserts dest!: logged_tables operation_tables; simp add: hsm_tables_def)

lemma filter_single: "filter P xs = [x] \<Longrightarrow> x \<in> set xs \<and> P x"
  using filter_set [of P xs] by auto

lemma create_ceremony_publishes:
  "publishes (create_ceremony pf fr cid ref_id now created p actor) d (\<lambda>d'. \<exists>c k.
     hsm_tables d' = (master_keys d, key_ceremonies d @ [c], key_custodian_approvals d) \<and> k \<in> set (master_keys d)
     \<and> mk_id k = kcc_master_key_id p \<and> mk_status k = MasterKeyStatus.PENDING
     \<and> kc_id c = cid \<and> cid \<notin> kc_id ` set (key_ceremonies d) \<and> kc_master_key_id c = mk_id k
     \<and> kc_status c = CeremonyStatus.PENDING \<and> kc_required_approvals c = kcc_required_approvals p
     \<and> (\<forall>x \<in> set (key_ceremonies d). kc_master_key_id x = mk_id k \<longrightarrow> kc_status x \<noteq> CeremonyStatus.PENDING)
     \<and> (kc_predecessor_label c = None \<or> (\<exists>q \<in> set (master_keys d). kc_predecessor_label c = Some (mk_key_label q) \<and> mk_id q \<noteq> mk_id k
          \<and> mk_status q \<in> {MasterKeyStatus.ACTIVE, MasterKeyStatus.EXPIRING})))"
  unfolding create_ceremony_def get_key_orm_def ceremony_predecessor_def
  by (simp only: publish_simps; intro allI impI conjI publish_intros uncommitting_basic;
      clarsimp simp: hsm_inserts scalar_one_or_none_Inr filter_empty_conv dest!: filter_single logged_tables)
     (simp_all add: hsm_tables_def new_ceremony_def, (metis (no_types, lifting))+)

lemma first_row_filter: "first_row (filter P xs) = Some x \<Longrightarrow> x \<in> set xs \<and> P x" "first_row (filter P xs) = None \<longleftrightarrow> (\<forall>x \<in> set xs. \<not> P x)"
proof -
  show "first_row (filter P xs) = Some x \<Longrightarrow> x \<in> set xs \<and> P x"
    by (induction xs) (auto simp: first_row_def split: if_splits)
  show "first_row (filter P xs) = None \<longleftrightarrow> (\<forall>x \<in> set xs. \<not> P x)"
    by (induction xs) (auto simp: first_row_def)
qed

lemma approve_ceremony_publishes:
  "publishes (approve_ceremony pf fr aid now cid email) d (\<lambda>d'. \<exists>c.
     c \<in> set (key_ceremonies d) \<and> kc_id c = cid \<and> kc_status c = CeremonyStatus.PENDING
     \<and> master_keys d' = master_keys d \<and> key_ceremonies d' = key_ceremonies d
     \<and> (key_custodian_approvals d' = key_custodian_approvals d
        \<or> (\<exists>a. key_custodian_approvals d' = key_custodian_approvals d @ [a] \<and> kca_id a = aid \<and> kca_ceremony_id a = cid
             \<and> kca_custodian_email a = email \<and> kca_approved_at a = Some now \<and> aid \<notin> kca_id ` set (key_custodian_approvals d)
             \<and> (\<forall>x \<in> set (key_custodian_approvals d). kca_ceremony_id x = cid \<longrightarrow> kca_custodian_email x \<noteq> email))
        \<or> (\<exists>a \<in> set (key_custodian_approvals d). kca_ceremony_id a = cid \<and> kca_custodian_email a = email
             \<and> key_custodian_approvals d' = update_where (\<lambda>x. kca_id x = kca_id a) (\<lambda>x. x\<lparr>kca_approved_at := Some now\<rparr>)
                 (key_custodian_approvals d))))"
  unfolding approve_ceremony_def get_ceremony_def record_approval_def ceremony_key_def
  by (simp only: publish_simps; intro allI impI conjI publish_intros uncommitting_basic;
      clarsimp simp: hsm_inserts scalar_one_or_none_Inr approvals_of_def first_row_filter(2) dest!: filter_single logged_tables first_row_filter(1))
     (simp_all add: hsm_tables_def, blast+)

text \<open>The keys after the predecessor a ceremony names is retired, and after the ceremony for key \<open>k\<close> is completed.\<close>

definition retired_keys :: "datetime \<Rightarrow> uuid \<Rightarrow> string option \<Rightarrow> MasterKey list \<Rightarrow> MasterKey list" where
  "retired_keys now i label ks =
     (case filter (\<lambda>x. label = Some (mk_key_label x) \<and> mk_key_label x \<noteq> []) ks of
        [] \<Rightarrow> ks
      | p # _ \<Rightarrow> update_where (\<lambda>x. mk_id x = mk_id p) (\<lambda>x. x\<lparr>mk_superseded_by_id := Some i\<rparr>)
          (update_where (\<lambda>x. mk_id x = i) (\<lambda>x. x\<lparr>mk_superseded_by_id := None\<rparr>)
          (update_where (\<lambda>x. mk_id x = mk_id p) (\<lambda>x. x\<lparr>mk_status := MasterKeyStatus.RETIRED, mk_retired_at := Some now\<rparr>) ks)))"

definition completed_keys :: "datetime \<Rightarrow> MasterKey \<Rightarrow> string option \<Rightarrow> MasterKey list \<Rightarrow> MasterKey list" where
  "completed_keys now k label ks = retired_keys now (mk_id k) label
     (update_where (\<lambda>x. mk_id x = mk_id k) (\<lambda>x. x\<lparr>mk_status := MasterKeyStatus.ACTIVE, mk_activated_at := Some now,
        mk_expires_at := Some (now + timedelta_days (mk_rotation_policy_days k))\<rparr>) ks)"

lemma retire_runs:
  fixes s :: "'z hsm_db_scheme session"
  shows "(\<exists>e. retire_predecessor now i label s = (Inl e, s)) \<or> retire_predecessor now i label s =
    (Inr (), s\<lparr>working := master_keys_update (retired_keys now i label) (working s)\<rparr>)"
proof -
  let ?d = "working s"
  have same: "s\<lparr>working := master_keys_update (retired_keys now i label) ?d\<rparr> = s"
    if "retired_keys now i label (master_keys ?d) = master_keys ?d"
  proof -
    have "master_keys_update (retired_keys now i label) ?d = ?d" by (rule hsm_db.equality) (simp_all add: that)
    then show ?thesis by simp
  qed
  show ?thesis
  proof (cases "label = None \<or> label = Some []")
    case True
    then have "retired_keys now i label (master_keys ?d) = master_keys ?d"
      by (elim disjE) (simp_all add: retired_keys_def cong: conj_cong)
    with True same show ?thesis by (auto simp: retire_predecessor_def return_svc_def)
  next
    case False
    then obtain l where l: "label = Some l" "l \<noteq> []" by (cases label) auto
    have rows: "filter (\<lambda>x. label = Some (mk_key_label x) \<and> mk_key_label x \<noteq> []) ks = filter (\<lambda>k. mk_key_label k = l) ks" for ks
      using l by (auto intro!: filter_cong)
    show ?thesis
    proof (cases "scalar_one_or_none (filter (\<lambda>k. mk_key_label k = l) (master_keys ?d))")
      case (Inl e)
      then show ?thesis using l by (simp add: retire_predecessor_def svc_simps)
    next
      case (Inr found)
      show ?thesis
      proof (cases found)
        case None
        then have "filter (\<lambda>k. mk_key_label k = l) (master_keys ?d) = []" using Inr by (simp add: scalar_one_or_none_Inr)
        then have "retired_keys now i label (master_keys ?d) = master_keys ?d" by (simp add: retired_keys_def rows)
        then show ?thesis using same l Inr None by (simp add: retire_predecessor_def svc_simps)
      next
        case (Some p)
        then have "filter (\<lambda>k. mk_key_label k = l) (master_keys ?d) = [p]" using Inr by (simp add: scalar_one_or_none_Inr)
        then have "master_keys_update (retired_keys now i label) ?d = update_master_key (mk_id p) (\<lambda>k. k\<lparr>mk_superseded_by_id := Some i\<rparr>)
            (update_master_key i (\<lambda>k. k\<lparr>mk_superseded_by_id := None\<rparr>)
            (update_master_key (mk_id p) (\<lambda>k. k\<lparr>mk_status := MasterKeyStatus.RETIRED, mk_retired_at := Some now\<rparr>) ?d))"
          by (intro hsm_db.equality) (simp_all add: retired_keys_def rows update_master_key_def)
        then show ?thesis using l Inr Some by (simp add: retire_predecessor_def svc_simps)
      qed
    qed
  qed
qed

lemma publishes_retire:
  assumes "publishes (f ()) (master_keys_update (retired_keys now i label) d) Q"
  shows "publishes (bind_svc (retire_predecessor now i label) f) d Q"
  unfolding publishes_def
proof
  fix c
  show "committed (snd (bind_svc (retire_predecessor now i label) f \<lparr>committed = c, working = d\<rparr>)) = c
    \<or> Q (committed (snd (bind_svc (retire_predecessor now i label) f \<lparr>committed = c, working = d\<rparr>)))"
    using retire_runs [of now i label "\<lparr>committed = c, working = d\<rparr>"] assms by (auto simp: bind_svc_def publishes_def)
qed

lemma complete_ceremony_publishes:
  "publishes (complete_ceremony pf fr op_id now cid actor) d (\<lambda>d'. \<exists>c k.
     c \<in> set (key_ceremonies d) \<and> kc_id c = cid \<and> kc_status c = CeremonyStatus.PENDING
     \<and> quorum_met c (approvals_of d cid) \<and> get_row mk_id (kc_master_key_id c) (master_keys d) = Some k
     \<and> hsm_tables d' = (completed_keys now k (kc_predecessor_label c) (master_keys d),
         update_where (\<lambda>c. kc_id c = cid) (\<lambda>c. c\<lparr>kc_status := CeremonyStatus.COMPLETE, kc_completed_at := Some now\<rparr>) (key_ceremonies d),
         key_custodian_approvals d))"
  unfolding complete_ceremony_def get_ceremony_def ceremony_key_def record_operation_def
  by (simp only: publish_simps; intro allI impI conjI publishes_retire;
      simp only: publish_simps; intro allI impI conjI publish_intros uncommitting_basic;
      clarsimp simp: option_Inr scalar_one_or_none_Inr dest!: filter_single logged_tables operation_tables)
     (simp add: hsm_tables_def completed_keys_def update_master_key_def, metis)

lemma rotate_key_publishes:
  "publishes (rotate_key pf fl fr j op_id now created now' i actor new_label) d (\<lambda>d'. \<exists>k.
     k \<in> set (master_keys d) \<and> mk_id k = i \<and> mk_status k \<in> {MasterKeyStatus.ACTIVE, MasterKeyStatus.EXPIRING}
     \<and> j \<notin> mk_id ` set (master_keys d) \<and> successor_label new_label k \<notin> mk_key_label ` set (master_keys d)
     \<and> hsm_tables d' = (update_where (\<lambda>x. mk_id x = i) (\<lambda>x. x\<lparr>mk_status := MasterKeyStatus.RETIRED,
            mk_retired_at := Some now, mk_superseded_by_id := Some j, mk_throughput_ops := 0\<rparr>)
          (master_keys d @ [successor_of j (successor_label new_label k) now created k]), key_ceremonies d, key_custodian_approvals d))"
  unfolding rotate_key_def get_key_orm_def assert_label_available_def record_operation_def
  by (simp only: publish_simps; intro allI impI conjI publish_intros uncommitting_get_key uncommitting_basic;
      clarsimp simp: hsm_inserts scalar_one_or_none_Inr dest!: filter_single logged_tables operation_tables)
     (simp add: hsm_tables_def update_master_key_def successor_of_def, (metis (no_types, lifting))+)

lemma disable_key_publishes:
  "publishes (disable_key pf fl fr op_id now now' i actor) d (\<lambda>d'. \<exists>k.
     k \<in> set (master_keys d) \<and> mk_id k = i \<and> mk_status k \<notin> {MasterKeyStatus.RETIRED, MasterKeyStatus.DISABLED}
     \<and> hsm_tables d' = (update_where (\<lambda>x. mk_id x = i) (\<lambda>x. x\<lparr>mk_status := MasterKeyStatus.DISABLED,
            mk_retired_at := Some now, mk_throughput_ops := 0\<rparr>) (master_keys d), key_ceremonies d, key_custodian_approvals d))"
  unfolding disable_key_def get_key_orm_def record_operation_def
  by (simp only: publish_simps; intro allI impI conjI publish_intros uncommitting_get_key uncommitting_basic;
      clarsimp simp: hsm_inserts scalar_one_or_none_Inr dest!: filter_single logged_tables operation_tables)
     (simp add: hsm_tables_def update_master_key_def, blast)

lemma run_attestation_publishes:
  "publishes (run_attestation pf fr run_id op_id now actor) d (\<lambda>d'. hsm_tables d' = hsm_tables d)"
  unfolding run_attestation_def record_operation_def
  by (simp only: publish_simps; intro allI impI conjI publish_intros uncommitting_basic;
      clarsimp simp: hsm_inserts dest!: logged_tables operation_tables; simp add: hsm_tables_def)

section \<open>The invariant\<close>

text \<open>
  Keys have identifiers and labels of their own. A ceremony is for a key of the table, and the
  predecessor it names is another one. A custodian has one approval per ceremony.
\<close>

definition keys_ok :: "MasterKey list \<Rightarrow> bool" where
  "keys_ok ks \<longleftrightarrow> distinct (map mk_id ks) \<and> distinct (map mk_key_label ks) \<and> [] \<notin> mk_key_label ` set ks"

definition ceremonies_ok :: "MasterKey list \<Rightarrow> KeyCeremony list \<Rightarrow> bool" where
  "ceremonies_ok ks cs \<longleftrightarrow> distinct (map kc_id cs) \<and> (\<forall>c \<in> set cs. kc_master_key_id c \<in> mk_id ` set ks
     \<and> (\<forall>l. kc_predecessor_label c = Some l \<longrightarrow> (\<exists>q. (q, l) \<in> (\<lambda>k. (mk_id k, mk_key_label k)) ` set ks \<and> q \<noteq> kc_master_key_id c)))"

definition approvals_ok :: "KeyCeremony list \<Rightarrow> KeyCustodianApproval list \<Rightarrow> bool" where
  "approvals_ok cs xs \<longleftrightarrow> distinct (map kca_id xs) \<and> distinct (map (\<lambda>a. (kca_ceremony_id a, kca_custodian_email a)) xs)
     \<and> kca_ceremony_id ` set xs \<subseteq> kc_id ` set cs"

definition hsm_ok :: "MasterKey list \<times> KeyCeremony list \<times> KeyCustodianApproval list \<Rightarrow> bool" where
  "hsm_ok t \<longleftrightarrow> (case t of (ks, cs, xs) \<Rightarrow> keys_ok ks \<and> ceremonies_ok ks cs \<and> approvals_ok cs xs)"

definition hsm_inv :: "'z hsm_db_scheme \<Rightarrow> bool" where
  "hsm_inv d \<longleftrightarrow> hsm_ok (hsm_tables d)"

text \<open>An update of keys that leaves their identifiers and labels alone.\<close>

definition same_names :: "MasterKey list \<Rightarrow> MasterKey list \<Rightarrow> bool" where
  "same_names ks ks' \<longleftrightarrow> map (\<lambda>k. (mk_id k, mk_key_label k)) ks' = map (\<lambda>k. (mk_id k, mk_key_label k)) ks"

lemma same_namesD:
  assumes "same_names ks ks'"
  shows "map mk_id ks' = map mk_id ks" "map mk_key_label ks' = map mk_key_label ks" "mk_id ` set ks' = mk_id ` set ks"
    "mk_key_label ` set ks' = mk_key_label ` set ks"
    "(\<lambda>k. (mk_id k, mk_key_label k)) ` set ks' = (\<lambda>k. (mk_id k, mk_key_label k)) ` set ks"
proof -
  note eq = assms [unfolded same_names_def]
  show ids: "map mk_id ks' = map mk_id ks" using arg_cong [OF eq, of "map fst"] by (simp add: comp_def)
  show labels: "map mk_key_label ks' = map mk_key_label ks" using arg_cong [OF eq, of "map snd"] by (simp add: comp_def)
  show "mk_id ` set ks' = mk_id ` set ks" "mk_key_label ` set ks' = mk_key_label ` set ks"
    "(\<lambda>k. (mk_id k, mk_key_label k)) ` set ks' = (\<lambda>k. (mk_id k, mk_key_label k)) ` set ks"
    using arg_cong [OF ids, of set] arg_cong [OF labels, of set] arg_cong [OF eq, of set] by simp_all
qed

lemma same_names_update: "(\<And>k. mk_id (f k) = mk_id k \<and> mk_key_label (f k) = mk_key_label k) \<Longrightarrow> same_names ks (update_where P f ks)"
  by (simp add: same_names_def map_update_where)

lemma same_names_refl: "same_names ks ks"
  by (simp add: same_names_def)

lemma same_names_trans: "same_names a b \<Longrightarrow> same_names b c \<Longrightarrow> same_names a c"
  by (simp add: same_names_def)

lemma same_names_completed: "same_names ks (completed_keys now k label ks)"
  unfolding completed_keys_def retired_keys_def
  by (auto split: list.splits intro!: same_names_trans [OF same_names_update same_names_update]
      same_names_trans [OF same_names_trans [OF same_names_trans [OF same_names_update same_names_update] same_names_update] same_names_update]
      same_names_update)

lemma hsm_ok_same_names: "hsm_ok (ks, cs, xs) \<Longrightarrow> same_names ks ks' \<Longrightarrow> hsm_ok (ks', cs, xs)"
  by (simp add: hsm_ok_def keys_ok_def ceremonies_ok_def same_namesD)

lemma ceremonies_ok_mono: "ceremonies_ok ks cs \<Longrightarrow> set ks \<subseteq> set ks' \<Longrightarrow> ceremonies_ok ks' cs"
  unfolding ceremonies_ok_def by (meson image_mono subsetD)

lemma hsm_ok_new_key:
  "hsm_ok (ks, cs, xs) \<Longrightarrow> mk_id k \<notin> mk_id ` set ks \<Longrightarrow> mk_key_label k \<notin> mk_key_label ` set ks \<Longrightarrow> mk_key_label k \<noteq> [] \<Longrightarrow>
   hsm_ok (ks @ [k], cs, xs)"
  using ceremonies_ok_mono [of ks cs "ks @ [k]"] by (auto simp: hsm_ok_def keys_ok_def)

lemma hsm_ok_ceremonies:
  assumes "hsm_ok (ks, cs, xs)" and "\<And>c. kc_id (f c) = kc_id c \<and> kc_master_key_id (f c) = kc_master_key_id c
    \<and> kc_predecessor_label (f c) = kc_predecessor_label c"
  shows "hsm_ok (ks, update_where P f cs, xs)"
proof -
  have ids: "map kc_id (update_where P f cs) = map kc_id cs" using assms(2) by (simp add: map_update_where)
  then have "kc_id ` set (update_where P f cs) = kc_id ` set cs" by (metis list.set_map)
  moreover have "\<exists>b \<in> set cs. kc_master_key_id c = kc_master_key_id b \<and> kc_predecessor_label c = kc_predecessor_label b"
    if "c \<in> set (update_where P f cs)" for c
    using that assms(2) by (auto simp: update_where_def)
  ultimately show ?thesis
    using assms(1) ids unfolding hsm_ok_def prod.case ceremonies_ok_def approvals_ok_def by metis
qed

lemma hsm_ok_new_ceremony:
  assumes "hsm_ok (ks, cs, xs)" and "kc_id c \<notin> kc_id ` set cs" and "k \<in> set ks" "kc_master_key_id c = mk_id k"
    and "kc_predecessor_label c = None \<or> (\<exists>q \<in> set ks. kc_predecessor_label c = Some (mk_key_label q) \<and> mk_id q \<noteq> mk_id k)"
  shows "hsm_ok (ks, cs @ [c], xs)"
proof -
  have "\<exists>q. (q, l) \<in> (\<lambda>k. (mk_id k, mk_key_label k)) ` set ks \<and> q \<noteq> kc_master_key_id c" if "kc_predecessor_label c = Some l" for l
    using assms(4,5) that by auto
  moreover have "kc_master_key_id c \<in> mk_id ` set ks" using assms(3,4) by simp
  ultimately have "ceremonies_ok ks (cs @ [c])" using assms(1,2) by (simp add: hsm_ok_def ceremonies_ok_def)
  moreover have "approvals_ok (cs @ [c]) xs" using assms(1) by (auto simp: hsm_ok_def approvals_ok_def)
  ultimately show ?thesis using assms(1) by (simp add: hsm_ok_def)
qed

lemma successor_label_nonempty: "successor_label new_label k \<noteq> []"
  by (simp add: successor_label_def next_version_label_def split: option.splits)

lemma create_key_ok:
  fixes d :: "'z hsm_db_scheme"
  assumes "hsm_inv d" and "valid_MasterKeyCreate p"
  shows "publishes (create_key pf fl fr b i op_id now created now' p actor) d hsm_inv"
proof (rule publishes_mono [OF create_key_publishes], elim exE conjE)
  fix d' :: "'z hsm_db_scheme" and k
  assume k: "mk_id k = i" "i \<notin> mk_id ` set (master_keys d)" "mk_key_label k = mkc_key_label p"
      "mkc_key_label p \<notin> mk_key_label ` set (master_keys d)"
    and d': "hsm_tables d' = (master_keys d @ [k], key_ceremonies d, key_custodian_approvals d)"
  have "mk_key_label k \<noteq> []" using assms(2) k(3) by (auto simp: valid_MasterKeyCreate_def len_in_def)
  with assms(1) k show "hsm_inv d'" unfolding hsm_inv_def d' by (intro hsm_ok_new_key) (simp_all add: hsm_tables_def)
qed

lemma create_ceremony_ok: "hsm_inv d \<Longrightarrow> publishes (create_ceremony pf fr cid ref_id now created q actor) d hsm_inv"
  by (rule publishes_mono [OF create_ceremony_publishes]) (force simp: hsm_inv_def hsm_tables_def intro!: hsm_ok_new_ceremony)

lemma approve_ceremony_ok:
  fixes d :: "'z hsm_db_scheme"
  assumes "hsm_inv d"
  shows "publishes (approve_ceremony pf fr aid now cid email) d hsm_inv"
proof (rule publishes_mono [OF approve_ceremony_publishes], elim exE conjE)
  fix d' :: "'z hsm_db_scheme" and c
  let ?xs = "key_custodian_approvals d"
  assume c: "c \<in> set (key_ceremonies d)" "kc_id c = cid" and same: "master_keys d' = master_keys d" "key_ceremonies d' = key_ceremonies d"
    and xs: "key_custodian_approvals d' = ?xs
        \<or> (\<exists>a. key_custodian_approvals d' = ?xs @ [a] \<and> kca_id a = aid \<and> kca_ceremony_id a = cid
             \<and> kca_custodian_email a = email \<and> kca_approved_at a = Some now \<and> aid \<notin> kca_id ` set ?xs
             \<and> (\<forall>x \<in> set ?xs. kca_ceremony_id x = cid \<longrightarrow> kca_custodian_email x \<noteq> email))
        \<or> (\<exists>a \<in> set ?xs. kca_ceremony_id a = cid \<and> kca_custodian_email a = email
             \<and> key_custodian_approvals d' = update_where (\<lambda>x. kca_id x = kca_id a) (\<lambda>x. x\<lparr>kca_approved_at := Some now\<rparr>) ?xs)"
  have ok: "approvals_ok (key_ceremonies d) ?xs" using assms by (simp add: hsm_inv_def hsm_tables_def hsm_ok_def)
  have upd: "approvals_ok cs (update_where P (\<lambda>x. x\<lparr>kca_approved_at := Some now\<rparr>) xs)" if "approvals_ok cs xs" for cs P xs
  proof -
    have "map kca_id (update_where P (\<lambda>x. x\<lparr>kca_approved_at := Some now\<rparr>) xs) = map kca_id xs"
      "map (\<lambda>a. (kca_ceremony_id a, kca_custodian_email a)) (update_where P (\<lambda>x. x\<lparr>kca_approved_at := Some now\<rparr>) xs)
        = map (\<lambda>a. (kca_ceremony_id a, kca_custodian_email a)) xs"
      "map kca_ceremony_id (update_where P (\<lambda>x. x\<lparr>kca_approved_at := Some now\<rparr>) xs) = map kca_ceremony_id xs"
      by (simp_all add: map_update_where)
    with that show ?thesis unfolding approvals_ok_def by (metis list.set_map)
  qed
  have "approvals_ok (key_ceremonies d) (key_custodian_approvals d')"
    using xs
  proof (elim disjE exE bexE conjE)
    fix a assume "key_custodian_approvals d' = ?xs @ [a]" "kca_id a = aid" "kca_ceremony_id a = cid" "kca_custodian_email a = email"
      "aid \<notin> kca_id ` set ?xs" "\<forall>x \<in> set ?xs. kca_ceremony_id x = cid \<longrightarrow> kca_custodian_email x \<noteq> email"
    then show ?thesis using ok c by (auto simp: approvals_ok_def intro: rev_image_eqI)
  qed (simp_all add: ok upd)
  with assms same show "hsm_inv d'" by (simp add: hsm_inv_def hsm_tables_def hsm_ok_def)
qed

lemma complete_ceremony_ok: "hsm_inv d \<Longrightarrow> publishes (complete_ceremony pf fr op_id now cid actor) d hsm_inv"
  by (rule publishes_mono [OF complete_ceremony_publishes])
     (auto simp: hsm_inv_def hsm_tables_def intro!: hsm_ok_ceremonies hsm_ok_same_names [OF _ same_names_completed])

lemma rotate_key_ok:
  fixes d :: "'z hsm_db_scheme"
  assumes "hsm_inv d"
  shows "publishes (rotate_key pf fl fr j op_id now created now' i actor new_label) d hsm_inv"
proof (rule publishes_mono [OF rotate_key_publishes], elim exE conjE)
  fix d' :: "'z hsm_db_scheme" and k
  assume "j \<notin> mk_id ` set (master_keys d)" "successor_label new_label k \<notin> mk_key_label ` set (master_keys d)"
    and d': "hsm_tables d' = (update_where (\<lambda>x. mk_id x = i) (\<lambda>x. x\<lparr>mk_status := MasterKeyStatus.RETIRED,
            mk_retired_at := Some now, mk_superseded_by_id := Some j, mk_throughput_ops := 0\<rparr>)
          (master_keys d @ [successor_of j (successor_label new_label k) now created k]), key_ceremonies d, key_custodian_approvals d)"
  with assms have "hsm_ok (master_keys d @ [successor_of j (successor_label new_label k) now created k], key_ceremonies d, key_custodian_approvals d)"
    by (intro hsm_ok_new_key) (auto simp: hsm_inv_def hsm_tables_def successor_of_def successor_label_nonempty)
  then show "hsm_inv d'" unfolding hsm_inv_def d' by (rule hsm_ok_same_names) (simp add: same_names_update)
qed

lemma disable_key_ok: "hsm_inv d \<Longrightarrow> publishes (disable_key pf fl fr op_id now now' i actor) d hsm_inv"
  by (rule publishes_mono [OF disable_key_publishes])
     (auto simp: hsm_inv_def hsm_tables_def intro!: hsm_ok_same_names [OF _ same_names_update])

lemma run_attestation_ok: "hsm_inv d \<Longrightarrow> publishes (run_attestation pf fr run_id op_id now actor) d hsm_inv"
  by (rule publishes_mono [OF run_attestation_publishes]) (simp add: hsm_inv_def)

section \<open>The abstract machine\<close>

text \<open>
  What the component promises, without rows, labels, times and texts: the status of every key,
  and for every ceremony its key, the key it replaces, the number of approvals it needs, the
  custodians who have approved it and its status.
\<close>

record ceremony_state =
  cs_key :: uuid
  cs_predecessor :: "uuid option"
  cs_required :: int
  cs_approvers :: "string set"
  cs_status :: CeremonyStatus

record key_machine =
  km_keys :: "uuid \<rightharpoonup> MasterKeyStatus"
  km_ceremonies :: "uuid \<rightharpoonup> ceremony_state"

inductive machine_step :: "key_machine \<Rightarrow> key_machine \<Rightarrow> bool" where
  register: "km_keys m k = None \<Longrightarrow>
    machine_step m (m\<lparr>km_keys := (km_keys m)(k \<mapsto> MasterKeyStatus.PENDING)\<rparr>)"
| initiate: "km_keys m k = Some MasterKeyStatus.PENDING \<Longrightarrow> km_ceremonies m c = None \<Longrightarrow>
    \<forall>c' v. km_ceremonies m c' = Some v \<and> cs_key v = k \<longrightarrow> cs_status v \<noteq> CeremonyStatus.PENDING \<Longrightarrow>
    \<forall>p. predecessor = Some p \<longrightarrow> p \<noteq> k \<and> km_keys m p \<in> {Some MasterKeyStatus.ACTIVE, Some MasterKeyStatus.EXPIRING} \<Longrightarrow>
    machine_step m (m\<lparr>km_ceremonies := (km_ceremonies m)(c \<mapsto> \<lparr>cs_key = k, cs_predecessor = predecessor,
      cs_required = required, cs_approvers = {}, cs_status = CeremonyStatus.PENDING\<rparr>)\<rparr>)"
| approve: "km_ceremonies m c = Some v \<Longrightarrow> cs_status v = CeremonyStatus.PENDING \<Longrightarrow>
    machine_step m (m\<lparr>km_ceremonies := (km_ceremonies m)(c \<mapsto> v\<lparr>cs_approvers := insert custodian (cs_approvers v)\<rparr>)\<rparr>)"
| complete: "km_ceremonies m c = Some v \<Longrightarrow> cs_status v = CeremonyStatus.PENDING \<Longrightarrow>
    cs_required v \<le> int (card (cs_approvers v)) \<Longrightarrow>
    machine_step m (m\<lparr>km_keys := (case cs_predecessor v of
        None \<Rightarrow> (km_keys m)(cs_key v \<mapsto> MasterKeyStatus.ACTIVE)
      | Some p \<Rightarrow> (km_keys m)(cs_key v \<mapsto> MasterKeyStatus.ACTIVE, p \<mapsto> MasterKeyStatus.RETIRED)),
      km_ceremonies := (km_ceremonies m)(c \<mapsto> v\<lparr>cs_status := CeremonyStatus.COMPLETE\<rparr>)\<rparr>)"
| rotate: "km_keys m k \<in> {Some MasterKeyStatus.ACTIVE, Some MasterKeyStatus.EXPIRING} \<Longrightarrow> km_keys m k' = None \<Longrightarrow>
    machine_step m (m\<lparr>km_keys := (km_keys m)(k' \<mapsto> MasterKeyStatus.ACTIVE, k \<mapsto> MasterKeyStatus.RETIRED)\<rparr>)"
| disable: "km_keys m k \<in> {Some MasterKeyStatus.ACTIVE, Some MasterKeyStatus.EXPIRING, Some MasterKeyStatus.PENDING} \<Longrightarrow>
    machine_step m (m\<lparr>km_keys := (km_keys m)(k \<mapsto> MasterKeyStatus.DISABLED)\<rparr>)"

text \<open>The state of the machine that the tables stand for.\<close>

definition key_status :: "MasterKey list \<Rightarrow> uuid \<rightharpoonup> MasterKeyStatus" where
  "key_status ks i = map_option mk_status (get_row mk_id i ks)"

definition labelled :: "MasterKey list \<Rightarrow> string \<Rightarrow> uuid option" where
  "labelled ks l = map_option mk_id (find (\<lambda>k. mk_key_label k = l) ks)"

definition approvers :: "KeyCustodianApproval list \<Rightarrow> uuid \<Rightarrow> string set" where
  "approvers xs i = kca_custodian_email ` set (filter (\<lambda>a. kca_ceremony_id a = i \<and> kca_approved_at a \<noteq> None) xs)"

definition ceremony_view :: "MasterKey list \<Rightarrow> KeyCustodianApproval list \<Rightarrow> KeyCeremony \<Rightarrow> ceremony_state" where
  "ceremony_view ks xs c =
     \<lparr>cs_key = kc_master_key_id c, cs_predecessor = Option.bind (kc_predecessor_label c) (labelled ks),
      cs_required = kc_required_approvals c, cs_approvers = approvers xs (kc_id c), cs_status = kc_status c\<rparr>"

definition machine_of :: "MasterKey list \<times> KeyCeremony list \<times> KeyCustodianApproval list \<Rightarrow> key_machine" where
  "machine_of t = (case t of (ks, cs, xs) \<Rightarrow>
     \<lparr>km_keys = key_status ks, km_ceremonies = (\<lambda>i. map_option (ceremony_view ks xs) (get_row kc_id i cs))\<rparr>)"

lemma key_status_append: "mk_id k \<notin> mk_id ` set ks \<Longrightarrow> key_status (ks @ [k]) = (key_status ks)(mk_id k \<mapsto> mk_status k)"
proof
  fix j assume new: "mk_id k \<notin> mk_id ` set ks"
  have "get_row mk_id j [k] = (if j = mk_id k then Some k else None)" by (simp add: get_row_def)
  with new show "key_status (ks @ [k]) j = ((key_status ks)(mk_id k \<mapsto> mk_status k)) j"
    using get_row_None [of mk_id "mk_id k" ks]
    by (cases "get_row mk_id j ks") (auto simp: key_status_def get_row_append)
qed

lemma key_status_update:
  assumes "\<And>k. mk_id (f k) = mk_id k" and "\<And>k. mk_status (f k) = st" and "i \<in> mk_id ` set ks"
  shows "key_status (update_where (\<lambda>x. mk_id x = i) f ks) = (key_status ks)(i \<mapsto> st)"
proof
  fix j
  have "get_row mk_id i ks \<noteq> None" using assms(3) by (simp add: get_row_None)
  moreover have "mk_id k = j" if "get_row mk_id j ks = Some k" for k using get_row_Some [OF that] by simp
  ultimately show "key_status (update_where (\<lambda>x. mk_id x = i) f ks) j = ((key_status ks)(i \<mapsto> st)) j"
    using assms(1,2) by (cases "get_row mk_id j ks") (auto simp: key_status_def get_row_update_where)
qed

lemma key_status_frame:
  assumes "\<And>k. mk_id (f k) = mk_id k" and "\<And>k. mk_status (f k) = mk_status k"
  shows "key_status (update_where P f ks) = key_status ks"
  using assms by (auto simp: key_status_def fun_eq_iff get_row_update_where option.map_comp intro!: option.map_cong)

lemma labelled_same_names:
  assumes "same_names ks ks'"
  shows "labelled ks' = labelled ks"
proof
  fix l
  have find: "map_option mk_id (find (\<lambda>k. mk_key_label k = l) xs)
    = map_option fst (find (\<lambda>p. snd p = l) (map (\<lambda>k. (mk_id k, mk_key_label k)) xs))" for xs
    by (induction xs) simp_all
  show "labelled ks' l = labelled ks l" unfolding labelled_def find using assms by (simp add: same_names_def)
qed

lemma labelled_append: "l \<in> mk_key_label ` set ks \<Longrightarrow> labelled (ks @ ks') l = labelled ks l"
  by (induction ks) (auto simp: labelled_def)

lemma labelled_unique: "distinct (map mk_key_label ks) \<Longrightarrow> k \<in> set ks \<Longrightarrow> labelled ks (mk_key_label k) = Some (mk_id k)"
  by (induction ks) (auto simp: labelled_def)

lemma views_same_names: "same_names ks ks' \<Longrightarrow> ceremony_view ks' xs = ceremony_view ks xs"
  by (simp add: ceremony_view_def fun_eq_iff labelled_same_names)

lemma views_append:
  assumes "ceremonies_ok ks cs"
  shows "map_option (ceremony_view (ks @ ks') xs) (get_row kc_id i cs) = map_option (ceremony_view ks xs) (get_row kc_id i cs)"
proof (cases "get_row kc_id i cs")
  case (Some c)
  then have "c \<in> set cs" by (simp add: get_row_Some)
  then have named: "\<forall>l. kc_predecessor_label c = Some l \<longrightarrow>
      (\<exists>q. (q, l) \<in> (\<lambda>k. (mk_id k, mk_key_label k)) ` set ks \<and> q \<noteq> kc_master_key_id c)"
    using assms unfolding ceremonies_ok_def by simp
  have "labelled (ks @ ks') l = labelled ks l" if l: "kc_predecessor_label c = Some l" for l
  proof (rule labelled_append)
    from named [THEN spec, THEN mp, OF l] show "l \<in> mk_key_label ` set ks" by (elim exE conjE imageE) simp
  qed
  then have "Option.bind (kc_predecessor_label c) (labelled (ks @ ks')) = Option.bind (kc_predecessor_label c) (labelled ks)"
    by (cases "kc_predecessor_label c") simp_all
  with Some show ?thesis by (simp add: ceremony_view_def)
qed simp

lemma approval_count_card:
  assumes "approvals_ok cs (key_custodian_approvals d)"
  shows "approval_count (approvals_of d i) = int (card (approvers (key_custodian_approvals d) i))"
proof -
  let ?ys = "filter (\<lambda>a. kca_ceremony_id a = i \<and> kca_approved_at a \<noteq> None) (key_custodian_approvals d)"
  have "distinct (map (\<lambda>a. (kca_ceremony_id a, kca_custodian_email a)) ?ys)"
    using assms by (simp add: approvals_ok_def distinct_map_filter)
  moreover have "map (\<lambda>a. (kca_ceremony_id a, kca_custodian_email a)) ?ys = map (Pair i) (map kca_custodian_email ?ys)" by simp
  ultimately have "distinct (map (Pair i) (map kca_custodian_email ?ys))" by (simp only:)
  then have "distinct (map kca_custodian_email ?ys)" using distinct_map [of "Pair i"] by blast
  then have "card (kca_custodian_email ` set ?ys) = length ?ys" using distinct_card [of "map kca_custodian_email ?ys"] by simp
  moreover have "filter (\<lambda>a. kca_approved_at a \<noteq> None) (approvals_of d i) = ?ys"
    by (simp add: approvals_of_def conj_commute)
  ultimately show ?thesis by (simp add: approval_count_def approvers_def)
qed

section \<open>The requests refine the machine\<close>

definition refines_step :: "'z hsm_db_scheme \<Rightarrow> 'z hsm_db_scheme \<Rightarrow> bool" where
  "refines_step d d' \<longleftrightarrow> machine_of (hsm_tables d') = machine_of (hsm_tables d)
     \<or> machine_step (machine_of (hsm_tables d)) (machine_of (hsm_tables d'))"

lemma machine_new_key:
  assumes "hsm_ok (ks, cs, xs)" and "mk_id k \<notin> mk_id ` set ks"
  shows "machine_of (ks @ [k], cs, xs) = (machine_of (ks, cs, xs))\<lparr>km_keys := (key_status ks)(mk_id k \<mapsto> mk_status k)\<rparr>"
  using assms by (simp add: machine_of_def key_status_append views_append hsm_ok_def)

lemma machine_keys_only: "same_names ks ks' \<Longrightarrow> machine_of (ks', cs, xs) = (machine_of (ks, cs, xs))\<lparr>km_keys := key_status ks'\<rparr>"
  by (simp add: machine_of_def views_same_names)

lemma km_keys_machine: "km_keys (machine_of (ks, cs, xs)) = key_status ks"
  by (simp add: machine_of_def)

lemma key_status_None: "key_status ks i = None \<longleftrightarrow> i \<notin> mk_id ` set ks"
  by (simp add: key_status_def get_row_None)

lemma key_status_in: "hsm_ok (ks, cs, xs) \<Longrightarrow> k \<in> set ks \<Longrightarrow> key_status ks (mk_id k) = Some (mk_status k)"
  by (simp add: key_status_def hsm_ok_def keys_ok_def get_row_unique)

lemma refines_stepI: "machine_step (machine_of (hsm_tables d)) m \<Longrightarrow> machine_of (hsm_tables d') = m \<Longrightarrow> refines_step d d'"
  by (simp add: refines_step_def)

lemma tables_of:
  obtains ks cs xs where "hsm_tables d = (ks, cs, xs)" "master_keys d = ks" "key_ceremonies d = cs" "key_custodian_approvals d = xs"
  by (simp add: hsm_tables_def)

lemma create_key_refines:
  fixes d :: "'z hsm_db_scheme"
  assumes "hsm_inv d"
  shows "publishes (create_key pf fl fr b i op_id now created now' p actor) d (refines_step d)"
proof (rule publishes_mono [OF create_key_publishes], elim exE conjE)
  fix d' :: "'z hsm_db_scheme" and k
  obtain ks cs xs where t: "hsm_tables d = (ks, cs, xs)" "master_keys d = ks" "key_ceremonies d = cs" "key_custodian_approvals d = xs"
    by (rule tables_of)
  assume k: "mk_id k = i" "i \<notin> mk_id ` set (master_keys d)" "mk_status k = MasterKeyStatus.PENDING"
    and d': "hsm_tables d' = (master_keys d @ [k], key_ceremonies d, key_custodian_approvals d)"
  have "km_keys (machine_of (hsm_tables d)) i = None" using k by (simp add: t km_keys_machine key_status_None)
  from machine_step.register [OF this] show "refines_step d d'"
    by (rule refines_stepI) (use assms k in \<open>simp add: d' t hsm_inv_def machine_new_key km_keys_machine\<close>)
qed

lemma disable_key_refines:
  fixes d :: "'z hsm_db_scheme"
  assumes "hsm_inv d"
  shows "publishes (disable_key pf fl fr op_id now now' i actor) d (refines_step d)"
proof (rule publishes_mono [OF disable_key_publishes], elim exE conjE)
  fix d' :: "'z hsm_db_scheme" and k
  let ?f = "\<lambda>x. x\<lparr>mk_status := MasterKeyStatus.DISABLED, mk_retired_at := Some now, mk_throughput_ops := 0\<rparr>"
  obtain ks cs xs where t: "hsm_tables d = (ks, cs, xs)" "master_keys d = ks" "key_ceremonies d = cs" "key_custodian_approvals d = xs"
    by (rule tables_of)
  assume k: "k \<in> set (master_keys d)" "mk_id k = i" "mk_status k \<notin> {MasterKeyStatus.RETIRED, MasterKeyStatus.DISABLED}"
    and d': "hsm_tables d' = (update_where (\<lambda>x. mk_id x = i) ?f (master_keys d), key_ceremonies d, key_custodian_approvals d)"
  have "key_status ks i = Some (mk_status k)" using key_status_in [of ks cs xs k] k assms by (simp add: hsm_inv_def t)
  moreover have "mk_status k \<in> {MasterKeyStatus.ACTIVE, MasterKeyStatus.EXPIRING, MasterKeyStatus.PENDING}"
    using k(3) by (cases "mk_status k") simp_all
  ultimately have "km_keys (machine_of (hsm_tables d)) i
      \<in> {Some MasterKeyStatus.ACTIVE, Some MasterKeyStatus.EXPIRING, Some MasterKeyStatus.PENDING}" by (simp add: t km_keys_machine)
  moreover have "key_status (update_where (\<lambda>x. mk_id x = i) ?f ks) = (key_status ks)(i \<mapsto> MasterKeyStatus.DISABLED)"
    using k t by (intro key_status_update) auto
  ultimately show "refines_step d d'"
    by (intro refines_stepI [OF machine_step.disable]) (simp_all add: d' t km_keys_machine machine_keys_only [OF same_names_update, of ?f])
qed

lemma rotate_key_refines:
  fixes d :: "'z hsm_db_scheme"
  assumes "hsm_inv d"
  shows "publishes (rotate_key pf fl fr j op_id now created now' i actor new_label) d (refines_step d)"
proof (rule publishes_mono [OF rotate_key_publishes], elim exE conjE)
  fix d' :: "'z hsm_db_scheme" and k
  let ?f = "\<lambda>x. x\<lparr>mk_status := MasterKeyStatus.RETIRED, mk_retired_at := Some now, mk_superseded_by_id := Some j, mk_throughput_ops := 0\<rparr>"
  let ?k = "successor_of j (successor_label new_label k) now created k"
  obtain ks cs xs where t: "hsm_tables d = (ks, cs, xs)" "master_keys d = ks" "key_ceremonies d = cs" "key_custodian_approvals d = xs"
    by (rule tables_of)
  assume k: "k \<in> set (master_keys d)" "mk_id k = i" "mk_status k \<in> {MasterKeyStatus.ACTIVE, MasterKeyStatus.EXPIRING}"
      "j \<notin> mk_id ` set (master_keys d)"
    and d': "hsm_tables d' = (update_where (\<lambda>x. mk_id x = i) ?f (master_keys d @ [?k]), key_ceremonies d, key_custodian_approvals d)"
  have ok: "hsm_ok (ks, cs, xs)" using assms by (simp add: hsm_inv_def t)
  have new: "mk_id ?k = j" "mk_status ?k = MasterKeyStatus.ACTIVE" by (simp_all add: successor_of_def)
  have "km_keys (machine_of (hsm_tables d)) i \<in> {Some MasterKeyStatus.ACTIVE, Some MasterKeyStatus.EXPIRING}"
    "km_keys (machine_of (hsm_tables d)) j = None"
    using key_status_in [OF ok, of k] k by (auto simp: t km_keys_machine key_status_None)
  moreover have "key_status (update_where (\<lambda>x. mk_id x = i) ?f (ks @ [?k]))
      = (key_status ks)(j \<mapsto> MasterKeyStatus.ACTIVE, i \<mapsto> MasterKeyStatus.RETIRED)"
    using k t by (subst key_status_update [where st = MasterKeyStatus.RETIRED]) (auto simp: key_status_append new)
  moreover have "machine_of (ks @ [?k], cs, xs) = (machine_of (ks, cs, xs))\<lparr>km_keys := (key_status ks)(j \<mapsto> MasterKeyStatus.ACTIVE)\<rparr>"
    using machine_new_key [OF ok, of ?k] k t by (simp add: new)
  ultimately show "refines_step d d'"
    by (intro refines_stepI [OF machine_step.rotate])
       (simp_all add: d' t km_keys_machine machine_keys_only [OF same_names_update, of ?f])
qed

lemma approvers_append: "approvers (xs @ [a]) i =
   (if kca_ceremony_id a = i \<and> kca_approved_at a \<noteq> None then insert (kca_custodian_email a) (approvers xs i) else approvers xs i)"
  by (auto simp: approvers_def)

lemma approvers_complete:
  assumes "distinct (map kca_id xs)" and "a \<in> set xs"
  shows "approvers (update_where (\<lambda>x. kca_id x = kca_id a) (\<lambda>x. x\<lparr>kca_approved_at := Some now\<rparr>) xs) i =
    (if kca_ceremony_id a = i then insert (kca_custodian_email a) (approvers xs i) else approvers xs i)"
proof -
  have "{x \<in> set xs. kca_id x = kca_id a} = {a}" "{x \<in> set xs. kca_id x \<noteq> kca_id a} = set xs - {a}"
    using assms by (auto simp: distinct_map dest: inj_onD)
  then have rows: "set (update_where (\<lambda>x. kca_id x = kca_id a) (\<lambda>x. x\<lparr>kca_approved_at := Some now\<rparr>) xs)
      = (set xs - {a}) \<union> {a\<lparr>kca_approved_at := Some now\<rparr>}"
    by (simp add: set_update_where)
  have mem: "e \<in> approvers ys i \<longleftrightarrow> (\<exists>x \<in> set ys. kca_ceremony_id x = i \<and> kca_approved_at x \<noteq> None \<and> kca_custodian_email x = e)" for e ys
    by (auto simp: approvers_def)
  have "e \<in> approvers (update_where (\<lambda>x. kca_id x = kca_id a) (\<lambda>x. x\<lparr>kca_approved_at := Some now\<rparr>) xs) i
    \<longleftrightarrow> (kca_ceremony_id a = i \<and> kca_custodian_email a = e) \<or> e \<in> approvers xs i" for e
    unfolding mem rows using assms(2) by auto
  then show ?thesis by auto
qed

lemma machine_ceremony_view:
  "km_ceremonies (machine_of (ks, cs, xs)) i = map_option (ceremony_view ks xs) (get_row kc_id i cs)"
  by (simp add: machine_of_def)

lemma approve_ceremony_refines:
  fixes d :: "'z hsm_db_scheme"
  assumes "hsm_inv d"
  shows "publishes (approve_ceremony pf fr aid now cid email) d (refines_step d)"
proof (rule publishes_mono [OF approve_ceremony_publishes], elim exE conjE)
  fix d' :: "'z hsm_db_scheme" and c
  obtain ks cs xs where t: "hsm_tables d = (ks, cs, xs)" "master_keys d = ks" "key_ceremonies d = cs" "key_custodian_approvals d = xs"
    by (rule tables_of)
  assume c: "c \<in> set (key_ceremonies d)" "kc_id c = cid" "kc_status c = CeremonyStatus.PENDING"
    and same: "master_keys d' = master_keys d" "key_ceremonies d' = key_ceremonies d"
    and new: "key_custodian_approvals d' = key_custodian_approvals d
        \<or> (\<exists>a. key_custodian_approvals d' = key_custodian_approvals d @ [a] \<and> kca_id a = aid \<and> kca_ceremony_id a = cid
             \<and> kca_custodian_email a = email \<and> kca_approved_at a = Some now \<and> aid \<notin> kca_id ` set (key_custodian_approvals d)
             \<and> (\<forall>x \<in> set (key_custodian_approvals d). kca_ceremony_id x = cid \<longrightarrow> kca_custodian_email x \<noteq> email))
        \<or> (\<exists>a \<in> set (key_custodian_approvals d). kca_ceremony_id a = cid \<and> kca_custodian_email a = email
             \<and> key_custodian_approvals d' = update_where (\<lambda>x. kca_id x = kca_id a) (\<lambda>x. x\<lparr>kca_approved_at := Some now\<rparr>)
                 (key_custodian_approvals d))"
  have ok: "hsm_ok (ks, cs, xs)" using assms by (simp add: hsm_inv_def t)
  then have ids: "distinct (map kc_id cs)" "distinct (map kca_id xs)" by (simp_all add: hsm_ok_def ceremonies_ok_def approvals_ok_def)
  have d': "hsm_tables d' = (ks, cs, key_custodian_approvals d')" by (simp add: hsm_tables_def same t)
  have row: "get_row kc_id cid cs = Some c" using get_row_unique [OF ids(1), of c] c t by simp
  have "machine_of (ks, cs, xs') = (machine_of (ks, cs, xs))\<lparr>km_ceremonies := (km_ceremonies (machine_of (ks, cs, xs)))
      (cid \<mapsto> (ceremony_view ks xs c)\<lparr>cs_approvers := insert email (cs_approvers (ceremony_view ks xs c))\<rparr>)\<rparr>"
    if "\<And>i. approvers xs' i = (if cid = i then insert email (approvers xs i) else approvers xs i)" for xs'
  proof -
    have "map_option (ceremony_view ks xs') (get_row kc_id i cs) = map_option (ceremony_view ks xs) (get_row kc_id i cs)" if "i \<noteq> cid" for i
      using that \<open>\<And>i. approvers xs' i = _\<close> by (intro option.map_cong refl) (auto simp: ceremony_view_def dest!: get_row_Some)
    moreover have "ceremony_view ks xs' c = (ceremony_view ks xs c)\<lparr>cs_approvers := insert email (cs_approvers (ceremony_view ks xs c))\<rparr>"
      using that c(2) by (simp add: ceremony_view_def)
    ultimately show ?thesis using row by (auto simp: machine_of_def fun_eq_iff)
  qed
  moreover have "(\<forall>i. approvers (key_custodian_approvals d') i = (if cid = i then insert email (approvers xs i) else approvers xs i))
      \<or> key_custodian_approvals d' = xs"
    using new unfolding t
  proof (elim disjE exE bexE conjE)
    fix a assume "key_custodian_approvals d' = xs @ [a]" "kca_ceremony_id a = cid" "kca_custodian_email a = email" "kca_approved_at a = Some now"
    then show ?thesis by (simp add: approvers_append)
  next
    fix a assume "a \<in> set xs" "kca_ceremony_id a = cid" "kca_custodian_email a = email" and
      "key_custodian_approvals d' = update_where (\<lambda>x. kca_id x = kca_id a) (\<lambda>x. x\<lparr>kca_approved_at := Some now\<rparr>) xs"
    then show ?thesis using approvers_complete [OF ids(2)] by simp
  qed simp
  moreover have "machine_step (machine_of (ks, cs, xs)) ((machine_of (ks, cs, xs))\<lparr>km_ceremonies := (km_ceremonies (machine_of (ks, cs, xs)))
      (cid \<mapsto> (ceremony_view ks xs c)\<lparr>cs_approvers := insert email (cs_approvers (ceremony_view ks xs c))\<rparr>)\<rparr>)"
    by (rule machine_step.approve) (simp_all add: machine_ceremony_view row, simp add: ceremony_view_def c)
  ultimately show "refines_step d d'" unfolding refines_step_def d' t(1) by auto
qed

lemma key_status_retired:
  assumes "keys_ok ks"
  shows "key_status (retired_keys now i label ks) = (case Option.bind label (labelled ks) of
     None \<Rightarrow> key_status ks | Some p \<Rightarrow> (key_status ks)(p \<mapsto> MasterKeyStatus.RETIRED))"
proof (cases label)
  case (Some l)
  have "filter (\<lambda>x. label = Some (mk_key_label x) \<and> mk_key_label x \<noteq> []) ks = filter (\<lambda>x. mk_key_label x = l) ks"
    using assms by (force simp: keys_ok_def Some intro!: filter_cong)
  moreover have "key_status (update_where (\<lambda>x. mk_id x = mk_id p) (\<lambda>x. x\<lparr>mk_status := MasterKeyStatus.RETIRED, mk_retired_at := Some now\<rparr>) ks)
      = (key_status ks)(mk_id p \<mapsto> MasterKeyStatus.RETIRED)" if "filter (\<lambda>x. mk_key_label x = l) ks = p # ps" for p ps
  proof (rule key_status_update)
    have "p \<in> set (filter (\<lambda>x. mk_key_label x = l) ks)" by (simp add: that)
    then show "mk_id p \<in> mk_id ` set ks" by simp
  qed simp_all
  ultimately show ?thesis
    by (auto simp: retired_keys_def labelled_def find_eq_hd_filter Some key_status_frame split: list.splits)
qed (simp add: retired_keys_def)

lemma find_in: "find P xs = Some x \<Longrightarrow> x \<in> set xs \<and> P x"
  by (auto simp: find_Some_iff)

lemma key_status_completed:
  assumes "keys_ok ks" and "get_row mk_id i ks = Some k"
  shows "key_status (completed_keys now k label ks) = (case Option.bind label (labelled ks) of
      None \<Rightarrow> (key_status ks)(mk_id k \<mapsto> MasterKeyStatus.ACTIVE)
    | Some p \<Rightarrow> (key_status ks)(mk_id k \<mapsto> MasterKeyStatus.ACTIVE, p \<mapsto> MasterKeyStatus.RETIRED))"
proof -
  let ?ks = "update_where (\<lambda>x. mk_id x = mk_id k) (\<lambda>x. x\<lparr>mk_status := MasterKeyStatus.ACTIVE, mk_activated_at := Some now,
        mk_expires_at := Some (now + timedelta_days (mk_rotation_policy_days k))\<rparr>) ks"
  have same: "same_names ks ?ks" by (simp add: same_names_update)
  then have "keys_ok ?ks" using assms(1) by (simp add: keys_ok_def same_namesD)
  moreover have "mk_id k \<in> mk_id ` set ks" using get_row_Some [OF assms(2)] by blast
  then have "key_status ?ks = (key_status ks)(mk_id k \<mapsto> MasterKeyStatus.ACTIVE)" by (intro key_status_update) simp_all
  ultimately show ?thesis
    by (simp add: completed_keys_def key_status_retired labelled_same_names [OF same] split: option.split)
qed

lemma complete_ceremony_refines:
  fixes d :: "'z hsm_db_scheme"
  assumes "hsm_inv d"
  shows "publishes (complete_ceremony pf fr op_id now cid actor) d (refines_step d)"
proof (rule publishes_mono [OF complete_ceremony_publishes], elim exE conjE)
  fix d' :: "'z hsm_db_scheme" and c k
  let ?f = "\<lambda>c. c\<lparr>kc_status := CeremonyStatus.COMPLETE, kc_completed_at := Some now\<rparr>"
  obtain ks cs xs where t: "hsm_tables d = (ks, cs, xs)" "master_keys d = ks" "key_ceremonies d = cs" "key_custodian_approvals d = xs"
    by (rule tables_of)
  assume c: "c \<in> set (key_ceremonies d)" "kc_id c = cid" "kc_status c = CeremonyStatus.PENDING" "quorum_met c (approvals_of d cid)"
    and k: "get_row mk_id (kc_master_key_id c) (master_keys d) = Some k"
    and d': "hsm_tables d' = (completed_keys now k (kc_predecessor_label c) (master_keys d),
         update_where (\<lambda>c. kc_id c = cid) ?f (key_ceremonies d), key_custodian_approvals d)"
  have ok: "hsm_ok (ks, cs, xs)" "keys_ok ks" "distinct (map kc_id cs)" "approvals_ok cs xs"
    using assms by (simp_all add: hsm_inv_def t hsm_ok_def ceremonies_ok_def)
  have row: "get_row kc_id cid cs = Some c" using get_row_unique [OF ok(3), of c] c t by simp
  have kid: "mk_id k = kc_master_key_id c" using get_row_Some [OF k] by simp
  have keys: "key_status (completed_keys now k (kc_predecessor_label c) ks) =
      (case cs_predecessor (ceremony_view ks xs c) of
         None \<Rightarrow> (key_status ks)(kc_master_key_id c \<mapsto> MasterKeyStatus.ACTIVE)
       | Some p \<Rightarrow> (key_status ks)(kc_master_key_id c \<mapsto> MasterKeyStatus.ACTIVE, p \<mapsto> MasterKeyStatus.RETIRED))"
    using key_status_completed [OF ok(2) k [unfolded t], unfolded kid] by (simp add: ceremony_view_def)
  have "cs_required (ceremony_view ks xs c) \<le> int (card (cs_approvers (ceremony_view ks xs c)))"
    using c(4) approval_count_card [of cs d cid] ok(4) t c(2) by (simp add: quorum_met_def ceremony_view_def)
  moreover have "map_option (ceremony_view ks xs) (get_row kc_id i (update_where (\<lambda>c. kc_id c = cid) ?f cs))
      = (if i = cid then Some ((ceremony_view ks xs c)\<lparr>cs_status := CeremonyStatus.COMPLETE\<rparr>)
         else map_option (ceremony_view ks xs) (get_row kc_id i cs))" for i
  proof (cases "i = cid")
    case True
    then show ?thesis using row c(2) by (simp add: get_row_update_where ceremony_view_def)
  next
    case False
    then show ?thesis
      by (cases "get_row kc_id i cs") (auto simp: get_row_update_where dest!: get_row_Some)
  qed
  ultimately have quorum: "cs_required (ceremony_view ks xs c) \<le> int (card (cs_approvers (ceremony_view ks xs c)))"
    and views: "(\<lambda>i. map_option (ceremony_view ks xs) (get_row kc_id i (update_where (\<lambda>c. kc_id c = cid) ?f cs)))
      = (km_ceremonies (machine_of (ks, cs, xs)))(cid \<mapsto> (ceremony_view ks xs c)\<lparr>cs_status := CeremonyStatus.COMPLETE\<rparr>)"
    by (simp_all add: fun_eq_iff machine_ceremony_view)
  have "machine_of (hsm_tables d') = (machine_of (ks, cs, xs))\<lparr>km_keys := (case cs_predecessor (ceremony_view ks xs c) of
        None \<Rightarrow> (km_keys (machine_of (ks, cs, xs)))(cs_key (ceremony_view ks xs c) \<mapsto> MasterKeyStatus.ACTIVE)
      | Some p \<Rightarrow> (km_keys (machine_of (ks, cs, xs)))(cs_key (ceremony_view ks xs c) \<mapsto> MasterKeyStatus.ACTIVE, p \<mapsto> MasterKeyStatus.RETIRED)),
      km_ceremonies := (km_ceremonies (machine_of (ks, cs, xs)))(cid \<mapsto> (ceremony_view ks xs c)\<lparr>cs_status := CeremonyStatus.COMPLETE\<rparr>)\<rparr>"
    unfolding d' t views [symmetric] km_keys_machine
    by (simp add: machine_of_def views_same_names [OF same_names_completed] keys) (simp add: ceremony_view_def split: option.split)
  moreover have "machine_step (machine_of (ks, cs, xs)) \<dots>"
    by (rule machine_step.complete [OF _ _ quorum]) (simp_all add: machine_ceremony_view row, simp add: ceremony_view_def c)
  ultimately show "refines_step d d'" by (simp add: refines_step_def t)
qed

lemma create_ceremony_refines:
  fixes d :: "'z hsm_db_scheme"
  assumes "hsm_inv d"
  shows "publishes (create_ceremony pf fr cid ref_id now created q actor) d (refines_step d)"
proof (rule publishes_mono [OF create_ceremony_publishes], elim exE conjE)
  fix d' :: "'z hsm_db_scheme" and c k
  obtain ks cs xs where t: "hsm_tables d = (ks, cs, xs)" "master_keys d = ks" "key_ceremonies d = cs" "key_custodian_approvals d = xs"
    by (rule tables_of)
  assume k: "k \<in> set (master_keys d)" "mk_id k = kcc_master_key_id q" "mk_status k = MasterKeyStatus.PENDING"
    and c: "kc_id c = cid" "cid \<notin> kc_id ` set (key_ceremonies d)" "kc_master_key_id c = mk_id k" "kc_status c = CeremonyStatus.PENDING"
    and dup: "\<forall>x \<in> set (key_ceremonies d). kc_master_key_id x = mk_id k \<longrightarrow> kc_status x \<noteq> CeremonyStatus.PENDING"
    and pred: "kc_predecessor_label c = None \<or> (\<exists>q \<in> set (master_keys d). kc_predecessor_label c = Some (mk_key_label q) \<and> mk_id q \<noteq> mk_id k
          \<and> mk_status q \<in> {MasterKeyStatus.ACTIVE, MasterKeyStatus.EXPIRING})"
    and d': "hsm_tables d' = (master_keys d, key_ceremonies d @ [c], key_custodian_approvals d)"
  have ok: "hsm_ok (ks, cs, xs)" "keys_ok ks" "approvals_ok cs xs" using assms by (simp_all add: hsm_inv_def t hsm_ok_def)
  have "cid \<notin> kca_ceremony_id ` set xs" using ok(3) c(2) unfolding t approvals_ok_def by blast
  then have none: "approvers xs cid = {}" by (auto simp: approvers_def)
  let ?p = "Option.bind (kc_predecessor_label c) (labelled ks)"
  have view: "ceremony_view ks xs c = \<lparr>cs_key = mk_id k, cs_predecessor = ?p, cs_required = kc_required_approvals c,
      cs_approvers = {}, cs_status = CeremonyStatus.PENDING\<rparr>" by (simp add: ceremony_view_def c none)
  have "\<forall>p. ?p = Some p \<longrightarrow> p \<noteq> mk_id k \<and> key_status ks p \<in> {Some MasterKeyStatus.ACTIVE, Some MasterKeyStatus.EXPIRING}"
    using pred ok(2) key_status_in [OF ok(1)] t by (auto simp: keys_ok_def labelled_unique)
  moreover have "\<forall>c' v. km_ceremonies (machine_of (ks, cs, xs)) c' = Some v \<and> cs_key v = mk_id k \<longrightarrow> cs_status v \<noteq> CeremonyStatus.PENDING"
    using dup t by (auto simp: machine_ceremony_view ceremony_view_def dest!: get_row_Some)
  moreover have "km_ceremonies (machine_of (ks, cs, xs)) cid = None" using c t by (simp add: machine_ceremony_view get_row_None)
  moreover have "machine_of (ks, cs @ [c], xs) = (machine_of (ks, cs, xs))\<lparr>km_ceremonies :=
      (km_ceremonies (machine_of (ks, cs, xs)))(cid \<mapsto> ceremony_view ks xs c)\<rparr>"
  proof -
    have "get_row kc_id i (cs @ [c]) = (if i = cid then Some c else get_row kc_id i cs)" for i
    proof -
      have "get_row kc_id i [c] = (if i = cid then Some c else None)" by (simp add: get_row_def c)
      then show ?thesis using c(2) t get_row_None [of kc_id cid cs] by (auto simp: get_row_append split: option.splits)
    qed
    then show ?thesis by (simp add: machine_of_def fun_eq_iff)
  qed
  ultimately show "refines_step d d'"
    using key_status_in [OF ok(1), of k] k t
    by (intro refines_stepI [OF machine_step.initiate [of _ "mk_id k" cid ?p "kc_required_approvals c"]])
       (simp_all add: d' view km_keys_machine)
qed

lemma run_attestation_refines: "publishes (run_attestation pf fr run_id op_id now actor) d (refines_step d)"
  by (rule publishes_mono [OF run_attestation_publishes]) (simp add: refines_step_def)

text \<open>The requests that change keys and ceremonies.\<close>

inductive hsm_step :: "'p audit_platform_scheme \<Rightarrow> 'z hsm_db_scheme \<Rightarrow> 'z hsm_db_scheme \<Rightarrow> bool"
  for pf :: "'p audit_platform_scheme" where
  step_create_key: "valid_MasterKeyCreate p \<Longrightarrow>
    hsm_step pf d (snd (run_request (create_key pf (fl :: hsm_floats) fr b i op_id now created now' p actor) d))"
| step_create_ceremony: "hsm_step pf d (snd (run_request (create_ceremony pf fr cid ref_id now created q actor) d))"
| step_approve: "hsm_step pf d (snd (run_request (approve_ceremony pf fr aid now cid email) d))"
| step_complete: "hsm_step pf d (snd (run_request (complete_ceremony pf fr op_id now cid actor) d))"
| step_rotate: "hsm_step pf d (snd (run_request (rotate_key pf (fl :: hsm_floats) fr j op_id now created now' i actor new_label) d))"
| step_disable: "hsm_step pf d (snd (run_request (disable_key pf (fl :: hsm_floats) fr op_id now now' i actor) d))"
| step_attest: "hsm_step pf d (snd (run_request (run_attestation pf fr run_id op_id now actor) d))"

lemma hsm_step_inv:
  assumes "hsm_step pf d d'" and "hsm_inv d"
  shows "hsm_inv d'"
  using assms(1)
proof cases
  case step_create_key
  then show ?thesis using publishes_snd [OF create_key_ok [OF assms(2)]] assms(2) by metis
next
  case step_create_ceremony
  then show ?thesis using publishes_snd [OF create_ceremony_ok [OF assms(2)]] assms(2) by metis
next
  case step_approve
  then show ?thesis using publishes_snd [OF approve_ceremony_ok [OF assms(2)]] assms(2) by metis
next
  case step_complete
  then show ?thesis using publishes_snd [OF complete_ceremony_ok [OF assms(2)]] assms(2) by metis
next
  case step_rotate
  then show ?thesis using publishes_snd [OF rotate_key_ok [OF assms(2)]] assms(2) by metis
next
  case step_disable
  then show ?thesis using publishes_snd [OF disable_key_ok [OF assms(2)]] assms(2) by metis
next
  case step_attest
  then show ?thesis using publishes_snd [OF run_attestation_ok [OF assms(2)]] assms(2) by metis
qed

lemma refines_refl: "refines_step d d"
  by (simp add: refines_step_def)

lemma hsm_step_refines:
  assumes "hsm_step pf d d'" and "hsm_inv d"
  shows "refines_step d d'"
  using assms(1)
proof cases
  case step_create_key
  then show ?thesis using publishes_snd [OF create_key_refines [OF assms(2)]] refines_refl by metis
next
  case step_create_ceremony
  then show ?thesis using publishes_snd [OF create_ceremony_refines [OF assms(2)]] refines_refl by metis
next
  case step_approve
  then show ?thesis using publishes_snd [OF approve_ceremony_refines [OF assms(2)]] refines_refl by metis
next
  case step_complete
  then show ?thesis using publishes_snd [OF complete_ceremony_refines [OF assms(2)]] refines_refl by metis
next
  case step_rotate
  then show ?thesis using publishes_snd [OF rotate_key_refines [OF assms(2)]] refines_refl by metis
next
  case step_disable
  then show ?thesis using publishes_snd [OF disable_key_refines [OF assms(2)]] refines_refl by metis
next
  case step_attest
  then show ?thesis using publishes_snd [OF run_attestation_refines] refines_refl by metis
qed

end
