(* ===== verification/HsmProps.thy ===== *)
theory HsmProps
  imports HsmLifecycle Outcomes
begin

text \<open>
  The properties of the HSM component: the requests refine the abstract machine, only a quorum or
  a rotation activates a key, what a rotation does, that the chain of successors ends, and where
  the status of a key and the views of it disagree.
\<close>

section \<open>Effects on the keys\<close>

text \<open>The ways in which a request changes the table of keys.\<close>

inductive keys_effect :: "MasterKey list \<Rightarrow> MasterKey list \<Rightarrow> bool" where
  effect_none: "keys_effect ks ks"
| effect_create: "mk_id k \<notin> mk_id ` set ks \<Longrightarrow> mk_status k = MasterKeyStatus.PENDING \<Longrightarrow> mk_superseded_by_id k = None \<Longrightarrow>
    keys_effect ks (ks @ [k])"
| effect_complete: "\<forall>q \<in> set ks. label = Some (mk_key_label q) \<longrightarrow> mk_id q \<noteq> mk_id k \<Longrightarrow> keys_effect ks (completed_keys now k label ks)"
| effect_rotate: "k \<in> set ks \<Longrightarrow> j \<notin> mk_id ` set ks \<Longrightarrow>
    keys_effect ks (update_where (\<lambda>x. mk_id x = mk_id k) (\<lambda>x. x\<lparr>mk_status := MasterKeyStatus.RETIRED, mk_retired_at := Some now,
      mk_superseded_by_id := Some j, mk_throughput_ops := 0\<rparr>) (ks @ [successor_of j l now created k]))"
| effect_disable: "keys_effect ks (update_where (\<lambda>x. mk_id x = i) (\<lambda>x. x\<lparr>mk_status := MasterKeyStatus.DISABLED,
      mk_retired_at := Some now, mk_throughput_ops := 0\<rparr>) ks)"

lemma keys_of_tables: "hsm_tables d = (ks, cs, xs) \<Longrightarrow> master_keys d = ks"
  by (simp add: hsm_tables_def)

lemma ceremony_predecessor_other:
  assumes "hsm_inv d" and "c \<in> set (key_ceremonies d)" and "q \<in> set (master_keys d)" and "kc_predecessor_label c = Some (mk_key_label q)"
  shows "mk_id q \<noteq> kc_master_key_id c"
proof -
  from assms(1,2) have "\<forall>l. kc_predecessor_label c = Some l \<longrightarrow>
      (\<exists>q. (q, l) \<in> (\<lambda>k. (mk_id k, mk_key_label k)) ` set (master_keys d) \<and> q \<noteq> kc_master_key_id c)"
    by (simp add: hsm_inv_def hsm_tables_def hsm_ok_def ceremonies_ok_def)
  from this [THEN spec, THEN mp, OF assms(4)]
  obtain q' where q': "q' \<in> set (master_keys d)" "mk_key_label q' = mk_key_label q" "mk_id q' \<noteq> kc_master_key_id c"
    by (elim exE conjE imageE) simp
  moreover have "q' = q" using assms(1,3) q'(1,2) by (auto simp: hsm_inv_def hsm_tables_def hsm_ok_def keys_ok_def distinct_map dest: inj_onD)
  ultimately show ?thesis by simp
qed

lemma publishes_keys: "publishes m d (\<lambda>d'. keys_effect (master_keys d) (master_keys d')) \<Longrightarrow>
   keys_effect (master_keys d) (master_keys (snd (run_request m d)))"
  using publishes_snd [of m d "\<lambda>d'. keys_effect (master_keys d) (master_keys d')"] effect_none by auto

lemma hsm_step_keys:
  fixes d :: "'z hsm_db_scheme"
  assumes "hsm_step pf d d'" and "hsm_inv d"
  shows "keys_effect (master_keys d) (master_keys d')"
  using assms(1)
proof cases
  case step_create_key
  then show ?thesis
    by (auto intro!: publishes_keys publishes_mono [OF create_key_publishes] effect_create dest!: keys_of_tables)
next
  case step_create_ceremony
  then show ?thesis by (auto intro!: publishes_keys publishes_mono [OF create_ceremony_publishes] effect_none dest!: keys_of_tables)
next
  case step_approve
  then show ?thesis by (auto intro!: publishes_keys publishes_mono [OF approve_ceremony_publishes] effect_none)
next
  case step_complete
  have "publishes (complete_ceremony pf fr op_id now cid actor) d (\<lambda>d'. keys_effect (master_keys d) (master_keys d'))" for fr op_id now cid actor
  proof (rule publishes_mono [OF complete_ceremony_publishes], elim exE conjE)
    fix d' :: "'z hsm_db_scheme" and c k
    assume c: "c \<in> set (key_ceremonies d)" and k: "get_row mk_id (kc_master_key_id c) (master_keys d) = Some k"
      and t: "hsm_tables d' = (completed_keys now k (kc_predecessor_label c) (master_keys d),
         update_where (\<lambda>c. kc_id c = cid) (\<lambda>c. c\<lparr>kc_status := CeremonyStatus.COMPLETE, kc_completed_at := Some now\<rparr>) (key_ceremonies d),
         key_custodian_approvals d)"
    have "\<forall>q \<in> set (master_keys d). kc_predecessor_label c = Some (mk_key_label q) \<longrightarrow> mk_id q \<noteq> mk_id k"
      using ceremony_predecessor_other [OF assms(2) c] get_row_Some [OF k] by auto
    then show "keys_effect (master_keys d) (master_keys d')" unfolding keys_of_tables [OF t] by (rule effect_complete)
  qed
  from publishes_keys [OF this] step_complete show ?thesis by simp
next
  case step_rotate
  then show ?thesis by (auto intro!: publishes_keys publishes_mono [OF rotate_key_publishes] effect_rotate dest!: keys_of_tables)
next
  case step_disable
  then show ?thesis by (auto intro!: publishes_keys publishes_mono [OF disable_key_publishes] effect_disable dest!: keys_of_tables)
next
  case step_attest
  then show ?thesis
    by (auto intro!: publishes_keys publishes_mono [OF run_attestation_publishes] effect_none simp: hsm_tables_def)
qed

section \<open>Refinement\<close>

text \<open>
  C4. The requests that change keys and ceremonies implement the key machine: from tables whose
  identifiers, labels and references are consistent, every request, whatever its arguments and
  its outcome, leaves consistent tables whose abstraction is the one before or the result of one
  step of the machine.
\<close>

theorem hsm_requests_refine_the_machine:
  assumes "hsm_step pf d d'" and "hsm_inv d"
  shows "hsm_inv d' \<and> (machine_of (hsm_tables d') = machine_of (hsm_tables d)
    \<or> machine_step (machine_of (hsm_tables d)) (machine_of (hsm_tables d')))"
  using hsm_step_inv [OF assms] hsm_step_refines [OF assms] by (simp add: refines_step_def)

text \<open>
  C5. Only a quorum or a rotation activates a key. If a request leaves a key active that was not
  active before, then either the key has a pending ceremony which as many different custodians
  have approved as it requires, or the key is new and an active or expiring key was retired for it.
\<close>

theorem activation_needs_a_quorum:
  fixes d :: "'z hsm_db_scheme"
  assumes "hsm_step pf d d'" and "hsm_inv d" and "k \<in> set (master_keys d')" and "mk_status k = MasterKeyStatus.ACTIVE"
    and "\<forall>x \<in> set (master_keys d). mk_id x = mk_id k \<longrightarrow> mk_status x \<noteq> MasterKeyStatus.ACTIVE"
  shows "(\<exists>c \<in> set (key_ceremonies d). kc_master_key_id c = mk_id k \<and> kc_status c = CeremonyStatus.PENDING
      \<and> kc_required_approvals c \<le> int (card (approvers (key_custodian_approvals d) (kc_id c))))
    \<or> (mk_id k \<notin> mk_id ` set (master_keys d) \<and> (\<exists>p \<in> set (master_keys d). mk_status p \<in> {MasterKeyStatus.ACTIVE, MasterKeyStatus.EXPIRING}
      \<and> (\<exists>p' \<in> set (master_keys d'). mk_id p' = mk_id p \<and> mk_status p' = MasterKeyStatus.RETIRED)))"
proof -
  let ?m = "machine_of (hsm_tables d)" and ?m' = "machine_of (hsm_tables d')"
  have keys: "km_keys (machine_of (hsm_tables x)) = key_status (master_keys x)" for x :: "'z hsm_db_scheme"
    by (simp add: hsm_tables_def km_keys_machine)
  have status: "\<exists>x \<in> set ks. mk_id x = i \<and> mk_status x = st" if "key_status ks i = Some st" for ks i st
    using that by (auto simp: key_status_def dest!: get_row_Some)
  have "hsm_ok (master_keys d', key_ceremonies d', key_custodian_approvals d')"
    using hsm_step_inv [OF assms(1,2)] by (simp add: hsm_inv_def hsm_tables_def)
  then have after: "km_keys ?m' (mk_id k) = Some MasterKeyStatus.ACTIVE" using key_status_in assms(3,4) keys by metis
  have before: "km_keys ?m (mk_id k) \<noteq> Some MasterKeyStatus.ACTIVE" using status assms(5) keys by metis
  have "refines_step d d'" by (rule hsm_step_refines [OF assms(1,2)])
  then have "machine_step ?m ?m'" using before after unfolding refines_step_def by auto
  then show ?thesis
  proof cases
    case (complete c v)
    have "cs_key v = mk_id k" using complete(1) before after by (auto split: option.splits if_splits)
    moreover obtain r where "r \<in> set (key_ceremonies d)" "v = ceremony_view (master_keys d) (key_custodian_approvals d) r"
      using complete(2) by (auto simp: hsm_tables_def machine_ceremony_view dest!: get_row_Some)
    ultimately show ?thesis using complete(3,4) by (auto simp: ceremony_view_def)
  next
    case (rotate p k')
    then have "k' = mk_id k" "p \<noteq> k'" using before after by (auto split: if_splits)
    then have "mk_id k \<notin> mk_id ` set (master_keys d)" using rotate(3) by (simp add: keys key_status_None)
    moreover have "km_keys ?m' p = Some MasterKeyStatus.RETIRED" using rotate(1) by simp
    ultimately show ?thesis using rotate(2) status unfolding keys by (metis (no_types, lifting) insert_iff empty_iff)
  qed (use before after in \<open>auto split: if_splits\<close>)
qed

section \<open>Succession\<close>

text \<open>The links from a key to the one that supersedes it; each leads to a lower rank.\<close>

definition links_of :: "MasterKey list \<Rightarrow> (uuid \<times> uuid) set" where
  "links_of ks = {(mk_id k, j) |k j. k \<in> set ks \<and> mk_superseded_by_id k = Some j}"

definition succession_ok :: "MasterKey list \<Rightarrow> bool" where
  "succession_ok ks \<longleftrightarrow> (\<exists>rank :: uuid \<Rightarrow> nat. \<forall>l \<in> links_of ks. rank (snd l) < rank (fst l))"

lemma links_simps:
  "links_of [] = {}"
  "links_of (k # ks) = (case mk_superseded_by_id k of None \<Rightarrow> links_of ks | Some j \<Rightarrow> insert (mk_id k, j) (links_of ks))"
  by (auto simp: links_of_def split: option.split)

lemma links_of_append: "links_of (xs @ ys) = links_of xs \<union> links_of ys"
  by (auto simp: links_of_def)

lemma links_update:
  "(\<And>k. mk_id (f k) = mk_id k \<and> mk_superseded_by_id (f k) = mk_superseded_by_id k) \<Longrightarrow> links_of (update_where P f ks) = links_of ks"
  by (induction ks) (simp_all add: links_simps update_where_def split: option.split)

lemma links_update_to:
  assumes "\<And>k. mk_id (f k) = mk_id k \<and> mk_superseded_by_id (f k) = Some j"
  shows "links_of (update_where (\<lambda>x. mk_id x = i) f ks) \<subseteq> insert (i, j) (links_of ks)"
proof (induction ks)
  case (Cons k ks)
  then show ?case using assms by (cases "mk_superseded_by_id k") (auto simp: links_simps update_where_def)
qed (simp add: links_simps update_where_def)

lemma links_clear: "links_of (update_where (\<lambda>x. mk_id x = i) (\<lambda>x. x\<lparr>mk_superseded_by_id := None\<rparr>) ks) \<subseteq> {l \<in> links_of ks. fst l \<noteq> i}"
proof
  fix l assume "l \<in> links_of (update_where (\<lambda>x. mk_id x = i) (\<lambda>x. x\<lparr>mk_superseded_by_id := None\<rparr>) ks)"
  then obtain k j where k: "k \<in> set ks" "l = (mk_id k, j)" "mk_superseded_by_id (if mk_id k = i then k\<lparr>mk_superseded_by_id := None\<rparr> else k) = Some j"
    by (auto simp: links_of_def update_where_def split: if_splits)
  then have "mk_id k \<noteq> i" "mk_superseded_by_id k = Some j" by (cases "mk_id k = i"; simp)+
  with k show "l \<in> {l \<in> links_of ks. fst l \<noteq> i}" by (auto simp: links_of_def)
qed

text \<open>The key in use for \<open>i\<close>, following \<^verbatim>\<open>superseded_by_id\<close>; \<open>None\<close> when that does not end.\<close>

partial_function (option) latest_key :: "MasterKey list \<Rightarrow> uuid \<Rightarrow> uuid option" where
  "latest_key ks i = (case Option.bind (get_row mk_id i ks) mk_superseded_by_id of None \<Rightarrow> Some i | Some j \<Rightarrow> latest_key ks j)"

lemma latest_key_ends:
  assumes "succession_ok ks" and "distinct (map mk_id ks)"
  shows "\<exists>j. latest_key ks i = Some j \<and> (\<forall>k \<in> set ks. mk_id k = j \<longrightarrow> mk_superseded_by_id k = None)"
proof -
  obtain rank :: "uuid \<Rightarrow> nat" where rank: "\<forall>l \<in> links_of ks. rank (snd l) < rank (fst l)"
    using assms(1) unfolding succession_ok_def by blast
  show ?thesis
  proof (induction "rank i" arbitrary: i rule: less_induct)
    case less
    show ?case
    proof (cases "Option.bind (get_row mk_id i ks) mk_superseded_by_id")
      case None
      have "mk_superseded_by_id k = None" if "k \<in> set ks" "mk_id k = i" for k
        using None get_row_unique [OF assms(2) that(1)] that(2) by simp
      then show ?thesis using None by (subst latest_key.simps) simp
    next
      case (Some j)
      then obtain k where k: "get_row mk_id i ks = Some k" "mk_superseded_by_id k = Some j" by (cases "get_row mk_id i ks") auto
      then have "(i, j) \<in> links_of ks" using get_row_Some [OF k(1)] by (auto simp: links_of_def)
      then have "rank j < rank i" using rank by fastforce
      from less [OF this] Some show ?thesis by (subst latest_key.simps) simp
    qed
  qed
qed

lemma succession_link:
  assumes "succession_ok ks" and "links_of ks' \<subseteq> insert (i, j) {l \<in> links_of ks. fst l \<noteq> j}" and "i \<noteq> j"
  shows "succession_ok ks'"
proof -
  obtain rank :: "uuid \<Rightarrow> nat" where rank: "\<forall>l \<in> links_of ks. rank (snd l) < rank (fst l)"
    using assms(1) unfolding succession_ok_def by blast
  let ?rank = "\<lambda>x. if x = j then 0 else Suc (rank x)"
  have "?rank (snd l) < ?rank (fst l)" if "l \<in> links_of ks'" for l
  proof -
    have "l \<in> insert (i, j) {l \<in> links_of ks. fst l \<noteq> j}" using that assms(2) by (rule rev_subsetD)
    then show ?thesis
    proof
      assume "l = (i, j)"
      then show ?thesis using assms(3) by simp
    next
      assume l: "l \<in> {l \<in> links_of ks. fst l \<noteq> j}"
      then have "rank (snd l) < rank (fst l)" using rank by simp
      with l show ?thesis by simp
    qed
  qed
  then show ?thesis unfolding succession_ok_def by (intro exI [of _ ?rank] ballI)
qed

lemma succession_same: "succession_ok ks \<Longrightarrow> links_of ks' = links_of ks \<Longrightarrow> succession_ok ks'"
  by (simp add: succession_ok_def)

lemma succession_retired:
  assumes "succession_ok ks" and "\<forall>q \<in> set ks. label = Some (mk_key_label q) \<longrightarrow> mk_id q \<noteq> i"
  shows "succession_ok (retired_keys now i label ks)"
proof (cases "filter (\<lambda>x. label = Some (mk_key_label x) \<and> mk_key_label x \<noteq> []) ks")
  case Nil
  then show ?thesis using assms(1) by (simp add: retired_keys_def)
next
  case (Cons p ps)
  then have "p \<in> set (filter (\<lambda>x. label = Some (mk_key_label x) \<and> mk_key_label x \<noteq> []) ks)" by simp
  then have "mk_id p \<noteq> i" using assms(2) by auto
  then show ?thesis unfolding retired_keys_def Cons list.case
    by (intro succession_link [OF assms(1) subset_trans [OF links_update_to insert_mono [OF subset_trans [OF links_clear]]]])
       (simp_all add: links_update)
qed

lemma succession_effect:
  assumes "keys_effect ks ks'" and "succession_ok ks"
  shows "succession_ok ks'"
  using assms(1)
proof cases
  case (effect_create k)
  then show ?thesis by (intro succession_same [OF assms(2)]) (simp add: links_of_append links_simps)
next
  case (effect_complete label k now)
  let ?ks = "update_where (\<lambda>x. mk_id x = mk_id k) (\<lambda>x. x\<lparr>mk_status := MasterKeyStatus.ACTIVE, mk_activated_at := Some now,
        mk_expires_at := Some (now + timedelta_days (mk_rotation_policy_days k))\<rparr>) ks"
  have "succession_ok ?ks" by (rule succession_same [OF assms(2)]) (simp add: links_update)
  moreover have "\<forall>q \<in> set ?ks. label = Some (mk_key_label q) \<longrightarrow> mk_id q \<noteq> mk_id k"
    using effect_complete by (auto simp: update_where_def split: if_splits)
  ultimately show ?thesis unfolding effect_complete(1) completed_keys_def by (rule succession_retired)
next
  case (effect_rotate k j now l created)
  have "mk_superseded_by_id (successor_of j l now created k) = None" by (simp add: successor_of_def)
  moreover have "\<forall>l \<in> links_of ks. fst l \<noteq> j" "mk_id k \<noteq> j" using effect_rotate(2,3) by (auto simp: links_of_def)
  ultimately show ?thesis unfolding effect_rotate(1)
    by (intro succession_link [OF assms(2) subset_trans [OF links_update_to]]) (auto simp: links_of_append links_simps)
next
  case (effect_disable i now)
  then show ?thesis by (intro succession_same [OF assms(2)]) (simp add: links_update)
qed (use assms(2) in simp)

text \<open>Sequences of requests.\<close>

lemma hsm_steps_keep:
  assumes "(hsm_step pf)\<^sup>*\<^sup>* d d'" and "hsm_inv d" and "P (master_keys d)"
    and "\<And>ks ks'. keys_effect ks ks' \<Longrightarrow> P ks \<Longrightarrow> P ks'"
  shows "hsm_inv d' \<and> P (master_keys d')"
  using assms(1,2,3)
proof (induction rule: rtranclp_induct)
  case (step e e')
  then show ?case using hsm_step_inv assms(4) [OF hsm_step_keys] by blast
qed simp

text \<open>
  C7. The chain of successors of a key ends. Rotations and ceremonies link the key they retire to
  the key that replaces it, and a ceremony may even link a key again; after any sequence of
  requests on a table of keys without links, following the links from any key terminates, at a
  key that is not superseded.
\<close>

theorem succession_terminates:
  assumes "(hsm_step pf)\<^sup>*\<^sup>* d d'" and "hsm_inv d" and "\<forall>k \<in> set (master_keys d). mk_superseded_by_id k = None"
  shows "\<exists>j. latest_key (master_keys d') i = Some j \<and> (\<forall>k \<in> set (master_keys d'). mk_id k = j \<longrightarrow> mk_superseded_by_id k = None)"
proof (rule latest_key_ends)
  have "succession_ok (master_keys d)" using assms(3) by (auto simp: succession_ok_def links_of_def)
  then have "hsm_inv d' \<and> succession_ok (master_keys d')" using assms(1,2) succession_effect by (intro hsm_steps_keep)
  then show "succession_ok (master_keys d')" "distinct (map mk_id (master_keys d'))"
    by (simp_all add: hsm_inv_def hsm_tables_def hsm_ok_def keys_ok_def)
qed

section \<open>The stored and the displayed status\<close>

lemma status_of_effect:
  assumes "keys_effect ks ks'" and "list_all (\<lambda>k. mk_status k \<noteq> MasterKeyStatus.EXPIRING) ks"
  shows "list_all (\<lambda>k. mk_status k \<noteq> MasterKeyStatus.EXPIRING) ks'"
proof -
  let ?N = "list_all (\<lambda>k. mk_status k \<noteq> MasterKeyStatus.EXPIRING)"
  have upd: "?N (update_where P f xs)" if "?N xs" "\<And>k. mk_status (f k) = mk_status k \<or> mk_status (f k) \<noteq> MasterKeyStatus.EXPIRING" for P f xs
    using that by (induction xs) (auto simp: update_where_def, metis)
  show ?thesis
    using assms(1)
  proof cases
    case (effect_complete label k now)
    show ?thesis unfolding effect_complete(1) completed_keys_def retired_keys_def
      by (cases "filter (\<lambda>x. label = Some (mk_key_label x) \<and> mk_key_label x \<noteq> [])
          (update_where (\<lambda>x. mk_id x = mk_id k) (\<lambda>x. x\<lparr>mk_status := MasterKeyStatus.ACTIVE, mk_activated_at := Some now,
            mk_expires_at := Some (now + timedelta_days (mk_rotation_policy_days k))\<rparr>) ks)")
         (simp_all only: list.case, (intro upd assms(2); simp)+)
  next
    case (effect_rotate k j now l created)
    show ?thesis unfolding effect_rotate(1) by (rule upd) (use assms(2) in \<open>simp_all add: successor_of_def\<close>)
  next
    case (effect_disable i now)
    show ?thesis unfolding effect_disable(1) by (rule upd) (use assms(2) in simp_all)
  qed (use assms(2) in simp_all)
qed

text \<open>
  C8. The summary does not see that a key expires. No request stores the status "expiring": the list
  of keys derives it from the expiry date. The summary counts the stored status, so from a table
  without stored expiring rows, whatever the requests, it reports no expiring key, and the keys
  that the list shows as expiring are counted as active, with the active ones.
\<close>

theorem summary_misses_expiring_keys:
  assumes "(hsm_step pf)\<^sup>*\<^sup>* d d'" and "hsm_inv d" and "\<forall>k \<in> set (master_keys d). mk_status k \<noteq> MasterKeyStatus.EXPIRING"
  shows "\<exists>summary reads. fst (run_request (get_security_summary fl now serial) d') = Inr summary
    \<and> fst (run_request (list_keys fl now None) d') = Inr reads \<and> ssm_expiring_keys summary = 0
    \<and> ssm_active_keys summary = count_rows (\<lambda>r. mkr_effective_status r \<in> {''active'', ''expiring''}) reads"
proof -
  have "list_all (\<lambda>k. mk_status k \<noteq> MasterKeyStatus.EXPIRING) (master_keys d)" using assms(3) by (simp add: list_all_iff)
  from hsm_steps_keep [of pf d d' "list_all (\<lambda>k. mk_status k \<noteq> MasterKeyStatus.EXPIRING)", OF assms(1,2) this status_of_effect]
  have ks: "\<forall>k \<in> set (master_keys d'). mk_status k \<noteq> MasterKeyStatus.EXPIRING" by (simp add: list_all_iff)
  have eff: "effective_key_status k now \<in> {''active'', ''expiring''} \<longleftrightarrow> mk_status k \<in> {MasterKeyStatus.ACTIVE, MasterKeyStatus.EXPIRING}" for k
    by (cases "mk_status k") (auto simp: effective_key_status_def split: option.splits)
  have "count_rows (\<lambda>k. mk_status k = MasterKeyStatus.EXPIRING) (master_keys d') = 0"
    using ks by (simp add: count_rows_def filter_empty_conv)
  moreover have "count_rows (\<lambda>r. mkr_effective_status r \<in> {''active'', ''expiring''})
      (map (\<lambda>k. master_key_to_read fl d' k now) (order_by_desc mk_created_at (master_keys d')))
    = count_rows (\<lambda>k. mk_status k = MasterKeyStatus.ACTIVE) (master_keys d')"
  proof -
    have perm: "length (filter P (sort_key f xs)) = length (filter P xs)" for P and f :: "MasterKey \<Rightarrow> int" and xs
      using filter_sort [of P f xs] by simp
    have "filter (\<lambda>k. effective_key_status k now \<in> {''active'', ''expiring''}) (master_keys d')
        = filter (\<lambda>k. mk_status k = MasterKeyStatus.ACTIVE) (master_keys d')"
      using ks eff by (intro filter_cong) auto
    then show ?thesis
      by (simp add: count_rows_def filter_map comp_def master_key_to_read_def order_by_desc_def perm)
  qed
  ultimately show ?thesis by (simp add: get_security_summary_def list_keys_def svc_simps Let_def)
qed

section \<open>Rotation\<close>

text \<open>The keys after key \<open>i\<close> is rotated to the successor \<open>j\<close>.\<close>

definition rotated_keys :: "datetime \<Rightarrow> uuid \<Rightarrow> uuid \<Rightarrow> MasterKey list \<Rightarrow> MasterKey list" where
  "rotated_keys now i j = update_where (\<lambda>x. mk_id x = i) (\<lambda>x. x\<lparr>mk_status := MasterKeyStatus.RETIRED,
     mk_retired_at := Some now, mk_superseded_by_id := Some j, mk_throughput_ops := 0\<rparr>)"

lemma rotated_row:
  assumes "k \<in> set ks" and "j \<notin> mk_id ` set ks"
  shows "filter (\<lambda>x. mk_id x = j) (rotated_keys now (mk_id k) j (ks @ [successor_of j l now created k'])) = [successor_of j l now created k']"
proof -
  have "mk_id k \<noteq> j" using assms by auto
  moreover have "map mk_id (rotated_keys now (mk_id k) j ks) = map mk_id ks" by (simp add: rotated_keys_def map_update_where)
  then have "mk_id ` set (rotated_keys now (mk_id k) j ks) = mk_id ` set ks" by (metis list.set_map)
  then have "filter (\<lambda>x. mk_id x = j) (rotated_keys now (mk_id k) j ks) = []"
    using assms(2) by (force simp: filter_empty_conv)
  ultimately show ?thesis by (simp add: rotated_keys_def update_where_def successor_of_def)
qed

lemma rotate_key_ends:
  fixes d :: "'z hsm_db_scheme"
  assumes "hsm_inv d"
  shows "ends (rotate_key pf fl fr j op_id now created now' i actor new_label) \<lparr>committed = d, working = d\<rparr> (\<lambda>r s.
    case r of Inl e \<Rightarrow> committed s = d
    | Inr out \<Rightarrow> (\<exists>k p e. k \<in> set (master_keys d) \<and> mk_id k = i \<and> mk_status k \<in> {MasterKeyStatus.ACTIVE, MasterKeyStatus.EXPIRING}
       \<and> j \<notin> mk_id ` set (master_keys d) \<and> successor_label new_label k \<notin> mk_key_label ` set (master_keys d)
       \<and> master_keys (committed s) = rotated_keys now i j (master_keys d @ [successor_of j (successor_label new_label k) now created k])
       \<and> security_operations (committed s) = security_operations d @ [p] \<and> so_operation_type p = SecurityOperationType.KEY_ROTATE
       \<and> so_master_key_id p = Some j \<and> so_actor p = actor
       \<and> audit_log_entries (committed s) = audit_log_entries d @ [e] \<and> ale_event_subtype e = ''KEY_ROTATED'' \<and> ale_actor e = actor
       \<and> out = master_key_to_read fl (committed s) (successor_of j (successor_label new_label k) now created k) now'))"
  unfolding rotate_key_def get_key_def get_key_orm_def assert_label_available_def record_operation_def
  apply (simp only: ends_simps)
  apply (intro allI impI conjI ends_intros)
  apply (simp_all only: sum.case session.simps)
  subgoal premises p for _ k _ da db e d'
  proof -
    let ?l = "successor_label new_label k"
    let ?ks = "rotated_keys now i j (master_keys d @ [successor_of j ?l now created k])"
    have k: "k \<in> set (master_keys d)" "mk_id k = i" using p(1) filter_single unfolding scalar_one_or_none_Inr by fast+
    have status: "mk_status k \<in> {MasterKeyStatus.ACTIVE, MasterKeyStatus.EXPIRING}" using p(3) by blast
    have new: "j \<notin> mk_id ` set (master_keys d)" "?l \<notin> mk_key_label ` set (master_keys d)"
      "da = d\<lparr>master_keys := master_keys d @ [successor_of j ?l now created k]\<rparr>"
      using p(6) unfolding insert_master_key_Inr by (simp_all add: successor_of_def)
    obtain op where op: "db = (update_master_key i (\<lambda>k. k\<lparr>mk_status := MasterKeyStatus.RETIRED, mk_retired_at := Some now,
        mk_superseded_by_id := Some j, mk_throughput_ops := 0\<rparr>) da)\<lparr>security_operations := security_operations da @ [op]\<rparr>"
      "so_operation_type op = SecurityOperationType.KEY_ROTATE" "so_master_key_id op = Some j" "so_actor op = actor"
      using p(7) unfolding insert_security_operation_Inr by (auto simp: successor_of_def update_master_key_def)
    obtain e n where log: "d' = db\<lparr>audit_log_entries := audit_log_entries db @ [e], audit_next := n\<rparr>"
      "ale_event_subtype e = ''KEY_ROTATED''" "ale_actor e = actor"
      using logged_entry(1-3) [OF p(8)] by (auto simp: key_operation_entry_def)
    have d': "master_keys d' = ?ks" "security_operations d' = security_operations d @ [op]" "audit_log_entries d' = audit_log_entries d @ [e]"
      by (simp_all add: log op new rotated_keys_def update_master_key_def)
    have "filter (\<lambda>x. mk_id x = j) (master_keys d') = [successor_of j ?l now created k]"
      using rotated_row [OF k(1) new(1)] unfolding d' k(2) .
    then show ?thesis
      using k status new(1,2) d' op(2-) log(2-) by (simp add: ends_simps scalar_one_or_none_def) metis
  qed
  done

lemma rotated_throughput:
  assumes "distinct (map mk_id ks)" and "k \<in> set ks" and "j \<notin> mk_id ` set ks"
  shows "(\<Sum>x\<leftarrow>rotated_keys now (mk_id k) j (ks @ [successor_of j l now created k]). mk_throughput_ops x) = (\<Sum>x\<leftarrow>ks. mk_throughput_ops x)"
proof -
  have idle: "rotated_keys now i j xs = xs" if "i \<notin> mk_id ` set xs" for i and xs :: "MasterKey list"
    using that by (induction xs) (auto simp: rotated_keys_def update_where_def)
  have "(\<Sum>x\<leftarrow>rotated_keys now (mk_id k) j ks. mk_throughput_ops x) + mk_throughput_ops k = (\<Sum>x\<leftarrow>ks. mk_throughput_ops x)"
    using assms(1,2)
  proof (induction ks)
    case (Cons x xs)
    have step: "rotated_keys now (mk_id k) j (x # xs) = (if mk_id x = mk_id k then x\<lparr>mk_status := MasterKeyStatus.RETIRED,
        mk_retired_at := Some now, mk_superseded_by_id := Some j, mk_throughput_ops := 0\<rparr> else x) # rotated_keys now (mk_id k) j xs"
      by (simp add: rotated_keys_def update_where_def)
    show ?case
    proof (cases "mk_id x = mk_id k")
      case True
      with Cons.prems have "x = k" "mk_id k \<notin> mk_id ` set xs" by auto
      then show ?thesis unfolding step by (simp add: idle)
    next
      case False
      with Cons have "(\<Sum>x\<leftarrow>rotated_keys now (mk_id k) j xs. mk_throughput_ops x) + mk_throughput_ops k = (\<Sum>x\<leftarrow>xs. mk_throughput_ops x)" by auto
      with False show ?thesis by (simp add: step)
    qed
  qed simp
  moreover have "mk_id k \<noteq> j" using assms(2,3) by auto
  then have "rotated_keys now (mk_id k) j (ks @ [successor_of j l now created k]) =
      rotated_keys now (mk_id k) j ks @ [successor_of j l now created k]"
    by (simp add: rotated_keys_def update_where_def successor_of_def)
  ultimately show ?thesis by (simp add: successor_of_def)
qed

text \<open>
  A rotation hands a key over, or does nothing. A refused rotation leaves the database as it
  was. One that succeeds took an active or expiring key, retires it with a link to a new active
  key with a label of its own, the same algorithm, slot, rotation policy and wrapped data keys;
  no other key changes its status, the total throughput stays, one operation and one audit entry
  by the caller are recorded, and the answer is the new key.
\<close>

theorem rotation_hands_over:
  assumes "hsm_inv d" and "run_request (rotate_key pf fl fr j op_id now created now' i actor new_label) d = (r, d')"
  shows "case r of Inl e \<Rightarrow> d' = d
    | Inr out \<Rightarrow> mkr_id out = j \<and> mkr_status out = ''active''
       \<and> key_status (master_keys d) i \<in> {Some MasterKeyStatus.ACTIVE, Some MasterKeyStatus.EXPIRING} \<and> key_status (master_keys d) j = None
       \<and> key_status (master_keys d') = (key_status (master_keys d))(j \<mapsto> MasterKeyStatus.ACTIVE, i \<mapsto> MasterKeyStatus.RETIRED)
       \<and> (\<exists>old \<in> set (master_keys d). \<exists>old' \<in> set (master_keys d'). \<exists>new \<in> set (master_keys d').
            mk_id old = i \<and> mk_id old' = i \<and> mk_superseded_by_id old' = Some j \<and> mk_id new = j
            \<and> mk_key_label new \<notin> mk_key_label ` set (master_keys d) \<and> mk_algorithm new = mk_algorithm old \<and> mk_slot_id new = mk_slot_id old
            \<and> mk_rotation_policy_days new = mk_rotation_policy_days old \<and> mk_wraps_dek_count new = mk_wraps_dek_count old)
       \<and> (\<Sum>k\<leftarrow>master_keys d'. mk_throughput_ops k) = (\<Sum>k\<leftarrow>master_keys d. mk_throughput_ops k)
       \<and> (\<exists>p. security_operations d' = security_operations d @ [p] \<and> so_operation_type p = SecurityOperationType.KEY_ROTATE
            \<and> so_master_key_id p = Some j \<and> so_actor p = actor)
       \<and> (\<exists>e. audit_log_entries d' = audit_log_entries d @ [e] \<and> ale_event_subtype e = ''KEY_ROTATED'' \<and> ale_actor e = actor)"
proof (cases r)
  case (Inl e)
  then show ?thesis using ends_run [OF assms(2) rotate_key_ends [OF assms(1)]] by simp
next
  case (Inr out)
  obtain k p e where k: "k \<in> set (master_keys d)" "mk_id k = i" "mk_status k \<in> {MasterKeyStatus.ACTIVE, MasterKeyStatus.EXPIRING}"
      "j \<notin> mk_id ` set (master_keys d)" "successor_label new_label k \<notin> mk_key_label ` set (master_keys d)"
    and ks: "master_keys d' = rotated_keys now i j (master_keys d @ [successor_of j (successor_label new_label k) now created k])"
    and p: "security_operations d' = security_operations d @ [p]" "so_operation_type p = SecurityOperationType.KEY_ROTATE"
      "so_master_key_id p = Some j" "so_actor p = actor"
    and e: "audit_log_entries d' = audit_log_entries d @ [e]" "ale_event_subtype e = ''KEY_ROTATED''" "ale_actor e = actor"
    and out: "out = master_key_to_read fl d' (successor_of j (successor_label new_label k) now created k) now'"
    using ends_run [OF assms(2) rotate_key_ends [OF assms(1)]] unfolding Inr sum.case by blast
  let ?new = "successor_of j (successor_label new_label k) now created k"
  let ?old = "k\<lparr>mk_status := MasterKeyStatus.RETIRED, mk_retired_at := Some now, mk_superseded_by_id := Some j, mk_throughput_ops := 0\<rparr>"
  have inv: "hsm_ok (master_keys d, key_ceremonies d, key_custodian_approvals d)" "distinct (map mk_id (master_keys d))"
    using assms(1) by (simp_all add: hsm_inv_def hsm_tables_def hsm_ok_def keys_ok_def)
  have ij: "i \<noteq> j" using k(1,2,4) by auto
  have rows: "?old \<in> set (master_keys d')" "?new \<in> set (master_keys d')"
    using k(1,2) ij by (auto simp: ks rotated_keys_def update_where_def successor_of_def intro: rev_image_eqI)
  have st: "key_status (master_keys d) i = Some (mk_status k)" using key_status_in [OF inv(1) k(1)] k(2) by simp
  have status: "key_status (master_keys d') = (key_status (master_keys d))(j \<mapsto> MasterKeyStatus.ACTIVE, i \<mapsto> MasterKeyStatus.RETIRED)"
    unfolding ks rotated_keys_def using k(1,2,4)
    by (subst key_status_update [where st = MasterKeyStatus.RETIRED]) (auto simp: key_status_append successor_of_def)
  have total: "(\<Sum>k\<leftarrow>master_keys d'. mk_throughput_ops k) = (\<Sum>k\<leftarrow>master_keys d. mk_throughput_ops k)"
    unfolding ks using rotated_throughput [OF inv(2) k(1,4)] k(2) by simp
  have answer: "mkr_id out = j" "mkr_status out = ''active''" by (simp_all add: out master_key_to_read_def successor_of_def)
  have handed: "\<exists>old \<in> set (master_keys d). \<exists>old' \<in> set (master_keys d'). \<exists>new \<in> set (master_keys d').
      mk_id old = i \<and> mk_id old' = i \<and> mk_superseded_by_id old' = Some j \<and> mk_id new = j
      \<and> mk_key_label new \<notin> mk_key_label ` set (master_keys d) \<and> mk_algorithm new = mk_algorithm old \<and> mk_slot_id new = mk_slot_id old
      \<and> mk_rotation_policy_days new = mk_rotation_policy_days old \<and> mk_wraps_dek_count new = mk_wraps_dek_count old"
    by (rule bexI [OF _ k(1)], rule bexI [OF _ rows(1)], rule bexI [OF _ rows(2)]) (simp add: k(2,5) successor_of_def)
  show ?thesis unfolding Inr sum.case
    by (intro conjI answer status total handed) (use st k(3,4) p e in \<open>auto simp: key_status_None\<close>)
qed

lemma ends_retire:
  assumes "\<And>e. Q (Inl e) s" and "ends (f ()) (s\<lparr>working := master_keys_update (retired_keys now i label) (working s)\<rparr>) Q"
  shows "ends (bind_svc (retire_predecessor now i label) f) s Q"
  using retire_runs [of now i label s] assms by (auto simp: bind_svc_def ends_def)

lemma complete_ceremony_ends:
  "ends (complete_ceremony pf fr op_id now cid actor) \<lparr>committed = d, working = d\<rparr> (\<lambda>r s. case r of Inl e \<Rightarrow> committed s = d
    | Inr out \<Rightarrow> (\<exists>c k. c \<in> set (key_ceremonies d) \<and> kc_id c = cid \<and> kc_status c = CeremonyStatus.PENDING
       \<and> quorum_met c (approvals_of d cid) \<and> get_row mk_id (kc_master_key_id c) (master_keys d) = Some k
       \<and> out = c\<lparr>kc_status := CeremonyStatus.COMPLETE, kc_completed_at := Some now\<rparr>
       \<and> hsm_tables (committed s) = (completed_keys now k (kc_predecessor_label c) (master_keys d),
         update_where (\<lambda>c. kc_id c = cid) (\<lambda>c. c\<lparr>kc_status := CeremonyStatus.COMPLETE, kc_completed_at := Some now\<rparr>) (key_ceremonies d),
         key_custodian_approvals d)))"
  unfolding complete_ceremony_def get_ceremony_def ceremony_key_def record_operation_def
  apply (simp only: ends_simps)
  apply (intro allI impI conjI ends_retire)
  apply (simp_all only: sum.case session.simps ends_simps)
  apply (intro allI impI conjI ends_intros)
  apply (simp_all only: sum.case session.simps ends_simps)
  subgoal premises p for _ c k da e d'
  proof -
    have c: "c \<in> set (key_ceremonies d)" "kc_id c = cid" using p(1) filter_single unfolding scalar_one_or_none_Inr by fast+
    have k: "get_row mk_id (kc_master_key_id c) (master_keys d) = Some k" using p(5) unfolding option_Inr .
    have "hsm_tables d' = (completed_keys now k (kc_predecessor_label c) (master_keys d),
        update_where (\<lambda>c. kc_id c = cid) (\<lambda>c. c\<lparr>kc_status := CeremonyStatus.COMPLETE, kc_completed_at := Some now\<rparr>) (key_ceremonies d),
        key_custodian_approvals d)"
      using logged_tables [OF p(7)] operation_tables [OF p(6)] by (simp add: hsm_tables_def completed_keys_def update_master_key_def)
    with c k p(3,4) show ?thesis by blast
  qed
  done

lemma disable_key_ends:
  assumes "hsm_inv d"
  shows "ends (disable_key pf fl fr op_id now now' i actor) \<lparr>committed = d, working = d\<rparr> (\<lambda>r s. case r of Inl e \<Rightarrow> committed s = d
    | Inr out \<Rightarrow> (\<exists>k. k \<in> set (master_keys d) \<and> mk_id k = i \<and> mk_status k \<notin> {MasterKeyStatus.RETIRED, MasterKeyStatus.DISABLED}
       \<and> hsm_tables (committed s) = (update_where (\<lambda>x. mk_id x = i) (\<lambda>x. x\<lparr>mk_status := MasterKeyStatus.DISABLED,
            mk_retired_at := Some now, mk_throughput_ops := 0\<rparr>) (master_keys d), key_ceremonies d, key_custodian_approvals d)))"
  unfolding disable_key_def get_key_def get_key_orm_def record_operation_def
  apply (simp only: ends_simps)
  apply (intro allI impI conjI ends_intros)
  apply (simp_all only: sum.case session.simps ends_simps)
  subgoal premises p for _ k da e d'
  proof -
    let ?f = "\<lambda>x. x\<lparr>mk_status := MasterKeyStatus.DISABLED, mk_retired_at := Some now, mk_throughput_ops := 0\<rparr>"
    have k: "k \<in> set (master_keys d)" "mk_id k = i" using p(1) filter_single unfolding scalar_one_or_none_Inr by fast+
    have t: "hsm_tables d' = (update_where (\<lambda>x. mk_id x = i) ?f (master_keys d), key_ceremonies d, key_custodian_approvals d)"
      using logged_tables [OF p(5)] operation_tables [OF p(4)] by (simp add: hsm_tables_def update_master_key_def)
    have "distinct (map mk_id (master_keys d))" using assms by (simp add: hsm_inv_def hsm_tables_def hsm_ok_def keys_ok_def)
    then have "distinct (map mk_id (master_keys d'))" unfolding keys_of_tables [OF t] by (simp add: map_update_where)
    moreover have "?f k \<in> set (master_keys d')" using k unfolding keys_of_tables [OF t] by (auto simp: update_where_def)
    ultimately have "filter (\<lambda>x. mk_id x = i) (master_keys d') = [?f k]"
      using filter_eq_singleton [of mk_id "master_keys d'" "?f k"] k(2) by simp
    with t k p(3) show ?thesis by (simp add: scalar_one_or_none_def) blast
  qed
  done

text \<open>A completion makes the key of its ceremony active.\<close>

lemma completion_activates:
  assumes inv1: "hsm_inv d1" and run: "run_request (complete_ceremony pf fr op_id now cid actor) d1 = (Inr c, d2)"
  shows "key_status (master_keys d2) (kc_master_key_id c) = Some MasterKeyStatus.ACTIVE \<and> kc_status c = CeremonyStatus.COMPLETE"
proof -
  have ok: "keys_ok (master_keys d1)" using inv1 by (simp add: hsm_inv_def hsm_tables_def hsm_ok_def)
  obtain r k where r: "r \<in> set (key_ceremonies d1)"
      and k: "get_row mk_id (kc_master_key_id r) (master_keys d1) = Some k" and c: "c = r\<lparr>kc_status := CeremonyStatus.COMPLETE, kc_completed_at := Some now\<rparr>"
      and t2: "hsm_tables d2 = (completed_keys now k (kc_predecessor_label r) (master_keys d1),
         update_where (\<lambda>c. kc_id c = cid) (\<lambda>c. c\<lparr>kc_status := CeremonyStatus.COMPLETE, kc_completed_at := Some now\<rparr>) (key_ceremonies d1),
         key_custodian_approvals d1)"
    using ends_run [OF run complete_ceremony_ends] unfolding sum.case by blast
  have i: "kc_master_key_id r = mk_id k" using get_row_Some [OF k] by simp
  have "Option.bind (kc_predecessor_label r) (labelled (master_keys d1)) \<noteq> Some (mk_id k)"
  proof
    assume "Option.bind (kc_predecessor_label r) (labelled (master_keys d1)) = Some (mk_id k)"
    then obtain q where "q \<in> set (master_keys d1)" "kc_predecessor_label r = Some (mk_key_label q)" "mk_id q = mk_id k"
      by (auto simp: labelled_def bind_eq_Some_conv dest!: find_in)
    with ceremony_predecessor_other [OF inv1 r] i show False by auto
  qed
  then show ?thesis
    unfolding keys_of_tables [OF t2] key_status_completed [OF ok k] c by (auto simp: i split: option.split)
qed

text \<open>What a completion records once its checks have passed: its operation and its audit entry.\<close>

definition completion_records ::
  "'p audit_platform_scheme \<Rightarrow> fresh \<Rightarrow> uuid \<Rightarrow> datetime \<Rightarrow> string \<Rightarrow> KeyCeremony \<Rightarrow> MasterKey \<Rightarrow> int \<Rightarrow>
   ('z hsm_db_scheme, AuditLogEntry) svc" where
  "completion_records pf fr op_id now actor r k approvals =
     bind_svc (record_operation op_id SecurityOperationType.CEREMONY_COMPLETE (Some k) actor (''Completed ceremony '' @ kc_ceremony_ref r) now)
     (\<lambda>_. append_entry_in_transaction pf fr (key_operation_entry ''info'' ''KEY_ROTATION_COMPLETE'' actor
        ((case kc_predecessor_label r of Some l \<Rightarrow> if l = [] then ''new key'' else l | None \<Rightarrow> ''new key'')
           @ '' -> '' @ mk_key_label k @ '' rotation completed via ceremony '' @ kc_ceremony_ref r)
        (JDict [(''ceremony_ref'', JStr (kc_ceremony_ref r)), (''new_key'', JStr (mk_key_label k)), (''approvals'', JInt approvals)])))"

lemma complete_ceremony_records:
  "complete_ceremony pf fr op_id now ceremony_id actor =
     bind_svc (get_ceremony ceremony_id)
     (\<lambda>ceremony. bind_svc (query (\<lambda>d. approvals_of d ceremony_id))
     (\<lambda>approvals. if \<not> quorum_met ceremony approvals
        then raise_svc (HTTPException 409 (''Quorum not met: '' @ show_int (approval_count approvals) @ ''/''
               @ show_int (kc_required_approvals ceremony) @ '' approved''))
        else
          bind_svc (ceremony_key ceremony)
          (\<lambda>k. bind_svc (modify_db (update_master_key (mk_id k) (\<lambda>x. x\<lparr>mk_status := MasterKeyStatus.ACTIVE,
              mk_activated_at := Some now, mk_expires_at := Some (now + timedelta_days (mk_rotation_policy_days k))\<rparr>)))
          (\<lambda>_. bind_svc (retire_predecessor now (mk_id k) (kc_predecessor_label ceremony))
          (\<lambda>_. bind_svc (modify_db (key_ceremonies_update (update_where (\<lambda>c. kc_id c = ceremony_id)
              (\<lambda>c. c\<lparr>kc_status := CeremonyStatus.COMPLETE, kc_completed_at := Some now\<rparr>))))
          (\<lambda>_. bind_svc (completion_records pf fr op_id now actor ceremony k (approval_count approvals))
          (\<lambda>_. bind_svc commit
          (\<lambda>_. return_svc (ceremony\<lparr>kc_status := CeremonyStatus.COMPLETE, kc_completed_at := Some now\<rparr>)))))))))"
  unfolding complete_ceremony_def completion_records_def bind_svc_assoc ..

text \<open>Whether they are taken depends on the identifiers of the keys, the operations and the log alone.\<close>

lemma completion_records_taken:
  fixes d :: "'z hsm_db_scheme"
  assumes "fst (completion_records pf fr op_id now actor r k n s) = Inr e"
    and "mk_id ` set (master_keys (working s')) = mk_id ` set (master_keys (working s))"
    and "security_operations (working s') = security_operations (working s)"
    and "audit_log_entries (working s') = audit_log_entries (working s)" "audit_next (working s') = audit_next (working s)"
      "tenants (working s') = tenants (working s)"
    and "mk_id k' = mk_id k" "mk_key_label k' = mk_key_label k"
  shows "\<exists>s2. completion_records pf fr op_id now actor r k' n s' = (Inr e, s2)"
proof -
  let ?p = "\<lparr>so_id = op_id, so_operation_type = SecurityOperationType.CEREMONY_COMPLETE, so_master_key_id = Some (mk_id k),
        so_key_label = Some (mk_key_label k), so_actor = actor, so_status = SecurityOperationStatus.SUCCESS,
        so_detail = ''Completed ceremony '' @ kc_ceremony_ref r, so_occurred_at = now\<rparr>"
  let ?w = "\<lambda>s. (working s)\<lparr>security_operations := security_operations (working s) @ [?p]\<rparr>"
  let ?a = "\<lambda>k. key_operation_entry ''info'' ''KEY_ROTATION_COMPLETE'' actor
        ((case kc_predecessor_label r of Some l \<Rightarrow> if l = [] then ''new key'' else l | None \<Rightarrow> ''new key'')
           @ '' -> '' @ mk_key_label k @ '' rotation completed via ceremony '' @ kc_ceremony_ref r)
        (JDict [(''ceremony_ref'', JStr (kc_ceremony_ref r)), (''new_key'', JStr (mk_key_label k)), (''approvals'', JInt n)])"
  obtain d1 s1 where op: "insert_security_operation ?p (working s) = Inr d1"
    and log: "append_entry_in_transaction pf fr (?a k) (s\<lparr>working := d1\<rparr>) = (Inr e, s1)"
    using assms(1) by (cases "completion_records pf fr op_id now actor r k n s")
      (auto simp: completion_records_def record_operation_def bind_svc_Inr flush_def split: sum.splits)
  have d1: "d1 = ?w s" and op': "insert_security_operation ?p (working s') = Inr (?w s')"
    using op assms(2,3) by (auto simp: insert_security_operation_Inr)
  note b = append_in_transaction_run(1,2) [OF log [unfolded d1]]
  have "build_entry pf fr (audit_next (?w s') + int (fr_skip fr)) (map_option ale_entry_hash (get_tail (?w s'))) (?a k) = Inr e"
    using b(1) assms(4,5) by (simp add: get_tail_def)
  moreover have "insert_entry e (?w s') = Inr ((?w s')\<lparr>audit_log_entries := audit_log_entries (?w s') @ [e],
      audit_next := ale_sequence e + 1\<rparr>)"
    using b(2) assms(4,6) by (simp add: insert_entry_Inr)
  ultimately have "append_entry_in_transaction pf fr (?a k) (s'\<lparr>working := ?w s'\<rparr>)
      = (Inr e, s'\<lparr>working := (?w s')\<lparr>audit_log_entries := audit_log_entries (?w s') @ [e], audit_next := ale_sequence e + 1\<rparr>\<rparr>)"
    using append_in_transaction_succeeds [of pf fr "s'\<lparr>working := ?w s'\<rparr>" "?a k" e] by simp
  with op' show ?thesis
    by (simp add: completion_records_def record_operation_def assms(7,8) bind_svc_def flush_def)
qed

lemma retire_predecessor_succeeds:
  fixes s :: "'z hsm_db_scheme session"
  assumes "distinct (map mk_key_label (master_keys (working s)))"
  shows "\<exists>ks. mk_id ` set ks = mk_id ` set (master_keys (working s))
    \<and> retire_predecessor now i label s = (Inr (), s\<lparr>working := master_keys_update (\<lambda>_. ks) (working s)\<rparr>)"
proof -
  have "mk_id ` set (retired_keys now i label ks) = mk_id ` set ks" for ks
    by (simp add: retired_keys_def ids_update_where split: list.split)
  moreover have "\<not> (\<exists>e. retire_predecessor now i label s = (Inl e, s))"
    using scalar_by_unique_key [OF assms] by (auto simp: retire_predecessor_def svc_simps split: option.splits)
  then have "retire_predecessor now i label s = (Inr (), s\<lparr>working := master_keys_update (retired_keys now i label) (working s)\<rparr>)"
    using retire_runs [of now i label s] by blast
  moreover have "master_keys_update (retired_keys now i label) (working s)
      = master_keys_update (\<lambda>_. retired_keys now i label (master_keys (working s))) (working s)"
    by (rule hsm_db.equality) simp_all
  ultimately show ?thesis by metis
qed

lemma completion_succeeds:
  fixes d :: "'z hsm_db_scheme"
  assumes inv: "hsm_inv d" and r: "r \<in> set (key_ceremonies d)" "kc_status r = CeremonyStatus.PENDING"
      "quorum_met r (approvals_of d (kc_id r))"
    and k: "k \<in> set (master_keys d)" "mk_id k = kc_master_key_id r"
    and taken: "fst (run_request (completion_records pf fr op_id now actor r k (approval_count (approvals_of d (kc_id r)))) d) = Inr e"
  shows "\<exists>c d2. run_request (complete_ceremony pf fr op_id now (kc_id r) actor) d = (Inr c, d2) \<and> kc_master_key_id c = mk_id k"
proof (rule ends_success)
  let ?s = "\<lparr>committed = d, working = d\<rparr>"
  let ?k = "update_master_key (mk_id k) (\<lambda>x. x\<lparr>mk_status := MasterKeyStatus.ACTIVE, mk_activated_at := Some now,
      mk_expires_at := Some (now + timedelta_days (mk_rotation_policy_days k))\<rparr>)"
  have dist: "distinct (map kc_id (key_ceremonies d))" "distinct (map mk_id (master_keys d))" "distinct (map mk_key_label (master_keys d))"
    using inv by (simp_all add: hsm_inv_def hsm_tables_def hsm_ok_def keys_ok_def ceremonies_ok_def)
  have found: "scalar_one_or_none (filter (\<lambda>c. kc_id c = kc_id r) (key_ceremonies d)) = Inr (Some r)"
    using scalar_by_unique_key [OF dist(1)] find_unique_key [OF dist(1) r(1)] by simp
  have row: "get_row mk_id (kc_master_key_id r) (master_keys d) = Some k"
    using get_row_unique [OF dist(2) k(1)] k(2) by simp
  have "distinct (map mk_key_label (master_keys (working (?s\<lparr>working := ?k d\<rparr>))))"
    using dist(3) by (simp add: update_master_key_def map_update_where)
  from retire_predecessor_succeeds [OF this, of now "mk_id k" "kc_predecessor_label r"]
  obtain ks where ks: "mk_id ` set ks = mk_id ` set (master_keys (?k d))"
    and retire: "retire_predecessor now (mk_id k) (kc_predecessor_label r) (?s\<lparr>working := ?k d\<rparr>)
      = (Inr (), ?s\<lparr>working := master_keys_update (\<lambda>_. ks) (?k d)\<rparr>)" by auto
  let ?s' = "?s\<lparr>working := key_ceremonies_update (update_where (\<lambda>c. kc_id c = kc_id r)
      (\<lambda>c. c\<lparr>kc_status := CeremonyStatus.COMPLETE, kc_completed_at := Some now\<rparr>)) (master_keys_update (\<lambda>_. ks) (?k d))\<rparr>"
  have "fst (completion_records pf fr op_id now actor r k (approval_count (approvals_of d (kc_id r))) ?s) = Inr e"
    using taken by (simp add: run_request_def split_beta)
  from completion_records_taken [OF this, of ?s' k] ks obtain s2 where
    rec: "completion_records pf fr op_id now actor r k (approval_count (approvals_of d (kc_id r))) ?s' = (Inr e, s2)"
    by (auto simp: update_master_key_def ids_update_where)
  show "ends (complete_ceremony pf fr op_id now (kc_id r) actor) ?s (\<lambda>x s. \<exists>c. x = Inr c \<and> kc_master_key_id c = mk_id k)"
    unfolding complete_ceremony_records get_ceremony_def ceremony_key_def
    using rec retire r(2,3) k(2)
    by (simp add: ends_def svc_simps found row)
qed

text \<open>
  C6. Completing a ceremony revives a disabled key. Disabling a key leaves every ceremony and
  every approval as it was, and the completion does not look at the key: when a pending ceremony
  of the key had its quorum before the key was disabled, its completion afterwards succeeds
  whenever the database takes the operation and the audit entry it records, and makes the
  disabled key active, without a new approval.
\<close>

theorem ceremony_revives_disabled_key:
  assumes "hsm_inv d" and "run_request (disable_key pf fl fr op_id now now' i actor) d = (Inr out, d1)"
    and "r \<in> set (key_ceremonies d)" "kc_status r = CeremonyStatus.PENDING" "kc_master_key_id r = i"
      "quorum_met r (approvals_of d (kc_id r))" "k \<in> set (master_keys d)" "mk_id k = i"
    and "fst (run_request (completion_records pf' fr' op_id' now2 actor' r k (approval_count (approvals_of d (kc_id r)))) d1) = Inr e"
  shows "key_status (master_keys d1) i = Some MasterKeyStatus.DISABLED
    \<and> key_ceremonies d1 = key_ceremonies d \<and> key_custodian_approvals d1 = key_custodian_approvals d
    \<and> (\<exists>c d2. run_request (complete_ceremony pf' fr' op_id' now2 (kc_id r) actor') d1 = (Inr c, d2)
          \<and> kc_status c = CeremonyStatus.COMPLETE \<and> key_status (master_keys d2) i = Some MasterKeyStatus.ACTIVE)"
proof -
  let ?f = "\<lambda>x. x\<lparr>mk_status := MasterKeyStatus.DISABLED, mk_retired_at := Some now, mk_throughput_ops := 0\<rparr>"
  have t1: "hsm_tables d1 = (update_where (\<lambda>x. mk_id x = i) ?f (master_keys d), key_ceremonies d, key_custodian_approvals d)"
    using ends_run [OF assms(2) disable_key_ends [OF assms(1)]] unfolding sum.case by blast
  then have d1: "master_keys d1 = update_where (\<lambda>x. mk_id x = i) ?f (master_keys d)" "key_ceremonies d1 = key_ceremonies d"
    "key_custodian_approvals d1 = key_custodian_approvals d" by (simp_all add: hsm_tables_def)
  have st1: "key_status (master_keys d1) i = Some MasterKeyStatus.DISABLED"
  proof -
    have "i \<in> mk_id ` set (master_keys d)" using assms(7,8) by auto
    then have "key_status (master_keys d1) = (key_status (master_keys d))(i \<mapsto> MasterKeyStatus.DISABLED)"
      unfolding d1 by (intro key_status_update) simp_all
    then show ?thesis by simp
  qed
  have inv1: "hsm_inv d1" using publishes_run [OF disable_key_ok [OF assms(1)] assms(2)] assms(1) by auto
  have k1: "?f k \<in> set (master_keys d1)" using assms(7,8) by (auto simp: d1 update_where_def)
  have taken: "fst (run_request (completion_records pf' fr' op_id' now2 actor' r (?f k) (approval_count (approvals_of d1 (kc_id r)))) d1) = Inr e"
    using assms(9) by (simp add: completion_records_def record_operation_def approvals_of_def d1)
  obtain c d2 where run: "run_request (complete_ceremony pf' fr' op_id' now2 (kc_id r) actor') d1 = (Inr c, d2)" "kc_master_key_id c = i"
    using completion_succeeds [OF inv1 _ _ _ k1 _ taken] assms(3-6,8) d1 by (auto simp: approvals_of_def)
  show ?thesis
    using completion_activates [OF inv1 run(1)] run d1 st1 by auto
qed

section \<open>Examples\<close>

definition demo_key :: "uuid \<Rightarrow> string \<Rightarrow> MasterKeyStatus \<Rightarrow> datetime option \<Rightarrow> MasterKey" where
  "demo_key i l st expires = \<lparr>mk_id = i, mk_key_label = l, mk_slot_id = None, mk_hsm_object_id = None, mk_algorithm = ''AES-256'',
     mk_status = st, mk_rotation_policy_days = 90, mk_activated_at = map_option (\<lambda>_. 0) expires, mk_expires_at = expires, mk_retired_at = None,
     mk_superseded_by_id = None, mk_wraps_dek_count = 12, mk_throughput_ops = 5, mk_created_at = 0\<rparr>"

definition demo_ceremony :: KeyCeremony where
  "demo_ceremony = \<lparr>kc_id = 80, kc_ceremony_ref = ''CER-1'', kc_master_key_id = 71, kc_predecessor_label = Some ''nexus-v5'',
     kc_required_approvals = 1, kc_status = CeremonyStatus.PENDING, kc_scheduled_at = None, kc_completed_at = None, kc_created_at = 0\<rparr>"

definition demo_approval :: KeyCustodianApproval where
  "demo_approval = \<lparr>kca_id = 90, kca_ceremony_id = 80, kca_custodian_email = ''admin@nexus'', kca_approved_at = Some 0\<rparr>"

text \<open>An active key that expires in twenty days, and a pending one whose ceremony has its quorum.\<close>

definition demo_keys :: "MasterKey list" where
  "demo_keys = [demo_key 70 ''nexus-v5'' MasterKeyStatus.ACTIVE (Some (timedelta_days 20)), demo_key 71 ''nexus-v6'' MasterKeyStatus.PENDING None]"

definition demo_hsm_db :: hsm_db where
  "demo_hsm_db = config_db.extend demo_config_db (hsm_db.fields [] demo_keys [demo_ceremony] [demo_approval] [] [] [] [] [])"

definition demo_fl :: hsm_floats where
  "demo_fl = floats.extend (demo_floats) (hsm_floats.fields (\<lambda>x y. x * y))"

lemma demo_hsm_tables:
  "master_keys demo_hsm_db = demo_keys" "key_ceremonies demo_hsm_db = [demo_ceremony]" "key_custodian_approvals demo_hsm_db = [demo_approval]"
  "security_operations demo_hsm_db = []" "hsm_slots demo_hsm_db = []" "audit_log_entries demo_hsm_db = []"
  by (simp_all add: demo_hsm_db_def hsm_db.defs config_db.defs demo_config_db_def demo_audit_db_def tenancy_db.defs audit_db.defs)

lemma demo_hsm_inv: "hsm_inv demo_hsm_db"
  by (simp add: hsm_inv_def hsm_tables_def hsm_ok_def keys_ok_def ceremonies_ok_def approvals_ok_def demo_hsm_tables demo_keys_def
      demo_key_def demo_ceremony_def demo_approval_def)


lemma demo_lookups:
  "scalar_one_or_none (filter (\<lambda>k. mk_id k = 70) (master_keys demo_hsm_db)) = Inr (Some (hd demo_keys))"
  "scalar_one_or_none (filter (\<lambda>k. mk_key_label k = ''nexus-v7'') (master_keys demo_hsm_db)) = Inr None"
  by (simp_all add: demo_hsm_tables demo_keys_def demo_key_def scalar_one_or_none_def)

lemma demo_hd: "mk_id (hd demo_keys) = 70" "mk_status (hd demo_keys) = MasterKeyStatus.ACTIVE" "mk_key_label (hd demo_keys) = ''nexus-v5''"
  "mk_wraps_dek_count (hd demo_keys) = 12"
  by (simp_all add: demo_keys_def demo_key_def)

lemma demo_log_empty: "get_tail d = None" if "audit_log_entries d = []" for d :: "'z audit_db_scheme"
  using that by (simp add: get_tail_def order_by_desc_def first_row_def)

lemma demo_rotate:
  "\<exists>out d'. run_request (rotate_key (demo_K (CHR 0x01)) demo_fl (demo_fresh 0) 72 100 0 0 0 70 ''admin@nexus'' (Some ''nexus-v7'')) demo_hsm_db = (Inr out, d')
     \<and> True"
proof (rule ends_success)
  let ?new = "successor_of 72 ''nexus-v7'' 0 0 (hd demo_keys)"
  have ins: "insert_master_key ?new demo_hsm_db = Inr (demo_hsm_db\<lparr>master_keys := demo_keys @ [?new]\<rparr>)"
    unfolding insert_master_key_Inr
    by (simp add: demo_hsm_tables successor_of_def demo_keys_def demo_key_def del: append.simps) code_simp
  show "ends (rotate_key (demo_K (CHR 0x01)) demo_fl (demo_fresh 0) 72 100 0 0 0 70 ''admin@nexus'' (Some ''nexus-v7''))
    \<lparr>committed = demo_hsm_db, working = demo_hsm_db\<rparr> (\<lambda>r s. \<exists>x. r = Inr x \<and> True)"
    unfolding rotate_key_def get_key_orm_def assert_label_available_def record_operation_def
    apply (simp only: bind_svc_assoc Let_def bind_if bind_option bind_svc_return bind_svc_raise)
    apply (rule ends_found, simp only: session.simps demo_lookups)
    apply (simp only: option.case demo_hd successor_label_def list.distinct if_False if_True insert_iff simp_thms)
    apply (rule ends_found, simp only: session.simps demo_lookups)
    apply (simp only: option.case demo_hd successor_label_def list.distinct if_False if_True insert_iff simp_thms)
    apply (rule ends_stored, simp only: session.simps ins)
    apply (simp only: ends_modify session.simps)
    apply (rule ends_stored, simp only: session.simps insert_security_operation_Inr)
    apply (intro conjI, code_simp, code_simp, code_simp)
    apply (simp add: update_master_key_def successor_of_def update_where_def)
    apply (simp add: update_master_key_def demo_hsm_tables)
    apply (rule refl)
    apply (rule ends_demo_append)
    apply (simp_all only: key_operation_entry_def AuditLogEntryCreate.simps session.simps demo_K_coercions)
    apply (code_simp, code_simp, code_simp, code_simp, code_simp)
    apply (simp_all add: update_master_key_def demo_hsm_tables demo_log_empty fits_opt_def)
    apply (simp add: ends_simps get_key_def get_key_orm_def update_where_def successor_of_def demo_keys_def demo_key_def scalar_one_or_none_def)
    done
qed

lemma demo_disable:
  obtains out d1 e p where "run_request (disable_key (demo_K (CHR 0x01)) demo_fl (demo_fresh 0) 100 0 0 71 ''admin@nexus'') demo_hsm_db = (Inr out, d1)"
    "master_keys d1 = [hd demo_keys, (last demo_keys)\<lparr>mk_status := MasterKeyStatus.DISABLED, mk_retired_at := Some 0, mk_throughput_ops := 0\<rparr>]"
    "key_ceremonies d1 = [demo_ceremony]" "key_custodian_approvals d1 = [demo_approval]"
    "audit_log_entries d1 = [e]" "ale_entry_hash e = ''01''" "ale_id e = 200" "security_operations d1 = [p]" "so_id p = 100"
proof -
  let ?P = "\<lambda>d1. master_keys d1 = [hd demo_keys, (last demo_keys)\<lparr>mk_status := MasterKeyStatus.DISABLED, mk_retired_at := Some 0, mk_throughput_ops := 0\<rparr>]
    \<and> key_ceremonies d1 = [demo_ceremony] \<and> key_custodian_approvals d1 = [demo_approval]
    \<and> (\<exists>e. audit_log_entries d1 = [e] \<and> ale_entry_hash e = ''01'' \<and> ale_id e = 200) \<and> (\<exists>p. security_operations d1 = [p] \<and> so_id p = 100)"
  have k: "scalar_one_or_none (filter (\<lambda>k. mk_id k = 71) (master_keys demo_hsm_db)) = Inr (Some (last demo_keys))"
    by (simp add: demo_hsm_tables demo_keys_def demo_key_def scalar_one_or_none_def)
  have last: "mk_status (last demo_keys) = MasterKeyStatus.PENDING" "mk_key_label (last demo_keys) = ''nexus-v6''" "mk_id (last demo_keys) = 71"
    by (simp_all add: demo_keys_def demo_key_def)
  have "ends (disable_key (demo_K (CHR 0x01)) demo_fl (demo_fresh 0) 100 0 0 71 ''admin@nexus'')
    \<lparr>committed = demo_hsm_db, working = demo_hsm_db\<rparr> (\<lambda>r s. \<exists>x. r = Inr x \<and> ?P (committed s))"
    unfolding disable_key_def get_key_orm_def record_operation_def
    apply (simp only: bind_svc_assoc Let_def bind_if bind_option bind_svc_return bind_svc_raise)
    apply (rule ends_found, simp only: session.simps k)
    apply (simp only: option.case last MasterKeyStatus.distinct if_False insert_iff empty_iff simp_thms ends_modify session.simps)
    apply (rule ends_stored, simp only: session.simps insert_security_operation_Inr)
    apply (intro conjI, code_simp, code_simp, code_simp)
    apply (simp add: update_master_key_def update_where_def last demo_hsm_tables, simp add: demo_keys_def demo_key_def)
    apply (simp add: update_master_key_def demo_hsm_tables)
    apply (rule refl)
    apply (rule ends_demo_append)
    apply (simp_all only: key_operation_entry_def AuditLogEntryCreate.simps session.simps demo_K_coercions)
    apply (code_simp, code_simp, code_simp, code_simp, code_simp)
    apply (simp_all add: update_master_key_def demo_hsm_tables demo_log_empty fits_opt_def)
    apply (simp add: ends_simps get_key_def get_key_orm_def update_where_def demo_keys_def demo_key_def scalar_one_or_none_def demo_fresh_def hexlify_digit demo_hsm_tables)
    done
  from ends_success [OF this] that show thesis by blast
qed

lemma demo_completion_records:
  assumes "master_keys d1 = [hd demo_keys, (last demo_keys)\<lparr>mk_status := st, mk_retired_at := t, mk_throughput_ops := u\<rparr>]"
    and "audit_log_entries d1 = [e]" "ale_entry_hash e = ''01''" "ale_id e = 200" "security_operations d1 = [p]" "so_id p = 100"
  shows "\<exists>e d2. run_request (completion_records (demo_K (CHR 0x02)) (demo_fresh 1) 101 0 ''admin@nexus'' demo_ceremony (last demo_keys) 1) d1
    = (Inr e, d2) \<and> True"
proof (rule ends_success)
  have ids: "mk_id (last demo_keys) = 71" "mk_key_label (last demo_keys) = ''nexus-v6''" by (simp_all add: demo_keys_def demo_key_def)
  have c: "kc_predecessor_label demo_ceremony = Some ''nexus-v5''" "kc_ceremony_ref demo_ceremony = ''CER-1''" by (simp_all add: demo_ceremony_def)
  have tail: "get_tail d = Some e" if "audit_log_entries d = [e]" for d :: "'z audit_db_scheme"
    using that by (simp add: get_tail_def order_by_desc_def first_row_def)
  have last: "append_entry_in_transaction P fr x = bind_svc (append_entry_in_transaction P fr x) return_svc"
    for P :: "'p audit_platform_scheme" and fr x
    by (rule ext) (simp add: bind_svc_def return_svc_def split: prod.split sum.split)
  show "ends (completion_records (demo_K (CHR 0x02)) (demo_fresh 1) 101 0 ''admin@nexus'' demo_ceremony (last demo_keys) 1)
    \<lparr>committed = d1, working = d1\<rparr> (\<lambda>r s. \<exists>x. r = Inr x \<and> True)"
    unfolding completion_records_def record_operation_def c option.case
    apply (subst last)
    apply (rule ends_stored, simp only: session.simps insert_security_operation_Inr)
    apply (intro conjI, code_simp, code_simp, code_simp)
    apply (simp add: assms ids)
    apply (simp add: assms)
    apply (rule refl)
    apply (rule ends_demo_append)
    apply (simp_all only: key_operation_entry_def AuditLogEntryCreate.simps session.simps demo_K_coercions)
    apply (code_simp, code_simp, code_simp, code_simp, code_simp)
    apply (simp_all add: assms fits_opt_def tail hexlify_digit demo_fresh_def fits_def ends_simps)
    done
qed

theorem ceremony_revives_disabled_key_witness:
  "\<exists>d1 d2 c. key_status (master_keys demo_hsm_db) 71 = Some MasterKeyStatus.PENDING
     \<and> key_status (master_keys d1) 71 = Some MasterKeyStatus.DISABLED \<and> key_status (master_keys d2) 71 = Some MasterKeyStatus.ACTIVE
     \<and> d1 = snd (run_request (disable_key (demo_K (CHR 0x01)) demo_fl (demo_fresh 0) 100 0 0 71 ''admin@nexus'') demo_hsm_db)
     \<and> run_request (complete_ceremony (demo_K (CHR 0x02)) (demo_fresh 1) 101 0 80 ''admin@nexus'') d1 = (Inr c, d2)"
proof (rule demo_disable)
  fix out d1 e p
  assume d1: "run_request (disable_key (demo_K (CHR 0x01)) demo_fl (demo_fresh 0) 100 0 0 71 ''admin@nexus'') demo_hsm_db = (Inr out, d1)"
    and rows: "master_keys d1 = [hd demo_keys, (last demo_keys)\<lparr>mk_status := MasterKeyStatus.DISABLED, mk_retired_at := Some 0, mk_throughput_ops := 0\<rparr>]"
    "audit_log_entries d1 = [e]" "ale_entry_hash e = ''01''" "ale_id e = 200" "security_operations d1 = [p]" "so_id p = 100"
  have c: "demo_ceremony \<in> set (key_ceremonies demo_hsm_db)" "kc_status demo_ceremony = CeremonyStatus.PENDING"
      "kc_master_key_id demo_ceremony = 71" "kc_id demo_ceremony = 80" and k: "last demo_keys \<in> set (master_keys demo_hsm_db)" "mk_id (last demo_keys) = 71"
    by (simp_all add: demo_hsm_tables) (simp_all add: demo_ceremony_def demo_keys_def demo_key_def)
  have n: "approval_count (approvals_of demo_hsm_db (kc_id demo_ceremony)) = 1"
    by (simp add: approvals_of_def demo_hsm_tables approval_count_def demo_approval_def demo_ceremony_def)
  have q: "quorum_met demo_ceremony (approvals_of demo_hsm_db (kc_id demo_ceremony))"
    unfolding quorum_met_def n by (simp add: demo_ceremony_def)
  obtain e2 where "fst (run_request (completion_records (demo_K (CHR 0x02)) (demo_fresh 1) 101 0 ''admin@nexus'' demo_ceremony (last demo_keys)
      (approval_count (approvals_of demo_hsm_db (kc_id demo_ceremony)))) d1) = Inr e2"
    unfolding n using demo_completion_records [OF rows] by (metis fst_conv)
  from ceremony_revives_disabled_key [OF demo_hsm_inv d1 c(1,2,3) q k this] d1
  obtain c2 d2 where "key_status (master_keys d1) 71 = Some MasterKeyStatus.DISABLED" "key_status (master_keys d2) 71 = Some MasterKeyStatus.ACTIVE"
    "run_request (complete_ceremony (demo_K (CHR 0x02)) (demo_fresh 1) 101 0 80 ''admin@nexus'') d1 = (Inr c2, d2)"
    unfolding c(4) by blast
  moreover have "key_status (master_keys demo_hsm_db) 71 = Some MasterKeyStatus.PENDING"
    by (simp add: demo_hsm_tables demo_keys_def demo_key_def key_status_def get_row_def)
  moreover have "d1 = snd (run_request (disable_key (demo_K (CHR 0x01)) demo_fl (demo_fresh 0) 100 0 0 71 ''admin@nexus'') demo_hsm_db)"
    using d1 by simp
  ultimately show ?thesis by blast
qed

text \<open>The witnesses of the other properties.\<close>

theorem rotation_hands_over_witness:
  "\<exists>out d'. run_request (rotate_key (demo_K (CHR 0x01)) demo_fl (demo_fresh 0) 72 100 0 0 0 70 ''admin@nexus'' (Some ''nexus-v7'')) demo_hsm_db = (Inr out, d')
     \<and> mkr_id out = 72 \<and> key_status (master_keys d') 70 = Some MasterKeyStatus.RETIRED \<and> key_status (master_keys d') 72 = Some MasterKeyStatus.ACTIVE"
proof -
  obtain out d' where r: "run_request (rotate_key (demo_K (CHR 0x01)) demo_fl (demo_fresh 0) 72 100 0 0 0 70 ''admin@nexus'' (Some ''nexus-v7''))
      demo_hsm_db = (Inr out, d')" using demo_rotate by blast
  with rotation_hands_over [OF demo_hsm_inv r] show ?thesis by auto
qed

definition demo_rotated :: hsm_db where
  "demo_rotated = snd (run_request (rotate_key (demo_K (CHR 0x01)) demo_fl (demo_fresh 0) 72 100 0 0 0 70 ''admin@nexus'' (Some ''nexus-v7'')) demo_hsm_db)"

lemma demo_rotated_step: "hsm_step (demo_K (CHR 0x01)) demo_hsm_db demo_rotated"
  unfolding demo_rotated_def by (rule step_rotate)

lemma demo_rotated_new: "successor_of 72 ''nexus-v7'' 0 0 (hd demo_keys) \<in> set (master_keys demo_rotated)"
proof -
  obtain out d' where r: "run_request (rotate_key (demo_K (CHR 0x01)) demo_fl (demo_fresh 0) 72 100 0 0 0 70 ''admin@nexus'' (Some ''nexus-v7''))
      demo_hsm_db = (Inr out, d')" using demo_rotate by blast
  then obtain k where k: "k \<in> set demo_keys" "mk_id k = 70"
    and ks: "master_keys d' = rotated_keys 0 70 72 (demo_keys @ [successor_of 72 (successor_label (Some ''nexus-v7'') k) 0 0 k])"
    using ends_run [OF r rotate_key_ends [OF demo_hsm_inv]] unfolding sum.case demo_hsm_tables by blast
  have "k = hd demo_keys" using k by (auto simp: demo_keys_def demo_key_def)
  then show ?thesis
    using ks r by (simp add: demo_rotated_def rotated_keys_def update_where_def successor_label_def) (simp add: successor_of_def)
qed

theorem hsm_requests_refine_the_machine_witness:
  "hsm_inv demo_rotated \<and> machine_step (machine_of (hsm_tables demo_hsm_db)) (machine_of (hsm_tables demo_rotated))"
proof -
  have "hsm_inv demo_rotated" using hsm_requests_refine_the_machine [OF demo_rotated_step demo_hsm_inv] by (rule conjunct1)
  then have "key_status (master_keys demo_rotated) 72 \<noteq> None" using demo_rotated_new unfolding key_status_None by (force simp: successor_of_def)
  moreover have "key_status (master_keys demo_hsm_db) 72 = None"
    unfolding key_status_None by (simp add: demo_hsm_tables demo_keys_def demo_key_def)
  ultimately have "machine_of (hsm_tables demo_rotated) \<noteq> machine_of (hsm_tables demo_hsm_db)"
    by (metis hsm_tables_def km_keys_machine)
  then show ?thesis using hsm_requests_refine_the_machine [OF demo_rotated_step demo_hsm_inv] by blast
qed

theorem activation_needs_a_quorum_witness:
  "\<exists>p' \<in> set (master_keys demo_rotated). mk_id p' \<in> {70, 71} \<and> mk_status p' = MasterKeyStatus.RETIRED"
proof -
  let ?k = "successor_of 72 ''nexus-v7'' 0 0 (hd demo_keys)"
  have k: "mk_status ?k = MasterKeyStatus.ACTIVE" "mk_id ?k = 72" by (simp_all add: successor_of_def)
  have old: "\<forall>x \<in> set (master_keys demo_hsm_db). mk_id x = mk_id ?k \<longrightarrow> mk_status x \<noteq> MasterKeyStatus.ACTIVE"
    unfolding k(2) by (simp add: demo_hsm_tables demo_keys_def demo_key_def)
  have "\<forall>c \<in> set (key_ceremonies demo_hsm_db). kc_master_key_id c \<noteq> 72" by (simp add: demo_hsm_tables demo_ceremony_def)
  with activation_needs_a_quorum [OF demo_rotated_step demo_hsm_inv demo_rotated_new k(1) old]
  obtain q q' where "q \<in> set (master_keys demo_hsm_db)" "q' \<in> set (master_keys demo_rotated)" "mk_id q' = mk_id q" "mk_status q' = MasterKeyStatus.RETIRED"
    unfolding k(2) by blast
  then show ?thesis by (auto simp: demo_hsm_tables demo_keys_def demo_key_def)
qed

theorem succession_terminates_witness:
  "\<exists>j. latest_key (master_keys demo_rotated) 70 = Some j \<and> (\<forall>k \<in> set (master_keys demo_rotated). mk_id k = j \<longrightarrow> mk_superseded_by_id k = None)"
  by (rule succession_terminates [OF r_into_rtranclp [where r = "hsm_step (demo_K (CHR 0x01))", OF demo_rotated_step] demo_hsm_inv])
     (simp add: demo_hsm_tables demo_keys_def demo_key_def)

theorem summary_misses_expiring_keys_witness:
  "\<exists>d summary reads. (hsm_step (demo_K (CHR 0x01)))\<^sup>*\<^sup>* demo_hsm_db d
     \<and> fst (run_request (get_security_summary demo_fl 0 MODULE_SERIAL) d) = Inr summary \<and> fst (run_request (list_keys demo_fl 0 None) d) = Inr reads
     \<and> ssm_expiring_keys summary = 0 \<and> (\<exists>r \<in> set reads. mkr_effective_status r = ''expiring'')"
proof (rule demo_disable)
  fix out d e p
  assume run: "run_request (disable_key (demo_K (CHR 0x01)) demo_fl (demo_fresh 0) 100 0 0 71 ''admin@nexus'') demo_hsm_db = (Inr out, d)"
    and keys: "master_keys d = [hd demo_keys, (last demo_keys)\<lparr>mk_status := MasterKeyStatus.DISABLED, mk_retired_at := Some 0, mk_throughput_ops := 0\<rparr>]"
  have "hsm_step (demo_K (CHR 0x01)) demo_hsm_db d" using step_disable [of "demo_K (CHR 0x01)" demo_hsm_db demo_fl "demo_fresh 0" 100 0 0 71 "''admin@nexus''"] run by simp
  then have steps: "(hsm_step (demo_K (CHR 0x01)))\<^sup>*\<^sup>* demo_hsm_db d" by (rule r_into_rtranclp)
  have "\<forall>k \<in> set (master_keys demo_hsm_db). mk_status k \<noteq> MasterKeyStatus.EXPIRING" by (simp add: demo_hsm_tables demo_keys_def demo_key_def)
  from summary_misses_expiring_keys [OF steps demo_hsm_inv this, of demo_fl 0 MODULE_SERIAL]
  obtain summary reads where "fst (run_request (get_security_summary demo_fl 0 MODULE_SERIAL) d) = Inr summary"
      and r: "fst (run_request (list_keys demo_fl 0 None) d) = Inr reads" and "ssm_expiring_keys summary = 0" by blast
  moreover have "master_key_to_read demo_fl d (hd demo_keys) 0 \<in> set reads"
    using r by (auto simp: list_keys_def svc_simps keys order_by_desc_def)
  moreover have "mkr_effective_status (master_key_to_read demo_fl d (hd demo_keys) 0) = ''expiring''"
    by (simp add: master_key_to_read_def demo_keys_def demo_key_def) code_simp
  ultimately show ?thesis using steps by blast
qed

end
