(* ===== verification/AnomalyProps.thy ===== *)
theory AnomalyProps
  imports Anomaly HsmProps
begin

text \<open>
  What the anomaly component promises: the history it reconstructs from the audit log is the life
  cycle of the event, a bulk update is all or nothing, a status change keeps the time at which an
  event was resolved unless it is reopened, and how a client can forge a history.
\<close>

section \<open>The history as a life cycle\<close>

text \<open>
  \<open>lifecycle s hs t\<close>: the entries lead from the status \<open>s\<close> to the status \<open>t\<close>, each one starting
  where the one before ended; \<open>None\<close> is the status of an event that does not exist.
\<close>

fun lifecycle :: "string option \<Rightarrow> AnomalyHistoryEntry list \<Rightarrow> string option \<Rightarrow> bool" where
  "lifecycle s [] t \<longleftrightarrow> s = t"
| "lifecycle s (h # hs) t \<longleftrightarrow> ahe_previous_status h = s \<and> lifecycle (ahe_new_status h) hs t"

definition event_status :: "'z anomaly_db_scheme \<Rightarrow> uuid \<Rightarrow> string option" where
  "event_status d i = map_option (\<lambda>e. AnomalyStatus_value (ae_status e)) (get_row ae_id i (anomaly_events d))"

definition history_inv :: "'p platform_scheme \<Rightarrow> 'z anomaly_db_scheme \<Rightarrow> bool" where
  "history_inv pf d \<longleftrightarrow> log_sorted d \<and> distinct (map ae_id (anomaly_events d))
     \<and> (\<forall>i. \<exists>hs. map_e history_entry (history_rows pf i d) = Inr hs \<and> lifecycle None hs (event_status d i))"

text \<open>What is assumed of the platform: identifiers print injectively, and the column takes the value.\<close>

definition history_law :: "'p audit_platform_scheme \<Rightarrow> bool" where
  "history_law pf \<longleftrightarrow> inj (uuid_text pf) \<and> coerce_event_type pf ''anomaly_detected'' = Some AuditEventType.ANOMALY_DETECTED"

lemma lifecycle_snoc: "lifecycle s (hs @ [h]) t \<longleftrightarrow> lifecycle s hs (ahe_previous_status h) \<and> ahe_new_status h = t"
  by (induction hs arbitrary: s) auto

lemma map_e_append: "map_e f xs = Inr ys \<Longrightarrow> map_e f zs = Inr ws \<Longrightarrow> map_e f (xs @ zs) = Inr (ys @ ws)"
  by (induction xs arbitrary: ys) (auto split: sum.splits)

lemma history_rows_sorted:
  "log_sorted d \<Longrightarrow> history_rows pf i d = filter (\<lambda>row. ale_event_type row = AuditEventType.ANOMALY_DETECTED
     \<and> json_field_text (ale_metadata_json row) ''anomaly_id'' = Some (uuid_text pf i)) (audit_log_entries d)"
  by (simp add: history_rows_def filter_sort [symmetric] sort_log)

lemma history_rows_logged:
  assumes "log_sorted d" and "logged pf fr p e d d'"
  shows "history_rows pf i d' = history_rows pf i d @ filter (\<lambda>row. ale_event_type row = AuditEventType.ANOMALY_DETECTED
      \<and> json_field_text (ale_metadata_json row) ''anomaly_id'' = Some (uuid_text pf i)) [e]"
    and "log_sorted d'"
proof -
  note e = logged_entry [OF assms(2)]
  show s: "log_sorted d'"
    using assms(1) e(1,7) by (auto simp: log_sorted_def sorted_wrt_append intro: less_le_trans less_trans)
  show "history_rows pf i d' = history_rows pf i d @ filter (\<lambda>row. ale_event_type row = AuditEventType.ANOMALY_DETECTED
      \<and> json_field_text (ale_metadata_json row) ''anomaly_id'' = Some (uuid_text pf i)) [e]"
    by (simp add: history_rows_sorted assms(1) s) (simp add: e(1))
qed

lemma audit_metadata_fields:
  "json_field_text (sanitize_metadata (audit_metadata pf fl ev previous)) ''anomaly_id'' = Some (uuid_text pf (ae_id ev))"
  "metadata_text (sanitize_metadata (audit_metadata pf fl ev previous)) ''previous_status'' = Inr (map_option AnomalyStatus_value previous)"
  "metadata_text (sanitize_metadata (audit_metadata pf fl ev previous)) ''status'' = Inr (Some (AnomalyStatus_value (ae_status ev)))"
proof -
  have "\<not> sensitive_key k" if "k \<in> {''anomaly_id'', ''category'', ''severity'', ''status'', ''score'', ''metadata_json'', ''previous_status''}" for k
    using that by (elim insertE emptyE; simp) code_simp+
  then show "json_field_text (sanitize_metadata (audit_metadata pf fl ev previous)) ''anomaly_id'' = Some (uuid_text pf (ae_id ev))"
    "metadata_text (sanitize_metadata (audit_metadata pf fl ev previous)) ''previous_status'' = Inr (map_option AnomalyStatus_value previous)"
    "metadata_text (sanitize_metadata (audit_metadata pf fl ev previous)) ''status'' = Inr (Some (AnomalyStatus_value (ae_status ev)))"
    by (simp_all add: audit_metadata_def json_field_text_def metadata_text_def split: option.split)
qed

text \<open>An entry about another event type, or about nothing, leaves every history alone.\<close>

lemma history_other_entry:
  assumes "history_inv pf d" and "logged pf fr p e d d'" and "anomaly_events d' = anomaly_events d"
    and "coerce_event_type pf (alc_event_type p) \<noteq> Some AuditEventType.ANOMALY_DETECTED"
  shows "history_inv pf d'"
proof -
  have s: "log_sorted d" using assms(1) by (simp add: history_inv_def)
  have "ale_event_type e \<noteq> AuditEventType.ANOMALY_DETECTED" using logged_entry(6) [OF assms(2)] assms(4) by auto
  then have "history_rows pf i d' = history_rows pf i d" for i using history_rows_logged(1) [OF s assms(2)] by simp
  then show ?thesis using assms(1,3) history_rows_logged(2) [OF s assms(2)] by (simp add: history_inv_def event_status_def)
qed

text \<open>An entry of the component records the change of the row that goes with it.\<close>

lemma history_own_entry:
  fixes d d1 d' :: "'z anomaly_db_scheme"
  assumes law: "history_law pf" and inv: "history_inv pf d" and log: "logged pf fr p e d1 d'"
    and same: "audit_log_entries d1 = audit_log_entries d" "audit_next d1 = audit_next d"
    and rows: "distinct (map ae_id (anomaly_events d1))" "\<And>i. event_status d1 i = ((event_status d)(ae_id ev := Some (AnomalyStatus_value (ae_status ev)))) i"
    and p: "alc_event_type p = ''anomaly_detected''" "alc_metadata_json p = audit_metadata pf fl ev previous"
    and previous: "event_status d (ae_id ev) = map_option AnomalyStatus_value previous"
  shows "history_inv pf d'"
proof -
  note e = logged_entry [OF log]
  have s: "log_sorted d1" using inv same by (simp add: history_inv_def log_sorted_def)
  have type: "ale_event_type e = AuditEventType.ANOMALY_DETECTED" using e(6) law p by (simp add: history_law_def)
  have meta: "ale_metadata_json e = sanitize_metadata (audit_metadata pf fl ev previous)" using e(5) p by simp
  have hit: "uuid_text pf (ae_id ev) = uuid_text pf i \<longleftrightarrow> i = ae_id ev" for i using law by (auto simp: history_law_def dest: injD)
  have rows': "history_rows pf i d' = history_rows pf i d @ (if i = ae_id ev then [e] else [])" for i
    using history_rows_logged(1) [OF s log, of i] same by (simp add: type meta audit_metadata_fields hit history_rows_def)
  have status: "event_status d' i = (if i = ae_id ev then Some (AnomalyStatus_value (ae_status ev)) else event_status d i)" for i
    using rows(2) [of i] e(1) by (simp add: event_status_def)
  obtain h where h: "history_entry e = Inr h" "ahe_previous_status h = map_option AnomalyStatus_value previous"
      "ahe_new_status h = Some (AnomalyStatus_value (ae_status ev))"
    by (simp add: history_entry_def meta audit_metadata_fields)
  have "\<exists>hs. map_e history_entry (history_rows pf i d') = Inr hs \<and> lifecycle None hs (event_status d' i)" for i
  proof -
    obtain hs where hs: "map_e history_entry (history_rows pf i d) = Inr hs" "lifecycle None hs (event_status d i)"
      using inv by (auto simp: history_inv_def)
    show ?thesis
    proof (cases "i = ae_id ev")
      case True
      have "map_e history_entry [e] = Inr [h]" using h by simp
      from map_e_append [OF hs(1) this] True hs(2) h previous show ?thesis
        by (intro exI [of _ "hs @ [h]"]) (simp add: rows' status lifecycle_snoc)
    qed (use hs in \<open>simp add: rows' status\<close>)
  qed
  then show ?thesis using history_rows_logged(2) [OF s log] rows(1) e(1) by (simp add: history_inv_def)
qed

section \<open>Outcomes of the requests\<close>

text \<open>What a change of status does to the rows, up to the time of the row's last update.\<close>

definition forget :: "AnomalyEvent \<Rightarrow> AnomalyEvent" where
  "forget e = e\<lparr>ae_updated_at := 0\<rparr>"

definition move_to :: "datetime \<Rightarrow> AnomalyStatus \<Rightarrow> uuid set \<Rightarrow> AnomalyEvent \<Rightarrow> AnomalyEvent" where
  "move_to now st ids e = (if ae_id e \<in> ids then with_status now st e else e)"

definition transitioned ::
  "'p platform_scheme \<Rightarrow> datetime \<Rightarrow> AnomalyStatus \<Rightarrow> uuid set \<Rightarrow> 'z anomaly_db_scheme \<Rightarrow> 'z anomaly_db_scheme \<Rightarrow> bool" where
  "transitioned pf now st ids d d' \<longleftrightarrow> history_inv pf d'
     \<and> map forget (anomaly_events d') = map (\<lambda>e. forget (move_to now st ids e)) (anomaly_events d)
     \<and> (\<exists>es. audit_log_entries d' = audit_log_entries d @ es \<and> length es = length (filter (\<lambda>e. ae_id e \<in> ids) (anomaly_events d)))"

lemma forget_simps [simp]:
  "ae_id (forget e) = ae_id e" "ae_status (forget e) = ae_status e" "ae_resolved_at (forget e) = ae_resolved_at e"
  "ae_id (with_status now st e) = ae_id e" "ae_status (with_status now st e) = st"
  "ae_id (move_to now st ids e) = ae_id e"
  by (simp_all add: forget_def with_status_def move_to_def)

lemma forget_move: "forget (move_to now st ids e) = move_to now st ids (forget e)"
  by (simp add: forget_def move_to_def with_status_def)

lemma move_twice: "move_to now st ids (move_to now st jds e) = move_to now st (ids \<union> jds) e"
  by (simp add: move_to_def with_status_def)

lemma forget_flushed: "forget (flushed_event u old (with_status now st old)) = forget (with_status now st old)"
  by (simp add: flushed_event_def forget_def)

lemma map_id_forget:
  fixes g :: "AnomalyEvent \<Rightarrow> AnomalyEvent"
  assumes "map forget es = map g es'" and "\<And>e. ae_id (g e) = ae_id e"
  shows "map ae_id es = map ae_id es'"
proof -
  have "map ae_id es = map ae_id (map forget es)" by simp
  also have "\<dots> = map ae_id (map g es')" by (simp only: assms(1))
  finally show ?thesis using assms(2) by simp
qed

lemma transitioned_ids:
  assumes "transitioned pf now st ids d d'"
  shows "map ae_id (anomaly_events d') = map ae_id (anomaly_events d)"
  by (rule map_id_forget [of _ "\<lambda>e. forget (move_to now st ids e)"]) (use assms in \<open>simp_all add: transitioned_def\<close>)

lemma filter_length_map:
  assumes "map k xs = map k ys"
  shows "length (filter (\<lambda>x. k x \<in> A) xs) = length (filter (\<lambda>y. k y \<in> A) ys)"
proof -
  have count: "length (filter (\<lambda>z. k z \<in> A) zs) = length (filter (\<lambda>i. i \<in> A) (map k zs))" for zs
    by (simp add: filter_map comp_def)
  show ?thesis unfolding count assms ..
qed

lemma transitioned_trans:
  assumes "transitioned pf now st jds d d1" and "transitioned pf now st ids d1 d2" and "ids \<inter> jds = {}"
  shows "transitioned pf now st (ids \<union> jds) d d2"
proof -
  have "map forget (anomaly_events d2) = map (move_to now st ids) (map forget (anomaly_events d1))"
    using assms(2) by (simp add: transitioned_def forget_move)
  also have "\<dots> = map (move_to now st ids) (map (move_to now st jds) (map forget (anomaly_events d)))"
    using assms(1) by (simp add: transitioned_def forget_move)
  finally have "map forget (anomaly_events d2) = map (\<lambda>e. forget (move_to now st (ids \<union> jds) e)) (anomaly_events d)"
    by (simp add: move_twice forget_move)
  moreover have "length (filter (\<lambda>e. ae_id e \<in> ids \<union> jds) es) = length (filter (\<lambda>e. ae_id e \<in> jds) es) + length (filter (\<lambda>e. ae_id e \<in> ids) es)" for es :: "AnomalyEvent list"
    using assms(3) by (induction es) auto
  moreover obtain es es' where "audit_log_entries d1 = audit_log_entries d @ es" "audit_log_entries d2 = audit_log_entries d1 @ es'"
    "length es = length (filter (\<lambda>e. ae_id e \<in> jds) (anomaly_events d))"
    "length es' = length (filter (\<lambda>e. ae_id e \<in> ids) (anomaly_events d1))"
    using assms(1,2) by (auto simp: transitioned_def)
  moreover have "length (filter (\<lambda>e. ae_id e \<in> ids) (anomaly_events d1)) = length (filter (\<lambda>e. ae_id e \<in> ids) (anomaly_events d))"
    by (rule filter_length_map [OF transitioned_ids [OF assms(1)]])
  ultimately have "audit_log_entries d2 = audit_log_entries d @ es @ es' \<and> length (es @ es') = length (filter (\<lambda>e. ae_id e \<in> ids \<union> jds) (anomaly_events d))"
    by (simp only: length_append append_assoc)
  with \<open>map forget (anomaly_events d2) = map (\<lambda>e. forget (move_to now st (ids \<union> jds) e)) (anomaly_events d)\<close> assms(2)
  show ?thesis unfolding transitioned_def by blast
qed

lemma transitioned_none: "history_inv pf d \<Longrightarrow> transitioned pf now st {} d d"
  by (simp add: transitioned_def move_to_def)

lemma ends_transition:
  fixes s :: "'z anomaly_db_scheme session"
  assumes law: "history_law pf" and inv: "history_inv pf (working s)" and event: "event \<in> set (anomaly_events (working s))"
    and err: "\<And>e s'. committed s' = committed s \<Longrightarrow> Q (Inl e) s'"
    and ok: "\<And>new d'. transitioned pf now st {ae_id event} (working s) d' \<Longrightarrow> forget new = forget (with_status now st event) \<Longrightarrow>
      (\<forall>e \<in> set (anomaly_events (working s)). ae_id e \<noteq> ae_id event \<longrightarrow> e \<in> set (anomaly_events d')) \<Longrightarrow>
      new = flushed_event updated event (with_status now st event)
        \<and> anomaly_events d' = map (\<lambda>x. if ae_id x = ae_id event then new else x) (anomaly_events (working s)) \<Longrightarrow>
      ends (f new) (s\<lparr>working := d'\<rparr>) Q"
  shows "ends (bind_svc (transition pf fl fr now updated st actor event) f) s Q"
  unfolding transition_def append_anomaly_audit_def
proof (simp only: ends_simps, rule ends_append)
  let ?d = "working s"
  let ?new = "flushed_event updated event (with_status now st event)"
  let ?d1 = "anomaly_events_update (update_where (\<lambda>e. ae_id e = ae_id event) (\<lambda>_. ?new)) ?d"
  show "Q (Inl e) s'" if "committed s' = committed (s\<lparr>working := ?d1\<rparr>)" for e s' using err that by simp
  fix e d'
  assume log: "logged pf fr \<lparr>alc_severity = ''info'', alc_event_type = ''anomaly_detected'', alc_event_subtype = ''ANOMALY_STATUS_UPDATED'',
      alc_actor = audit_actor actor (ae_actor event), alc_description = ''Anomaly status updated: '' @ AnomalyStatus_value (ae_status event)
        @ '' -> '' @ AnomalyStatus_value st, alc_tenant_id = ae_tenant_id ?new, alc_tenant_slug = None, alc_source_ip = ae_source_ip ?new,
      alc_metadata_json = audit_metadata pf fl ?new (Some (ae_status event))\<rparr> e (working (s\<lparr>working := ?d1\<rparr>)) d'"
  have new: "ae_id ?new = ae_id event" "ae_status ?new = st" using forget_simps(5) [of now st event] by (simp_all add: flushed_event_def del: forget_simps(5)) metis
  have dist: "distinct (map ae_id (anomaly_events ?d))" using inv by (simp add: history_inv_def)
  have row: "get_row ae_id (ae_id event) (anomaly_events ?d) = Some event" by (rule get_row_unique [OF dist event])
  have same: "ae_id x = ae_id event \<longleftrightarrow> x = event" if "x \<in> set (anomaly_events ?d)" for x
    using that event dist by (auto simp: distinct_map dest: inj_onD)
  have events: "anomaly_events ?d1 = map (\<lambda>x. if ae_id x = ae_id event then ?new else x) (anomaly_events ?d)" by (simp add: update_where_def)
  have ids: "map ae_id (anomaly_events ?d1) = map ae_id (anomaly_events ?d)" by (simp add: events new)
  have look: "get_row ae_id i (anomaly_events ?d1) = (if i = ae_id event then Some ?new else get_row ae_id i (anomaly_events ?d))" for i
  proof -
    have "get_row ae_id i (map (\<lambda>x. if ae_id x = ae_id event then ?new else x) es)
        = (if i = ae_id event \<and> i \<in> ae_id ` set es then Some ?new else get_row ae_id i es)" for es
      by (induction es) (auto simp: get_row_def new)
    then show ?thesis using event by (auto simp: events)
  qed
  have "event_status ?d1 i = ((event_status ?d)(ae_id ?new := Some (AnomalyStatus_value (ae_status ?new)))) i" for i
    by (simp only: event_status_def look new(1) fun_upd_def) simp
  moreover have "distinct (map ae_id (anomaly_events ?d1))" unfolding ids by (rule dist)
  moreover have "event_status ?d (ae_id ?new) = map_option AnomalyStatus_value (Some (ae_status event))"
    by (simp add: event_status_def new row)
  ultimately have "history_inv pf d'"
    using history_own_entry [OF law inv log [unfolded session.simps], where fl = fl and ev = ?new and previous = "Some (ae_status event)"]
    by simp
  moreover have d': "anomaly_events d' = anomaly_events ?d1" "audit_log_entries d' = audit_log_entries ?d @ [e]"
    using logged_entry(1) [OF log] by simp_all
  moreover have "map forget (anomaly_events ?d1) = map (\<lambda>e. forget (move_to now st {ae_id event} e)) (anomaly_events ?d)"
    unfolding events using same by (auto simp: move_to_def forget_flushed)
  moreover have "filter (\<lambda>e. ae_id e \<in> {ae_id event}) (anomaly_events ?d) = [event]"
    using filter_eq_singleton [OF dist event] by simp
  ultimately have "transitioned pf now st {ae_id event} ?d d'" by (simp add: transitioned_def)
  moreover have "\<forall>e \<in> set (anomaly_events ?d). ae_id e \<noteq> ae_id event \<longrightarrow> e \<in> set (anomaly_events d')"
    unfolding d'(1) events by auto
  moreover have "?new = flushed_event updated event (with_status now st event)
      \<and> anomaly_events d' = map (\<lambda>x. if ae_id x = ae_id event then ?new else x) (anomaly_events ?d)"
    unfolding d'(1) events by simp
  ultimately have "ends (f ?new) (s\<lparr>working := d'\<rparr>) Q" by (rule ok [OF _ forget_flushed])
  then show "ends (f ?new) (s\<lparr>working := ?d1, working := d'\<rparr>) Q" by simp
qed

lemma transitioned_cong:
  assumes "\<And>e. e \<in> set (anomaly_events d) \<Longrightarrow> ae_id e \<in> ids \<longleftrightarrow> ae_id e \<in> jds"
  shows "transitioned pf now st ids d d' \<longleftrightarrow> transitioned pf now st jds d d'"
proof -
  have "map (\<lambda>e. forget (move_to now st ids e)) (anomaly_events d) = map (\<lambda>e. forget (move_to now st jds e)) (anomaly_events d)"
    by (rule map_cong [OF refl]) (simp add: move_to_def assms)
  moreover have "filter (\<lambda>e. ae_id e \<in> ids) (anomaly_events d) = filter (\<lambda>e. ae_id e \<in> jds) (anomaly_events d)"
    by (rule filter_cong [OF refl]) (simp add: assms)
  ultimately show ?thesis by (simp only: transitioned_def)
qed

lemma ends_transitions:
  fixes s :: "'z anomaly_db_scheme session"
  assumes "history_law pf" and "history_inv pf (working s)" and "set events \<subseteq> set (anomaly_events (working s))" and "distinct (map ae_id events)"
    and "\<And>e s'. committed s' = committed s \<Longrightarrow> Q (Inl e) s'"
    and "\<And>d'. transitioned pf now st (ae_id ` set events) (working s) d' \<Longrightarrow> ends (f ()) (s\<lparr>working := d'\<rparr>) Q"
  shows "ends (bind_svc (transitions pf fl frs now updated st actor n events) f) s Q"
  using assms
proof (induction events arbitrary: s n)
  case Nil
  from Nil.prems(6) [of "working s"] Nil.prems(2) show ?case by (simp add: ends_simps transitioned_none)
next
  case (Cons event events)
  have event: "event \<in> set (anomaly_events (working s))" using Cons.prems(3) by simp
  show ?case unfolding transitions.simps bind_svc_assoc
  proof (rule ends_transition [OF Cons.prems(1,2) event])
    show "Q (Inl e) s'" if "committed s' = committed s" for e s' using Cons.prems(5) that .
  next
    fix new d'
    assume t: "transitioned pf now st {ae_id event} (working s) d'"
      and rest: "\<forall>e \<in> set (anomaly_events (working s)). ae_id e \<noteq> ae_id event \<longrightarrow> e \<in> set (anomaly_events d')"
    show "ends (bind_svc (transitions pf fl frs now updated st actor (Suc n) events) f) (s\<lparr>working := d'\<rparr>) Q"
    proof (rule Cons.IH [OF Cons.prems(1)])
      show "history_inv pf (working (s\<lparr>working := d'\<rparr>))" using t by (simp add: transitioned_def)
      show "set events \<subseteq> set (anomaly_events (working (s\<lparr>working := d'\<rparr>)))"
      proof
        fix x assume x: "x \<in> set events"
        then have "ae_id x \<noteq> ae_id event" using Cons.prems(4) by (metis distinct.simps(2) image_eqI list.simps(9) set_map)
        then show "x \<in> set (anomaly_events (working (s\<lparr>working := d'\<rparr>)))" using x rest Cons.prems(3) by auto
      qed
      show "distinct (map ae_id events)" using Cons.prems(4) by simp
      show "Q (Inl e) s'" if "committed s' = committed (s\<lparr>working := d'\<rparr>)" for e s' using Cons.prems(5) that by simp
      fix d2 assume "transitioned pf now st (ae_id ` set events) (working (s\<lparr>working := d'\<rparr>)) d2"
      then have "transitioned pf now st (ae_id ` set events \<union> {ae_id event}) (working s) d2"
        using Cons.prems(4) by (intro transitioned_trans [OF t]) auto
      then show "ends (f ()) (s\<lparr>working := d'\<rparr>\<lparr>working := d2\<rparr>) Q" using Cons.prems(6) [of d2] by simp
    qed
  qed
qed

lemma create_anomaly_ends:
  fixes d :: "'z anomaly_db_scheme"
  assumes law: "history_law pf" and inv: "history_inv pf d"
  shows "ends (create_anomaly_event pf fl fr i now created p actor) \<lparr>committed = d, working = d\<rparr>
    (\<lambda>r s. case r of Inl _ \<Rightarrow> committed s = d
       | Inr ev \<Rightarrow> ev = new_event i now created p \<and> i \<notin> ae_id ` set (anomaly_events d) \<and> history_inv pf (committed s)
           \<and> anomaly_events (committed s) = anomaly_events d @ [ev])"
  unfolding create_anomaly_event_def append_anomaly_audit_def
  apply (simp only: ends_simps)
  apply (intro allI impI conjI ends_intros)
    apply (simp_all only: sum.case session.simps ends_simps)
   apply simp
  subgoal premises prem for d1 e d2
  proof -
    let ?ev = "new_event i now created p"
    have d1: "d1 = d\<lparr>anomaly_events := anomaly_events d @ [?ev]\<rparr>" and new: "i \<notin> ae_id ` set (anomaly_events d)"
      using prem(1) by (auto simp: insert_anomaly_event_def insert_row_def new_event_def split: if_splits)
    have "get_row ae_id j (anomaly_events d @ [?ev]) = (if j = i then Some ?ev else get_row ae_id j (anomaly_events d))" for j
    proof -
      have "ae_id ?ev = i" by (simp add: new_event_def)
      then show ?thesis using new by (auto simp: get_row_snoc get_row_None [symmetric] split: option.splits dest!: get_row_Some)
    qed
    then have "event_status d1 j = ((event_status d)(ae_id ?ev := Some (AnomalyStatus_value (ae_status ?ev)))) j" for j
      by (simp add: event_status_def d1) (simp add: new_event_def)
    moreover have "distinct (map ae_id (anomaly_events d1))" using inv new by (simp add: history_inv_def d1) (simp add: new_event_def)
    moreover have "event_status d (ae_id ?ev) = map_option AnomalyStatus_value None"
      using new by (simp add: event_status_def new_event_def get_row_None)
    ultimately have "history_inv pf d2"
      using history_own_entry [OF law inv prem(2), where fl = fl and ev = ?ev and previous = None] by (simp add: d1)
    then show ?thesis using new logged_entry(1) [OF prem(2)] by (simp add: d1)
  qed
  done

lemma update_anomaly_ends:
  fixes d :: "'z anomaly_db_scheme"
  assumes law: "history_law pf" and inv: "history_inv pf d"
  shows "ends (update_anomaly_status pf fl fr now updated i st actor) \<lparr>committed = d, working = d\<rparr>
    (\<lambda>r s. case r of Inl _ \<Rightarrow> committed s = d
       | Inr None \<Rightarrow> committed s = d \<and> i \<notin> ae_id ` set (anomaly_events d)
       | Inr (Some ev) \<Rightarrow> transitioned pf now st {i} d (committed s)
           \<and> (\<exists>old \<in> set (anomaly_events d). ae_id old = i \<and> ev = flushed_event updated old (with_status now st old)
             \<and> anomaly_events (committed s) = map (\<lambda>x. if ae_id x = i then ev else x) (anomaly_events d)))"
  unfolding update_anomaly_status_def
  apply (simp only: ends_simps)
  apply (intro conjI allI impI)
   apply (simp add: get_row_None)
  subgoal premises prem for event
  proof -
    have event: "event \<in> set (anomaly_events d)" "ae_id event = i" using get_row_Some prem by force+
    show ?thesis
      by (rule ends_transition [OF law])
         (use inv event in \<open>auto simp: ends_simps\<close>)
  qed
  done

text \<open>The errors of an append come from the database or the codecs, never from a check of a service.\<close>

lemma append_error_kind:
  "append_entry_in_transaction pf fr p s = (Inl e, s') \<Longrightarrow> e \<noteq> HTTPException n detail"
  by (auto simp: append_entry_in_transaction_def svc_simps Let_def build_entry_def insert_entry_def insert_row_def
      split: option.splits prod.splits if_splits sum.splits)

lemma ends_append_errors:
  assumes "\<And>e s'. (\<forall>n detail. e \<noteq> HTTPException n detail) \<Longrightarrow> Q (Inl e) s'" and "\<And>e s'. ends (f e) s' Q"
  shows "ends (bind_svc (append_entry_in_transaction pf fr p) f) s Q"
proof (cases "append_entry_in_transaction pf fr p s")
  case (Pair r s')
  then show ?thesis
    using assms append_error_kind [of pf fr p s] by (cases r) (auto simp: ends_def bind_svc_def)
qed

lemma update_anomaly_errors:
  "ends (update_anomaly_status pf fl fr now updated i st actor) s (\<lambda>r s'. \<forall>n detail. r \<noteq> Inl (HTTPException n detail))"
  unfolding update_anomaly_status_def transition_def append_anomaly_audit_def
  by (simp only: ends_simps) (auto intro!: ends_append_errors simp: ends_simps)

lemma update_anomaly_missing:
  "i \<notin> ae_id ` set (anomaly_events d) \<Longrightarrow> run_request (update_anomaly_status pf fl fr now updated i st actor) d = (Inr None, d)"
  by (simp add: update_anomaly_status_def svc_simps get_row_None [THEN iffD2])

text \<open>The endpoint of a change answers 404 exactly for an event that does not exist.\<close>

lemma status_endpoint_404:
  assumes "history_law pf" and "history_inv pf d" and "fst (run_request (get_current_user pf cfg t cred) d) = Inr u"
  shows "fst (run_request (bind_svc (get_current_user pf cfg t cred)
      (\<lambda>u. bind_svc (update_anomaly_status pf fl fr now updated i st (Some (u_email u))) updated_or_404)) d)
      = Inl (HTTPException 404 ''Anomaly not found'') \<longleftrightarrow> i \<notin> ae_id ` set (anomaly_events d)"
proof -
  let ?m = "update_anomaly_status pf fl fr now updated i st (Some (u_email u))" and ?s = "\<lparr>committed = d, working = d\<rparr>"
  have guard: "get_current_user pf cfg t cred ?s = (Inr u, ?s)" using assms(3) by (simp only: current_user_run)
  have run: "fst (run_request (bind_svc (get_current_user pf cfg t cred)
      (\<lambda>u. bind_svc (update_anomaly_status pf fl fr now updated i st (Some (u_email u))) updated_or_404)) d)
      = fst (bind_svc ?m updated_or_404 ?s)"
    by (simp add: run_request_def bind_svc_def guard split: prod.split sum.split)
  obtain r s where m: "?m ?s = (r, s)" by force
  have "\<forall>n detail. r \<noteq> Inl (HTTPException n detail)"
    using update_anomaly_errors [of pf fl fr now updated i st "Some (u_email u)" ?s] by (simp add: ends_def m)
  moreover have "r = Inr None \<longleftrightarrow> i \<notin> ae_id ` set (anomaly_events d)"
    using update_anomaly_ends [OF assms(1,2), of fl fr now updated i st "Some (u_email u)"]
      update_anomaly_missing [of i d pf fl fr now updated st "Some (u_email u)"]
    by (auto simp: ends_def m run_request_def)
  ultimately show ?thesis
    unfolding run by (cases r) (auto simp: bind_svc_def m updated_or_404_def raise_svc_def return_svc_def split: option.splits)
qed

lemma bulk_anomaly_ends:
  fixes d :: "'z anomaly_db_scheme"
  assumes law: "history_law pf" and inv: "history_inv pf d"
  shows "ends (bulk_update_anomaly_status pf fl frs now updated ids st actor) \<lparr>committed = d, working = d\<rparr>
    (\<lambda>r s. case r of Inl _ \<Rightarrow> committed s = d
       | Inr out \<Rightarrow> transitioned pf now st (set ids) d (committed s)
           \<and> bsr_new_status out = AnomalyStatus_value st \<and> bsr_requested out = card (set ids)
           \<and> bsr_updated out = card (set ids \<inter> ae_id ` set (anomaly_events d))
           \<and> bsr_updated_ids out = filter (\<lambda>i. i \<in> ae_id ` set (anomaly_events d)) (dict_fromkeys ids)
           \<and> bsr_not_found_ids out = filter (\<lambda>i. i \<notin> ae_id ` set (anomaly_events d)) (dict_fromkeys ids))"
proof -
  let ?events = "filter (\<lambda>e. ae_id e \<in> set (dict_fromkeys ids)) (anomaly_events d)"
  have found: "i \<in> ae_id ` set ?events \<longleftrightarrow> i \<in> ae_id ` set (anomaly_events d)" if "i \<in> set (dict_fromkeys ids)" for i
    using that by auto
  have filters: "filter (\<lambda>i. i \<in> ae_id ` set ?events) (dict_fromkeys ids) = filter (\<lambda>i. i \<in> ae_id ` set (anomaly_events d)) (dict_fromkeys ids)"
    "filter (\<lambda>i. i \<notin> ae_id ` set ?events) (dict_fromkeys ids) = filter (\<lambda>i. i \<notin> ae_id ` set (anomaly_events d)) (dict_fromkeys ids)"
    by (rule filter_cong [OF refl], simp only: found)+
  have counts: "length (dict_fromkeys ids) = card (set ids)"
    "length (filter (\<lambda>i. i \<in> ae_id ` set (anomaly_events d)) (dict_fromkeys ids)) = card (set ids \<inter> ae_id ` set (anomaly_events d))"
    using distinct_card [OF distinct_dict_fromkeys [of ids]]
      distinct_card [OF distinct_filter [OF distinct_dict_fromkeys [of ids]], of "\<lambda>i. i \<in> ae_id ` set (anomaly_events d)"]
    by (simp_all add: Int_def)
  have dist: "distinct (map ae_id ?events)" using inv by (simp add: history_inv_def distinct_map_filter)
  show ?thesis
    unfolding bulk_update_anomaly_status_def
    apply (simp only: ends_simps session.simps)
    apply (rule ends_transitions [OF law])
        apply (simp_all add: inv dist del: set_filter set_dict_fromkeys)
    apply (simp only: ends_simps sum.case session.simps filters counts BulkStatusResponse.simps simp_thms)
    apply (subst transitioned_cong [where jds = "ae_id ` set ?events"])
     apply auto
    done
qed

section \<open>The properties\<close>

text \<open>The requests that write anomalies, and any audit entry of another type.\<close>

inductive anomaly_step :: "'p audit_platform_scheme \<Rightarrow> 'z anomaly_db_scheme \<Rightarrow> 'z anomaly_db_scheme \<Rightarrow> bool"
  for pf :: "'p audit_platform_scheme" where
  step_ingest: "anomaly_step pf d (snd (run_request (create_anomaly_event pf (fl :: anomaly_floats) fr i now created p actor) d))"
| step_status: "anomaly_step pf d (snd (run_request (update_anomaly_status pf (fl :: anomaly_floats) fr now updated i st actor) d))"
| step_bulk: "anomaly_step pf d (snd (run_request (bulk_update_anomaly_status pf (fl :: anomaly_floats) frs now updates ids st actor) d))"
| step_entry: "coerce_event_type pf (alc_event_type p) \<noteq> Some AuditEventType.ANOMALY_DETECTED \<Longrightarrow>
    anomaly_step pf d (snd (run_request (append_entry pf fr p) d))"

lemma anomaly_step_inv:
  assumes "history_law pf" and "anomaly_step pf d d'" and "history_inv pf d"
  shows "history_inv pf d'"
  using assms(2)
proof cases
  case (step_ingest fl fr i now created p actor)
  show ?thesis unfolding step_ingest
    by (rule ends_snd, rule ends_mono [OF create_anomaly_ends [OF assms(1,3)]]) (auto simp: assms(3) split: sum.splits)
next
  case (step_status fl fr now updated i st actor)
  show ?thesis unfolding step_status
    by (rule ends_snd, rule ends_mono [OF update_anomaly_ends [OF assms(1,3)]])
       (auto simp: assms(3) transitioned_def split: sum.splits option.splits)
next
  case (step_bulk fl frs now updates ids st actor)
  show ?thesis unfolding step_bulk
    by (rule ends_snd, rule ends_mono [OF bulk_anomaly_ends [OF assms(1,3)]]) (auto simp: assms(3) transitioned_def split: sum.splits)
next
  case (step_entry p fr)
  show ?thesis unfolding step_entry append_entry_def
  proof (rule ends_snd, rule ends_append)
    show "history_inv pf (committed s')" if "committed s' = committed \<lparr>committed = d, working = d\<rparr>" for s' using that assms(3) by simp
    fix e d2 assume log: "logged pf fr p e (working \<lparr>committed = d, working = d\<rparr>) d2"
    have "history_inv pf d2"
      by (rule history_other_entry [OF assms(3) log [unfolded session.simps] _ step_entry(2)]) (use logged_entry(1) [OF log] in simp)
    then show "ends (bind_svc commit (\<lambda>_. return_svc e)) (\<lparr>committed = d, working = d\<rparr>\<lparr>working := d2\<rparr>) (\<lambda>r s. history_inv pf (committed s))"
      by (simp add: ends_simps)
  qed
qed

lemma anomaly_steps_inv: "(anomaly_step pf)\<^sup>*\<^sup>* d d' \<Longrightarrow> history_law pf \<Longrightarrow> history_inv pf d \<Longrightarrow> history_inv pf d'"
  by (induction rule: rtranclp_induct) (auto intro: anomaly_step_inv)

lemma history_run:
  assumes "history_inv pf d" and "get_row ae_id i (anomaly_events d) = Some e"
  obtains hs where "fst (run_request (get_anomaly_history pf i) d) = Inr hs" "map_e history_entry (history_rows pf i d) = Inr hs"
    "lifecycle None hs (event_status d i)"
  using assms by (auto simp: history_inv_def get_anomaly_history_def get_anomaly_event_def svc_simps)

text \<open>
  C9. After any sequence of requests that ingest an anomaly, change the status of one or of many,
  or append audit entries of other types, the history of an event as reconstructed from the audit log
  is its life cycle: it starts from no status, each entry starts at the status the entry before ended in,
  and the last one ends in the status of the row.
\<close>

theorem history_is_the_life_cycle:
  assumes "history_law pf" and "history_inv pf d0" and "(anomaly_step pf)\<^sup>*\<^sup>* d0 d" and "e \<in> set (anomaly_events d)"
  shows "\<exists>hs. fst (run_request (get_anomaly_history pf (ae_id e)) d) = Inr hs \<and> hs \<noteq> []
    \<and> lifecycle None hs (Some (AnomalyStatus_value (ae_status e)))"
proof -
  have inv: "history_inv pf d" by (rule anomaly_steps_inv [OF assms(3,1,2)])
  then have row: "get_row ae_id (ae_id e) (anomaly_events d) = Some e"
    using assms(4) by (auto simp: history_inv_def intro: get_row_unique)
  obtain hs where "fst (run_request (get_anomaly_history pf (ae_id e)) d) = Inr hs" "lifecycle None hs (event_status d (ae_id e))"
    by (rule history_run [OF inv row])
  with row show ?thesis by (cases hs) (auto simp: event_status_def)
qed

text \<open>
  C11. Changing the status of one event. For an event that does not exist the service finds nothing and changes
  nothing, and each of the four endpoints (acknowledge, resolve, dismiss, reopen), called by an authenticated user,
  answers 404 exactly then. For an event that exists an error, which is one of the audit entry and never an
  HTTPException, changes nothing, and otherwise the row takes the new status, the time of resolution is set when the
  event is resolved, cleared when it is reopened, and left as it was otherwise (an event that is dismissed or taken up
  again after its resolution keeps the time of it), the time of the update is set if anything changed, every other
  row is left as it was, and one audit entry is added.
\<close>

theorem status_update_correct:
  assumes "history_law pf" and "history_inv pf d"
    and "run_request (update_anomaly_status pf fl fr now updated i st actor) d = (r, d')"
    and "fst (run_request (get_current_user pf cfg t cred) d) = Inr u"
  shows "(i \<notin> ae_id ` set (anomaly_events d) \<longrightarrow> r = Inr None \<and> d' = d)
    \<and> (i \<in> ae_id ` set (anomaly_events d) \<longrightarrow> (case r of
        Inl e \<Rightarrow> d' = d \<and> (\<forall>n detail. e \<noteq> HTTPException n detail)
      | Inr None \<Rightarrow> False
      | Inr (Some ev) \<Rightarrow> (\<exists>old \<in> set (anomaly_events d). ae_id old = i
          \<and> (let new = old\<lparr>ae_status := st, ae_resolved_at :=
                (if st = AnomalyStatus.RESOLVED then Some now else if st = AnomalyStatus.OPEN then None else ae_resolved_at old)\<rparr>
             in ev = (if new = old then old else new\<lparr>ae_updated_at := updated\<rparr>)))
          \<and> anomaly_events d' = map (\<lambda>x. if ae_id x = i then ev else x) (anomaly_events d)
          \<and> (\<exists>entry. audit_log_entries d' = audit_log_entries d @ [entry])))
    \<and> (\<forall>answer \<in> {acknowledge_anomaly_event pf fl cfg t cred fr now updated i, resolve_anomaly_event pf fl cfg t cred fr now updated i,
          dismiss_anomaly_event pf fl cfg t cred fr now updated i, reopen_anomaly_event pf fl cfg t cred fr now updated i}.
        fst (run_request answer d) = Inl (HTTPException 404 ''Anomaly not found'') \<longleftrightarrow> i \<notin> ae_id ` set (anomaly_events d))"
proof -
  have outcome: "case r of Inl _ \<Rightarrow> d' = d
       | Inr None \<Rightarrow> d' = d \<and> i \<notin> ae_id ` set (anomaly_events d)
       | Inr (Some ev) \<Rightarrow> transitioned pf now st {i} d d'
           \<and> (\<exists>old \<in> set (anomaly_events d). ae_id old = i \<and> ev = flushed_event updated old (with_status now st old)
             \<and> anomaly_events d' = map (\<lambda>x. if ae_id x = i then ev else x) (anomaly_events d))"
    by (rule ends_run [OF assms(3) update_anomaly_ends [OF assms(1,2)]])
  have kind: "\<forall>n detail. r \<noteq> Inl (HTTPException n detail)"
    by (rule ends_run [OF assms(3) update_anomaly_errors])
  have one: "\<exists>entry. audit_log_entries d' = audit_log_entries d @ [entry]"
    if t: "transitioned pf now st {i} d d'" and old: "old \<in> set (anomaly_events d)" "ae_id old = i" for old
  proof -
    have "distinct (map ae_id (anomaly_events d))" using assms(2) by (simp add: history_inv_def)
    then have "filter (\<lambda>e. ae_id e \<in> {i}) (anomaly_events d) = [old]"
      using filter_eq_singleton [of ae_id "anomaly_events d" old] old by simp
    then obtain es where "audit_log_entries d' = audit_log_entries d @ es" "length es = 1" using t by (auto simp: transitioned_def)
    then show ?thesis by (metis One_nat_def length_0_conv length_Suc_conv)
  qed
  have found: "case r of
        Inl e \<Rightarrow> d' = d \<and> (\<forall>n detail. e \<noteq> HTTPException n detail)
      | Inr None \<Rightarrow> False
      | Inr (Some ev) \<Rightarrow> (\<exists>old \<in> set (anomaly_events d). ae_id old = i
          \<and> (let new = old\<lparr>ae_status := st, ae_resolved_at :=
                (if st = AnomalyStatus.RESOLVED then Some now else if st = AnomalyStatus.OPEN then None else ae_resolved_at old)\<rparr>
             in ev = (if new = old then old else new\<lparr>ae_updated_at := updated\<rparr>)))
          \<and> anomaly_events d' = map (\<lambda>x. if ae_id x = i then ev else x) (anomaly_events d)
          \<and> (\<exists>entry. audit_log_entries d' = audit_log_entries d @ [entry])"
    if "i \<in> ae_id ` set (anomaly_events d)"
    using outcome kind one that unfolding flushed_event_def with_status_def Let_def
    by (cases r) (auto split: option.splits)
  have missing: "i \<notin> ae_id ` set (anomaly_events d) \<longrightarrow> r = Inr None \<and> d' = d"
    using update_anomaly_missing [of i d pf fl fr now updated st actor] assms(3) by simp
  show ?thesis
    unfolding acknowledge_anomaly_event_def resolve_anomaly_event_def dismiss_anomaly_event_def reopen_anomaly_event_def
      ball_simps
    by (intro conjI missing impI found TrueI status_endpoint_404 [OF assms(1,2,4)])
qed

text \<open>
  C10. A bulk change of status is all or nothing, and answers for every identifier once: an error changes nothing;
  otherwise every event among the identifiers has the new status, no other row changes, there is one audit entry
  for each event, and the identifiers are split into those updated and those not found.
\<close>

theorem bulk_update_all_or_nothing:
  assumes "history_law pf" and "history_inv pf d"
    and "run_request (bulk_update_anomaly_status pf fl frs now updated ids st actor) d = (r, d')"
  shows "case r of
      Inl _ \<Rightarrow> d' = d
    | Inr out \<Rightarrow>
        map forget (anomaly_events d') = map (\<lambda>e. forget (if ae_id e \<in> set ids then with_status now st e else e)) (anomaly_events d)
        \<and> length (audit_log_entries d') = length (audit_log_entries d) + bsr_updated out
        \<and> set (bsr_updated_ids out) = set ids \<inter> ae_id ` set (anomaly_events d)
        \<and> set (bsr_not_found_ids out) = set ids - ae_id ` set (anomaly_events d)
        \<and> distinct (bsr_updated_ids out @ bsr_not_found_ids out) \<and> bsr_updated out = length (bsr_updated_ids out)
        \<and> bsr_requested out = length (bsr_updated_ids out @ bsr_not_found_ids out)"
proof -
  have "case r of Inl _ \<Rightarrow> d' = d
       | Inr out \<Rightarrow> transitioned pf now st (set ids) d d'
           \<and> bsr_new_status out = AnomalyStatus_value st \<and> bsr_requested out = card (set ids)
           \<and> bsr_updated out = card (set ids \<inter> ae_id ` set (anomaly_events d))
           \<and> bsr_updated_ids out = filter (\<lambda>i. i \<in> ae_id ` set (anomaly_events d)) (dict_fromkeys ids)
           \<and> bsr_not_found_ids out = filter (\<lambda>i. i \<notin> ae_id ` set (anomaly_events d)) (dict_fromkeys ids)"
    by (rule ends_run [OF assms(3) bulk_anomaly_ends [OF assms(1,2)]])
  moreover have "?thesis" if r: "r = Inr out" and t: "transitioned pf now st (set ids) d d'"
    and n: "bsr_requested out = card (set ids)" "bsr_updated out = card (set ids \<inter> ae_id ` set (anomaly_events d))"
    and l: "bsr_updated_ids out = filter (\<lambda>i. i \<in> ae_id ` set (anomaly_events d)) (dict_fromkeys ids)"
      "bsr_not_found_ids out = filter (\<lambda>i. i \<notin> ae_id ` set (anomaly_events d)) (dict_fromkeys ids)" for out
  proof -
    let ?hit = "filter (\<lambda>e. ae_id e \<in> set ids) (anomaly_events d)"
    have dist: "distinct (map ae_id ?hit)" using assms(2) by (simp add: history_inv_def distinct_map_filter)
    have "card (set ids \<inter> ae_id ` set (anomaly_events d)) = card (set (map ae_id ?hit))" by (rule arg_cong [of _ _ card]) auto
    then have "bsr_updated out = length ?hit" using distinct_card [OF dist] n by simp
    moreover have "distinct (bsr_updated_ids out @ bsr_not_found_ids out)" unfolding l by (auto simp: distinct_dict_fromkeys)
    moreover have "set (bsr_updated_ids out) = set ids \<inter> ae_id ` set (anomaly_events d)"
      "set (bsr_not_found_ids out) = set ids - ae_id ` set (anomaly_events d)" unfolding l by auto
    moreover have "length (bsr_updated_ids out @ bsr_not_found_ids out) = length (dict_fromkeys ids)"
      unfolding l length_append by (rule sum_length_filter_compl)
    moreover have "length (dict_fromkeys ids) = card (set ids)" using distinct_card [OF distinct_dict_fromkeys [of ids]] by simp
    moreover have "bsr_updated out = length (bsr_updated_ids out)"
      using n(2) distinct_card [of "bsr_updated_ids out"] calculation(2,3) by simp
    ultimately show ?thesis using t n unfolding r sum.case by (auto simp: transitioned_def move_to_def)
  qed
  ultimately show ?thesis by (cases r) auto
qed

text \<open>The entry that forges a history.\<close>

definition forged_entry :: "'p platform_scheme \<Rightarrow> uuid \<Rightarrow> string \<Rightarrow> AuditLogEntryCreate" where
  "forged_entry pf i claimed =
     \<lparr>alc_severity = ''info'', alc_event_type = ''anomaly_detected'', alc_event_subtype = ''ANOMALY_STATUS_UPDATED'', alc_actor = ''admin@nexus'',
      alc_description = ''Anomaly status updated'', alc_tenant_id = None, alc_tenant_slug = None, alc_source_ip = None,
      alc_metadata_json = JDict [(''anomaly_id'', JStr (uuid_text pf i)), (''status'', JStr claimed)]\<rparr>"

text \<open>
  C12. The history can be forged: the endpoint of the audit log takes the type and the metadata of an entry from any
  logged-in user, so an entry with the type of anomalies, the identifier of an event and any status becomes
  the last entry of that event's history, while the event keeps its status.
\<close>

theorem audit_endpoint_forges_history:
  assumes "history_law pf" and "history_inv pf d" and "e \<in> set (anomaly_events d)"
    and "run_request (create_audit_entry pf st now cred fr (forged_entry pf (ae_id e) claimed)) d = (Inr out, d')"
  shows "anomaly_events d' = anomaly_events d
    \<and> (\<exists>hs h. fst (run_request (get_anomaly_history pf (ae_id e)) d) = Inr hs
        \<and> fst (run_request (get_anomaly_history pf (ae_id e)) d') = Inr (hs @ [h]) \<and> ahe_new_status h = Some claimed)"
proof -
  let ?p = "forged_entry pf (ae_id e) claimed"
  have row: "get_row ae_id (ae_id e) (anomaly_events d) = Some e"
    using assms(2,3) by (auto simp: history_inv_def intro: get_row_unique)
  have actor: "(if alc_actor ?p = [] then ?p\<lparr>alc_actor := x\<rparr> else ?p) = ?p" for x by (simp add: forged_entry_def)
  have "ends (create_audit_entry pf st now cred fr ?p) \<lparr>committed = d, working = d\<rparr>
      (\<lambda>r s. case r of Inl _ \<Rightarrow> True | Inr _ \<Rightarrow> \<exists>x. logged pf fr ?p x d (committed s))"
    unfolding create_audit_entry_def append_entry_def Let_def actor
    by (rule ends_current_user; simp only: ends_simps sum.case; rule ends_append) (auto simp: ends_simps)
  from ends_run [OF assms(4) this] obtain x where x: "logged pf fr ?p x d d'" by auto
  note entry = logged_entry [OF x]
  have sorted: "log_sorted d" using assms(2) by (simp add: history_inv_def)
  have "\<not> sensitive_key ''anomaly_id''" "\<not> sensitive_key ''status''" by code_simp+
  then have meta: "ale_metadata_json x = JDict [(''anomaly_id'', JStr (uuid_text pf (ae_id e))), (''status'', JStr claimed)]"
    using entry(5) by (simp add: forged_entry_def)
  have "ale_event_type x = AuditEventType.ANOMALY_DETECTED" using entry(6) assms(1) by (simp add: forged_entry_def history_law_def)
  then have rows: "history_rows pf (ae_id e) d' = history_rows pf (ae_id e) d @ [x]"
    using history_rows_logged(1) [OF sorted x, of "ae_id e"] by (simp add: meta json_field_text_def)
  obtain h where h: "history_entry x = Inr h" "ahe_new_status h = Some claimed"
    by (simp add: history_entry_def meta metadata_text_def)
  obtain hs where hs: "fst (run_request (get_anomaly_history pf (ae_id e)) d) = Inr hs" "map_e history_entry (history_rows pf (ae_id e) d) = Inr hs"
    by (rule history_run [OF assms(2) row])
  have events: "anomaly_events d' = anomaly_events d" using entry(1) by simp
  have "map_e history_entry [x] = Inr [h]" using h by simp
  from map_e_append [OF hs(2) this] have "map_e history_entry (history_rows pf (ae_id e) d') = Inr (hs @ [h])" by (simp add: rows)
  then have "fst (run_request (get_anomaly_history pf (ae_id e)) d') = Inr (hs @ [h])"
    using row by (simp add: get_anomaly_history_def get_anomaly_event_def svc_simps events)
  with hs(1) h(2) events show ?thesis by blast
qed

section \<open>Examples\<close>

definition demo_afl :: anomaly_floats where
  "demo_afl = hsm_floats.extend demo_fl (anomaly_floats.fields (\<lambda>_. ''0.95'') (\<lambda>x y. x - y) (\<lambda>x. x))"

definition demo_anomaly_db :: anomaly_db where
  "demo_anomaly_db = hsm_db.extend demo_hsm_db (anomaly_db.fields [] [] [])"

definition demo_anomaly :: AnomalyEventCreate where
  "demo_anomaly = \<lparr>aec_category = ''login'', aec_score = 95 / 100, aec_title = ''Impossible travel'', aec_description = ''Two logins'',
     aec_actor = None, aec_source_ip = None, aec_tenant_id = None, aec_baseline_sigma = None, aec_metadata_json = []\<rparr>"

lemma demo_anomaly_tables:
  "anomaly_events demo_anomaly_db = []" "audit_log_entries demo_anomaly_db = []" "users demo_anomaly_db = users demo_auth_db"
  by (simp_all add: demo_anomaly_db_def demo_hsm_db_def hsm_db.defs config_db.defs demo_config_db_def demo_audit_db_def tenancy_db.defs
      audit_db.defs anomaly_db.defs demo_tenancy_db_def rbac_db.defs demo_rbac_db_def auth_db.defs)

lemma demo_history_law: "history_law (demo_K c)"
proof -
  have "coerce_event_type demo_audit_platform ''anomaly_detected'' = Some AuditEventType.ANOMALY_DETECTED" by code_simp
  moreover have "uuid_text (demo_K c) = show_nat"
    by (simp add: demo_K_def demo_with_def demo_audit_platform_def audit_platform.defs platform.defs demo_platform_def)
  moreover have "inj show_nat" by (rule inj_on_inverseI [of _ "read_nat 0"]) (simp add: read_show_nat)
  ultimately show ?thesis by (simp add: history_law_def demo_K_def demo_with_def)
qed

lemma demo_anomaly_inv: "history_inv (demo_K c) demo_anomaly_db"
  by (simp add: history_inv_def log_sorted_def history_rows_def event_status_def demo_anomaly_tables get_row_def)

abbreviation demo_ingest :: "(anomaly_db, AnomalyEvent) svc" where
  "demo_ingest \<equiv> create_anomaly_event (demo_K (CHR 0x01)) demo_afl (demo_fresh 0) 300 10 10 demo_anomaly (Some ''op@nexus'')"

lemma demo_ingest_run:
  "\<exists>ev d1. run_request demo_ingest demo_anomaly_db = (Inr ev, d1)
     \<and> (\<exists>e. audit_log_entries d1 = [e] \<and> ale_entry_hash e = ''01'' \<and> ale_id e = 200) \<and> users d1 = users demo_auth_db"
proof (rule ends_success)
  let ?ev = "new_event 300 10 10 demo_anomaly"
  have ins: "insert_anomaly_event ?ev demo_anomaly_db = Inr (demo_anomaly_db\<lparr>anomaly_events := [?ev]\<rparr>)"
    by (simp add: insert_anomaly_event_def insert_row_def demo_anomaly_tables) code_simp
  show "ends demo_ingest \<lparr>committed = demo_anomaly_db, working = demo_anomaly_db\<rparr> (\<lambda>r s. \<exists>x. r = Inr x
      \<and> (\<exists>e. audit_log_entries (committed s) = [e] \<and> ale_entry_hash e = ''01'' \<and> ale_id e = 200) \<and> users (committed s) = users demo_auth_db)"
    unfolding create_anomaly_event_def append_anomaly_audit_def
    apply (simp only: Let_def ends_except)
    apply (rule ends_stored, simp only: session.simps ins)
    apply (rule ends_demo_append)
    apply (simp_all only: AuditLogEntryCreate.simps session.simps demo_K_coercions)
    apply (rule demo_history_law [unfolded history_law_def, THEN conjunct2])
    apply (code_simp, code_simp, code_simp, code_simp, code_simp, simp add: new_event_def demo_anomaly_def, simp add: new_event_def demo_anomaly_def)
    apply (simp_all add: demo_anomaly_tables demo_log_empty fits_opt_def ends_simps hexlify_digit demo_fresh_def)
    done
qed

definition demo_stored :: anomaly_db where
  "demo_stored = snd (run_request demo_ingest demo_anomaly_db)"

lemma demo_stored:
  "history_inv (demo_K c) demo_stored" "anomaly_events demo_stored = [new_event 300 10 10 demo_anomaly]" "users demo_stored = users demo_auth_db"
  "\<exists>e. audit_log_entries demo_stored = [e] \<and> ale_entry_hash e = ''01'' \<and> ale_id e = 200"
  "anomaly_step (demo_K (CHR 0x01)) demo_anomaly_db demo_stored"
proof -
  obtain ev d1 where r: "run_request demo_ingest demo_anomaly_db = (Inr ev, d1)" "users d1 = users demo_auth_db"
    "\<exists>e. audit_log_entries d1 = [e] \<and> ale_entry_hash e = ''01'' \<and> ale_id e = 200" using demo_ingest_run by blast
  have d1: "demo_stored = d1" by (simp add: demo_stored_def r)
  from ends_run [OF r(1) create_anomaly_ends [OF demo_history_law demo_anomaly_inv]]
  have "history_inv (demo_K (CHR 0x01)) d1" "anomaly_events d1 = [new_event 300 10 10 demo_anomaly]"
    by (simp_all add: demo_anomaly_tables)
  then show "anomaly_events demo_stored = [new_event 300 10 10 demo_anomaly]" "users demo_stored = users demo_auth_db"
    "\<exists>e. audit_log_entries demo_stored = [e] \<and> ale_entry_hash e = ''01'' \<and> ale_id e = 200"
    using r by (simp_all add: d1)
  have "uuid_text (demo_K c) = uuid_text (demo_K (CHR 0x01))" by (simp add: demo_K_def demo_with_def)
  then show "history_inv (demo_K c) demo_stored"
    using \<open>history_inv (demo_K (CHR 0x01)) d1\<close> by (simp add: d1 history_inv_def history_rows_def)
  show "anomaly_step (demo_K (CHR 0x01)) demo_anomaly_db demo_stored" unfolding demo_stored_def by (rule step_ingest)
qed

theorem history_is_the_life_cycle_witness:
  "\<exists>hs. fst (run_request (get_anomaly_history (demo_K (CHR 0x01)) 300) demo_stored) = Inr hs \<and> hs \<noteq> [] \<and> lifecycle None hs (Some ''open'')"
  using history_is_the_life_cycle [OF demo_history_law demo_anomaly_inv r_into_rtranclp [where r = "anomaly_step (demo_K (CHR 0x01))", OF demo_stored(5)], of "new_event 300 10 10 demo_anomaly"]
  by (simp add: demo_stored(2)) (simp add: new_event_def)

abbreviation demo_resolve :: "(anomaly_db, AnomalyEvent option) svc" where
  "demo_resolve \<equiv> update_anomaly_status (demo_K (CHR 0x02)) demo_afl (demo_fresh 1) 20 20 300 AnomalyStatus.RESOLVED (Some ''op@nexus'')"

lemma demo_resolve_run: "\<exists>ev d2. run_request demo_resolve demo_stored = (Inr (Some ev), d2) \<and> True"
proof -
  obtain e where e: "audit_log_entries demo_stored = [e]" "ale_entry_hash e = ''01''" "ale_id e = 200" using demo_stored(4) by blast
  have tail: "get_tail d = Some e" if "audit_log_entries d = [e]" for d :: "'z audit_db_scheme"
    using that by (simp add: get_tail_def order_by_desc_def first_row_def)
  have row: "get_row ae_id 300 (anomaly_events demo_stored) = Some (new_event 300 10 10 demo_anomaly)"
    by (simp add: demo_stored(2) get_row_def new_event_def)
  have "\<exists>r d2. run_request demo_resolve demo_stored = (Inr r, d2) \<and> (\<exists>ev. r = Some ev)"
  proof (rule ends_success)
    show "ends demo_resolve \<lparr>committed = demo_stored, working = demo_stored\<rparr> (\<lambda>r s. \<exists>x. r = Inr x \<and> (\<exists>ev. x = Some ev))"
      unfolding update_anomaly_status_def transition_def append_anomaly_audit_def
      apply (simp only: Let_def ends_except ends_query session.simps row option.case bind_svc_assoc ends_modify)
      apply (rule ends_demo_append)
      apply (simp_all only: AuditLogEntryCreate.simps session.simps demo_K_coercions)
      apply (rule demo_history_law [unfolded history_law_def, THEN conjunct2])
      apply (code_simp, code_simp, code_simp, code_simp, code_simp, code_simp, code_simp)
      apply (simp_all add: e tail fits_opt_def ends_simps hexlify_digit demo_fresh_def fits_def)
      done
  qed
  then show ?thesis by blast
qed

lemma demo_caller:
  "fst (run_request (get_current_user (demo_K (CHR 0x02)) demo_settings 0 (Some (create_access_token demo_platform demo_settings 0 0 ''2'' [])))
     demo_stored) = Inr (last (users demo_auth_db))"
proof -
  let ?cred = "Some (create_access_token demo_platform demo_settings 0 0 ''2'' [])"
  have "fst (get_current_user (demo_K (CHR 0x02)) demo_settings 0 ?cred
      \<lparr>committed = demo_auth_db, working = demo_auth_db\<rparr>) = Inr (last (users demo_auth_db))" by code_simp
  then have "fst (get_current_user (demo_K (CHR 0x02)) demo_settings 0 ?cred
      \<lparr>committed = demo_stored, working = demo_stored\<rparr>) = Inr (last (users demo_auth_db))"
    by (subst current_user_of_users [where s' = "\<lparr>committed = demo_auth_db, working = demo_auth_db\<rparr>"]) (simp_all add: demo_stored(3))
  then show ?thesis by (simp add: run_request_def split_beta)
qed

theorem status_update_correct_witness:
  "\<exists>ev d2. run_request demo_resolve demo_stored = (Inr (Some ev), d2) \<and> ae_status ev = AnomalyStatus.RESOLVED
     \<and> ae_resolved_at ev = Some 20 \<and> anomaly_events d2 = [ev]"
proof -
  obtain ev d2 where r: "run_request demo_resolve demo_stored = (Inr (Some ev), d2)" using demo_resolve_run by blast
  let ?e = "new_event 300 10 10 demo_anomaly"
  have e: "anomaly_events demo_stored = [?e]" "ae_id ?e = 300" "ae_status ?e = AnomalyStatus.OPEN"
    by (simp add: demo_stored(2)) (simp_all add: new_event_def)
  note c = status_update_correct [OF demo_history_law demo_stored(1) r demo_caller, THEN conjunct2, THEN conjunct1,
    unfolded sum.case option.case e(1)]
  then have ev: "\<exists>old \<in> set [?e]. ae_id old = 300
          \<and> (let new = old\<lparr>ae_status := AnomalyStatus.RESOLVED, ae_resolved_at :=
                (if AnomalyStatus.RESOLVED = AnomalyStatus.RESOLVED then Some 20
                 else if AnomalyStatus.RESOLVED = AnomalyStatus.OPEN then None else ae_resolved_at old)\<rparr>
             in ev = (if new = old then old else new\<lparr>ae_updated_at := 20\<rparr>))"
    and d2: "anomaly_events d2 = map (\<lambda>x. if ae_id x = 300 then ev else x) [?e]"
    using e(2) by (auto simp del: Let_def)
  from ev have "ae_status ev = AnomalyStatus.RESOLVED \<and> ae_resolved_at ev = Some 20"
    by (auto simp: Let_def new_event_def split: if_splits)
  with r d2 e(2) show ?thesis by simp
qed

abbreviation demo_bulk :: "(anomaly_db, BulkStatusResponse) svc" where
  "demo_bulk \<equiv> bulk_update_anomaly_status (demo_K (CHR 0x02)) demo_afl (\<lambda>n. demo_fresh (Suc n)) 20 (\<lambda>_. 20) [300, 301, 300] AnomalyStatus.DISMISSED (Some ''op@nexus'')"

lemma demo_bulk_run: "\<exists>out d2. run_request demo_bulk demo_stored = (Inr out, d2) \<and> True"
proof (rule ends_success)
  obtain e where e: "audit_log_entries demo_stored = [e]" "ale_entry_hash e = ''01''" "ale_id e = 200" using demo_stored(4) by blast
  have tail: "get_tail d = Some e" if "audit_log_entries d = [e]" for d :: "'z audit_db_scheme"
    using that by (simp add: get_tail_def order_by_desc_def first_row_def)
  have hits: "filter (\<lambda>e. ae_id e \<in> set (dict_fromkeys [300, 301, 300])) (anomaly_events demo_stored) = [new_event 300 10 10 demo_anomaly]"
    by (simp add: demo_stored(2) new_event_def)
  show "ends demo_bulk \<lparr>committed = demo_stored, working = demo_stored\<rparr> (\<lambda>r s. \<exists>x. r = Inr x \<and> True)"
    unfolding bulk_update_anomaly_status_def
    apply (simp only: Let_def ends_except_bind ends_query session.simps hits transitions.simps transition_def append_anomaly_audit_def bind_svc_assoc ends_modify)
    apply (rule ends_demo_append)
    apply (simp_all only: AuditLogEntryCreate.simps session.simps demo_K_coercions)
    apply (rule demo_history_law [unfolded history_law_def, THEN conjunct2])
    apply (code_simp, code_simp, code_simp, code_simp, code_simp, code_simp, code_simp)
    apply (simp_all add: e tail fits_opt_def ends_simps hexlify_digit demo_fresh_def fits_def)
    done
qed

theorem bulk_update_all_or_nothing_witness:
  "\<exists>out d2. run_request demo_bulk demo_stored = (Inr out, d2) \<and> set (bsr_updated_ids out) = {300} \<and> set (bsr_not_found_ids out) = {301}
     \<and> ae_status (hd (anomaly_events d2)) = AnomalyStatus.DISMISSED"
proof -
  obtain out d2 where r: "run_request demo_bulk demo_stored = (Inr out, d2)" using demo_bulk_run by blast
  note b = bulk_update_all_or_nothing [OF demo_history_law demo_stored(1) r, unfolded sum.case demo_stored(2)]
  have "set (bsr_updated_ids out) = {300}" "set (bsr_not_found_ids out) = {301}" using b by (auto simp: new_event_def)
  moreover have "map ae_status (map forget (anomaly_events d2)) = [AnomalyStatus.DISMISSED]"
    using b by (simp add: new_event_def)
  then have "ae_status (hd (anomaly_events d2)) = AnomalyStatus.DISMISSED" by (cases "anomaly_events d2") auto
  ultimately show ?thesis using r by blast
qed

abbreviation demo_forge :: "(anomaly_db, AuditLogEntryRead) svc" where
  "demo_forge \<equiv> create_audit_entry (demo_K (CHR 0x02)) demo_settings 0 (Some (create_access_token demo_platform demo_settings 0 0 ''2'' []))
     (demo_fresh 1) (forged_entry (demo_K (CHR 0x02)) 300 ''resolved'')"

lemma demo_forge_run: "\<exists>out d2. run_request demo_forge demo_stored = (Inr out, d2) \<and> True"
proof (rule ends_success)
  obtain e where e: "audit_log_entries demo_stored = [e]" "ale_entry_hash e = ''01''" "ale_id e = 200" using demo_stored(4) by blast
  have tail: "get_tail demo_stored = Some e" by (simp add: e get_tail_def order_by_desc_def first_row_def)
  have user: "fst (get_current_user (demo_K (CHR 0x02)) demo_settings 0 (Some (create_access_token demo_platform demo_settings 0 0 ''2'' []))
      \<lparr>committed = demo_stored, working = demo_stored\<rparr>) = Inr (last (users demo_auth_db))"
    using demo_caller by (simp only: current_user_run fst_conv)
  show "ends demo_forge \<lparr>committed = demo_stored, working = demo_stored\<rparr> (\<lambda>r s. \<exists>x. r = Inr x \<and> True)"
    unfolding create_audit_entry_def append_entry_def forged_entry_def
    apply (rule ends_user [OF user])
    apply (simp only: Let_def AuditLogEntryCreate.simps list.distinct if_False bind_svc_assoc)
    apply (rule ends_demo_append)
    apply (simp_all only: AuditLogEntryCreate.simps session.simps demo_K_coercions)
    apply (rule demo_history_law [unfolded history_law_def, THEN conjunct2])
    apply (code_simp, code_simp, code_simp, code_simp, code_simp)
    apply (simp_all add: e tail fits_opt_def ends_simps hexlify_digit demo_fresh_def fits_def)
    done
qed

theorem audit_endpoint_forges_history_witness:
  "\<exists>out d2 hs. run_request demo_forge demo_stored = (Inr out, d2) \<and> ae_status (hd (anomaly_events d2)) = AnomalyStatus.OPEN
     \<and> fst (run_request (get_anomaly_history (demo_K (CHR 0x02)) 300) d2) = Inr hs \<and> ahe_new_status (last hs) = Some ''resolved''"
proof -
  let ?e = "new_event 300 10 10 demo_anomaly"
  obtain out d2 where r: "run_request demo_forge demo_stored = (Inr out, d2)" using demo_forge_run by blast
  have e: "?e \<in> set (anomaly_events demo_stored)" "ae_id ?e = 300" "ae_status ?e = AnomalyStatus.OPEN"
    by (simp add: demo_stored(2)) (simp_all add: new_event_def)
  from audit_endpoint_forges_history [OF demo_history_law demo_stored(1) e(1), unfolded e(2), OF r]
  obtain hs h where "anomaly_events d2 = [?e]" "fst (run_request (get_anomaly_history (demo_K (CHR 0x02)) 300) d2) = Inr (hs @ [h])"
      "ahe_new_status h = Some ''resolved''" by (auto simp: demo_stored(2))
  with r e(3) show ?thesis by (intro exI [of _ out] exI [of _ d2] exI [of _ "hs @ [h]"]) simp
qed

end
