(* ===== verification/ServiceProps.thy ===== *)
theory ServiceProps
  imports Compliance AnomalyProps
begin

text \<open>
  What notifications, alert rules and compliance assessments promise: the tables stay well-formed
  whatever the requests, a user reaches only the own notifications, and an assessment is completed once,
  with a score in percent.
\<close>

section \<open>Notifications and alert rules\<close>

text \<open>
  The types of the rows: keys and names are unique, a notification has a time of reading exactly
  when it is read, and a rule fits its columns and counts its triggers from 0.
\<close>

definition notify_inv :: "'z notify_db_scheme \<Rightarrow> bool" where
  "notify_inv d \<longleftrightarrow> distinct (map no_id (notifications d)) \<and> (\<forall>n \<in> set (notifications d). no_is_read n \<longleftrightarrow> no_read_at n \<noteq> None)
     \<and> distinct (map al_id (alert_rules d)) \<and> distinct (map al_name (alert_rules d))
     \<and> (\<forall>r \<in> set (alert_rules d). rule_columns_ok r \<and> 0 \<le> al_trigger_count r)"

inductive notify_step :: "'z notify_db_scheme \<Rightarrow> 'z notify_db_scheme \<Rightarrow> bool" where
  step_mark: "notify_step d (snd (run_request (mark_notification_read now user_id i) d))"
| step_mark_all: "notify_step d (snd (run_request (mark_all_read now user_id) d))"
| step_create_rule: "notify_step d (snd (run_request (create_alert_rule i created p created_by) d))"
| step_update_rule: "notify_step d (snd (run_request (update_alert_rule i q) d))"
| step_delete_rule: "notify_step d (snd (run_request (delete_alert_rule i) d))"

lemma notify_inv_mark:
  assumes "notify_inv d"
  shows "notify_inv (notifications_update (update_where P (\<lambda>n. n\<lparr>no_is_read := True, no_read_at := Some now\<rparr>)) d)"
  using assms unfolding notify_inv_def by (simp add: map_update_where) (auto simp: update_where_def)

lemma publishes_get_rule:
  "publishes (bind_svc (get_rule_orm i) f) d Q \<longleftrightarrow> (\<forall>r. get_row al_id i (alert_rules d) = Some r \<longrightarrow> publishes (f r) d Q)"
  unfolding get_rule_orm_def by (simp only: publish_simps) (auto split: option.split simp: publish_simps)

lemma distinct_update_key:
  assumes "distinct (map k rs)" and "distinct (map pk rs)" and "r \<in> set rs" and "\<forall>x \<in> set rs. pk x \<noteq> pk r \<longrightarrow> k x \<noteq> k r'"
  shows "distinct (map k (update_where (\<lambda>x. pk x = pk r) (\<lambda>_. r') rs))"
  using assms
proof (induction rs)
  case (Cons a rs)
  have rest: "update_where (\<lambda>x. pk x = pk r) (\<lambda>_. r') rs = rs" if "pk r \<notin> pk ` set rs"
    by (rule update_where_none) (use that in \<open>auto simp: image_iff\<close>)
  show ?case
  proof (cases "r = a")
    case True
    have "\<forall>x \<in> set rs. pk x \<noteq> pk r" using Cons.prems(2) True by (auto simp: image_iff)
    moreover from this have "update_where (\<lambda>x. pk x = pk r) (\<lambda>_. r') rs = rs" by (intro rest) auto
    ultimately show ?thesis using Cons.prems(1,4) True by (auto simp: image_iff)
  next
    case False
    with Cons.prems have "r \<in> set rs" "pk a \<noteq> pk r" by (auto simp: image_iff)
    with Cons show ?thesis by (auto simp: update_where_def image_iff)
  qed
qed simp

lemma update_rule_inv:
  assumes inv: "notify_inv d" and r: "get_row al_id i (alert_rules d) = Some r" and flush: "flush_rule_update q r d = Inr d'"
  shows "notify_inv d'"
proof -
  let ?r = "apply_rule_update q r"
  have keep: "al_id ?r = al_id r" "al_trigger_count ?r = al_trigger_count r" by (simp_all add: apply_rule_update_def)
  have d': "d' = d\<lparr>alert_rules := update_where (\<lambda>x. al_id x = al_id r) (\<lambda>_. ?r) (alert_rules d)\<rparr>" "rule_columns_ok ?r"
    "\<forall>x \<in> set (alert_rules d). al_id x \<noteq> al_id r \<longrightarrow> al_name x \<noteq> al_name ?r"
    using flush by (auto simp: flush_rule_update_def Let_def split: if_splits)
  have rows: "r \<in> set (alert_rules d)" using get_row_Some [OF r] by simp
  have "distinct (map al_name (alert_rules d'))"
    unfolding d'(1) using distinct_update_key [of al_name "alert_rules d" al_id r ?r] inv rows d'(3) by (simp add: notify_inv_def)
  moreover have "distinct (map al_id (alert_rules d'))"
    unfolding d'(1) using distinct_update_key [of al_id "alert_rules d" al_id r ?r] inv rows keep by (simp add: notify_inv_def)
  ultimately show ?thesis using inv rows keep d' by (auto simp: notify_inv_def update_where_def)
qed

lemma notify_step_inv:
  assumes "notify_step d d'" and "notify_inv d"
  shows "notify_inv d'"
  using assms(1)
proof cases
  case (step_mark now user_id i)
  have "publishes (mark_notification_read now user_id i) d notify_inv"
    unfolding mark_notification_read_def
    apply (simp only: publish_simps)
    apply (intro allI impI conjI publish_intros uncommitting_basic)
       apply (rule TrueI, rule TrueI)
    subgoal premises prem for n
    proof -
      have "update_where (\<lambda>x. no_id x = i) (\<lambda>_. n\<lparr>no_is_read := True, no_read_at := Some now\<rparr>) (notifications d)
          = update_where (\<lambda>x. no_id x = i) (\<lambda>x. x\<lparr>no_is_read := True, no_read_at := Some now\<rparr>) (notifications d)"
        using assms(2) get_row_Some [OF prem(1)] by (auto simp: update_where_def notify_inv_def distinct_map dest: inj_onD)
      then show ?thesis using notify_inv_mark [OF assms(2), of "\<lambda>x. no_id x = i" now] by (simp add: notify_inv_def)
    qed
    apply (rule TrueI)
    done
  then show ?thesis using publishes_snd assms(2) unfolding step_mark by metis
next
  case (step_mark_all now user_id)
  have "publishes (mark_all_read now user_id) d notify_inv"
    unfolding mark_all_read_def
    by (simp only: publish_simps) (intro publish_intros uncommitting_basic notify_inv_mark assms(2))
  then show ?thesis using publishes_snd assms(2) unfolding step_mark_all by metis
next
  case (step_create_rule i created p created_by)
  have "publishes (create_alert_rule i created p created_by) d notify_inv"
    unfolding create_alert_rule_def
    apply (simp only: publish_simps)
    apply (intro allI impI conjI publish_intros uncommitting_basic)
     apply (rule TrueI)
    subgoal for x d2
      using assms(2) by (auto simp: notify_inv_def insert_alert_rule_def insert_row_def split: if_splits)
    done
  then show ?thesis using publishes_snd assms(2) unfolding step_create_rule by metis
next
  case (step_update_rule i q)
  have "publishes (update_alert_rule i q) d notify_inv"
    unfolding update_alert_rule_def publishes_get_rule
    apply (intro allI impI)
    apply (simp only: publish_simps)
    apply (intro allI impI conjI publish_intros uncommitting_basic; (rule TrueI | (rule update_rule_inv [OF assms(2)]; assumption)))
    done
  then show ?thesis using publishes_snd assms(2) unfolding step_update_rule by metis
next
  case (step_delete_rule i)
  have "publishes (delete_alert_rule i) d notify_inv"
    unfolding delete_alert_rule_def publishes_get_rule
    apply (simp only: publish_simps)
    apply (intro allI impI publish_intros)
    using assms(2) by (auto simp: notify_inv_def delete_where_def distinct_map_filter)
  then show ?thesis using publishes_snd assms(2) unfolding step_delete_rule by metis
qed

lemma notify_steps_inv: "notify_step\<^sup>*\<^sup>* d d' \<Longrightarrow> notify_inv d \<Longrightarrow> notify_inv d'"
  by (induction rule: rtranclp_induct) (auto intro: notify_step_inv)

text \<open>
  C15. The rows of notifications and alert rules stay well-typed: whatever the sequence of requests on them,
  identifiers and names of rules stay unique, every rule fits its columns, a notification has a time of reading exactly
  when it is read, and every listed notification is one of the user who lists, with one of the three severities.
\<close>

theorem notify_rows_stay_well_typed:
  assumes "notify_step\<^sup>*\<^sup>* d d'" and "notify_inv d"
  shows "notify_inv d' \<and> (\<forall>u unread_only category n reads. fst (run_request (list_notifications u unread_only category n) d') = Inr reads \<longrightarrow>
    length reads \<le> n \<and> (\<forall>r \<in> set reads. nor_id r \<in> no_id ` {x \<in> set (notifications d'). no_user_id x = u}
      \<and> (nor_is_read r \<longleftrightarrow> nor_read_at r \<noteq> None) \<and> nor_severity r \<in> {''critical'', ''warning'', ''info''}))"
proof (intro conjI allI impI ballI)
  show inv: "notify_inv d'" by (rule notify_steps_inv [OF assms])
  fix u unread_only category n reads r
  assume reads: "fst (run_request (list_notifications u unread_only category n) d') = Inr reads"
  then show "length reads \<le> n" by (auto simp: list_notifications_def svc_simps)
  assume "r \<in> set reads"
  with reads obtain x where x: "x \<in> set (notifications d')" "no_user_id x = u" "r = notification_to_read x"
    by (auto simp: list_notifications_def svc_simps order_by_desc_def dest!: in_set_takeD)
  then show "nor_id r \<in> no_id ` {x \<in> set (notifications d'). no_user_id x = u}" by (auto simp: notification_to_read_def)
  show "nor_is_read r \<longleftrightarrow> nor_read_at r \<noteq> None" using inv x by (simp add: notification_to_read_def notify_inv_def)
  show "nor_severity r \<in> {''critical'', ''warning'', ''info''}" using x by (cases "no_severity x") (simp_all add: notification_to_read_def)
qed

text \<open>
  C16. A notification can only be marked read by its owner: for any other user the answer is the 404 of a notification
  that does not exist, and nothing changes. The owner gets it back as read, an earlier time of
  reading is kept, and no other row changes.
\<close>

theorem notifications_are_private:
  assumes "notify_inv d"
  shows "case find (\<lambda>n. no_id n = i \<and> no_user_id n = u) (notifications d) of
      None \<Rightarrow> run_request (mark_notification_read now u i) d = (Inl (HTTPException 404 ''Notification not found''), d)
    | Some n \<Rightarrow> \<exists>n' d'. run_request (mark_notification_read now u i) d = (Inr (notification_to_read n'), d')
        \<and> n' = n\<lparr>no_is_read := True, no_read_at := (if no_is_read n then no_read_at n else Some now)\<rparr>
        \<and> d' = d\<lparr>notifications := map (\<lambda>x. if no_id x = i then n' else x) (notifications d)\<rparr>"
proof (cases "get_row no_id i (notifications d)")
  case None
  then have "find (\<lambda>n. no_id n = i \<and> no_user_id n = u) (notifications d) = None" by (auto simp: get_row_None find_None_iff)
  with None show ?thesis by (simp add: mark_notification_read_def svc_simps)
next
  case (Some n)
  have dist: "distinct (map no_id (notifications d))" using assms by (simp add: notify_inv_def)
  have n: "n \<in> set (notifications d)" "no_id n = i" using get_row_Some [OF Some] by simp_all
  then have same: "x = n" if "x \<in> set (notifications d)" "no_id x = i" for x
    using that dist by (auto simp: distinct_map dest: inj_onD)
  show ?thesis
  proof (cases "no_user_id n = u")
    case False
    then have "find (\<lambda>n. no_id n = i \<and> no_user_id n = u) (notifications d) = None" using same by (auto simp: find_None_iff)
    with Some False show ?thesis by (simp add: mark_notification_read_def svc_simps)
  next
    case True
    have "find (\<lambda>n. no_id n = i \<and> no_user_id n = u) (notifications d) = Some n"
    proof (cases "find (\<lambda>n. no_id n = i \<and> no_user_id n = u) (notifications d)")
      case None
      then show ?thesis using n True by (auto simp: find_None_iff)
    next
      case (Some m)
      then show ?thesis using same [of m] by (auto simp: find_Some_iff)
    qed
    moreover have "\<exists>d'. run_request (mark_notification_read now u i) d = (Inr (notification_to_read n'), d')
        \<and> d' = d\<lparr>notifications := map (\<lambda>x. if no_id x = i then n' else x) (notifications d)\<rparr>"
      if n': "n' = n\<lparr>no_is_read := True, no_read_at := (if no_is_read n then no_read_at n else Some now)\<rparr>" for n'
    proof (cases "no_is_read n")
      case read: True
      then have "n' = n" unfolding n' by (cases n) simp
      moreover have "map (\<lambda>x. if no_id x = i then n else x) (notifications d) = notifications d" using same by (auto intro: map_idI)
      moreover have "run_request (mark_notification_read now u i) d = (Inr (notification_to_read n), d)"
        by (simp add: mark_notification_read_def svc_simps Some True read)
      moreover have "d\<lparr>notifications := notifications d\<rparr> = d" by simp
      ultimately show ?thesis by (simp only:) blast
    next
      case unread: False
      then have n'': "n' = n\<lparr>no_is_read := True, no_read_at := Some now\<rparr>" unfolding n' by simp
      have "run_request (mark_notification_read now u i) d = (Inr (notification_to_read n'),
          notifications_update (update_where (\<lambda>x. no_id x = i) (\<lambda>_. n')) d)"
        unfolding mark_notification_read_def by (simp add: svc_simps Some True unread n'' Let_def)
      then show ?thesis by (simp add: update_where_def)
    qed
    ultimately show ?thesis by (simp only: option.case) blast
  qed
qed

text \<open>
  Marking all as read reports how many were unread, leaves none unread, keeps the total, and does not touch the
  notifications of other users; done twice, the second request marks nothing.
\<close>

theorem mark_all_read_correct:
  "\<exists>out d' counts. run_request (mark_all_read now u) d = (Inr out, d')
     \<and> fst (run_request (get_unread_count u) d) = Inr counts \<and> ma_marked_read out = uc_unread counts
     \<and> fst (run_request (get_unread_count u) d') = Inr (counts\<lparr>uc_unread := 0\<rparr>)
     \<and> filter (\<lambda>n. no_user_id n \<noteq> u) (notifications d') = filter (\<lambda>n. no_user_id n \<noteq> u) (notifications d)
     \<and> run_request (mark_all_read now' u) d' = (Inr (out\<lparr>ma_marked_read := 0\<rparr>), d')"
proof -
  let ?P = "\<lambda>n. no_user_id n = u \<and> \<not> no_is_read n"
  let ?f = "\<lambda>n. n\<lparr>no_is_read := True, no_read_at := Some now\<rparr>"
  let ?d = "notifications_update (update_where ?P ?f) d"
  let ?out = "\<lparr>ma_detail = ''All notifications marked read'', ma_marked_read = count_rows ?P (notifications d)\<rparr>"
  have none: "filter ?P (update_where ?P ?f ns) = []" for ns by (induction ns) simp_all
  have own: "length (filter (\<lambda>n. no_user_id n = u) (update_where ?P ?f ns)) = length (filter (\<lambda>n. no_user_id n = u) ns)" for ns
    by (induction ns) auto
  have others: "filter (\<lambda>n. no_user_id n \<noteq> u) (update_where ?P ?f ns) = filter (\<lambda>n. no_user_id n \<noteq> u) ns" for ns
    by (induction ns) auto
  have again: "update_where ?P g (update_where ?P ?f ns) = update_where ?P ?f ns" for g :: "Notification \<Rightarrow> Notification" and ns
    by (induction ns) simp_all
  have mark: "run_request (mark_all_read t u) e = (Inr \<lparr>ma_detail = ''All notifications marked read'', ma_marked_read = count_rows ?P (notifications e)\<rparr>,
      notifications_update (update_where ?P (\<lambda>n. n\<lparr>no_is_read := True, no_read_at := Some t\<rparr>)) e)" for t and e :: "'a notify_db_scheme"
    by (simp add: mark_all_read_def svc_simps Let_def)
  have counts: "fst (run_request (get_unread_count u) e) = Inr \<lparr>uc_unread = count_rows ?P (notifications e),
      uc_total = count_rows (\<lambda>n. no_user_id n = u) (notifications e)\<rparr>" for e :: "'a notify_db_scheme"
    by (simp add: get_unread_count_def svc_simps)
  have rows: "notifications ?d = update_where ?P ?f (notifications d)" by simp
  show ?thesis
  proof (intro exI conjI)
    show "run_request (mark_all_read now u) d = (Inr ?out, ?d)" by (rule mark)
    show "fst (run_request (get_unread_count u) d) = Inr \<lparr>uc_unread = count_rows ?P (notifications d),
      uc_total = count_rows (\<lambda>n. no_user_id n = u) (notifications d)\<rparr>" by (rule counts)
    show "ma_marked_read ?out = uc_unread \<lparr>uc_unread = count_rows ?P (notifications d),
      uc_total = count_rows (\<lambda>n. no_user_id n = u) (notifications d)\<rparr>" by simp
    show "fst (run_request (get_unread_count u) ?d) = Inr (\<lparr>uc_unread = count_rows ?P (notifications d),
      uc_total = count_rows (\<lambda>n. no_user_id n = u) (notifications d)\<rparr>\<lparr>uc_unread := 0\<rparr>)"
      unfolding counts rows by (simp add: count_rows_def none own del: length_0_conv)
    show "filter (\<lambda>n. no_user_id n \<noteq> u) (notifications ?d) = filter (\<lambda>n. no_user_id n \<noteq> u) (notifications d)"
      unfolding rows by (rule others)
    have "notifications_update (update_where ?P (\<lambda>n. n\<lparr>no_is_read := True, no_read_at := Some now'\<rparr>)) ?d = ?d"
      using again by simp
    then show "run_request (mark_all_read now' u) ?d = (Inr (?out\<lparr>ma_marked_read := 0\<rparr>), ?d)"
      unfolding mark rows by (simp only: count_rows_def none) simp
  qed
qed

text \<open>
  C17. A PATCH of an alert rule that sends null for one of its seven required fields passes the validation of its
  schema, which allows null for every field: with any valid body, whose name, if it has one, no other rule has, the same
  body with null in that field is valid too, and an administrator's request with it, for a rule that exists, is not
  refused but ends in an error of the database; nothing changes.
\<close>

theorem null_in_patch_is_a_server_error:
  assumes "valid_AlertRuleUpdate p"
    and "q \<in> {p\<lparr>alu_name := Some None\<rparr>, p\<lparr>alu_source := Some None\<rparr>, p\<lparr>alu_condition := Some None\<rparr>,
      p\<lparr>alu_threshold_severity := Some None\<rparr>, p\<lparr>alu_channel := Some None\<rparr>, p\<lparr>alu_target := Some None\<rparr>, p\<lparr>alu_is_enabled := Some None\<rparr>}"
    and "\<forall>nm. alu_name p = Some (Some nm) \<longrightarrow> (\<forall>r \<in> set (alert_rules d). al_id r \<noteq> i \<longrightarrow> al_name r \<noteq> nm)"
    and "i \<in> al_id ` set (alert_rules d)" and "fst (run_request (get_current_user pf st now cred) d) = Inr u" and "u_is_admin u"
  shows "valid_AlertRuleUpdate q \<and> (\<exists>e. run_request (patch_alert_rule pf st now i q cred) d = (Inl e, d)
    \<and> (\<forall>n detail. e \<noteq> HTTPException n detail))"
proof -
  have q: "valid_AlertRuleUpdate q" "nulls_required_rule_column q" "alu_name q = Some None \<or> alu_name q = alu_name p"
    using assms(1,2) by (auto simp: valid_AlertRuleUpdate_def sent_length_def nulls_required_rule_column_def)
  obtain r where r: "get_row al_id i (alert_rules d) = Some r" using assms(4) get_row_None [of al_id i "alert_rules d"] by auto
  have "filter (\<lambda>x. al_name x = nm \<and> al_id x \<noteq> al_id r) (alert_rules d) = []" if "alu_name q = Some (Some nm)" for nm
  proof -
    have "alu_name p = Some (Some nm)" using that q(3) by auto
    with assms(3) have "\<forall>x \<in> set (alert_rules d). al_id x \<noteq> i \<longrightarrow> al_name x \<noteq> nm" by blast
    then show ?thesis using get_row_Some [OF r] by (auto simp: filter_empty_conv)
  qed
  then have free: "alu_name q = Some (Some nm) \<Longrightarrow> scalar_one_or_none
      (filter (\<lambda>x. al_name x = nm \<and> al_id x \<noteq> al_id r) (alert_rules d)) = Inr None" for nm
    by (simp add: scalar_one_or_none_def)
  have "\<exists>e. run_request (update_alert_rule i q) d = (Inl e, d) \<and> (\<forall>n detail. e \<noteq> HTTPException n detail)"
    using q(2) r free
    by (cases "alu_name q"; cases "the (alu_name q)")
       (simp_all add: update_alert_rule_def get_rule_orm_def flush_rule_update_def Let_def svc_simps)
  then show ?thesis
    using patch_alert_rule_ep.admitted [OF assms(5,6), of i q] q(1) by (simp add: validated_def)
qed

section \<open>Assessments\<close>

text \<open>
  An assessment in progress has no results, a completed one has all of them; the controls counted as mapped
  and as gaps are among all, and the score is a percentage.
\<close>

definition assessment_ok :: "ComplianceAssessment \<Rightarrow> bool" where
  "assessment_ok a \<longleftrightarrow>
     (case as_status a of
        AssessmentStatus.IN_PROGRESS \<Rightarrow> as_completed_at a = None \<and> as_score a = None \<and> as_total_controls a = None
          \<and> as_mapped_controls a = None \<and> as_gap_controls a = None
      | AssessmentStatus.COMPLETED \<Rightarrow> as_completed_at a \<noteq> None
          \<and> (\<exists>s n m g. as_score a = Some s \<and> as_total_controls a = Some n \<and> as_mapped_controls a = Some m \<and> as_gap_controls a = Some g
             \<and> 0 \<le> s \<and> s \<le> 100 \<and> m + g \<le> n))"

definition compliance_inv :: "'z compliance_db_scheme \<Rightarrow> bool" where
  "compliance_inv d \<longleftrightarrow> distinct (map as_id (compliance_assessments d)) \<and> distinct (map fw_id (compliance_frameworks d))
     \<and> (\<forall>a \<in> set (compliance_assessments d). assessment_ok a \<and> as_framework_id a \<in> fw_id ` set (compliance_frameworks d))"

text \<open>Division, multiplication and rounding of doubles are monotonic and exact at the ends of the range of a percentage.\<close>

definition percent_law :: "'f compliance_floats_scheme \<Rightarrow> bool" where
  "percent_law fl \<longleftrightarrow>
     (\<forall>x y. 0 \<le> x \<and> x \<le> y \<and> 0 < y \<longrightarrow> 0 \<le> fl_div fl x y \<and> fl_div fl x y \<le> 1)
     \<and> (\<forall>x. 0 \<le> x \<and> x \<le> 1 \<longrightarrow> 0 \<le> fl_mul fl x 100 \<and> fl_mul fl x 100 \<le> 100)
     \<and> (\<forall>x. 0 \<le> x \<and> x \<le> 100 \<longrightarrow> 0 \<le> fl_round1 fl x \<and> fl_round1 fl x \<le> 100)"

lemma weighted_bounds: "0 \<le> weighted ms" "weighted ms \<le> of_nat (length ms)"
proof -
  have w: "weighted (m # ms) = (if cm_status m = MAPPED then 1 else if cm_status m = PARTIAL then PARTIAL_WEIGHT else 0) + weighted ms" for m ms
    by (auto simp: weighted_def)
  show "0 \<le> weighted ms" by (induction ms) (auto simp: w PARTIAL_WEIGHT_def, simp add: weighted_def)
  show "weighted ms \<le> of_nat (length ms)" by (induction ms) (auto simp: w PARTIAL_WEIGHT_def, simp add: weighted_def)
qed

lemma coverage_percent:
  assumes "percent_law fl"
  shows "0 \<le> coverage fl (fl_round1 fl) ms" "coverage fl (fl_round1 fl) ms \<le> 100"
proof -
  have "0 \<le> coverage fl (fl_round1 fl) ms \<and> coverage fl (fl_round1 fl) ms \<le> 100"
  proof (cases "ms = []")
    case False
    then have "(0::rat) < of_nat (length ms)" by simp
    then have "0 \<le> fl_div fl (weighted ms) (of_nat (length ms)) \<and> fl_div fl (weighted ms) (of_nat (length ms)) \<le> 1"
      using assms weighted_bounds [of ms] by (simp add: percent_law_def)
    then show ?thesis using assms False by (simp add: coverage_def percent_law_def)
  qed (simp add: coverage_def)
  then show "0 \<le> coverage fl (fl_round1 fl) ms" "coverage fl (fl_round1 fl) ms \<le> 100" by simp_all
qed

lemma completed_assessment_ok: "percent_law fl \<Longrightarrow> assessment_ok (completed_assessment fl now ms a)"
proof -
  have "length (filter (\<lambda>m. cm_status m = MAPPED) ms) + length (filter (\<lambda>m. cm_status m = GAP) ms) \<le> length ms"
    by (induction ms) auto
  then show "percent_law fl \<Longrightarrow> ?thesis" by (simp add: assessment_ok_def completed_assessment_def coverage_percent)
qed

text \<open>What the two requests publish, and what a completed assessment looks like afterwards.\<close>

inductive compliance_step :: "'f compliance_floats_scheme \<Rightarrow> 'z compliance_db_scheme \<Rightarrow> 'z compliance_db_scheme \<Rightarrow> bool"
  for fl :: "'f compliance_floats_scheme" where
  step_start: "compliance_step fl d (snd (run_request (start_assessment i now framework_id started_by) d))"
| step_complete: "compliance_step fl d (snd (run_request (complete_assessment fl now i) d))"

definition assessments_kept :: "'z compliance_db_scheme \<Rightarrow> 'z compliance_db_scheme \<Rightarrow> bool" where
  "assessments_kept d d' \<longleftrightarrow> compliance_frameworks d' = compliance_frameworks d
     \<and> (\<forall>a \<in> set (compliance_assessments d). as_status a = AssessmentStatus.COMPLETED \<longrightarrow> a \<in> set (compliance_assessments d'))
     \<and> as_id ` set (compliance_assessments d) \<subseteq> as_id ` set (compliance_assessments d')"

lemma uncommitting_get_assessment: "uncommitting (get_assessment i)"
  unfolding get_assessment_def get_assessment_orm_def by (intro uncommitting_bind uncommitting_option uncommitting_basic)

lemma start_publishes:
  assumes "compliance_inv d"
  shows "publishes (start_assessment i now framework_id started_by) d (\<lambda>d'. compliance_inv d' \<and> assessments_kept d d')"
  unfolding start_assessment_def get_framework_orm_def
  apply (simp only: publish_simps)
  apply (intro allI impI conjI publish_intros uncommitting_get_assessment; (rule TrueI)?)
  subgoal for x f d2
    using assms by (auto simp: compliance_inv_def assessments_kept_def insert_assessment_def insert_row_def assessment_ok_def split: if_splits)
  subgoal for x f d2
    by (auto simp: assessments_kept_def insert_assessment_def insert_row_def split: if_splits)
  done

lemma complete_publishes:
  fixes d :: "'z compliance_db_scheme"
  assumes inv: "compliance_inv d" and law: "percent_law fl"
  shows "publishes (complete_assessment fl now i) d (\<lambda>d'. compliance_inv d' \<and> assessments_kept d d')"
  unfolding complete_assessment_def get_assessment_orm_def get_framework_orm_def
  apply (simp only: publish_simps)
  apply (intro allI impI publish_intros uncommitting_get_assessment conjI [of "_ \<longrightarrow> _"]; (rule TrueI)?)
  subgoal premises prem for x a y f
  proof -
    let ?f = "completed_assessment fl now (mappings_of d (fw_id f))"
    let ?rows = "update_where (\<lambda>x. as_id x = as_id a) ?f (compliance_assessments d)"
    have a: "a \<in> set (compliance_assessments d)" using prem(1,2) by (auto simp: scalar_one_or_none_Inr dest: filter_single)
    have dist: "distinct (map as_id (compliance_assessments d))" using inv by (simp add: compliance_inv_def)
    then have same: "x = a" if "x \<in> set (compliance_assessments d)" "as_id x = as_id a" for x
      using that a by (auto simp: distinct_map dest: inj_onD)
    have keep: "as_id (?f x) = as_id x" "as_framework_id (?f x) = as_framework_id x" for x by (simp_all add: completed_assessment_def)
    have rows: "set ?rows = {x \<in> set (compliance_assessments d). as_id x \<noteq> as_id a} \<union> {?f a}"
      using a same by (auto simp: set_update_where)
    have ids: "map as_id ?rows = map as_id (compliance_assessments d)" by (rule map_update_where) (simp add: keep)
    have "compliance_inv (compliance_assessments_update (update_where (\<lambda>x. as_id x = as_id a) ?f) d)"
      using inv completed_assessment_ok [OF law] keep(2) a unfolding compliance_inv_def
      by (simp add: ids dist rows)
    moreover have "as_id ` set ?rows = as_id ` set (compliance_assessments d)" using arg_cong [OF ids, of set] by simp
    moreover have "x \<in> set ?rows" if "x \<in> set (compliance_assessments d)" "as_status x = AssessmentStatus.COMPLETED" for x
      using that same [of x] prem(3) unfolding rows by auto
    ultimately show ?thesis by (simp add: assessments_kept_def)
  qed
  done

lemma compliance_step_inv:
  assumes "compliance_step fl d d'" and "compliance_inv d" and "percent_law fl"
  shows "compliance_inv d' \<and> assessments_kept d d'"
proof -
  have "assessments_kept d d" by (simp add: assessments_kept_def)
  with assms(1) show ?thesis
  proof cases
    case step_start
    then show ?thesis using publishes_snd [OF start_publishes [OF assms(2)]] assms(2) \<open>assessments_kept d d\<close> by metis
  next
    case step_complete
    then show ?thesis using publishes_snd [OF complete_publishes [OF assms(2,3)]] assms(2) \<open>assessments_kept d d\<close> by metis
  qed
qed

lemma assessments_kept_trans: "assessments_kept d d1 \<Longrightarrow> assessments_kept d1 d2 \<Longrightarrow> assessments_kept d d2"
  unfolding assessments_kept_def by (metis subset_trans)

text \<open>
  C13. Whatever the sequence of requests that start and complete assessments: an assessment in progress has no results, a
  completed one has all of them, with a score between 0 and 100 and no more mapped controls and gaps than controls; no
  assessment disappears; and a completed one never changes again.
\<close>

theorem completed_assessments_are_final:
  assumes "(compliance_step fl)\<^sup>*\<^sup>* d d'" and "compliance_inv d" and "percent_law fl"
  shows "compliance_inv d'
    \<and> (\<forall>a \<in> set (compliance_assessments d). as_status a = AssessmentStatus.COMPLETED \<longrightarrow> a \<in> set (compliance_assessments d'))
    \<and> as_id ` set (compliance_assessments d) \<subseteq> as_id ` set (compliance_assessments d')"
proof -
  have "compliance_inv d' \<and> assessments_kept d d'"
    using assms(1)
  proof (induction rule: rtranclp_induct)
    case base
    show ?case using assms(2) by (simp add: assessments_kept_def)
  next
    case (step d1 d2)
    then show ?case using compliance_step_inv [OF step(2) _ assms(3)] assessments_kept_trans by blast
  qed
  then show ?thesis by (simp add: assessments_kept_def)
qed

lemma complete_assessment_run:
  assumes "compliance_inv d"
  shows "case get_row as_id i (compliance_assessments d) of
      None \<Rightarrow> run_request (complete_assessment fl now i) d = (Inl (HTTPException 404 ''Assessment not found''), d)
    | Some a \<Rightarrow>
        if as_status a = AssessmentStatus.COMPLETED
        then run_request (complete_assessment fl now i) d = (Inl (HTTPException 409 ''Assessment already completed''), d)
        else \<exists>out. run_request (complete_assessment fl now i) d = (Inr out, d\<lparr>compliance_assessments :=
            map (\<lambda>x. if as_id x = i then completed_assessment fl now (mappings_of d (as_framework_id a)) a else x) (compliance_assessments d)\<rparr>)
          \<and> asr_id out = i \<and> asr_status out = ''completed'' \<and> asr_completed_at out = Some now
          \<and> asr_score out = Some (coverage fl (fl_round1 fl) (applicable (mappings_of d (as_framework_id a))))
          \<and> asr_total_controls out = Some (length (mappings_of d (as_framework_id a)))
          \<and> asr_mapped_controls out = Some (length (filter (\<lambda>m. cm_status m = MAPPED) (mappings_of d (as_framework_id a))))
          \<and> asr_gap_controls out = Some (length (filter (\<lambda>m. cm_status m = GAP) (mappings_of d (as_framework_id a))))
          \<and> asr_started_by out = as_started_by a \<and> asr_notes out = as_notes a"
proof (cases "get_row as_id i (compliance_assessments d)")
  case None
  then have "filter (\<lambda>a. as_id a = i) (compliance_assessments d) = []" by (auto simp: get_row_None filter_empty_conv)
  with None show ?thesis by (simp add: complete_assessment_def get_assessment_orm_def scalar_one_or_none_def svc_simps)
next
  case (Some a)
  have dist: "distinct (map as_id (compliance_assessments d))" "distinct (map fw_id (compliance_frameworks d))"
    using assms by (simp_all add: compliance_inv_def)
  have a: "a \<in> set (compliance_assessments d)" "as_id a = i" using get_row_Some [OF Some] by simp_all
  have row: "filter (\<lambda>a. as_id a = i) (compliance_assessments d) = [a]" using filter_eq_singleton [OF dist(1) a(1)] a(2) by simp
  obtain f where f: "f \<in> set (compliance_frameworks d)" "fw_id f = as_framework_id a"
    using assms a(1) by (force simp: compliance_inv_def)
  have fw: "filter (\<lambda>f. fw_id f = as_framework_id a) (compliance_frameworks d) = [f]"
    using filter_eq_singleton [OF dist(2) f(1)] f(2) by simp
  have get: "get_row fw_id (as_framework_id a) (compliance_frameworks d) = Some f"
    using get_row_unique [OF dist(2) f(1)] f(2) by simp
  show ?thesis
  proof (cases "as_status a = AssessmentStatus.COMPLETED")
    case True
    with Some show ?thesis by (simp add: complete_assessment_def get_assessment_orm_def scalar_one_or_none_def svc_simps row)
  next
    case False
    let ?f = "completed_assessment fl now (mappings_of d (as_framework_id a))"
    let ?d = "d\<lparr>compliance_assessments := map (\<lambda>x. if as_id x = i then ?f a else x) (compliance_assessments d)\<rparr>"
    have same: "x = a" if "x \<in> set (compliance_assessments d)" "as_id x = i" for x
      using that a dist(1) by (auto simp: distinct_map dest: inj_onD)
    have rows: "update_where (\<lambda>x. as_id x = i) ?f (compliance_assessments d)
        = map (\<lambda>x. if as_id x = i then ?f a else x) (compliance_assessments d)"
      unfolding update_where_def using same by (intro map_cong [OF refl]) auto
    have keep: "as_id (?f a) = i" "as_framework_id (?f a) = as_framework_id a" using a(2) by (simp_all add: completed_assessment_def)
    have "filter (\<lambda>x. as_id x = i) (map (\<lambda>x. if as_id x = i then ?f a else x) xs)
        = map (\<lambda>_. ?f a) (filter (\<lambda>x. as_id x = i) xs)" for xs by (induction xs) (auto simp: keep)
    then have row': "filter (\<lambda>x. as_id x = i) (compliance_assessments ?d) = [?f a]" using row by simp
    have upd: "compliance_assessments_update (update_where (\<lambda>x. as_id x = i) ?f) d = ?d"
      by (rule compliance_db.equality) (simp_all add: rows)
    have "run_request (complete_assessment fl now i) d = (assessment_to_read ?d (?f a), ?d)"
      using row' unfolding complete_assessment_def get_assessment_def get_assessment_orm_def get_framework_orm_def
      by (simp add: svc_simps scalar_one_or_none_def row fw False a(2) f(2) rows upd)
    moreover have "\<exists>R. assessment_to_read ?d (?f a) = Inr R \<and> asr_id R = i \<and> asr_status R = ''completed''
        \<and> asr_completed_at R = Some now
        \<and> asr_score R = Some (coverage fl (fl_round1 fl) (applicable (mappings_of d (as_framework_id a))))
        \<and> asr_total_controls R = Some (length (mappings_of d (as_framework_id a)))
        \<and> asr_mapped_controls R = Some (length (filter (\<lambda>m. cm_status m = MAPPED) (mappings_of d (as_framework_id a))))
        \<and> asr_gap_controls R = Some (length (filter (\<lambda>m. cm_status m = GAP) (mappings_of d (as_framework_id a))))
        \<and> asr_started_by R = as_started_by a \<and> asr_notes R = as_notes a"
      using a(2) by (simp add: assessment_to_read_def with_framework_def framework_of_def completed_assessment_def get)
    ultimately show ?thesis unfolding Some option.case if_not_P [OF False] by (metis (no_types, lifting))
  qed
qed

text \<open>The weighted coverage by the number of controls in each status.\<close>

lemma coverage_counts:
  "coverage fl rnd (applicable ms) =
     (let n = \<lambda>st. length (filter (\<lambda>m. cm_status m = st) ms); assessed = n MAPPED + n PARTIAL + n GAP
      in if assessed = 0 then 0
         else rnd (fl_mul fl (fl_div fl (of_nat (n MAPPED) + of_nat (n PARTIAL) / 2) (of_nat assessed)) 100))"
proof -
  have len: "length (applicable ms) = length (filter (\<lambda>m. cm_status m = MAPPED) ms)
      + length (filter (\<lambda>m. cm_status m = PARTIAL) ms) + length (filter (\<lambda>m. cm_status m = GAP) ms)"
  proof (induction ms)
    case (Cons m ms)
    then show ?case by (cases "cm_status m") (simp_all add: applicable_def)
  qed (simp add: applicable_def)
  have w: "weighted (applicable ms) = of_nat (length (filter (\<lambda>m. cm_status m = MAPPED) ms))
      + of_nat (length (filter (\<lambda>m. cm_status m = PARTIAL) ms)) / 2"
  proof (induction ms)
    case (Cons m ms)
    then show ?case by (cases "cm_status m") (simp_all add: applicable_def weighted_def PARTIAL_WEIGHT_def field_simps)
  qed (simp add: applicable_def weighted_def)
  show ?thesis unfolding coverage_def Let_def w len [symmetric] by simp
qed

text \<open>
  C14. Completing an assessment: 404 when it does not exist, 409 when it is completed already, both changing nothing.
  Otherwise the assessment becomes completed now, with the number of the framework's controls at that moment, of those
  mapped and of those missing, and the score: where no control applies 0, and else the rounded percentage that the mapped
  controls, counted 1, and the partial ones, counted half, make of the mapped, partial and missing ones (a control that
  does not apply is in the total and not in the score). The answer shows the same numbers, and nothing else changes.
\<close>

theorem complete_assessment_correct:
  assumes "compliance_inv d"
  shows "case get_row as_id i (compliance_assessments d) of
      None \<Rightarrow> run_request (complete_assessment fl now i) d = (Inl (HTTPException 404 ''Assessment not found''), d)
    | Some a \<Rightarrow>
        if as_status a = AssessmentStatus.COMPLETED
        then run_request (complete_assessment fl now i) d = (Inl (HTTPException 409 ''Assessment already completed''), d)
        else
          (let controls = filter (\<lambda>m. cm_framework_id m = as_framework_id a) (control_mappings d);
               n = (\<lambda>st. length (filter (\<lambda>m. cm_status m = st) controls));
               assessed = n MAPPED + n PARTIAL + n GAP;
               score = (if assessed = 0 then 0
                 else fl_round1 fl (fl_mul fl (fl_div fl (of_nat (n MAPPED) + of_nat (n PARTIAL) / 2) (of_nat assessed)) 100));
               done = a\<lparr>as_status := AssessmentStatus.COMPLETED, as_completed_at := Some now,
                 as_total_controls := Some (length controls), as_mapped_controls := Some (n MAPPED), as_gap_controls := Some (n GAP),
                 as_score := Some score\<rparr>
           in \<exists>out. run_request (complete_assessment fl now i) d = (Inr out,
                  d\<lparr>compliance_assessments := map (\<lambda>x. if as_id x = i then done else x) (compliance_assessments d)\<rparr>)
                \<and> asr_id out = i \<and> asr_status out = ''completed'' \<and> asr_completed_at out = Some now \<and> asr_score out = Some score
                \<and> asr_total_controls out = Some (length controls) \<and> asr_mapped_controls out = Some (n MAPPED)
                \<and> asr_gap_controls out = Some (n GAP) \<and> asr_started_by out = as_started_by a \<and> asr_notes out = as_notes a)"
proof (cases "get_row as_id i (compliance_assessments d)")
  case None
  with complete_assessment_run [OF assms, where i = i and fl = fl and now = now] show ?thesis by simp
next
  case (Some a)
  let ?ms = "filter (\<lambda>m. cm_framework_id m = as_framework_id a) (control_mappings d)"
  show ?thesis
  proof (cases "as_status a = AssessmentStatus.COMPLETED")
    case True
    with Some complete_assessment_run [OF assms, where i = i and fl = fl and now = now] show ?thesis by simp
  next
    case False
    with Some complete_assessment_run [OF assms, where i = i and fl = fl and now = now]
    obtain out where run: "run_request (complete_assessment fl now i) d = (Inr out, d\<lparr>compliance_assessments :=
            map (\<lambda>x. if as_id x = i then completed_assessment fl now ?ms a else x) (compliance_assessments d)\<rparr>)"
      and out: "asr_id out = i" "asr_status out = ''completed''" "asr_completed_at out = Some now"
        "asr_score out = Some (coverage fl (fl_round1 fl) (applicable ?ms))" "asr_total_controls out = Some (length ?ms)"
        "asr_mapped_controls out = Some (length (filter (\<lambda>m. cm_status m = MAPPED) ?ms))"
        "asr_gap_controls out = Some (length (filter (\<lambda>m. cm_status m = GAP) ?ms))"
        "asr_started_by out = as_started_by a" "asr_notes out = as_notes a"
      unfolding mappings_of_def by auto
    show ?thesis
      unfolding Some option.case if_not_P [OF False] Let_def
      by (rule exI [of _ out], intro conjI) (simp_all only: run out completed_assessment_def coverage_counts Let_def)
  qed
qed

section \<open>Examples\<close>

definition demo_notification :: "uuid \<Rightarrow> uuid \<Rightarrow> datetime option \<Rightarrow> Notification" where
  "demo_notification i u t = \<lparr>no_id = i, no_user_id = u, no_severity = NotificationSeverity.WARNING, no_category = ''key'', no_title = ''Rotation due'',
     no_body = ''nexus-v5'', no_source = ''hsm'', no_link = None, no_is_read = (t \<noteq> None), no_read_at = t, no_created_at = 0\<rparr>"

definition demo_rule :: AlertRule where
  "demo_rule = \<lparr>al_id = 500, al_name = ''critical'', al_description = None, al_source = ''anomaly'', al_condition = ''score > 0.9'',
     al_threshold_severity = NotificationSeverity.CRITICAL, al_channel = EMAIL, al_target = ''ops'', al_is_enabled = True, al_created_by = ''admin@nexus'',
     al_last_triggered_at = None, al_trigger_count = 0, al_created_at = 0\<rparr>"

definition demo_notify_db :: notify_db where
  "demo_notify_db = anomaly_db.extend demo_anomaly_db (notify_db.fields [demo_notification 400 1 None, demo_notification 401 2 (Some 3)] [demo_rule])"

lemma demo_notify_tables:
  "notifications demo_notify_db = [demo_notification 400 1 None, demo_notification 401 2 (Some 3)]" "alert_rules demo_notify_db = [demo_rule]"
  by (simp_all add: demo_notify_db_def notify_db.defs anomaly_db.defs)

lemma demo_notify_inv: "notify_inv demo_notify_db"
proof -
  have "rule_columns_ok demo_rule" by code_simp
  then show ?thesis by (simp add: notify_inv_def demo_notify_tables demo_notification_def) (simp add: demo_rule_def)
qed

definition demo_patch :: AlertRuleUpdate where
  "demo_patch = \<lparr>alu_name = Some (Some ''urgent''), alu_description = None, alu_source = None, alu_condition = None, alu_threshold_severity = None,
     alu_channel = None, alu_target = None, alu_is_enabled = None\<rparr>"

lemma demo_notify_users: "users demo_notify_db = users demo_auth_db"
  using demo_anomaly_tables(3) by (simp add: demo_notify_db_def notify_db.defs demo_anomaly_db_def anomaly_db.defs)

theorem notifications_are_private_witness:
  "run_request (mark_notification_read 9 2 400) demo_notify_db = (Inl (HTTPException 404 ''Notification not found''), demo_notify_db)
   \<and> (\<exists>n' d'. run_request (mark_notification_read 9 1 400) demo_notify_db = (Inr (notification_to_read n'), d') \<and> no_read_at n' = Some 9)"
proof
  show "run_request (mark_notification_read 9 2 400) demo_notify_db = (Inl (HTTPException 404 ''Notification not found''), demo_notify_db)"
    using notifications_are_private [OF demo_notify_inv, where i = 400 and u = 2 and now = 9] by (simp add: demo_notify_tables demo_notification_def)
  show "\<exists>n' d'. run_request (mark_notification_read 9 1 400) demo_notify_db = (Inr (notification_to_read n'), d') \<and> no_read_at n' = Some 9"
    using notifications_are_private [OF demo_notify_inv, where i = 400 and u = 1 and now = 9] by (auto simp: demo_notify_tables demo_notification_def)
qed

theorem notify_rows_stay_well_typed_witness:
  "notify_inv (snd (run_request (mark_all_read 9 1) demo_notify_db)) \<and> notifications (snd (run_request (mark_all_read 9 1) demo_notify_db)) \<noteq> notifications demo_notify_db"
proof -
  have "notify_step\<^sup>*\<^sup>* demo_notify_db (snd (run_request (mark_all_read 9 1) demo_notify_db))"
    by (rule r_into_rtranclp [where r = notify_step, OF step_mark_all])
  moreover have "notifications (snd (run_request (mark_all_read 9 1) demo_notify_db)) = [demo_notification 400 1 (Some 9), demo_notification 401 2 (Some 3)]"
    by (simp add: mark_all_read_def svc_simps Let_def demo_notify_tables demo_notification_def)
  ultimately show ?thesis using notify_rows_stay_well_typed [OF _ demo_notify_inv] by (simp add: demo_notify_tables demo_notification_def)
qed

theorem null_in_patch_is_a_server_error_witness:
  "\<exists>e. run_request (patch_alert_rule demo_platform demo_settings 0 500 (demo_patch\<lparr>alu_is_enabled := Some None\<rparr>)
       (Some (create_access_token demo_platform demo_settings 0 0 ''1'' []))) demo_notify_db = (Inl e, demo_notify_db)
     \<and> (\<forall>n detail. e \<noteq> HTTPException n detail)"
proof -
  let ?cred = "Some (create_access_token demo_platform demo_settings 0 0 ''1'' [])"
  have "fst (get_current_user demo_platform demo_settings 0 ?cred \<lparr>committed = demo_auth_db, working = demo_auth_db\<rparr>) = Inr demo_user"
    by code_simp
  then have "fst (get_current_user demo_platform demo_settings 0 ?cred \<lparr>committed = demo_notify_db, working = demo_notify_db\<rparr>) = Inr demo_user"
    by (subst current_user_of_users [where s' = "\<lparr>committed = demo_auth_db, working = demo_auth_db\<rparr>"]) (simp_all add: demo_notify_users)
  then have user: "fst (run_request (get_current_user demo_platform demo_settings 0 ?cred) demo_notify_db) = Inr demo_user"
    by (simp add: run_request_def split_beta)
  have "valid_AlertRuleUpdate demo_patch" by code_simp
  from null_in_patch_is_a_server_error [OF this, of "demo_patch\<lparr>alu_is_enabled := Some None\<rparr>" demo_notify_db 500, OF _ _ _ user]
  show ?thesis by (simp add: demo_notify_tables demo_rule_def demo_patch_def demo_user_def)
qed

text \<open>A framework with a mapped, a partial, a missing and an inapplicable control, under assessment.\<close>

definition demo_framework :: ComplianceFramework where
  "demo_framework = \<lparr>fw_id = 600, fw_code = SOC2, fw_display_name = ''SOC 2'', fw_subtitle = ''Type II'', fw_description = ''Trust services'',
     fw_auditor = None, fw_certified = True, fw_cert_expires_at = None, fw_score = 90\<rparr>"

definition demo_control :: "uuid \<Rightarrow> string \<Rightarrow> ControlStatus \<Rightarrow> ControlMapping" where
  "demo_control i domain st = \<lparr>cm_id = i, cm_framework_id = 600, cm_control_domain = domain, cm_control_description = domain, cm_control_code = ''CC'', cm_status = st\<rparr>"

definition demo_assessment :: ComplianceAssessment where
  "demo_assessment = \<lparr>as_id = 620, as_framework_id = 600, as_status = AssessmentStatus.IN_PROGRESS, as_started_by = ''admin@nexus'', as_started_at = 0,
     as_completed_at = None, as_score = None, as_total_controls = None, as_mapped_controls = None, as_gap_controls = None, as_notes = None\<rparr>"

definition demo_compliance_db :: compliance_db where
  "demo_compliance_db = notify_db.extend demo_notify_db (compliance_db.fields [demo_framework]
     [demo_control 610 ''access'' MAPPED, demo_control 611 ''backup'' PARTIAL, demo_control 612 ''crypto'' GAP, demo_control 613 ''paper'' NOT_APPLICABLE]
     [] [] [demo_assessment] [])"

definition demo_cfl :: compliance_floats where
  "demo_cfl = anomaly_floats.extend demo_afl (compliance_floats.fields (\<lambda>x. x))"

lemma demo_compliance_tables:
  "compliance_frameworks demo_compliance_db = [demo_framework]" "compliance_assessments demo_compliance_db = [demo_assessment]"
  "mappings_of demo_compliance_db 600 = [demo_control 610 ''access'' MAPPED, demo_control 611 ''backup'' PARTIAL, demo_control 612 ''crypto'' GAP,
     demo_control 613 ''paper'' NOT_APPLICABLE]"
  by (simp_all add: demo_compliance_db_def compliance_db.defs notify_db.defs mappings_of_def demo_control_def)

lemma demo_compliance_inv: "compliance_inv demo_compliance_db"
  by (simp add: compliance_inv_def demo_compliance_tables demo_assessment_def demo_framework_def assessment_ok_def)

lemma demo_percent_law: "percent_law demo_cfl"
proof -
  have "0 \<le> round (10 * x) \<and> round (10 * x) \<le> 1000" if "0 \<le> x" "x \<le> 100" for x :: rat
    using round_mono [of 0 "10 * x"] round_mono [of "10 * x" 1000] that by simp
  then show ?thesis
  by (simp add: percent_law_def demo_cfl_def demo_afl_def demo_fl_def demo_floats_def compliance_floats.defs anomaly_floats.defs hsm_floats.defs floats.defs)
qed

lemma demo_exact: "fl_div demo_cfl x y = x / y" "fl_mul demo_cfl x y = x * y" "fl_round1 demo_cfl x = of_int (round (10 * x)) / 10"
  by (simp_all add: demo_cfl_def demo_afl_def demo_fl_def demo_floats_def compliance_floats.defs anomaly_floats.defs hsm_floats.defs floats.defs)

lemma demo_score: "coverage demo_cfl (fl_round1 demo_cfl) (applicable (mappings_of demo_compliance_db 600)) = 50"
  by (simp add: demo_compliance_tables demo_control_def applicable_def coverage_def weighted_def PARTIAL_WEIGHT_def demo_cfl_def demo_afl_def demo_fl_def
      demo_floats_def compliance_floats.defs anomaly_floats.defs hsm_floats.defs floats.defs)

lemma demo_assessment_row: "get_row as_id 620 (compliance_assessments demo_compliance_db) = Some demo_assessment"
  by (simp add: demo_compliance_tables get_row_def demo_assessment_def)

theorem complete_assessment_correct_witness:
  "\<exists>out d'. run_request (complete_assessment demo_cfl 9 620) demo_compliance_db = (Inr out, d') \<and> asr_score out = Some 50 \<and> asr_total_controls out = Some 4"
proof -
  have a: "as_status demo_assessment \<noteq> AssessmentStatus.COMPLETED" "as_framework_id demo_assessment = 600" by (simp_all add: demo_assessment_def)
  note controls = demo_compliance_tables(3) [unfolded mappings_of_def]
  from complete_assessment_correct [OF demo_compliance_inv, where i = 620 and fl = demo_cfl and now = 9, unfolded demo_assessment_row option.case if_not_P [OF a(1)] a(2) Let_def controls]
  show ?thesis by (auto simp: demo_control_def demo_exact)
qed

definition demo_assessed :: compliance_db where
  "demo_assessed = snd (run_request (complete_assessment demo_cfl 9 620) demo_compliance_db)"

lemma demo_assessed_rows:
  "compliance_assessments demo_assessed = [completed_assessment demo_cfl 9 (mappings_of demo_compliance_db 600) demo_assessment]"
proof -
  have rows: "filter (\<lambda>a. as_id a = 620) [demo_assessment] = [demo_assessment]" "filter (\<lambda>f. fw_id f = 600) [demo_framework] = [demo_framework]"
    "as_status demo_assessment = AssessmentStatus.IN_PROGRESS" "as_framework_id demo_assessment = 600" "as_id demo_assessment = 620" "fw_id demo_framework = 600"
    by (simp_all add: demo_assessment_def demo_framework_def)
  have "ends (complete_assessment demo_cfl 9 620) \<lparr>committed = demo_compliance_db, working = demo_compliance_db\<rparr>
    (\<lambda>r s. compliance_assessments (committed s) = [completed_assessment demo_cfl 9 (mappings_of demo_compliance_db 600) demo_assessment])"
    unfolding complete_assessment_def get_assessment_orm_def get_framework_orm_def get_assessment_def
    by (simp add: ends_simps demo_compliance_tables(1,2) rows scalar_one_or_none_def)
  from ends_snd [OF this] show ?thesis by (simp add: demo_assessed_def)
qed

theorem completed_assessments_are_final_witness:
  "completed_assessment demo_cfl 9 (mappings_of demo_compliance_db 600) demo_assessment
     \<in> set (compliance_assessments (snd (run_request (start_assessment 621 10 600 ''admin@nexus'') demo_assessed)))"
proof -
  have step: "compliance_step demo_cfl demo_compliance_db demo_assessed" unfolding demo_assessed_def by (rule step_complete)
  have "compliance_step demo_cfl demo_assessed (snd (run_request (start_assessment 621 10 600 ''admin@nexus'') demo_assessed))" by (rule step_start)
  from completed_assessments_are_final [OF r_into_rtranclp [where r = "compliance_step demo_cfl", OF this]
      completed_assessments_are_final [OF r_into_rtranclp [where r = "compliance_step demo_cfl", OF step] demo_compliance_inv demo_percent_law, THEN conjunct1]
      demo_percent_law, THEN conjunct2, THEN conjunct1]
  show ?thesis by (simp add: demo_assessed_rows) (simp add: completed_assessment_def)
qed

end
