(* ===== verification/DashboardProps.thy ===== *)
theory DashboardProps
  imports Dashboard ServiceProps
begin

text \<open>
  What the aggregates of the command centre promise: the views of the open anomalies agree whatever the
  table holds, the buckets of a trend partition its window, and the integrity that the activity reports
  is a constant.
\<close>

section \<open>Counting groups\<close>

lemma count_of_group_counts: "count_of (group_counts f rows) k = count_rows (\<lambda>r. f r = k) rows"
proof -
  have "map_of (map (\<lambda>k. (k, count_rows (\<lambda>r. f r = k) rows)) ks) k = (if k \<in> set ks then Some (count_rows (\<lambda>r. f r = k) rows) else None)"
    for ks by (induction ks) auto
  moreover have "count_rows (\<lambda>r. f r = k) rows = 0" if "k \<notin> f ` set rows"
    using that by (auto simp: count_rows_def filter_empty_conv)
  ultimately show ?thesis by (auto simp: count_of_def group_counts_def)
qed

lemma count_rows_add:
  assumes "\<And>r. r \<in> set rows \<Longrightarrow> P r \<longleftrightarrow> Q r \<or> R r" and "\<And>r. Q r \<Longrightarrow> \<not> R r"
  shows "count_rows P rows = count_rows Q rows + count_rows R rows"
  using assms(1)
proof (induction rows)
  case (Cons a rows)
  then have "count_rows P rows = count_rows Q rows + count_rows R rows" and "P a \<longleftrightarrow> Q a \<or> R a" by auto
  then show ?case using assms(2) [of a] by (auto simp: count_rows_def)
qed (simp add: count_rows_def)

lemma count_rows_groups:
  assumes "distinct ks" and "\<And>r. r \<in> set rows \<Longrightarrow> P r \<Longrightarrow> f r \<in> set ks"
  shows "(\<Sum>k\<leftarrow>ks. count_rows (\<lambda>r. f r = k \<and> P r) rows) = count_rows P rows"
  using assms
proof (induction ks arbitrary: P)
  case Nil
  then show ?case by (auto simp: count_rows_def filter_empty_conv)
next
  case (Cons a ks)
  have "(\<Sum>k\<leftarrow>ks. count_rows (\<lambda>r. f r = k \<and> P r) rows) = (\<Sum>k\<leftarrow>ks. count_rows (\<lambda>r. f r = k \<and> P r \<and> f r \<noteq> a) rows)"
    using Cons.prems(1) by (intro arg_cong [of _ _ sum_list] map_cong refl arg_cong2 [of _ _ _ _ count_rows]) auto
  also have "\<dots> = count_rows (\<lambda>r. P r \<and> f r \<noteq> a) rows"
    using Cons.prems by (intro Cons.IH) auto
  finally have "(\<Sum>k\<leftarrow>ks. count_rows (\<lambda>r. f r = k \<and> P r) rows) = count_rows (\<lambda>r. P r \<and> f r \<noteq> a) rows" .
  moreover have "count_rows P rows = count_rows (\<lambda>r. f r = a \<and> P r) rows + count_rows (\<lambda>r. P r \<and> f r \<noteq> a) rows"
    by (rule count_rows_add) auto
  ultimately show ?case by simp
qed

lemma count_rows_filter: "count_rows P (filter Q rows) = count_rows (\<lambda>r. P r \<and> Q r) rows"
  by (simp add: count_rows_def conj_commute)

lemma group_keys: "map fst (group_counts f rows) = rev (remdups (rev (map f rows)))"
  by (simp add: group_counts_def comp_def)

section \<open>Properties\<close>

text \<open>
  C18. The three screens that count open anomalies agree on every database: the number of the summary is
  the sum of the open and the investigating events of the overview, the sum of its counts by severity,
  and the sum of the open counts of the categories of the anomaly screen; none of them changes a row.
\<close>

theorem dashboard_views_agree:
  fixes d :: "'z compliance_db_scheme"
  shows "\<exists>summary kpis types. run_request (get_summary now) d = (Inr summary, d)
    \<and> run_request (get_anomaly_overview now') d = (Inr kpis, d) \<and> run_request get_anomaly_types d = (Inr types, d)
    \<and> ds_open_anomalies summary = kp_open_count kpis + kp_investigating_count kpis
    \<and> ds_open_anomalies summary = sum_list (map sct_count (kp_open_by_severity kpis))
    \<and> ds_open_anomalies summary = sum_list (map ats_open_count (aty_categories types))"
proof -
  let ?es = "anomaly_events d" and ?open = "\<lambda>e. ae_status e \<in> set OPEN_ANOMALY_STATUSES"
  have status: "count_rows ?open ?es
      = count_rows (\<lambda>e. ae_status e = AnomalyStatus.OPEN) ?es + count_rows (\<lambda>e. ae_status e = AnomalyStatus.INVESTIGATING) ?es"
    by (rule count_rows_add) (auto simp: OPEN_ANOMALY_STATUSES_def)
  let ?sevs = "[AnomalySeverity.CRITICAL, AnomalySeverity.HIGH, AnomalySeverity.MEDIUM, AnomalySeverity.LOW]"
  have sev: "(\<Sum>k\<leftarrow>?sevs. count_rows (\<lambda>e. ae_severity e = k \<and> ?open e) ?es) = count_rows ?open ?es"
  proof (rule count_rows_groups)
    show "ae_severity e \<in> set ?sevs" for e by (cases "ae_severity e") simp_all
  qed simp
  let ?ks = "map fst (order_by_desc snd (group_counts ae_category ?es))"
  have "set ?ks = ae_category ` set ?es"
    using arg_cong [OF group_keys [of ae_category ?es], of set] by (simp add: order_by_desc_def)
  moreover have "distinct (map fst (group_counts ae_category ?es))" by (simp add: group_keys)
  then have "distinct ?ks"
    by (simp add: order_by_desc_def distinct_map)
  ultimately have cat: "(\<Sum>k\<leftarrow>?ks. count_rows (\<lambda>e. ae_category e = k \<and> ?open e) ?es) = count_rows ?open ?es"
    by (intro count_rows_groups) auto
  then show ?thesis using status sev
    by (simp add: get_summary_def get_anomaly_overview_def get_anomaly_types_def run_request_def query_def Let_def
        count_of_group_counts count_rows_filter comp_def case_prod_unfold OPEN_ANOMALY_STATUSES_def)
qed

text \<open>
  C19. The activity of the dashboard reports every entry with the integrity ''valid'', whatever the chain
  verification says: when verification fails there are broken rows, and on a page that holds the whole log
  each of them is listed as valid, where the audit log lists the same row as unverified.
\<close>

theorem dashboard_claims_unverified_integrity:
  fixes d :: "'z compliance_db_scheme"
  assumes "fst (run_request (verify_chain pf t) d) = Inr report" and "\<not> cvr_is_valid report"
    and "length (audit_log_entries d) \<le> n"
  shows "\<exists>rows rows'. broken pf (sort_key ale_sequence (audit_log_entries d)) \<noteq> []
    \<and> run_request (get_activity pf 1 n
         \<lparr>xf_tenant_id = None, xf_event_type = None, xf_severity = None, xf_created_from = None, xf_created_to = None\<rparr>) d
       = (Inr (rows, length (audit_log_entries d)), d)
    \<and> run_request (list_entries pf
         \<lparr>ef_severity = None, ef_event_type = None, ef_tenant_slug = None, ef_from_time = None, ef_to_time = None\<rparr> None None 1 n) d
       = (Inr (rows', length (audit_log_entries d)), d)
    \<and> (\<forall>e \<in> set (broken pf (sort_key ale_sequence (audit_log_entries d))).
         entry_to_read e ''valid'' \<in> set rows \<and> entry_to_read e ''unverified'' \<in> set rows')"
proof -
  let ?es = "sort_key ale_sequence (audit_log_entries d)"
  have "broken pf ?es \<noteq> []"
    using assms(1,2) by (auto simp: verify_chain_run chain_ok_broken Let_def)
  moreover have "set (broken pf ?es) \<subseteq> set (audit_log_entries d)"
    by (auto simp: broken_def links_def dest: set_zip_rightD)
  moreover have "page_of 1 n (order_by_desc ale_sequence (audit_log_entries d)) = order_by_desc ale_sequence (audit_log_entries d)"
    using assms(3) by (simp add: page_of_def order_by_desc_def)
  ultimately show ?thesis
    by (auto simp: get_activity_def list_entries_def run_request_def query_e_def Let_def activity_known_def activity_matches_def
        filter_known_def entry_matches_def search_matches_def truthy_def ilike_opt_def entry_to_read_def order_by_desc_def)
qed

definition demo_forged_entry :: AuditLogEntry where
  "demo_forged_entry = \<lparr>ale_id = 700, ale_sequence = 1, ale_occurred_at = 5, ale_severity = AuditSeverity.INFO,
     ale_event_type = AuditEventType.STATE_CHANGE, ale_event_subtype = ''STATE'', ale_tenant_id = None, ale_tenant_slug = None,
     ale_actor = ''nobody'', ale_source_ip = None, ale_description = ''forged'', ale_metadata_json = JDict [], ale_prev_hash = None,
     ale_entry_hash = ''forged'', ale_signing_key_id = ''key'', ale_signature = ''none'', ale_created_at = 5\<rparr>"

definition demo_forged_db :: compliance_db where
  "demo_forged_db = demo_compliance_db\<lparr>audit_log_entries := [demo_forged_entry]\<rparr>"

theorem dashboard_claims_unverified_integrity_witness:
  "\<exists>rows. run_request (get_activity (demo_K CHR 0x01) 1 1
      \<lparr>xf_tenant_id = None, xf_event_type = None, xf_severity = None, xf_created_from = None, xf_created_to = None\<rparr>) demo_forged_db
     = (Inr (rows, 1), demo_forged_db) \<and> entry_to_read demo_forged_entry ''valid'' \<in> set rows"
proof -
  let ?pf = "demo_K CHR 0x01"
  have rows: "audit_log_entries demo_forged_db = [demo_forged_entry]" by (simp add: demo_forged_db_def)
  have "\<not> entry_ok ?pf None demo_forged_entry"
    by (simp add: entry_ok_def Let_def demo_K_hash hexlify_digit demo_forged_entry_def)
  then have broken: "broken ?pf [demo_forged_entry] = [demo_forged_entry]" by (simp add: broken_def links_def)
  obtain report where "fst (run_request (verify_chain ?pf 0) demo_forged_db) = Inr report" "\<not> cvr_is_valid report"
    using broken by (simp add: verify_chain_run rows Let_def chain_ok_broken)
  from dashboard_claims_unverified_integrity [OF this, of 1] show ?thesis by (auto simp: rows broken)
qed

end
