(* ===== verification/OperationsProps.thy ===== *)
theory OperationsProps
  imports Operations DashboardProps
begin

text \<open>
  What the command centre and the observability endpoints promise: which rows the overview shows and when
  a cluster has a quorum, where the two summaries of the traffic differ, and what the probes answer when the
  database fails.
\<close>

section \<open>The first row of each key\<close>

lemma first_per_key_subset: "set (first_per_key key seen rs) \<subseteq> set rs"
  by (induction key seen rs rule: first_per_key.induct) auto

lemma first_per_key_distinct:
  "distinct (map key (first_per_key key seen rs)) \<and> key ` set (first_per_key key seen rs) \<inter> set seen = {}"
  by (induction key seen rs rule: first_per_key.induct) auto

lemma first_per_key_covers:
  assumes "sorted_wrt (\<lambda>a b. key a = key b \<longrightarrow> R a b) rs" and "\<And>r. R r r" and "r \<in> set rs" and "key r \<notin> set seen"
  shows "\<exists>a \<in> set (first_per_key key seen rs). key a = key r \<and> R a r"
  using assms
proof (induction key seen rs rule: first_per_key.induct)
  case (2 key seen a rs)
  show ?case
  proof (cases "key a \<in> set seen")
    case True
    with 2 show ?thesis by auto
  next
    case False
    show ?thesis
    proof (cases "key a = key r")
      case True
      with False 2(3-5) show ?thesis by auto
    next
      case other: False
      have "sorted_wrt (\<lambda>a b. key a = key b \<longrightarrow> R a b) rs" "r \<in> set rs" "key r \<notin> set (key a # seen)"
        using 2(3,5,6) other by auto
      from "2.IH"(2) [OF False this(1) 2(4) this(2,3)] False show ?thesis by auto
    qed
  qed
qed simp

lemma first_per_key_single:
  assumes "\<And>r. r \<in> set rs \<Longrightarrow> key r = k" and "rs \<noteq> []"
  shows "first_per_key key [] rs = [hd rs]"
proof -
  have "first_per_key key seen ts = []" if "k \<in> set seen" "\<And>r. r \<in> set ts \<Longrightarrow> key r = k" for seen ts
    using that by (induction ts) auto
  then show ?thesis using assms by (cases rs) auto
qed

lemma set_order_by_desc [simp]: "set (order_by_desc t rs) = set rs"
  by (simp add: order_by_desc_def)

lemma order_by_desc_Nil [simp]: "order_by_desc t rs = [] \<longleftrightarrow> rs = []"
  using set_order_by_desc [of t rs] by (metis set_empty2)

lemma order_by_desc_newest:
  assumes "r \<in> set rs"
  shows "t r \<le> t (hd (order_by_desc t rs))"
proof -
  obtain a list where rows: "order_by_desc t rs = a # list" using assms by (cases "order_by_desc t rs") auto
  have "sorted (map (\<lambda>r. - t r) (a # list))" by (simp add: order_by_desc_def flip: rows)
  moreover have "r \<in> set (a # list)" using assms by (simp only: set_order_by_desc flip: rows)
  ultimately show ?thesis by (auto simp: rows)
qed

text \<open>Within a key the samples come from the newest to the oldest.\<close>

lemma latest_first:
  "sorted_wrt (\<lambda>a b. f a = f b \<longrightarrow> t b \<le> t a) (sort_key f (order_by_desc t rs))"
proof -
  have desc: "sorted_wrt (\<lambda>a b. t b \<le> t a) (order_by_desc t rs)"
    using sorted_sort_key [of "\<lambda>r. - t r" rs] by (simp add: order_by_desc_def sorted_wrt_map)
  let ?xs = "sort_key f (order_by_desc t rs)"
  have "t (?xs ! j) \<le> t (?xs ! i)" if ij: "i < j" "j < length ?xs" and same: "f (?xs ! i) = f (?xs ! j)" for i j
  proof -
    let ?P = "\<lambda>x. f x = f (?xs ! i)"
    have "filter ?P ?xs = filter ?P (order_by_desc t rs)" by (rule sort_key_stable)
    then have ord: "sorted_wrt (\<lambda>a b. t b \<le> t a) (filter ?P ?xs)"
      using desc by (simp add: sorted_wrt_filter)
    have split: "?xs = take j ?xs @ drop j ?xs" by simp
    have "?xs ! i \<in> set (filter ?P (take j ?xs))" using ij by (auto simp: in_set_conv_nth intro!: exI [of _ i])
    moreover have "?xs ! j \<in> set (filter ?P (drop j ?xs))"
      using ij same by (auto simp: in_set_conv_nth intro!: exI [of _ 0])
    moreover have "filter ?P ?xs = filter ?P (take j ?xs) @ filter ?P (drop j ?xs)"
      using arg_cong [OF split, of "filter ?P"] by (simp only: filter_append)
    ultimately show ?thesis using ord by (simp only: sorted_wrt_append)
  qed
  then show ?thesis by (auto simp: sorted_wrt_iff_nth_less)
qed

lemma MetricKey_value_inj: "MetricKey_value a = MetricKey_value b \<longleftrightarrow> a = b"
  by (cases a; cases b; simp)

lemma MetricKey_name_inj: "MetricKey_name a = MetricKey_name b \<longleftrightarrow> a = b"
  by (cases a; cases b; simp)

section \<open>Properties\<close>

text \<open>
  C20. The overview shows the operational engine that was created first and its own rows only: each metric
  once, with its newest sample, and the cluster has a quorum exactly when more than half of the nodes of
  that engine answer within the threshold. Reading it changes nothing.
\<close>

theorem command_center_overview_correct:
  assumes "run_request (get_command_center_overview fl now_identity now_oidc) d = (Inr r, d')"
  shows "d' = d \<and> (\<exists>i \<in> set (engine_instances d). ei_is_operational i \<and> cco_engine r = build_identity fl now_identity i
    \<and> (\<forall>j \<in> set (engine_instances d). ei_is_operational j \<longrightarrow> ei_created_at i \<le> ei_created_at j)
    \<and> distinct (map shm_metric_key (cco_system_health r))
    \<and> (\<forall>m \<in> set (cco_system_health r). \<exists>s \<in> set (system_metric_samples d). sms_engine_instance_id s = ei_id i \<and> m = health_metric fl s)
    \<and> (\<forall>s \<in> set (system_metric_samples d). sms_engine_instance_id s = ei_id i \<longrightarrow>
         (\<exists>m \<in> set (cco_system_health r). shm_metric_key m = MetricKey_value (sms_metric_key s) \<and> sms_recorded_at s \<le> shm_recorded_at m))
    \<and> (let nodes = filter (\<lambda>n. en_engine_instance_id n = ei_id i) (etcd_nodes d) in
         ecs_has_quorum (cco_etcd_cluster r) \<longleftrightarrow> length nodes < 2 * length (filter (\<lambda>n. en_lag_ms n < 5000) nodes)))"
proof -
  let ?ops = "sort_key ei_created_at (filter ei_is_operational (engine_instances d))"
  obtain i where i: "first_row ?ops = Some i"
    using assms by (auto simp: get_command_center_overview_def get_engine_instance_def svc_simps split: option.splits)
  then obtain others where ops: "?ops = i # others" by (auto simp: first_row_def split: list.splits)
  have mem: "set ?ops = {x \<in> set (engine_instances d). ei_is_operational x}" by simp
  have first: "i \<in> set (engine_instances d)" "ei_is_operational i" using mem unfolding ops by auto
  have oldest: "ei_created_at i \<le> ei_created_at j" if "j \<in> set (engine_instances d)" "ei_is_operational j" for j
    using sorted_sort_key [of ei_created_at "filter ei_is_operational (engine_instances d)"] that mem unfolding ops by auto
  let ?own = "filter (\<lambda>s. sms_engine_instance_id s = ei_id i) (system_metric_samples d)"
  let ?samples = "sort_key (\<lambda>s. MetricKey_name (sms_metric_key s)) (order_by_desc sms_recorded_at ?own)"
  let ?key = "\<lambda>s. MetricKey_value (sms_metric_key s)"
  let ?kept = "first_per_key ?key [] ?samples"
  have own: "set ?samples = set ?own" by (simp add: order_by_desc_def)
  have r: "d' = d" "cco_engine r = build_identity fl now_identity i" "cco_system_health r = map (health_metric fl) ?kept"
    "cco_etcd_cluster r = build_etcd_cluster (filter (\<lambda>n. en_engine_instance_id n = ei_id i) (etcd_nodes d))"
    using assms by (auto simp: get_command_center_overview_def get_engine_instance_def latest_system_health_def build_api_rate_summary_def
        svc_simps Let_def i)
  have keys: "shm_metric_key (health_metric fl s) = ?key s" "shm_recorded_at (health_metric fl s) = sms_recorded_at s" for s
    by (simp_all add: health_metric_def Let_def)
  have "distinct (map shm_metric_key (cco_system_health r))"
    using first_per_key_distinct [of ?key "[]" ?samples] by (simp add: r(3) keys comp_def)
  moreover have "\<forall>m \<in> set (cco_system_health r). \<exists>s \<in> set (system_metric_samples d). sms_engine_instance_id s = ei_id i \<and> m = health_metric fl s"
    using first_per_key_subset [of ?key "[]" ?samples] unfolding own by (auto simp: r(3))
  moreover have "\<exists>m \<in> set (cco_system_health r). shm_metric_key m = ?key s \<and> sms_recorded_at s \<le> shm_recorded_at m"
    if "s \<in> set (system_metric_samples d)" "sms_engine_instance_id s = ei_id i" for s
  proof -
    have "sorted_wrt (\<lambda>a b. ?key a = ?key b \<longrightarrow> sms_recorded_at b \<le> sms_recorded_at a) ?samples"
      using latest_first [of "\<lambda>s. MetricKey_name (sms_metric_key s)" sms_recorded_at ?own] by (simp add: MetricKey_value_inj MetricKey_name_inj)
    from first_per_key_covers [OF this, of s "[]"] show ?thesis using that own by (auto simp: r(3) keys)
  qed
  moreover have "(if nodes \<noteq> [] then length nodes div 2 + 1 \<le> n else False) \<longleftrightarrow> length nodes < 2 * n" if "n \<le> length nodes" for nodes :: "EtcdNode list" and n
    using that by (cases nodes) auto
  then have "ecs_has_quorum (build_etcd_cluster nodes) \<longleftrightarrow> length nodes < 2 * length (filter (\<lambda>n. en_lag_ms n < 5000) nodes)" for nodes
    using length_filter_le [of "\<lambda>n. en_lag_ms n < 5000" nodes] unfolding build_etcd_cluster_def Let_def QUORUM_LAG_THRESHOLD_MS_def
    by (simp only: EtcdClusterStatus.simps)
  ultimately show ?thesis using first oldest r(1,2,4) by (auto simp: Let_def)
qed

text \<open>
  C21. The two summaries of the traffic count different things: when every stored sample is of one endpoint
  of one engine, the command centre reports its newest sample, the metrics summary adds up the whole history
  of samples and lists the endpoint once for each of them, up to five times.
\<close>

theorem metrics_summary_counts_stale_samples:
  fixes d :: "'z operations_db_scheme"
  assumes "\<forall>s \<in> set (api_endpoint_stats d). aes_endpoint_path s = p \<and> aes_engine_instance_id s = i"
    and "api_endpoint_stats d \<noteq> []"
  shows "\<exists>rate summary newest. run_request (build_api_rate_summary fl i) d = (Inr rate, d)
    \<and> run_request (get_metrics_summary fl) d = (Inr summary, d)
    \<and> newest \<in> set (api_endpoint_stats d) \<and> (\<forall>s \<in> set (api_endpoint_stats d). aes_recorded_at s \<le> aes_recorded_at newest)
    \<and> map aeb_endpoint_path (ars_endpoints rate) = [p] \<and> ars_throttled rate = aes_throttled_count newest
    \<and> ars_rejected rate = aes_rejected_count newest \<and> ars_current_rate rate = fl_round1 fl (fl_sum fl [aes_requests_per_second newest])
    \<and> map eth_endpoint_path (mes_top_endpoints summary) = replicate (min 5 (length (api_endpoint_stats d))) p
    \<and> mes_total_throttled summary = (\<Sum>s\<leftarrow>api_endpoint_stats d. aes_throttled_count s)
    \<and> mes_total_rejected summary = (\<Sum>s\<leftarrow>api_endpoint_stats d. aes_rejected_count s)
    \<and> mes_total_requests_per_second summary = fl_round2 fl (fl_sum fl (map aes_requests_per_second (api_endpoint_stats d)))"
proof -
  let ?rows = "api_endpoint_stats d"
  let ?newest = "hd (order_by_desc aes_recorded_at ?rows)"
  have own: "filter (\<lambda>s. aes_engine_instance_id s = i) ?rows = ?rows" using assms(1) by (simp add: filter_id_conv)
  have rows: "set (order_by_desc aes_recorded_at ?rows) = set ?rows" "order_by_desc aes_recorded_at ?rows \<noteq> []"
    using assms(2) by simp_all
  have paths: "map aes_endpoint_path xs = replicate (length xs) p" if "set xs \<subseteq> set ?rows" for xs
    using that assms(1) by (induction xs) auto
  have newest: "?newest \<in> set ?rows" using rows hd_in_set by metis
  have "first_per_key aes_endpoint_path [] (take 20 (order_by_desc aes_recorded_at ?rows)) = [hd (take 20 (order_by_desc aes_recorded_at ?rows))]"
    by (rule first_per_key_single [where k = p]) (use rows assms(1) in \<open>auto dest: in_set_takeD\<close>)
  then have one: "first_per_key aes_endpoint_path [] (take 20 (order_by_desc aes_recorded_at ?rows)) = [?newest]"
    using rows(2) by (cases "order_by_desc aes_recorded_at ?rows") auto
  let ?top = "take 5 (sort_key (\<lambda>s. - aes_requests_per_second s) ?rows)"
  have "set ?top \<subseteq> set ?rows" by (auto dest: in_set_takeD)
  from paths [OF this] have top: "map aes_endpoint_path ?top = replicate (min 5 (length ?rows)) p" by (simp add: min.commute)
  define rate where "rate = projr (fst (run_request (build_api_rate_summary fl i) d))"
  define summary where "summary = projr (fst (run_request (get_metrics_summary fl) d))"
  have rate: "run_request (build_api_rate_summary fl i) d = (Inr rate, d)" "map aeb_endpoint_path (ars_endpoints rate) = [p]"
    "ars_throttled rate = aes_throttled_count ?newest" "ars_rejected rate = aes_rejected_count ?newest"
    "ars_current_rate rate = fl_round1 fl (fl_sum fl [aes_requests_per_second ?newest])"
    using newest assms(1) by (simp_all add: rate_def build_api_rate_summary_def run_request_def query_def Let_def own one)
  have summary: "run_request (get_metrics_summary fl) d = (Inr summary, d)"
    "map eth_endpoint_path (mes_top_endpoints summary) = replicate (min 5 (length ?rows)) p"
    "mes_total_throttled summary = (\<Sum>s\<leftarrow>?rows. aes_throttled_count s)"
    "mes_total_rejected summary = (\<Sum>s\<leftarrow>?rows. aes_rejected_count s)"
    "mes_total_requests_per_second summary = fl_round2 fl (fl_sum fl (map aes_requests_per_second ?rows))"
    using top by (simp_all add: summary_def get_metrics_summary_def run_request_def query_def Let_def endpoint_throughput_def comp_def)
  show ?thesis
    by (intro exI [of _ rate] exI [of _ summary] exI [of _ ?newest] conjI ballI rate summary newest order_by_desc_newest)
qed

text \<open>A statement that fails aborts the transaction, in which every later statement fails.\<close>

definition aborted_law :: "(nat \<Rightarrow> bool) \<Rightarrow> bool" where
  "aborted_law answers \<longleftrightarrow> (\<forall>k. \<not> answers k \<longrightarrow> \<not> answers (Suc k))"

text \<open>
  C22. The two readiness probes answer an outage differently: the system probe answers 503 with the status
  not_ready and without the text of the exception; the operational readiness, which documents the same
  answer, never gives it, since the statement after the failed one fails as well and raises: every answer
  it does give is ready.
\<close>

theorem readiness_probes_disagree_on_outage:
  fixes d :: "'z operations_db_scheme"
  assumes "aborted_law answers"
  shows "(\<forall>r. fst (run_request (get_operational_readiness fl st now elapsed pool head answers) d) = Inr r \<longrightarrow> opr_status r = ''ready'')
    \<and> (\<not> answers 0 \<longrightarrow>
         fst (run_request (get_operational_readiness fl st now elapsed pool head answers) d) = Inl (DatabaseError ''statement failed''))
    \<and> (\<exists>r. fst (run_request (readiness None) d) = Inr (200, r) \<and> rdr_status r = ''ready'')
    \<and> (\<forall>exc. \<exists>r. fst (run_request (readiness (Some exc)) d) = Inr (503, r) \<and> rdr_status r = ''not_ready''
         \<and> map dph_detail (rdr_dependencies r) = [Some ''unavailable''])"
proof (cases "answers 0")
  case True
  then show ?thesis
    by (auto simp: get_operational_readiness_def get_db_status_def readiness_def check_database_def svc_simps Let_def
        split: prod.splits sum.splits option.splits)
next
  case False
  then have "\<not> answers 1" using assms by (simp add: aborted_law_def)
  with False show ?thesis
    by (simp add: get_operational_readiness_def get_migration_status_def execute_def readiness_def check_database_def svc_simps Let_def)
qed

section \<open>Examples\<close>

text \<open>An engine with three nodes, one of which lags behind, and two samples of one endpoint.\<close>

definition demo_engine :: EngineInstance where
  "demo_engine = \<lparr>ei_id = 700, ei_instance_uuid = ''nx-1'', ei_name = ''nexus'', ei_region = ''us-east'', ei_availability_zone = ''a'',
     ei_cluster_role = PRIMARY, ei_build_hash = ''b1'', ei_build_branch = ''main'', ei_version = ''1'', ei_started_at = 0, ei_is_operational = True,
     ei_oidc_provider = None, ei_oidc_active_tokens = 0, ei_oidc_auth_rate = 0, ei_oidc_failure_count = 0, ei_oidc_jwks_refreshed_at = None,
     ei_oidc_cert_valid_until = None, ei_created_at = 0, ei_updated_at = 0\<rparr>"

definition demo_node :: "uuid \<Rightarrow> rat \<Rightarrow> EtcdNode" where
  "demo_node i lag = \<lparr>en_id = i, en_engine_instance_id = 700, en_node_name = ''etcd'', en_address = ''10.0.0.1'', en_is_leader = False,
     en_raft_term = 4, en_lag_ms = lag, en_db_size_bytes = 100, en_created_at = 0, en_updated_at = 0\<rparr>"

definition demo_stat :: "uuid \<Rightarrow> int \<Rightarrow> datetime \<Rightarrow> ApiEndpointStat" where
  "demo_stat i throttled t = \<lparr>aes_id = i, aes_engine_instance_id = 700, aes_endpoint_path = ''/ingest'', aes_requests_per_second = 90,
     aes_throttled_count = throttled, aes_rejected_count = 0, aes_latency_p99_ms = 8, aes_recorded_at = t\<rparr>"

definition demo_operations_db :: operations_db where
  "demo_operations_db = engine_db.extend (compliance_db.extend demo_compliance_db (engine_db.fields [demo_engine]
     [demo_node 701 2, demo_node 702 6, demo_node 703 9000] [] [demo_stat 710 7 1, demo_stat 711 5 2]))
     (operations_db.fields [] [] (Some [''r1'']))"

lemma demo_operations_tables:
  "engine_instances demo_operations_db = [demo_engine]" "etcd_nodes demo_operations_db = [demo_node 701 2, demo_node 702 6, demo_node 703 9000]"
  "system_metric_samples demo_operations_db = []" "api_endpoint_stats demo_operations_db = [demo_stat 710 7 1, demo_stat 711 5 2]"
  by (simp_all add: demo_operations_db_def operations_db.defs engine_db.defs compliance_db.defs)

theorem command_center_overview_correct_witness:
  "\<exists>r. run_request (get_command_center_overview demo_cfl 9 9) demo_operations_db = (Inr r, demo_operations_db)
     \<and> cco_engine r = build_identity demo_cfl 9 demo_engine \<and> ecs_has_quorum (cco_etcd_cluster r)"
proof -
  obtain r where r: "run_request (get_command_center_overview demo_cfl 9 9) demo_operations_db = (Inr r, demo_operations_db)"
    by (simp add: get_command_center_overview_def get_engine_instance_def latest_system_health_def build_api_rate_summary_def svc_simps Let_def
        demo_operations_tables demo_engine_def first_row_def)
  with command_center_overview_correct [OF r] show ?thesis
    by (simp add: demo_operations_tables Let_def) (simp add: demo_node_def demo_engine_def)
qed

theorem metrics_summary_counts_stale_samples_witness:
  "\<exists>rate summary. run_request (build_api_rate_summary demo_cfl 700) demo_operations_db = (Inr rate, demo_operations_db)
     \<and> run_request (get_metrics_summary demo_cfl) demo_operations_db = (Inr summary, demo_operations_db)
     \<and> ars_throttled rate = 5 \<and> mes_total_throttled summary = 12
     \<and> map eth_endpoint_path (mes_top_endpoints summary) = [''/ingest'', ''/ingest'']"
proof -
  have rows: "\<forall>s \<in> set (api_endpoint_stats demo_operations_db). aes_endpoint_path s = ''/ingest'' \<and> aes_engine_instance_id s = 700"
    "api_endpoint_stats demo_operations_db \<noteq> []" by (simp_all add: demo_operations_tables demo_stat_def)
  have counts: "(\<Sum>s\<leftarrow>api_endpoint_stats demo_operations_db. aes_throttled_count s) = 12"
    "set (api_endpoint_stats demo_operations_db) = {demo_stat 710 7 1, demo_stat 711 5 2}"
    "replicate (min 5 (length (api_endpoint_stats demo_operations_db))) ''/ingest'' = [''/ingest'', ''/ingest'']"
    by (simp_all add: demo_operations_tables) (simp_all add: demo_stat_def numeral_2_eq_2)
  show ?thesis
    using metrics_summary_counts_stale_samples [OF rows, of demo_cfl] unfolding counts
  proof (elim exE conjE)
    fix rate summary newest
    assume run: "run_request (build_api_rate_summary demo_cfl 700) demo_operations_db = (Inr rate, demo_operations_db)"
      "run_request (get_metrics_summary demo_cfl) demo_operations_db = (Inr summary, demo_operations_db)"
      and newest: "newest \<in> {demo_stat 710 7 1, demo_stat 711 5 2}"
        "\<forall>s \<in> {demo_stat 710 7 1, demo_stat 711 5 2}. aes_recorded_at s \<le> aes_recorded_at newest"
      and totals: "ars_throttled rate = aes_throttled_count newest" "mes_total_throttled summary = 12"
        "map eth_endpoint_path (mes_top_endpoints summary) = [''/ingest'', ''/ingest'']"
    from newest have "aes_throttled_count newest = 5" by (auto simp: demo_stat_def)
    with run totals show ?thesis by (intro exI [of _ rate] exI [of _ summary]) simp
  qed
qed

theorem readiness_probes_disagree_on_outage_witness:
  "fst (run_request (get_operational_readiness demo_cfl demo_settings 9 1 None (Some ''r1'') (\<lambda>_. False)) demo_operations_db)
     = Inl (DatabaseError ''statement failed'')
   \<and> fst (run_request (get_operational_readiness demo_cfl demo_settings 9 1 None (Some ''r1'') (\<lambda>_. False)) demo_operations_db)
     \<noteq> Inr \<lparr>opr_status = ''not_ready'', opr_checked_at = 9, opr_checks = []\<rparr>"
proof -
  have "aborted_law (\<lambda>_. False)" by (simp add: aborted_law_def)
  from readiness_probes_disagree_on_outage [OF this, where fl = demo_cfl and st = demo_settings and now = 9 and elapsed = 1
      and pool = None and head = "Some ''r1''" and d = demo_operations_db]
  show ?thesis by simp
qed

end
