(* ===== verification/Spec2Isabelle.thy ===== *)
theory Spec2Isabelle
  imports RbacProps OperationsProps
begin

text \<open>
  A verification development of the Nexus Engine backend, a FastAPI service over PostgreSQL
  that administers a multi-tenant event platform.

  \<^bold>\<open>The program.\<close> A request reaches an endpoint of \<^verbatim>\<open>src/app/api/v1/endpoints\<close>. The endpoint
  depends on \<^verbatim>\<open>get_db\<close> (\<^verbatim>\<open>src/app/db/session.py\<close>), which opens a database session and rolls it
  back when the request raises, and on \<^verbatim>\<open>get_current_user\<close> or \<^verbatim>\<open>require_admin\<close>
  (\<^verbatim>\<open>src/app/api/deps.py\<close>), which read the bearer token. It then calls a function of
  \<^verbatim>\<open>src/app/services\<close>, which queries and changes rows of the tables of \<^verbatim>\<open>src/app/models\<close>, commits,
  and answers with a schema of \<^verbatim>\<open>src/app/schemas\<close>. Services that change security-relevant state
  also append to the audit log, a hash chain of signed entries, in the same transaction.

  \<^bold>\<open>How it is modelled.\<close>
  \<^item> \<open>Prelude\<close>: identifiers, instants, the \<open>error\<close> values (every HTTP error, constraint
    violation and exception is one), tables as lists of rows, and the session. A service
    function is a \<open>svc\<close>: a state transformer on the committed and the pending database that
    returns an error or a value. \<open>run_request\<close> is \<^verbatim>\<open>get_db\<close>: it runs a \<open>svc\<close> on a new session
    and keeps only what was committed. The checks that a schema makes of a string and that the
    database makes of a text it stores (its width, no NUL) are here too. The locale \<open>table\<close> states what a table with a primary
    key promises.
  \<^item> \<open>PyStr\<close>, \<open>PyTime\<close>, \<open>Encoding\<close>, \<open>Json\<close>: the parts of the Python library whose results are
    hashed, compared or printed: \<^verbatim>\<open>str\<close> methods and \<^verbatim>\<open>repr\<close>, \<^verbatim>\<open>datetime.isoformat\<close>, hexadecimal
    and UTF-8 encodings, \<^verbatim>\<open>json.dumps\<close> with sorted keys, and the redaction of metadata. Their
    lemmas say that printing is injective on well-formed values.
  \<^item> \<open>Settings\<close> (\<^verbatim>\<open>core/config.py\<close>): the settings and the validators that refuse an unsafe
    production configuration.
  \<^item> \<open>Auth\<close> (\<^verbatim>\<open>models/user.py\<close>, \<^verbatim>\<open>core/security.py\<close>, \<^verbatim>\<open>services/auth_service.py\<close>,
    \<^verbatim>\<open>api/deps.py\<close>, \<^verbatim>\<open>endpoints/auth.py\<close>): login, access tokens, refresh tokens that are used once,
    password change and reset. The locale \<open>admin_endpoint\<close> is the contract of an endpoint that
    depends on \<^verbatim>\<open>require_admin\<close>; every such endpoint of the later theories interprets it.
  \<^item> \<open>Rbac\<close> (\<^verbatim>\<open>models/rbac.py\<close>, \<^verbatim>\<open>services/rbac_service.py\<close>, \<^verbatim>\<open>endpoints/rbac.py\<close>): accounts, roles,
    permissions and their links with the unique and foreign keys.
  \<^item> \<open>TenancyModels\<close>, \<open>Tenancy\<close> (\<^verbatim>\<open>models/tenancy.py\<close>, \<^verbatim>\<open>services/tenancy_service.py\<close>,
    \<^verbatim>\<open>endpoints/tenancy.py\<close>): tenants, their provisioning jobs, members, backups and alerts. Deleting a
    tenant goes through the foreign keys and the trigger of the migration that makes the audit log
    append-only.
  \<^item> \<open>AuditLog\<close> (\<^verbatim>\<open>models/audit.py\<close>, \<^verbatim>\<open>core/crypto.py\<close>, \<^verbatim>\<open>services/audit_service.py\<close>,
    \<^verbatim>\<open>endpoints/audit_log.py\<close>): appending an entry, verifying the chain, listing and exporting.
  \<^item> \<open>ConfigParams\<close>, \<open>ConfigVersions\<close> (\<^verbatim>\<open>models/config.py\<close>, \<^verbatim>\<open>services/config_service.py\<close>,
    \<^verbatim>\<open>endpoints/config_manager.py\<close>): parameters with staged values, and versioned documents.
  \<^item> \<open>Transactions\<close>, \<open>Outcomes\<close>: two calculi for services. \<open>publishes\<close> computes what a request can
    commit, \<open>ends\<close> its result and its session; both go through the statements of a service with
    simplification rules. \<open>RbacProps\<close> uses \<open>ends\<close> to determine the answers of the requests of \<open>Rbac\<close>.
  \<^item> \<open>HsmModels\<close>, \<open>Hsm\<close>, \<open>HsmLifecycle\<close>, \<open>HsmProps\<close> (\<^verbatim>\<open>models/hsm.py\<close>, \<^verbatim>\<open>services/hsm_service.py\<close>,
    \<^verbatim>\<open>endpoints/hsm.py\<close>): master keys, custodian ceremonies, rotation, attestation, the posture
    summary and the health report. \<open>HsmLifecycle\<close> states an abstract machine of keys and
    ceremonies and proves that every request refines it.
  \<^item> \<open>AnomalyModels\<close>, \<open>Anomaly\<close>, \<open>AnomalyProps\<close> (\<^verbatim>\<open>models/anomaly.py\<close>, \<^verbatim>\<open>services/anomaly_service.py\<close>,
    \<^verbatim>\<open>endpoints/anomalies.py\<close>): anomaly events, their status changes alone and in bulk, the history that is
    reconstructed from the audit log, and the aggregates of the detection screen.
  \<^item> \<open>Notifications\<close> (\<^verbatim>\<open>models/notification.py\<close>, \<^verbatim>\<open>services/notification_service.py\<close>,
    \<^verbatim>\<open>endpoints/notifications.py\<close>): the notifications of a user and the alert rules of the administrators.
  \<^item> \<open>ComplianceModels\<close>, \<open>Compliance\<close> (\<^verbatim>\<open>models/compliance.py\<close>, \<^verbatim>\<open>services/compliance_service.py\<close>,
    \<^verbatim>\<open>endpoints/compliance.py\<close>): frameworks, control mappings and their coverage, violations, assessments and
    score trends. \<open>ServiceProps\<close> holds what these two components promise.
  \<^item> \<open>Dashboard\<close>, \<open>DashboardProps\<close> (\<^verbatim>\<open>services/dashboard_service.py\<close>, \<^verbatim>\<open>endpoints/dashboard.py\<close>): the aggregates of
    the dashboard, which read the tables of the other components and call the services of two of them.
  \<^item> \<open>Engine\<close>, \<open>Operations\<close>, \<open>OperationsProps\<close> (\<^verbatim>\<open>models/engine.py\<close>, \<^verbatim>\<open>services/engine_service.py\<close>,
    \<^verbatim>\<open>endpoints/engine.py\<close>, \<^verbatim>\<open>models/operations.py\<close>, \<^verbatim>\<open>services/operations_service.py\<close>, \<^verbatim>\<open>endpoints/operations.py\<close>,
    \<^verbatim>\<open>endpoints/system.py\<close>, \<^verbatim>\<open>main.py\<close>): the engine node with its etcd cluster and telemetry, the metrics, errors and
    jobs, and the probes. In the probes a statement may fail in the middle of a request.

  The database is one record per theory that extends that of the theory it imports
  (\<open>auth_db\<close>, \<open>rbac_db\<close>, \<open>tenancy_db\<close>, \<open>audit_db\<close>, \<open>config_db\<close>, \<open>hsm_db\<close>, \<open>anomaly_db\<close>, \<open>notify_db\<close>,
  \<open>compliance_db\<close>, \<open>engine_db\<close>, \<open>operations_db\<close>); the operations are polymorphic in
  the rest, so that a theorem on one component holds on the database of all of them.

  \<^bold>\<open>What the theorems show.\<close>
  \<^item> Audit log: an append keeps a verified chain verified; what verification reports is exactly
    the rows whose hash, signature or link is wrong; two histories with one root hash are equal
    unless SHA-256 collides; where tampering, deletion and truncation show; that concurrent
    appends fork the chain; redaction, paging and the bound of the export.
  \<^item> Accounts: refresh and reset tokens are redeemed at most once, a password change ends the
    sessions, login credentials work, asking for a reset reveals nothing, every request on
    accounts, roles and permissions keeps their integrity, answers with a
    value or an HTTP error and never with one of the database, and admin endpoints
    refuse everyone else.
  \<^item> Tenancy: every request keeps the tables consistent, provisioning ends with an active tenant
    after one step per stage, the two views of backup health agree, memberships are unique, and
    a tenant the audit log names cannot be deleted.
  \<^item> Configuration: applying staged parameters is all or nothing with one audit entry each,
    sensitive values stay out of the log and out of the reads of versioned documents (and where
    they do not), at most one version of a name is active whatever the sequence of requests,
    and a rollback only adds to the history.
  \<^item> Keys: the requests refine the machine of keys and ceremonies, a key becomes active by a
    quorum of custodians or a rotation only, a rotation hands the key over or does nothing, the
    chain of successors ends; where a disabled key comes back and where the summary misses
    expiring keys.
  \<^item> Anomalies: the reconstructed history is the life cycle of the event as long as the service alone
    writes entries of its type, and how any logged-in user can forge it; status changes, alone and in
    bulk, are all or nothing and change nothing else.
  \<^item> Notifications and compliance: the rows stay well typed whatever the requests, a user reaches the
    own notifications only, a null in a patch is a server error; a completed assessment is final and its
    score is the weighted coverage in percent.
  \<^item> Aggregates and probes: the screens that count open anomalies agree, the dashboard calls broken entries
    valid, the overview shows the oldest operational engine with its newest samples and a quorum is a
    majority; where the two summaries of the traffic and the two readiness probes differ.

  \<^bold>\<open>Parameters and conventions.\<close> Third-party code is a field of the records \<open>platform\<close> and
  \<open>audit_platform\<close>: bcrypt, SHA-256, JWT, ECDSA, the conversion of strings to database
  enumerations; \<open>floats\<close>, \<open>hsm_floats\<close>, \<open>anomaly_floats\<close> and \<open>compliance_floats\<close> hold the float operations, \<open>key_first\<close> is the order in which
  a flush inserts a key and its operation, \<open>reachable\<close> whether the database answers a probe and \<open>answers\<close> which statements it answers, \<open>int_eq_float\<close> compares
  an integer with a double, \<open>unlink\<close> is what the foreign keys of tables of other components do
  on a deletion. The laws a theorem needs of them are its hypotheses (\<open>bcrypt_law\<close>, \<open>jwt_law\<close>,
  \<open>ec_law\<close>, \<open>unlink_law\<close>, \<open>config_enum_law\<close>, \<open>history_law\<close>, \<open>percent_law\<close>,
  \<open>aborted_law\<close>), each met by a concrete instance in a witness. Clock
  readings, new identifiers and random bytes are arguments. A string is a list of code points
  below 256, ordered by code point (the em dash of one message is 0x97); instants lie before the
  year 10000. Sessions have \<^verbatim>\<open>autoflush=False\<close>: a query sees what was
  flushed. Requests are serial unless a theorem interleaves them. Every function is total: the
  loops of the sources run over lists, so no fuel is needed.

  \<^bold>\<open>Not modelled.\<close> The start-up of the process (the routers and the middleware of \<^verbatim>\<open>main.py\<close> and
  \<^verbatim>\<open>api/v1/api.py\<close>, the database engine and its pool), the migrations and the seed script carry no logic
  beyond wiring and literal data; the constraints the migrations create are those of the table
  operations. HTTP parsing and serialisation belong to FastAPI; the validation of a request body is the
  \<open>valid_\<close> predicate of its schema. Reading and creating the key file of \<^verbatim>\<open>core/crypto.py\<close> is input and output.
\<close>

end
